(* ===== verification/GoPrelude.thy ===== *)
theory GoPrelude
  imports Main "HOL-Library.Word" "HOL-Library.AList" "HOL-Library.List_Lexorder"
    "HOL-Library.Char_ord" "HOL-Library.Sublist" "HOL-Library.Multiset"
    "HOL-Library.Product_Lexorder"
begin

text \<open>
  The fragment of Go and of its standard library that the modelled packages use.

  Strings are byte lists (\<^typ>\<open>string\<close>), ordered bytewise as Go's \<open><\<close> orders them.
  A \<open>time.Time\<close> is the number of nanoseconds since Go's zero time, so the zero time is 0;
  a \<open>time.Duration\<close> is a number of nanoseconds kept in 64 bits (\<open>wrap64\<close>).
  A Go map is an association list with distinct keys (\<open>mput\<close>, \<open>mdel\<close>, lookup by
  \<^const>\<open>map_of\<close>); a nil map and an empty map are the same list, and where the code
  tells them apart the model uses an option. An \<open>any\<close> value is a \<open>gval\<close>.
  \<open>sort.Slice\<close> is \<open>sort_slice\<close>, the stable sort: Go promises only some sorted
  permutation (it is the stable one up to twelve elements), so the properties speak of the
  order by key and of the multiset of elements, never of the order among equal keys.
\<close>

named_theorems go_defs \<open>unfolding of the small Go helpers\<close>
named_theorems map_laws \<open>lookups after a map operation\<close>
named_theorems sort_laws \<open>what survives sorting\<close>

section \<open>Times, durations and 64-bit integers\<close>

type_synonym gotime = int
type_synonym duration = int

definition zero_time :: gotime where
  [go_defs]: "zero_time = 0"

definition is_zero_time :: "gotime \<Rightarrow> bool" where
  [go_defs]: "is_zero_time t \<longleftrightarrow> t = 0"

text \<open>\<open>if t.IsZero() { t = now }\<close>.\<close>

definition or_now :: "gotime \<Rightarrow> gotime \<Rightarrow> gotime" where
  "or_now now t = (if is_zero_time t then now else t)"

definition wrap64 :: "int \<Rightarrow> int" where
  "wrap64 x = (x + 2 ^ 63) mod 2 ^ 64 - 2 ^ 63"

definition second :: duration where
  [go_defs]: "second = 1000000000"

definition seconds :: "int \<Rightarrow> duration" where
  "seconds n = wrap64 (n * second)"

lemma wrap64_id: "- (2 ^ 63) \<le> x \<Longrightarrow> x < 2 ^ 63 \<Longrightarrow> wrap64 x = x"
  by (simp add: wrap64_def)

lemma wrap64_bounds: "- (2 ^ 63) \<le> wrap64 x" "wrap64 x < 2 ^ 63"
proof -
  have "0 \<le> (x + 2 ^ 63) mod 2 ^ 64" by (rule pos_mod_sign) simp
  moreover have "(x + 2 ^ 63) mod 2 ^ 64 < 2 ^ 64" by (rule pos_mod_bound) simp
  ultimately show "- (2 ^ 63) \<le> wrap64 x" "wrap64 x < 2 ^ 63"
    by (simp_all add: wrap64_def)
qed

text \<open>The written-out wrap is the two's complement reading of the 64-bit word.\<close>

lemma wrap64_word: "wrap64 x = sint (word_of_int x :: 64 word)"
  by (simp add: wrap64_def sint_sbintrunc' signed_take_bit_eq_take_bit_shift take_bit_eq_mod)

lemma seconds_small: "0 \<le> n \<Longrightarrow> n \<le> 9223372036 \<Longrightarrow> seconds n = n * 1000000000"
  by (simp add: seconds_def second_def wrap64_id)

section \<open>Byte strings\<close>

abbreviation byte_of :: "char \<Rightarrow> nat" where
  "byte_of c \<equiv> of_char c"

text \<open>
  \<open>strings.TrimSpace\<close> on UTF-8: the white space runes take one, two or three bytes.
  \<open>space_len\<close> is the length of the white space rune a string starts with (0 if none),
  \<open>space_len_rev\<close> the same at the end, on the reversed bytes.
\<close>

definition space1 :: "char \<Rightarrow> bool" where
  "space1 c \<longleftrightarrow> byte_of c = 32 \<or> 9 \<le> byte_of c \<and> byte_of c \<le> 13"

definition space2 :: "char \<Rightarrow> char \<Rightarrow> bool" where
  "space2 a b \<longleftrightarrow> byte_of a = 194 \<and> (byte_of b = 133 \<or> byte_of b = 160)"

definition space3 :: "char \<Rightarrow> char \<Rightarrow> char \<Rightarrow> bool" where
  "space3 a b c \<longleftrightarrow>
     byte_of a = 225 \<and> byte_of b = 154 \<and> byte_of c = 128
   \<or> byte_of a = 226 \<and> byte_of b = 128
       \<and> (128 \<le> byte_of c \<and> byte_of c \<le> 138 \<or> byte_of c = 168 \<or> byte_of c = 169 \<or> byte_of c = 175)
   \<or> byte_of a = 226 \<and> byte_of b = 129 \<and> byte_of c = 159
   \<or> byte_of a = 227 \<and> byte_of b = 128 \<and> byte_of c = 128"

fun space_len :: "string \<Rightarrow> nat" where
  "space_len [] = 0"
| "space_len (a # r) =
     (if space1 a then 1 else if byte_of a < 128 then 0
      else case r of [] \<Rightarrow> 0
        | b # r' \<Rightarrow> if space2 a b then 2
            else (case r' of [] \<Rightarrow> 0 | c # _ \<Rightarrow> if space3 a b c then 3 else 0))"

fun space_len_rev :: "string \<Rightarrow> nat" where
  "space_len_rev [] = 0"
| "space_len_rev (c # r) =
     (if space1 c then 1 else if byte_of c < 128 then 0
      else case r of [] \<Rightarrow> 0
        | b # r' \<Rightarrow> if space2 b c then 2
            else (case r' of [] \<Rightarrow> 0 | a # _ \<Rightarrow> if space3 a b c then 3 else 0))"

lemma space_len_Nil: "space_len s \<noteq> 0 \<Longrightarrow> s \<noteq> []" "space_len_rev s \<noteq> 0 \<Longrightarrow> s \<noteq> []"
  by (cases s; simp)+

function strip :: "(string \<Rightarrow> nat) \<Rightarrow> string \<Rightarrow> string" where
  "strip f s = (if f s = 0 \<or> s = [] then s else strip f (drop (f s) s))"
  by pat_completeness auto
termination by (relation "measure (\<lambda>(f, s). length s)") auto

declare strip.simps [simp del]

definition trim_left :: "string \<Rightarrow> string" where
  "trim_left s = strip space_len s"

definition trim_right :: "string \<Rightarrow> string" where
  "trim_right s = rev (strip space_len_rev (rev s))"

definition trim_space :: "string \<Rightarrow> string" where
  "trim_space s = trim_right (trim_left s)"

lemma strip_id: "f s = 0 \<Longrightarrow> strip f s = s"
  by (subst strip.simps) simp

lemma strip_suffix: "\<exists>p. s = p @ strip f s"
proof (induction f s rule: strip.induct)
  case (1 f s)
  show ?case
  proof (cases "f s = 0 \<or> s = []")
    case True
    then have "strip f s = s" by (subst strip.simps) simp
    then show ?thesis by auto
  next
    case False
    then have eq: "strip f s = strip f (drop (f s) s)" by (subst strip.simps) simp
    from "1.IH"[OF False] obtain p where "drop (f s) s = p @ strip f (drop (f s) s)" by blast
    then have "s = (take (f s) s @ p) @ strip f s"
      using eq by (metis append.assoc append_take_drop_id)
    then show ?thesis by blast
  qed
qed

lemma strip_done: "f [] = 0 \<Longrightarrow> f (strip f s) = 0"
proof (induction f s rule: strip.induct)
  case (1 f s)
  then show ?case by (cases "f s = 0 \<or> s = []") (auto simp: strip.simps [of f s])
qed

lemma space_len_append: "space_len (xs @ ys) = 0 \<Longrightarrow> space_len xs = 0"
  by (cases xs rule: space_len.cases)
    (auto split: list.splits if_splits simp: Cons_eq_append_conv append_eq_Cons_conv)

lemma space_len_trim_left: "space_len (trim_left s) = 0"
  by (simp add: trim_left_def strip_done)

lemma trim_right_prefix: "\<exists>p. s = trim_right s @ p"
proof -
  obtain p where "rev s = p @ strip space_len_rev (rev s)" using strip_suffix by blast
  then have "s = rev (p @ strip space_len_rev (rev s))" by (metis rev_rev_ident)
  then show ?thesis by (auto simp: trim_right_def)
qed

lemma space_len_trim_right: "space_len s = 0 \<Longrightarrow> space_len (trim_right s) = 0"
  using trim_right_prefix [of s] by (metis space_len_append)

lemma trim_right_done: "space_len_rev (rev (trim_right s)) = 0"
  by (simp add: trim_right_def strip_done)

lemma trim_left_id: "space_len s = 0 \<Longrightarrow> trim_left s = s"
  by (simp add: trim_left_def strip_id)

lemma trim_right_id: "space_len_rev (rev s) = 0 \<Longrightarrow> trim_right s = s"
  by (simp add: trim_right_def strip_id)

lemma trim_space_id: "space_len s = 0 \<Longrightarrow> space_len_rev (rev s) = 0 \<Longrightarrow> trim_space s = s"
  by (simp add: trim_space_def trim_left_id trim_right_id)

lemma trim_space_idem [simp]: "trim_space (trim_space s) = trim_space s"
  by (rule trim_space_id)
    (simp_all add: trim_space_def space_len_trim_right space_len_trim_left trim_right_done)

lemma trim_space_Nil [simp]: "trim_space [] = []"
  by (simp add: trim_space_id)

text \<open>Evaluating a trim on a literal: a string that starts and ends with visible ASCII.\<close>

definition visible :: "char \<Rightarrow> bool" where
  "visible c \<longleftrightarrow> 32 < byte_of c \<and> byte_of c < 128"

lemma visible_space_len: "visible c \<Longrightarrow> space_len (c # s) = 0"
  and visible_space_len_rev: "visible c \<Longrightarrow> space_len_rev (c # s) = 0"
  by (auto simp: visible_def space1_def)

lemma trim_space_visible:
  "s \<noteq> [] \<Longrightarrow> visible (hd s) \<Longrightarrow> visible (last s) \<Longrightarrow> trim_space s = s"
proof (rule trim_space_id)
  assume s: "s \<noteq> []" "visible (hd s)" "visible (last s)"
  then show "space_len s = 0" by (cases s) (auto simp del: space_len.simps simp: visible_space_len)
  from s show "space_len_rev (rev s) = 0"
    by (cases s rule: rev_cases) (auto simp del: space_len_rev.simps simp: visible_space_len_rev)
qed

definition first_non_empty :: "string list \<Rightarrow> string" where
  "first_non_empty vs = (case filter (\<lambda>v. trim_space v \<noteq> []) vs of [] \<Rightarrow> [] | v # _ \<Rightarrow> trim_space v)"

lemma first_non_empty_trimmed: "trim_space (first_non_empty vs) = first_non_empty vs"
  by (simp add: first_non_empty_def split: list.split)

fun join :: "string \<Rightarrow> string list \<Rightarrow> string" where
  "join sep [] = []"
| "join sep [x] = x"
| "join sep (x # y # zs) = x @ sep @ join sep (y # zs)"

text \<open>\<open>strings.ToLower\<close> on ASCII letters; other bytes are kept.\<close>

definition lower_char :: "char \<Rightarrow> char" where
  "lower_char c = (if 65 \<le> byte_of c \<and> byte_of c \<le> 90 then char_of (byte_of c + 32) else c)"

definition to_lower :: "string \<Rightarrow> string" where
  "to_lower s = map lower_char s"

text \<open>\<open>strings.EqualFold\<close>, on ASCII letters as well, and \<open>strings.Contains(s, sub)\<close>.\<close>

definition equal_fold :: "string \<Rightarrow> string \<Rightarrow> bool" where
  [go_defs]: "equal_fold s t \<longleftrightarrow> to_lower s = to_lower t"

fun has_substring :: "string \<Rightarrow> string \<Rightarrow> bool" where
  "has_substring [] sub \<longleftrightarrow> sub = []"
| "has_substring (c # s) sub \<longleftrightarrow> prefix sub (c # s) \<or> has_substring s sub"

text \<open>\<open>strings.TrimPrefix(s, pfx)\<close>.\<close>

definition trim_prefix :: "string \<Rightarrow> string \<Rightarrow> string" where
  "trim_prefix pfx s = (if prefix pfx s then drop (length pfx) s else s)"

definition has_suffix :: "string \<Rightarrow> string \<Rightarrow> bool" where
  [go_defs]: "has_suffix s t \<longleftrightarrow> suffix t s"

text \<open>\<open>strings.Split\<close> at a one-byte separator.\<close>

fun split_char :: "char \<Rightarrow> string \<Rightarrow> string list" where
  "split_char c [] = [[]]"
| "split_char c (x # xs) =
     (if x = c then [] # split_char c xs
      else (case split_char c xs of [] \<Rightarrow> [[x]] | p # ps \<Rightarrow> (x # p) # ps))"

lemma split_char_nonempty: "split_char c t \<noteq> []"
  by (induction t) (auto split: list.split)

lemma split_char_single: "split_char c t = [a] \<Longrightarrow> t = a \<and> c \<notin> set a"
proof (induction t arbitrary: a)
  case (Cons x t)
  then show ?case using split_char_nonempty [of c t]
    by (cases "split_char c t") (auto split: if_splits)
qed auto

lemma split_char_pair: "split_char c t = [a, b] \<Longrightarrow> t = a @ c # b \<and> c \<notin> set a \<and> c \<notin> set b"
proof (induction t arbitrary: a)
  case (Cons x t)
  show ?case
  proof (cases "x = c")
    case True
    then have "split_char c t = [b]" "a = []" using Cons.prems by simp_all
    with True show ?thesis using split_char_single by simp
  next
    case False
    then obtain p where "split_char c t = [p, b]" "a = x # p"
      using Cons.prems split_char_nonempty [of c t] by (auto split: list.splits)
    with Cons.IH [of p] False show ?thesis by auto
  qed
qed simp

text \<open>Decimal printing (\<open>%d\<close>).\<close>

fun show_nat :: "nat \<Rightarrow> string" where
  "show_nat n = (if n < 10 then [char_of (48 + n)] else show_nat (n div 10) @ [char_of (48 + n mod 10)])"

declare show_nat.simps [simp del]

definition show_int :: "int \<Rightarrow> string" where
  "show_int i = (if i < 0 then CHR ''-'' # show_nat (nat (- i)) else show_nat (nat i))"

text \<open>\<open>strconv.Atoi\<close>: an optional sign and decimal digits, within 64 bits.\<close>

definition is_digit :: "char \<Rightarrow> bool" where
  "is_digit c \<longleftrightarrow> 48 \<le> byte_of c \<and> byte_of c \<le> 57"

definition digits_value :: "string \<Rightarrow> int" where
  "digits_value s = foldl (\<lambda>n c. n * 10 + (int (byte_of c) - 48)) 0 s"

definition atoi :: "string \<Rightarrow> int option" where
  "atoi s =
     (let (neg, ds) = (case s of [] \<Rightarrow> (False, []) | c # cs \<Rightarrow> if c = CHR ''-'' then (True, cs) else if c = CHR ''+'' then (False, cs) else (False, s));
          n = (if neg then - digits_value ds else digits_value ds)
      in if ds = [] \<or> \<not> list_all is_digit ds \<or> n < - (2 ^ 63) \<or> 2 ^ 63 \<le> n then None else Some n)"

text \<open>\<open>n, _ := strconv.Atoi(s)\<close>: a number out of range reads as the nearest bound, other text as 0.\<close>

definition atoi_value :: "string \<Rightarrow> int" where
  "atoi_value s =
     (let (neg, ds) = (case s of [] \<Rightarrow> (False, []) | c # cs \<Rightarrow> if c = CHR ''-'' then (True, cs) else if c = CHR ''+'' then (False, cs) else (False, s))
      in if ds = [] \<or> \<not> list_all is_digit ds then 0
         else if neg then max (- digits_value ds) (- (2 ^ 63)) else min (digits_value ds) (2 ^ 63 - 1))"

lemma digits_value_snoc: "digits_value (s @ [c]) = digits_value s * 10 + (int (byte_of c) - 48)"
  by (simp add: digits_value_def)

lemma show_nat_digits: "show_nat n \<noteq> [] \<and> list_all is_digit (show_nat n) \<and> digits_value (show_nat n) = int n"
proof (induction n rule: show_nat.induct)
  case (1 n)
  have digit: "is_digit (char_of (48 + k))" "int (byte_of (char_of (48 + k) :: char)) - 48 = int k" if "k < 10" for k :: nat
    using that by (simp_all add: is_digit_def)
  show ?case
  proof (cases "n < 10")
    case True
    then show ?thesis using digit [of n] by (simp add: show_nat.simps [of n] digits_value_def)
  next
    case False
    then have "show_nat n = show_nat (n div 10) @ [char_of (48 + n mod 10)]" by (simp add: show_nat.simps [of n])
    moreover have "int (n div 10) * 10 + int (n mod 10) = int n" by (metis div_mult_mod_eq of_nat_add of_nat_mult of_nat_numeral)
    ultimately show ?thesis using 1 [OF False] digit [of "n mod 10"] by (simp add: digits_value_snoc)
  qed
qed

lemma atoi_show_nat: "int n < 2 ^ 63 \<Longrightarrow> atoi (show_nat n) = Some (int n)"
proof -
  assume n: "int n < 2 ^ 63"
  note d = show_nat_digits [of n]
  then obtain c cs where s: "show_nat n = c # cs" by (cases "show_nat n") auto
  with d have "is_digit c" by simp
  then have "c \<noteq> CHR ''-''" "c \<noteq> CHR ''+''" by (auto simp: is_digit_def)
  with s n d show ?thesis by (simp add: atoi_def)
qed

lemma show_nat_free: "\<not> is_digit c \<Longrightarrow> c \<notin> set (show_nat n)"
  using show_nat_digits [of n] by (auto simp: list_all_iff)

lemma digit_visible: "is_digit c \<Longrightarrow> visible c"
  by (simp add: is_digit_def visible_def)

lemma split_char_append: "c \<notin> set xs \<Longrightarrow> split_char c (xs @ c # ys) = xs # split_char c ys"
  by (induction xs) auto

lemma split_char_free: "c \<notin> set xs \<Longrightarrow> split_char c xs = [xs]"
  by (induction xs) auto

text \<open>\<open>%q\<close> (\<open>strconv.Quote\<close>); bytes above ASCII are kept, as printable UTF-8 is.\<close>

definition hex_digit :: "nat \<Rightarrow> char" where
  "hex_digit n = ''0123456789abcdef'' ! n"

definition quote_char :: "char \<Rightarrow> string" where
  "quote_char c =
     (let n = byte_of c; esc = (\<lambda>x. [CHR 0x5C, x]) in
      if n = 34 \<or> n = 92 then esc c
      else if 32 \<le> n \<and> n < 127 \<or> 128 \<le> n then [c]
      else if n = 7 then esc (CHR ''a'') else if n = 8 then esc (CHR ''b'')
      else if n = 12 then esc (CHR ''f'') else if n = 10 then esc (CHR ''n'')
      else if n = 13 then esc (CHR ''r'') else if n = 9 then esc (CHR ''t'')
      else if n = 11 then esc (CHR ''v'')
      else [CHR 0x5C, CHR ''x'', hex_digit (n div 16), hex_digit (n mod 16)])"

definition quote :: "string \<Rightarrow> string" where
  "quote s = [CHR 0x22] @ concat (map quote_char s) @ [CHR 0x22]"

section \<open>Go maps\<close>

type_synonym ('k, 'v) gomap = "('k \<times> 'v) list"

definition mput :: "'k \<Rightarrow> 'v \<Rightarrow> ('k, 'v) gomap \<Rightarrow> ('k, 'v) gomap" where
  "mput = AList.update"

definition mdel :: "'k \<Rightarrow> ('k, 'v) gomap \<Rightarrow> ('k, 'v) gomap" where
  "mdel = AList.delete"

definition mkeys :: "('k, 'v) gomap \<Rightarrow> 'k list" where
  "mkeys m = map fst m"

definition wf_map :: "('k, 'v) gomap \<Rightarrow> bool" where
  "wf_map m \<longleftrightarrow> distinct (map fst m)"

text \<open>\<open>m[k]\<close> on a missing key is the zero value of the element type.\<close>

definition mget :: "'v \<Rightarrow> ('k, 'v) gomap \<Rightarrow> 'k \<Rightarrow> 'v" where
  "mget z m k = (case map_of m k of None \<Rightarrow> z | Some v \<Rightarrow> v)"

lemma map_of_mput [simp, map_laws]: "map_of (mput k v m) = (map_of m)(k \<mapsto> v)"
  by (simp add: mput_def update_conv')

lemma map_of_mdel [simp, map_laws]: "map_of (mdel k m) = (map_of m)(k := None)"
  by (simp add: mdel_def delete_conv')

lemma mget_mput [simp, map_laws]: "mget z (mput k v m) k' = (if k' = k then v else mget z m k')"
  and mget_mdel [simp, map_laws]: "mget z (mdel k m) k' = (if k' = k then z else mget z m k')"
  and mget_Nil [simp]: "mget z [] k' = z"
  and mget_Cons [simp]: "mget z ((k, v) # m) k' = (if k' = k then v else mget z m k')"
  by (simp_all add: mget_def)

lemma wf_mput [simp, intro]: "wf_map m \<Longrightarrow> wf_map (mput k v m)"
  by (simp add: wf_map_def mput_def distinct_update)

lemma wf_mdel [simp, intro]: "wf_map m \<Longrightarrow> wf_map (mdel k m)"
  by (simp add: wf_map_def mdel_def distinct_delete)

lemma wf_map_Nil [simp]: "wf_map []"
  by (simp add: wf_map_def)

lemma mput_Nil [simp]: "mput k v [] = [(k, v)]"
  by (simp add: mput_def)

lemma mput_Cons [simp]: "mput k v ((k', v') # m) = (if k' = k then (k, v) # m else (k', v') # mput k v m)"
  by (simp add: mput_def)

lemma mdel_Nil [simp]: "mdel k [] = []"
  by (simp add: mdel_def)

lemma mdel_Cons [simp]: "mdel k ((k', v') # m) = (if k' = k then mdel k m else (k', v') # mdel k m)"
  by (simp add: mdel_def)

lemma dom_map_of_mkeys: "dom (map_of m) = set (mkeys m)"
  by (simp add: mkeys_def dom_map_of_conv_image_fst)

lemma map_of_entry: "wf_map m \<Longrightarrow> (k, v) \<in> set m \<longleftrightarrow> map_of m k = Some v"
  by (auto simp: wf_map_def intro: map_of_SomeD)

lemma map_of_keys_iff: "k \<in> set (mkeys m) \<longleftrightarrow> map_of m k \<noteq> None"
  by (metis dom_map_of_mkeys domIff)

text \<open>
  The interface the repositories rely on: a store that holds values under a key computed from
  the value. \<open>keyed m\<close> (every value sits under its own key) is what every repository keeps.
\<close>

locale keyed_store =
  fixes empty :: "'m" and lookup :: "'m \<Rightarrow> 'k \<Rightarrow> 'v option"
    and insert_at :: "'k \<Rightarrow> 'v \<Rightarrow> 'm \<Rightarrow> 'm" and remove_at :: "'k \<Rightarrow> 'm \<Rightarrow> 'm"
  assumes lookup_empty: "lookup empty = Map.empty"
    and lookup_insert: "lookup (insert_at k v m) = (lookup m)(k \<mapsto> v)"
    and lookup_remove: "lookup (remove_at k m) = (lookup m)(k := None)"
begin

definition keyed :: "('v \<Rightarrow> 'k) \<Rightarrow> 'm \<Rightarrow> bool" where
  "keyed key m \<longleftrightarrow> (\<forall>k v. lookup m k = Some v \<longrightarrow> key v = k)"

lemma keyedD: "keyed key m \<Longrightarrow> lookup m k = Some v \<Longrightarrow> key v = k"
  by (simp add: keyed_def)

lemma keyed_empty: "keyed key empty"
  by (simp add: keyed_def lookup_empty)

lemma keyed_insert: "keyed key m \<Longrightarrow> key v = k \<Longrightarrow> keyed key (insert_at k v m)"
  by (simp add: keyed_def lookup_insert)

lemma keyed_remove: "keyed key m \<Longrightarrow> keyed key (remove_at k m)"
  by (simp add: keyed_def lookup_remove)

lemma keyed_fold_insert:
  "keyed key m \<Longrightarrow> keyed key (fold (\<lambda>v. insert_at (key v) v) vs m)"
  by (induction vs arbitrary: m) (auto intro: keyed_insert)

lemma lookup_insert_same: "lookup (insert_at k v m) k = Some v"
  by (simp add: lookup_insert)

lemma lookup_insert_other: "k \<noteq> k' \<Longrightarrow> lookup (insert_at k v m) k' = lookup m k'"
  by (simp add: lookup_insert)

lemma dom_insert: "dom (lookup (insert_at k v m)) = insert k (dom (lookup m))"
  by (simp add: lookup_insert)

end

interpretation gm: keyed_store "[]" map_of mput mdel
  by unfold_locales auto

section \<open>Sorting\<close>

definition sort_slice :: "('a \<Rightarrow> 'b::linorder) \<Rightarrow> 'a list \<Rightarrow> 'a list" where
  "sort_slice key xs = sort_key key xs"

lemma mset_sort_slice [simp, sort_laws]: "mset (sort_slice key xs) = mset xs"
  and set_sort_slice [simp, sort_laws]: "set (sort_slice key xs) = set xs"
  and length_sort_slice [simp, sort_laws]: "length (sort_slice key xs) = length xs"
  and sorted_sort_slice [simp, sort_laws]: "sorted (map key (sort_slice key xs))"
  by (simp_all add: sort_slice_def)

lemma filter_sort_slice [sort_laws]: "filter P (sort_slice key xs) = sort_slice key (filter P xs)"
  by (simp add: sort_slice_def filter_sort)

text \<open>Sorting with the comparison reversed, and the slice \<open>xs[lo:hi]\<close>, which panics out of bounds.\<close>

definition sort_slice_desc :: "('a \<Rightarrow> 'b::linorder) \<Rightarrow> 'a list \<Rightarrow> 'a list" where
  "sort_slice_desc key xs = rev (sort_slice key (rev xs))"

lemma mset_sort_slice_desc [simp, sort_laws]: "mset (sort_slice_desc key xs) = mset xs"
  and set_sort_slice_desc [simp, sort_laws]: "set (sort_slice_desc key xs) = set xs"
  and length_sort_slice_desc [simp, sort_laws]: "length (sort_slice_desc key xs) = length xs"
  by (simp_all add: sort_slice_desc_def)

definition slice_of :: "'a list \<Rightarrow> int \<Rightarrow> int \<Rightarrow> 'a list option" where
  "slice_of xs lo hi =
     (if 0 \<le> lo \<and> lo \<le> hi \<and> hi \<le> int (length xs) then Some (take (nat (hi - lo)) (drop (nat lo) xs)) else None)"

section \<open>Slices updated in place\<close>

text \<open>\<open>for i := range xs { if P(xs[i]) { xs[i] = f(xs[i]); return } }\<close>; \<^const>\<open>None\<close> if no element matches.\<close>

fun update_first :: "('a \<Rightarrow> bool) \<Rightarrow> ('a \<Rightarrow> 'a) \<Rightarrow> 'a list \<Rightarrow> 'a list option" where
  "update_first P f [] = None"
| "update_first P f (x # xs) =
     (if P x then Some (f x # xs) else map_option ((#) x) (update_first P f xs))"

lemma update_first_None: "update_first P f xs = None \<longleftrightarrow> (\<forall>x \<in> set xs. \<not> P x)"
  by (induction xs) auto

lemma update_first_split:
  "update_first P f xs = Some ys \<Longrightarrow>
     \<exists>us x vs. xs = us @ x # vs \<and> (\<forall>u \<in> set us. \<not> P u) \<and> P x \<and> ys = us @ f x # vs"
proof (induction xs arbitrary: ys)
  case (Cons x xs)
  show ?case
  proof (cases "P x")
    case True
    then show ?thesis using Cons.prems by (intro exI [of _ "[]"]) auto
  next
    case False
    with Cons.prems obtain zs where zs: "update_first P f xs = Some zs" "ys = x # zs" by auto
    from Cons.IH [OF zs(1)] obtain us y vs where
      "xs = us @ y # vs" "\<forall>u \<in> set us. \<not> P u" "P y" "zs = us @ f y # vs" by blast
    with False zs(2) show ?thesis by (intro exI [of _ "x # us"]) auto
  qed
qed simp

lemma update_first_map:
  "update_first P f xs = Some ys \<Longrightarrow> (\<And>x. P x \<Longrightarrow> g (f x) = g x) \<Longrightarrow> map g ys = map g xs"
  by (induction xs arbitrary: ys) (auto split: if_splits)

text \<open>Where at most one element matches, the first match is every match.\<close>

lemma update_first_unique:
  "distinct (map key xs) \<Longrightarrow> update_first (\<lambda>x. key x = k) f xs = Some ys \<Longrightarrow>
     ys = map (\<lambda>x. if key x = k then f x else x) xs"
proof (induction xs arbitrary: ys)
  case (Cons x xs)
  show ?case
  proof (cases "key x = k")
    case True
    with Cons.prems(1) have "\<forall>y \<in> set xs. key y \<noteq> k" by (metis distinct.simps(2) image_eqI list.set_map list.simps(9))
    then have "map (\<lambda>x. if key x = k then f x else x) xs = xs" by (intro map_idI) auto
    with True Cons.prems(2) show ?thesis by simp
  next
    case False
    with Cons show ?thesis by auto
  qed
qed simp

lemma find_split:
  "find P xs = Some x \<Longrightarrow> \<exists>us vs. xs = us @ x # vs \<and> (\<forall>u \<in> set us. \<not> P u) \<and> P x"
proof (induction xs)
  case (Cons y ys)
  show ?case
  proof (cases "P y")
    case True
    with Cons.prems have "y # ys = [] @ x # ys \<and> (\<forall>u \<in> set []. \<not> P u) \<and> P x" by simp
    then show ?thesis by blast
  next
    case False
    with Cons obtain us vs where "ys = us @ x # vs" "\<forall>u \<in> set us. \<not> P u" "P x" by auto
    with False have "y # ys = (y # us) @ x # vs \<and> (\<forall>u \<in> set (y # us). \<not> P u) \<and> P x" by simp
    then show ?thesis by blast
  qed
qed simp

lemma find_append:
  "find P (xs @ ys) = (case find P xs of None \<Rightarrow> find P ys | Some x \<Rightarrow> Some x)"
  by (induction xs) auto

lemma find_SomeD: "find P xs = Some x \<Longrightarrow> x \<in> set xs \<and> P x"
  using find_split [of P xs x] by auto

text \<open>
  \<open>for i, x := range xs { if key(x) == key(y) { xs[i] = y; return } }; xs = append(xs, y)\<close>: a
  slice used as a table.
\<close>

definition save_by :: "('a \<Rightarrow> 'k) \<Rightarrow> 'a \<Rightarrow> 'a list \<Rightarrow> 'a list" where
  "save_by key y xs =
     (case update_first (\<lambda>x. key x = key y) (\<lambda>_. y) xs of None \<Rightarrow> xs @ [y] | Some ys \<Rightarrow> ys)"

definition find_by :: "('a \<Rightarrow> 'k) \<Rightarrow> 'k \<Rightarrow> 'a list \<Rightarrow> 'a option" where
  "find_by key k xs = find (\<lambda>x. key x = k) xs"

lemma save_by_simps [simp]:
  "save_by key y [] = [y]"
  "save_by key y (x # xs) = (if key x = key y then y # xs else x # save_by key y xs)"
  by (simp_all add: save_by_def split: option.split)

lemma find_by_simps [simp]:
  "find_by key k [] = None"
  "find_by key k (x # xs) = (if key x = k then Some x else find_by key k xs)"
  by (simp_all add: find_by_def)

lemma find_by_save_by [simp, map_laws]:
  "find_by key k (save_by key y xs) = (if k = key y then Some y else find_by key k xs)"
  by (induction xs) auto

lemma find_by_SomeD: "find_by key k xs = Some x \<Longrightarrow> x \<in> set xs \<and> key x = k"
  by (auto simp: find_by_def dest: find_SomeD)

lemma find_by_None: "find_by key k xs = None \<longleftrightarrow> k \<notin> key ` set xs"
  by (auto simp: find_by_def find_None_iff)

lemma keys_save_by: "map key (save_by key y xs) = (if key y \<in> key ` set xs then map key xs else map key xs @ [key y])"
  by (induction xs) auto

lemma distinct_save_by [intro]: "distinct (map key xs) \<Longrightarrow> distinct (map key (save_by key y xs))"
  by (simp add: keys_save_by)

lemma find_by_distinct: "distinct (map key xs) \<Longrightarrow> x \<in> set xs \<Longrightarrow> find_by key (key x) xs = Some x"
  by (induction xs) auto

lemma set_save_by_distinct:
  "distinct (map key xs) \<Longrightarrow> set (save_by key y xs) = insert y {x \<in> set xs. key x \<noteq> key y}"
  by (induction xs) (auto simp: image_iff)

lemma in_save_by: "x \<in> set (save_by key y xs) \<Longrightarrow> x = y \<or> x \<in> set xs"
  by (induction xs) (auto split: if_splits)

text \<open>
  The contract of a store whose entries can reach a final state: no operation takes an entry out of
  it. Then nothing that happens later does either.
\<close>

locale one_way =
  fixes lookup :: "'s \<Rightarrow> 'k \<Rightarrow> 'x option" and step :: "'s \<Rightarrow> 's \<Rightarrow> bool" and final :: "'x \<Rightarrow> bool"
  assumes final_kept: "step s t \<Longrightarrow> lookup s k = Some x \<Longrightarrow> final x \<Longrightarrow> \<exists>y. lookup t k = Some y \<and> final y"
begin

lemma final_forever:
  "step\<^sup>*\<^sup>* s t \<Longrightarrow> lookup s k = Some x \<Longrightarrow> final x \<Longrightarrow> \<exists>y. lookup t k = Some y \<and> final y"
  by (induction rule: rtranclp_induct) (auto dest: final_kept)

end

section \<open>Dynamic values\<close>

datatype gval =
    GNull
  | GBool bool
  | GInt int
  | GFloat "64 word"
  | GStr string
  | GTime gotime
  | GList "gval list"
  | GMaps "(string \<times> gval) list list"
  | GStrs "string list"
  | GObj "(string \<times> gval) list"

type_synonym gobj = "(string, gval) gomap"

lemma size_gobj_elem [termination_simp]:
  "(k, v) \<in> set m \<Longrightarrow> size v < Suc (size_list (size_prod (\<lambda>_. 0) size) m)"
  by (induction m) auto

lemma size_gmaps_elem [termination_simp]:
  "m \<in> set ms \<Longrightarrow> (k, v) \<in> set m \<Longrightarrow>
     size v < Suc (size_list (size_list (size_prod (\<lambda>_. 0) size)) ms)"
proof (induction ms)
  case (Cons m' ms)
  then show ?case using size_gobj_elem [of k v m] by fastforce
qed simp

fun as_obj :: "gval \<Rightarrow> gobj option" where
  "as_obj (GObj m) = Some m"
| "as_obj _ = None"

fun as_str :: "gval \<Rightarrow> string option" where
  "as_str (GStr s) = Some s"
| "as_str _ = None"

fun as_bool :: "gval \<Rightarrow> bool option" where
  "as_bool (GBool b) = Some b"
| "as_bool _ = None"

text \<open>
  A \<open>float64\<close> is its IEEE 754 bit pattern. \<open>float_trunc\<close> is the conversion to \<open>int\<close>:
  truncation towards zero, and the smallest integer for values out of range, as on amd64.
\<close>

definition float_exp :: "64 word \<Rightarrow> int" where
  "float_exp w = uint w div 2 ^ 52 mod 2 ^ 11"

definition float_frac :: "64 word \<Rightarrow> int" where
  "float_frac w = uint w mod 2 ^ 52"

definition float_neg :: "64 word \<Rightarrow> bool" where
  "float_neg w \<longleftrightarrow> 2 ^ 63 \<le> uint w"

definition float_is_zero :: "64 word \<Rightarrow> bool" where
  "float_is_zero w \<longleftrightarrow> float_exp w = 0 \<and> float_frac w = 0"

definition float_trunc :: "64 word \<Rightarrow> int" where
  "float_trunc w =
     (let e = float_exp w;
          m = (if 1075 \<le> e then (2 ^ 52 + float_frac w) * 2 ^ nat (e - 1075)
               else if 1023 \<le> e then (2 ^ 52 + float_frac w) div 2 ^ nat (1075 - e) else 0);
          v = (if float_neg w then - m else m)
      in if 1086 \<le> e \<and> v \<noteq> - (2 ^ 63) then - (2 ^ 63) else v)"

text \<open>
  \<open>fmt.Sprintf("%v", x)\<close>. Maps print with their keys in order. The texts of a float and of a
  time, which the standard library chooses, are the arguments \<open>ff\<close> and \<open>ft\<close>.
\<close>

fun sprint :: "(64 word \<Rightarrow> string) \<Rightarrow> (gotime \<Rightarrow> string) \<Rightarrow> gval \<Rightarrow> string" where
  "sprint ff ft GNull = ''<nil>''"
| "sprint ff ft (GBool b) = (if b then ''true'' else ''false'')"
| "sprint ff ft (GInt i) = show_int i"
| "sprint ff ft (GFloat w) = ff w"
| "sprint ff ft (GStr s) = s"
| "sprint ff ft (GTime t) = ft t"
| "sprint ff ft (GList vs) = ''['' @ join '' '' (map (sprint ff ft) vs) @ '']''"
| "sprint ff ft (GStrs ss) = ''['' @ join '' '' ss @ '']''"
| "sprint ff ft (GObj m) = ''map['' @ join '' '' (map (\<lambda>(k, s). k @ '':'' @ s)
     (sort_slice fst (map (\<lambda>(k, v). (k, sprint ff ft v)) m))) @ '']''"
| "sprint ff ft (GMaps ms) = ''['' @ join '' '' (map (\<lambda>m. ''map['' @ join '' '' (map (\<lambda>(k, s). k @ '':'' @ s)
     (sort_slice fst (map (\<lambda>(k, v). (k, sprint ff ft v)) m))) @ '']'') ms) @ '']''"

text \<open>\<open>for k, v := range src { dst[k] = v }\<close>.\<close>

definition mmerge :: "('k, 'v) gomap \<Rightarrow> ('k, 'v) gomap \<Rightarrow> ('k, 'v) gomap" where
  "mmerge dst src = fold (\<lambda>(k, v). mput k v) src dst"

lemma mmerge_Nil [simp]: "mmerge m [] = m"
  by (simp add: mmerge_def)

lemma map_of_mmerge: "wf_map src \<Longrightarrow> map_of (mmerge dst src) = map_of dst ++ map_of src"
proof (induction src arbitrary: dst)
  case (Cons p src)
  obtain k v where p: "p = (k, v)" by (cases p)
  have "map_of src k = None" using Cons.prems by (auto simp: p wf_map_def map_of_eq_None_iff)
  moreover have "map_of (mmerge (mput k v dst) src) = (map_of dst)(k \<mapsto> v) ++ map_of src"
    using Cons by (simp add: wf_map_def)
  ultimately show ?case by (auto simp: p mmerge_def map_add_def fun_eq_iff split: option.split)
qed simp

lemma wf_mmerge [simp, intro]: "wf_map dst \<Longrightarrow> wf_map (mmerge dst src)"
  unfolding mmerge_def by (induction src arbitrary: dst) (auto split: prod.split)

end
