(* ===== verification/Shared.thy ===== *)
theory Shared
  imports GoPrelude
begin

text \<open>
  Package \<open>internal/platform/shared\<close>: the error values every service returns
  (\<open>errors.go\<close>), the value objects and their checks (\<open>primitives.go\<close>) and the identifiers
  (\<open>ids.go\<close>). The ULID that the third-party generator produces is the argument \<open>ulid\<close>.
  A Go error is a \<open>goerr\<close>: a \<open>shared.Error\<close> (\<open>Platform\<close>) or a plain one made by
  \<open>errors.New\<close> or \<open>fmt.Errorf\<close> (\<open>Plain\<close>).
\<close>

section \<open>Errors\<close>

datatype kind = KindValidation | KindConflict | KindForbidden | KindUnauthorized | KindNotFound

fun kind_name :: "kind \<Rightarrow> string" where
  "kind_name KindValidation = ''validation_error''"
| "kind_name KindConflict = ''conflict_error''"
| "kind_name KindForbidden = ''forbidden_error''"
| "kind_name KindUnauthorized = ''unauthorized_error''"
| "kind_name KindNotFound = ''not_found_error''"

datatype goerr = Platform kind string | Plain string

fun err_text :: "goerr \<Rightarrow> string" where
  "err_text (Platform k m) = kind_name k @ '': '' @ m"
| "err_text (Plain m) = m"

definition Validation :: "string \<Rightarrow> goerr" where "Validation m = Platform KindValidation m"
definition Conflict :: "string \<Rightarrow> goerr" where "Conflict m = Platform KindConflict m"
definition Forbidden :: "string \<Rightarrow> goerr" where "Forbidden m = Platform KindForbidden m"
definition Unauthorized :: "string \<Rightarrow> goerr" where "Unauthorized m = Platform KindUnauthorized m"
definition NotFound :: "string \<Rightarrow> goerr" where "NotFound m = Platform KindNotFound m"

lemmas err_defs [go_defs] = Validation_def Conflict_def Forbidden_def Unauthorized_def NotFound_def

type_synonym 'a result = "goerr + 'a"

fun is_ok :: "'a result \<Rightarrow> bool" where
  "is_ok (Inr _) = True"
| "is_ok (Inl _) = False"

text \<open>
  A call that changes the state \<open>'s\<close> and may fail returns its result and the state it leaves:
  a failing loop keeps what it had already written. \<open>run_each\<close> is the loop
  \<open>for _, x := range xs { if err := f(x); err != nil { return err } }\<close>.
\<close>

fun run_each :: "('a \<Rightarrow> 's \<Rightarrow> goerr option \<times> 's) \<Rightarrow> 'a list \<Rightarrow> 's \<Rightarrow> goerr option \<times> 's" where
  "run_each f [] s = (None, s)"
| "run_each f (x # xs) s =
     (case f x s of (Some e, s') \<Rightarrow> (Some e, s') | (None, s') \<Rightarrow> run_each f xs s')"

text \<open>The same loop without a state, and the loop that builds a value or stops at an error.\<close>

fun first_error :: "('a \<Rightarrow> goerr option) \<Rightarrow> 'a list \<Rightarrow> goerr option" where
  "first_error f [] = None"
| "first_error f (x # xs) = (case f x of Some e \<Rightarrow> Some e | None \<Rightarrow> first_error f xs)"

fun fold_result :: "('a \<Rightarrow> 's \<Rightarrow> 's result) \<Rightarrow> 'a list \<Rightarrow> 's \<Rightarrow> 's result" where
  "fold_result f [] s = Inr s"
| "fold_result f (x # xs) s = (case f x s of Inl e \<Rightarrow> Inl e | Inr s' \<Rightarrow> fold_result f xs s')"

lemma first_error_None: "first_error f xs = None \<longleftrightarrow> (\<forall>x \<in> set xs. f x = None)"
  by (induction xs) (auto split: option.split)

lemma fold_result_keeps:
  "fold_result f xs s = Inr s' \<Longrightarrow> (\<And>x s s'. x \<in> set xs \<Longrightarrow> f x s = Inr s' \<Longrightarrow> P s \<Longrightarrow> P s') \<Longrightarrow> P s \<Longrightarrow> P s'"
proof (induction xs arbitrary: s)
  case (Cons x xs)
  then obtain t where t: "f x s = Inr t" "fold_result f xs t = Inr s'" by (auto split: sum.splits)
  show ?case
  proof (rule Cons.IH [OF t(2)])
    show "P t" using Cons.prems(2) [of x s t] t(1) Cons.prems(3) by simp
    show "P v" if "y \<in> set xs" "f y u = Inr v" "P u" for y u v using Cons.prems(2) [of y u v] that by simp
  qed
qed simp

definition and_then :: "goerr option \<times> 's \<Rightarrow> ('s \<Rightarrow> goerr option \<times> 's) \<Rightarrow> goerr option \<times> 's" where
  "and_then r k = (case r of (Some e, s) \<Rightarrow> (Some e, s) | (None, s) \<Rightarrow> k s)"

lemma and_then_simps [simp]:
  "and_then (None, s) k = k s" "and_then (Some e, s) k = (Some e, s)"
  by (simp_all add: and_then_def)

lemma run_each_append:
  "run_each f (xs @ ys) s = and_then (run_each f xs s) (run_each f ys)"
  by (induction xs arbitrary: s) (auto split: prod.split option.split)

text \<open>A property that every iteration keeps, whether it fails or not, holds after the loop.\<close>

lemma run_each_inv:
  "P s \<Longrightarrow> (\<And>x s. x \<in> set xs \<Longrightarrow> P s \<Longrightarrow> P (snd (f x s))) \<Longrightarrow> P (snd (run_each f xs s))"
proof (induction xs arbitrary: s)
  case (Cons x xs)
  obtain e s' where fx: "f x s = (e, s')" by (cases "f x s")
  from Cons.prems(2) [of x s] Cons.prems(1) fx have "P s'" by simp
  with Cons.IH [of s'] Cons.prems(2) fx show ?case by (auto split: option.split)
qed simp

lemma run_each_frame:
  "(\<And>x s. g (snd (f x s)) = g s) \<Longrightarrow> g (snd (run_each f xs s)) = g s"
  using run_each_inv [of "\<lambda>s'. g s' = g s" s xs f] by simp

lemma and_then_frame:
  "(\<And>s. g (snd (k s)) = g s) \<Longrightarrow> g (snd (and_then p k)) = g (snd p)"
  by (cases p) (auto simp: and_then_def split: option.split)

lemma run_each_total:
  "(\<And>x s. x \<in> set xs \<Longrightarrow> f x s = (None, g x s)) \<Longrightarrow> run_each f xs s = (None, fold g xs s)"
  by (induction xs arbitrary: s) auto

section \<open>Identifiers\<close>

definition trim_right_char :: "char \<Rightarrow> string \<Rightarrow> string" where
  "trim_right_char c s = rev (dropWhile (\<lambda>x. x = c) (rev s))"

definition trim_char :: "char \<Rightarrow> string \<Rightarrow> string" where
  "trim_char c s = trim_right_char c (dropWhile (\<lambda>x. x = c) s)"

definition new_id :: "string \<Rightarrow> string \<Rightarrow> string" where
  "new_id pfx ulid =
     (let pfx = trim_space pfx in
      if pfx = [] then ulid
      else if has_suffix pfx ''_'' then pfx @ ulid
      else trim_right_char (CHR '':'') pfx @ '':'' @ ulid)"

definition child_id :: "string \<Rightarrow> string list \<Rightarrow> string \<Rightarrow> string" where
  "child_id pfx parts ulid =
     (let clean = (\<lambda>s. trim_char (CHR '':'') (trim_space s));
          items = filter (\<lambda>s. s \<noteq> []) (clean pfx # map clean parts)
      in join '':'' (items @ [ulid]))"

lemma new_id_suffix: "suffix ulid (new_id pfx ulid)"
  by (simp add: new_id_def Let_def suffix_def)

lemma new_id_inj: "new_id pfx u = new_id pfx v \<longleftrightarrow> u = v"
  by (simp add: new_id_def Let_def)

lemma join_snoc: "\<exists>p. \<forall>x. join sep (xs @ [x]) = p @ x"
proof (induction xs)
  case Nil
  show ?case by (intro exI [of _ "[]"]) simp
next
  case (Cons y ys)
  then obtain p where p: "\<And>x. join sep (ys @ [x]) = p @ x" by blast
  have "join sep ((y # ys) @ [x]) = (y @ sep @ p) @ x" for x
    using p [of x] by (cases ys) auto
  then show ?case by blast
qed

lemma child_id_inj: "child_id pfx parts u = child_id pfx parts v \<longleftrightarrow> u = v"
proof -
  let ?items = "filter (\<lambda>s. s \<noteq> []) (map (\<lambda>s. trim_char (CHR '':'') (trim_space s)) (pfx # parts))"
  obtain p where "\<And>x. join '':'' (?items @ [x]) = p @ x"
    using join_snoc [of "'':''" ?items] by blast
  then have "child_id pfx parts x = p @ x" for x
    by (simp add: child_id_def Let_def)
  then show ?thesis by simp
qed

section \<open>Value objects\<close>

record money =
  amount_minor :: int
  currency :: string

record ident =
  id_type :: string
  id_value :: string
  id_issuer :: string
  id_namespace :: string

record quantity =
  q_value :: "64 word"
  q_unit :: string

record time_range =
  range_start :: gotime
  range_end :: gotime

definition validate_identifier :: "ident \<Rightarrow> goerr option" where
  "validate_identifier i =
     (if trim_space (id_type i) = [] then Some (Plain ''identifier type is required'')
      else if trim_space (id_value i) = [] then Some (Plain ''identifier value is required'')
      else None)"

definition validate_money :: "money \<Rightarrow> goerr option" where
  "validate_money m =
     (if trim_space (currency m) = [] then Some (Plain ''money currency is required'') else None)"

definition money_string :: "money \<Rightarrow> string" where
  "money_string m = currency m @ '' '' @ show_int (amount_minor m)"

definition validate_quantity :: "quantity \<Rightarrow> goerr option" where
  "validate_quantity q =
     (if trim_space (q_unit q) = [] then Some (Plain ''quantity unit is required'') else None)"

record address =
  addr_line1 :: string
  addr_line2 :: string
  addr_locality :: string
  addr_region :: string
  addr_postal_code :: string
  addr_country :: string

definition validate_address :: "address \<Rightarrow> goerr option" where
  "validate_address a =
     (if trim_space (addr_country a) = [] then Some (Plain ''address country is required'') else None)"

definition validate_time_range :: "time_range \<Rightarrow> goerr option" where
  "validate_time_range tr =
     (if range_end tr < range_start tr
      then Some (Plain ''time range end cannot be before start'') else None)"

end
