(* ===== verification/WorkflowModel.thy ===== *)
theory WorkflowModel
  imports Shared
begin

text \<open>
  The data of package \<open>internal/platform/workflow\<close> (\<open>models.go\<close>): workflow definitions and
  their rules, the transition a rule yields, the tasks and approvals it creates, and the
  mutation that carries planned changes to the repository.
\<close>

record action_rule =
  ar_action :: string
  ar_from_state :: string
  ar_to_state :: string
  ar_permission_key :: string
  ar_task_type :: string
  ar_create_approval :: bool
  ar_assignment_strategy :: string
  ar_assignment_mode :: string
  ar_assignee_role_key :: string
  ar_candidate_role_keys :: "string list"
  ar_fallback_role_key :: string
  ar_approval_stage_key :: string
  ar_due_after_seconds :: int
  ar_escalate_after_seconds :: int
  ar_requires_different_actor :: bool
  ar_step_up_required :: bool
  ar_link_mode :: string
  ar_link_ttl_seconds :: int
  ar_link_review_only :: bool
  ar_link_require_step_up :: bool
  ar_link_allowed_actions :: "string list"
  ar_metadata :: gobj

record wf_definition =
  wd_key :: string
  wd_version :: int
  wd_status :: string
  wd_states :: "string list"
  wd_actions :: "action_rule list"
  wd_created_at :: gotime
  wd_updated_at :: gotime
  wd_updated_by :: string
  wd_published_at :: gotime
  wd_published_by :: string

record transition =
  tr_workflow_key :: string
  tr_workflow_version :: int
  tr_action :: string
  tr_from_state :: string
  tr_to_state :: string
  tr_permission_key :: string
  tr_task_type :: string
  tr_create_approval :: bool
  tr_assignment_strategy :: string
  tr_assignment_mode :: string
  tr_assignee_role_key :: string
  tr_candidate_role_keys :: "string list"
  tr_fallback_role_key :: string
  tr_approval_stage_key :: string
  tr_due_after_seconds :: int
  tr_escalate_after_seconds :: int
  tr_requires_different_actor :: bool
  tr_step_up_required :: bool
  tr_link_mode :: string
  tr_link_ttl_seconds :: int
  tr_link_review_only :: bool
  tr_link_require_step_up :: bool
  tr_link_allowed_actions :: "string list"
  tr_assignee_user_id :: string
  tr_candidate_user_ids :: "string list"
  tr_metadata :: gobj

record task =
  tk_id :: string
  tk_workflow_key :: string
  tk_workflow_version :: int
  tk_target_type :: string
  tk_target_id :: string
  tk_task_type :: string
  tk_status :: string
  tk_assignment_mode :: string
  tk_assignee_user_id :: string
  tk_assignee_role_key :: string
  tk_candidate_role_keys :: "string list"
  tk_created_by :: string
  tk_created_at :: gotime
  tk_due_at :: gotime
  tk_escalate_at :: gotime
  tk_metadata :: gobj

record approval =
  ap_id :: string
  ap_workflow_key :: string
  ap_workflow_version :: int
  ap_target_type :: string
  ap_target_id :: string
  ap_status :: string
  ap_stage_key :: string
  ap_requested_by :: string
  ap_requested_at :: gotime
  ap_resolved_by :: string
  ap_resolved_at :: gotime
  ap_candidate_role_keys :: "string list"
  ap_due_at :: gotime
  ap_metadata :: gobj

record task_status_update =
  tu_id :: string
  tu_status :: string
  tu_resolved_by :: string
  tu_resolved_at :: gotime

record approval_status_update =
  au_id :: string
  au_status :: string
  au_resolved_by :: string
  au_resolved_at :: gotime

record history_event =
  he_id :: string
  he_workflow_key :: string
  he_workflow_version :: int
  he_target_type :: string
  he_target_id :: string
  he_action :: string
  he_from_state :: string
  he_to_state :: string
  he_actor_id :: string
  he_occurred_at :: gotime
  he_decision_code :: string
  he_decision_reason :: string
  he_assignment_summary :: gobj
  he_metadata :: gobj

record mutation =
  mu_tasks :: "task list"
  mu_approvals :: "approval list"
  mu_task_updates :: "task_status_update list"
  mu_approval_updates :: "approval_status_update list"
  mu_history :: "history_event list"

definition empty_mutation :: mutation where
  [go_defs]: "empty_mutation = \<lparr>mu_tasks = [], mu_approvals = [], mu_task_updates = [],
     mu_approval_updates = [], mu_history = []\<rparr>"

record validate_result =
  vr_valid :: bool
  vr_issues :: "string list"

record simulation_input =
  si_current_state :: string
  si_action :: string
  si_actor_id :: string
  si_document_id :: string

record simulation_result =
  sr_valid :: bool
  sr_issues :: "string list"
  sr_transition :: "transition option"
  sr_planned_task :: "task option"
  sr_planned_approval :: "approval option"
  sr_applied_assignments :: gobj

text \<open>A rule and a definition with every optional field at its zero value.\<close>

definition plain_rule :: "string \<Rightarrow> string \<Rightarrow> string \<Rightarrow> string \<Rightarrow> action_rule" where
  "plain_rule action from_state to_state permission =
     \<lparr>ar_action = action, ar_from_state = from_state, ar_to_state = to_state,
      ar_permission_key = permission, ar_task_type = [], ar_create_approval = False,
      ar_assignment_strategy = [], ar_assignment_mode = [], ar_assignee_role_key = [],
      ar_candidate_role_keys = [], ar_fallback_role_key = [], ar_approval_stage_key = [],
      ar_due_after_seconds = 0, ar_escalate_after_seconds = 0,
      ar_requires_different_actor = False, ar_step_up_required = False, ar_link_mode = [],
      ar_link_ttl_seconds = 0, ar_link_review_only = False, ar_link_require_step_up = False,
      ar_link_allowed_actions = [], ar_metadata = []\<rparr>"

definition plain_definition :: "string \<Rightarrow> string list \<Rightarrow> action_rule list \<Rightarrow> wf_definition" where
  "plain_definition key states actions =
     \<lparr>wd_key = key, wd_version = 0, wd_status = [], wd_states = states, wd_actions = actions,
      wd_created_at = 0, wd_updated_at = 0, wd_updated_by = [], wd_published_at = 0,
      wd_published_by = []\<rparr>"

end
