(* ===== verification/WorkflowRepo.thy ===== *)
theory WorkflowRepo
  imports WorkflowModel
begin

text \<open>
  The in-memory repository of package \<open>workflow\<close> (\<open>memory_repository.go\<close>): the versions of
  each definition in the order they were added, the tasks, the approvals and the history.
  The clock reading of a call is its argument \<open>now\<close>. The clones of the code are the identity
  on values.
\<close>

record wf_repo =
  wr_definitions :: "(string, wf_definition list) gomap"
  wr_tasks :: "task list"
  wr_approvals :: "approval list"
  wr_history :: "history_event list"

definition new_wf_repo :: wf_repo where
  "new_wf_repo = \<lparr>wr_definitions = [], wr_tasks = [], wr_approvals = [], wr_history = []\<rparr>"

abbreviation wf_versions :: "wf_repo \<Rightarrow> string \<Rightarrow> wf_definition list" where
  "wf_versions r k \<equiv> mget [] (wr_definitions r) k"

section \<open>Definitions\<close>

definition get_definition :: "string \<Rightarrow> wf_repo \<Rightarrow> wf_definition option" where
  "get_definition key r = find (\<lambda>d. wd_status d = ''published'') (rev (wf_versions r key))"

definition get_definition_version :: "string \<Rightarrow> int \<Rightarrow> wf_repo \<Rightarrow> wf_definition option" where
  "get_definition_version key version r = find (\<lambda>d. wd_version d = version) (wf_versions r key)"

definition append_version :: "wf_definition \<Rightarrow> wf_repo \<Rightarrow> wf_repo" where
  "append_version d r =
     r\<lparr>wr_definitions := mput (wd_key d) (wf_versions r (wd_key d) @ [d]) (wr_definitions r)\<rparr>"

definition save_definition :: "gotime \<Rightarrow> wf_definition \<Rightarrow> wf_repo \<Rightarrow> goerr option \<times> wf_repo" where
  "save_definition now def r =
     (if get_definition (wd_key def) r \<noteq> None
      then (Some (Conflict ''workflow definition already exists''), r)
      else let d = def\<lparr>wd_version := 1, wd_status := ''published''\<rparr>;
               d = d\<lparr>wd_created_at := or_now now (wd_created_at d),
                     wd_updated_at := or_now now (wd_updated_at d),
                     wd_published_at := or_now now (wd_published_at d)\<rparr>
           in (None, append_version d r))"

definition save_definition_draft ::
    "gotime \<Rightarrow> wf_definition \<Rightarrow> wf_repo \<Rightarrow> wf_definition result \<times> wf_repo" where
  "save_definition_draft now def r =
     (if map_of (wr_definitions r) (wd_key def) \<noteq> None
      then (Inl (Conflict ''workflow definition already exists''), r)
      else let d = def\<lparr>wd_version := 1, wd_status := ''draft''\<rparr>;
               d = d\<lparr>wd_created_at := or_now now (wd_created_at d), wd_updated_at := now\<rparr>
           in (Inr d, append_version d r))"

definition delete_definition :: "string \<Rightarrow> wf_repo \<Rightarrow> wf_repo" where
  "delete_definition key r = r\<lparr>wr_definitions := mdel key (wr_definitions r)\<rparr>"

definition list_definitions :: "wf_repo \<Rightarrow> wf_definition list" where
  "list_definitions r =
     sort_slice wd_key
       (concat (map (\<lambda>(key, versions).
          case get_definition key r of
            Some d \<Rightarrow> [d]
          | None \<Rightarrow> (if versions = [] then [] else [last versions])) (wr_definitions r)))"

definition list_definition_versions :: "string \<Rightarrow> wf_repo \<Rightarrow> wf_definition list" where
  "list_definition_versions key r =
     sort_slice (\<lambda>d. (wd_version d, wd_status d)) (wf_versions r key)"

definition create_draft_repo ::
    "gotime \<Rightarrow> string \<Rightarrow> string \<Rightarrow> wf_repo \<Rightarrow> wf_definition result \<times> wf_repo" where
  "create_draft_repo now key actor r =
     (case get_definition key r of
        None \<Rightarrow> (Inl (NotFound ''workflow definition not found''), r)
      | Some published \<Rightarrow>
          if \<exists>d \<in> set (wf_versions r key). wd_status d = ''draft''
          then (Inl (Conflict ''workflow draft already exists''), r)
          else let d = published\<lparr>wd_version := wd_version published + 1, wd_status := ''draft'',
                         wd_created_at := now, wd_updated_at := now, wd_updated_by := actor,
                         wd_published_at := zero_time, wd_published_by := []\<rparr>
               in (Inr d, r\<lparr>wr_definitions := mput key (wf_versions r key @ [d]) (wr_definitions r)\<rparr>))"

definition is_draft :: "int \<Rightarrow> wf_definition \<Rightarrow> bool" where
  "is_draft version d \<longleftrightarrow> wd_version d = version \<and> wd_status d = ''draft''"

definition save_draft_repo ::
    "gotime \<Rightarrow> wf_definition \<Rightarrow> string \<Rightarrow> wf_repo \<Rightarrow> wf_definition result \<times> wf_repo" where
  "save_draft_repo now def actor r =
     (let edit = (\<lambda>old. def\<lparr>wd_status := ''draft'', wd_created_at := wd_created_at old,
                        wd_updated_at := now, wd_updated_by := actor\<rparr>)
      in case find (is_draft (wd_version def)) (wf_versions r (wd_key def)) of
           None \<Rightarrow> (Inl (NotFound ''workflow draft not found''), r)
         | Some old \<Rightarrow>
             (Inr (edit old),
              r\<lparr>wr_definitions := mput (wd_key def)
                  (the (update_first (is_draft (wd_version def)) edit (wf_versions r (wd_key def))))
                  (wr_definitions r)\<rparr>))"

definition publish_definition ::
    "gotime \<Rightarrow> string \<Rightarrow> int \<Rightarrow> string \<Rightarrow> wf_repo \<Rightarrow> wf_definition result \<times> wf_repo" where
  "publish_definition now key version actor r =
     (let edit = (\<lambda>draft. draft\<lparr>wd_status := ''published'', wd_published_at := now,
                        wd_published_by := actor, wd_updated_at := now, wd_updated_by := actor\<rparr>)
      in case find (is_draft version) (wf_versions r key) of
           None \<Rightarrow> (Inl (NotFound ''workflow draft not found''), r)
         | Some draft \<Rightarrow>
             (Inr (edit draft),
              r\<lparr>wr_definitions := mput key
                  (the (update_first (is_draft version) edit (wf_versions r key)))
                  (wr_definitions r)\<rparr>))"

section \<open>Tasks, approvals, history\<close>

definition save_task :: "task \<Rightarrow> wf_repo \<Rightarrow> goerr option \<times> wf_repo" where
  "save_task t r = (None, r\<lparr>wr_tasks := wr_tasks r @ [t]\<rparr>)"

definition list_tasks :: "wf_repo \<Rightarrow> task list" where
  "list_tasks r = sort_slice tk_created_at (wr_tasks r)"

definition resolve_task :: "task_status_update \<Rightarrow> task \<Rightarrow> task" where
  "resolve_task u t =
     (let t = t\<lparr>tk_status := tu_status u\<rparr>;
          t = (if is_zero_time (tu_resolved_at u) then t
               else t\<lparr>tk_metadata := mput ''resolved_at'' (GTime (tu_resolved_at u)) (tk_metadata t)\<rparr>)
      in if tu_resolved_by u = [] then t
         else t\<lparr>tk_metadata := mput ''resolved_by'' (GStr (tu_resolved_by u)) (tk_metadata t)\<rparr>)"

definition update_task_status :: "task_status_update \<Rightarrow> wf_repo \<Rightarrow> goerr option \<times> wf_repo" where
  "update_task_status u r =
     (case update_first (\<lambda>t. tk_id t = tu_id u) (resolve_task u) (wr_tasks r) of
        Some ts \<Rightarrow> (None, r\<lparr>wr_tasks := ts\<rparr>)
      | None \<Rightarrow> (Some (NotFound ''workflow task not found''), r))"

definition save_approval :: "approval \<Rightarrow> wf_repo \<Rightarrow> goerr option \<times> wf_repo" where
  "save_approval a r = (None, r\<lparr>wr_approvals := wr_approvals r @ [a]\<rparr>)"

definition list_approvals :: "wf_repo \<Rightarrow> approval list" where
  "list_approvals r = sort_slice ap_requested_at (wr_approvals r)"

definition resolve_approval_record :: "approval_status_update \<Rightarrow> approval \<Rightarrow> approval" where
  "resolve_approval_record u a =
     (let a = a\<lparr>ap_status := au_status u, ap_resolved_by := au_resolved_by u\<rparr>
      in if is_zero_time (au_resolved_at u) then a else a\<lparr>ap_resolved_at := au_resolved_at u\<rparr>)"

definition update_approval_status ::
    "approval_status_update \<Rightarrow> wf_repo \<Rightarrow> goerr option \<times> wf_repo" where
  "update_approval_status u r =
     (case update_first (\<lambda>a. ap_id a = au_id u) (resolve_approval_record u) (wr_approvals r) of
        Some as \<Rightarrow> (None, r\<lparr>wr_approvals := as\<rparr>)
      | None \<Rightarrow> (Some (NotFound ''workflow approval not found''), r))"

definition save_history :: "history_event \<Rightarrow> wf_repo \<Rightarrow> goerr option \<times> wf_repo" where
  "save_history e r = (None, r\<lparr>wr_history := wr_history r @ [e]\<rparr>)"

definition list_history :: "string \<Rightarrow> string \<Rightarrow> wf_repo \<Rightarrow> history_event list" where
  "list_history target_type target_id r =
     sort_slice he_occurred_at
       (filter (\<lambda>e. (target_type = [] \<or> he_target_type e = target_type)
                  \<and> (target_id = [] \<or> he_target_id e = target_id)) (wr_history r))"

end
