(* ===== verification/WorkflowService.thy ===== *)
theory WorkflowService
  imports WorkflowRepo
begin

text \<open>
  The workflow service (\<open>workflow/service.go\<close>) over the in-memory repository: validation of
  definitions, the life cycle of their versions, the execution of an action, and the planning
  and application of the tasks and approvals that a transition creates or closes.
\<close>

section \<open>Validation\<close>

definition state_set :: "wf_definition \<Rightarrow> string list" where
  "state_set def = filter (\<lambda>s. s \<noteq> []) (map trim_space (wd_states def))"

definition rule_issues :: "wf_definition \<Rightarrow> action_rule \<Rightarrow> string list" where
  "rule_issues def a =
     (if trim_space (ar_action a) = [] then [''workflow action is required''] else [])
   @ (if ar_from_state a \<in> set (state_set def) then []
      else [''unknown from_state '' @ quote (ar_from_state a)])
   @ (if ar_to_state a \<in> set (state_set def) then []
      else [''unknown to_state '' @ quote (ar_to_state a)])"

definition validate_issues :: "wf_definition \<Rightarrow> string list" where
  "validate_issues def =
     (if trim_space (wd_key def) = [] then [''workflow key is required''] else [])
   @ (if wd_states def = [] then [''workflow must define at least one state''] else [])
   @ (if wd_actions def = [] then [''workflow must define at least one action''] else [])
   @ concat (map (\<lambda>s. if trim_space s = [] then [''workflow state may not be blank''] else [])
               (wd_states def))
   @ concat (map (rule_issues def) (wd_actions def))"

definition validate_definition :: "wf_definition \<Rightarrow> goerr option" where
  "validate_definition def =
     (let issues = validate_issues def
      in if issues = [] then None else Some (Validation (join ''; '' issues)))"

definition validate :: "wf_definition \<Rightarrow> validate_result" where
  "validate def = \<lparr>vr_valid = (validate_issues def = []), vr_issues = validate_issues def\<rparr>"

section \<open>The life cycle of definitions\<close>

definition register :: "gotime \<Rightarrow> wf_definition \<Rightarrow> wf_repo \<Rightarrow> goerr option \<times> wf_repo" where
  "register now def r =
     (case validate_definition def of
        Some e \<Rightarrow> (Some e, r)
      | None \<Rightarrow> save_definition now def r)"

definition register_draft ::
    "gotime \<Rightarrow> wf_definition \<Rightarrow> wf_repo \<Rightarrow> wf_definition result \<times> wf_repo" where
  "register_draft now def r =
     (case validate_definition def of
        Some e \<Rightarrow> (Inl e, r)
      | None \<Rightarrow> save_definition_draft now def r)"

definition delete :: "string \<Rightarrow> wf_repo \<Rightarrow> goerr option \<times> wf_repo" where
  "delete key r =
     (let key = trim_space key in
      if key = [] then (Some (Validation ''workflow key is required''), r)
      else if get_definition key r = None
      then (Some (NotFound ''workflow definition not found''), r)
      else (None, delete_definition key r))"

definition get :: "string \<Rightarrow> wf_repo \<Rightarrow> wf_definition result" where
  "get key r =
     (case get_definition key r of
        None \<Rightarrow> Inl (NotFound ''workflow definition not found'')
      | Some d \<Rightarrow> Inr d)"

definition get_version :: "string \<Rightarrow> int \<Rightarrow> wf_repo \<Rightarrow> wf_definition result" where
  "get_version key version r =
     (case get_definition_version key version r of
        None \<Rightarrow> Inl (NotFound ''workflow definition not found'')
      | Some d \<Rightarrow> Inr d)"

definition list_keys :: "wf_repo \<Rightarrow> string list" where
  "list_keys r = map wd_key (list_definitions r)"

definition create_draft ::
    "gotime \<Rightarrow> string \<Rightarrow> string \<Rightarrow> wf_repo \<Rightarrow> wf_definition result \<times> wf_repo" where
  "create_draft now key actor r = create_draft_repo now (trim_space key) (trim_space actor) r"

definition default_draft :: "wf_definition \<Rightarrow> wf_definition" where
  "default_draft def =
     (if trim_space (wd_status def) = [] then def\<lparr>wd_status := ''draft''\<rparr> else def)"

definition save_draft ::
    "gotime \<Rightarrow> wf_definition \<Rightarrow> string \<Rightarrow> wf_repo \<Rightarrow> wf_definition result \<times> wf_repo" where
  "save_draft now def actor r =
     (let def = default_draft def in
      if wd_status def \<noteq> ''draft''
      then (Inl (Validation ''only workflow drafts may be updated''), r)
      else case validate_definition def of
             Some e \<Rightarrow> (Inl e, r)
           | None \<Rightarrow> save_draft_repo now def actor r)"

definition publish ::
    "gotime \<Rightarrow> string \<Rightarrow> int \<Rightarrow> string \<Rightarrow> wf_repo \<Rightarrow> wf_definition result \<times> wf_repo" where
  "publish now key version actor r =
     (case get_definition_version key version r of
        None \<Rightarrow> (Inl (NotFound ''workflow draft not found''), r)
      | Some d \<Rightarrow>
          if \<not> vr_valid (validate d) then (Inl (Validation (join ''; '' (vr_issues (validate d)))), r)
          else publish_definition now (trim_space key) version (trim_space actor) r)"

section \<open>Executing an action\<close>

definition transition_of_rule :: "wf_definition \<Rightarrow> string \<Rightarrow> string \<Rightarrow> action_rule \<Rightarrow> transition" where
  "transition_of_rule def current action rule =
     \<lparr>tr_workflow_key = wd_key def,
      tr_workflow_version = wd_version def,
      tr_action = action,
      tr_from_state = current,
      tr_to_state = ar_to_state rule,
      tr_permission_key = ar_permission_key rule,
      tr_task_type = ar_task_type rule,
      tr_create_approval = ar_create_approval rule,
      tr_assignment_strategy = ar_assignment_strategy rule,
      tr_assignment_mode = ar_assignment_mode rule,
      tr_assignee_role_key = ar_assignee_role_key rule,
      tr_candidate_role_keys = ar_candidate_role_keys rule,
      tr_fallback_role_key = ar_fallback_role_key rule,
      tr_approval_stage_key = ar_approval_stage_key rule,
      tr_due_after_seconds = ar_due_after_seconds rule,
      tr_escalate_after_seconds = ar_escalate_after_seconds rule,
      tr_requires_different_actor = ar_requires_different_actor rule,
      tr_step_up_required = ar_step_up_required rule,
      tr_link_mode = ar_link_mode rule,
      tr_link_ttl_seconds = ar_link_ttl_seconds rule,
      tr_link_review_only = ar_link_review_only rule,
      tr_link_require_step_up = ar_link_require_step_up rule,
      tr_link_allowed_actions = ar_link_allowed_actions rule,
      tr_assignee_user_id = [],
      tr_candidate_user_ids = [],
      tr_metadata = ar_metadata rule\<rparr>"

definition transition_for_definition ::
    "wf_definition \<Rightarrow> string \<Rightarrow> string \<Rightarrow> transition result" where
  "transition_for_definition def current action =
     (case find (\<lambda>rule. ar_action rule = action \<and> ar_from_state rule = current) (wd_actions def) of
        Some rule \<Rightarrow> Inr (transition_of_rule def current action rule)
      | None \<Rightarrow> Inl (Conflict ''workflow action not allowed from current state''))"

definition execute :: "string \<Rightarrow> string \<Rightarrow> string \<Rightarrow> wf_repo \<Rightarrow> transition result" where
  "execute key current action r =
     (case get_definition key r of
        None \<Rightarrow> Inl (NotFound ''workflow definition not found'')
      | Some def \<Rightarrow> transition_for_definition def current action)"

definition execute_version ::
    "string \<Rightarrow> int \<Rightarrow> string \<Rightarrow> string \<Rightarrow> wf_repo \<Rightarrow> transition result" where
  "execute_version key version current action r =
     (if version \<le> 0 then execute key current action r
      else case get_definition_version key version r of
             None \<Rightarrow> Inl (NotFound ''workflow definition not found'')
           | Some def \<Rightarrow> transition_for_definition def current action)"

section \<open>Tasks and approvals\<close>

definition merge_metadata :: "gobj \<Rightarrow> gobj \<Rightarrow> gobj" where
  "merge_metadata dst src = fold (\<lambda>(k, v). mput k v) src dst"

definition due_time :: "gotime \<Rightarrow> int \<Rightarrow> gotime" where
  "due_time now n = (if 0 < n then now + seconds n else zero_time)"

definition planned_task :: "transition \<Rightarrow> string \<Rightarrow> string \<Rightarrow> string \<Rightarrow> gotime \<Rightarrow> task" where
  "planned_task t target_type target_id actor now =
     (let md = merge_metadata [(''action'', GStr (tr_action t))] (tr_metadata t);
          md = (if tr_candidate_user_ids t = [] then md
                else mput ''candidate_user_ids'' (GStrs (tr_candidate_user_ids t)) md)
      in \<lparr>tk_id = ''task:'' @ target_id @ '':'' @ tr_action t,
          tk_workflow_key = tr_workflow_key t,
          tk_workflow_version = tr_workflow_version t,
          tk_target_type = target_type,
          tk_target_id = target_id,
          tk_task_type = tr_task_type t,
          tk_status = ''open'',
          tk_assignment_mode = tr_assignment_mode t,
          tk_assignee_user_id = tr_assignee_user_id t,
          tk_assignee_role_key = tr_assignee_role_key t,
          tk_candidate_role_keys = tr_candidate_role_keys t,
          tk_created_by = actor,
          tk_created_at = now,
          tk_due_at = due_time now (tr_due_after_seconds t),
          tk_escalate_at = due_time now (tr_escalate_after_seconds t),
          tk_metadata = md\<rparr>)"

definition allowed_link_actions :: "transition \<Rightarrow> string list" where
  "allowed_link_actions t =
     (if tr_link_allowed_actions t = [] \<and> \<not> tr_link_review_only t
      then [''approve'', ''reject''] else tr_link_allowed_actions t)"

definition approval_metadata :: "transition \<Rightarrow> gobj" where
  "approval_metadata t =
     (let md = [(''action'', GStr (tr_action t)),
                (''requires_different_actor'', GBool (tr_requires_different_actor t)),
                (''step_up_required'', GBool (tr_step_up_required t)),
                (''link_mode'', GStr (trim_space (tr_link_mode t))),
                (''link_ttl_seconds'', GInt (tr_link_ttl_seconds t)),
                (''link_review_only'', GBool (tr_link_review_only t)),
                (''link_require_step_up'', GBool (tr_link_require_step_up t)),
                (''link_allowed_actions'', GStrs (allowed_link_actions t))];
          md = (if tr_task_type t = [] then md else mput ''task_type'' (GStr (tr_task_type t)) md);
          md = merge_metadata md (tr_metadata t);
          md = (if tr_assignee_user_id t = [] then md
                else mput ''assignee_user_id'' (GStr (tr_assignee_user_id t)) md)
      in if tr_candidate_user_ids t = [] then md
         else mput ''candidate_user_ids'' (GStrs (tr_candidate_user_ids t)) md)"

definition planned_approval :: "transition \<Rightarrow> string \<Rightarrow> string \<Rightarrow> string \<Rightarrow> gotime \<Rightarrow> approval" where
  "planned_approval t target_type target_id actor now =
     \<lparr>ap_id = ''approval:'' @ target_id @ '':'' @ tr_action t,
      ap_workflow_key = tr_workflow_key t,
      ap_workflow_version = tr_workflow_version t,
      ap_target_type = target_type,
      ap_target_id = target_id,
      ap_status = ''pending'',
      ap_stage_key = tr_approval_stage_key t,
      ap_requested_by = actor,
      ap_requested_at = now,
      ap_resolved_by = [],
      ap_resolved_at = zero_time,
      ap_candidate_role_keys = tr_candidate_role_keys t,
      ap_due_at = due_time now (tr_due_after_seconds t),
      ap_metadata = approval_metadata t\<rparr>"

definition plan_create_side_effects ::
    "transition \<Rightarrow> string \<Rightarrow> string \<Rightarrow> string \<Rightarrow> gotime \<Rightarrow> mutation" where
  "plan_create_side_effects t target_type target_id actor now =
     empty_mutation\<lparr>
       mu_tasks := (if tr_task_type t = [] then []
                    else [planned_task t target_type target_id actor now]),
       mu_approvals := (if tr_create_approval t
                        then [planned_approval t target_type target_id actor now] else [])\<rparr>"

definition plan_resolve_artifacts ::
    "string \<Rightarrow> string \<Rightarrow> string \<Rightarrow> string \<Rightarrow> gotime \<Rightarrow> wf_repo \<Rightarrow> mutation" where
  "plan_resolve_artifacts target_id approval_status task_status actor now r =
     empty_mutation\<lparr>
       mu_approval_updates :=
         map (\<lambda>a. \<lparr>au_id = ap_id a, au_status = approval_status, au_resolved_by = actor,
                   au_resolved_at = now\<rparr>)
           (filter (\<lambda>a. ap_target_id a = target_id \<and> ap_status a = ''pending'') (list_approvals r)),
       mu_task_updates :=
         map (\<lambda>t. \<lparr>tu_id = tk_id t, tu_status = task_status, tu_resolved_by = actor,
                   tu_resolved_at = now\<rparr>)
           (filter (\<lambda>t. tk_target_id t = target_id \<and> tk_status t = ''open'') (list_tasks r))\<rparr>"

definition apply_mutation :: "mutation \<Rightarrow> wf_repo \<Rightarrow> goerr option \<times> wf_repo" where
  "apply_mutation m r =
     and_then (run_each save_task (mu_tasks m) r) (\<lambda>r.
     and_then (run_each save_approval (mu_approvals m) r) (\<lambda>r.
     and_then (run_each update_approval_status (mu_approval_updates m) r) (\<lambda>r.
     and_then (run_each update_task_status (mu_task_updates m) r) (\<lambda>r.
     run_each save_history (mu_history m) r))))"

definition create_side_effects ::
    "transition \<Rightarrow> string \<Rightarrow> string \<Rightarrow> gotime \<Rightarrow> wf_repo \<Rightarrow> goerr option \<times> wf_repo" where
  "create_side_effects t target_type target_id now r =
     apply_mutation (plan_create_side_effects t target_type target_id [] now) r"

definition resolve_artifacts ::
    "string \<Rightarrow> string \<Rightarrow> string \<Rightarrow> gotime \<Rightarrow> wf_repo \<Rightarrow> goerr option \<times> wf_repo" where
  "resolve_artifacts target_id approval_status task_status now r =
     apply_mutation (plan_resolve_artifacts target_id approval_status task_status [] now r) r"

definition resolve_approval :: "string \<Rightarrow> gotime \<Rightarrow> wf_repo \<Rightarrow> goerr option \<times> wf_repo" where
  "resolve_approval target_id now r =
     apply_mutation (plan_resolve_artifacts target_id ''approved'' ''completed'' [] now r) r"

definition find_task :: "string \<Rightarrow> wf_repo \<Rightarrow> task option" where
  "find_task wanted r = find (\<lambda>t. tk_id t = trim_space wanted) (list_tasks r)"

definition find_approval :: "string \<Rightarrow> wf_repo \<Rightarrow> approval option" where
  "find_approval wanted r = find (\<lambda>a. ap_id a = trim_space wanted) (list_approvals r)"

definition history_of :: "string \<Rightarrow> string \<Rightarrow> wf_repo \<Rightarrow> history_event list" where
  "history_of target_type target_id r =
     list_history (trim_space target_type) (trim_space target_id) r"

definition invalid_simulation :: "string list \<Rightarrow> simulation_result" where
  "invalid_simulation issues =
     \<lparr>sr_valid = False, sr_issues = issues, sr_transition = None, sr_planned_task = None,
      sr_planned_approval = None, sr_applied_assignments = []\<rparr>"

definition simulate :: "wf_definition \<Rightarrow> simulation_input \<Rightarrow> gotime \<Rightarrow> simulation_result" where
  "simulate def input now =
     (if \<not> vr_valid (validate def) then invalid_simulation (vr_issues (validate def))
      else case transition_for_definition def (si_current_state input) (si_action input) of
             Inl e \<Rightarrow> invalid_simulation [err_text e]
           | Inr t \<Rightarrow>
               (let m = plan_create_side_effects t ''document''
                          (first_non_empty [si_document_id input, ''simulation''])
                          (si_actor_id input) now
                in \<lparr>sr_valid = True, sr_issues = [], sr_transition = Some t,
                    sr_planned_task = (case mu_tasks m of [] \<Rightarrow> None | x # _ \<Rightarrow> Some x),
                    sr_planned_approval = (case mu_approvals m of [] \<Rightarrow> None | x # _ \<Rightarrow> Some x),
                    sr_applied_assignments =
                      (case mu_tasks m of [] \<Rightarrow> [] | x # _ \<Rightarrow> tk_metadata x)\<rparr>))"

section \<open>The service as it starts\<close>

definition generic_request_flow :: wf_definition where
  "generic_request_flow =
     plain_definition ''generic_request_flow''
       [''draft'', ''submitted'', ''approved'', ''rejected'', ''cancelled'']
       [(plain_rule ''submit'' ''draft'' ''submitted'' ''document.submit'')
          \<lparr>ar_task_type := ''review'', ar_create_approval := True,
           ar_assignment_mode := ''role_queue'', ar_assignee_role_key := ''approver'',
           ar_candidate_role_keys := [''approver''], ar_approval_stage_key := ''review'',
           ar_due_after_seconds := 24 * 60 * 60, ar_escalate_after_seconds := 48 * 60 * 60,
           ar_link_mode := ''tokenized'', ar_link_ttl_seconds := 24 * 60 * 60,
           ar_link_allowed_actions := [''approve'', ''reject'']\<rparr>,
        plain_rule ''approve'' ''submitted'' ''approved'' ''document.approve'',
        plain_rule ''reject'' ''submitted'' ''rejected'' ''document.reject'',
        plain_rule ''reopen'' ''rejected'' ''draft'' ''document.reopen'',
        plain_rule ''reopen'' ''approved'' ''draft'' ''document.reopen'',
        plain_rule ''cancel'' ''draft'' ''cancelled'' ''document.cancel'',
        plain_rule ''cancel'' ''submitted'' ''cancelled'' ''document.cancel'']"

definition new_wf_service :: "gotime \<Rightarrow> wf_repo" where
  "new_wf_service now = snd (register now generic_request_flow new_wf_repo)"

end
