(* ===== verification/WorkflowVersions.thy ===== *)
theory WorkflowVersions
  imports WorkflowService
begin

text \<open>
  The life cycle of workflow definitions: what every reachable repository satisfies
  (\<open>store_ok\<close>), the lineage of the versions of a key (\<open>lineage_ok\<close>) with its abstract
  reading as published versions plus at most one draft, and the immutability of what has been
  published.
\<close>

section \<open>Steps of the service on the stored definitions\<close>

text \<open>
  \<open>draft_only k r\<close>: the key exists and nothing of it is published yet. With \<open>g\<close> the step
  relation leaves out the registrations over such a key; without it, it has every call.
\<close>

definition draft_only :: "string \<Rightarrow> wf_repo \<Rightarrow> bool" where
  "draft_only k r \<longleftrightarrow> wf_versions r k \<noteq> [] \<and> get_definition k r = None"

inductive wf_step :: "bool \<Rightarrow> wf_repo \<Rightarrow> wf_repo \<Rightarrow> bool" for g where
  st_register: "(g \<Longrightarrow> \<not> draft_only (wd_key d) r) \<Longrightarrow> wf_step g r (snd (register now d r))"
| st_register_draft: "wf_step g r (snd (register_draft now d r))"
| st_delete: "wf_step g r (snd (delete k r))"
| st_create_draft: "wf_step g r (snd (create_draft now k actor r))"
| st_save_draft: "wf_step g r (snd (save_draft now d actor r))"
| st_publish: "wf_step g r (snd (publish now k v actor r))"
| st_mutation: "wf_step g r (snd (apply_mutation m r))"

inductive wf_reachable :: "bool \<Rightarrow> wf_repo \<Rightarrow> bool" for g where
  wf_start: "wf_reachable g new_wf_repo"
| wf_next: "wf_reachable g r \<Longrightarrow> wf_step g r r' \<Longrightarrow> wf_reachable g r'"

inductive_cases wf_stepE: "wf_step g r r'"

section \<open>The effect of each step on the versions of a key\<close>

text \<open>
  Every step leaves the versions of a key alone, appends one, drops them all, or rewrites the
  first draft of some version.
\<close>

datatype change = Keep | Append wf_definition | Drop | Edit int "wf_definition \<Rightarrow> wf_definition"

fun apply_change :: "change \<Rightarrow> wf_definition list \<Rightarrow> wf_definition list" where
  "apply_change Keep vs = vs"
| "apply_change (Append d) vs = vs @ [d]"
| "apply_change Drop vs = []"
| "apply_change (Edit n f) vs =
     (case update_first (is_draft n) f vs of None \<Rightarrow> vs | Some vs' \<Rightarrow> vs')"

text \<open>\<open>allowed g k vs c\<close>: what the code checks before it makes the change.\<close>

fun allowed :: "bool \<Rightarrow> string \<Rightarrow> wf_definition list \<Rightarrow> change \<Rightarrow> bool" where
  "allowed g k vs Keep \<longleftrightarrow> True"
| "allowed g k vs Drop \<longleftrightarrow> True"
| "allowed g k vs (Append d) \<longleftrightarrow>
     ((\<forall>x \<in> set vs. wd_key x = k) \<longrightarrow> wd_key d = k)
   \<and> ((\<forall>x \<in> set vs. validate_issues x = []) \<longrightarrow> validate_issues d = [])
   \<and> (wd_version d = 1 \<and> wd_status d = ''published'' \<and> (g \<longrightarrow> vs = [])
        \<or> wd_version d = 1 \<and> wd_status d = ''draft'' \<and> vs = []
        \<or> wd_status d = ''draft'' \<and> (\<forall>x \<in> set vs. wd_status x \<noteq> ''draft'')
          \<and> (\<exists>p. find (\<lambda>d. wd_status d = ''published'') (rev vs) = Some p
                 \<and> wd_version d = wd_version p + 1))"
| "allowed g k vs (Edit n f) \<longleftrightarrow>
     (\<forall>d. is_draft n d \<longrightarrow>
        wd_version (f d) = n \<and> wd_status (f d) \<in> {''draft'', ''published''}
      \<and> (wd_key d = k \<longrightarrow> wd_key (f d) = k)
      \<and> (validate_issues d = [] \<longrightarrow> validate_issues (f d) = []))"

lemma validate_issues_cong:
  "wd_key d = wd_key d' \<Longrightarrow> wd_states d = wd_states d' \<Longrightarrow> wd_actions d = wd_actions d' \<Longrightarrow>
     validate_issues d = validate_issues d'"
proof -
  assume eq: "wd_key d = wd_key d'" "wd_states d = wd_states d'" "wd_actions d = wd_actions d'"
  then have "state_set d = state_set d'" by (simp add: state_set_def)
  then have "rule_issues d = rule_issues d'" by (simp add: rule_issues_def fun_eq_iff)
  with eq show ?thesis by (simp add: validate_issues_def)
qed

lemma validate_definition_None: "validate_definition d = None \<longleftrightarrow> validate_issues d = []"
  by (simp add: validate_definition_def Let_def)

lemmas valid_simps = validate_definition_None validate_definition_None [THEN iffD2]

text \<open>Mutations of tasks and approvals do not touch the definitions.\<close>

lemma apply_mutation_definitions [simp]:
  "wr_definitions (snd (apply_mutation m r)) = wr_definitions r"
  by (simp add: apply_mutation_def and_then_frame [where g = wr_definitions]
      run_each_frame [where g = wr_definitions] save_task_def save_approval_def
      update_approval_status_def update_task_status_def save_history_def split: option.split)

lemma find_update_first:
  "find P vs = Some x \<Longrightarrow> update_first P f vs = Some (the (update_first P f vs))"
  using update_first_None [of P f vs] find_SomeD [of P vs x] by (cases "update_first P f vs") auto

lemma register_change:
  assumes "g \<Longrightarrow> \<not> draft_only (wd_key d) r"
  shows "\<exists>c. allowed g k (wf_versions r k) c \<and>
     wf_versions (snd (register now d r)) k = apply_change c (wf_versions r k)"
proof (cases "validate_definition d = None \<and> get_definition (wd_key d) r = None \<and> wd_key d = k")
  case True
  let ?d = "d\<lparr>wd_version := 1, wd_status := ''published'',
     wd_created_at := or_now now (wd_created_at d),
     wd_updated_at := or_now now (wd_updated_at d),
     wd_published_at := or_now now (wd_published_at d)\<rparr>"
  have "validate_issues ?d = validate_issues d" by (rule validate_issues_cong) simp_all
  with True assms show ?thesis
    by (intro exI [of _ "Append ?d"])
      (auto simp: register_def save_definition_def append_version_def Let_def draft_only_def
        valid_simps)
next
  case False
  then show ?thesis
    by (intro exI [of _ Keep])
      (auto simp: register_def save_definition_def append_version_def Let_def split: option.split)
qed

lemma register_draft_change:
  "\<exists>c. allowed g k (wf_versions r k) c \<and>
     wf_versions (snd (register_draft now d r)) k = apply_change c (wf_versions r k)"
proof (cases "validate_definition d = None \<and> map_of (wr_definitions r) (wd_key d) = None \<and> wd_key d = k")
  case True
  let ?d = "d\<lparr>wd_version := 1, wd_status := ''draft'',
     wd_created_at := or_now now (wd_created_at d),
     wd_updated_at := now\<rparr>"
  have "validate_issues ?d = validate_issues d" by (rule validate_issues_cong) simp_all
  with True show ?thesis
    by (intro exI [of _ "Append ?d"])
      (auto simp: register_draft_def save_definition_draft_def append_version_def Let_def
        mget_def valid_simps)
next
  case False
  then show ?thesis
    by (intro exI [of _ Keep])
      (auto simp: register_draft_def save_definition_draft_def append_version_def Let_def
        split: option.split)
qed

lemma create_draft_change:
  "\<exists>c. allowed g k (wf_versions r k) c \<and>
     wf_versions (snd (create_draft now k0 actor r)) k = apply_change c (wf_versions r k)"
proof (cases "trim_space k0 = k \<and> get_definition k r \<noteq> None
    \<and> (\<forall>d \<in> set (wf_versions r k). wd_status d \<noteq> ''draft'')")
  case True
  then obtain p where p: "get_definition k r = Some p" by auto
  let ?d = "p\<lparr>wd_version := wd_version p + 1, wd_status := ''draft'', wd_created_at := now,
     wd_updated_at := now, wd_updated_by := trim_space actor, wd_published_at := zero_time,
     wd_published_by := []\<rparr>"
  have "validate_issues ?d = validate_issues p" by (rule validate_issues_cong) simp_all
  moreover have "p \<in> set (wf_versions r k)"
    using p find_SomeD by (fastforce simp: get_definition_def)
  ultimately show ?thesis using True p
    by (intro exI [of _ "Append ?d"])
      (auto simp: create_draft_def create_draft_repo_def Let_def get_definition_def)
next
  case False
  then show ?thesis
    by (intro exI [of _ Keep])
      (auto simp: create_draft_def create_draft_repo_def Let_def split: option.split)
qed

lemma edit_change:
  assumes "find (is_draft n) (wf_versions r k) \<noteq> None" and "allowed g k (wf_versions r k) (Edit n f)"
  shows "\<exists>c. allowed g k (wf_versions r k) c \<and>
     the (update_first (is_draft n) f (wf_versions r k)) = apply_change c (wf_versions r k)"
proof -
  from assms(1) obtain x where "find (is_draft n) (wf_versions r k) = Some x" by auto
  then have "update_first (is_draft n) f (wf_versions r k)
      = Some (the (update_first (is_draft n) f (wf_versions r k)))"
    by (rule find_update_first)
  then have "the (update_first (is_draft n) f (wf_versions r k))
      = apply_change (Edit n f) (wf_versions r k)"
    by (metis apply_change.simps(4) option.simps(5))
  with assms(2) show ?thesis by blast
qed

lemma default_draft_simps [simp]:
  "wd_key (default_draft d) = wd_key d" "wd_version (default_draft d) = wd_version d"
  "wd_states (default_draft d) = wd_states d" "wd_actions (default_draft d) = wd_actions d"
  by (simp_all add: default_draft_def)

lemma save_draft_change:
  "\<exists>c. allowed g k (wf_versions r k) c \<and>
     wf_versions (snd (save_draft now d actor r)) k = apply_change c (wf_versions r k)"
proof -
  let ?d = "default_draft d"
  let ?f = "\<lambda>old::wf_definition. ?d\<lparr>wd_status := ''draft'', wd_created_at := wd_created_at old,
              wd_updated_at := now, wd_updated_by := actor\<rparr>"
  show ?thesis
  proof (cases "wd_status ?d = ''draft'' \<and> validate_definition ?d = None
      \<and> find (is_draft (wd_version d)) (wf_versions r k) \<noteq> None \<and> wd_key d = k")
    case True
    have "validate_issues (?f old) = validate_issues ?d" for old :: wf_definition
      by (rule validate_issues_cong) simp_all
    with True have "allowed g k (wf_versions r k) (Edit (wd_version d) ?f)"
      by (simp add: valid_simps)
    from edit_change [OF _ this] True show ?thesis
      by (auto simp: save_draft_def save_draft_repo_def Let_def valid_simps)
  next
    case False
    then show ?thesis
      by (intro exI [of _ Keep])
        (auto simp: save_draft_def save_draft_repo_def Let_def split: option.split)
  qed
qed

lemma publish_change:
  "\<exists>c. allowed g k (wf_versions r k) c \<and>
     wf_versions (snd (publish now k0 v actor r)) k = apply_change c (wf_versions r k)"
proof -
  let ?f = "\<lambda>draft::wf_definition. draft\<lparr>wd_status := ''published'', wd_published_at := now,
              wd_published_by := trim_space actor, wd_updated_at := now,
              wd_updated_by := trim_space actor\<rparr>"
  show ?thesis
  proof (cases "trim_space k0 = k \<and> find (is_draft v) (wf_versions r k) \<noteq> None")
    case True
    have "validate_issues (?f old) = validate_issues old" for old :: wf_definition
      by (rule validate_issues_cong) simp_all
    then have "allowed g k (wf_versions r k) (Edit v ?f)" by (simp add: is_draft_def)
    from edit_change [OF _ this] True show ?thesis
      by (auto simp: publish_def publish_definition_def Let_def split: option.split
          intro: exI [of _ Keep])
  next
    case False
    then show ?thesis
      by (intro exI [of _ Keep])
        (auto simp: publish_def publish_definition_def Let_def split: option.split)
  qed
qed

lemma delete_change:
  "\<exists>c. allowed g k (wf_versions r k) c \<and>
     wf_versions (snd (delete k0 r)) k = apply_change c (wf_versions r k)"
  by (cases "trim_space k0 = k \<and> k \<noteq> [] \<and> get_definition k r \<noteq> None")
    (auto simp: delete_def delete_definition_def Let_def intro: exI [of _ Drop] exI [of _ Keep])

lemmas step_changes = register_change register_draft_change create_draft_change save_draft_change
  publish_change delete_change

lemma wf_step_change:
  assumes "wf_step g r r'"
  shows "\<exists>c. allowed g k (wf_versions r k) c \<and> wf_versions r' k = apply_change c (wf_versions r k)"
  using assms
proof cases
  case (st_mutation m)
  then show ?thesis by (intro exI [of _ Keep]) simp
qed (simp_all add: step_changes)

section \<open>What every reachable repository satisfies\<close>

definition versions_ok :: "string \<Rightarrow> wf_definition list \<Rightarrow> bool" where
  "versions_ok k vs \<longleftrightarrow>
     (\<forall>d \<in> set vs. wd_key d = k \<and> validate_issues d = [] \<and> wd_status d \<in> {''draft'', ''published''})
   \<and> length (filter (\<lambda>d. wd_status d = ''draft'') vs) \<le> 1"

definition store_ok :: "wf_repo \<Rightarrow> bool" where
  "store_ok r \<longleftrightarrow> (\<forall>k. versions_ok k (wf_versions r k))"

lemma versions_ok_Nil [simp]: "versions_ok k []"
  by (simp add: versions_ok_def)

lemma versions_ok_edit:
  assumes ok: "versions_ok k vs" and al: "allowed g k vs (Edit n f)"
  shows "versions_ok k (apply_change (Edit n f) vs)"
proof (cases "update_first (is_draft n) f vs")
  case None
  then show ?thesis using ok by simp
next
  case (Some ys)
  from update_first_split [OF this] obtain us x ws where
    vs: "vs = us @ x # ws" and x: "is_draft n x" and ys: "ys = us @ f x # ws" by blast
  from al x have fx: "wd_status (f x) \<in> {''draft'', ''published''}"
    "wd_key x = k \<longrightarrow> wd_key (f x) = k" "validate_issues x = [] \<longrightarrow> validate_issues (f x) = []"
    by simp_all
  from ok x have "filter (\<lambda>d. wd_status d = ''draft'') us = []"
    "filter (\<lambda>d. wd_status d = ''draft'') ws = []"
    by (auto simp: versions_ok_def vs is_draft_def)
  with ok fx have "versions_ok k ys" by (simp add: versions_ok_def ys vs)
  with Some show ?thesis by simp
qed

lemma versions_ok_change: "versions_ok k vs \<Longrightarrow> allowed g k vs c \<Longrightarrow> versions_ok k (apply_change c vs)"
proof (cases c)
  case (Append d)
  assume ok: "versions_ok k vs" and "allowed g k vs c"
  with Append have "wd_key d = k" "validate_issues d = []" "wd_status d \<in> {''draft'', ''published''}"
    "wd_status d = ''draft'' \<longrightarrow> filter (\<lambda>d. wd_status d = ''draft'') vs = []"
    by (auto simp: versions_ok_def)
  with ok show ?thesis by (auto simp: versions_ok_def Append)
qed (use versions_ok_edit in auto)

lemma store_ok_step: "store_ok r \<Longrightarrow> wf_step g r r' \<Longrightarrow> store_ok r'"
  unfolding store_ok_def using wf_step_change versions_ok_change by metis

lemma store_ok_reachable: "wf_reachable g r \<Longrightarrow> store_ok r"
proof (induction rule: wf_reachable.induct)
  case wf_start
  show ?case by (simp add: store_ok_def new_wf_repo_def)
qed (rule store_ok_step)

lemma get_definition_elem:
  "get_definition k r = Some d \<Longrightarrow> d \<in> set (wf_versions r k) \<and> wd_status d = ''published''"
  using find_SomeD by (fastforce simp: get_definition_def)

lemma get_definition_version_elem:
  "get_definition_version k v r = Some d \<Longrightarrow> d \<in> set (wf_versions r k) \<and> wd_version d = v"
  using find_SomeD by (fastforce simp: get_definition_version_def)

section \<open>Lineage: consecutive versions, at most the last a draft\<close>

definition lineage_ok :: "wf_definition list \<Rightarrow> bool" where
  "lineage_ok vs \<longleftrightarrow>
     map wd_version vs = map int [1..<Suc (length vs)]
   \<and> (\<forall>d \<in> set (butlast vs). wd_status d = ''published'')
   \<and> (\<forall>d \<in> set vs. wd_status d \<in> {''draft'', ''published''})"

lemma lineage_ok_Nil [simp]: "lineage_ok []"
  by (simp add: lineage_ok_def)

lemma lineage_last_version:
  assumes "lineage_ok vs" "vs \<noteq> []"
  shows "wd_version (last vs) = int (length vs)"
proof -
  from assms(2) obtain us x where vs: "vs = us @ [x]" by (cases vs rule: rev_cases) auto
  with assms(1) show ?thesis by (simp add: lineage_ok_def)
qed

lemma lineage_no_draft:
  "lineage_ok vs \<Longrightarrow> \<forall>d \<in> set vs. wd_status d \<noteq> ''draft'' \<Longrightarrow> \<forall>d \<in> set vs. wd_status d = ''published''"
  by (auto simp: lineage_ok_def)

lemma lineage_draft_last:
  assumes "lineage_ok vs" "find (is_draft n) vs = Some x"
  shows "vs = butlast vs @ [x] \<and> n = int (length vs) \<and> update_first (is_draft n) f vs = Some (butlast vs @ [f x])"
proof -
  from find_split [OF assms(2)] obtain us ws where
    vs: "vs = us @ x # ws" "\<forall>u \<in> set us. \<not> is_draft n u" "is_draft n x" by blast
  have "ws = []"
  proof (rule ccontr)
    assume "ws \<noteq> []"
    then have "x \<in> set (butlast vs)" by (simp add: vs(1) butlast_append)
    with assms(1) vs(3) show False by (auto simp: lineage_ok_def is_draft_def)
  qed
  moreover have "update_first (is_draft n) f (us @ [x]) = Some (us @ [f x])"
    using vs(2,3) by (induction us) auto
  moreover have "wd_version (last vs) = int (length vs)"
    using assms(1) vs(1) by (intro lineage_last_version) simp_all
  ultimately show ?thesis using vs by (simp add: is_draft_def)
qed

lemma lineage_ok_snoc:
  "lineage_ok (vs @ [d]) \<longleftrightarrow>
     map wd_version vs = map int [1..<Suc (length vs)] \<and> wd_version d = int (length vs) + 1
   \<and> (\<forall>x \<in> set vs. wd_status x = ''published'') \<and> wd_status d \<in> {''draft'', ''published''}"
  by (auto simp: lineage_ok_def)

lemma lineage_ok_append:
  assumes "lineage_ok vs" and al: "allowed True k vs (Append d)"
  shows "lineage_ok (vs @ [d])"
proof -
  from al consider "vs = []" "wd_version d = 1" "wd_status d \<in> {''draft'', ''published''}"
    | p where "wd_status d = ''draft''" "\<forall>x \<in> set vs. wd_status x \<noteq> ''draft''"
        "find (\<lambda>d. wd_status d = ''published'') (rev vs) = Some p" "wd_version d = wd_version p + 1"
    by auto
  then show ?thesis
  proof cases
    case 1
    then show ?thesis by (simp add: lineage_ok_def)
  next
    case 2
    from 2(3) have ne: "vs \<noteq> []" by auto
    from lineage_no_draft [OF assms(1) 2(2)] have pub: "\<forall>x \<in> set vs. wd_status x = ''published''" .
    with 2(3) ne have "p = last vs" by (cases vs rule: rev_cases) auto
    with 2(1,4) pub lineage_last_version [OF assms(1) ne] assms(1) show ?thesis
      by (simp add: lineage_ok_snoc) (simp add: lineage_ok_def Suc_le_eq)
  qed
qed

lemma lineage_ok_change: "lineage_ok vs \<Longrightarrow> allowed True k vs c \<Longrightarrow> lineage_ok (apply_change c vs)"
proof (cases c)
  case (Edit n f)
  assume ok: "lineage_ok vs" and al: "allowed True k vs c"
  show ?thesis
  proof (cases "find (is_draft n) vs")
    case None
    then have "update_first (is_draft n) f vs = None"
      by (simp add: update_first_None find_None_iff)
    with ok Edit show ?thesis by simp
  next
    case (Some x)
    from lineage_draft_last [OF ok Some] have x: "vs = butlast vs @ [x]" "n = int (length vs)"
      "update_first (is_draft n) f vs = Some (butlast vs @ [f x])" by blast+
    from ok x(1) have b: "lineage_ok (butlast vs @ [x])" by simp
    from find_SomeD [OF Some] al Edit have "wd_version (f x) = wd_version x"
      "wd_status (f x) \<in> {''draft'', ''published''}" by (auto simp: is_draft_def)
    with b have "lineage_ok (butlast vs @ [f x])" by (simp add: lineage_ok_snoc)
    with x(3) Edit show ?thesis by simp
  qed
qed (use lineage_ok_append in auto)

lemma lineage_reachable: "wf_reachable True r \<Longrightarrow> lineage_ok (wf_versions r k)"
proof (induction rule: wf_reachable.induct)
  case wf_start
  show ?case by (simp add: new_wf_repo_def)
next
  case (wf_next r r')
  then show ?case using wf_step_change [of True r r' k] lineage_ok_change by metis
qed

text \<open>The abstract reading of a key: what is published, and the draft if there is one.\<close>

definition published_of :: "wf_definition list \<Rightarrow> wf_definition list" where
  "published_of vs = filter (\<lambda>d. wd_status d = ''published'') vs"

definition draft_of :: "wf_definition list \<Rightarrow> wf_definition option" where
  "draft_of vs = find (\<lambda>d. wd_status d = ''draft'') vs"

lemma get_definition_last:
  "get_definition k r = (if published_of (wf_versions r k) = [] then None
     else Some (last (published_of (wf_versions r k))))"
proof -
  have "find P (rev vs) = (if filter P vs = [] then None else Some (last (filter P vs)))"
    for P and vs :: "wf_definition list"
    by (induction vs rule: rev_induct) auto
  then show ?thesis by (simp add: get_definition_def published_of_def)
qed

section \<open>Properties\<close>

lemma transition_states:
  assumes "validate_issues d = []" "transition_for_definition d s a = Inr t"
  shows "tr_from_state t = s \<and> tr_action t = a \<and> tr_workflow_version t = wd_version d
    \<and> tr_from_state t \<in> set (state_set d) \<and> tr_to_state t \<in> set (state_set d)"
proof -
  from assms(2) obtain rule where
    find: "find (\<lambda>rule. ar_action rule = a \<and> ar_from_state rule = s) (wd_actions d) = Some rule"
    and t: "t = transition_of_rule d s a rule"
    by (auto simp: transition_for_definition_def split: option.splits)
  from find_SomeD [OF find] have "rule \<in> set (wd_actions d)" "ar_from_state rule = s" by auto
  with assms(1) have "rule_issues d rule = []" by (simp add: validate_issues_def)
  with \<open>ar_from_state rule = s\<close> show ?thesis
    by (auto simp: t transition_of_rule_def rule_issues_def split: if_splits)
qed

lemma execute_version_definition:
  assumes "execute_version k v s a r = Inr t"
  shows "\<exists>d \<in> set (wf_versions r k). transition_for_definition d s a = Inr t"
  using assms get_definition_elem get_definition_version_elem
  by (fastforce simp: execute_version_def execute_def split: if_splits option.splits)


lemma trim_literal [simp]:
  "trim_space ''draft'' = ''draft''" "trim_space ''submitted'' = ''submitted''"
  "trim_space ''approved'' = ''approved''" "trim_space ''rejected'' = ''rejected''"
  "trim_space ''cancelled'' = ''cancelled''" "trim_space ''submit'' = ''submit''"
  "trim_space ''approve'' = ''approve''" "trim_space ''reject'' = ''reject''"
  "trim_space ''reopen'' = ''reopen''" "trim_space ''cancel'' = ''cancel''"
  "trim_space ''generic_request_flow'' = ''generic_request_flow''"
  by (simp_all add: trim_space_visible visible_def)

lemma generic_flow_valid: "validate_issues generic_request_flow = []"
  by (simp add: validate_issues_def generic_request_flow_def plain_definition_def plain_rule_def
      state_set_def rule_issues_def)

lemma generic_flow_fields [simp]:
  "wd_key generic_request_flow = ''generic_request_flow''" "wd_created_at generic_request_flow = 0"
  "wd_updated_at generic_request_flow = 0" "wd_published_at generic_request_flow = 0"
  by (simp_all add: generic_request_flow_def plain_definition_def)

lemma generic_flow_stored:
  "wf_versions (snd (register 5 generic_request_flow new_wf_repo)) ''generic_request_flow'' =
     [generic_request_flow\<lparr>wd_version := 1, wd_status := ''published'', wd_created_at := 5,
        wd_updated_at := 5, wd_published_at := 5\<rparr>]"
  using generic_flow_valid
  by (simp add: register_def valid_simps save_definition_def append_version_def
      get_definition_def new_wf_repo_def or_now_def go_defs)

lemma generic_flow_reachable: "wf_reachable g (snd (register 5 generic_request_flow new_wf_repo))"
  by (rule wf_next [OF wf_start], rule st_register) (simp add: draft_only_def new_wf_repo_def)


text \<open>
  As long as no definition is registered over a key that only has an unpublished draft, the
  versions of every key are numbered 1, 2, 3, ... in the order they were added, and all of them
  but the last are published, so there is never a second draft.
\<close>

theorem versions_are_consecutive:
  assumes "wf_reachable True r"
  shows "map wd_version (wf_versions r k) = map int [1..<Suc (length (wf_versions r k))]
    \<and> (\<forall>d \<in> set (butlast (wf_versions r k)). wd_status d = ''published'')"
  using lineage_reachable [OF assms, of k] by (simp only: lineage_ok_def) blast

theorem versions_are_consecutive_witness:
  "map wd_version (wf_versions (snd (register 5 generic_request_flow new_wf_repo)) ''generic_request_flow'') = [1]"
  using versions_are_consecutive [OF generic_flow_reachable [of True], of "''generic_request_flow''"]
  by (simp add: generic_flow_stored)

text \<open>
  C21: published versions are immutable. Whatever call is made on the service, an entry that is
  published keeps its place and its content, unless the call deleted the whole workflow.
\<close>

theorem published_versions_immutable:
  assumes step: "wf_step g r r'" and kept: "wf_versions r' k \<noteq> []"
    and i: "i < length (wf_versions r k)" and pub: "wd_status (wf_versions r k ! i) = ''published''"
  shows "i < length (wf_versions r' k) \<and> wf_versions r' k ! i = wf_versions r k ! i"
proof -
  from wf_step_change [OF step, of k] obtain c where
    c: "wf_versions r' k = apply_change c (wf_versions r k)" by blast
  show ?thesis
  proof (cases c)
    case Drop
    with c kept show ?thesis by simp
  next
    case (Edit n f)
    show ?thesis
    proof (cases "update_first (is_draft n) f (wf_versions r k)")
      case None
      with c Edit i show ?thesis by simp
    next
      case (Some ys)
      from update_first_split [OF this] obtain us x ws where
        vs: "wf_versions r k = us @ x # ws" "is_draft n x" "ys = us @ f x # ws" by blast
      with pub have "i \<noteq> length us" by (auto simp: is_draft_def)
      with vs i c Edit Some show ?thesis
        by (cases "i < length us") (auto simp: nth_append nth_Cons split: nat.split)
    qed
  qed (use c i in \<open>auto simp: nth_append\<close>)
qed

theorem published_versions_immutable_witness:
  "let r = snd (register 5 generic_request_flow new_wf_repo);
       r' = snd (create_draft 9 ''generic_request_flow'' ''ann'' r)
   in wf_versions r' ''generic_request_flow'' ! 0 = wf_versions r ''generic_request_flow'' ! 0
      \<and> length (wf_versions r' ''generic_request_flow'') = 2"
proof -
  let ?r = "snd (register 5 generic_request_flow new_wf_repo)"
  let ?r' = "snd (create_draft 9 ''generic_request_flow'' ''ann'' ?r)"
  have two: "length (wf_versions ?r' ''generic_request_flow'') = 2"
    by (simp add: create_draft_def create_draft_repo_def get_definition_def generic_flow_stored Let_def)
  have "wf_step True ?r ?r'" by (rule st_create_draft)
  moreover have "wf_versions ?r' ''generic_request_flow'' \<noteq> []" using two by auto
  ultimately have "wf_versions ?r' ''generic_request_flow'' ! 0 = wf_versions ?r ''generic_request_flow'' ! 0"
    using published_versions_immutable [of True ?r ?r' "''generic_request_flow''" 0]
    by (simp add: generic_flow_stored)
  with two show ?thesis by (simp add: Let_def)
qed

lemma publish_ok:
  assumes "publish now k v actor r = (Inr d, r')" "trim_space k = k"
  shows "\<exists>x. find (is_draft v) (wf_versions r k) = Some x
    \<and> d = x\<lparr>wd_status := ''published'', wd_published_at := now, wd_published_by := trim_space actor,
            wd_updated_at := now, wd_updated_by := trim_space actor\<rparr>
    \<and> r' = r\<lparr>wr_definitions := mput k (the (update_first (is_draft v)
          (\<lambda>x. x\<lparr>wd_status := ''published'', wd_published_at := now,
             wd_published_by := trim_space actor, wd_updated_at := now,
             wd_updated_by := trim_space actor\<rparr>) (wf_versions r k))) (wr_definitions r)\<rparr>"
  using assms by (auto simp: publish_def publish_definition_def Let_def split: option.splits if_splits)

lemma lineage_parts:
  assumes "lineage_ok (vs @ [x])"
  shows "published_of vs = vs" "draft_of vs = None"
  using assms by (auto simp: lineage_ok_snoc published_of_def draft_of_def find_None_iff
      intro!: filter_True)


definition drafted_repo :: wf_repo where
  "drafted_repo = snd (create_draft 9 ''generic_request_flow'' []
     (snd (register 5 generic_request_flow new_wf_repo)))"

lemma drafted_repo_versions:
  "wf_versions drafted_repo ''generic_request_flow'' =
     [generic_request_flow\<lparr>wd_version := 1, wd_status := ''published'', wd_created_at := 5,
        wd_updated_at := 5, wd_published_at := 5\<rparr>,
      generic_request_flow\<lparr>wd_version := 2, wd_status := ''draft'', wd_created_at := 9,
        wd_updated_at := 9, wd_updated_by := [], wd_published_at := 0, wd_published_by := []\<rparr>]"
  by (simp add: drafted_repo_def create_draft_def create_draft_repo_def get_definition_def
      generic_flow_stored Let_def go_defs)


definition two_state_flow :: "string \<Rightarrow> wf_definition" where
  "two_state_flow target = plain_definition ''k'' [''a'', target] [plain_rule ''go'' ''a'' target []]"

text \<open>
  The guard of the lineage properties is needed. \<open>Register\<close> only looks for a published
  definition, so it is accepted over a key that holds an unpublished draft and adds a second
  version 1; publishing the draft then succeeds, yet \<open>Get\<close> keeps returning the registered
  definition, so the publication has no effect.
\<close>

theorem register_over_draft_hides_publication:
  "let r1 = snd (register_draft 1 (two_state_flow ''b'') new_wf_repo);
       r2 = snd (register 2 (two_state_flow ''c'') r1);
       (res, r3) = publish 3 ''k'' 1 ''ann'' r2
   in map wd_version (wf_versions r2 ''k'') = [1, 1]
      \<and> map_sum (\<lambda>_. ()) wd_states res = Inr [''a'', ''b'']
      \<and> map_sum (\<lambda>_. ()) wd_states (get ''k'' r3) = Inr [''a'', ''c'']"
  by code_simp

end
