(* ===== verification/WorkflowTasks.thy ===== *)
theory WorkflowTasks
  imports WorkflowVersions
begin

text \<open>
  Tasks and approvals: what a transition plans, the effect of applying a mutation, and the
  closing of the open work of a target. The last section shows what the deterministic task
  identifiers of the code lead to when a document is submitted a second time.
\<close>

section \<open>Applying a mutation\<close>

lemma run_each_save_task: "run_each save_task ts r = (None, r\<lparr>wr_tasks := wr_tasks r @ ts\<rparr>)"
  by (induction ts arbitrary: r) (auto simp: save_task_def)

lemma run_each_save_approval:
  "run_each save_approval as r = (None, r\<lparr>wr_approvals := wr_approvals r @ as\<rparr>)"
  by (induction as arbitrary: r) (auto simp: save_approval_def)

lemma run_each_save_history:
  "run_each save_history es r = (None, r\<lparr>wr_history := wr_history r @ es\<rparr>)"
  by (induction es arbitrary: r) (auto simp: save_history_def)

lemmas run_each_saves = run_each_save_task run_each_save_approval run_each_save_history

text \<open>
  A loop of status updates over records with distinct identifiers touches every named record
  once per update and nothing else. The lemma covers tasks and approvals at once: \<open>sel\<close> and
  \<open>put\<close> read and write the list in the repository, \<open>key\<close> is the record's identifier,
  \<open>res\<close> the edit.
\<close>

definition resolve_all :: "('a \<Rightarrow> string) \<Rightarrow> ('u \<Rightarrow> string) \<Rightarrow> ('u \<Rightarrow> 'a \<Rightarrow> 'a) \<Rightarrow> 'u list \<Rightarrow> 'a \<Rightarrow> 'a" where
  "resolve_all key ukey res us x = fold (\<lambda>u x. if key x = ukey u then res u x else x) us x"

lemma resolve_all_simps [simp]:
  "resolve_all key ukey res [] x = x"
  "resolve_all key ukey res (u # us) x =
     resolve_all key ukey res us (if key x = ukey u then res u x else x)"
  by (simp_all add: resolve_all_def)

lemma resolve_task_id [simp]: "tk_id (resolve_task u t) = tk_id t"
  "tk_status (resolve_task u t) = tu_status u" "tk_target_id (resolve_task u t) = tk_target_id t"
  by (simp_all add: resolve_task_def Let_def)

lemma resolve_approval_id [simp]: "ap_id (resolve_approval_record u a) = ap_id a"
  "ap_status (resolve_approval_record u a) = au_status u"
  "ap_target_id (resolve_approval_record u a) = ap_target_id a"
  by (simp_all add: resolve_approval_record_def Let_def)

lemma update_loop:
  fixes sel :: "'r \<Rightarrow> 'a list" and put :: "'a list \<Rightarrow> 'r \<Rightarrow> 'r"
  assumes upd: "\<And>u r. f u r = (case update_first (\<lambda>x. key x = ukey u) (res u) (sel r) of
       Some xs \<Rightarrow> (None, put xs r) | None \<Rightarrow> (Some (err u), r))"
    and lens: "\<And>xs r. sel (put xs r) = xs" "\<And>xs ys r. put xs (put ys r) = put xs r"
    and key: "\<And>u x. key (res u x) = key x"
    and put_id: "\<And>r. put (sel r) r = r"
  shows "distinct (map key (sel r)) \<Longrightarrow> ukey ` set us \<subseteq> key ` set (sel r) \<Longrightarrow>
     run_each f us r = (None, put (map (resolve_all key ukey res us) (sel r)) r)"
proof (induction us arbitrary: r)
  case Nil
  then show ?case by (simp add: put_id)
next
  case (Cons u us)
  let ?xs = "map (\<lambda>x. if key x = ukey u then res u x else x) (sel r)"
  have "update_first (\<lambda>x. key x = ukey u) (res u) (sel r) \<noteq> None"
    using Cons.prems(2) by (auto simp: update_first_None)
  then have "f u r = (None, put ?xs r)"
    using update_first_unique [OF Cons.prems(1), of "ukey u" "res u"] by (auto simp: upd)
  moreover have "run_each f us (put ?xs r) = (None, put (map (resolve_all key ukey res us) ?xs) r)"
  proof -
    have keys: "map key ?xs = map key (sel r)" by (simp add: key)
    then have dist: "distinct (map key (sel (put ?xs r)))" using Cons.prems(1) by (simp only: lens)
    from keys have "key ` set ?xs = key ` set (sel r)" by (metis list.set_map)
    then have "ukey ` set us \<subseteq> key ` set (sel (put ?xs r))"
      using Cons.prems(2) by (simp only: lens) simp
    from Cons.IH [OF dist this] show ?thesis by (simp only: lens)
  qed
  ultimately show ?case by (simp add: comp_def)
qed

lemma update_tasks_loop:
  "distinct (map tk_id (wr_tasks r)) \<Longrightarrow> tu_id ` set us \<subseteq> tk_id ` set (wr_tasks r) \<Longrightarrow>
     run_each update_task_status us r =
       (None, r\<lparr>wr_tasks := map (resolve_all tk_id tu_id resolve_task us) (wr_tasks r)\<rparr>)"
  by (rule update_loop [where sel = wr_tasks and put = "\<lambda>xs r. r\<lparr>wr_tasks := xs\<rparr>"])
    (auto simp: update_task_status_def)

lemma update_approvals_loop:
  "distinct (map ap_id (wr_approvals r)) \<Longrightarrow> au_id ` set us \<subseteq> ap_id ` set (wr_approvals r) \<Longrightarrow>
     run_each update_approval_status us r =
       (None, r\<lparr>wr_approvals := map (resolve_all ap_id au_id resolve_approval_record us) (wr_approvals r)\<rparr>)"
  by (rule update_loop [where sel = wr_approvals and put = "\<lambda>xs r. r\<lparr>wr_approvals := xs\<rparr>"])
    (auto simp: update_approval_status_def)

lemma resolve_all_frame:
  assumes "\<And>u x. key (res u x) = key x" "\<And>u x. fld (res u x) = fld x"
  shows "fld (resolve_all key ukey res us x) = fld x"
  using assms by (induction us arbitrary: x) auto

lemma resolve_all_status:
  assumes "\<And>u x. key (res u x) = key x" "\<And>u x. st (res u x) = ust u" "\<forall>u \<in> set us. ust u = s"
  shows "st (resolve_all key ukey res us x) = (if key x \<in> ukey ` set us then s else st x)"
  using assms(3)
proof (induction us arbitrary: x)
  case (Cons u us)
  then show ?case by (auto simp: assms(1,2))
qed simp

lemma resolve_all_other: "key x \<notin> ukey ` set us \<Longrightarrow> resolve_all key ukey res us x = x"
  by (induction us) auto

section \<open>Closing the work of a target\<close>

lemma resolve_artifacts_effect:
  fixes target task_status approval_status :: string and now :: gotime and r :: wf_repo
  defines "tu \<equiv> map (\<lambda>t. \<lparr>tu_id = tk_id t, tu_status = task_status, tu_resolved_by = [], tu_resolved_at = now\<rparr>)
      (filter (\<lambda>t. tk_target_id t = target \<and> tk_status t = ''open'') (list_tasks r))"
    and "au \<equiv> map (\<lambda>a. \<lparr>au_id = ap_id a, au_status = approval_status, au_resolved_by = [], au_resolved_at = now\<rparr>)
      (filter (\<lambda>a. ap_target_id a = target \<and> ap_status a = ''pending'') (list_approvals r))"
  assumes "distinct (map tk_id (wr_tasks r))" "distinct (map ap_id (wr_approvals r))"
  shows "resolve_artifacts target approval_status task_status now r =
    (None, r\<lparr>wr_tasks := map (resolve_all tk_id tu_id resolve_task tu) (wr_tasks r),
             wr_approvals := map (resolve_all ap_id au_id resolve_approval_record au) (wr_approvals r)\<rparr>)"
proof -
  have plan: "plan_resolve_artifacts target approval_status task_status [] now r =
      empty_mutation\<lparr>mu_approval_updates := au, mu_task_updates := tu\<rparr>"
    by (simp add: plan_resolve_artifacts_def tu_def au_def)
  have sub: "au_id ` set au \<subseteq> ap_id ` set (wr_approvals r)" "tu_id ` set tu \<subseteq> tk_id ` set (wr_tasks r)"
    by (auto simp: tu_def au_def list_tasks_def list_approvals_def)
  show ?thesis
    using update_approvals_loop [OF assms(4) sub(1)]
      update_tasks_loop [of "r\<lparr>wr_approvals := map (resolve_all ap_id au_id resolve_approval_record au) (wr_approvals r)\<rparr>" tu]
      assms(3) sub(2)
    by (simp add: resolve_artifacts_def plan apply_mutation_def empty_mutation_def)
qed

text \<open>
  Closing the work of a target is complete and exact. If task and approval identifiers are
  unique, \<open>ResolveArtifacts\<close> cannot fail; every open task of the target gets the given task
  status and every pending approval the given approval status, and no other task or approval,
  of this or another target, changes at all.
\<close>

theorem resolve_artifacts_closes_target:
  assumes "distinct (map tk_id (wr_tasks r))" and "distinct (map ap_id (wr_approvals r))"
    and "i < length (wr_tasks r)" and "j < length (wr_approvals r)"
    and res: "resolve_artifacts target approval_status task_status now r = (e, r')"
  shows "e = None
    \<and> (if tk_target_id (wr_tasks r ! i) = target \<and> tk_status (wr_tasks r ! i) = ''open''
         then tk_status (wr_tasks r' ! i) = task_status \<and> tk_id (wr_tasks r' ! i) = tk_id (wr_tasks r ! i)
         else wr_tasks r' ! i = wr_tasks r ! i)
    \<and> (if ap_target_id (wr_approvals r ! j) = target \<and> ap_status (wr_approvals r ! j) = ''pending''
         then ap_status (wr_approvals r' ! j) = approval_status
            \<and> ap_id (wr_approvals r' ! j) = ap_id (wr_approvals r ! j)
         else wr_approvals r' ! j = wr_approvals r ! j)"
proof (intro conjI)
  let ?open = "\<lambda>t. tk_target_id t = target \<and> tk_status t = ''open''"
  let ?pend = "\<lambda>a. ap_target_id a = target \<and> ap_status a = ''pending''"
  define tu where "tu = map (\<lambda>t. \<lparr>tu_id = tk_id t, tu_status = task_status, tu_resolved_by = [], tu_resolved_at = now\<rparr>)
      (filter ?open (list_tasks r))"
  define au where "au = map (\<lambda>a. \<lparr>au_id = ap_id a, au_status = approval_status, au_resolved_by = [], au_resolved_at = now\<rparr>)
      (filter ?pend (list_approvals r))"
  have eff: "e = None" "wr_tasks r' ! i = resolve_all tk_id tu_id resolve_task tu (wr_tasks r ! i)"
    "wr_approvals r' ! j = resolve_all ap_id au_id resolve_approval_record au (wr_approvals r ! j)"
    using resolve_artifacts_effect [OF assms(1,2), of target approval_status task_status now] res assms(3,4)
    by (simp_all add: tu_def au_def)
  show "e = None" by (rule eff)
  have t: "tk_id (wr_tasks r ! i) \<in> tu_id ` set tu \<longleftrightarrow> ?open (wr_tasks r ! i)"
    using assms(1,3) by (auto simp: tu_def list_tasks_def image_iff distinct_map inj_on_def
        intro: exI [of _ "wr_tasks r ! i"])
  have a: "ap_id (wr_approvals r ! j) \<in> au_id ` set au \<longleftrightarrow> ?pend (wr_approvals r ! j)"
    using assms(2,4) by (auto simp: au_def list_approvals_def image_iff distinct_map inj_on_def
        intro: exI [of _ "wr_approvals r ! j"])
  have "\<forall>u \<in> set tu. tu_status u = task_status" "\<forall>u \<in> set au. au_status u = approval_status"
    by (auto simp: tu_def au_def)
  note st = resolve_all_status [of tk_id resolve_task tk_status tu_status, OF _ _ this(1)]
    resolve_all_status [of ap_id resolve_approval_record ap_status au_status, OF _ _ this(2)]
  show "if ?open (wr_tasks r ! i)
         then tk_status (wr_tasks r' ! i) = task_status \<and> tk_id (wr_tasks r' ! i) = tk_id (wr_tasks r ! i)
         else wr_tasks r' ! i = wr_tasks r ! i"
    using t by (auto simp: eff st resolve_all_other resolve_all_frame [where fld = tk_id])
  show "if ?pend (wr_approvals r ! j)
         then ap_status (wr_approvals r' ! j) = approval_status
            \<and> ap_id (wr_approvals r' ! j) = ap_id (wr_approvals r ! j)
         else wr_approvals r' ! j = wr_approvals r ! j"
    using a by (auto simp: eff st resolve_all_other resolve_all_frame [where fld = ap_id])
qed

text \<open>A repository with one open task and one pending approval of \<open>doc1\<close>.\<close>

definition submit_transition :: transition where
  "submit_transition = transition_of_rule generic_request_flow ''draft'' ''submit'' (hd (wd_actions generic_request_flow))"

definition submitted_repo :: wf_repo where
  "submitted_repo = snd (create_side_effects submit_transition ''document'' ''doc1'' 10 new_wf_repo)"

lemma submitted_repo_fields:
  "map tk_id (wr_tasks submitted_repo) = [''task:doc1:submit'']"
  "map ap_id (wr_approvals submitted_repo) = [''approval:doc1:submit'']"
  "map tk_status (wr_tasks submitted_repo) = [''open'']"
  "map tk_target_id (wr_tasks submitted_repo) = [''doc1'']"
  by code_simp+

theorem resolve_artifacts_closes_target_witness:
  "tk_status (wr_tasks (snd (resolve_artifacts ''doc1'' ''approved'' ''completed'' 11 submitted_repo)) ! 0)
     = ''completed''"
proof -
  obtain e r' where res: "resolve_artifacts ''doc1'' ''approved'' ''completed'' 11 submitted_repo = (e, r')"
    by (cases "resolve_artifacts ''doc1'' ''approved'' ''completed'' 11 submitted_repo")
  have len: "0 < length (wr_tasks submitted_repo)" "0 < length (wr_approvals submitted_repo)"
    using submitted_repo_fields(1,2) by (auto simp: length_greater_0_conv)
  have "tk_status (wr_tasks submitted_repo ! 0) = ''open''" "tk_target_id (wr_tasks submitted_repo ! 0) = ''doc1''"
    using submitted_repo_fields(3,4) len by (metis nth_Cons_0 nth_map)+
  then show ?thesis
    using resolve_artifacts_closes_target [OF _ _ len res] res submitted_repo_fields(1,2) by simp
qed

text \<open>
  The uniqueness hypothesis fails in ordinary use. Identifiers are derived from the
  target and the action only, so submitting a reopened document adds a second task and a second
  approval under the identifiers of the first ones. \<open>UpdateTaskStatus\<close> and
  \<open>UpdateApprovalStatus\<close> update the first match, which is the closed one: after
  submit, resolve, submit, resolve the second task is still open and the second approval pending,
  although every call reported success.
\<close>

theorem resubmitted_work_stays_open:
  "let (e1, r1) = create_side_effects submit_transition ''document'' ''doc1'' 10 new_wf_repo;
       (e2, r2) = resolve_artifacts ''doc1'' ''approved'' ''completed'' 11 r1;
       (e3, r3) = create_side_effects submit_transition ''document'' ''doc1'' 12 r2;
       (e4, r4) = resolve_artifacts ''doc1'' ''approved'' ''completed'' 13 r3
   in [e1, e2, e3, e4] = [None, None, None, None]
      \<and> map (\<lambda>t. (tk_id t, tk_status t)) (wr_tasks r4)
          = [(''task:doc1:submit'', ''completed''), (''task:doc1:submit'', ''open'')]
      \<and> map (\<lambda>a. (ap_id a, ap_status a)) (wr_approvals r4)
          = [(''approval:doc1:submit'', ''approved''), (''approval:doc1:submit'', ''pending'')]"
  by code_simp

section \<open>Deadlines\<close>

text \<open>
  Deadlines. A task of a transition with a positive \<open>DueAfterSeconds\<close> is due exactly that
  many seconds after now as long as the seconds fit a duration (292 years); without a deadline
  the due time is the zero time. The same holds for the escalation time and for approvals.
\<close>

theorem planned_deadlines:
  assumes "tr_due_after_seconds t \<le> 9223372036" and "tr_escalate_after_seconds t \<le> 9223372036"
  shows "tk_due_at (planned_task t tt ti actor now) =
       (if 0 < tr_due_after_seconds t then now + tr_due_after_seconds t * 1000000000 else 0)
     \<and> tk_escalate_at (planned_task t tt ti actor now) =
       (if 0 < tr_escalate_after_seconds t then now + tr_escalate_after_seconds t * 1000000000 else 0)
     \<and> ap_due_at (planned_approval t tt ti actor now) = tk_due_at (planned_task t tt ti actor now)"
  using assms
  by (simp add: planned_task_def planned_approval_def Let_def due_time_def seconds_small zero_time_def)

theorem planned_deadlines_witness:
  "tk_due_at (planned_task submit_transition ''document'' ''doc1'' ''ann'' 10) = 10 + 86400 * 1000000000"
proof -
  have secs: "tr_due_after_seconds submit_transition = 86400"
    "tr_escalate_after_seconds submit_transition = 172800" by code_simp+
  have small: "tr_due_after_seconds submit_transition \<le> 9223372036"
    "tr_escalate_after_seconds submit_transition \<le> 9223372036" by (simp_all add: secs)
  show ?thesis
    using planned_deadlines [OF small, of "''document''" "''doc1''" "''ann''" 10] by (simp add: secs)
qed

text \<open>
  Beyond that the multiplication by a second wraps: a transition whose deadline is one second
  longer than fits plans a task that was due before it was created. Nothing in the
  validation of a definition excludes it.
\<close>

theorem oversized_deadline_is_past:
  "tk_due_at (planned_task (submit_transition\<lparr>tr_due_after_seconds := 9223372037\<rparr>) tt ti actor now) < now"
  by (simp add: planned_task_def Let_def due_time_def seconds_def second_def wrap64_def)

end
