(* ===== verification/RetryQueue.thy ===== *)
theory RetryQueue
  imports Shared
begin

text \<open>
  The contract that the background job queue and the event outbox share: an item waits, is
  claimed for an attempt, and a failed attempt either puts it back to wait or, once it has used
  up its attempts, moves it to the dead letters. The contract is over single items; \<open>claim\<close>
  and \<open>fail\<close> are relations because clock readings and error texts differ between attempts.
\<close>

locale retry_item =
  fixes waiting running dead :: "'i \<Rightarrow> bool" and attempts :: "'i \<Rightarrow> int"
    and claim fail :: "'i \<Rightarrow> 'i \<Rightarrow> bool" and max_attempts :: int
  assumes claim_waiting: "waiting x \<Longrightarrow> claim x y \<Longrightarrow> running y \<and> attempts y = attempts x + 1"
    and fail_attempts: "running x \<Longrightarrow> fail x y \<Longrightarrow> attempts y = attempts x"
    and fail_retry: "running x \<Longrightarrow> fail x y \<Longrightarrow> attempts x < max_attempts \<Longrightarrow> waiting y"
    and fail_dead: "running x \<Longrightarrow> fail x y \<Longrightarrow> max_attempts \<le> attempts x \<Longrightarrow> dead y"
    and waiting_not_dead: "waiting x \<Longrightarrow> \<not> dead x"
begin

text \<open>\<open>failing n x y\<close>: \<open>y\<close> is \<open>x\<close> after \<open>n\<close> claimed and failed attempts.\<close>

inductive failing :: "nat \<Rightarrow> 'i \<Rightarrow> 'i \<Rightarrow> bool" where
  failing_0: "failing 0 x x"
| failing_Suc: "failing n x y \<Longrightarrow> waiting y \<Longrightarrow> claim y z \<Longrightarrow> fail z w \<Longrightarrow> failing (Suc n) x w"

inductive_cases failing_SucE: "failing (Suc n) x y"

lemma failing_attempts: "failing n x y \<Longrightarrow> attempts y = attempts x + int n"
proof (induction rule: failing.induct)
  case (failing_Suc n x y z w)
  from claim_waiting [OF failing_Suc.hyps(2,3)] fail_attempts [OF _ failing_Suc.hyps(4)]
    failing_Suc.IH show ?case by auto
qed simp

lemma failing_step:
  assumes "failing n x y" "waiting y" "claim y z" "fail z w"
  shows "if attempts x + int n + 1 < max_attempts then waiting w else dead w"
proof -
  from claim_waiting [OF assms(2,3)] have z: "running z" "attempts z = attempts y + 1" by auto
  with failing_attempts [OF assms(1)] have "attempts z = attempts x + int n + 1" by simp
  with fail_retry [OF z(1) assms(4)] fail_dead [OF z(1) assms(4)] show ?thesis by auto
qed

text \<open>An item that starts with attempts left is dead exactly after the attempts it had left.\<close>

theorem failing_outcome:
  assumes "failing n x y" "waiting x" "attempts x < max_attempts"
  shows "(waiting y \<longleftrightarrow> attempts x + int n < max_attempts)
    \<and> (dead y \<longleftrightarrow> attempts x + int n = max_attempts) \<and> attempts x + int n \<le> max_attempts"
  using assms
proof (induction rule: failing.induct)
  case (failing_0 x)
  then show ?case using waiting_not_dead by auto
next
  case (failing_Suc n x y z w)
  from failing_Suc.IH failing_Suc.prems failing_Suc.hyps(2)
  have "attempts x + int n < max_attempts" by simp
  with failing_step [OF failing_Suc.hyps(1-4)] show ?case
    using waiting_not_dead by (auto split: if_splits)
qed

text \<open>An item put back by hand with its attempts used up gets one attempt and is dead again.\<close>

theorem exhausted_one_attempt:
  assumes "waiting x" "max_attempts \<le> attempts x + 1" "claim x y" "fail y z"
  shows "dead z"
  using failing_step [OF failing_0 assms(1,3,4)] assms(2) by simp

end

end
