(* ===== verification/JobQueue.thy ===== *)
theory JobQueue
  imports RetryQueue
begin

text \<open>
  Package \<open>internal/platform/jobs\<close>: background jobs with leases, retries and
  deduplication, over the in-memory repository. \<open>now\<close> is a clock reading; the identifier of
  a new job comes from the ULID argument. The order in which Go walks the map of jobs is the
  argument \<open>ids\<close>. Handlers, the lease renewals made while they run, and the clock at the end
  of each job are the environment (\<open>worker_env\<close>) of a processing round.
\<close>

section \<open>Data\<close>

record job =
  job_id :: string
  job_name :: string
  job_dedup_key :: string
  job_status :: string
  job_error :: string
  job_attempt_count :: int
  job_created_at :: gotime
  job_started_at :: gotime
  job_ended_at :: gotime
  job_lease_expires_at :: gotime
  job_payload :: gobj
  job_result :: gobj

record job_repo =
  jr_jobs :: "(string, job) gomap"
  jr_dedup_keys :: "(string, string) gomap"

record summary =
  sum_queued :: int
  sum_running :: int
  sum_succeeded :: int
  sum_failed :: int
  sum_dead_letter :: int

record process_result =
  pr_claimed :: nat
  pr_succeeded :: nat
  pr_failed :: nat

definition job_max_attempts :: int where
  "job_max_attempts = 3"

definition zero_job :: job where
  "zero_job = \<lparr>job_id = [], job_name = [], job_dedup_key = [], job_status = [], job_error = [],
     job_attempt_count = 0, job_created_at = 0, job_started_at = 0, job_ended_at = 0,
     job_lease_expires_at = 0, job_payload = [], job_result = []\<rparr>"

definition new_job_repo :: job_repo where
  "new_job_repo = \<lparr>jr_jobs = [], jr_dedup_keys = []\<rparr>"

section \<open>The repository\<close>

definition enqueue_repo :: "job \<Rightarrow> job_repo \<Rightarrow> (job \<times> bool) \<times> job_repo" where
  "enqueue_repo j r =
     (let existing = (if job_dedup_key j = [] then None
            else case map_of (jr_dedup_keys r) (job_dedup_key j) of
                   None \<Rightarrow> None | Some eid \<Rightarrow> map_of (jr_jobs r) eid)
      in case existing of
           Some old \<Rightarrow> ((old, False), r)
         | None \<Rightarrow> ((j, True),
             r\<lparr>jr_jobs := mput (job_id j) j (jr_jobs r),
               jr_dedup_keys := (if job_dedup_key j = [] then jr_dedup_keys r
                                 else mput (job_dedup_key j) (job_id j) (jr_dedup_keys r))\<rparr>))"

definition get_job :: "string \<Rightarrow> job_repo \<Rightarrow> job option" where
  "get_job jid r = map_of (jr_jobs r) jid"

definition list_jobs :: "job_repo \<Rightarrow> job list" where
  "list_jobs r = sort_slice job_created_at (map snd (jr_jobs r))"

definition claimable :: "gotime \<Rightarrow> job \<Rightarrow> bool" where
  "claimable now j \<longleftrightarrow> job_status j = ''queued''
     \<or> job_status j = ''running'' \<and> \<not> is_zero_time (job_lease_expires_at j) \<and> job_lease_expires_at j \<le> now"

definition claimed_job :: "gotime \<Rightarrow> duration \<Rightarrow> job \<Rightarrow> job" where
  "claimed_job now lease j = j\<lparr>job_status := ''running'',
     job_attempt_count := job_attempt_count j + 1,
     job_started_at := or_now now (job_started_at j),
     job_ended_at := zero_time,
     job_lease_expires_at := now + lease\<rparr>"

fun claim_loop :: "gotime \<Rightarrow> duration \<Rightarrow> nat \<Rightarrow> string list \<Rightarrow> job list \<Rightarrow> job_repo \<Rightarrow> job list \<times> job_repo" where
  "claim_loop now lease limit [] items r = (items, r)"
| "claim_loop now lease limit (i # ids) items r =
     (case map_of (jr_jobs r) i of
        None \<Rightarrow> claim_loop now lease limit ids items r
      | Some j \<Rightarrow>
          if \<not> claimable now j then claim_loop now lease limit ids items r
          else (let j' = claimed_job now lease j;
                    r' = r\<lparr>jr_jobs := mput i j' (jr_jobs r)\<rparr>;
                    items' = items @ [j']
                in if limit \<le> length items' then (items', r')
                   else claim_loop now lease limit ids items' r'))"

definition created_at_of :: "job_repo \<Rightarrow> string \<Rightarrow> gotime" where
  "created_at_of r i = (case map_of (jr_jobs r) i of None \<Rightarrow> zero_time | Some j \<Rightarrow> job_created_at j)"

definition claim_pending ::
    "string list \<Rightarrow> gotime \<Rightarrow> duration \<Rightarrow> int \<Rightarrow> job_repo \<Rightarrow> job list \<times> job_repo" where
  "claim_pending ids now lease limit r =
     (let limit = (if limit \<le> 0 then 20 else limit)
      in claim_loop now lease (nat limit) (sort_slice (created_at_of r) ids) [] r)"

text \<open>\<open>modify_job\<close> is the shape of the other writes: load, nothing if missing, edit, store.\<close>

definition modify_job :: "(job \<Rightarrow> job) \<Rightarrow> string \<Rightarrow> job_repo \<Rightarrow> job_repo" where
  "modify_job f jid r =
     (case map_of (jr_jobs r) jid of
        None \<Rightarrow> r
      | Some j \<Rightarrow> r\<lparr>jr_jobs := mput jid (f j) (jr_jobs r)\<rparr>)"

definition succeeded_job :: "gobj \<Rightarrow> gotime \<Rightarrow> job \<Rightarrow> job" where
  "succeeded_job res ended_at j = j\<lparr>job_status := ''succeeded'', job_error := [], job_result := res,
     job_ended_at := ended_at, job_lease_expires_at := zero_time\<rparr>"

definition mark_succeeded :: "string \<Rightarrow> gobj \<Rightarrow> gotime \<Rightarrow> job_repo \<Rightarrow> job_repo" where
  "mark_succeeded jid res ended_at r = modify_job (succeeded_job res ended_at) jid r"

definition renewed_job :: "gotime \<Rightarrow> duration \<Rightarrow> job \<Rightarrow> job" where
  "renewed_job now lease j =
     (if job_status j \<noteq> ''running'' then j else j\<lparr>job_lease_expires_at := now + lease\<rparr>)"

definition renew_lease :: "string \<Rightarrow> gotime \<Rightarrow> duration \<Rightarrow> job_repo \<Rightarrow> job_repo" where
  "renew_lease jid now lease r = modify_job (renewed_job now lease) jid r"

definition failed_job :: "string \<Rightarrow> string \<Rightarrow> gotime \<Rightarrow> job \<Rightarrow> job" where
  "failed_job status last_error ended_at j = j\<lparr>job_status := status, job_error := last_error,
     job_ended_at := ended_at, job_lease_expires_at := zero_time\<rparr>"

definition mark_failed :: "string \<Rightarrow> string \<Rightarrow> string \<Rightarrow> gotime \<Rightarrow> job_repo \<Rightarrow> job_repo" where
  "mark_failed jid status last_error ended_at r = modify_job (failed_job status last_error ended_at) jid r"

definition requeued_job :: "gotime \<Rightarrow> job \<Rightarrow> job" where
  "requeued_job queued_at j = j\<lparr>job_status := ''queued'', job_error := [], job_ended_at := zero_time,
     job_lease_expires_at := zero_time, job_created_at := or_now queued_at (job_created_at j)\<rparr>"

definition requeue_repo :: "string \<Rightarrow> gotime \<Rightarrow> job_repo \<Rightarrow> job_repo" where
  "requeue_repo jid queued_at r = modify_job (requeued_job queued_at) jid r"

section \<open>The service\<close>

definition enqueue_unique_detailed ::
    "string \<Rightarrow> gotime \<Rightarrow> string \<Rightarrow> gobj \<Rightarrow> string \<Rightarrow> job_repo \<Rightarrow> (job \<times> bool) \<times> job_repo" where
  "enqueue_unique_detailed ulid now name payload dedup_key r =
     enqueue_repo \<lparr>job_id = new_id ''job'' ulid, job_name = name, job_dedup_key = dedup_key,
       job_status = ''queued'', job_error = [], job_attempt_count = 0, job_created_at = now,
       job_started_at = zero_time, job_ended_at = zero_time, job_lease_expires_at = zero_time,
       job_payload = payload, job_result = []\<rparr> r"

definition enqueue_unique ::
    "string \<Rightarrow> gotime \<Rightarrow> string \<Rightarrow> gobj \<Rightarrow> string \<Rightarrow> job_repo \<Rightarrow> job \<times> job_repo" where
  "enqueue_unique ulid now name payload dedup_key r =
     (let ((j, _), r') = enqueue_unique_detailed ulid now name payload dedup_key r in (j, r'))"

definition enqueue :: "string \<Rightarrow> gotime \<Rightarrow> string \<Rightarrow> gobj \<Rightarrow> job_repo \<Rightarrow> job \<times> job_repo" where
  "enqueue ulid now name payload r = enqueue_unique ulid now name payload [] r"

definition requeue :: "string \<Rightarrow> gotime \<Rightarrow> job_repo \<Rightarrow> job result \<times> job_repo" where
  "requeue jid now r =
     (case get_job jid r of
        None \<Rightarrow> (Inl (Plain ''job not found''), r)
      | Some j \<Rightarrow>
          if job_status j = ''running'' then (Inl (Plain ''running jobs cannot be requeued''), r)
          else if job_status j = ''queued'' then (Inr j, r)
          else let r' = requeue_repo jid now r
               in (Inr (case get_job jid r' of Some j' \<Rightarrow> j' | None \<Rightarrow> zero_job), r'))"

definition count_status :: "string \<Rightarrow> job list \<Rightarrow> int" where
  "count_status st js = int (length (filter (\<lambda>j. job_status j = st) js))"

definition job_summary :: "job_repo \<Rightarrow> summary" where
  "job_summary r = (let js = list_jobs r in
     \<lparr>sum_queued = count_status ''queued'' js, sum_running = count_status ''running'' js,
      sum_succeeded = count_status ''succeeded'' js, sum_failed = count_status ''failed'' js,
      sum_dead_letter = count_status ''dead_letter'' js\<rparr>)"

section \<open>A processing round\<close>

record worker_env =
  we_registered :: "string \<Rightarrow> bool"
  we_outcome :: "job \<Rightarrow> gobj result"
  we_renewals :: "job \<Rightarrow> gotime list"
  we_end :: "job \<Rightarrow> gotime"

definition failure_status :: "job \<Rightarrow> string" where
  "failure_status j = (if job_max_attempts \<le> job_attempt_count j then ''dead_letter'' else ''queued'')"

definition process_job ::
    "worker_env \<Rightarrow> duration \<Rightarrow> job \<Rightarrow> process_result \<times> job_repo \<Rightarrow> process_result \<times> job_repo" where
  "process_job env lease j = (\<lambda>(out, r).
     if \<not> we_registered env (job_name j)
     then (out\<lparr>pr_failed := pr_failed out + 1\<rparr>,
           mark_failed (job_id j) ''dead_letter'' ''job handler is not registered'' (we_end env j) r)
     else let r = fold (\<lambda>t. renew_lease (job_id j) t lease) (we_renewals env j) r
          in case we_outcome env j of
               Inl e \<Rightarrow> (out\<lparr>pr_failed := pr_failed out + 1\<rparr>,
                         mark_failed (job_id j) (failure_status j) (err_text e) (we_end env j) r)
             | Inr res \<Rightarrow> (out\<lparr>pr_succeeded := pr_succeeded out + 1\<rparr>,
                           mark_succeeded (job_id j) res (we_end env j) r))"

definition process_once ::
    "worker_env \<Rightarrow> string list \<Rightarrow> gotime \<Rightarrow> duration \<Rightarrow> int \<Rightarrow> job_repo \<Rightarrow> process_result \<times> job_repo" where
  "process_once env ids now lease limit r =
     (let (items, r') = claim_pending ids now lease limit r
      in fold (process_job env lease) items
           (\<lparr>pr_claimed = length items, pr_succeeded = 0, pr_failed = 0\<rparr>, r'))"

end
