(* ===== verification/JobFacts.thy ===== *)
theory JobFacts
  imports JobQueue
begin

text \<open>
  What the job queue guarantees: the invariant of the repository under every interleaving of its
  operations, which jobs a claim takes and in which order, how many attempts a job gets, what
  deduplication and leases promise, and what a processing round leaves behind.
\<close>

section \<open>Single writes\<close>

lemma modify_job_jobs [simp]:
  "map_of (jr_jobs (modify_job f jid r)) = (map_of (jr_jobs r))(jid := map_option f (map_of (jr_jobs r) jid))"
  by (auto simp: modify_job_def split: option.split)

lemma modify_job_dedup [simp]: "jr_dedup_keys (modify_job f jid r) = jr_dedup_keys r"
  by (simp add: modify_job_def split: option.split)

lemma modify_job_keys [simp]: "set (mkeys (jr_jobs (modify_job f jid r))) = set (mkeys (jr_jobs r))"
  by (auto simp: map_of_keys_iff split: if_splits)

lemmas job_edits = claimed_job_def succeeded_job_def renewed_job_def failed_job_def requeued_job_def

lemmas job_writes = mark_succeeded_def mark_failed_def renew_lease_def requeue_repo_def

section \<open>Which jobs a claim takes\<close>

definition claimable_at :: "gotime \<Rightarrow> job_repo \<Rightarrow> string \<Rightarrow> bool" where
  "claimable_at now r i \<longleftrightarrow> (case map_of (jr_jobs r) i of None \<Rightarrow> False | Some j \<Rightarrow> claimable now j)"

definition claim_ids :: "gotime \<Rightarrow> nat \<Rightarrow> string list \<Rightarrow> job_repo \<Rightarrow> string list" where
  "claim_ids now n ids r = take n (filter (claimable_at now r) ids)"

lemma claim_loop_result:
  "distinct ids \<Longrightarrow> length items < limit \<Longrightarrow> claim_loop now lease limit ids items r = (items', r') \<Longrightarrow>
     items' = items @ map (\<lambda>i. claimed_job now lease (the (map_of (jr_jobs r) i)))
                        (claim_ids now (limit - length items) ids r)
   \<and> jr_dedup_keys r' = jr_dedup_keys r
   \<and> map_of (jr_jobs r') = (\<lambda>i. if i \<in> set (claim_ids now (limit - length items) ids r)
        then Some (claimed_job now lease (the (map_of (jr_jobs r) i))) else map_of (jr_jobs r) i)"
proof (induction ids arbitrary: items r)
  case Nil
  then show ?case by (simp add: claim_ids_def)
next
  case (Cons i ids)
  show ?case
  proof (cases "claimable_at now r i")
    case False
    then have "claim_loop now lease limit ids items r = (items', r')"
      using Cons.prems(3) by (auto simp: claimable_at_def split: option.splits)
    moreover have "claim_ids now n (i # ids) r = claim_ids now n ids r" for n
      using False by (simp add: claim_ids_def)
    ultimately show ?thesis using Cons.IH [of items r] Cons.prems(1,2) by simp
  next
    case True
    then obtain j where j: "map_of (jr_jobs r) i = Some j" "claimable now j"
      by (auto simp: claimable_at_def split: option.splits)
    let ?j = "claimed_job now lease j" and ?r = "r\<lparr>jr_jobs := mput i (claimed_job now lease j) (jr_jobs r)\<rparr>"
    show ?thesis
    proof (cases "limit \<le> Suc (length items)")
      case full: True
      with Cons.prems(2) have "limit - length items = 1" by simp
      then have "claim_ids now (limit - length items) (i # ids) r = [i]"
        using True by (simp add: claim_ids_def)
      moreover have "items' = items @ [?j]" "r' = ?r"
        using Cons.prems(3) j full by (auto simp: Let_def)
      ultimately show ?thesis using j by (auto simp: fun_eq_iff)
    next
      case False
      obtain n where n: "limit - length items = Suc n" using Cons.prems(2) by (metis Suc_diff_Suc)
      have "claimable_at now ?r k = claimable_at now r k" if "k \<in> set ids" for k
        using Cons.prems(1) that by (auto simp: claimable_at_def)
      then have same: "filter (claimable_at now ?r) ids = filter (claimable_at now r) ids"
        by (simp cong: filter_cong)
      have ids: "claim_ids now (limit - length items) (i # ids) r = i # claim_ids now n ids ?r"
        using True by (simp add: claim_ids_def n same)
      have sub: "set (claim_ids now n ids ?r) \<subseteq> set ids"
        unfolding claim_ids_def using set_take_subset by fastforce
      have ni: "i \<notin> set ids" using Cons.prems(1) by simp
      have step: "claim_loop now lease limit ids (items @ [?j]) ?r = (items', r')"
        using Cons.prems(3) j False by (simp add: Let_def)
      have len: "distinct ids" "length (items @ [?j]) < limit" "limit - length (items @ [?j]) = n"
        using Cons.prems(1) False n by simp_all
      from Cons.IH [OF len(1,2) step, unfolded len(3)]
      have IH: "items' = (items @ [?j]) @ map (\<lambda>k. claimed_job now lease (the (map_of (jr_jobs ?r) k)))
                   (claim_ids now n ids ?r)"
        "jr_dedup_keys r' = jr_dedup_keys ?r"
        "map_of (jr_jobs r') = (\<lambda>k. if k \<in> set (claim_ids now n ids ?r)
            then Some (claimed_job now lease (the (map_of (jr_jobs ?r) k))) else map_of (jr_jobs ?r) k)"
        by blast+
      have "map (\<lambda>k. claimed_job now lease (the (map_of (jr_jobs ?r) k))) (claim_ids now n ids ?r)
          = map (\<lambda>k. claimed_job now lease (the (map_of (jr_jobs r) k))) (claim_ids now n ids ?r)"
        using sub ni by (intro map_cong) auto
      with IH j sub ni show ?thesis by (auto simp: ids fun_eq_iff)
    qed
  qed
qed

definition claim_limit :: "int \<Rightarrow> nat" where
  "claim_limit limit = nat (if limit \<le> 0 then 20 else limit)"

definition claim_order :: "string list \<Rightarrow> job_repo \<Rightarrow> string list" where
  "claim_order ids r = sort_slice (created_at_of r) ids"

lemma claim_pending_result:
  assumes "distinct ids" "claim_pending ids now lease limit r = (items, r')"
  shows "items = map (\<lambda>i. claimed_job now lease (the (map_of (jr_jobs r) i)))
             (claim_ids now (claim_limit limit) (claim_order ids r) r)
   \<and> jr_dedup_keys r' = jr_dedup_keys r
   \<and> map_of (jr_jobs r') = (\<lambda>i. if i \<in> set (claim_ids now (claim_limit limit) (claim_order ids r) r)
        then Some (claimed_job now lease (the (map_of (jr_jobs r) i))) else map_of (jr_jobs r) i)"
proof -
  have "distinct (sort_slice (created_at_of r) ids)"
    using assms(1) by (simp add: sort_slice_def)
  from claim_loop_result [OF this, of "[]" "claim_limit limit" now lease r items r'] assms(2)
  show ?thesis by (simp add: claim_pending_def claim_limit_def claim_order_def Let_def)
qed

lemma claim_ids_claimable:
  "i \<in> set (claim_ids now n ids r) \<Longrightarrow> i \<in> set ids \<and> claimable_at now r i"
proof -
  assume "i \<in> set (claim_ids now n ids r)"
  then have "i \<in> set (filter (claimable_at now r) ids)"
    unfolding claim_ids_def by (rule in_set_takeD)
  then show "i \<in> set ids \<and> claimable_at now r i" by simp
qed

lemma sorted_take_le:
  assumes "sorted (map f xs)" "x \<in> set (take n xs)" "y \<in> set xs" "y \<notin> set (take n xs)"
  shows "f x \<le> f y"
proof -
  have "set xs = set (take n xs) \<union> set (drop n xs)" by (simp flip: set_append)
  with assms(3,4) have y: "y \<in> set (drop n xs)" by blast
  have "sorted (map f (take n xs) @ map f (drop n xs))"
    using assms(1) by (simp flip: map_append)
  then have "\<forall>a \<in> f ` set (take n xs). \<forall>b \<in> f ` set (drop n xs). a \<le> b"
    unfolding sorted_append by simp
  with assms(2) y show ?thesis by blast
qed


definition two_jobs :: job_repo where
  "two_jobs = snd (enqueue ''B'' 7 ''mail'' [] (snd (enqueue ''A'' 5 ''mail'' [] new_job_repo)))"

lemma two_jobs_value:
  "mkeys (jr_jobs two_jobs) = [''job:A'', ''job:B'']"
  "map_option job_created_at (map_of (jr_jobs two_jobs) ''job:B'') = Some 7"
  "job_id (hd (fst (claim_pending [''job:B'', ''job:A''] 9 5000000000 1 two_jobs))) = ''job:A''"
  by code_simp+


section \<open>The invariant of the repository\<close>

text \<open>
  The operations as they interleave: producers enqueue, any worker claims, renews the lease of a
  job and reports its outcome, an operator requeues. ULIDs are fresh, and lease ends lie after
  Go's zero time.
\<close>

inductive job_step :: "job_repo \<Rightarrow> job_repo \<Rightarrow> bool" where
  js_enqueue: "map_of (jr_jobs r) (new_id ''job'' ulid) = None \<Longrightarrow>
     job_step r (snd (enqueue_unique_detailed ulid now name payload dedup_key r))"
| js_claim: "distinct ids \<Longrightarrow> 0 < now + lease \<Longrightarrow> job_step r (snd (claim_pending ids now lease limit r))"
| js_renew: "0 < now + lease \<Longrightarrow> job_step r (renew_lease jid now lease r)"
| js_success: "job_step r (mark_succeeded jid res now r)"
| js_failure: "status \<in> {''queued'', ''dead_letter''} \<Longrightarrow> job_step r (mark_failed jid status msg now r)"
| js_requeue: "job_step r (snd (requeue jid now r))"

inductive job_reachable :: "job_repo \<Rightarrow> bool" where
  job_start: "job_reachable new_job_repo"
| job_next: "job_reachable r \<Longrightarrow> job_step r r' \<Longrightarrow> job_reachable r'"

definition job_ok :: "job \<Rightarrow> bool" where
  "job_ok j \<longleftrightarrow> job_status j \<in> {''queued'', ''running'', ''succeeded'', ''dead_letter''}
     \<and> (if job_status j = ''running'' then 0 < job_lease_expires_at j else job_lease_expires_at j = 0)"

definition dedup_ok :: "job_repo \<Rightarrow> bool" where
  "dedup_ok r \<longleftrightarrow>
     (\<forall>k i. map_of (jr_dedup_keys r) k = Some i \<longrightarrow>
        k \<noteq> [] \<and> (\<exists>j. map_of (jr_jobs r) i = Some j \<and> job_dedup_key j = k))
   \<and> (\<forall>i j. map_of (jr_jobs r) i = Some j \<longrightarrow> job_dedup_key j \<noteq> [] \<longrightarrow>
        map_of (jr_dedup_keys r) (job_dedup_key j) = Some i)"

definition job_inv :: "job_repo \<Rightarrow> bool" where
  "job_inv r \<longleftrightarrow> gm.keyed job_id (jr_jobs r) \<and> dedup_ok r
     \<and> (\<forall>i j. map_of (jr_jobs r) i = Some j \<longrightarrow> job_ok j)"

lemma job_invD:
  assumes "job_inv r" "map_of (jr_jobs r) i = Some j"
  shows "job_id j = i" "job_ok j"
    "job_dedup_key j \<noteq> [] \<Longrightarrow> map_of (jr_dedup_keys r) (job_dedup_key j) = Some i"
  using assms unfolding job_inv_def gm.keyed_def dedup_ok_def by blast+

lemma dedupE:
  assumes "job_inv r" "map_of (jr_dedup_keys r) k = Some i"
  obtains j where "k \<noteq> []" "map_of (jr_jobs r) i = Some j" "job_dedup_key j = k"
  using assms unfolding job_inv_def dedup_ok_def by blast

lemma job_invI:
  assumes "\<And>i j. map_of (jr_jobs r) i = Some j \<Longrightarrow> job_id j = i \<and> job_ok j
       \<and> (job_dedup_key j \<noteq> [] \<longrightarrow> map_of (jr_dedup_keys r) (job_dedup_key j) = Some i)"
    and "\<And>k i. map_of (jr_dedup_keys r) k = Some i \<Longrightarrow>
       k \<noteq> [] \<and> (\<exists>j. map_of (jr_jobs r) i = Some j \<and> job_dedup_key j = k)"
  shows "job_inv r"
  using assms unfolding job_inv_def gm.keyed_def dedup_ok_def by blast

lemma job_inv_edit:
  assumes inv: "job_inv r"
    and jobs: "map_of (jr_jobs r') = (\<lambda>i. map_option (g i) (map_of (jr_jobs r) i))"
    and dedup: "jr_dedup_keys r' = jr_dedup_keys r"
    and keep: "\<And>i j. job_id (g i j) = job_id j \<and> job_dedup_key (g i j) = job_dedup_key j \<and> (job_ok j \<longrightarrow> job_ok (g i j))"
  shows "job_inv r'"
proof (rule job_invI)
  fix i j
  assume "map_of (jr_jobs r') i = Some j"
  then obtain j0 where j0: "map_of (jr_jobs r) i = Some j0" "j = g i j0" by (auto simp: jobs)
  from job_invD [OF inv j0(1)] keep [of i j0] show "job_id j = i \<and> job_ok j
       \<and> (job_dedup_key j \<noteq> [] \<longrightarrow> map_of (jr_dedup_keys r') (job_dedup_key j) = Some i)"
    by (simp add: j0(2) dedup)
next
  fix k i
  assume "map_of (jr_dedup_keys r') k = Some i"
  then have "map_of (jr_dedup_keys r) k = Some i" by (simp add: dedup)
  from dedupE [OF inv this] obtain j where
    "k \<noteq> []" "map_of (jr_jobs r) i = Some j" "job_dedup_key j = k" .
  with keep [of i j] show "k \<noteq> [] \<and> (\<exists>j. map_of (jr_jobs r') i = Some j \<and> job_dedup_key j = k)"
    by (simp add: jobs)
qed

lemma job_inv_modify:
  assumes "job_inv r" "\<And>j. job_id (f j) = job_id j \<and> job_dedup_key (f j) = job_dedup_key j \<and> (job_ok j \<longrightarrow> job_ok (f j))"
  shows "job_inv (modify_job f jid r)"
  by (rule job_inv_edit [OF assms(1), where g = "\<lambda>i. if i = jid then f else (\<lambda>j. j)"])
    (auto simp: assms(2) fun_eq_iff option.map_ident)

lemma job_inv_claim:
  assumes "job_inv r" "distinct ids" "0 < now + lease"
  shows "job_inv (snd (claim_pending ids now lease limit r))"
proof -
  obtain items r' where c: "claim_pending ids now lease limit r = (items, r')"
    by (cases "claim_pending ids now lease limit r")
  let ?ids = "claim_ids now (claim_limit limit) (claim_order ids r) r"
  note res = claim_pending_result [OF assms(2) c]
  have "map_of (jr_jobs r') = (\<lambda>i. map_option (if i \<in> set ?ids then claimed_job now lease else (\<lambda>j. j)) (map_of (jr_jobs r) i))"
  proof
    fix i
    show "map_of (jr_jobs r') i = map_option (if i \<in> set ?ids then claimed_job now lease else (\<lambda>j. j)) (map_of (jr_jobs r) i)"
      using res claim_ids_claimable [of i now "claim_limit limit" "claim_order ids r" r]
      by (cases "i \<in> set ?ids") (auto simp: option.map_ident claimable_at_def split: option.splits)
  qed
  then have "job_inv r'"
  proof (rule job_inv_edit [OF assms(1)])
    show "jr_dedup_keys r' = jr_dedup_keys r" using res by blast
  qed (use assms(3) in \<open>simp add: claimed_job_def job_ok_def\<close>)
  then show ?thesis by (simp add: c)
qed

lemma job_inv_enqueue:
  assumes "job_inv r" "map_of (jr_jobs r) (new_id ''job'' ulid) = None"
  shows "job_inv (snd (enqueue_unique_detailed ulid now name payload dedup_key r))"
proof -
  let ?i = "new_id ''job'' ulid"
  obtain j where j: "job_id j = ?i" "job_dedup_key j = dedup_key" "job_ok j"
    and r': "snd (enqueue_unique_detailed ulid now name payload dedup_key r) = snd (enqueue_repo j r)"
    by (rule that [of "\<lparr>job_id = ?i, job_name = name, job_dedup_key = dedup_key,
       job_status = ''queued'', job_error = [], job_attempt_count = 0, job_created_at = now,
       job_started_at = zero_time, job_ended_at = zero_time, job_lease_expires_at = zero_time,
       job_payload = payload, job_result = []\<rparr>"])
      (simp_all add: enqueue_unique_detailed_def job_ok_def zero_time_def)
  have fresh: "i \<noteq> ?i" if "map_of (jr_jobs r) i = Some x" for i x
    using that assms(2) by auto
  show ?thesis
  proof (cases "dedup_key \<noteq> [] \<and> map_of (jr_dedup_keys r) dedup_key \<noteq> None")
    case True
    then obtain i where i: "map_of (jr_dedup_keys r) dedup_key = Some i" by auto
    from dedupE [OF assms(1) i] obtain old where "map_of (jr_jobs r) i = Some old" .
    with True i have "snd (enqueue_repo j r) = r" by (simp add: enqueue_repo_def j(2))
    then show ?thesis using r' assms(1) by simp
  next
    case False
    then have e: "snd (enqueue_repo j r) = r\<lparr>jr_jobs := mput ?i j (jr_jobs r),
        jr_dedup_keys := (if dedup_key = [] then jr_dedup_keys r
                          else mput dedup_key ?i (jr_dedup_keys r))\<rparr>"
      by (auto simp: enqueue_repo_def j)
    show ?thesis
    proof (rule job_invI, goal_cases)
      case (1 i x)
      then show ?case
      proof (cases "i = ?i")
        case i: True
        with 1 have "x = j" by (simp add: r' e)
        with i j show ?thesis by (simp add: r' e)
      next
        case i: False
        with 1 have x: "map_of (jr_jobs r) i = Some x" by (simp add: r' e)
        have "job_dedup_key x \<noteq> dedup_key" if "job_dedup_key x \<noteq> []"
          using job_invD(3) [OF assms(1) x that] False that by auto
        with job_invD [OF assms(1) x] show ?thesis by (simp add: r' e)
      qed
    next
      case (2 k i)
      show ?case
      proof (cases "dedup_key \<noteq> [] \<and> k = dedup_key")
        case True
        with 2 show ?thesis by (simp add: r' e j)
      next
        case k: False
        with 2 have "map_of (jr_dedup_keys r) k = Some i" by (auto simp: r' e split: if_splits)
        from dedupE [OF assms(1) this] obtain x where
          x: "k \<noteq> []" "map_of (jr_jobs r) i = Some x" "job_dedup_key x = k" .
        with fresh [OF x(2)] show ?thesis by (simp add: r' e)
      qed
    qed
  qed
qed

lemma job_inv_requeue: "job_inv r \<Longrightarrow> job_inv (snd (requeue jid now r))"
  by (auto simp: requeue_def requeue_repo_def Let_def requeued_job_def job_ok_def zero_time_def
      intro!: job_inv_modify split: option.split)

lemma job_inv_step: "job_step r r' \<Longrightarrow> job_inv r \<Longrightarrow> job_inv r'"
proof (induction rule: job_step.induct)
  case (js_enqueue r ulid now name payload dedup_key)
  then show ?case by (intro job_inv_enqueue)
next
  case (js_claim ids now lease r limit)
  then show ?case by (intro job_inv_claim)
next
  case (js_renew now lease jid r)
  then show ?case unfolding renew_lease_def
    by (intro job_inv_modify) (simp_all add: renewed_job_def job_ok_def)
next
  case (js_success jid res now r)
  then show ?case unfolding mark_succeeded_def
    by (intro job_inv_modify) (simp_all add: succeeded_job_def job_ok_def zero_time_def)
next
  case (js_failure status jid msg now r)
  then show ?case unfolding mark_failed_def
    by (intro job_inv_modify) (auto simp: failed_job_def job_ok_def zero_time_def)
next
  case (js_requeue jid now r)
  then show ?case by (intro job_inv_requeue)
qed

lemma job_inv_reachable: "job_reachable r \<Longrightarrow> job_inv r"
proof (induction rule: job_reachable.induct)
  case job_start
  show ?case by (rule job_invI) (simp_all add: new_job_repo_def)
qed (rule job_inv_step)

lemma job_reachable_two: "job_reachable two_jobs"
proof -
  have e: "enqueue u now name p r = (fst (fst (enqueue_unique_detailed u now name p [] r)),
      snd (enqueue_unique_detailed u now name p [] r))" for u now name p r
    by (simp add: enqueue_def enqueue_unique_def split: prod.split)
  have "map_of (jr_jobs (snd (enqueue ''A'' 5 ''mail'' [] new_job_repo))) (new_id ''job'' ''B'') = None"
    by code_simp
  then show ?thesis unfolding two_jobs_def e snd_conv
    by (intro job_next [OF job_next [OF job_start js_enqueue] js_enqueue])
      (simp_all add: e new_job_repo_def)
qed

section \<open>Deduplication and the summary\<close>

text \<open>
  C28: deduplication. In every reachable repository an enqueue under a deduplication key that some
  job carries returns that very job, whatever its state, reports that nothing was created, and
  changes nothing; so a key never has two jobs.
\<close>

theorem dedup_returns_the_one_job:
  assumes "job_reachable r" and "map_of (jr_jobs r) i = Some j" and "job_dedup_key j \<noteq> []"
  shows "enqueue_unique_detailed ulid now name payload (job_dedup_key j) r = ((j, False), r)
    \<and> (\<forall>k x. map_of (jr_jobs r) k = Some x \<longrightarrow> job_dedup_key x = job_dedup_key j \<longrightarrow> k = i)"
proof -
  note inv = job_inv_reachable [OF assms(1)]
  note key = job_invD(3) [OF inv assms(2,3)]
  have "\<forall>k x. map_of (jr_jobs r) k = Some x \<longrightarrow> job_dedup_key x = job_dedup_key j \<longrightarrow> k = i"
  proof (intro allI impI)
    fix k x
    assume x: "map_of (jr_jobs r) k = Some x" and eq: "job_dedup_key x = job_dedup_key j"
    from job_invD(3) [OF inv x] assms(3) have "map_of (jr_dedup_keys r) (job_dedup_key j) = Some k"
      unfolding eq .
    with key show "k = i" by simp
  qed
  moreover have "enqueue_unique_detailed ulid now name payload (job_dedup_key j) r = ((j, False), r)"
    using key assms(2,3) by (simp add: enqueue_unique_detailed_def enqueue_repo_def)
  ultimately show ?thesis by blast
qed

definition keyed_repo :: job_repo where
  "keyed_repo = snd (enqueue_unique_detailed ''A'' 5 ''mail'' [] ''key1'' new_job_repo)"

theorem dedup_returns_the_one_job_witness:
  "snd (fst (enqueue_unique_detailed ''B'' 9 ''mail'' [] ''key1'' keyed_repo)) = False"
proof -
  have "job_reachable keyed_repo"
    unfolding keyed_repo_def by (rule job_next [OF job_start js_enqueue]) (simp add: new_job_repo_def)
  moreover have "map_option job_dedup_key (map_of (jr_jobs keyed_repo) ''job:A'') = Some ''key1''"
    by code_simp
  then obtain j where "map_of (jr_jobs keyed_repo) ''job:A'' = Some j" "job_dedup_key j = ''key1''"
    by auto
  ultimately show ?thesis
    using dedup_returns_the_one_job [of keyed_repo "''job:A''" j "''B''" 9 "''mail''" "[]"] by simp
qed

lemma count_status_partition:
  assumes "\<forall>j \<in> set js. job_status j \<in> {''queued'', ''running'', ''succeeded'', ''dead_letter''}"
  shows "count_status ''failed'' js = 0 \<and> count_status ''queued'' js + count_status ''running'' js
     + count_status ''succeeded'' js + count_status ''dead_letter'' js = int (length js)"
  using assms by (induction js) (auto simp: count_status_def)

text \<open>
  The summary counts every job exactly once, and its \<open>Failed\<close> counter is always 0: no
  operation ever stores the status \<open>failed\<close>, a failed attempt is stored as queued or
  dead-lettered.
\<close>

theorem summary_partitions_jobs:
  assumes "job_reachable r" and "wf_map (jr_jobs r)"
  shows "sum_failed (job_summary r) = 0
    \<and> sum_queued (job_summary r) + sum_running (job_summary r) + sum_succeeded (job_summary r)
      + sum_dead_letter (job_summary r) = int (length (jr_jobs r))"
proof -
  have "job_status j \<in> {''queued'', ''running'', ''succeeded'', ''dead_letter''}"
    if "j \<in> set (list_jobs r)" for j
  proof -
    from that obtain i where "(i, j) \<in> set (jr_jobs r)" by (auto simp: list_jobs_def)
    with assms(2) have "map_of (jr_jobs r) i = Some j" by (simp add: map_of_entry)
    from job_invD(2) [OF job_inv_reachable [OF assms(1)] this] show ?thesis by (simp add: job_ok_def)
  qed
  then show ?thesis
    using count_status_partition [of "list_jobs r"] by (simp add: job_summary_def list_jobs_def Let_def)
qed

theorem summary_partitions_jobs_witness: "sum_queued (job_summary two_jobs) = 2"
proof -
  have "sum_running (job_summary two_jobs) = 0" "sum_succeeded (job_summary two_jobs) = 0"
    "sum_dead_letter (job_summary two_jobs) = 0" "length (jr_jobs two_jobs) = 2" by code_simp+
  moreover have "wf_map (jr_jobs two_jobs)"
    using two_jobs_value(1) by (simp add: wf_map_def mkeys_def)
  ultimately show ?thesis using summary_partitions_jobs [OF job_reachable_two] by simp
qed

section \<open>Attempts\<close>

definition job_claims :: "job \<Rightarrow> job \<Rightarrow> bool" where
  "job_claims x y \<longleftrightarrow> (\<exists>now lease. y = claimed_job now lease x)"

definition job_fails :: "job \<Rightarrow> job \<Rightarrow> bool" where
  "job_fails x y \<longleftrightarrow> (\<exists>msg ended_at. y = failed_job (failure_status x) msg ended_at x)"

interpretation jq: retry_item "\<lambda>j. job_status j = ''queued''" "\<lambda>j. job_status j = ''running''"
    "\<lambda>j. job_status j = ''dead_letter''" job_attempt_count job_claims job_fails job_max_attempts
  by unfold_locales
    (auto simp: job_claims_def job_fails_def claimed_job_def failed_job_def failure_status_def)

text \<open>One attempt that fails: the claim and the report of a processing round.\<close>

definition failed_attempt :: "gotime \<times> duration \<times> string \<times> gotime \<Rightarrow> job \<Rightarrow> job" where
  "failed_attempt = (\<lambda>(now, lease, msg, ended_at) j.
     let c = claimed_job now lease j in failed_job (failure_status c) msg ended_at c)"

lemma failed_attempts_failing:
  "job_status j = ''queued'' \<Longrightarrow> job_attempt_count j + int (length es) \<le> job_max_attempts \<Longrightarrow>
     jq.failing (length es) j (fold failed_attempt es j)"
proof (induction es rule: rev_induct)
  case Nil
  show ?case by (simp add: jq.failing_0)
next
  case (snoc e es)
  then have run: "jq.failing (length es) j (fold failed_attempt es j)" by simp
  from jq.failing_outcome [OF run] snoc.prems
  have "job_status (fold failed_attempt es j) = ''queued''" by simp
  moreover obtain now lease msg ended_at where e: "e = (now, lease, msg, ended_at)" by (cases e)
  let ?c = "claimed_job now lease (fold failed_attempt es j)"
  have "job_claims (fold failed_attempt es j) ?c" "job_fails ?c (failed_attempt e (fold failed_attempt es j))"
    by (auto simp: job_claims_def job_fails_def failed_attempt_def e Let_def)
  ultimately have "jq.failing (Suc (length es)) j (failed_attempt e (fold failed_attempt es j))"
    by (rule jq.failing_Suc [OF run])
  then show ?case by simp
qed

text \<open>
  A new job gets three attempts. After fewer failures than three it is queued again, after
  exactly three it is a dead letter, whatever the errors, the clocks and the leases were.
\<close>

theorem job_gets_three_attempts:
  assumes "job_status j = ''queued''" and "job_attempt_count j = 0" and "length es \<le> 3"
  shows "job_status (fold failed_attempt es j) = (if length es < 3 then ''queued'' else ''dead_letter'')
    \<and> job_attempt_count (fold failed_attempt es j) = int (length es)"
proof -
  have run: "jq.failing (length es) j (fold failed_attempt es j)"
    using assms by (intro failed_attempts_failing) (simp_all add: job_max_attempts_def)
  from jq.failing_outcome [OF run] jq.failing_attempts [OF run] assms show ?thesis
    by (auto simp: job_max_attempts_def)
qed

definition fresh_job :: job where
  "fresh_job = fst (enqueue ''A'' 5 ''mail'' [] new_job_repo)"

theorem job_gets_three_attempts_witness:
  "job_status (fold failed_attempt [(1, 5, ''e1'', 2), (3, 5, ''e2'', 4), (5, 5, ''e3'', 6)] fresh_job)
     = ''dead_letter''"
proof -
  have "job_status fresh_job = ''queued''" "job_attempt_count fresh_job = 0" by code_simp+
  then show ?thesis
    using job_gets_three_attempts [of fresh_job "[(1, 5, ''e1'', 2), (3, 5, ''e2'', 4), (5, 5, ''e3'', 6)]"]
    by simp
qed

text \<open>
  Requeueing does not reset the attempts. A dead letter that an operator requeues is queued
  with its old count, and one more failure makes it a dead letter again.
\<close>

theorem requeued_dead_letter_gets_one_attempt:
  assumes "map_of (jr_jobs r) jid = Some j" and "job_status j = ''dead_letter''"
    and "2 \<le> job_attempt_count j"
  shows "\<exists>j'. requeue jid now r = (Inr j', snd (requeue jid now r)) \<and> job_status j' = ''queued''
    \<and> job_attempt_count j' = job_attempt_count j \<and> job_status (failed_attempt e j') = ''dead_letter''"
proof -
  let ?j = "requeued_job now j"
  have req: "requeue jid now r = (Inr ?j, snd (requeue jid now r))"
    using assms(1,2) by (simp add: requeue_def get_job_def requeue_repo_def Let_def)
  have q: "job_status ?j = ''queued''" "job_attempt_count ?j = job_attempt_count j"
    by (simp_all add: requeued_job_def)
  obtain t lease msg ended_at where e: "e = (t, lease, msg, ended_at)" by (cases e)
  have "job_status (failed_attempt e ?j) = ''dead_letter''"
    by (rule jq.exhausted_one_attempt [OF q(1), of "claimed_job t lease ?j"])
      (use assms(3) q(2) in \<open>auto simp: e failed_attempt_def job_claims_def job_fails_def Let_def job_max_attempts_def\<close>)
  with req q show ?thesis by blast
qed

definition dead_repo :: job_repo where
  "dead_repo = new_job_repo\<lparr>jr_jobs := [(''job:A'',
     fresh_job\<lparr>job_status := ''dead_letter'', job_attempt_count := 3\<rparr>)]\<rparr>"

theorem requeued_dead_letter_gets_one_attempt_witness:
  "\<exists>j'. fst (requeue ''job:A'' 20 dead_repo) = Inr j' \<and> job_status j' = ''queued''"
proof -
  let ?j = "fresh_job\<lparr>job_status := ''dead_letter'', job_attempt_count := 3\<rparr>"
  have "map_of (jr_jobs dead_repo) ''job:A'' = Some ?j" by (simp add: dead_repo_def)
  from requeued_dead_letter_gets_one_attempt [OF this, of 20 "(30, 5, ''e'', 31)"] show ?thesis
    by (auto simp: prod_eq_iff)
qed

section \<open>A processing round\<close>

text \<open>What the round makes of a job it claimed.\<close>

definition finished_job :: "worker_env \<Rightarrow> job \<Rightarrow> job" where
  "finished_job env c =
     (if \<not> we_registered env (job_name c)
      then failed_job ''dead_letter'' ''job handler is not registered'' (we_end env c) c
      else case we_outcome env c of
             Inl e \<Rightarrow> failed_job (failure_status c) (err_text e) (we_end env c) c
           | Inr res \<Rightarrow> succeeded_job res (we_end env c) c)"

definition run_ok :: "worker_env \<Rightarrow> job \<Rightarrow> bool" where
  "run_ok env c \<longleftrightarrow> we_registered env (job_name c) \<and> is_ok (we_outcome env c)"

lemma fold_renewals:
  "map_of (jr_jobs r) i = Some j \<Longrightarrow>
     \<exists>l. map_of (jr_jobs (fold (\<lambda>t. renew_lease i t lease) ts r)) =
           (map_of (jr_jobs r))(i \<mapsto> j\<lparr>job_lease_expires_at := l\<rparr>)"
proof (induction ts arbitrary: r j)
  case Nil
  have "j = j\<lparr>job_lease_expires_at := job_lease_expires_at j\<rparr>" by simp
  with Nil show ?case by (metis fold_Nil fun_upd_triv id_apply)
next
  case (Cons t ts)
  obtain l where l: "renewed_job t lease j = j\<lparr>job_lease_expires_at := l\<rparr>"
    by (rule that [of "if job_status j \<noteq> ''running'' then job_lease_expires_at j else t + lease"])
      (simp add: renewed_job_def)
  have "map_of (jr_jobs (renew_lease i t lease r)) = (map_of (jr_jobs r))(i \<mapsto> j\<lparr>job_lease_expires_at := l\<rparr>)"
    using Cons.prems by (simp add: renew_lease_def l)
  then have now: "map_of (jr_jobs (renew_lease i t lease r)) i = Some (j\<lparr>job_lease_expires_at := l\<rparr>)"
    and upd: "\<And>j'. (map_of (jr_jobs (renew_lease i t lease r)))(i \<mapsto> j') = (map_of (jr_jobs r))(i \<mapsto> j')"
    by simp_all
  from Cons.IH [OF now] show ?case unfolding upd by simp
qed

lemma process_job_effect:
  assumes "map_of (jr_jobs r) (job_id c) = Some c" "process_job env lease c (out, r) = (out', r')"
  shows "map_of (jr_jobs r') = (map_of (jr_jobs r))(job_id c \<mapsto> finished_job env c)
    \<and> pr_claimed out' = pr_claimed out
    \<and> pr_succeeded out' = pr_succeeded out + (if run_ok env c then 1 else 0)
    \<and> pr_failed out' = pr_failed out + (if run_ok env c then 0 else 1)"
proof -
  let ?r = "fold (\<lambda>t. renew_lease (job_id c) t lease) (we_renewals env c) r"
  obtain l where l: "map_of (jr_jobs ?r) = (map_of (jr_jobs r))(job_id c \<mapsto> c\<lparr>job_lease_expires_at := l\<rparr>)"
    using fold_renewals [OF assms(1)] by blast
  have edit: "failed_job st msg t (c\<lparr>job_lease_expires_at := l\<rparr>) = failed_job st msg t c"
    "succeeded_job res t (c\<lparr>job_lease_expires_at := l\<rparr>) = succeeded_job res t c" for st msg t res
    by (simp_all add: failed_job_def succeeded_job_def)
  show ?thesis
    using assms by (auto simp: process_job_def finished_job_def run_ok_def job_writes l edit Let_def
        split: if_splits sum.splits)
qed

lemma process_all:
  assumes "distinct (map job_id items)" "\<forall>c \<in> set items. map_of (jr_jobs r) (job_id c) = Some c"
    and "fold (process_job env lease) items (out, r) = (out', r')"
  shows "(\<forall>i. map_of (jr_jobs r') i =
       (case find (\<lambda>c. job_id c = i) items of None \<Rightarrow> map_of (jr_jobs r) i | Some c \<Rightarrow> Some (finished_job env c)))
    \<and> pr_claimed out' = pr_claimed out
    \<and> pr_succeeded out' = pr_succeeded out + length (filter (run_ok env) items)
    \<and> pr_failed out' = pr_failed out + length (filter (\<lambda>c. \<not> run_ok env c) items)"
  using assms
proof (induction items arbitrary: out r)
  case (Cons c items)
  obtain out1 r1 where one: "process_job env lease c (out, r) = (out1, r1)"
    by (cases "process_job env lease c (out, r)")
  have "map_of (jr_jobs r) (job_id c) = Some c" using Cons.prems(2) by simp
  note eff = process_job_effect [OF this one]
  have other: "job_id d \<noteq> job_id c" if "d \<in> set items" for d
    using Cons.prems(1) that by (metis distinct.simps(2) image_eqI list.set_map list.simps(9))
  have stored: "\<forall>d \<in> set items. map_of (jr_jobs r1) (job_id d) = Some d"
    using eff Cons.prems(2) other by simp
  have dist: "distinct (map job_id items)" using Cons.prems(1) by simp
  have rest: "fold (process_job env lease) items (out1, r1) = (out', r')"
    using Cons.prems(3) one by simp
  have none: "find (\<lambda>d. job_id d = job_id c) items = None"
    using other by (simp add: find_None_iff)
  note IH = Cons.IH [OF dist stored rest]
  have "map_of (jr_jobs r') i = (case find (\<lambda>d. job_id d = i) (c # items) of
      None \<Rightarrow> map_of (jr_jobs r) i | Some d \<Rightarrow> Some (finished_job env d))" for i
    using IH [THEN conjunct1, THEN spec, of i] eff none by (cases "i = job_id c") (auto split: option.split)
  then show ?case using IH eff by auto
qed simp

text \<open>
  C36: a processing round settles everything it claims. Every claimed job is counted once, as
  succeeded or as failed; each ends as exactly one of succeeded (with the handler's result),
  queued again or dead-lettered according to its attempts, or dead-lettered at once when no
  handler is registered, without a lease; none stays running, and no unclaimed job changes.
\<close>

theorem processing_round_settles_claims:
  assumes reach: "job_reachable r" and ids: "distinct ids" "set ids = set (mkeys (jr_jobs r))"
    and run: "process_once env ids now lease limit r = (out, r')"
    and claim: "claim_pending ids now lease limit r = (items, r1)"
  shows "pr_claimed out = length items \<and> pr_succeeded out + pr_failed out = length items
    \<and> (\<forall>c \<in> set items. map_of (jr_jobs r') (job_id c) = Some (finished_job env c)
         \<and> job_status (finished_job env c) \<noteq> ''running'')
    \<and> (\<forall>i. i \<notin> job_id ` set items \<longrightarrow> map_of (jr_jobs r') i = map_of (jr_jobs r) i)"
proof -
  let ?ids = "claim_ids now (claim_limit limit) (claim_order ids r) r"
  note res = claim_pending_result [OF ids(1) claim]
  have own: "job_id (the (map_of (jr_jobs r) i)) = i" if "i \<in> set ?ids" for i
    using claim_ids_claimable [OF that] job_invD(1) [OF job_inv_reachable [OF reach]]
    by (auto simp: claimable_at_def split: option.splits)
  then have jid: "job_id (claimed_job now lease (the (map_of (jr_jobs r) i))) = i" if "i \<in> set ?ids" for i
    using that by (simp add: claimed_job_def)
  have map_ids: "map job_id items = ?ids"
    unfolding res [THEN conjunct1] map_map comp_def using jid by (intro map_idI) auto
  moreover have "distinct ?ids"
    using ids(1) by (simp add: claim_ids_def claim_order_def sort_slice_def)
  ultimately have dist: "distinct (map job_id items)" by simp
  have "map_of (jr_jobs r1) (job_id c) = Some c" if c: "c \<in> set items" for c
  proof -
    from c obtain i where "i \<in> set ?ids" "c = claimed_job now lease (the (map_of (jr_jobs r) i))"
      unfolding res [THEN conjunct1] by auto
    with jid res show ?thesis by simp
  qed
  then have stored: "\<forall>c \<in> set items. map_of (jr_jobs r1) (job_id c) = Some c" by blast
  from run claim have "fold (process_job env lease) items
      (\<lparr>pr_claimed = length items, pr_succeeded = 0, pr_failed = 0\<rparr>, r1) = (out, r')"
    by (simp add: process_once_def)
  note all = process_all [OF dist stored this]
  have find: "find (\<lambda>d. job_id d = job_id c) items = Some c" if "c \<in> set items" for c
    using dist that by (induction items) auto
  have "job_status (finished_job env c) \<noteq> ''running''" for c
    by (auto simp: finished_job_def failed_job_def succeeded_job_def failure_status_def split: sum.split)
  moreover have "map_of (jr_jobs r') i = map_of (jr_jobs r) i" if "i \<notin> job_id ` set items" for i
  proof -
    from that have "find (\<lambda>d. job_id d = i) items = None" by (auto simp: find_None_iff)
    moreover from that map_ids have "i \<notin> set ?ids" by (metis list.set_map)
    ultimately show ?thesis using all res by simp
  qed
  moreover have "length (filter (run_ok env) items) + length (filter (\<lambda>c. \<not> run_ok env c) items) = length items"
    by (rule sum_length_filter_compl)
  ultimately show ?thesis using all find by auto
qed

definition demo_env :: worker_env where
  "demo_env = \<lparr>we_registered = (\<lambda>n. n = ''mail''), we_outcome = (\<lambda>j. Inr []),
     we_renewals = (\<lambda>j. [12]), we_end = (\<lambda>j. 13)\<rparr>"

theorem processing_round_settles_claims_witness:
  "let (out, r') = process_once demo_env [''job:B'', ''job:A''] 9 5 20 two_jobs
   in pr_claimed out = 2 \<and> pr_succeeded out + pr_failed out = 2"
proof -
  obtain out r' where run: "process_once demo_env [''job:B'', ''job:A''] 9 5 20 two_jobs = (out, r')"
    by (cases "process_once demo_env [''job:B'', ''job:A''] 9 5 20 two_jobs")
  obtain items r1 where claim: "claim_pending [''job:B'', ''job:A''] 9 5 20 two_jobs = (items, r1)"
    by (cases "claim_pending [''job:B'', ''job:A''] 9 5 20 two_jobs")
  have "length (fst (claim_pending [''job:B'', ''job:A''] 9 5 20 two_jobs)) = 2" by code_simp
  then have "length items = 2" by (simp add: claim)
  moreover have "distinct [''job:B'', ''job:A'']" "set [''job:B'', ''job:A''] = set (mkeys (jr_jobs two_jobs))"
    by (auto simp: two_jobs_value)
  ultimately show ?thesis
    using processing_round_settles_claims [OF job_reachable_two _ _ run claim] by (simp add: run)
qed

text \<open>
  A lease protects only the job whose handler is running. A round claims its whole batch at
  once and renews the lease of the current job only, so while the first handler runs past the
  lease, a second worker is handed the jobs at the end of the batch that the first worker still
  holds: the same job is in both batches.
\<close>

theorem batch_tail_is_claimed_twice:
  "let (batch1, r1) = claim_pending [''job:A'', ''job:B''] 10 5000000000 20 two_jobs;
       r2 = renew_lease ''job:A'' 2500000010 5000000000 r1;
       (batch2, r3) = claim_pending [''job:A'', ''job:B''] 5000000010 5000000000 20 r2
   in map job_id batch1 = [''job:A'', ''job:B''] \<and> map job_id batch2 = [''job:B'']"
  by code_simp

end
