(* ===== verification/EventOutbox.thy ===== *)
theory EventOutbox
  imports RetryQueue
begin

text \<open>
  Package \<open>internal/platform/eventing\<close>: domain events, the transactional outbox, and the
  delivery of each outbox record to the registered sinks, over the in-memory repository
  (whose operations never return an error). Handlers and publishers are functions that return
  the error of a call; \<open>validate_schema\<close> is \<open>contracts.ValidateEventSchema\<close>, which
  returns field and message of each issue. The order in which Go walks the map of sinks is the
  argument \<open>names\<close>. Logging and metrics are left out.
\<close>

section \<open>Data\<close>

record event =
  ev_id :: string
  ev_type :: string
  ev_version :: int
  ev_schema_version :: string
  ev_aggregate_type :: string
  ev_aggregate_id :: string
  ev_actor_id :: string
  ev_correlation_id :: string
  ev_organization_id :: string
  ev_location_id :: string
  ev_module_key :: string
  ev_occurred_at :: gotime
  ev_payload :: gobj

record outbox_record =
  ob_id :: string
  ob_event_id :: string
  ob_event_type :: string
  ob_status :: string
  ob_attempt_count :: int
  ob_last_error :: string
  ob_created_at :: gotime
  ob_dispatched_at :: gotime

record dead_letter_record =
  dl_id :: string
  dl_outbox_id :: string
  dl_event_id :: string
  dl_event_type :: string
  dl_sink_name :: string
  dl_reason :: string
  dl_attempt_count :: int
  dl_created_at :: gotime

record delivery_record =
  dv_id :: string
  dv_outbox_id :: string
  dv_event_id :: string
  dv_event_type :: string
  dv_sink_name :: string
  dv_status :: string
  dv_attempt_count :: int
  dv_last_error :: string
  dv_created_at :: gotime
  dv_dispatched_at :: gotime

record event_repo =
  er_events :: "event list"
  er_outbox :: "outbox_record list"
  er_deliveries :: "delivery_record list"
  er_dead_letters :: "dead_letter_record list"

definition outbox_max_attempts :: int where
  "outbox_max_attempts = 3"

definition new_event_repo :: event_repo where
  "new_event_repo = \<lparr>er_events = [], er_outbox = [], er_deliveries = [], er_dead_letters = []\<rparr>"

section \<open>The repository\<close>

definition save_event :: "event \<Rightarrow> event_repo \<Rightarrow> event_repo" where
  "save_event e r = r\<lparr>er_events := er_events r @ [e]\<rparr>"

definition save_outbox :: "outbox_record \<Rightarrow> event_repo \<Rightarrow> event_repo" where
  "save_outbox rec r = r\<lparr>er_outbox := er_outbox r @ [rec]\<rparr>"

definition save_delivery :: "delivery_record \<Rightarrow> event_repo \<Rightarrow> event_repo" where
  "save_delivery d r =
     (if \<exists>x \<in> set (er_deliveries r). dv_outbox_id x = dv_outbox_id d \<and> dv_sink_name x = dv_sink_name d
      then r else r\<lparr>er_deliveries := er_deliveries r @ [d]\<rparr>)"

definition save_dead_letter :: "dead_letter_record \<Rightarrow> event_repo \<Rightarrow> event_repo" where
  "save_dead_letter d r = r\<lparr>er_dead_letters := er_dead_letters r @ [d]\<rparr>"

definition get_event :: "string \<Rightarrow> event_repo \<Rightarrow> event option" where
  "get_event eid r = find (\<lambda>e. ev_id e = eid) (er_events r)"

definition list_events :: "event_repo \<Rightarrow> event list" where
  "list_events r = sort_slice ev_occurred_at (er_events r)"

definition list_outbox :: "event_repo \<Rightarrow> outbox_record list" where
  "list_outbox r = sort_slice ob_created_at (er_outbox r)"

definition list_deliveries :: "event_repo \<Rightarrow> delivery_record list" where
  "list_deliveries r = sort_slice dv_created_at (er_deliveries r)"

definition list_deliveries_by_outbox :: "string \<Rightarrow> event_repo \<Rightarrow> delivery_record list" where
  "list_deliveries_by_outbox oid r =
     sort_slice dv_created_at (filter (\<lambda>d. dv_outbox_id d = oid) (er_deliveries r))"

definition list_dead_letters :: "event_repo \<Rightarrow> dead_letter_record list" where
  "list_dead_letters r = sort_slice dl_created_at (er_dead_letters r)"

text \<open>
  The claim: the first pending deliveries in storage order, all of them if the limit is 0.
  \<open>make([]T, 0, limit)\<close> panics on a negative limit, which is \<^const>\<open>None\<close>.
\<close>

definition claimed_delivery :: "delivery_record \<Rightarrow> delivery_record" where
  "claimed_delivery d = d\<lparr>dv_status := ''processing'', dv_attempt_count := dv_attempt_count d + 1\<rparr>"

fun claim_deliveries_loop ::
    "nat \<Rightarrow> delivery_record list \<Rightarrow> delivery_record list \<Rightarrow> delivery_record list \<times> delivery_record list" where
  "claim_deliveries_loop limit claimed [] = (claimed, [])"
| "claim_deliveries_loop limit claimed (d # ds) =
     (if dv_status d \<noteq> ''pending''
      then (let (cs, ds') = claim_deliveries_loop limit claimed ds in (cs, d # ds'))
      else let d' = claimed_delivery d; claimed' = claimed @ [d']
           in if 0 < limit \<and> limit \<le> length claimed' then (claimed', d' # ds)
              else (let (cs, ds') = claim_deliveries_loop limit claimed' ds in (cs, d' # ds')))"

definition claim_pending_deliveries :: "int \<Rightarrow> event_repo \<Rightarrow> (delivery_record list \<times> event_repo) option" where
  "claim_pending_deliveries limit r =
     (if limit < 0 then None
      else let (claimed, ds) = claim_deliveries_loop (nat limit) [] (er_deliveries r)
           in Some (claimed, r\<lparr>er_deliveries := ds\<rparr>))"

fun claim_outbox_loop :: "string list \<Rightarrow> outbox_record list \<Rightarrow> delivery_record list \<Rightarrow> outbox_record list" where
  "claim_outbox_loop seen outbox [] = []"
| "claim_outbox_loop seen outbox (d # ds) =
     (if dv_outbox_id d \<in> set seen then claim_outbox_loop seen outbox ds
      else (case find (\<lambda>x. ob_id x = dv_outbox_id d) outbox of
              None \<Rightarrow> [] | Some x \<Rightarrow> [x]) @ claim_outbox_loop (dv_outbox_id d # seen) outbox ds)"

definition claim_pending_outbox :: "int \<Rightarrow> event_repo \<Rightarrow> (outbox_record list \<times> event_repo) option" where
  "claim_pending_outbox limit r =
     (case claim_pending_deliveries limit r of
        None \<Rightarrow> None
      | Some (ds, r') \<Rightarrow> Some (claim_outbox_loop [] (er_outbox r') ds, r'))"

text \<open>\<open>write_first\<close> is the loop of the \<open>Mark\<close> methods: edit the first match, or nothing.\<close>

definition write_first :: "('a \<Rightarrow> bool) \<Rightarrow> ('a \<Rightarrow> 'a) \<Rightarrow> 'a list \<Rightarrow> 'a list" where
  "write_first P f xs = (case update_first P f xs of None \<Rightarrow> xs | Some ys \<Rightarrow> ys)"

definition mark_outbox_dispatched :: "string \<Rightarrow> string \<Rightarrow> gotime \<Rightarrow> event_repo \<Rightarrow> event_repo" where
  "mark_outbox_dispatched oid status at_time r = r\<lparr>er_outbox := write_first (\<lambda>x. ob_id x = oid)
     (\<lambda>x. x\<lparr>ob_status := status, ob_dispatched_at := at_time\<rparr>) (er_outbox r)\<rparr>"

definition mark_outbox_failed :: "string \<Rightarrow> string \<Rightarrow> int \<Rightarrow> string \<Rightarrow> event_repo \<Rightarrow> event_repo" where
  "mark_outbox_failed oid status attempts last_error r = r\<lparr>er_outbox := write_first (\<lambda>x. ob_id x = oid)
     (\<lambda>x. x\<lparr>ob_status := status, ob_attempt_count := attempts, ob_last_error := last_error\<rparr>) (er_outbox r)\<rparr>"

definition dispatched_delivery :: "gotime \<Rightarrow> delivery_record \<Rightarrow> delivery_record" where
  "dispatched_delivery at_time d =
     d\<lparr>dv_status := ''dispatched'', dv_dispatched_at := at_time, dv_last_error := []\<rparr>"

definition mark_delivery_dispatched :: "string \<Rightarrow> gotime \<Rightarrow> event_repo \<Rightarrow> event_repo" where
  "mark_delivery_dispatched did at_time r = r\<lparr>er_deliveries :=
     write_first (\<lambda>x. dv_id x = did) (dispatched_delivery at_time) (er_deliveries r)\<rparr>"

definition failed_delivery :: "string \<Rightarrow> int \<Rightarrow> string \<Rightarrow> delivery_record \<Rightarrow> delivery_record" where
  "failed_delivery status attempts last_error d =
     d\<lparr>dv_status := status, dv_attempt_count := attempts, dv_last_error := last_error\<rparr>"

definition mark_delivery_failed :: "string \<Rightarrow> string \<Rightarrow> int \<Rightarrow> string \<Rightarrow> event_repo \<Rightarrow> event_repo" where
  "mark_delivery_failed did status attempts last_error r = r\<lparr>er_deliveries :=
     write_first (\<lambda>x. dv_id x = did) (failed_delivery status attempts last_error) (er_deliveries r)\<rparr>"

section \<open>Sinks\<close>

type_synonym handler = "event \<Rightarrow> goerr option"
type_synonym publisher = "string \<Rightarrow> string \<Rightarrow> event \<Rightarrow> goerr option"

datatype sink = LocalHandlerSink | BrokerSink string publisher "(string, string) gomap"

record event_service =
  es_handlers :: "(string, handler list) gomap"
  es_sinks :: "(string, sink) gomap"

fun sink_name :: "sink \<Rightarrow> string" where
  "sink_name LocalHandlerSink = ''local''"
| "sink_name (BrokerSink name _ _) = name"

fun accepts :: "sink \<Rightarrow> event \<Rightarrow> bool" where
  "accepts LocalHandlerSink _ = True"
| "accepts (BrokerSink _ _ routes) e = (map_of routes (ev_type e) \<noteq> None)"

fun run_handlers :: "handler list \<Rightarrow> event \<Rightarrow> goerr option" where
  "run_handlers [] e = None"
| "run_handlers (h # hs) e = (case h e of Some err \<Rightarrow> Some err | None \<Rightarrow> run_handlers hs e)"

fun deliver :: "event_service \<Rightarrow> sink \<Rightarrow> event \<Rightarrow> goerr option" where
  "deliver svc LocalHandlerSink e = run_handlers (mget [] (es_handlers svc) (ev_type e)) e"
| "deliver svc (BrokerSink _ pub routes) e =
     (case map_of routes (ev_type e) of None \<Rightarrow> None | Some topic \<Rightarrow> pub topic (ev_aggregate_id e) e)"

definition noop_publisher :: publisher where
  "noop_publisher topic key e = None"

definition register_handler :: "string \<Rightarrow> handler \<Rightarrow> event_service \<Rightarrow> event_service" where
  "register_handler event_type h svc =
     svc\<lparr>es_handlers := mput event_type (mget [] (es_handlers svc) event_type @ [h]) (es_handlers svc)\<rparr>"

definition register_sink :: "sink \<Rightarrow> event_service \<Rightarrow> event_service" where
  "register_sink s svc =
     (if sink_name s = [] then svc else svc\<lparr>es_sinks := mput (sink_name s) s (es_sinks svc)\<rparr>)"

definition register_broker_sink ::
    "string \<Rightarrow> publisher option \<Rightarrow> (string, string) gomap \<Rightarrow> event_service \<Rightarrow> event_service" where
  "register_broker_sink name pub routes svc =
     (case pub of None \<Rightarrow> svc
      | Some p \<Rightarrow> if name = [] then svc else register_sink (BrokerSink name p routes) svc)"

definition new_event_service :: event_service where
  "new_event_service = register_sink LocalHandlerSink \<lparr>es_handlers = [], es_sinks = []\<rparr>"

section \<open>The service\<close>

text \<open>
  \<open>Record\<close>: validate the envelope, save the event, its outbox record and a pending delivery
  for each accepting sink. The envelope holds the event's fields; the schema comes from files
  embedded in the \<open>contracts\<close> package.
\<close>

definition new_delivery :: "outbox_record \<Rightarrow> string \<Rightarrow> delivery_record" where
  "new_delivery ob name = \<lparr>dv_id = ob_id ob @ '':'' @ name, dv_outbox_id = ob_id ob,
     dv_event_id = ob_event_id ob, dv_event_type = ob_event_type ob, dv_sink_name = name,
     dv_status = ''pending'', dv_attempt_count = 0, dv_last_error = [],
     dv_created_at = ob_created_at ob, dv_dispatched_at = zero_time\<rparr>"

definition new_outbox :: "gotime \<Rightarrow> event \<Rightarrow> outbox_record" where
  "new_outbox now e = \<lparr>ob_id = ev_id e @ '':outbox'', ob_event_id = ev_id e, ob_event_type = ev_type e,
     ob_status = ''pending'', ob_attempt_count = 0, ob_last_error = [], ob_created_at = now,
     ob_dispatched_at = zero_time\<rparr>"

definition record_delivery ::
    "event_service \<Rightarrow> event \<Rightarrow> outbox_record \<Rightarrow> string \<Rightarrow> event_repo \<Rightarrow> event_repo" where
  "record_delivery svc e ob name r =
     (case map_of (es_sinks svc) name of
        None \<Rightarrow> r
      | Some s \<Rightarrow> if \<not> accepts s e then r else save_delivery (new_delivery ob (sink_name s)) r)"

type_synonym schema_validator = "string \<Rightarrow> string \<Rightarrow> event \<Rightarrow> (string \<times> string) list result"

definition with_schema_version :: "event \<Rightarrow> event" where
  "with_schema_version e = (if ev_schema_version e = [] then e\<lparr>ev_schema_version := ''v1''\<rparr> else e)"

definition record_event ::
    "schema_validator \<Rightarrow> event_service \<Rightarrow> string list \<Rightarrow> gotime \<Rightarrow> event \<Rightarrow> event_repo
       \<Rightarrow> goerr option \<times> event_repo" where
  "record_event validate svc names now e r =
     (let e = with_schema_version e in
      case validate (ev_type e) (ev_schema_version e) e of
        Inl err \<Rightarrow> (Some err, r)
      | Inr ((field, message) # _) \<Rightarrow>
          (Some (Plain (''event schema validation failed: '' @ field @ '' '' @ message)), r)
      | Inr [] \<Rightarrow>
          let ob = new_outbox now e;
              r = save_outbox ob (save_event e r)
          in (None, fold (record_delivery svc e ob) names r))"

text \<open>
  \<open>refreshOutboxStatus\<close>: one pass over the deliveries of the outbox record, as the loop of
  the code keeps it in its flags, then the status and the write.
\<close>

record refresh_flags =
  rf_all_dispatched :: bool
  rf_all_dead :: bool
  rf_any_processing :: bool
  rf_last_error :: string
  rf_dispatched_at :: gotime

definition refresh_step :: "delivery_record \<Rightarrow> refresh_flags \<Rightarrow> refresh_flags" where
  "refresh_step d f =
     (if dv_status d = ''processing''
      then f\<lparr>rf_any_processing := True, rf_all_dispatched := False, rf_all_dead := False\<rparr>
      else if dv_status d = ''pending'' then f\<lparr>rf_all_dispatched := False, rf_all_dead := False\<rparr>
      else if dv_status d = ''dispatched''
      then f\<lparr>rf_dispatched_at := (if is_zero_time (rf_dispatched_at f) \<or> rf_dispatched_at f < dv_dispatched_at d
               then dv_dispatched_at d else rf_dispatched_at f), rf_all_dead := False\<rparr>
      else if dv_status d = ''dead_letter''
      then f\<lparr>rf_all_dispatched := False, rf_last_error := dv_last_error d\<rparr>
      else f\<lparr>rf_all_dispatched := False, rf_all_dead := False\<rparr>)"

definition refresh_scan :: "delivery_record list \<Rightarrow> refresh_flags" where
  "refresh_scan ds = fold refresh_step ds \<lparr>rf_all_dispatched = True, rf_all_dead = True,
     rf_any_processing = False, rf_last_error = [], rf_dispatched_at = zero_time\<rparr>"

definition refresh_status :: "refresh_flags \<Rightarrow> string" where
  "refresh_status f =
     (if rf_all_dispatched f then ''dispatched''
      else if rf_any_processing f then ''processing''
      else if rf_all_dead f then ''dead_letter'' else ''pending'')"

definition refresh_outbox_status :: "string \<Rightarrow> event_repo \<Rightarrow> event_repo" where
  "refresh_outbox_status oid r =
     (let ds = list_deliveries_by_outbox oid r in
      if ds = [] then r
      else let f = refresh_scan ds; status = refresh_status f
           in if status = ''dead_letter'' then mark_outbox_failed oid status 0 (rf_last_error f) r
              else if status = ''dispatched'' then mark_outbox_dispatched oid status (rf_dispatched_at f) r
              else mark_outbox_failed oid status 0 (rf_last_error f) r)"

definition fail_or_dead_letter ::
    "gotime \<Rightarrow> delivery_record \<Rightarrow> string \<Rightarrow> event_repo \<Rightarrow> string \<times> event_repo" where
  "fail_or_dead_letter now d reason r =
     (if outbox_max_attempts \<le> dv_attempt_count d
      then (''dead_letter'',
        save_dead_letter \<lparr>dl_id = ''dead:'' @ dv_outbox_id d @ '':'' @ dv_sink_name d @ '':'' @ show_int (dv_attempt_count d),
            dl_outbox_id = dv_outbox_id d, dl_event_id = dv_event_id d, dl_event_type = dv_event_type d,
            dl_sink_name = dv_sink_name d, dl_reason = reason, dl_attempt_count = dv_attempt_count d,
            dl_created_at = now\<rparr>
          (refresh_outbox_status (dv_outbox_id d)
            (mark_delivery_failed (dv_id d) ''dead_letter'' (dv_attempt_count d) reason r)))
      else (''pending'',
        refresh_outbox_status (dv_outbox_id d)
          (mark_delivery_failed (dv_id d) ''pending'' (dv_attempt_count d) reason r)))"

text \<open>\<open>ensureDeliveries\<close> adds the deliveries that a sink registered later is missing.\<close>

definition ensure_delivery ::
    "event_service \<Rightarrow> event \<Rightarrow> outbox_record \<Rightarrow> string \<Rightarrow> string list \<times> event_repo \<Rightarrow> string list \<times> event_repo" where
  "ensure_delivery svc e ob name = (\<lambda>(known, r).
     case map_of (es_sinks svc) name of
       None \<Rightarrow> (known, r)
     | Some s \<Rightarrow>
         if \<not> accepts s e then (known, r)
         else let key = ob_id ob @ '':'' @ sink_name s
              in if key \<in> set known then (known, r)
                 else (key # known, save_delivery (new_delivery ob (sink_name s)) r))"

definition ensure_outbox ::
    "event_service \<Rightarrow> string list \<Rightarrow> outbox_record \<Rightarrow> string list \<times> event_repo \<Rightarrow> string list \<times> event_repo" where
  "ensure_outbox svc names ob = (\<lambda>(known, r).
     case get_event (ob_event_id ob) r of
       None \<Rightarrow> (known, r)
     | Some e \<Rightarrow> fold (ensure_delivery svc e ob) names (known, r))"

definition ensure_deliveries :: "event_service \<Rightarrow> string list \<Rightarrow> event_repo \<Rightarrow> event_repo" where
  "ensure_deliveries svc names r =
     (let known = map (\<lambda>d. dv_outbox_id d @ '':'' @ dv_sink_name d) (list_deliveries r)
      in snd (fold (ensure_outbox svc names) (list_outbox r) (known, r)))"

record dispatch_result =
  dr_attempted :: nat
  dr_dispatched :: nat
  dr_failed :: nat
  dr_dead_lettered :: nat
  dr_retried :: nat

text \<open>The body of the loop of \<open>DispatchPendingDetailed\<close>: one claimed delivery.\<close>

definition dispatch_failed ::
    "gotime \<Rightarrow> delivery_record \<Rightarrow> string \<Rightarrow> dispatch_result \<times> event_repo \<Rightarrow> dispatch_result \<times> event_repo" where
  "dispatch_failed now d reason = (\<lambda>(res, r).
     let (status, r') = fail_or_dead_letter now d reason r;
         res = res\<lparr>dr_failed := dr_failed res + 1\<rparr>
     in (if status = ''dead_letter'' then res\<lparr>dr_dead_lettered := dr_dead_lettered res + 1\<rparr>
         else res\<lparr>dr_retried := dr_retried res + 1\<rparr>, r'))"

definition dispatch_one ::
    "event_service \<Rightarrow> gotime \<Rightarrow> delivery_record \<Rightarrow> dispatch_result \<times> event_repo \<Rightarrow> dispatch_result \<times> event_repo" where
  "dispatch_one svc now d = (\<lambda>(res, r).
     case get_event (dv_event_id d) r of
       None \<Rightarrow> dispatch_failed now d ''missing event'' (res, r)
     | Some e \<Rightarrow>
         (case map_of (es_sinks svc) (dv_sink_name d) of
            None \<Rightarrow> dispatch_failed now d ''missing sink'' (res, r)
          | Some s \<Rightarrow>
              (case deliver svc s e of
                 Some err \<Rightarrow> dispatch_failed now d (err_text err) (res, r)
               | None \<Rightarrow>
                   (res\<lparr>dr_dispatched := dr_dispatched res + 1\<rparr>,
                    refresh_outbox_status (dv_outbox_id d) (mark_delivery_dispatched (dv_id d) now r)))))"

text \<open>\<open>clock\<close> gives the time at which each claimed delivery is settled.\<close>

definition dispatch_pending_detailed ::
    "event_service \<Rightarrow> string list \<Rightarrow> (delivery_record \<Rightarrow> gotime) \<Rightarrow> int \<Rightarrow> event_repo
       \<Rightarrow> (dispatch_result \<times> event_repo) option" where
  "dispatch_pending_detailed svc names clock limit r =
     (case claim_pending_deliveries limit (ensure_deliveries svc names r) of
        None \<Rightarrow> None
      | Some (items, r') \<Rightarrow>
          Some (fold (\<lambda>d. dispatch_one svc (clock d) d) items
            (\<lparr>dr_attempted = length items, dr_dispatched = 0, dr_failed = 0, dr_dead_lettered = 0, dr_retried = 0\<rparr>, r')))"

definition dispatch_pending ::
    "event_service \<Rightarrow> string list \<Rightarrow> (delivery_record \<Rightarrow> gotime) \<Rightarrow> int \<Rightarrow> event_repo \<Rightarrow> (nat \<times> event_repo) option" where
  "dispatch_pending svc names clock limit r =
     map_option (\<lambda>(res, r'). (dr_dispatched res, r')) (dispatch_pending_detailed svc names clock limit r)"

section \<open>Retries by an operator\<close>

definition retry_delivery :: "string \<Rightarrow> event_repo \<Rightarrow> delivery_record result \<times> event_repo" where
  "retry_delivery did r =
     (case find (\<lambda>d. dv_id d = did) (list_deliveries r) of
        None \<Rightarrow> (Inl (Plain ''outbox delivery not found''), r)
      | Some item \<Rightarrow>
          let r' = refresh_outbox_status (dv_outbox_id item)
                     (mark_delivery_failed (dv_id item) ''pending'' (dv_attempt_count item) [] r)
          in (case find (\<lambda>d. dv_id d = did) (list_deliveries r') of
                Some updated \<Rightarrow> (Inr updated, r')
              | None \<Rightarrow> (Inr item, r')))"

definition retry_outbox_step :: "delivery_record \<Rightarrow> event_repo \<Rightarrow> event_repo" where
  "retry_outbox_step d r =
     (if dv_status d = ''dispatched'' then r
      else mark_delivery_failed (dv_id d) ''pending'' (dv_attempt_count d) [] r)"

definition retry_outbox :: "string \<Rightarrow> event_repo \<Rightarrow> outbox_record result \<times> event_repo" where
  "retry_outbox oid r =
     (let ds = list_deliveries_by_outbox oid r;
          r1 = fold retry_outbox_step ds r
      in if ds = [] then (Inl (Plain ''outbox not found''), r1)
         else let r2 = refresh_outbox_status oid r1
              in (case find (\<lambda>x. ob_id x = oid) (list_outbox r2) of
                    Some item \<Rightarrow> (Inr item, r2)
                  | None \<Rightarrow> (Inl (Plain ''outbox not found''), r2)))"

section \<open>The dispatcher\<close>

record dispatcher =
  dp_interval :: duration
  dp_limit :: int

definition new_dispatcher :: "duration \<Rightarrow> int \<Rightarrow> dispatcher" where
  "new_dispatcher interval limit = \<lparr>dp_interval = (if interval \<le> 0 then second else interval),
     dp_limit = (if limit \<le> 0 then 50 else limit)\<rparr>"

text \<open>One tick, and which health hook it calls: \<^const>\<open>Some\<close> failure, success, or neither.\<close>

datatype health_report = ReportSuccess | ReportFailure string | NoReport

definition dispatcher_tick ::
    "dispatcher \<Rightarrow> event_service \<Rightarrow> string list \<Rightarrow> (delivery_record \<Rightarrow> gotime) \<Rightarrow> event_repo
       \<Rightarrow> (health_report \<times> event_repo) option" where
  "dispatcher_tick d svc names clock r =
     map_option (\<lambda>(res, r').
       (if 0 < dr_failed res
        then ReportFailure (show_int (int (dr_failed res)) @ '' outbox delivery failure(s)'')
        else if 0 < dr_dispatched res then ReportSuccess else NoReport, r'))
     (dispatch_pending_detailed svc names clock (dp_limit d) r)"

end
