(* ===== verification/OutboxFacts.thy ===== *)
theory OutboxFacts
  imports EventOutbox
begin

text \<open>
  What the event outbox guarantees: one delivery per outbox record and sink, what a dispatch
  round does to every delivery it claims, how often a delivery is attempted, and when the status
  of an outbox record agrees with its deliveries.
\<close>

section \<open>Single writes\<close>

lemma map_write_first: "(\<And>x. P x \<Longrightarrow> g (f x) = g x) \<Longrightarrow> map g (write_first P f xs) = map g xs"
  by (auto simp: write_first_def dest: update_first_map split: option.split)

lemma write_first_unique:
  assumes "distinct (map key xs)"
  shows "write_first (\<lambda>x. key x = k) f xs = map (\<lambda>x. if key x = k then f x else x) xs"
proof (cases "update_first (\<lambda>x. key x = k) f xs")
  case None
  then have "map (\<lambda>x. if key x = k then f x else x) xs = xs"
    by (intro map_idI) (auto simp: update_first_None)
  with None show ?thesis by (simp add: write_first_def)
next
  case (Some ys)
  with update_first_unique [OF assms Some] show ?thesis by (simp add: write_first_def)
qed

lemma find_write_first:
  "(\<And>x. key (f x) = key x) \<Longrightarrow>
     find (\<lambda>x. key x = k') (write_first (\<lambda>x. key x = k) f xs) =
     (if k' = k then map_option f (find (\<lambda>x. key x = k) xs) else find (\<lambda>x. key x = k') xs)"
  by (induction xs) (auto simp: write_first_def split: option.splits)

lemma all_write_first:
  "\<forall>x \<in> set xs. Q x \<Longrightarrow> (\<And>x. Q x \<Longrightarrow> Q (f x)) \<Longrightarrow> \<forall>x \<in> set (write_first P f xs). Q x"
  by (induction xs) (auto simp: write_first_def split: option.splits)

lemma refresh_frame [simp]:
  "er_events (refresh_outbox_status oid r) = er_events r"
  "er_deliveries (refresh_outbox_status oid r) = er_deliveries r"
  "er_dead_letters (refresh_outbox_status oid r) = er_dead_letters r"
  by (simp_all add: refresh_outbox_status_def mark_outbox_failed_def mark_outbox_dispatched_def Let_def)

lemma refresh_outbox_ids [simp]: "map ob_id (er_outbox (refresh_outbox_status oid r)) = map ob_id (er_outbox r)"
  by (simp add: refresh_outbox_status_def mark_outbox_failed_def mark_outbox_dispatched_def Let_def map_write_first)

lemma mark_delivery_frame [simp]:
  "er_events (mark_delivery_failed did st n msg r) = er_events r"
  "er_outbox (mark_delivery_failed did st n msg r) = er_outbox r"
  "er_dead_letters (mark_delivery_failed did st n msg r) = er_dead_letters r"
  "er_events (mark_delivery_dispatched did t r) = er_events r"
  "er_outbox (mark_delivery_dispatched did t r) = er_outbox r"
  "er_dead_letters (mark_delivery_dispatched did t r) = er_dead_letters r"
  by (simp_all add: mark_delivery_failed_def mark_delivery_dispatched_def)

lemma save_dead_letter_frame [simp]:
  "er_events (save_dead_letter x r) = er_events r" "er_outbox (save_dead_letter x r) = er_outbox r"
  "er_deliveries (save_dead_letter x r) = er_deliveries r"
  "er_dead_letters (save_dead_letter x r) = er_dead_letters r @ [x]"
  by (simp_all add: save_dead_letter_def)

section \<open>The status of an outbox record\<close>

text \<open>The specification of the status, over the deliveries of the record in any order.\<close>

definition outbox_status_of :: "delivery_record list \<Rightarrow> string" where
  "outbox_status_of ds =
     (if \<forall>d \<in> set ds. dv_status d = ''dispatched'' then ''dispatched''
      else if \<exists>d \<in> set ds. dv_status d = ''processing'' then ''processing''
      else if \<forall>d \<in> set ds. dv_status d = ''dead_letter'' then ''dead_letter''
      else ''pending'')"

lemma fold_refresh_flags:
  "rf_all_dispatched (fold refresh_step ds f) \<longleftrightarrow> rf_all_dispatched f \<and> (\<forall>d \<in> set ds. dv_status d = ''dispatched'')"
  "rf_all_dead (fold refresh_step ds f) \<longleftrightarrow> rf_all_dead f \<and> (\<forall>d \<in> set ds. dv_status d = ''dead_letter'')"
  "rf_any_processing (fold refresh_step ds f) \<longleftrightarrow> rf_any_processing f \<or> (\<exists>d \<in> set ds. dv_status d = ''processing'')"
  by (induction ds arbitrary: f) (auto simp: refresh_step_def)

lemma refresh_status_scan: "refresh_status (refresh_scan ds) = outbox_status_of ds"
  by (simp add: refresh_status_def refresh_scan_def fold_refresh_flags outbox_status_of_def)

lemma fold_refresh_dispatched_at:
  "\<lbrakk>\<forall>d \<in> set ds. 0 < dv_dispatched_at d \<and> dv_status d = ''dispatched''; 0 \<le> rf_dispatched_at f\<rbrakk> \<Longrightarrow>
     rf_dispatched_at (fold refresh_step ds f) = Max (insert (rf_dispatched_at f) (dv_dispatched_at ` set ds))"
proof (induction ds arbitrary: f)
  case (Cons d ds)
  have "rf_dispatched_at (refresh_step d f) = max (rf_dispatched_at f) (dv_dispatched_at d)"
    using Cons.prems by (auto simp: refresh_step_def go_defs max_def)
  moreover have "0 \<le> max (rf_dispatched_at f) (dv_dispatched_at d)" using Cons.prems by auto
  ultimately have "rf_dispatched_at (fold refresh_step (d # ds) f)
      = Max (insert (max (rf_dispatched_at f) (dv_dispatched_at d)) (dv_dispatched_at ` set ds))"
    using Cons.IH [of "refresh_step d f"] Cons.prems(1) by simp
  also have "\<dots> = Max (insert (rf_dispatched_at f) (dv_dispatched_at ` set (d # ds)))"
    by (cases "ds = []") (simp_all add: max.assoc max.left_commute)
  finally show ?case .
qed simp

definition deliveries_of :: "string \<Rightarrow> event_repo \<Rightarrow> delivery_record list" where
  "deliveries_of oid r = filter (\<lambda>d. dv_outbox_id d = oid) (er_deliveries r)"

lemma deliveries_of_refresh [simp]: "deliveries_of oid (refresh_outbox_status oid' r) = deliveries_of oid r"
  by (simp add: deliveries_of_def)

lemma outbox_status_set: "set ds = set ds' \<Longrightarrow> outbox_status_of ds = outbox_status_of ds'"
  by (simp add: outbox_status_of_def)

text \<open>\<open>status_agrees oid r\<close>: the stored record \<open>oid\<close> shows the status of its deliveries.\<close>

definition status_agrees :: "string \<Rightarrow> event_repo \<Rightarrow> bool" where
  "status_agrees oid r \<longleftrightarrow> (case find (\<lambda>x. ob_id x = oid) (er_outbox r) of
     None \<Rightarrow> True | Some ob \<Rightarrow> ob_status ob = outbox_status_of (deliveries_of oid r))"

lemma refresh_find:
  "find (\<lambda>x. ob_id x = oid') (er_outbox (refresh_outbox_status oid r)) =
     (if oid' = oid \<and> deliveries_of oid r \<noteq> [] then
        map_option (\<lambda>x. if outbox_status_of (deliveries_of oid r) = ''dispatched''
            then x\<lparr>ob_status := ''dispatched'', ob_dispatched_at := rf_dispatched_at (refresh_scan (list_deliveries_by_outbox oid r))\<rparr>
            else x\<lparr>ob_status := outbox_status_of (deliveries_of oid r), ob_attempt_count := 0,
                   ob_last_error := rf_last_error (refresh_scan (list_deliveries_by_outbox oid r))\<rparr>)
          (find (\<lambda>x. ob_id x = oid) (er_outbox r))
      else find (\<lambda>x. ob_id x = oid') (er_outbox r))"
proof -
  have s: "outbox_status_of (list_deliveries_by_outbox oid r) = outbox_status_of (deliveries_of oid r)"
    by (rule outbox_status_set) (simp add: list_deliveries_by_outbox_def deliveries_of_def)
  have n: "list_deliveries_by_outbox oid r = [] \<longleftrightarrow> deliveries_of oid r = []"
    by (metis deliveries_of_def list_deliveries_by_outbox_def set_empty set_sort_slice)
  show ?thesis
    by (auto simp: refresh_outbox_status_def refresh_status_scan s n Let_def mark_outbox_failed_def
        mark_outbox_dispatched_def find_write_first)
qed

lemma refresh_agrees: "deliveries_of oid r \<noteq> [] \<Longrightarrow> status_agrees oid (refresh_outbox_status oid r)"
  by (auto simp: status_agrees_def refresh_find split: option.split)

lemma refresh_agrees_other: "status_agrees oid (refresh_outbox_status oid' r) \<longleftrightarrow> status_agrees oid r" if "oid \<noteq> oid'"
  using that by (simp add: status_agrees_def refresh_find cong: option.case_cong)

section \<open>The claim\<close>

definition pending_part :: "nat \<Rightarrow> nat \<Rightarrow> delivery_record list \<Rightarrow> delivery_record list" where
  "pending_part limit n ds =
     (let ps = filter (\<lambda>d. dv_status d = ''pending'') ds in if limit = 0 then ps else take (limit - n) ps)"

lemma pending_part_sub: "set (pending_part limit n ds) \<subseteq> {d \<in> set ds. dv_status d = ''pending''}"
  by (auto simp: pending_part_def Let_def split: if_splits dest: in_set_takeD)

definition claim_in :: "string set \<Rightarrow> delivery_record list \<Rightarrow> delivery_record list" where
  "claim_in ids ds = map (\<lambda>d. if dv_id d \<in> ids then claimed_delivery d else d) ds"

lemma claim_in_other: "\<forall>d \<in> set ds. dv_id d \<notin> ids \<Longrightarrow> claim_in ids ds = ds"
  unfolding claim_in_def by (intro map_idI) auto

lemma claim_loop:
  "distinct (map dv_id ds) \<Longrightarrow> limit = 0 \<or> length claimed < limit \<Longrightarrow>
     claim_deliveries_loop limit claimed ds =
       (claimed @ map claimed_delivery (pending_part limit (length claimed) ds),
        claim_in (dv_id ` set (pending_part limit (length claimed) ds)) ds)"
proof (induction ds arbitrary: claimed)
  case Nil
  show ?case by (simp add: pending_part_def claim_in_def)
next
  case (Cons d ds)
  have new: "\<forall>x \<in> set ds. dv_id x \<noteq> dv_id d"
    using Cons.prems(1) by (metis distinct.simps(2) image_eqI list.set_map list.simps(9))
  have fresh: "dv_id d \<notin> dv_id ` set (pending_part limit n ds)" for n
    using pending_part_sub [of limit n ds] new by fastforce
  show ?case
  proof (cases "dv_status d = ''pending''")
    case False
    then have "pending_part limit (length claimed) (d # ds) = pending_part limit (length claimed) ds"
      by (simp add: pending_part_def)
    with False Cons fresh [of "length claimed"] show ?thesis by (simp add: claim_in_def)
  next
    case True
    show ?thesis
    proof (cases "0 < limit \<and> limit \<le> Suc (length claimed)")
      case full: True
      with Cons.prems(2) have "limit - length claimed = Suc 0" by simp
      with True full have "pending_part limit (length claimed) (d # ds) = [d]"
        by (simp add: pending_part_def)
      with True full new show ?thesis
        by (simp add: Let_def claim_in_def) (intro map_idI [symmetric], auto)
    next
      case False
      have sub: "limit = 0 \<or> limit - length claimed = Suc (limit - Suc (length claimed))"
        using False by auto
      have part: "pending_part limit (length claimed) (d # ds) = d # pending_part limit (Suc (length claimed)) ds"
        using True sub by (auto simp: pending_part_def Let_def)
      have "claim_in (dv_id ` set (pending_part limit (length claimed) (d # ds))) (d # ds)
          = claimed_delivery d # claim_in (dv_id ` set (pending_part limit (Suc (length claimed)) ds)) ds"
        using new by (auto simp: part claim_in_def)
      moreover have "claim_deliveries_loop limit (claimed @ [claimed_delivery d]) ds =
         ((claimed @ [claimed_delivery d]) @ map claimed_delivery (pending_part limit (Suc (length claimed)) ds),
          claim_in (dv_id ` set (pending_part limit (Suc (length claimed)) ds)) ds)"
        using Cons.IH [of "claimed @ [claimed_delivery d]"] Cons.prems(1) False by auto
      ultimately show ?thesis using True False part by (auto simp: Let_def)
    qed
  qed
qed

definition claimed_items :: "int \<Rightarrow> event_repo \<Rightarrow> delivery_record list" where
  "claimed_items limit r = map claimed_delivery (pending_part (nat limit) 0 (er_deliveries r))"

lemma claimed_ids: "dv_id ` set (claimed_items limit r) = dv_id ` set (pending_part (nat limit) 0 (er_deliveries r))"
  by (auto simp: claimed_items_def claimed_delivery_def image_image)

lemma claim_pending_deliveries_result:
  assumes "distinct (map dv_id (er_deliveries r))" "0 \<le> limit"
  shows "claim_pending_deliveries limit r = Some (claimed_items limit r,
           r\<lparr>er_deliveries := claim_in (dv_id ` set (claimed_items limit r)) (er_deliveries r)\<rparr>)"
proof -
  have "nat limit = 0 \<or> length [] < nat limit" by auto
  from claim_loop [OF assms(1) this] assms(2) show ?thesis
    by (simp add: claim_pending_deliveries_def claimed_ids) (simp add: claimed_items_def)
qed

lemma claimed_items_stored:
  assumes "d \<in> set (claimed_items limit r)"
  shows "d \<in> set (claim_in (dv_id ` set (claimed_items limit r)) (er_deliveries r))"
proof -
  from assms obtain x where x: "d = claimed_delivery x" "x \<in> set (er_deliveries r)"
    using pending_part_sub by (fastforce simp: claimed_items_def)
  have "dv_id d \<in> dv_id ` set (claimed_items limit r)" using assms by (rule imageI)
  then have "dv_id x \<in> dv_id ` set (claimed_items limit r)"
    by (simp add: x(1) claimed_delivery_def)
  then have "d = (if dv_id x \<in> dv_id ` set (claimed_items limit r) then claimed_delivery x else x)"
    by (simp only: x(1) if_True)
  then show ?thesis unfolding claim_in_def set_map using x(2) by (rule image_eqI)
qed

section \<open>Settling one delivery\<close>

text \<open>The reason for which an attempt fails, \<^const>\<open>None\<close> if it succeeds.\<close>

definition failure_reason :: "event_service \<Rightarrow> event list \<Rightarrow> delivery_record \<Rightarrow> string option" where
  "failure_reason svc es d =
     (case find (\<lambda>e. ev_id e = dv_event_id d) es of
        None \<Rightarrow> Some ''missing event''
      | Some e \<Rightarrow> (case map_of (es_sinks svc) (dv_sink_name d) of
                     None \<Rightarrow> Some ''missing sink''
                   | Some s \<Rightarrow> map_option err_text (deliver svc s e)))"

definition retry_status :: "delivery_record \<Rightarrow> string" where
  "retry_status d = (if outbox_max_attempts \<le> dv_attempt_count d then ''dead_letter'' else ''pending'')"

definition settled :: "event_service \<Rightarrow> event list \<Rightarrow> gotime \<Rightarrow> delivery_record \<Rightarrow> delivery_record" where
  "settled svc es now d =
     (case failure_reason svc es d of
        None \<Rightarrow> dispatched_delivery now d
      | Some reason \<Rightarrow> failed_delivery (retry_status d) (dv_attempt_count d) reason d)"

lemma settled_keys [simp]:
  "dv_id (settled svc es now d) = dv_id d" "dv_outbox_id (settled svc es now d) = dv_outbox_id d"
  "dv_sink_name (settled svc es now d) = dv_sink_name d"
  by (simp_all add: settled_def dispatched_delivery_def failed_delivery_def split: option.split)

definition is_dead :: "event_service \<Rightarrow> event list \<Rightarrow> delivery_record \<Rightarrow> bool" where
  "is_dead svc es d \<longleftrightarrow> failure_reason svc es d \<noteq> None \<and> outbox_max_attempts \<le> dv_attempt_count d"

lemma dispatch_failed_effect:
  assumes "distinct (map dv_id (er_deliveries r))" "d \<in> set (er_deliveries r)"
    and "dispatch_failed now d reason (res, r) = (res', r')"
  shows "er_deliveries r' = map (\<lambda>x. if dv_id x = dv_id d
        then failed_delivery (retry_status d) (dv_attempt_count d) reason x else x) (er_deliveries r)
    \<and> er_events r' = er_events r
    \<and> map dl_reason (er_dead_letters r') = map dl_reason (er_dead_letters r)
        @ (if outbox_max_attempts \<le> dv_attempt_count d then [reason] else [])
    \<and> res' = res\<lparr>dr_failed := dr_failed res + 1,
        dr_dead_lettered := dr_dead_lettered res + (if outbox_max_attempts \<le> dv_attempt_count d then 1 else 0),
        dr_retried := dr_retried res + (if outbox_max_attempts \<le> dv_attempt_count d then 0 else 1)\<rparr>"
  using assms
  by (cases "outbox_max_attempts \<le> dv_attempt_count d")
    (auto simp: dispatch_failed_def fail_or_dead_letter_def retry_status_def mark_delivery_failed_def
      write_first_unique Let_def)

text \<open>Settling a delivery refreshes its outbox record and disturbs no other record's agreement.\<close>

definition touches :: "string \<Rightarrow> event_repo \<Rightarrow> event_repo \<Rightarrow> bool" where
  "touches oid r r' \<longleftrightarrow> status_agrees oid r' \<and> (\<forall>o'. o' \<noteq> oid \<longrightarrow> status_agrees o' r' = status_agrees o' r)"

lemma status_agrees_dead_letter [simp]: "status_agrees oid (save_dead_letter x r) = status_agrees oid r"
  by (simp add: status_agrees_def deliveries_of_def cong: option.case_cong)

lemma deliveries_of_write:
  assumes "distinct (map dv_id (er_deliveries r))" "d \<in> set (er_deliveries r)"
    and "\<And>x. dv_outbox_id (f x) = dv_outbox_id x"
    and "er_deliveries r' = write_first (\<lambda>x. dv_id x = dv_id d) f (er_deliveries r)"
  shows "oid \<noteq> dv_outbox_id d \<Longrightarrow> deliveries_of oid r' = deliveries_of oid r"
    and "deliveries_of (dv_outbox_id d) r' \<noteq> []"
proof -
  have eq: "er_deliveries r' = map (\<lambda>x. if dv_id x = dv_id d then f x else x) (er_deliveries r)"
    using assms(1,4) by (simp add: write_first_unique)
  have same: "x = d" if "x \<in> set (er_deliveries r)" "dv_id x = dv_id d" for x
    using assms(1,2) that by (meson distinct_map inj_onD)
  show other: "deliveries_of oid r' = deliveries_of oid r" if "oid \<noteq> dv_outbox_id d"
  proof -
    have "filter (\<lambda>x. dv_outbox_id x = oid) (map (\<lambda>x. if dv_id x = dv_id d then f x else x) xs)
        = filter (\<lambda>x. dv_outbox_id x = oid) xs" if "set xs \<subseteq> set (er_deliveries r)" for xs
      using that by (induction xs) (use \<open>oid \<noteq> dv_outbox_id d\<close> same assms(3) in auto)
    then show ?thesis by (simp add: deliveries_of_def eq)
  qed

  have "f d \<in> set (deliveries_of (dv_outbox_id d) r')"
    using assms(2,3) by (force simp: deliveries_of_def eq)
  then show "deliveries_of (dv_outbox_id d) r' \<noteq> []" by auto
qed

lemma touches_refresh:
  assumes "distinct (map dv_id (er_deliveries r))" "d \<in> set (er_deliveries r)"
    and "\<And>x. dv_outbox_id (f x) = dv_outbox_id x"
    and "er_deliveries r1 = write_first (\<lambda>x. dv_id x = dv_id d) f (er_deliveries r)" "er_outbox r1 = er_outbox r"
  shows "touches (dv_outbox_id d) r (refresh_outbox_status (dv_outbox_id d) r1)"
proof -
  note w = deliveries_of_write [OF assms(1-4)]
  have "status_agrees o' r1 = status_agrees o' r" if "o' \<noteq> dv_outbox_id d" for o'
    using w(1) [OF that] assms(5) by (simp add: status_agrees_def cong: option.case_cong)
  then show ?thesis using refresh_agrees [OF w(2)] by (simp add: touches_def refresh_agrees_other)
qed

lemma touches_fail:
  assumes "distinct (map dv_id (er_deliveries r))" "d \<in> set (er_deliveries r)"
    and "dispatch_failed now d reason (res, r) = (res', r')"
  shows "touches (dv_outbox_id d) r r'"
proof -
  let ?r = "\<lambda>st. refresh_outbox_status (dv_outbox_id d) (mark_delivery_failed (dv_id d) st (dv_attempt_count d) reason r)"
  have "touches (dv_outbox_id d) r (?r st)" for st
    by (rule touches_refresh [OF assms(1,2), of "failed_delivery st (dv_attempt_count d) reason"])
      (simp_all add: failed_delivery_def mark_delivery_failed_def)
  moreover have "(\<exists>x. r' = save_dead_letter x (?r ''dead_letter'')) \<or> r' = ?r ''pending''"
    using assms(3) by (auto simp: dispatch_failed_def fail_or_dead_letter_def Let_def split: if_splits)
  ultimately show ?thesis by (auto simp: touches_def)
qed

definition dead_reasons :: "event_repo \<Rightarrow> string list" where
  "dead_reasons r = map dl_reason (er_dead_letters r)"

definition settle_in :: "event_service \<Rightarrow> event list \<Rightarrow> (delivery_record \<Rightarrow> gotime) \<Rightarrow> delivery_record list
    \<Rightarrow> delivery_record list \<Rightarrow> delivery_record list" where
  "settle_in svc es clock items ds = map (\<lambda>x. if x \<in> set items then settled svc es (clock x) x else x) ds"

definition add_counts :: "event_service \<Rightarrow> event list \<Rightarrow> delivery_record list \<Rightarrow> dispatch_result \<Rightarrow> dispatch_result" where
  "add_counts svc es items res = res\<lparr>
     dr_dispatched := dr_dispatched res + length (filter (\<lambda>d. failure_reason svc es d = None) items),
     dr_failed := dr_failed res + length (filter (\<lambda>d. failure_reason svc es d \<noteq> None) items),
     dr_dead_lettered := dr_dead_lettered res + length (filter (is_dead svc es) items),
     dr_retried := dr_retried res + length (filter (\<lambda>d. failure_reason svc es d \<noteq> None \<and> \<not> is_dead svc es d) items)\<rparr>"

lemma dispatch_one_effect:
  assumes uniq: "distinct (map dv_id (er_deliveries r))" and d: "d \<in> set (er_deliveries r)"
    and one: "dispatch_one svc now d (res, r) = (res', r')"
  shows "er_deliveries r' = settle_in svc (er_events r) (\<lambda>_. now) [d] (er_deliveries r)
    \<and> er_events r' = er_events r
    \<and> dead_reasons r' = dead_reasons r
        @ map (the \<circ> failure_reason svc (er_events r)) (filter (is_dead svc (er_events r)) [d])
    \<and> res' = add_counts svc (er_events r) [d] res
    \<and> touches (dv_outbox_id d) r r'"
proof -
  have pick: "map (\<lambda>x. if dv_id x = dv_id d then f x else x) (er_deliveries r)
      = map (\<lambda>x. if x = d then f x else x) (er_deliveries r)" for f
    using uniq d by (intro map_cong) (auto dest: inj_onD simp: distinct_map)
  have same: "settle_in svc (er_events r) (\<lambda>_. now) [d] (er_deliveries r)
      = map (\<lambda>x. if x = d then settled svc (er_events r) now d else x) (er_deliveries r)"
    by (auto simp: settle_in_def)
  show ?thesis
  proof (cases "failure_reason svc (er_events r) d")
    case (Some reason)
    then have "dispatch_failed now d reason (res, r) = (res', r')"
      using one by (auto simp: dispatch_one_def failure_reason_def get_event_def split: option.splits)
    note eff = dispatch_failed_effect [OF uniq d this] touches_fail [OF uniq d this]
    have "map (\<lambda>x. if x = d then failed_delivery (retry_status d) (dv_attempt_count d) reason x else x) (er_deliveries r)
      = settle_in svc (er_events r) (\<lambda>_. now) [d] (er_deliveries r)"
      unfolding same using Some by (intro map_cong) (auto simp: settled_def)
    with eff Some show ?thesis
      by (simp add: pick is_dead_def dead_reasons_def add_counts_def)
  next
    case None
    then have eq: "(res', r') = (res\<lparr>dr_dispatched := dr_dispatched res + 1\<rparr>,
        refresh_outbox_status (dv_outbox_id d) (mark_delivery_dispatched (dv_id d) now r))"
      using one by (auto simp: dispatch_one_def failure_reason_def get_event_def split: option.splits)
    have "touches (dv_outbox_id d) r r'"
      using eq touches_refresh [OF uniq d, of "dispatched_delivery now" "mark_delivery_dispatched (dv_id d) now r"]
      by (simp add: dispatched_delivery_def mark_delivery_dispatched_def)
    moreover have "map (\<lambda>x. if x = d then dispatched_delivery now x else x) (er_deliveries r)
      = settle_in svc (er_events r) (\<lambda>_. now) [d] (er_deliveries r)"
      unfolding same using None by (intro map_cong) (auto simp: settled_def)
    moreover have "er_deliveries r' = map (\<lambda>x. if dv_id x = dv_id d then dispatched_delivery now x else x) (er_deliveries r)"
      using eq uniq by (simp add: mark_delivery_dispatched_def write_first_unique)
    ultimately show ?thesis using eq None
      by (simp add: pick is_dead_def dead_reasons_def add_counts_def)
  qed
qed

lemma distinct_settle_in: "distinct (map dv_id ds) \<Longrightarrow> distinct (map dv_id (settle_in svc es clock items ds))"
proof -
  have "map dv_id (settle_in svc es clock items ds) = map dv_id ds" by (simp add: settle_in_def)
  then show "distinct (map dv_id ds) \<Longrightarrow> ?thesis" by simp
qed

lemma add_counts_Cons: "add_counts svc es items (add_counts svc es [d] res) = add_counts svc es (d # items) res"
  by (simp add: add_counts_def)

lemma dispatch_all:
  assumes "distinct (map dv_id (er_deliveries r))" "distinct (map dv_id items)"
    and "set items \<subseteq> set (er_deliveries r)"
    and "fold (\<lambda>d. dispatch_one svc (clock d) d) items (res, r) = (res', r')"
  shows "er_deliveries r' = settle_in svc (er_events r) clock items (er_deliveries r)
    \<and> er_events r' = er_events r
    \<and> dead_reasons r' = dead_reasons r
        @ map (the \<circ> failure_reason svc (er_events r)) (filter (is_dead svc (er_events r)) items)
    \<and> res' = add_counts svc (er_events r) items res
    \<and> (\<forall>d \<in> set items. status_agrees (dv_outbox_id d) r')
    \<and> (\<forall>oid. oid \<notin> dv_outbox_id ` set items \<longrightarrow> status_agrees oid r' = status_agrees oid r)"
  using assms
proof (induction items arbitrary: res r)
  case Nil
  then show ?case by (simp add: settle_in_def add_counts_def)
next
  case (Cons d items)
  let ?es = "er_events r"
  obtain res1 r1 where one: "dispatch_one svc (clock d) d (res, r) = (res1, r1)"
    by (cases "dispatch_one svc (clock d) d (res, r)")
  have d: "d \<in> set (er_deliveries r)" using Cons.prems(3) by simp
  note eff = dispatch_one_effect [OF Cons.prems(1) d one]
  have dels: "er_deliveries r1 = settle_in svc ?es (\<lambda>_. clock d) [d] (er_deliveries r)" using eff by blast
  have other: "x \<noteq> d" "dv_id x \<noteq> dv_id d" if "x \<in> set items" for x
    using Cons.prems(2) that by (auto simp: image_iff)
  have u1: "distinct (map dv_id (er_deliveries r1))"
    unfolding dels by (rule distinct_settle_in [OF Cons.prems(1)])
  have u2: "distinct (map dv_id items)" using Cons.prems(2) by simp
  have sub: "set items \<subseteq> set (er_deliveries r1)"
  proof
    fix x assume "x \<in> set items"
    with Cons.prems(3) other(1) show "x \<in> set (er_deliveries r1)"
      unfolding dels settle_in_def by (force simp: image_iff)
  qed
  have rest: "fold (\<lambda>d. dispatch_one svc (clock d) d) items (res1, r1) = (res', r')"
    using Cons.prems(4) one by simp
  note IH = Cons.IH [OF u1 u2 sub rest]
  have es: "er_events r1 = ?es" using eff by blast
  have "settled svc ?es (clock d) d \<notin> set items" using other(2) by fastforce
  then have comp: "settle_in svc ?es clock items (settle_in svc ?es (\<lambda>_. clock d) [d] (er_deliveries r))
      = settle_in svc ?es clock (d # items) (er_deliveries r)"
    by (auto simp: settle_in_def)
  have dead: "dead_reasons r' = dead_reasons r
      @ map (the \<circ> failure_reason svc ?es) (filter (is_dead svc ?es) (d # items))"
    using IH eff es by simp
  have agree: "status_agrees (dv_outbox_id d) r'"
    using IH eff by (cases "dv_outbox_id d \<in> dv_outbox_id ` set items") (auto simp: touches_def)
  have "status_agrees oid r' = status_agrees oid r" if "oid \<notin> dv_outbox_id ` set (d # items)" for oid
    using IH eff that by (auto simp: touches_def)
  moreover have "res' = add_counts svc ?es (d # items) res"
    using IH eff es by (simp add: add_counts_Cons)
  moreover have "er_deliveries r' = settle_in svc ?es clock (d # items) (er_deliveries r)"
    using IH es dels comp by simp
  moreover have "er_events r' = ?es" using IH es by simp
  moreover have "\<forall>x \<in> set (d # items). status_agrees (dv_outbox_id x) r'" using IH agree by simp
  ultimately show ?case using dead by blast
qed

section \<open>Reachable repositories\<close>

text \<open>
  The services are those whose sinks are stored under their own names, as \<open>RegisterSink\<close>
  does, and have no colon in their names, so that the delivery identifiers
  \<open><outbox>:<sink>\<close> can be read back.
\<close>

definition plain_sinks :: "event_service \<Rightarrow> bool" where
  "plain_sinks svc \<longleftrightarrow> gm.keyed sink_name (es_sinks svc) \<and> (\<forall>n \<in> set (mkeys (es_sinks svc)). CHR '':'' \<notin> set n)"

lemma plain_sinksD:
  "plain_sinks svc \<Longrightarrow> map_of (es_sinks svc) n = Some s \<Longrightarrow> sink_name s = n \<and> CHR '':'' \<notin> set n"
  by (auto simp: plain_sinks_def map_of_keys_iff dest: gm.keyedD)

lemma plain_sinks_register: "plain_sinks svc \<Longrightarrow> CHR '':'' \<notin> set (sink_name s) \<Longrightarrow> plain_sinks (register_sink s svc)"
  by (auto simp: plain_sinks_def register_sink_def map_of_keys_iff intro: gm.keyed_insert split: if_splits)

lemma plain_sinks_register_handler: "plain_sinks (register_handler t h svc) \<longleftrightarrow> plain_sinks svc"
  by (simp add: plain_sinks_def register_handler_def)

lemma plain_sinks_new: "plain_sinks new_event_service"
  unfolding new_event_service_def by (rule plain_sinks_register) (auto simp: plain_sinks_def gm.keyed_empty mkeys_def)

definition delivery_key :: "delivery_record \<Rightarrow> string \<times> string" where
  "delivery_key d = (dv_outbox_id d, dv_sink_name d)"

definition good_delivery :: "delivery_record \<Rightarrow> bool" where
  "good_delivery d \<longleftrightarrow> dv_id d = dv_outbox_id d @ '':'' @ dv_sink_name d \<and> CHR '':'' \<notin> set (dv_sink_name d)
     \<and> dv_status d \<in> {''pending'', ''processing'', ''dispatched'', ''dead_letter''}"

definition outbox_inv :: "event_repo \<Rightarrow> bool" where
  "outbox_inv r \<longleftrightarrow> distinct (map delivery_key (er_deliveries r)) \<and> (\<forall>d \<in> set (er_deliveries r). good_delivery d)"

lemma colon_split: "CHR '':'' \<notin> set n \<Longrightarrow> CHR '':'' \<notin> set n' \<Longrightarrow> p @ '':'' @ n = q @ '':'' @ n' \<longleftrightarrow> p = q \<and> n = n'"
proof
  assume n: "CHR '':'' \<notin> set n" "CHR '':'' \<notin> set n'" and eq: "p @ '':'' @ n = q @ '':'' @ n'"
  have take: "takeWhile (\<lambda>c. c \<noteq> CHR '':'') (rev (p @ '':'' @ n)) = rev n" if "CHR '':'' \<notin> set n" for p n
    using that by (simp add: takeWhile_append takeWhile_eq_all_conv [THEN iffD2])
  have "rev n = rev n'" using take [OF n(1), of p, unfolded eq] take [OF n(2), of q] by (rule trans [OF sym])
  then have "n = n'" by simp
  with eq show "p = q \<and> n = n'" by simp
qed simp

lemma inv_distinct_ids: "outbox_inv r \<Longrightarrow> distinct (map dv_id (er_deliveries r))"
proof -
  assume inv: "outbox_inv r"
  have "inj_on dv_id (set (er_deliveries r))"
  proof (rule inj_onI)
    fix x y assume xy: "x \<in> set (er_deliveries r)" "y \<in> set (er_deliveries r)" "dv_id x = dv_id y"
    have good: "good_delivery x" "good_delivery y" using inv xy(1,2) by (simp_all add: outbox_inv_def)
    have "dv_outbox_id x @ '':'' @ dv_sink_name x = dv_outbox_id y @ '':'' @ dv_sink_name y"
      using good xy(3) by (simp only: good_delivery_def)
    with colon_split good have "dv_outbox_id x = dv_outbox_id y \<and> dv_sink_name x = dv_sink_name y"
      unfolding good_delivery_def by blast
    then have "delivery_key x = delivery_key y" by (simp add: delivery_key_def)
    with inv xy show "x = y" unfolding outbox_inv_def distinct_map by (auto dest: inj_onD)
  qed
  with inv show ?thesis by (simp add: outbox_inv_def distinct_map)
qed

lemma inv_write_first:
  assumes "outbox_inv r" "er_deliveries r' = write_first P f (er_deliveries r)"
    and "\<And>x. good_delivery x \<Longrightarrow> good_delivery (f x)" "\<And>x. delivery_key (f x) = delivery_key x"
  shows "outbox_inv r'"
proof -
  have "map delivery_key (er_deliveries r') = map delivery_key (er_deliveries r)"
    unfolding assms(2) by (rule map_write_first) (rule assms(4))
  moreover have "\<forall>d \<in> set (er_deliveries r'). good_delivery d"
    unfolding assms(2) using assms(1,3) by (intro all_write_first) (auto simp: outbox_inv_def)
  ultimately show ?thesis using assms(1) by (simp add: outbox_inv_def)
qed

lemma inv_same_deliveries: "er_deliveries r' = er_deliveries r \<Longrightarrow> outbox_inv r' = outbox_inv r"
  by (simp add: outbox_inv_def)

lemma inv_mark:
  "outbox_inv r \<Longrightarrow> st \<in> {''pending'', ''dead_letter''} \<Longrightarrow> outbox_inv (mark_delivery_failed did st n msg r)"
  "outbox_inv r \<Longrightarrow> outbox_inv (mark_delivery_dispatched did t r)"
   apply (rule inv_write_first, assumption, simp add: mark_delivery_failed_def)
    apply (auto simp: good_delivery_def failed_delivery_def delivery_key_def)[2]
  apply (rule inv_write_first, assumption, simp add: mark_delivery_dispatched_def)
   apply (auto simp: good_delivery_def dispatched_delivery_def delivery_key_def)[2]
  done

lemma inv_refresh [simp]: "outbox_inv (refresh_outbox_status oid r) = outbox_inv r"
  and inv_dead_letter [simp]: "outbox_inv (save_dead_letter x r) = outbox_inv r"
  by (rule inv_same_deliveries, simp)+

lemma inv_dispatch_failed: "outbox_inv r \<Longrightarrow> outbox_inv (snd (dispatch_failed now d reason (res, r)))"
  by (auto simp: dispatch_failed_def fail_or_dead_letter_def inv_mark)

lemma inv_dispatch_one: "outbox_inv (snd p) \<Longrightarrow> outbox_inv (snd (dispatch_one svc now d p))"
  by (cases p) (auto simp: dispatch_one_def inv_dispatch_failed inv_mark split: option.split)

lemma inv_dispatch_fold:
  "outbox_inv (snd p) \<Longrightarrow> outbox_inv (snd (fold (\<lambda>d. dispatch_one svc (clock d) d) items p))"
  by (induction items arbitrary: p) (simp_all add: inv_dispatch_one)

lemma claim_loop_keys:
  "map delivery_key (snd (claim_deliveries_loop limit claimed ds)) = map delivery_key ds"
proof (induction limit claimed ds rule: claim_deliveries_loop.induct)
  case (2 limit claimed d ds)
  have "delivery_key (claimed_delivery d) = delivery_key d"
    by (simp add: claimed_delivery_def delivery_key_def)
  with 2 show ?case by (simp add: Let_def case_prod_unfold)
qed simp

lemma claim_loop_good:
  "\<forall>d \<in> set ds. good_delivery d \<Longrightarrow> \<forall>d \<in> set (snd (claim_deliveries_loop limit claimed ds)). good_delivery d"
proof (induction limit claimed ds rule: claim_deliveries_loop.induct)
  case (2 limit claimed d ds)
  have "good_delivery d \<Longrightarrow> good_delivery (claimed_delivery d)"
    by (simp add: claimed_delivery_def good_delivery_def)
  with 2 show ?case by (simp add: Let_def case_prod_unfold)
qed simp

lemma inv_claim: "outbox_inv r \<Longrightarrow> claim_pending_deliveries limit r = Some (items, r') \<Longrightarrow> outbox_inv r'"
  using claim_loop_keys [of "nat limit" "[]" "er_deliveries r"] claim_loop_good [of "er_deliveries r" "nat limit" "[]"]
  by (auto simp: claim_pending_deliveries_def outbox_inv_def split: if_splits prod.splits)

subsection \<open>Adding deliveries\<close>

lemma save_delivery_frame [simp]:
  "er_events (save_delivery d r) = er_events r" "er_outbox (save_delivery d r) = er_outbox r"
  "er_dead_letters (save_delivery d r) = er_dead_letters r"
  by (simp_all add: save_delivery_def)

lemma save_delivery_deliveries:
  "er_deliveries (save_delivery d r) =
     (if delivery_key d \<in> delivery_key ` set (er_deliveries r) then er_deliveries r else er_deliveries r @ [d])"
  unfolding save_delivery_def delivery_key_def image_iff prod.inject by (simp add: eq_commute)

lemma new_delivery_key [simp]: "delivery_key (new_delivery ob n) = (ob_id ob, n)"
  by (simp add: delivery_key_def new_delivery_def)

lemma inv_save_delivery: "outbox_inv r \<Longrightarrow> CHR '':'' \<notin> set n \<Longrightarrow> outbox_inv (save_delivery (new_delivery ob n) r)"
  by (auto simp: outbox_inv_def save_delivery_deliveries good_delivery_def new_delivery_def delivery_key_def)

text \<open>\<open>grown r r'\<close>: \<open>r'\<close> is \<open>r\<close> with fresh pending deliveries at the end.\<close>

definition fresh_delivery :: "delivery_record \<Rightarrow> bool" where
  "fresh_delivery d \<longleftrightarrow> dv_status d = ''pending'' \<and> dv_attempt_count d = 0"

definition grown :: "event_repo \<Rightarrow> event_repo \<Rightarrow> bool" where
  "grown r r' \<longleftrightarrow> er_events r' = er_events r \<and> er_outbox r' = er_outbox r \<and> er_dead_letters r' = er_dead_letters r
     \<and> (\<exists>new. er_deliveries r' = er_deliveries r @ new
          \<and> (\<forall>d \<in> set new. fresh_delivery d \<and> delivery_key d \<notin> delivery_key ` set (er_deliveries r)))"

lemma grown_refl: "grown r r"
  by (simp add: grown_def)

lemma grown_save: "grown r r' \<Longrightarrow> grown r (save_delivery (new_delivery ob n) r')"
proof -
  assume g: "grown r r'"
  then obtain new where new: "er_deliveries r' = er_deliveries r @ new"
    "\<forall>d \<in> set new. fresh_delivery d \<and> delivery_key d \<notin> delivery_key ` set (er_deliveries r)"
    by (auto simp: grown_def)
  have "\<exists>new. er_deliveries (save_delivery (new_delivery ob n) r') = er_deliveries r @ new
      \<and> (\<forall>d \<in> set new. fresh_delivery d \<and> delivery_key d \<notin> delivery_key ` set (er_deliveries r))"
  proof (cases "(ob_id ob, n) \<in> delivery_key ` set (er_deliveries r')")
    case True
    with new show ?thesis by (intro exI [of _ new]) (simp add: save_delivery_deliveries)
  next
    case False
    with new show ?thesis
      by (intro exI [of _ "new @ [new_delivery ob n]"])
        (auto simp: save_delivery_deliveries fresh_delivery_def new_delivery_def delivery_key_def)
  qed
  with g show ?thesis by (simp add: grown_def)
qed

text \<open>\<open>wants svc r ob n\<close>: sink \<open>n\<close> of the service accepts the stored event of \<open>ob\<close>.\<close>

definition wants :: "event_service \<Rightarrow> event_repo \<Rightarrow> outbox_record \<Rightarrow> string \<Rightarrow> bool" where
  "wants svc r ob n \<longleftrightarrow> (\<exists>e s. get_event (ob_event_id ob) r = Some e \<and> map_of (es_sinks svc) n = Some s \<and> accepts s e)"

lemma wants_grown: "grown r r' \<Longrightarrow> wants svc r' ob n = wants svc r ob n"
  by (simp add: wants_def get_event_def grown_def)

text \<open>
  What \<open>ensureDeliveries\<close> keeps while it runs: \<open>known\<close> holds the identifiers of the stored
  deliveries, \<open>done\<close> the pairs it has passed.
\<close>

definition ensure_inv :: "event_repo \<Rightarrow> (string \<times> string) set \<Rightarrow> string list \<times> event_repo \<Rightarrow> bool" where
  "ensure_inv r0 passed p \<longleftrightarrow> grown r0 (snd p) \<and> outbox_inv (snd p)
     \<and> set (fst p) = (\<lambda>(ob, n). ob @ '':'' @ n) ` delivery_key ` set (er_deliveries (snd p))
     \<and> passed \<subseteq> delivery_key ` set (er_deliveries (snd p))"

lemma known_key:
  assumes "outbox_inv r" "CHR '':'' \<notin> set n"
  shows "oid @ '':'' @ n \<in> (\<lambda>(ob, n). ob @ '':'' @ n) ` delivery_key ` set (er_deliveries r)
    \<longleftrightarrow> (oid, n) \<in> delivery_key ` set (er_deliveries r)"
proof
  assume "oid @ '':'' @ n \<in> (\<lambda>(ob, n). ob @ '':'' @ n) ` delivery_key ` set (er_deliveries r)"
  then obtain d where d: "d \<in> set (er_deliveries r)" "oid @ '':'' @ n = dv_outbox_id d @ '':'' @ dv_sink_name d"
    by (auto simp: delivery_key_def)
  moreover have "CHR '':'' \<notin> set (dv_sink_name d)"
    using assms(1) d(1) by (simp add: outbox_inv_def good_delivery_def)
  ultimately have "oid = dv_outbox_id d \<and> n = dv_sink_name d"
    using colon_split [OF assms(2)] by blast
  with d(1) show "(oid, n) \<in> delivery_key ` set (er_deliveries r)" by (auto simp: delivery_key_def)
qed force

lemma ensure_delivery_step:
  assumes inv: "ensure_inv r0 passed p" and svc: "plain_sinks svc"
    and e: "get_event (ob_event_id ob) r0 = Some e"
  shows "ensure_inv r0 (passed \<union> (if wants svc r0 ob n then {(ob_id ob, n)} else {})) (ensure_delivery svc e ob n p)"
proof (cases "wants svc r0 ob n")
  case False
  then have "ensure_delivery svc e ob n p = p"
    using e by (cases p) (auto simp: ensure_delivery_def wants_def split: option.split)
  with False inv show ?thesis by simp
next
  case True
  then obtain s where s: "map_of (es_sinks svc) n = Some s" "accepts s e" using e by (auto simp: wants_def)
  with plain_sinksD [OF svc] have n: "sink_name s = n" "CHR '':'' \<notin> set n" by auto
  obtain known r where p: "p = (known, r)" by (cases p)
  from inv p have r: "grown r0 r" "outbox_inv r" "passed \<subseteq> delivery_key ` set (er_deliveries r)"
    "set known = (\<lambda>(ob, n). ob @ '':'' @ n) ` delivery_key ` set (er_deliveries r)"
    by (simp_all add: ensure_inv_def)
  have key: "ob_id ob @ '':'' @ n \<in> set known \<longleftrightarrow> (ob_id ob, n) \<in> delivery_key ` set (er_deliveries r)"
    unfolding r(4) by (rule known_key [OF r(2) n(2)])
  have "ensure_delivery svc e ob n p = (if (ob_id ob, n) \<in> delivery_key ` set (er_deliveries r) then p
      else ((ob_id ob @ '':'' @ n) # known, save_delivery (new_delivery ob n) r))"
    using s n key by (simp add: ensure_delivery_def p Let_def)
  moreover note True
  moreover note grown_save [OF r(1), of ob n] inv_save_delivery [OF r(2) n(2), of ob]
  ultimately show ?thesis
    using r p by (auto simp: ensure_inv_def save_delivery_deliveries)
qed

lemma ensure_inv_mono: "ensure_inv r0 A p \<Longrightarrow> B \<subseteq> A \<Longrightarrow> ensure_inv r0 B p"
  by (auto simp: ensure_inv_def)

lemma ensure_names:
  assumes svc: "plain_sinks svc" and e: "get_event (ob_event_id ob) r0 = Some e"
  shows "ensure_inv r0 passed p \<Longrightarrow>
    ensure_inv r0 (passed \<union> {(ob_id ob, n) | n. n \<in> set names \<and> wants svc r0 ob n}) (fold (ensure_delivery svc e ob) names p)"
proof (induction names arbitrary: passed p)
  case (Cons n names)
  from Cons.IH [OF ensure_delivery_step [OF Cons.prems svc e, of n]] show ?case
    by (auto elim!: ensure_inv_mono)
qed simp

lemma ensure_outbox_step:
  assumes svc: "plain_sinks svc" and inv: "ensure_inv r0 passed p"
  shows "ensure_inv r0 (passed \<union> {(ob_id ob, n) | n. n \<in> set names \<and> wants svc r0 ob n}) (ensure_outbox svc names ob p)"
proof -
  obtain known r where p: "p = (known, r)" by (cases p)
  have "er_events r = er_events r0" using inv by (simp add: ensure_inv_def grown_def p)
  then have ev: "get_event (ob_event_id ob) r = get_event (ob_event_id ob) r0" by (simp add: get_event_def)
  show ?thesis
  proof (cases "get_event (ob_event_id ob) r0")
    case None
    then show ?thesis using inv by (simp add: ensure_outbox_def p ev wants_def)
  next
    case (Some e)
    then show ?thesis using ensure_names [OF svc Some inv] by (simp add: ensure_outbox_def p ev)
  qed
qed

lemma ensure_outboxes:
  "plain_sinks svc \<Longrightarrow> ensure_inv r0 passed p \<Longrightarrow>
     ensure_inv r0 (passed \<union> {(ob_id ob, n) | ob n. ob \<in> set obs \<and> n \<in> set names \<and> wants svc r0 ob n})
       (fold (ensure_outbox svc names) obs p)"
proof (induction obs arbitrary: passed p)
  case (Cons ob obs)
  from Cons.IH [OF Cons.prems(1) ensure_outbox_step [OF Cons.prems, of ob names]] show ?case
    by (auto elim!: ensure_inv_mono)
qed simp

lemma ensure_deliveries_result:
  assumes "plain_sinks svc" "outbox_inv r"
  shows "grown r (ensure_deliveries svc names r)" "outbox_inv (ensure_deliveries svc names r)"
    "ob \<in> set (er_outbox r) \<Longrightarrow> n \<in> set names \<Longrightarrow> wants svc r ob n \<Longrightarrow>
       (ob_id ob, n) \<in> delivery_key ` set (er_deliveries (ensure_deliveries svc names r))"
proof -
  let ?known = "map (\<lambda>d. dv_outbox_id d @ '':'' @ dv_sink_name d) (list_deliveries r)"
  have "ensure_inv r {} (?known, r)"
    using assms(2) by (auto simp: ensure_inv_def grown_refl list_deliveries_def delivery_key_def image_image)
  from ensure_outboxes [OF assms(1) this, of "list_outbox r" names]
  have inv: "ensure_inv r {(ob_id ob, n) | ob n. ob \<in> set (er_outbox r) \<and> n \<in> set names \<and> wants svc r ob n}
      (fold (ensure_outbox svc names) (list_outbox r) (?known, r))"
    by (simp add: list_outbox_def)
  then show "grown r (ensure_deliveries svc names r)" "outbox_inv (ensure_deliveries svc names r)"
    by (simp_all add: ensure_inv_def ensure_deliveries_def)
  from inv show "ob \<in> set (er_outbox r) \<Longrightarrow> n \<in> set names \<Longrightarrow> wants svc r ob n \<Longrightarrow>
       (ob_id ob, n) \<in> delivery_key ` set (er_deliveries (ensure_deliveries svc names r))"
    unfolding ensure_inv_def ensure_deliveries_def Let_def by blast
qed

lemma inv_record_deliveries:
  "plain_sinks svc \<Longrightarrow> outbox_inv r \<Longrightarrow> outbox_inv (fold (record_delivery svc e ob) names r)"
proof (induction names arbitrary: r)
  case (Cons n names)
  have "outbox_inv (record_delivery svc e ob n r)"
    using Cons.prems plain_sinksD [OF Cons.prems(1)]
    by (auto simp: record_delivery_def intro!: inv_save_delivery split: option.split)
  with Cons show ?case by simp
qed simp

lemma inv_record: "plain_sinks svc \<Longrightarrow> outbox_inv r \<Longrightarrow> outbox_inv (snd (record_event v svc names now e r))"
proof -
  assume asm: "plain_sinks svc" "outbox_inv r"
  have "outbox_inv (save_outbox ob (save_event e r))" for ob e
    using asm(2) by (simp add: save_outbox_def save_event_def outbox_inv_def)
  with asm inv_record_deliveries show ?thesis
    by (auto simp: record_event_def Let_def split: sum.split list.split)
qed

lemma inv_retry_delivery: "outbox_inv r \<Longrightarrow> outbox_inv (snd (retry_delivery did r))"
  by (auto simp: retry_delivery_def Let_def inv_mark split: option.split)

lemma inv_retry_steps: "outbox_inv r \<Longrightarrow> outbox_inv (fold retry_outbox_step ds r)"
  by (induction ds arbitrary: r) (simp_all add: retry_outbox_step_def inv_mark)

lemma inv_retry_outbox: "outbox_inv r \<Longrightarrow> outbox_inv (snd (retry_outbox oid r))"
  by (auto simp: retry_outbox_def Let_def inv_retry_steps split: option.split)

text \<open>
  The steps: the operations with any arguments, and a dispatch round that stops after settling
  any number \<open>k\<close> of the deliveries it claimed, as when the process dies.
\<close>

inductive outbox_reachable :: "event_repo \<Rightarrow> bool" where
  or_new: "outbox_reachable new_event_repo"
| or_record: "outbox_reachable r \<Longrightarrow> plain_sinks svc \<Longrightarrow> outbox_reachable (snd (record_event v svc names now e r))"
| or_dispatch: "outbox_reachable r \<Longrightarrow> plain_sinks svc \<Longrightarrow>
    claim_pending_deliveries limit (ensure_deliveries svc names r) = Some (items, r1) \<Longrightarrow>
    outbox_reachable (snd (fold (\<lambda>d. dispatch_one svc (clock d) d) (take k items) (res, r1)))"
| or_retry_delivery: "outbox_reachable r \<Longrightarrow> outbox_reachable (snd (retry_delivery did r))"
| or_retry_outbox: "outbox_reachable r \<Longrightarrow> outbox_reachable (snd (retry_outbox oid r))"

lemma outbox_inv_reachable: "outbox_reachable r \<Longrightarrow> outbox_inv r"
proof (induction rule: outbox_reachable.induct)
  case or_new
  show ?case by (simp add: outbox_inv_def new_event_repo_def)
next
  case or_record
  then show ?case by (simp add: inv_record)
next
  case (or_dispatch r svc limit names items r1)
  then have "outbox_inv r1" using inv_claim ensure_deliveries_result(2) by blast
  then show ?case by (simp add: inv_dispatch_fold)
next
  case or_retry_delivery
  then show ?case by (simp add: inv_retry_delivery)
next
  case or_retry_outbox
  then show ?case by (simp add: inv_retry_outbox)
qed

lemma dispatch_reachable:
  assumes "outbox_reachable r" "plain_sinks svc"
    and "dispatch_pending_detailed svc names clock limit r = Some (res, r')"
  shows "outbox_reachable r'"
proof -
  obtain items r1 where claim: "claim_pending_deliveries limit (ensure_deliveries svc names r) = Some (items, r1)"
    using assms(3) by (auto simp: dispatch_pending_detailed_def split: option.splits)
  let ?res = "\<lparr>dr_attempted = length items, dr_dispatched = 0, dr_failed = 0, dr_dead_lettered = 0, dr_retried = 0\<rparr>"
  have "fold (\<lambda>d. dispatch_one svc (clock d) d) items (?res, r1) = (res, r')"
    using assms(3) claim by (simp add: dispatch_pending_detailed_def)
  with or_dispatch [OF assms(1,2) claim, of clock "length items" ?res] show ?thesis by simp
qed

section \<open>The promises\<close>

text \<open>
  C26: each event reaches each sink once. After the missing deliveries have been added, every
  outbox record whose event is stored has exactly one delivery for each registered sink that
  accepts the event, in every reachable repository, whatever the order of the sinks; the
  deliveries that were there are untouched, and the added ones are new and pending.
\<close>

theorem one_delivery_per_sink:
  assumes reach: "outbox_reachable r" and svc: "plain_sinks svc"
    and ob: "ob \<in> set (er_outbox r)" "get_event (ob_event_id ob) r = Some e"
    and sink: "map_of (es_sinks svc) n = Some s" "accepts s e" "n \<in> set names"
  shows "length (filter (\<lambda>d. dv_outbox_id d = ob_id ob \<and> dv_sink_name d = n)
           (er_deliveries (ensure_deliveries svc names r))) = 1
    \<and> (\<exists>new. er_deliveries (ensure_deliveries svc names r) = er_deliveries r @ new
         \<and> (\<forall>d \<in> set new. dv_status d = ''pending'' \<and> dv_attempt_count d = 0))"
proof -
  let ?r = "ensure_deliveries svc names r"
  note res = ensure_deliveries_result [OF svc outbox_inv_reachable [OF reach], where names = names]
  have "wants svc r ob n" using ob(2) sink(1,2) by (auto simp: wants_def)
  from res(3) [OF ob(1) sink(3) this]
  have ex: "(ob_id ob, n) \<in> delivery_key ` set (er_deliveries ?r)" .
  have dist: "distinct (map delivery_key (er_deliveries ?r))" using res(2) by (simp add: outbox_inv_def)
  have "length (filter (\<lambda>d. delivery_key d = k) ds) = 1"
    if "distinct (map delivery_key ds)" "k \<in> delivery_key ` set ds" for k ds
    using that by (induction ds) (auto simp: filter_empty_conv image_iff)
  from this [OF dist ex] have "length (filter (\<lambda>d. delivery_key d = (ob_id ob, n)) (er_deliveries ?r)) = 1" .
  then have "length (filter (\<lambda>d. dv_outbox_id d = ob_id ob \<and> dv_sink_name d = n) (er_deliveries ?r)) = 1"
    by (simp add: delivery_key_def)
  moreover obtain new where "er_deliveries ?r = er_deliveries r @ new" "\<forall>d \<in> set new. fresh_delivery d"
    using res(1) by (auto simp: grown_def)
  ultimately show ?thesis by (auto simp: fresh_delivery_def)
qed

definition demo_event :: event where
  "demo_event = \<lparr>ev_id = ''e1'', ev_type = ''doc.created'', ev_version = 1, ev_schema_version = [],
     ev_aggregate_type = ''document'', ev_aggregate_id = ''d1'', ev_actor_id = [], ev_correlation_id = [],
     ev_organization_id = [], ev_location_id = [], ev_module_key = [], ev_occurred_at = 3, ev_payload = []\<rparr>"

definition demo_service :: event_service where
  "demo_service = register_broker_sink ''bus'' (Some (\<lambda>topic key e. Some (Plain ''down'')))
     [(''doc.created'', ''docs'')] new_event_service"

definition demo_outbox :: event_repo where
  "demo_outbox = snd (record_event (\<lambda>_ _ _. Inr []) new_event_service [''local''] 7 demo_event new_event_repo)"

lemma demo_reachable: "outbox_reachable demo_outbox"
  unfolding demo_outbox_def by (intro outbox_reachable.intros plain_sinks_new)

lemma demo_plain: "plain_sinks demo_service"
  by (simp add: demo_service_def register_broker_sink_def plain_sinks_register plain_sinks_new)

theorem one_delivery_per_sink_witness:
  "length (filter (\<lambda>d. dv_outbox_id d = ''e1:outbox'' \<and> dv_sink_name d = ''bus'')
     (er_deliveries (ensure_deliveries demo_service [''bus'', ''local''] demo_outbox))) = 1"
proof -
  let ?ob = "new_outbox 7 (with_schema_version demo_event)"
  let ?s = "BrokerSink ''bus'' (\<lambda>topic key e. Some (Plain ''down'')) [(''doc.created'', ''docs'')]"
  have ob: "?ob \<in> set (er_outbox demo_outbox)" by code_simp
  have e: "get_event (ob_event_id ?ob) demo_outbox = Some (with_schema_version demo_event)" by code_simp
  have s: "map_of (es_sinks demo_service) ''bus'' = Some ?s"
    by (simp add: demo_service_def register_broker_sink_def register_sink_def new_event_service_def)
  have a: "accepts ?s (with_schema_version demo_event)"
    by (simp add: with_schema_version_def demo_event_def)
  have "ob_id ?ob = ''e1:outbox''" by code_simp
  then show ?thesis
    using one_delivery_per_sink [OF demo_reachable demo_plain ob e s a, where names = "[''bus'', ''local'']"] by simp
qed

section \<open>A dispatch round\<close>

text \<open>What a round does to one delivery it claims.\<close>

definition attempted :: "event_service \<Rightarrow> event list \<Rightarrow> (delivery_record \<Rightarrow> gotime) \<Rightarrow> delivery_record \<Rightarrow> delivery_record" where
  "attempted svc es clock x = settled svc es (clock (claimed_delivery x)) (claimed_delivery x)"

definition round_claims :: "event_service \<Rightarrow> string list \<Rightarrow> int \<Rightarrow> event_repo \<Rightarrow> delivery_record list" where
  "round_claims svc names limit r = pending_part (nat limit) 0 (er_deliveries (ensure_deliveries svc names r))"

lemma distinct_pending_part: "distinct (map dv_id ds) \<Longrightarrow> distinct (map dv_id (pending_part limit n ds))"
proof -
  assume d: "distinct (map dv_id ds)"
  let ?ps = "filter (\<lambda>d. dv_status d = ''pending'') ds"
  have "distinct (map dv_id ?ps)" using d by (rule distinct_map_filter)
  then have "distinct (map dv_id (take k ?ps))" for k
    unfolding take_map [symmetric] by (rule distinct_take)
  with \<open>distinct (map dv_id ?ps)\<close> show ?thesis by (simp add: pending_part_def Let_def)
qed

lemma part_ids:
  assumes "distinct (map dv_id ds)" "set ps \<subseteq> set ds" "x \<in> set ds"
  shows "dv_id x \<in> dv_id ` set ps \<longleftrightarrow> x \<in> set ps"
proof
  assume "dv_id x \<in> dv_id ` set ps"
  then obtain y where "y \<in> set ps" "dv_id x = dv_id y" by blast
  moreover from this assms(2) have "y \<in> set ds" by blast
  ultimately have "x = y" using assms(1,3) by (meson distinct_map inj_onD)
  with \<open>y \<in> set ps\<close> show "x \<in> set ps" by simp
qed simp

lemma filter_map_same:
  "(\<And>x. P (f x) = P x) \<Longrightarrow> (\<And>x. x \<in> set xs \<Longrightarrow> P x \<Longrightarrow> f x = x) \<Longrightarrow> filter P (map f xs) = filter P xs"
  by (induction xs) auto

lemma settle_claim:
  assumes "distinct (map dv_id ds)" "set ps \<subseteq> set ds"
  shows "settle_in svc es clock (map claimed_delivery ps) (claim_in (dv_id ` set ps) ds)
    = map (\<lambda>x. if x \<in> set ps then attempted svc es clock x else x) ds"
proof -
  note mem = part_ids [OF assms]
  have id: "dv_id (claimed_delivery x) = dv_id x" for x by (simp add: claimed_delivery_def)
  have out: "x \<notin> claimed_delivery ` set ps" if "x \<in> set ds" "x \<notin> set ps" for x
  proof
    assume "x \<in> claimed_delivery ` set ps"
    then obtain y where y: "y \<in> set ps" "x = claimed_delivery y" by blast
    then have "dv_id x \<in> dv_id ` set ps" by (simp add: id)
    with mem [OF that(1)] that(2) show False by simp
  qed
  have pt: "(if (if dv_id x \<in> dv_id ` set ps then claimed_delivery x else x) \<in> set (map claimed_delivery ps)
        then settled svc es (clock (if dv_id x \<in> dv_id ` set ps then claimed_delivery x else x))
               (if dv_id x \<in> dv_id ` set ps then claimed_delivery x else x)
        else (if dv_id x \<in> dv_id ` set ps then claimed_delivery x else x))
      = (if x \<in> set ps then attempted svc es clock x else x)" if "x \<in> set ds" for x
    using mem [OF that] out [OF that] by (cases "x \<in> set ps") (simp_all add: attempted_def)
  then show ?thesis
    unfolding settle_in_def claim_in_def by simp
qed

lemma dispatch_round:
  assumes reach: "outbox_reachable r" and svc: "plain_sinks svc" and limit: "0 \<le> limit"
  shows "\<exists>res r'. dispatch_pending_detailed svc names clock limit r = Some (res, r')
    \<and> er_deliveries r' = map (\<lambda>x. if x \<in> set (round_claims svc names limit r)
          then attempted svc (er_events r) clock x else x) (er_deliveries (ensure_deliveries svc names r))
    \<and> er_events r' = er_events r
    \<and> dead_reasons r' = dead_reasons r @ map (the \<circ> failure_reason svc (er_events r))
         (filter (is_dead svc (er_events r)) (map claimed_delivery (round_claims svc names limit r)))
    \<and> res = add_counts svc (er_events r) (map claimed_delivery (round_claims svc names limit r))
         \<lparr>dr_attempted = length (round_claims svc names limit r), dr_dispatched = 0, dr_failed = 0,
           dr_dead_lettered = 0, dr_retried = 0\<rparr>
    \<and> (\<forall>d \<in> set (round_claims svc names limit r). status_agrees (dv_outbox_id d) r')
    \<and> (\<forall>oid. oid \<notin> dv_outbox_id ` set (round_claims svc names limit r) \<longrightarrow>
          status_agrees oid r' = status_agrees oid (ensure_deliveries svc names r))"
proof -
  let ?r1 = "ensure_deliveries svc names r" and ?ps = "round_claims svc names limit r"
  note ens = ensure_deliveries_result [OF svc outbox_inv_reachable [OF reach], where names = names]
  have dist: "distinct (map dv_id (er_deliveries ?r1))" by (rule inv_distinct_ids [OF ens(2)])
  have items: "claimed_items limit ?r1 = map claimed_delivery ?ps"
    by (simp add: claimed_items_def round_claims_def)
  have ids: "dv_id ` set (map claimed_delivery ?ps) = dv_id ` set ?ps"
    by (simp add: image_image claimed_delivery_def)
  let ?r2 = "?r1\<lparr>er_deliveries := claim_in (dv_id ` set ?ps) (er_deliveries ?r1)\<rparr>"
  have claim: "claim_pending_deliveries limit ?r1 = Some (map claimed_delivery ?ps, ?r2)"
    using claim_pending_deliveries_result [OF dist limit] unfolding items ids .
  let ?res = "\<lparr>dr_attempted = length ?ps, dr_dispatched = 0, dr_failed = 0, dr_dead_lettered = 0, dr_retried = 0\<rparr>"
  obtain res r' where run: "fold (\<lambda>d. dispatch_one svc (clock d) d) (map claimed_delivery ?ps) (?res, ?r2) = (res, r')"
    by (cases "fold (\<lambda>d. dispatch_one svc (clock d) d) (map claimed_delivery ?ps) (?res, ?r2)")
  have r2: "er_deliveries ?r2 = claim_in (dv_id ` set ?ps) (er_deliveries ?r1)" "er_events ?r2 = er_events r"
    "dead_reasons ?r2 = dead_reasons r"
    using ens(1) by (simp_all add: grown_def dead_reasons_def)
  have "map dv_id (er_deliveries ?r2) = map dv_id (er_deliveries ?r1)"
    by (simp add: claim_in_def claimed_delivery_def)
  with dist have d1: "distinct (map dv_id (er_deliveries ?r2))" by metis
  have "distinct (map dv_id ?ps)" unfolding round_claims_def by (rule distinct_pending_part [OF dist])
  then have d2: "distinct (map dv_id (map claimed_delivery ?ps))"
    by (simp add: comp_def claimed_delivery_def)
  have sub: "set (map claimed_delivery ?ps) \<subseteq> set (er_deliveries ?r2)"
    using claimed_items_stored [of _ limit ?r1] unfolding r2 items ids by blast
  note all = dispatch_all [OF d1 d2 sub run, unfolded r2]
  have part: "set ?ps \<subseteq> set (er_deliveries ?r1)"
    using pending_part_sub [of "nat limit" 0 "er_deliveries ?r1"] by (auto simp: round_claims_def)
  note settle = settle_claim [OF dist part, of svc "er_events r" clock]
  have "dispatch_pending_detailed svc names clock limit r = Some (res, r')"
    using run by (simp add: dispatch_pending_detailed_def claim)
  moreover have "status_agrees oid ?r2 = status_agrees oid ?r1" if "oid \<notin> dv_outbox_id ` set ?ps" for oid
  proof -
    have "filter (\<lambda>d. dv_outbox_id d = oid) (claim_in (dv_id ` set ?ps) (er_deliveries ?r1))
        = filter (\<lambda>d. dv_outbox_id d = oid) (er_deliveries ?r1)"
      unfolding claim_in_def
    proof (rule filter_map_same)
      show "(if dv_id x \<in> dv_id ` set ?ps then claimed_delivery x else x) = x"
        if "x \<in> set (er_deliveries ?r1)" "dv_outbox_id x = oid" for x
        using part_ids [OF dist part that(1)] that(2) \<open>oid \<notin> dv_outbox_id ` set ?ps\<close> by auto
    qed (simp add: claimed_delivery_def)
    then show ?thesis by (simp add: status_agrees_def deliveries_of_def cong: option.case_cong)
  qed
  moreover have "dv_outbox_id ` set (map claimed_delivery ?ps) = dv_outbox_id ` set ?ps"
    by (simp add: image_image claimed_delivery_def)
  moreover have "(\<forall>d \<in> set (map claimed_delivery ?ps). status_agrees (dv_outbox_id d) r')
      \<longleftrightarrow> (\<forall>d \<in> set ?ps. status_agrees (dv_outbox_id d) r')"
    by (simp add: claimed_delivery_def)
  ultimately show ?thesis using all settle by (intro exI [of _ res] exI [of _ r']) simp
qed

text \<open>The records of a demonstration round: the local sink delivers, the broker is down.\<close>

definition demo_round :: "(dispatch_result \<times> event_repo) option" where
  "demo_round = dispatch_pending_detailed demo_service [''bus'', ''local''] (\<lambda>_. 9) 0 demo_outbox"

text \<open>
  C10: a dispatch round settles what it claims. With a limit of at least 0 it never panics; it
  claims the first pending deliveries in storage order, at most \<open>limit\<close> of them (all, for 0),
  leaves each of them dispatched, pending again or dead-lettered according to its sink and its
  attempts, changes no other delivery, writes one dead letter with the reason for each that is
  dead-lettered, and its counters add up.
\<close>

theorem dispatch_round_settles_claims:
  assumes "outbox_reachable r" and "plain_sinks svc" and "0 \<le> limit"
  shows "\<exists>res r'. dispatch_pending_detailed svc names clock limit r = Some (res, r')
    \<and> er_deliveries r' = map (\<lambda>x. if x \<in> set (round_claims svc names limit r)
          then attempted svc (er_events r) clock x else x) (er_deliveries (ensure_deliveries svc names r))
    \<and> map dl_reason (er_dead_letters r') = map dl_reason (er_dead_letters r)
        @ map (the \<circ> failure_reason svc (er_events r))
            (filter (is_dead svc (er_events r)) (map claimed_delivery (round_claims svc names limit r)))
    \<and> dr_attempted res = length (round_claims svc names limit r)
    \<and> dr_attempted res = dr_dispatched res + dr_failed res
    \<and> dr_failed res = dr_dead_lettered res + dr_retried res"
proof -
  obtain res r' where round: "dispatch_pending_detailed svc names clock limit r = Some (res, r')"
    "er_deliveries r' = map (\<lambda>x. if x \<in> set (round_claims svc names limit r)
          then attempted svc (er_events r) clock x else x) (er_deliveries (ensure_deliveries svc names r))"
    "dead_reasons r' = dead_reasons r @ map (the \<circ> failure_reason svc (er_events r))
         (filter (is_dead svc (er_events r)) (map claimed_delivery (round_claims svc names limit r)))"
    "res = add_counts svc (er_events r) (map claimed_delivery (round_claims svc names limit r))
         \<lparr>dr_attempted = length (round_claims svc names limit r), dr_dispatched = 0, dr_failed = 0,
           dr_dead_lettered = 0, dr_retried = 0\<rparr>"
    using dispatch_round [OF assms, of names clock] by blast
  have total: "length (filter P xs) + length (filter (\<lambda>x. \<not> P x) xs) = length xs" for P and xs :: "delivery_record list"
    by (rule sum_length_filter_compl)
  have split: "length (filter Q xs) + length (filter (\<lambda>x. P x \<and> \<not> Q x) xs) = length (filter P xs)"
    if "\<And>x. Q x \<Longrightarrow> P x" for P Q and xs :: "delivery_record list"
    using that by (induction xs) auto
  let ?items = "map claimed_delivery (round_claims svc names limit r)"
  have "dr_attempted res = dr_dispatched res + dr_failed res"
    using total [of "\<lambda>d. failure_reason svc (er_events r) d = None" ?items] by (simp add: round(4) add_counts_def)
  moreover have "dr_failed res = dr_dead_lettered res + dr_retried res"
    using split [of "is_dead svc (er_events r)" "\<lambda>d. failure_reason svc (er_events r) d \<noteq> None" ?items]
    by (simp add: round(4) add_counts_def is_dead_def)
  moreover have "dr_attempted res = length (round_claims svc names limit r)"
    by (simp add: round(4) add_counts_def)
  ultimately show ?thesis using round(1-3) unfolding dead_reasons_def by blast
qed

theorem dispatch_round_settles_claims_witness:
  "\<exists>res r'. demo_round = Some (res, r') \<and> dr_attempted res = 2
     \<and> dr_attempted res = dr_dispatched res + dr_failed res"
proof -
  have "length (round_claims demo_service [''bus'', ''local''] 0 demo_outbox) = 2" by code_simp
  then show ?thesis
    using dispatch_round_settles_claims [OF demo_reachable demo_plain order_refl, of "[''bus'', ''local'']" "\<lambda>_. 9"]
    by (force simp: demo_round_def)
qed

text \<open>
  The status of an outbox record agrees with its deliveries after a round that attempted one
  of them: dispatched if all are dispatched, else processing if one is being processed, else
  dead-lettered if all are dead, else pending.
\<close>

theorem attempted_records_agree:
  assumes "outbox_reachable r" and "plain_sinks svc"
    and "dispatch_pending_detailed svc names clock limit r = Some (res, r')"
    and "d \<in> set (round_claims svc names limit r)"
    and "find (\<lambda>x. ob_id x = dv_outbox_id d) (er_outbox r') = Some ob"
  shows "ob_status ob = outbox_status_of (filter (\<lambda>x. dv_outbox_id x = dv_outbox_id d) (er_deliveries r'))"
proof -
  have "0 \<le> limit"
    using assms(3) by (auto simp: dispatch_pending_detailed_def claim_pending_deliveries_def split: if_splits)
  from dispatch_round [OF assms(1,2) this, of names clock] assms(3,4)
  have "status_agrees (dv_outbox_id d) r'" by auto
  with assms(5) show ?thesis by (simp add: status_agrees_def deliveries_of_def)
qed

theorem attempted_records_agree_witness:
  "\<exists>res r' (ob :: outbox_record). demo_round = Some (res, r')
     \<and> ob_status ob = outbox_status_of (filter (\<lambda>x. dv_outbox_id x = ''e1:outbox'') (er_deliveries r'))"
proof -
  obtain res r' where run: "demo_round = Some (res, r')"
    using dispatch_round [OF demo_reachable demo_plain order_refl, of "[''bus'', ''local'']" "\<lambda>_. 9"]
    by (auto simp: demo_round_def)
  let ?d = "hd (round_claims demo_service [''bus'', ''local''] 0 demo_outbox)"
  have d: "?d \<in> set (round_claims demo_service [''bus'', ''local''] 0 demo_outbox)" by code_simp
  have oid: "dv_outbox_id ?d = ''e1:outbox''" by code_simp
  have "map_option (\<lambda>(res, r'). find (\<lambda>x. ob_id x = ''e1:outbox'') (er_outbox r') \<noteq> None) demo_round = Some True"
    by code_simp
  then obtain ob where "find (\<lambda>x. ob_id x = dv_outbox_id ?d) (er_outbox r') = Some ob"
    unfolding oid run by auto
  from attempted_records_agree [OF demo_reachable demo_plain run [unfolded demo_round_def] d this]
  have "ob_status ob = outbox_status_of (filter (\<lambda>x. dv_outbox_id x = ''e1:outbox'') (er_deliveries r'))"
    unfolding oid .
  with run show ?thesis by blast
qed

text \<open>
  A record with one dispatched and one dead delivery stays pending for ever. Its status is
  pending although none of its deliveries is, and no dispatch round changes its deliveries or
  the agreement of its status: only an operator's retry does.
\<close>

theorem mixed_outcome_stays_pending:
  assumes reach: "outbox_reachable r" and svc: "plain_sinks svc" and limit: "0 \<le> limit"
    and complete: "er_deliveries (ensure_deliveries svc names r) = er_deliveries r"
    and closed: "\<forall>d \<in> set (er_deliveries r). dv_outbox_id d = oid \<longrightarrow> dv_status d \<in> {''dispatched'', ''dead_letter''}"
    and mixed: "a \<in> set (er_deliveries r)" "dv_outbox_id a = oid" "dv_status a = ''dispatched''"
      "b \<in> set (er_deliveries r)" "dv_outbox_id b = oid" "dv_status b = ''dead_letter''"
  shows "outbox_status_of (deliveries_of oid r) = ''pending''
    \<and> (\<exists>res r'. dispatch_pending_detailed svc names clock limit r = Some (res, r')
         \<and> deliveries_of oid r' = deliveries_of oid r \<and> status_agrees oid r' = status_agrees oid r)"
proof -
  have "a \<in> set (deliveries_of oid r)" "b \<in> set (deliveries_of oid r)"
    using mixed by (simp_all add: deliveries_of_def)
  moreover have "dv_status d \<noteq> ''processing''" if "d \<in> set (deliveries_of oid r)" for d
    using closed that by (auto simp: deliveries_of_def)
  ultimately have "\<not> (\<forall>d \<in> set (deliveries_of oid r). dv_status d = ''dispatched'')"
    "\<not> (\<forall>d \<in> set (deliveries_of oid r). dv_status d = ''dead_letter'')"
    "\<not> (\<exists>d \<in> set (deliveries_of oid r). dv_status d = ''processing'')"
    using mixed(3,6) by force+
  then have "outbox_status_of (deliveries_of oid r) = ''pending''"
    unfolding outbox_status_of_def by presburger
  moreover obtain res r' where round: "dispatch_pending_detailed svc names clock limit r = Some (res, r')"
    "er_deliveries r' = map (\<lambda>x. if x \<in> set (round_claims svc names limit r)
          then attempted svc (er_events r) clock x else x) (er_deliveries r)"
    "\<forall>oid. oid \<notin> dv_outbox_id ` set (round_claims svc names limit r) \<longrightarrow>
          status_agrees oid r' = status_agrees oid (ensure_deliveries svc names r)"
    using dispatch_round [OF reach svc limit, of names clock] unfolding complete by blast
  have claims: "d \<in> set (er_deliveries r) \<and> dv_status d = ''pending''" if "d \<in> set (round_claims svc names limit r)" for d
    using that pending_part_sub unfolding round_claims_def complete by blast
  then have free: "oid \<notin> dv_outbox_id ` set (round_claims svc names limit r)" using closed by force
  have "deliveries_of oid r' = deliveries_of oid r"
    unfolding deliveries_of_def round(2)
  proof (rule filter_map_same)
    show "(if x \<in> set (round_claims svc names limit r) then attempted svc (er_events r) clock x else x) = x"
      if "dv_outbox_id x = oid" for x
      using free that by auto
  qed (simp add: attempted_def claimed_delivery_def)
  moreover have "status_agrees oid (ensure_deliveries svc names r) = status_agrees oid r"
  proof -
    have "er_outbox (ensure_deliveries svc names r) = er_outbox r"
      using ensure_deliveries_result(1) [OF svc outbox_inv_reachable [OF reach], of names] by (simp add: grown_def)
    then show ?thesis by (simp add: status_agrees_def deliveries_of_def complete cong: option.case_cong)
  qed
  ultimately show ?thesis using round(1,3) free by blast
qed

definition after_round :: "event_service \<Rightarrow> event_repo \<Rightarrow> event_repo" where
  "after_round svc r = (case dispatch_pending_detailed svc [''bus'', ''local''] (\<lambda>_. 9) 0 r of
     Some (_, r') \<Rightarrow> r' | None \<Rightarrow> r)"

lemma after_round_reachable: "plain_sinks svc \<Longrightarrow> outbox_reachable r \<Longrightarrow> outbox_reachable (after_round svc r)"
  by (auto simp: after_round_def intro: dispatch_reachable split: option.split)

definition demo_mixed :: event_repo where
  "demo_mixed = after_round demo_service (after_round demo_service (after_round demo_service demo_outbox))"

lemma demo_mixed_reachable: "outbox_reachable demo_mixed"
  unfolding demo_mixed_def by (intro after_round_reachable demo_plain demo_reachable)

theorem mixed_outcome_stays_pending_witness:
  "outbox_status_of (deliveries_of ''e1:outbox'' demo_mixed) = ''pending''"
proof -
  have closed: "\<forall>d \<in> set (er_deliveries demo_mixed). dv_outbox_id d = ''e1:outbox''
      \<longrightarrow> dv_status d \<in> {''dispatched'', ''dead_letter''}" by code_simp
  let ?a = "er_deliveries demo_mixed ! 0" and ?b = "er_deliveries demo_mixed ! 1"
  have complete: "er_deliveries (ensure_deliveries demo_service [''bus'', ''local''] demo_mixed) = er_deliveries demo_mixed"
    by code_simp
  have len: "length (er_deliveries demo_mixed) = 2" by code_simp
  have a: "?a \<in> set (er_deliveries demo_mixed)" and b: "?b \<in> set (er_deliveries demo_mixed)"
    by (rule nth_mem, simp add: len)+
  have as: "dv_outbox_id ?a = ''e1:outbox''" "dv_status ?a = ''dispatched''" by code_simp+
  have bs: "dv_outbox_id ?b = ''e1:outbox''" "dv_status ?b = ''dead_letter''" by code_simp+
  show ?thesis
    using mixed_outcome_stays_pending [OF demo_mixed_reachable demo_plain order_refl complete closed a as b bs] by blast
qed

text \<open>
  A delivery that was claimed but not settled, as when the process dies between the two, is
  never attempted again: there is no lease, and a round claims pending deliveries only. It stays
  as it is through every later round.
\<close>

theorem interrupted_delivery_is_lost:
  assumes reach: "outbox_reachable r" and svc: "plain_sinks svc" and limit: "0 \<le> limit"
    and d: "d \<in> set (er_deliveries r)" "dv_status d = ''processing''"
  shows "\<exists>res r'. dispatch_pending_detailed svc names clock limit r = Some (res, r') \<and> d \<in> set (er_deliveries r')"
proof -
  let ?r1 = "ensure_deliveries svc names r"
  obtain res r' where round: "dispatch_pending_detailed svc names clock limit r = Some (res, r')"
    "er_deliveries r' = map (\<lambda>x. if x \<in> set (round_claims svc names limit r)
          then attempted svc (er_events r) clock x else x) (er_deliveries ?r1)"
    using dispatch_round [OF reach svc limit, of names clock] by blast
  have "d \<in> set (er_deliveries ?r1)"
    using ensure_deliveries_result(1) [OF svc outbox_inv_reachable [OF reach], of names] d(1) by (auto simp: grown_def)
  moreover have "d \<notin> set (round_claims svc names limit r)"
    using pending_part_sub d(2) unfolding round_claims_def by fastforce
  ultimately have "d \<in> set (er_deliveries r')" unfolding round(2) by force
  with round(1) show ?thesis by blast
qed

definition demo_crashed :: event_repo where
  "demo_crashed = snd (the (claim_pending_deliveries 0 (ensure_deliveries demo_service [''bus'', ''local''] demo_outbox)))"

theorem interrupted_delivery_is_lost_witness:
  "\<exists>res r'. dispatch_pending_detailed demo_service [''bus'', ''local''] (\<lambda>_. 9) 0 demo_crashed = Some (res, r')
     \<and> hd (er_deliveries demo_crashed) \<in> set (er_deliveries r')"
proof -
  obtain items r1 where claim:
    "claim_pending_deliveries 0 (ensure_deliveries demo_service [''bus'', ''local''] demo_outbox) = Some (items, r1)"
    by (cases "claim_pending_deliveries 0 (ensure_deliveries demo_service [''bus'', ''local''] demo_outbox)")
      (auto simp: claim_pending_deliveries_def case_prod_unfold Let_def)
  then have "demo_crashed = r1" by (simp add: demo_crashed_def)
  moreover have "outbox_reachable r1"
    using or_dispatch [OF demo_reachable demo_plain claim, of "\<lambda>_. 9" 0] by simp
  ultimately have reach: "outbox_reachable demo_crashed" by simp
  have d: "hd (er_deliveries demo_crashed) \<in> set (er_deliveries demo_crashed)"
    "dv_status (hd (er_deliveries demo_crashed)) = ''processing''" by code_simp+
  show ?thesis by (rule interrupted_delivery_is_lost [OF reach demo_plain order_refl d])
qed

section \<open>Attempts\<close>

definition delivery_claims :: "delivery_record \<Rightarrow> delivery_record \<Rightarrow> bool" where
  "delivery_claims x y \<longleftrightarrow> y = claimed_delivery x"

definition delivery_fails :: "delivery_record \<Rightarrow> delivery_record \<Rightarrow> bool" where
  "delivery_fails x y \<longleftrightarrow> (\<exists>reason. y = failed_delivery (retry_status x) (dv_attempt_count x) reason x)"

interpretation dq: retry_item "\<lambda>d. dv_status d = ''pending''" "\<lambda>d. dv_status d = ''processing''"
    "\<lambda>d. dv_status d = ''dead_letter''" dv_attempt_count delivery_claims delivery_fails outbox_max_attempts
  by unfold_locales
    (auto simp: delivery_claims_def delivery_fails_def claimed_delivery_def failed_delivery_def retry_status_def)

lemma failing_attempt:
  assumes "failure_reason svc es d \<noteq> None"
  shows "delivery_fails (claimed_delivery d) (attempted svc es clock d)"
proof -
  have "failure_reason svc es (claimed_delivery d) = failure_reason svc es d"
    by (simp add: failure_reason_def claimed_delivery_def cong: option.case_cong)
  with assms show ?thesis by (auto simp: delivery_fails_def attempted_def settled_def)
qed

text \<open>One failing round after another, with any service, events and clock each time.\<close>

fun failing_rounds :: "(event_service \<times> event list \<times> (delivery_record \<Rightarrow> gotime)) list \<Rightarrow> delivery_record \<Rightarrow> bool" where
  "failing_rounds [] d = True"
| "failing_rounds ((svc, es, clock) # rounds) d \<longleftrightarrow>
     failure_reason svc es d \<noteq> None \<and> failing_rounds rounds (attempted svc es clock d)"

definition after_rounds ::
    "(event_service \<times> event list \<times> (delivery_record \<Rightarrow> gotime)) list \<Rightarrow> delivery_record \<Rightarrow> delivery_record" where
  "after_rounds = fold (\<lambda>(svc, es, clock). attempted svc es clock)"

lemma failing_rounds_snoc:
  "failing_rounds (rounds @ [(svc, es, clock)]) d \<longleftrightarrow>
     failing_rounds rounds d \<and> failure_reason svc es (after_rounds rounds d) \<noteq> None"
  by (induction rounds d rule: failing_rounds.induct) (auto simp: after_rounds_def)

lemma failing_rounds_failing:
  "failing_rounds rounds d \<Longrightarrow> dv_status d = ''pending'' \<Longrightarrow>
     dv_attempt_count d + int (length rounds) \<le> outbox_max_attempts \<Longrightarrow>
     dq.failing (length rounds) d (after_rounds rounds d)"
proof (induction rounds rule: rev_induct)
  case Nil
  show ?case by (simp add: dq.failing_0 after_rounds_def)
next
  case (snoc round rounds)
  obtain svc es clock where round: "round = (svc, es, clock)" by (cases round)
  have fails: "failing_rounds rounds d" "failure_reason svc es (after_rounds rounds d) \<noteq> None"
    using snoc.prems(1) by (simp_all add: round failing_rounds_snoc)
  have run: "dq.failing (length rounds) d (after_rounds rounds d)"
    using snoc.IH [OF fails(1) snoc.prems(2)] snoc.prems(3) by simp
  from dq.failing_outcome [OF run snoc.prems(2)] snoc.prems(3)
  have "dv_status (after_rounds rounds d) = ''pending''" by simp
  moreover have "delivery_claims (after_rounds rounds d) (claimed_delivery (after_rounds rounds d))"
    by (simp add: delivery_claims_def)
  ultimately have "dq.failing (Suc (length rounds)) d (attempted svc es clock (after_rounds rounds d))"
    using failing_attempt [OF fails(2)] by (rule dq.failing_Suc [OF run])
  then show ?case by (simp add: round after_rounds_def)
qed

text \<open>
  A delivery gets three attempts. After fewer failed rounds than three it is pending again,
  after exactly three it is a dead letter, whatever made the rounds fail (the event or the sink
  is missing, or the sink returns an error).
\<close>

theorem delivery_gets_three_attempts:
  assumes "dv_status d = ''pending''" and "dv_attempt_count d = 0"
    and "failing_rounds rounds d" and "length rounds \<le> 3"
  shows "dv_status (after_rounds rounds d) = (if length rounds < 3 then ''pending'' else ''dead_letter'')
    \<and> dv_attempt_count (after_rounds rounds d) = int (length rounds)"
proof -
  have run: "dq.failing (length rounds) d (after_rounds rounds d)"
    using assms by (intro failing_rounds_failing) (simp_all add: outbox_max_attempts_def)
  from dq.failing_outcome [OF run] dq.failing_attempts [OF run] assms show ?thesis
    by (auto simp: outbox_max_attempts_def)
qed

definition demo_delivery :: delivery_record where
  "demo_delivery = new_delivery (new_outbox 7 demo_event) ''bus''"

theorem delivery_gets_three_attempts_witness:
  "dv_status (after_rounds [(demo_service, [], \<lambda>_. 1), (demo_service, [demo_event], \<lambda>_. 2),
     (demo_service, [demo_event], \<lambda>_. 3)] demo_delivery) = ''dead_letter''"
proof -
  let ?rounds = "[(demo_service, [], \<lambda>_. 1), (demo_service, [demo_event], \<lambda>_. 2), (demo_service, [demo_event], \<lambda>_. 3)]"
  have "dv_status demo_delivery = ''pending''" "dv_attempt_count demo_delivery = 0" by code_simp+
  moreover have "failing_rounds ?rounds demo_delivery" by code_simp
  ultimately show ?thesis using delivery_gets_three_attempts [of demo_delivery ?rounds] by simp
qed

text \<open>
  A retry does not reset the attempts. A dead delivery that an operator retries is pending
  with its old count, and one more failed round makes it a dead letter again.
\<close>

theorem retried_delivery_gets_one_attempt:
  assumes reach: "outbox_reachable r" and d: "d \<in> set (er_deliveries r)"
    and dead: "dv_status d = ''dead_letter''" "2 \<le> dv_attempt_count d"
    and fails: "failure_reason svc es d \<noteq> None"
  shows "\<exists>d' r'. retry_delivery (dv_id d) r = (Inr d', r') \<and> dv_status d' = ''pending''
    \<and> dv_attempt_count d' = dv_attempt_count d \<and> dv_status (attempted svc es clock d') = ''dead_letter''"
proof -
  have uniq: "distinct (map dv_id (er_deliveries r))"
    by (rule inv_distinct_ids [OF outbox_inv_reachable [OF reach]])
  have found: "find (\<lambda>x. dv_id x = dv_id y) (sort_slice dv_created_at xs) = Some y"
    if "distinct (map dv_id xs)" "y \<in> set xs" for y :: delivery_record and xs
  proof -
    have "find (\<lambda>x. dv_id x = dv_id y) (sort_slice dv_created_at xs) \<noteq> None"
      using that(2) by (auto simp: find_None_iff)
    then obtain z where z: "find (\<lambda>x. dv_id x = dv_id y) (sort_slice dv_created_at xs) = Some z" by blast
    with find_SomeD [OF z] that have "z = y" by (auto simp: distinct_map dest: inj_onD)
    with z show ?thesis by simp
  qed
  let ?d = "failed_delivery ''pending'' (dv_attempt_count d) [] d"
  let ?r = "refresh_outbox_status (dv_outbox_id d) (mark_delivery_failed (dv_id d) ''pending'' (dv_attempt_count d) [] r)"
  have dels: "er_deliveries ?r = map (\<lambda>x. if dv_id x = dv_id d
      then failed_delivery ''pending'' (dv_attempt_count d) [] x else x) (er_deliveries r)"
    by (simp add: mark_delivery_failed_def write_first_unique [OF uniq])
  have "map dv_id (er_deliveries ?r) = map dv_id (er_deliveries r)"
    unfolding dels by (simp add: failed_delivery_def)
  with uniq have uniq': "distinct (map dv_id (er_deliveries ?r))" by metis
  have mem: "?d \<in> set (er_deliveries ?r)" using d unfolding dels by force
  have id: "dv_id ?d = dv_id d" by (simp add: failed_delivery_def)
  have "retry_delivery (dv_id d) r = (Inr ?d, ?r)"
    using found [OF uniq d] found [OF uniq' mem] unfolding id
    by (simp add: retry_delivery_def list_deliveries_def Let_def)
  moreover have q: "dv_status ?d = ''pending''" "dv_attempt_count ?d = dv_attempt_count d"
    by (simp_all add: failed_delivery_def)
  moreover have "failure_reason svc es ?d = failure_reason svc es d"
    by (simp add: failure_reason_def failed_delivery_def cong: option.case_cong)
  then have "delivery_fails (claimed_delivery ?d) (attempted svc es clock ?d)"
    using fails failing_attempt [of svc es ?d clock] by simp
  then have "dv_status (attempted svc es clock ?d) = ''dead_letter''"
    by (rule dq.exhausted_one_attempt [OF q(1), rotated 2])
      (use dead q(2) in \<open>simp_all add: outbox_max_attempts_def delivery_claims_def\<close>)
  ultimately show ?thesis by blast
qed

theorem retried_delivery_gets_one_attempt_witness:
  "\<exists>d' r'. retry_delivery ''e1:outbox:bus'' demo_mixed = (Inr d', r') \<and> dv_status d' = ''pending''"
proof -
  let ?d = "er_deliveries demo_mixed ! 1"
  have "length (er_deliveries demo_mixed) = 2" by code_simp
  then have d: "?d \<in> set (er_deliveries demo_mixed)" by (intro nth_mem) simp
  have dead: "dv_status ?d = ''dead_letter''" "2 \<le> dv_attempt_count ?d" by code_simp+
  have fails: "failure_reason demo_service [] ?d \<noteq> None" by (simp add: failure_reason_def)
  have "dv_id ?d = ''e1:outbox:bus''" by code_simp
  with retried_delivery_gets_one_attempt [OF demo_mixed_reachable d dead fails] show ?thesis by metis
qed

section \<open>Recording an event\<close>

text \<open>
  An event is recorded as a whole or not at all. If its schema rejects it nothing is stored
  and the first issue is the error; otherwise the event (under schema version v1 unless it names
  one), one pending outbox record and a pending delivery for each accepting sink are stored, in
  a repository that does not hold the outbox record yet.
\<close>

theorem record_event_stores_all_or_nothing:
  assumes svc: "plain_sinks svc" and names: "distinct names"
    and new: "\<forall>d \<in> set (er_deliveries r). dv_outbox_id d \<noteq> ev_id e @ '':outbox''"
    and v: "validate (ev_type e) (ev_schema_version (with_schema_version e)) (with_schema_version e) = outcome"
  shows "case outcome of
      Inl err \<Rightarrow> record_event validate svc names now e r = (Some err, r)
    | Inr ((field, message) # _) \<Rightarrow> record_event validate svc names now e r =
        (Some (Plain (''event schema validation failed: '' @ field @ '' '' @ message)), r)
    | Inr [] \<Rightarrow> record_event validate svc names now e r = (None, r\<lparr>
        er_events := er_events r @ [with_schema_version e],
        er_outbox := er_outbox r @ [new_outbox now (with_schema_version e)],
        er_deliveries := er_deliveries r @ map (new_delivery (new_outbox now (with_schema_version e)))
          (filter (\<lambda>n. \<exists>s. map_of (es_sinks svc) n = Some s \<and> accepts s (with_schema_version e)) names)\<rparr>)"
proof -
  let ?e = "with_schema_version e"
  let ?ob = "new_outbox now ?e"
  have type: "ev_type ?e = ev_type e" by (simp add: with_schema_version_def)
  have oid: "ob_id ?ob = ev_id e @ '':outbox''" by (simp add: new_outbox_def with_schema_version_def)
  have loop: "fold (record_delivery svc ?e ?ob) ns r1 = r1\<lparr>er_deliveries := er_deliveries r1
      @ map (new_delivery ?ob) (filter (\<lambda>n. \<exists>s. map_of (es_sinks svc) n = Some s \<and> accepts s ?e) ns)\<rparr>"
    if "distinct ns" "\<forall>n \<in> set ns. (ob_id ?ob, n) \<notin> delivery_key ` set (er_deliveries r1)" for ns r1
    using that
  proof (induction ns arbitrary: r1)
    case (Cons n ns)
    show ?case
    proof (cases "\<exists>s. map_of (es_sinks svc) n = Some s \<and> accepts s ?e")
      case False
      then have "record_delivery svc ?e ?ob n r1 = r1"
        by (auto simp: record_delivery_def split: option.split)
      with False Cons show ?thesis by simp
    next
      case True
      then obtain s where s: "map_of (es_sinks svc) n = Some s" "accepts s ?e" by blast
      with plain_sinksD [OF svc] have "sink_name s = n" by blast
      with s have "record_delivery svc ?e ?ob n r1 = save_delivery (new_delivery ?ob n) r1"
        by (simp add: record_delivery_def)
      also have "\<dots> = r1\<lparr>er_deliveries := er_deliveries r1 @ [new_delivery ?ob n]\<rparr>"
        using Cons.prems(2) by (auto simp: save_delivery_def delivery_key_def new_delivery_def image_iff)
      finally have step: "record_delivery svc ?e ?ob n r1
          = r1\<lparr>er_deliveries := er_deliveries r1 @ [new_delivery ?ob n]\<rparr>" .
      have "\<forall>m \<in> set ns. (ob_id ?ob, m) \<notin> delivery_key `
          set (er_deliveries (r1\<lparr>er_deliveries := er_deliveries r1 @ [new_delivery ?ob n]\<rparr>))"
        using Cons.prems by auto
      from Cons.IH [OF _ this] Cons.prems(1) True show ?thesis by (simp add: step)
    qed
  qed simp
  have fresh: "\<forall>n \<in> set names. (ob_id ?ob, n) \<notin> delivery_key ` set (er_deliveries r)"
    using new unfolding oid by (auto simp: delivery_key_def)
  show ?thesis
  proof (cases outcome)
    case (Inl err)
    then show ?thesis using v by (simp add: record_event_def type Let_def)
  next
    case (Inr issues)
    show ?thesis
    proof (cases issues)
      case Nil
      then show ?thesis
        using v Inr loop [OF names, of "save_outbox ?ob (save_event ?e r)"] fresh
        by (simp add: record_event_def type Let_def save_outbox_def save_event_def)
    next
      case (Cons i rest)
      then show ?thesis using v Inr by (cases i) (simp add: record_event_def type Let_def)
    qed
  qed
qed

theorem record_event_stores_all_or_nothing_witness:
  "map dv_id (er_deliveries (snd (record_event (\<lambda>_ _ _. Inr []) demo_service [''bus'', ''local''] 7 demo_event new_event_repo)))
     = [''e1:outbox:bus'', ''e1:outbox:local'']"
proof -
  have "filter (\<lambda>n. \<exists>s. map_of (es_sinks demo_service) n = Some s \<and> accepts s (with_schema_version demo_event))
      [''bus'', ''local''] = [''bus'', ''local'']"
    by (simp add: demo_service_def register_broker_sink_def register_sink_def new_event_service_def
        with_schema_version_def demo_event_def)
  with record_event_stores_all_or_nothing [OF demo_plain, of "[''bus'', ''local'']" new_event_repo demo_event
      "\<lambda>_ _ _. Inr []" "Inr []" 7]
  show ?thesis by (simp add: new_event_repo_def new_delivery_def new_outbox_def with_schema_version_def demo_event_def)
qed

end
