(* ===== verification/Idempotency.thy ===== *)
theory Idempotency
  imports Shared
begin

text \<open>
  Package \<open>internal/platform/idempotency\<close>: a call made under an idempotency key runs once;
  repeating it returns the recorded outcome. The guarded function works on a state \<open>'s\<close> of
  its own; \<open>hash\<close> is JSON encoding followed by SHA-256 (an error if the request cannot be
  encoded); \<open>t1\<close> and \<open>t2\<close> are the two clock readings of the record.
\<close>

section \<open>Data and repository\<close>

record idem_record =
  ir_key :: string
  ir_operation :: string
  ir_actor_id :: string
  ir_request_hash :: string
  ir_status :: string
  ir_response_code :: int
  ir_response :: gobj
  ir_error :: string
  ir_created_at :: gotime
  ir_updated_at :: gotime

record outcome =
  oc_status_code :: int
  oc_response :: gobj

type_synonym idem_repo = "(string, idem_record) gomap"

definition new_idem_repo :: idem_repo where
  "new_idem_repo = []"

definition store_key :: "string \<Rightarrow> string \<Rightarrow> string" where
  "store_key operation key = operation @ ''|'' @ key"

definition get_record :: "string \<Rightarrow> string \<Rightarrow> idem_repo \<Rightarrow> idem_record option" where
  "get_record operation key r = map_of r (store_key operation key)"

definition list_records :: "idem_repo \<Rightarrow> idem_record list" where
  "list_records r = sort_slice (\<lambda>x. (ir_operation x, ir_key x)) (map snd r)"

definition save_record :: "idem_record \<Rightarrow> idem_repo \<Rightarrow> idem_repo" where
  "save_record x r = mput (store_key (ir_operation x) (ir_key x)) x r"

section \<open>The service\<close>

fun http_status_for_error :: "goerr \<Rightarrow> int" where
  "http_status_for_error (Platform KindValidation _) = 400"
| "http_status_for_error (Platform KindUnauthorized _) = 401"
| "http_status_for_error (Platform KindForbidden _) = 403"
| "http_status_for_error (Platform KindNotFound _) = 404"
| "http_status_for_error (Platform KindConflict _) = 409"
| "http_status_for_error (Plain _) = 500"

definition outcome_record ::
    "string \<Rightarrow> string \<Rightarrow> string \<Rightarrow> string \<Rightarrow> gotime \<Rightarrow> gotime \<Rightarrow> outcome result \<Rightarrow> idem_record" where
  "outcome_record operation key actor_id request_hash t1 t2 res =
     (case res of
        Inl err \<Rightarrow> \<lparr>ir_key = key, ir_operation = operation, ir_actor_id = trim_space actor_id,
          ir_request_hash = request_hash, ir_status = ''failed'', ir_response_code = http_status_for_error err,
          ir_response = [(''error'', GStr (err_text err))], ir_error = err_text err,
          ir_created_at = t1, ir_updated_at = t2\<rparr>
      | Inr out \<Rightarrow> \<lparr>ir_key = key, ir_operation = operation, ir_actor_id = trim_space actor_id,
          ir_request_hash = request_hash, ir_status = ''succeeded'',
          ir_response_code = (if oc_status_code out = 0 then 200 else oc_status_code out),
          ir_response = oc_response out, ir_error = [], ir_created_at = t1, ir_updated_at = t2\<rparr>)"

definition execute_once ::
    "('req \<Rightarrow> string result) \<Rightarrow> string \<Rightarrow> string \<Rightarrow> string \<Rightarrow> 'req \<Rightarrow> gotime \<Rightarrow> gotime
       \<Rightarrow> ('s \<Rightarrow> outcome result \<times> 's) \<Rightarrow> idem_repo \<times> 's \<Rightarrow> outcome result \<times> (idem_repo \<times> 's)" where
  "execute_once hash operation key actor_id request t1 t2 fn = (\<lambda>(r, s).
     if trim_space key = [] then (let (res, s') = fn s in (res, (r, s')))
     else
       let operation = trim_space operation; key = trim_space key in
       case hash request of
         Inl err \<Rightarrow> (Inl err, (r, s))
       | Inr request_hash \<Rightarrow>
           (case get_record operation key r of
              Some existing \<Rightarrow>
                (if ir_request_hash existing \<noteq> request_hash
                 then Inl (Conflict ''idempotency key was already used with a different request'')
                 else Inr \<lparr>oc_status_code = ir_response_code existing, oc_response = ir_response existing\<rparr>, (r, s))
            | None \<Rightarrow>
                let (res, s') = fn s
                in (res, (save_record (outcome_record operation key actor_id request_hash t1 t2 res) r, s'))))"

section \<open>Sequences of calls\<close>

record ('req, 's) call =
  c_operation :: string
  c_key :: string
  c_actor :: string
  c_request :: 'req
  c_times :: "gotime \<times> gotime"
  c_fn :: "'s \<Rightarrow> outcome result \<times> 's"

definition make_call :: "('req \<Rightarrow> string result) \<Rightarrow> ('req, 's) call \<Rightarrow> idem_repo \<times> 's \<Rightarrow> outcome result \<times> (idem_repo \<times> 's)" where
  "make_call hash c = execute_once hash (c_operation c) (c_key c) (c_actor c) (c_request c)
     (fst (c_times c)) (snd (c_times c)) (c_fn c)"

definition make_calls :: "('req \<Rightarrow> string result) \<Rightarrow> ('req, 's) call list \<Rightarrow> idem_repo \<times> 's \<Rightarrow> idem_repo \<times> 's" where
  "make_calls hash cs st = fold (\<lambda>c st. snd (make_call hash c st)) cs st"

text \<open>No call overwrites a record: what is stored stays.\<close>

lemma make_call_keeps:
  "map_of (fst st) k = Some x \<Longrightarrow> map_of (fst (snd (make_call hash c st))) k = Some x"
  by (cases st)
    (auto simp: make_call_def execute_once_def Let_def get_record_def save_record_def outcome_record_def
      split: sum.split option.split prod.split)

lemma make_calls_keep: "map_of (fst st) k = Some x \<Longrightarrow> map_of (fst (make_calls hash cs st)) k = Some x"
  unfolding make_calls_def by (induction cs arbitrary: st) (simp_all add: make_call_keeps)

text \<open>The answer to a repeated call.\<close>

definition replay_of :: "outcome result \<Rightarrow> outcome" where
  "replay_of res = (case res of
     Inl err \<Rightarrow> \<lparr>oc_status_code = http_status_for_error err, oc_response = [(''error'', GStr (err_text err))]\<rparr>
   | Inr out \<Rightarrow> out\<lparr>oc_status_code := (if oc_status_code out = 0 then 200 else oc_status_code out)\<rparr>)"

text \<open>
  C4: a call under a key takes effect once. After the first call under an operation and key,
  and whatever other calls follow, a repetition with the same request runs nothing and changes
  nothing: it returns the recorded outcome (a recorded failure as the response of its HTTP
  status), and with another request it is refused as a conflict.
\<close>

theorem repeated_call_takes_effect_once:
  fixes st :: "idem_repo \<times> 's"
  assumes key: "trim_space (c_key c) \<noteq> []"
    and fresh: "get_record (trim_space (c_operation c)) (trim_space (c_key c)) (fst st) = None"
    and first: "hash (c_request c) = Inr h" "make_call hash c st = (res, st1)"
    and later: "st2 = make_calls hash cs st1"
    and again: "trim_space (c_operation c') = trim_space (c_operation c)"
      "trim_space (c_key c') = trim_space (c_key c)" "hash (c_request c') = Inr h'"
  shows "res = fst (c_fn c (snd st)) \<and> snd st1 = snd (c_fn c (snd st))
    \<and> make_call hash c' st2 =
        (if h' = h then Inr (replay_of res)
         else Inl (Conflict ''idempotency key was already used with a different request''), st2)"
proof -
  let ?op = "trim_space (c_operation c)" and ?key = "trim_space (c_key c)"
  obtain r s where st: "st = (r, s)" by (cases st)
  obtain out s' where fn: "c_fn c s = (out, s')" by (cases "c_fn c s")
  let ?x = "outcome_record ?op ?key (c_actor c) h (fst (c_times c)) (snd (c_times c)) out"
  from key fresh first have eq: "res = out" "st1 = (save_record ?x r, s')"
    by (auto simp: make_call_def execute_once_def st fn Let_def)
  have "store_key (ir_operation ?x) (ir_key ?x) = store_key ?op ?key"
    by (simp add: outcome_record_def split: sum.split)
  then have "map_of (fst st1) (store_key ?op ?key) = Some ?x"
    by (simp add: eq save_record_def)
  then have stored: "map_of (fst st2) (store_key ?op ?key) = Some ?x"
    unfolding later by (rule make_calls_keep)
  obtain r2 s2 where st2: "st2 = (r2, s2)" by (cases st2)
  have "ir_request_hash ?x = h"
    "\<lparr>oc_status_code = ir_response_code ?x, oc_response = ir_response ?x\<rparr> = replay_of out"
    by (simp_all add: outcome_record_def replay_of_def split: sum.split)
  then have "make_call hash c' st2 = (if h' = h then Inr (replay_of res)
         else Inl (Conflict ''idempotency key was already used with a different request''), st2)"
    using stored again key by (simp add: make_call_def execute_once_def get_record_def st2 eq(1) Let_def)
  with eq show ?thesis by (simp add: st fn)
qed

definition demo_call :: "string \<Rightarrow> string \<Rightarrow> (string, nat) call" where
  "demo_call operation key = \<lparr>c_operation = operation, c_key = key, c_actor = [], c_request = ''body'',
     c_times = (1, 1), c_fn = (\<lambda>n. (Inr \<lparr>oc_status_code = 201, oc_response = [(''made_by'', GStr operation)]\<rparr>, n + 1))\<rparr>"

theorem repeated_call_takes_effect_once_witness:
  "snd (snd (make_call Inr (demo_call ''pay'' '' k1 '') (make_calls Inr [demo_call ''refund'' ''k1'']
     (snd (make_call Inr (demo_call ''pay'' ''k1'') (new_idem_repo, 0)))))) = 2"
proof -
  let ?st1 = "snd (make_call Inr (demo_call ''pay'' ''k1'') (new_idem_repo, 0))"
  let ?st2 = "make_calls Inr [demo_call ''refund'' ''k1''] ?st1"
  have a: "trim_space (c_key (demo_call ''pay'' ''k1'')) \<noteq> []" by code_simp
  have b: "get_record (trim_space (c_operation (demo_call ''pay'' ''k1''))) (trim_space (c_key (demo_call ''pay'' ''k1'')))
      (fst (new_idem_repo, 0 :: nat)) = None" by code_simp
  have c: "trim_space (c_operation (demo_call ''pay'' '' k1 '')) = trim_space (c_operation (demo_call ''pay'' ''k1''))"
    "trim_space (c_key (demo_call ''pay'' '' k1 '')) = trim_space (c_key (demo_call ''pay'' ''k1''))" by code_simp+
  have d: "Inr (c_request (demo_call o' k')) = Inr ''body''" for o' k' by (simp add: demo_call_def)
  have "snd (make_call Inr (demo_call ''pay'' '' k1 '') ?st2) = ?st2"
    using repeated_call_takes_effect_once [OF a b, where hash = Inr and h = "''body''" and h' = "''body''"
        and res = "fst (make_call Inr (demo_call ''pay'' ''k1'') (new_idem_repo, 0))" and ?st1.0 = ?st1
        and ?st2.0 = ?st2, OF d _ refl c d] by simp
  moreover have "snd ?st2 = 2" by code_simp
  ultimately show ?thesis by simp
qed

text \<open>
  Two different operations can share a record. The store joins operation and key with a bar
  and neither is escaped, so a call of operation \<open>a|b\<close> under key \<open>c\<close> is answered
  with the outcome of operation \<open>a\<close> under key \<open>b|c\<close> and does not run.
\<close>

theorem joined_keys_collide:
  "let (first, st1) = make_call Inr (demo_call ''a'' ''b|c'') (new_idem_repo, 0);
       (second, st2) = make_call Inr (demo_call ''a|b'' ''c'') st1
   in map_sum (\<lambda>_. ()) oc_response second = Inr [(''made_by'', GStr ''a'')] \<and> snd st2 = 1"
  by code_simp

end
