(* ===== verification/SecretStore.thy ===== *)
theory SecretStore
  imports Shared
begin

text \<open>
  Package \<open>internal/platform/secretstore\<close>: secrets under references, over the in-memory
  repository, with the facts the configuration service relies on. The reference of a new secret
  comes from the ULID argument.
\<close>

record secret =
  sc_ref :: string
  sc_name :: string
  sc_value :: string
  sc_status :: string
  sc_created_at :: gotime
  sc_updated_at :: gotime

type_synonym secret_repo = "(string, secret) gomap"

definition new_secret_repo :: secret_repo where
  "new_secret_repo = []"

definition get_secret :: "string \<Rightarrow> secret_repo \<Rightarrow> secret option" where
  "get_secret ref r = map_of r ref"

definition list_secrets :: "secret_repo \<Rightarrow> secret list" where
  "list_secrets r = sort_slice sc_ref (map snd r)"

definition save_secret :: "secret \<Rightarrow> secret_repo \<Rightarrow> secret_repo" where
  "save_secret x r = mput (sc_ref x) x r"

definition upsert_secret ::
    "string \<Rightarrow> gotime \<Rightarrow> string \<Rightarrow> string \<Rightarrow> string \<Rightarrow> secret_repo \<Rightarrow> secret \<times> secret_repo" where
  "upsert_secret ulid now name ref val r =
     (let ref = trim_space ref;
          ref = (if ref = [] then new_id ''secret'' ulid else ref);
          x = \<lparr>sc_ref = ref, sc_name = trim_space name, sc_value = val, sc_status = ''active'',
                sc_created_at = (case get_secret ref r of Some old \<Rightarrow> sc_created_at old | None \<Rightarrow> now),
                sc_updated_at = now\<rparr>
      in (x, save_secret x r))"

definition resolve_secret :: "string \<Rightarrow> secret_repo \<Rightarrow> string option" where
  "resolve_secret ref r =
     (case get_secret (trim_space ref) r of
        None \<Rightarrow> None
      | Some x \<Rightarrow> if sc_status x \<noteq> ''active'' then None else Some (sc_value x))"

text \<open>The generated references are the ones of \<open>shared.NewID\<close>.\<close>

definition secret_ref :: "string \<Rightarrow> string" where
  "secret_ref ulid = ''secret:'' @ ulid"

lemma new_id_secret: "new_id ''secret'' ulid = secret_ref ulid"
proof -
  have "trim_space ''secret'' = ''secret''" by code_simp
  moreover have "trim_right_char (CHR '':'') ''secret'' = ''secret''" by code_simp
  moreover have "\<not> has_suffix ''secret'' ''_''" by code_simp
  ultimately show ?thesis by (simp add: new_id_def secret_ref_def Let_def)
qed

lemma upsert_new_secret:
  "upsert_secret ulid now name [] val r = (x, r') \<Longrightarrow>
     sc_ref x = secret_ref ulid \<and> sc_value x = val \<and> sc_status x = ''active''
     \<and> map_of r' = (map_of r)(secret_ref ulid \<mapsto> x)"
  by (auto simp: upsert_secret_def new_id_secret save_secret_def Let_def)

lemma resolve_secret_other:
  "trim_space ref \<noteq> sc_ref x \<Longrightarrow> resolve_secret ref (save_secret x r) = resolve_secret ref r"
  by (simp add: resolve_secret_def get_secret_def save_secret_def)

end
