(* ===== verification/Config.thy ===== *)
theory Config
  imports SecretStore
begin

text \<open>
  Package \<open>internal/platform/config\<close>: registered configuration keys, their entries at the
  deployment, organization and location scope, the effective value of a key, and validation.
  The clock is the argument \<open>now\<close>; \<open>ulids\<close> gives the ULID drawn for the secret of each
  sensitive field of one call. The built-in definitions and entries are tables and left out.
\<close>

section \<open>Data\<close>

type_synonym localized_text = "(string, string) gomap"

record config_entry =
  ce_key :: string
  ce_module_key :: string
  ce_category :: string
  ce_scope :: string
  ce_scope_id :: string
  ce_value :: gobj
  ce_updated_at :: gotime
  ce_updated_by :: string
  ce_description :: string

record config_field =
  cf_key :: string
  cf_label :: string
  cf_label_i18n :: localized_text
  cf_type :: string
  cf_required :: bool
  cf_description :: string
  cf_description_i18n :: localized_text
  cf_enum :: "string list"
  cf_sensitive :: bool

record config_definition =
  cd_key :: string
  cd_module_key :: string
  cd_category :: string
  cd_display_name :: string
  cd_display_name_i18n :: localized_text
  cd_description :: string
  cd_description_i18n :: localized_text
  cd_allowed_scopes :: "string list"
  cd_default_value :: gobj
  cd_fields :: "config_field list"

record effective_value =
  ef_key :: string
  ef_module_key :: string
  ef_scope :: string
  ef_scope_id :: string
  ef_value :: gobj
  ef_source_scope :: string
  ef_source_scope_id :: string
  ef_resolved_at :: gotime

record validation_issue =
  vi_key :: string
  vi_severity :: string
  vi_field :: string
  vi_message :: string

record validation_report =
  vr_valid :: bool
  vr_issues :: "validation_issue list"

record compare_context =
  cc_organization_id :: string
  cc_location_id :: string

record comparison_item =
  ci_key :: string
  ci_module_key :: string
  ci_left :: effective_value
  ci_right :: effective_value
  ci_status :: string
  ci_changed_fields :: "string list"

type_synonym config_repo = "(string, config_entry) gomap"

record config_service =
  cs_repo :: config_repo
  cs_definitions :: "(string, config_definition) gomap"
  cs_secrets :: secret_repo

section \<open>The repository\<close>

definition entry_store_key :: "string \<Rightarrow> string \<Rightarrow> string \<Rightarrow> string" where
  "entry_store_key key scope scope_id = key @ ''|'' @ scope @ ''|'' @ scope_id"

definition new_config_repo :: "config_entry list \<Rightarrow> config_repo" where
  "new_config_repo es = fold (\<lambda>e. mput (entry_store_key (ce_key e) (ce_scope e) (ce_scope_id e)) e) es []"

definition get_entry :: "string \<Rightarrow> string \<Rightarrow> string \<Rightarrow> config_repo \<Rightarrow> config_entry option" where
  "get_entry key scope scope_id r = map_of r (entry_store_key key scope scope_id)"

definition list_entries :: "config_repo \<Rightarrow> config_entry list" where
  "list_entries r = sort_slice (\<lambda>e. (ce_key e, ce_scope e, ce_scope_id e)) (map snd r)"

definition save_entry :: "config_entry \<Rightarrow> config_repo \<Rightarrow> config_repo" where
  "save_entry e r = mput (entry_store_key (ce_key e) (ce_scope e) (ce_scope_id e)) e r"

section \<open>Values\<close>

fun int_value :: "gval \<Rightarrow> int" where
  "int_value (GInt i) = i"
| "int_value (GFloat w) = float_trunc w"
| "int_value _ = 0"

fun bool_from_value :: "gval \<Rightarrow> bool" where
  "bool_from_value (GBool b) = b"
| "bool_from_value (GStr s) = (to_lower (trim_space s) = ''true'')"
| "bool_from_value _ = False"

fun string_from_value :: "gval \<Rightarrow> string" where
  "string_from_value (GStr s) = s"
| "string_from_value _ = []"

fun is_zero_field_value :: "gval \<Rightarrow> bool" where
  "is_zero_field_value GNull = True"
| "is_zero_field_value (GStr s) = (trim_space s = [])"
| "is_zero_field_value (GStrs ss) = (ss = [])"
| "is_zero_field_value (GList vs) = (vs = [])"
| "is_zero_field_value _ = False"

fun string_slice_value :: "gval \<Rightarrow> string list" where
  "string_slice_value (GStrs ss) = ss"
| "string_slice_value (GList vs) = filter (\<lambda>s. s \<noteq> []) (List.map_filter as_str vs)"
| "string_slice_value _ = []"

text \<open>\<open>current != 0 && current != int32(0) && ...\<close>: no numeric zero.\<close>

fun numeric_zero :: "gval \<Rightarrow> bool" where
  "numeric_zero (GInt i) = (i = 0)"
| "numeric_zero (GFloat w) = float_is_zero w"
| "numeric_zero _ = False"

definition validate_field :: "config_field \<Rightarrow> gval \<Rightarrow> goerr option" where
  "validate_field f current =
     (if cf_type f = ''int'' \<and> int_value current = 0 \<and> \<not> numeric_zero current
      then Some (Validation (cf_key f @ '' must be an integer''))
      else if cf_type f = ''bool'' \<and> as_bool current = None
      then Some (Validation (cf_key f @ '' must be a boolean''))
      else if cf_type f = ''string'' \<and> as_str current = None
      then Some (Validation (cf_key f @ '' must be a string''))
      else if cf_type f = ''string_list'' \<and> string_slice_value current = [] \<and> current \<noteq> GNull
        \<and> (case current of GStrs _ \<Rightarrow> False | GList _ \<Rightarrow> False | _ \<Rightarrow> True)
      then Some (Validation (cf_key f @ '' must be a list of strings''))
      else if cf_enum f \<noteq> [] \<and> string_from_value current \<noteq> [] \<and> string_from_value current \<notin> set (cf_enum f)
      then Some (Validation (cf_key f @ '' must be one of '' @ join '', '' (cf_enum f)))
      else None)"

fun validate_value :: "gobj \<Rightarrow> config_field list \<Rightarrow> goerr option" where
  "validate_value v [] = None"
| "validate_value v (f # fs) =
     (case map_of v (cf_key f) of
        None \<Rightarrow> validate_value v fs
      | Some current \<Rightarrow>
          (case validate_field f current of Some e \<Rightarrow> Some e | None \<Rightarrow> validate_value v fs))"

section \<open>Secrets\<close>

definition secret_ref_from_value :: "gval \<Rightarrow> string" where
  "secret_ref_from_value raw =
     (case raw of GObj m \<Rightarrow> (case map_of m ''secret_ref'' of Some (GStr ref) \<Rightarrow> trim_space ref | _ \<Rightarrow> [])
      | _ \<Rightarrow> [])"

definition secret_ref_value :: "string \<Rightarrow> gval" where
  "secret_ref_value ref = GObj [(''secret_ref'', GStr ref)]"

definition prepare_field ::
    "(string \<Rightarrow> string) \<Rightarrow> gotime \<Rightarrow> config_definition \<Rightarrow> config_entry \<Rightarrow> config_field
       \<Rightarrow> gobj \<times> secret_repo \<Rightarrow> gobj \<times> secret_repo" where
  "prepare_field ulids now def e f = (\<lambda>(stored, secrets).
     if \<not> cf_sensitive f then (stored, secrets)
     else case map_of stored (cf_key f) of
            None \<Rightarrow> (stored, secrets)
          | Some raw \<Rightarrow>
              if secret_ref_from_value raw \<noteq> []
              then (mput (cf_key f) (secret_ref_value (secret_ref_from_value raw)) stored, secrets)
              else (case as_str raw of
                      None \<Rightarrow> (stored, secrets)
                    | Some text \<Rightarrow>
                        let name = cd_key def @ '':'' @ cf_key f @ '':'' @ ce_scope e @ '':'' @ ce_scope_id e;
                            (x, secrets') = upsert_secret (ulids (cf_key f)) now name [] text secrets
                        in (mput (cf_key f) (secret_ref_value (sc_ref x)) stored, secrets')))"

definition prepare_stored_value ::
    "(string \<Rightarrow> string) \<Rightarrow> gotime \<Rightarrow> config_definition \<Rightarrow> config_entry \<Rightarrow> secret_repo \<Rightarrow> gobj \<times> secret_repo" where
  "prepare_stored_value ulids now def e secrets =
     fold (prepare_field ulids now def e) (cd_fields def) (ce_value e, secrets)"

definition resolve_field :: "secret_repo \<Rightarrow> config_field \<Rightarrow> gobj \<Rightarrow> gobj" where
  "resolve_field secrets f resolved =
     (if \<not> cf_sensitive f then resolved
      else case map_of resolved (cf_key f) of
             None \<Rightarrow> resolved
           | Some raw \<Rightarrow>
               if secret_ref_from_value raw = [] then resolved
               else (case resolve_secret (secret_ref_from_value raw) secrets of
                       None \<Rightarrow> resolved
                     | Some text \<Rightarrow> mput (cf_key f) (GStr text) resolved))"

definition resolve_secrets :: "secret_repo \<Rightarrow> config_definition \<Rightarrow> gobj \<Rightarrow> gobj" where
  "resolve_secrets secrets def v = fold (resolve_field secrets) (cd_fields def) v"

section \<open>The service\<close>

definition new_config_service :: "config_repo \<Rightarrow> secret_repo \<Rightarrow> config_service" where
  "new_config_service r secrets = \<lparr>cs_repo = r, cs_definitions = [], cs_secrets = secrets\<rparr>"

definition register_definition :: "config_definition \<Rightarrow> config_service \<Rightarrow> goerr option \<times> config_service" where
  "register_definition def s =
     (if trim_space (cd_key def) = [] then (Some (Validation ''configuration key is required''), s)
      else if trim_space (cd_module_key def) = [] then (Some (Validation ''module_key is required''), s)
      else let def = (if cd_allowed_scopes def = [] then def\<lparr>cd_allowed_scopes := [''deployment'']\<rparr> else def)
           in (None, s\<lparr>cs_definitions := mput (cd_key def) def (cs_definitions s)\<rparr>))"

definition find_definition :: "string \<Rightarrow> config_service \<Rightarrow> config_definition option" where
  "find_definition key s = map_of (cs_definitions s) key"

definition config_definitions :: "config_service \<Rightarrow> config_definition list" where
  "config_definitions s = sort_slice cd_key (map snd (cs_definitions s))"

definition get_deployment :: "string \<Rightarrow> config_service \<Rightarrow> config_entry option" where
  "get_deployment key s = get_entry key ''deployment'' [] (cs_repo s)"

definition config_keys :: "config_service \<Rightarrow> string list" where
  "config_keys s = sort_slice (\<lambda>k. k) (mkeys (cs_definitions s))"

definition config_entries :: "config_service \<Rightarrow> config_entry list" where
  "config_entries s = list_entries (cs_repo s)"

definition with_defaults :: "gotime \<Rightarrow> config_definition \<Rightarrow> config_entry \<Rightarrow> config_entry" where
  "with_defaults now def e = e\<lparr>
     ce_module_key := (if ce_module_key e = [] then cd_module_key def else ce_module_key e),
     ce_category := (if ce_category e = [] then cd_category def else ce_category e),
     ce_updated_at := or_now now (ce_updated_at e),
     ce_updated_by := (if ce_updated_by e = [] then ''system'' else ce_updated_by e)\<rparr>"

definition with_scope :: "config_entry \<Rightarrow> config_entry" where
  "with_scope e = (if ce_scope e = [] then e\<lparr>ce_scope := ''deployment''\<rparr> else e)"

definition save_config ::
    "(string \<Rightarrow> string) \<Rightarrow> gotime \<Rightarrow> config_entry \<Rightarrow> config_service \<Rightarrow> goerr option \<times> config_service" where
  "save_config ulids now e s =
     (case find_definition (ce_key e) s of
        None \<Rightarrow> (Some (Validation ''configuration key is not registered''), s)
      | Some def \<Rightarrow>
          let e = with_scope e in
          if ce_scope e \<notin> set (cd_allowed_scopes def)
          then (Some (Validation ''configuration scope is not allowed''), s)
          else (case validate_value (ce_value e) (cd_fields def) of
                  Some err \<Rightarrow> (Some err, s)
                | None \<Rightarrow>
                    let e = with_defaults now def e;
                        (stored, secrets) = prepare_stored_value ulids now def e (cs_secrets s)
                    in (None, s\<lparr>cs_repo := save_entry (e\<lparr>ce_value := stored\<rparr>) (cs_repo s), cs_secrets := secrets\<rparr>)))"

definition save_stored :: "gotime \<Rightarrow> config_entry \<Rightarrow> config_service \<Rightarrow> goerr option \<times> config_service" where
  "save_stored now e s =
     (case find_definition (ce_key e) s of
        None \<Rightarrow> (Some (Validation ''configuration key is not registered''), s)
      | Some def \<Rightarrow>
          let e = with_scope e in
          if ce_scope e \<notin> set (cd_allowed_scopes def)
          then (Some (Validation ''configuration scope is not allowed''), s)
          else (None, s\<lparr>cs_repo := save_entry (with_defaults now def e) (cs_repo s)\<rparr>))"

text \<open>One step of the loop over the scopes: the value so far and where it comes from.\<close>

definition resolve_scope ::
    "config_service \<Rightarrow> config_definition \<Rightarrow> string \<Rightarrow> string \<times> string \<Rightarrow> gobj \<times> string \<times> string \<Rightarrow> gobj \<times> string \<times> string" where
  "resolve_scope s def key = (\<lambda>(scope, scope_id) (resolved, source, source_id).
     if scope_id = [] \<and> scope \<noteq> ''deployment'' then (resolved, source, source_id)
     else if scope \<notin> set (cd_allowed_scopes def) then (resolved, source, source_id)
     else case get_entry key scope scope_id (cs_repo s) of
            None \<Rightarrow> (resolved, source, source_id)
          | Some e \<Rightarrow> (mmerge resolved (resolve_secrets (cs_secrets s) def (ce_value e)), scope, scope_id))"

definition resolve_config ::
    "gotime \<Rightarrow> string \<Rightarrow> string \<Rightarrow> string \<Rightarrow> config_service \<Rightarrow> effective_value option" where
  "resolve_config now key organization_id location_id s =
     (case find_definition key s of
        None \<Rightarrow> None
      | Some def \<Rightarrow>
          let (resolved, source, source_id) =
            fold (resolve_scope s def key)
              [(''deployment'', []), (''organization'', organization_id), (''location'', location_id)]
              (cd_default_value def, ''default'', [])
          in Some \<lparr>ef_key = key, ef_module_key = cd_module_key def, ef_scope = ''effective'', ef_scope_id = [],
                ef_value = resolved, ef_source_scope = source, ef_source_scope_id = source_id, ef_resolved_at = now\<rparr>)"

definition resolve_all :: "gotime \<Rightarrow> string \<Rightarrow> string \<Rightarrow> config_service \<Rightarrow> effective_value list" where
  "resolve_all now organization_id location_id s =
     List.map_filter (\<lambda>k. resolve_config now k organization_id location_id s) (config_keys s)"

section \<open>Validation\<close>

definition issue :: "string \<Rightarrow> string \<Rightarrow> string \<Rightarrow> validation_issue" where
  "issue key field message = \<lparr>vi_key = key, vi_severity = ''error'', vi_field = field, vi_message = message\<rparr>"

definition value_issues :: "config_definition \<Rightarrow> gobj \<Rightarrow> validation_issue list" where
  "value_issues def v =
     (case validate_value v (cd_fields def) of None \<Rightarrow> [] | Some e \<Rightarrow> [issue (cd_key def) [] (err_text e)])"

definition required_field_issues :: "config_definition \<Rightarrow> gobj \<Rightarrow> validation_issue list" where
  "required_field_issues def v =
     map (\<lambda>f. issue (cd_key def) (cf_key f) ''required field is missing or empty'')
       (filter (\<lambda>f. cf_required f \<and> is_zero_field_value (mget GNull v (cf_key f))) (cd_fields def))"

definition blank_field :: "gobj \<Rightarrow> string \<Rightarrow> bool" where
  "blank_field v k \<longleftrightarrow> trim_space (string_from_value (mget GNull v k)) = []"

text \<open>The checks of the Google sign-in settings, in the order both validations make them.\<close>

definition google_issues :: "config_definition \<Rightarrow> gobj \<Rightarrow> validation_issue list" where
  "google_issues def v =
     (if cd_key def \<noteq> ''identity.auth'' \<or> \<not> bool_from_value (mget GNull v ''google_enabled'') then []
      else (if blank_field v ''google_client_id''
            then [issue (cd_key def) ''google_client_id'' ''google client id is required when google auth is enabled''] else [])
         @ (if bool_from_value (mget GNull v ''google_auto_provision_enabled'') \<and> blank_field v ''google_auto_provision_role_id''
            then [issue (cd_key def) ''google_auto_provision_role_id''
                    ''google auto provision role id is required when google auto provision is enabled''] else [])
         @ concat (map (\<lambda>(k, message). if blank_field v k then [issue (cd_key def) k message] else [])
             [(''google_client_secret'', ''google client secret is required when google auth is enabled''),
              (''google_redirect_url'', ''google redirect url is required when google auth is enabled''),
              (''google_auth_url'', ''google auth url is required when google auth is enabled''),
              (''google_token_url'', ''google token url is required when google auth is enabled''),
              (''google_jwks_url'', ''google jwks url is required when google auth is enabled'')]))"

definition special_issues :: "config_definition \<Rightarrow> gobj \<Rightarrow> validation_issue list" where
  "special_issues def v =
     (if cd_key def \<noteq> ''identity.auth'' then []
      else (if int_value (mget GNull v ''password_max_age_days'') < 0
            then [issue (cd_key def) ''password_max_age_days'' ''password max age days must be zero or greater''] else [])
         @ (if int_value (mget GNull v ''session_idle_timeout_minutes'') < 0
            then [issue (cd_key def) ''session_idle_timeout_minutes'' ''session idle timeout minutes must be zero or greater''] else []))
     @ google_issues def v"

definition report_of :: "validation_issue list \<Rightarrow> validation_report" where
  "report_of xs = \<lparr>vr_valid = (xs = []), vr_issues = xs\<rparr>"

definition validate_all :: "gotime \<Rightarrow> string \<Rightarrow> string \<Rightarrow> config_service \<Rightarrow> validation_report" where
  "validate_all now organization_id location_id s =
     report_of (concat (map (\<lambda>def.
       case resolve_config now (cd_key def) organization_id location_id s of
         None \<Rightarrow> [issue (cd_key def) [] ''configuration definition cannot be resolved'']
       | Some ef \<Rightarrow> value_issues def (ef_value ef) @ required_field_issues def (ef_value ef)
                    @ google_issues def (ef_value ef)) (config_definitions s)))"

definition validate_entry :: "config_entry \<Rightarrow> config_service \<Rightarrow> validation_report" where
  "validate_entry e s =
     (case find_definition (ce_key e) s of
        None \<Rightarrow> report_of [issue (ce_key e) [] ''configuration key is not registered'']
      | Some def \<Rightarrow>
          if ce_scope (with_scope e) \<notin> set (cd_allowed_scopes def)
          then report_of [issue (ce_key e) [] ''configuration scope is not allowed'']
          else let v = mmerge (cd_default_value def) (ce_value e)
               in report_of (value_issues def v @ required_field_issues def v @ special_issues def v))"

section \<open>Comparison\<close>

text \<open>\<open>json\<close> is \<open>json.Marshal\<close> (an error falls back to \<open>%v\<close>, the argument \<open>pv\<close>).\<close>

definition stringify_comparable :: "(gval \<Rightarrow> string result) \<Rightarrow> (gval \<Rightarrow> string) \<Rightarrow> gval \<Rightarrow> string" where
  "stringify_comparable json pv v =
     (case v of GNull \<Rightarrow> [] | GStr s \<Rightarrow> s
      | _ \<Rightarrow> (case json v of Inr raw \<Rightarrow> raw | Inl _ \<Rightarrow> pv v))"

definition changed_value_fields :: "(gval \<Rightarrow> string result) \<Rightarrow> (gval \<Rightarrow> string) \<Rightarrow> gobj \<Rightarrow> gobj \<Rightarrow> string list" where
  "changed_value_fields json pv left right =
     sort_slice (\<lambda>k. k) (filter (\<lambda>k. stringify_comparable json pv (mget GNull left k)
          \<noteq> stringify_comparable json pv (mget GNull right k))
       (remdups (mkeys left @ mkeys right)))"

definition zero_effective :: effective_value where
  "zero_effective = \<lparr>ef_key = [], ef_module_key = [], ef_scope = [], ef_scope_id = [], ef_value = [],
     ef_source_scope = [], ef_source_scope_id = [], ef_resolved_at = zero_time\<rparr>"

definition compare_contexts ::
    "(gval \<Rightarrow> string result) \<Rightarrow> (gval \<Rightarrow> string) \<Rightarrow> gotime \<Rightarrow> compare_context \<Rightarrow> compare_context
       \<Rightarrow> config_service \<Rightarrow> comparison_item list" where
  "compare_contexts json pv now left right s =
     sort_slice ci_key (map (\<lambda>def.
       let get = (\<lambda>c. case resolve_config now (cd_key def) (cc_organization_id c) (cc_location_id c) s of
             None \<Rightarrow> zero_effective | Some ef \<Rightarrow> ef);
           l = get left; r = get right;
           changed = changed_value_fields json pv (ef_value l) (ef_value r)
       in \<lparr>ci_key = cd_key def, ci_module_key = cd_module_key def, ci_left = l, ci_right = r,
            ci_status = (if changed \<noteq> [] then ''drifted''
              else if ef_source_scope l \<noteq> ef_source_scope r \<or> ef_source_scope_id l \<noteq> ef_source_scope_id r
              then ''overridden'' else ''same''),
            ci_changed_fields = changed\<rparr>) (config_definitions s))"

section \<open>Typed readings\<close>

definition normalize_auth_mode :: "string \<Rightarrow> string" where
  "normalize_auth_mode v =
     (let m = trim_space (to_lower v) in if m \<in> {''disabled'', ''optional'', ''required''} then m else [])"

record typesense_policy =
  tp_enabled :: bool
  tp_endpoint :: string
  tp_api_key :: string
  tp_timeout_seconds :: int

record nats_policy =
  np_enabled :: bool
  np_url :: string
  np_sink_name :: string
  np_subject_prefix :: string
  np_timeout_seconds :: int

record embedding_policy =
  ep_provider :: string
  ep_dimensions :: int

definition read_str :: "gobj \<Rightarrow> string \<Rightarrow> string" where
  "read_str v k = trim_space (string_from_value (mget GNull v k))"

definition read_str_or :: "string \<Rightarrow> gobj \<Rightarrow> string \<Rightarrow> string" where
  "read_str_or z v k = (if read_str v k = [] then z else read_str v k)"

definition read_pos_or :: "int \<Rightarrow> gobj \<Rightarrow> string \<Rightarrow> int" where
  "read_pos_or z v k = (if 0 < int_value (mget GNull v k) then int_value (mget GNull v k) else z)"

definition typesense_of :: "gotime \<Rightarrow> config_service \<Rightarrow> typesense_policy" where
  "typesense_of now s =
     (case resolve_config now ''search.typesense'' [] [] s of
        None \<Rightarrow> \<lparr>tp_enabled = False, tp_endpoint = [], tp_api_key = [], tp_timeout_seconds = 5\<rparr>
      | Some ef \<Rightarrow> let v = ef_value ef in
          \<lparr>tp_enabled = bool_from_value (mget GNull v ''enabled''), tp_endpoint = read_str v ''endpoint'',
            tp_api_key = read_str v ''api_key'', tp_timeout_seconds = read_pos_or 5 v ''timeout_seconds''\<rparr>)"

definition nats_of :: "gotime \<Rightarrow> config_service \<Rightarrow> nats_policy" where
  "nats_of now s =
     (case resolve_config now ''eventing.nats'' [] [] s of
        None \<Rightarrow> \<lparr>np_enabled = False, np_url = [], np_sink_name = ''nats'', np_subject_prefix = [], np_timeout_seconds = 5\<rparr>
      | Some ef \<Rightarrow> let v = ef_value ef in
          \<lparr>np_enabled = bool_from_value (mget GNull v ''enabled''), np_url = read_str v ''url'',
            np_sink_name = read_str_or ''nats'' v ''sink_name'', np_subject_prefix = read_str v ''subject_prefix'',
            np_timeout_seconds = read_pos_or 5 v ''timeout_seconds''\<rparr>)"

definition embedding_of :: "gotime \<Rightarrow> config_service \<Rightarrow> embedding_policy" where
  "embedding_of now s =
     (case resolve_config now ''search.embedding'' [] [] s of
        None \<Rightarrow> \<lparr>ep_provider = ''hash'', ep_dimensions = 8\<rparr>
      | Some ef \<Rightarrow> let v = ef_value ef in
          \<lparr>ep_provider = read_str_or ''hash'' v ''provider'', ep_dimensions = read_pos_or 8 v ''dimensions''\<rparr>)"

end
