(* ===== verification/ConfigFacts.thy ===== *)
theory ConfigFacts
  imports Config
begin

text \<open>
  What the configuration guarantees: the effective value is the most specific one, field by
  field; sensitive strings never reach the entries, and are read back as they were saved.
\<close>

section \<open>Secret fields\<close>

definition no_text :: "gobj \<Rightarrow> string \<Rightarrow> bool" where
  "no_text m k \<longleftrightarrow> (case map_of m k of Some (GStr _) \<Rightarrow> False | _ \<Rightarrow> True)"

lemma no_text_mput [simp]: "no_text (mput k v m) k' = (if k' = k then (\<forall>t. v \<noteq> GStr t) else no_text m k')"
  by (cases v) (simp_all add: no_text_def)

lemma prepare_field_no_text:
  "no_text (fst p) k \<or> cf_sensitive f \<and> cf_key f = k \<Longrightarrow> no_text (fst (prepare_field ulids now def e f p)) k"
proof (cases "cf_sensitive f \<and> cf_key f = k")
  case True
  then show ?thesis
    by (cases p; cases "map_of (fst p) k")
      (auto simp: prepare_field_def Let_def secret_ref_value_def no_text_def split: option.split prod.split gval.split)
next
  case False
  moreover assume "no_text (fst p) k \<or> cf_sensitive f \<and> cf_key f = k"
  ultimately show ?thesis
    by (cases p) (auto simp: prepare_field_def Let_def secret_ref_value_def split: option.split prod.split)
qed

lemma prepare_fold_no_text:
  "no_text (fst p) k \<or> (\<exists>f \<in> set fs. cf_sensitive f \<and> cf_key f = k) \<Longrightarrow>
     no_text (fst (fold (prepare_field ulids now def e) fs p)) k"
proof (induction fs arbitrary: p)
  case (Cons f fs)
  have "no_text (fst (prepare_field ulids now def e f p)) k \<or> (\<exists>f \<in> set fs. cf_sensitive f \<and> cf_key f = k)"
    using Cons.prems prepare_field_no_text [of p k f] by auto
  from Cons.IH [OF this] show ?case by simp
qed simp

definition sensitive_key :: "config_definition \<Rightarrow> string \<Rightarrow> bool" where
  "sensitive_key def k \<longleftrightarrow> (\<exists>f \<in> set (cd_fields def). cf_sensitive f \<and> cf_key f = k)"

lemma prepared_no_text:
  "sensitive_key def k \<Longrightarrow> no_text (fst (prepare_stored_value ulids now def e secrets)) k"
  by (auto simp: prepare_stored_value_def sensitive_key_def intro: prepare_fold_no_text)

section \<open>Reachable configurations\<close>

inductive config_reachable :: "config_service \<Rightarrow> bool" where
  cr_new: "config_reachable (new_config_service [] secrets)"
| cr_register: "config_reachable s \<Longrightarrow> find_definition (cd_key def) s = None \<Longrightarrow>
    config_reachable (snd (register_definition def s))"
| cr_save: "config_reachable s \<Longrightarrow> config_reachable (snd (save_config ulids now e s))"

definition entry_covered :: "config_service \<Rightarrow> config_entry \<Rightarrow> bool" where
  "entry_covered s e \<longleftrightarrow> (\<exists>def. find_definition (ce_key e) s = Some def
     \<and> (\<forall>k. sensitive_key def k \<longrightarrow> no_text (ce_value e) k))"

lemma entry_covered_register:
  "find_definition (cd_key def) s = None \<Longrightarrow> entry_covered s e \<Longrightarrow> entry_covered (snd (register_definition def s)) e"
  by (auto simp: entry_covered_def register_definition_def find_definition_def)

lemma config_covered:
  "config_reachable s \<Longrightarrow> map_of (cs_repo s) k = Some e \<Longrightarrow> entry_covered s e"
proof (induction arbitrary: k e rule: config_reachable.induct)
  case cr_new
  then show ?case by (simp add: new_config_service_def)
next
  case (cr_register s def)
  have "cs_repo (snd (register_definition def s)) = cs_repo s"
    by (simp add: register_definition_def Let_def)
  with cr_register show ?case by (metis entry_covered_register)
next
  case (cr_save s ulids now e')
  show ?case
  proof (cases "save_config ulids now e' s = (fst (save_config ulids now e' s), s)")
    case True
    with cr_save show ?thesis by (metis snd_conv)
  next
    case False
    then obtain def where def: "find_definition (ce_key e') s = Some def"
      by (auto simp: save_config_def split: option.splits)
    let ?e = "with_defaults now def (with_scope e')"
    let ?p = "prepare_stored_value ulids now def ?e (cs_secrets s)"
    have key: "ce_key ?e = ce_key e'" by (simp add: with_defaults_def with_scope_def)
    have s': "snd (save_config ulids now e' s)
        = s\<lparr>cs_repo := save_entry (?e\<lparr>ce_value := fst ?p\<rparr>) (cs_repo s), cs_secrets := snd ?p\<rparr>"
      using False def by (auto simp: save_config_def Let_def split: if_splits option.splits prod.splits)
    have defs: "find_definition n (snd (save_config ulids now e' s)) = find_definition n s" for n
      by (simp add: s' find_definition_def)
    show ?thesis
    proof (cases "e = ?e\<lparr>ce_value := fst ?p\<rparr>")
      case True
      then show ?thesis using def prepared_no_text by (auto simp: entry_covered_def defs key)
    next
      case other: False
      with cr_save.prems have "map_of (cs_repo s) k = Some e"
        by (auto simp: s' save_entry_def split: if_splits)
      from cr_save.IH [OF this] show ?thesis by (simp add: entry_covered_def defs)
    qed
  qed
qed


definition smtp_definition :: config_definition where
  "smtp_definition = \<lparr>cd_key = ''mail.smtp'', cd_module_key = ''mail'', cd_category = ''mail'', cd_display_name = [],
     cd_display_name_i18n = [], cd_description = [], cd_description_i18n = [],
     cd_allowed_scopes = [''deployment'', ''location''], cd_default_value = [(''host'', GStr ''localhost''), (''password'', GStr [])],
     cd_fields = [\<lparr>cf_key = ''host'', cf_label = [], cf_label_i18n = [], cf_type = ''string'', cf_required = True,
         cf_description = [], cf_description_i18n = [], cf_enum = [], cf_sensitive = False\<rparr>,
       \<lparr>cf_key = ''password'', cf_label = [], cf_label_i18n = [], cf_type = ''string'', cf_required = False,
         cf_description = [], cf_description_i18n = [], cf_enum = [], cf_sensitive = True\<rparr>]\<rparr>"

definition smtp_entry :: config_entry where
  "smtp_entry = \<lparr>ce_key = ''mail.smtp'', ce_module_key = [], ce_category = [], ce_scope = ''location'', ce_scope_id = ''L1'',
     ce_value = [(''password'', GStr ''hunter2'')], ce_updated_at = 0, ce_updated_by = [], ce_description = []\<rparr>"

definition smtp_registered :: config_service where
  "smtp_registered = snd (register_definition smtp_definition (new_config_service [] new_secret_repo))"

definition smtp_config :: config_service where
  "smtp_config = snd (save_config (\<lambda>k. k @ ''U'') 5 smtp_entry smtp_registered)"

lemma smtp_reachable: "config_reachable smtp_config"
  unfolding smtp_config_def smtp_registered_def
  by (intro config_reachable.intros) (simp add: find_definition_def new_config_service_def)


section \<open>The effective value\<close>

lemma wf_prepare_step: "wf_map (fst p) \<Longrightarrow> wf_map (fst (prepare_field ulids now def e f p))"
  by (cases p) (auto simp: prepare_field_def Let_def split: option.split prod.split)

lemma wf_resolve_secrets [intro]: "wf_map v \<Longrightarrow> wf_map (resolve_secrets secrets def v)"
proof -
  have step: "wf_map m \<Longrightarrow> wf_map (resolve_field secrets f m)" for f m
    by (auto simp: resolve_field_def split: option.split)
  have "wf_map m \<Longrightarrow> wf_map (fold (resolve_field secrets) fs m)" for fs m
    by (induction fs arbitrary: m) (simp_all add: step)
  then show "wf_map v \<Longrightarrow> ?thesis" by (simp add: resolve_secrets_def)
qed

text \<open>The field \<open>f\<close> as one scope gives it, and the scopes from the most specific on.\<close>

definition scope_field :: "config_service \<Rightarrow> config_definition \<Rightarrow> string \<Rightarrow> string \<Rightarrow> string \<Rightarrow> string \<Rightarrow> gval option" where
  "scope_field s def key scope scope_id f =
     (if scope_id = [] \<and> scope \<noteq> ''deployment'' \<or> scope \<notin> set (cd_allowed_scopes def) then None
      else case get_entry key scope scope_id (cs_repo s) of
             None \<Rightarrow> None | Some e \<Rightarrow> map_of (resolve_secrets (cs_secrets s) def (ce_value e)) f)"

definition or_else :: "'a option \<Rightarrow> 'a option \<Rightarrow> 'a option" where
  "or_else a b = (case a of None \<Rightarrow> b | Some _ \<Rightarrow> a)"

lemma or_else_simps [simp]: "or_else None b = b" "or_else (Some x) b = Some x" "or_else a None = a"
  by (simp_all add: or_else_def split: option.split)

definition effective_field ::
    "config_service \<Rightarrow> config_definition \<Rightarrow> string \<Rightarrow> string \<Rightarrow> string \<Rightarrow> string \<Rightarrow> gval option" where
  "effective_field s def key organization_id location_id f =
     or_else (scope_field s def key ''location'' location_id f)
       (or_else (scope_field s def key ''organization'' organization_id f)
         (or_else (scope_field s def key ''deployment'' [] f) (map_of (cd_default_value def) f)))"

definition wf_config :: "config_service \<Rightarrow> bool" where
  "wf_config s \<longleftrightarrow> (\<forall>e \<in> snd ` set (cs_repo s). wf_map (ce_value e))"

lemma resolve_scope_field:
  "wf_config s \<Longrightarrow> map_of (fst (resolve_scope s def key (scope, scope_id) p)) f
     = or_else (scope_field s def key scope scope_id f) (map_of (fst p) f)"
proof -
  assume wf: "wf_config s"
  obtain m src sid where p: "p = (m, src, sid)" by (cases p)
  show ?thesis
  proof (cases "scope_id = [] \<and> scope \<noteq> ''deployment'' \<or> scope \<notin> set (cd_allowed_scopes def)")
    case False
    show ?thesis
    proof (cases "get_entry key scope scope_id (cs_repo s)")
      case (Some e)
      have "e \<in> snd ` set (cs_repo s)"
        using Some map_of_SomeD by (force simp: get_entry_def)
      with wf have "wf_map (ce_value e)" by (auto simp: wf_config_def)
      then have "wf_map (resolve_secrets (cs_secrets s) def (ce_value e))" by auto
      then show ?thesis using False Some
        by (auto simp: resolve_scope_def scope_field_def p map_of_mmerge map_add_def or_else_def split: option.split)
    next
      case None
      then show ?thesis using False by (auto simp: resolve_scope_def scope_field_def p)
    qed
  qed (auto simp: resolve_scope_def scope_field_def p)
qed

text \<open>
  C20: the effective value is the most specific one, field by field: the field comes from the
  location's entry if that has it, else from the organization's, else from the deployment's,
  else from the default of the definition, counting only the scopes the definition allows and
  the identifiers that are given, with the references to secrets replaced.
\<close>

theorem effective_value_is_most_specific:
  assumes "find_definition key s = Some def" and "wf_config s"
  shows "\<exists>ef. resolve_config now key organization_id location_id s = Some ef
    \<and> (\<forall>f. map_of (ef_value ef) f = effective_field s def key organization_id location_id f)"
proof -
  let ?p = "fold (resolve_scope s def key)
      [(''deployment'', []), (''organization'', organization_id), (''location'', location_id)]
      (cd_default_value def, ''default'', [])"
  have "map_of (fst ?p) f = effective_field s def key organization_id location_id f" for f
    using assms(2) by (simp add: resolve_scope_field effective_field_def)
  then show ?thesis using assms(1) by (simp add: resolve_config_def case_prod_unfold Let_def)
qed

theorem effective_value_is_most_specific_witness:
  "\<exists>ef. resolve_config 9 ''mail.smtp'' ''O1'' ''L1'' smtp_config = Some ef
     \<and> map_of (ef_value ef) ''password'' = Some (GStr ''hunter2'')
     \<and> map_of (ef_value ef) ''host'' = Some (GStr ''localhost'')"
proof -
  have "find_definition ''mail.smtp'' smtp_config = Some smtp_definition" by code_simp
  moreover have "wf_config smtp_config" unfolding wf_config_def wf_map_def by code_simp
  ultimately obtain ef where "resolve_config 9 ''mail.smtp'' ''O1'' ''L1'' smtp_config = Some ef"
    "\<forall>f. map_of (ef_value ef) f = effective_field smtp_config smtp_definition ''mail.smtp'' ''O1'' ''L1'' f"
    using effective_value_is_most_specific by blast
  moreover have "effective_field smtp_config smtp_definition ''mail.smtp'' ''O1'' ''L1'' ''password'' = Some (GStr ''hunter2'')"
    "effective_field smtp_config smtp_definition ''mail.smtp'' ''O1'' ''L1'' ''host'' = Some (GStr ''localhost'')"
    by code_simp+
  ultimately show ?thesis by simp
qed

section \<open>Saving and reading back\<close>

definition secret_keys :: "config_field list \<Rightarrow> string set" where
  "secret_keys fs = cf_key ` {f \<in> set fs. cf_sensitive f}"

lemma prepare_field_other:
  "cf_key f \<noteq> k \<or> \<not> cf_sensitive f \<Longrightarrow> map_of (fst (prepare_field ulids now def e f p)) k = map_of (fst p) k"
  by (cases p) (auto simp: prepare_field_def Let_def split: option.split prod.split)

lemma prepare_fold_other:
  "k \<notin> secret_keys fs \<Longrightarrow> map_of (fst (fold (prepare_field ulids now def e) fs p)) k = map_of (fst p) k"
proof (induction fs arbitrary: p)
  case (Cons f fs)
  then have "cf_key f \<noteq> k \<or> \<not> cf_sensitive f" "k \<notin> secret_keys fs" by (auto simp: secret_keys_def)
  with Cons.IH show ?case by (simp add: prepare_field_other)
qed simp

lemma secret_ref_back:
  assumes "trim_space (secret_ref u) = secret_ref u"
  shows "secret_ref_from_value (secret_ref_value (secret_ref u)) = secret_ref u"
  using assms by (simp add: secret_ref_from_value_def secret_ref_value_def)

text \<open>The ULIDs of one call are distinct, and a reference has no white space to trim.\<close>

definition good_ulids :: "(string \<Rightarrow> string) \<Rightarrow> bool" where
  "good_ulids ulids \<longleftrightarrow> inj ulids \<and> (\<forall>k. trim_space (secret_ref (ulids k)) = secret_ref (ulids k))"

lemma good_ulidsD: "good_ulids ulids \<Longrightarrow> trim_space (secret_ref (ulids k)) = secret_ref (ulids k)"
  by (simp add: good_ulids_def)

lemma prepare_field_secret:
  assumes "cf_sensitive f" "map_of (fst p) (cf_key f) = Some (GStr t)" "good_ulids ulids"
  shows "map_of (fst (prepare_field ulids now def e f p)) (cf_key f) = Some (secret_ref_value (secret_ref (ulids (cf_key f))))"
    "resolve_secret (secret_ref (ulids (cf_key f))) (snd (prepare_field ulids now def e f p)) = Some t"
proof -
  obtain m secs where p: "p = (m, secs)" by (cases p)
  obtain x secs' where u: "upsert_secret (ulids (cf_key f)) now
      (cd_key def @ '':'' @ cf_key f @ '':'' @ ce_scope e @ '':'' @ ce_scope_id e) [] t secs = (x, secs')"
    by (cases "upsert_secret (ulids (cf_key f)) now
      (cd_key def @ '':'' @ cf_key f @ '':'' @ ce_scope e @ '':'' @ ce_scope_id e) [] t secs")
  note x = upsert_new_secret [OF u]
  have "prepare_field ulids now def e f p = (mput (cf_key f) (secret_ref_value (sc_ref x)) m, secs')"
    using assms(1,2) u by (simp add: prepare_field_def p secret_ref_from_value_def Let_def)
  then show "map_of (fst (prepare_field ulids now def e f p)) (cf_key f) = Some (secret_ref_value (secret_ref (ulids (cf_key f))))"
    "resolve_secret (secret_ref (ulids (cf_key f))) (snd (prepare_field ulids now def e f p)) = Some t"
    using x good_ulidsD [OF assms(3)] by (simp_all add: resolve_secret_def get_secret_def)
qed

lemma prepare_field_keeps_secret:
  assumes "good_ulids ulids" "k \<noteq> cf_key f" "resolve_secret (secret_ref (ulids k)) (snd p) = Some t"
  shows "resolve_secret (secret_ref (ulids k)) (snd (prepare_field ulids now def e f p)) = Some t"
proof -
  have ne: "secret_ref (ulids k) \<noteq> secret_ref (ulids (cf_key f))"
    using assms(1,2) by (auto simp: good_ulids_def secret_ref_def dest: injD)
  have "resolve_secret (secret_ref (ulids k)) secs' = resolve_secret (secret_ref (ulids k)) secs"
    if "upsert_secret (ulids (cf_key f)) now name [] t' secs = (x, secs')" for name t' secs x secs'
    using upsert_new_secret [OF that] ne good_ulidsD [OF assms(1)]
    by (simp add: resolve_secret_def get_secret_def)
  with assms(3) show ?thesis
    by (cases p) (auto simp: prepare_field_def Let_def split: option.split prod.split)
qed

lemma prepare_fold_secret:
  assumes ul: "good_ulids ulids"
  shows "\<lbrakk>distinct (map cf_key fs); f \<in> set fs; cf_sensitive f; map_of (fst p) (cf_key f) = Some (GStr t)\<rbrakk> \<Longrightarrow>
     map_of (fst (fold (prepare_field ulids now def e) fs p)) (cf_key f)
       = Some (secret_ref_value (secret_ref (ulids (cf_key f))))
     \<and> resolve_secret (secret_ref (ulids (cf_key f))) (snd (fold (prepare_field ulids now def e) fs p)) = Some t"
proof (induction fs arbitrary: p)
  case (Cons g fs)
  show ?case
  proof (cases "f = g")
    case True
    let ?p = "prepare_field ulids now def e g p" and ?r = "secret_ref (ulids (cf_key g))"
    have new: "map_of (fst ?p) (cf_key g) = Some (secret_ref_value ?r)" "resolve_secret ?r (snd ?p) = Some t"
      using prepare_field_secret [OF _ _ ul] Cons.prems(3,4) True by auto
    have out: "cf_key g \<notin> cf_key ` set fs" using Cons.prems(1) by simp
    have keep: "resolve_secret ?r (snd (fold (prepare_field ulids now def e) gs q)) = Some t"
      if "resolve_secret ?r (snd q) = Some t" "cf_key g \<notin> cf_key ` set gs" for gs q
      using that
    proof (induction gs arbitrary: q)
      case (Cons h gs)
      then have ne: "cf_key g \<noteq> cf_key h" and out: "cf_key g \<notin> cf_key ` set gs" by auto
      from Cons.IH [OF prepare_field_keeps_secret [OF ul ne Cons.prems(1)] out] show ?case by simp
    qed simp
    have "cf_key g \<notin> secret_keys fs" using out by (auto simp: secret_keys_def)
    from prepare_fold_other [OF this] keep [OF new(2) out] new(1) show ?thesis by (simp add: True)
  next
    case False
    then have f: "f \<in> set fs" using Cons.prems(2) by simp
    moreover have "cf_key g \<notin> cf_key ` set fs" using Cons.prems(1) by simp
    ultimately have "cf_key g \<noteq> cf_key f" by auto
    then have "map_of (fst (prepare_field ulids now def e g p)) (cf_key f) = Some (GStr t)"
      using Cons.prems(4) by (simp add: prepare_field_other)
    from Cons.IH [OF _ f Cons.prems(3) this] Cons.prems(1) show ?thesis by simp
  qed
qed simp

lemma resolve_field_other: "cf_key f \<noteq> k \<or> \<not> cf_sensitive f \<Longrightarrow> map_of (resolve_field secrets f m) k = map_of m k"
  by (auto simp: resolve_field_def split: option.split)

lemma resolve_fold_other: "k \<notin> secret_keys fs \<Longrightarrow> map_of (fold (resolve_field secrets) fs m) k = map_of m k"
proof (induction fs arbitrary: m)
  case (Cons f fs)
  then have "cf_key f \<noteq> k \<or> \<not> cf_sensitive f" "k \<notin> secret_keys fs" by (auto simp: secret_keys_def)
  with Cons.IH show ?case by (simp add: resolve_field_other)
qed simp

lemma resolve_fold_secret:
  "\<lbrakk>distinct (map cf_key fs); f \<in> set fs; cf_sensitive f; map_of m (cf_key f) = Some (secret_ref_value (secret_ref u));
    trim_space (secret_ref u) = secret_ref u; resolve_secret (secret_ref u) secrets = Some t\<rbrakk> \<Longrightarrow>
     map_of (fold (resolve_field secrets) fs m) (cf_key f) = Some (GStr t)"
proof (induction fs arbitrary: m)
  case (Cons g fs)
  show ?case
  proof (cases "f = g")
    case True
    have "secret_ref u \<noteq> []" by (simp add: secret_ref_def)
    then have "map_of (resolve_field secrets g m) (cf_key g) = Some (GStr t)"
      using Cons.prems True by (simp add: resolve_field_def secret_ref_back)
    moreover have "cf_key g \<notin> secret_keys fs" using Cons.prems(1) by (auto simp: secret_keys_def)
    ultimately show ?thesis by (simp add: True resolve_fold_other)
  next
    case False
    then have f: "f \<in> set fs" using Cons.prems(2) by simp
    moreover have "cf_key g \<notin> cf_key ` set fs" using Cons.prems(1) by simp
    ultimately have "cf_key g \<noteq> cf_key f" by auto
    then have "map_of (resolve_field secrets g m) (cf_key f) = map_of m (cf_key f)"
      by (simp add: resolve_field_other)
    with Cons f show ?thesis by simp
  qed
qed simp

text \<open>Preparing and resolving with the secrets just written gives back every saved field.\<close>

lemma prepare_resolve:
  assumes "good_ulids ulids" "distinct (map cf_key (cd_fields def))"
    and strs: "\<forall>k. sensitive_key def k \<longrightarrow> map_of (ce_value e) k \<noteq> None \<longrightarrow> (\<exists>t. map_of (ce_value e) k = Some (GStr t))"
    and prep: "prepare_stored_value ulids now def e secrets = (stored, secrets')"
    and k: "map_of (ce_value e) k = Some v"
  shows "map_of (resolve_secrets secrets' def stored) k = Some v"
proof (cases "sensitive_key def k")
  case True
  then obtain f where f: "f \<in> set (cd_fields def)" "cf_sensitive f" "cf_key f = k" by (auto simp: sensitive_key_def)
  from strs True k obtain t where t: "v = GStr t" by fastforce
  let ?r = "secret_ref (ulids k)"
  have "map_of stored k = Some (secret_ref_value ?r) \<and> resolve_secret ?r secrets' = Some t"
    using prepare_fold_secret [OF assms(1,2) f(1,2), of "(ce_value e, secrets)" t now def e] prep k t f(3)
    by (simp add: prepare_stored_value_def)
  then show ?thesis
    using resolve_fold_secret [OF assms(2) f(1,2), of stored "ulids k" secrets' t] good_ulidsD [OF assms(1)] f(3) t
    by (simp add: resolve_secrets_def)
next
  case False
  then have out: "k \<notin> secret_keys (cd_fields def)" by (auto simp: sensitive_key_def secret_keys_def)
  have "map_of stored k = Some v"
    using prepare_fold_other [OF out, of ulids now def e "(ce_value e, secrets)"] prep k
    by (simp add: prepare_stored_value_def)
  then show ?thesis using resolve_fold_other [OF out] by (simp add: resolve_secrets_def)
qed

text \<open>
  What is saved is read back. After a successful save at a location, the effective value
  there has every saved field with the value it was saved with, the secret ones included, for
  any organization.
\<close>

theorem saved_fields_are_read_back:
  assumes def: "find_definition (ce_key e) s = Some def" "distinct (map cf_key (cd_fields def))"
    and wf: "wf_config s" "wf_map (ce_value e)"
    and ul: "good_ulids ulids"
    and strs: "\<forall>k. sensitive_key def k \<longrightarrow> map_of (ce_value e) k \<noteq> None \<longrightarrow> (\<exists>t. map_of (ce_value e) k = Some (GStr t))"
    and loc: "ce_scope e = ''location''" "ce_scope_id e \<noteq> []"
    and save: "save_config ulids now e s = (None, s')"
    and k: "map_of (ce_value e) k = Some v"
  shows "\<exists>ef. resolve_config now' (ce_key e) organization_id (ce_scope_id e) s' = Some ef
    \<and> map_of (ef_value ef) k = Some v"
proof -
  let ?e = "with_defaults now def e"
  obtain stored secrets' where prep: "prepare_stored_value ulids now def ?e (cs_secrets s) = (stored, secrets')"
    by (cases "prepare_stored_value ulids now def ?e (cs_secrets s)")
  have e: "with_scope e = e" using loc(1) by (simp add: with_scope_def)
  have keys: "ce_key ?e = ce_key e" "ce_scope ?e = ce_scope e" "ce_scope_id ?e = ce_scope_id e" "ce_value ?e = ce_value e"
    by (simp_all add: with_defaults_def)
  have s': "s' = s\<lparr>cs_repo := save_entry (?e\<lparr>ce_value := stored\<rparr>) (cs_repo s), cs_secrets := secrets'\<rparr>"
    and allowed: "''location'' \<in> set (cd_allowed_scopes def)"
    using save def prep e loc(1) by (auto simp: save_config_def Let_def split: if_splits option.splits)
  have "wf_map (fst (fold (prepare_field ulids now def ?e) fs p))" if "wf_map (fst p)" for fs p
    using that by (induction fs arbitrary: p) (simp_all add: wf_prepare_step)
  then have wf_stored: "wf_map stored"
    using prep wf(2) keys(4) by (metis fst_conv prepare_stored_value_def)
  have put: "x \<in> snd ` set (mput a b m) \<Longrightarrow> x = b \<or> x \<in> snd ` set m" for a :: string and b x :: config_entry and m
    by (induction m) (force split: if_splits)+
  have "wf_map (ce_value x)" if "x \<in> snd ` set (cs_repo s')" for x
  proof -
    from that have "x = ?e\<lparr>ce_value := stored\<rparr> \<or> x \<in> snd ` set (cs_repo s)"
      by (intro put [of x "entry_store_key (ce_key e) (ce_scope e) (ce_scope_id e)"])
        (simp add: s' save_entry_def keys)
    with wf(1) wf_stored show ?thesis unfolding wf_config_def by auto
  qed
  then have "wf_config s'" unfolding wf_config_def by blast
  moreover have def': "find_definition (ce_key e) s' = Some def" using def(1) by (simp add: s' find_definition_def)
  ultimately obtain ef where ef: "resolve_config now' (ce_key e) organization_id (ce_scope_id e) s' = Some ef"
    "\<forall>f. map_of (ef_value ef) f = effective_field s' def (ce_key e) organization_id (ce_scope_id e) f"
    using effective_value_is_most_specific by blast
  have "get_entry (ce_key e) ''location'' (ce_scope_id e) (cs_repo s') = Some (?e\<lparr>ce_value := stored\<rparr>)"
    using loc(1) by (simp add: s' get_entry_def save_entry_def keys)
  moreover have "map_of (resolve_secrets secrets' def stored) k = Some v"
    using prepare_resolve [OF ul def(2) _ prep] strs k by (simp add: keys)
  ultimately have "scope_field s' def (ce_key e) ''location'' (ce_scope_id e) k = Some v"
    using allowed loc(2) by (simp add: scope_field_def s')
  then have "effective_field s' def (ce_key e) organization_id (ce_scope_id e) k = Some v"
    by (simp add: effective_field_def)
  with ef show ?thesis by auto
qed

theorem saved_fields_are_read_back_witness:
  "\<exists>ef. resolve_config 9 ''mail.smtp'' ''O1'' ''L1'' smtp_config = Some ef
     \<and> map_of (ef_value ef) ''password'' = Some (GStr ''hunter2'')"
proof -
  let ?ul = "\<lambda>k. k @ ''U''"
  have def: "find_definition (ce_key smtp_entry) smtp_registered = Some smtp_definition" by code_simp
  have dist: "distinct (map cf_key (cd_fields smtp_definition))" by (simp add: smtp_definition_def)
  have wf: "wf_config smtp_registered"
    by (simp add: wf_config_def smtp_registered_def register_definition_def new_config_service_def)
  have wf': "wf_map (ce_value smtp_entry)" by (simp add: smtp_entry_def wf_map_def)
  have strs: "\<forall>k. sensitive_key smtp_definition k \<longrightarrow> map_of (ce_value smtp_entry) k \<noteq> None
      \<longrightarrow> (\<exists>t. map_of (ce_value smtp_entry) k = Some (GStr t))"
    by (simp add: smtp_entry_def)
  have loc: "ce_scope smtp_entry = ''location''" "ce_scope_id smtp_entry \<noteq> []" by (simp_all add: smtp_entry_def)
  have "fst (save_config ?ul 5 smtp_entry smtp_registered) = None" by code_simp
  then have save: "save_config ?ul 5 smtp_entry smtp_registered = (None, smtp_config)"
    by (simp add: smtp_config_def prod_eq_iff)
  have k: "map_of (ce_value smtp_entry) ''password'' = Some (GStr ''hunter2'')" by (simp add: smtp_entry_def)
  have keys: "ce_key smtp_entry = ''mail.smtp''" "ce_scope_id smtp_entry = ''L1''" by (simp_all add: smtp_entry_def)
  have "trim_space (secret_ref (k @ ''U'')) = secret_ref (k @ ''U'')" for k
    by (rule trim_space_visible) (simp_all add: secret_ref_def visible_def)
  then have ul: "good_ulids ?ul" by (simp add: good_ulids_def inj_def)
  show ?thesis using saved_fields_are_read_back [OF def dist wf wf' ul strs loc save k] by (simp add: keys)
qed

text \<open>
  The branch of \<open>prepareStoredValue\<close> for a value that already is a reference is not reached
  through \<open>Save\<close> for a field of type string: the stored entry itself is refused.
\<close>

lemma stored_reference_is_refused:
  "fst (save_config (\<lambda>k. k @ ''V'') 8 (hd (config_entries smtp_config)) smtp_config)
     = Some (Validation ''password must be a string'')"
  by code_simp

end
