(* ===== verification/Policy.thy ===== *)
theory Policy
  imports ConfigFacts
begin

text \<open>
  Package \<open>internal/platform/policy\<close>: hooks, their rules and Rego modules in the
  configuration, and the evaluation of a request. The Open Policy Agent library is the argument
  of type \<open>rego\<close>: compiling a query over a module, and evaluating the compiled query on an
  input to a list of results, each a list of expression values. \<open>sha\<close> is the hexadecimal
  SHA-256 of a source. Evaluators written in Go are functions.
\<close>

section \<open>Data\<close>

record policy_request =
  pq_hook_key :: string
  pq_actor_id :: string
  pq_organization_id :: string
  pq_location_id :: string
  pq_scope_id :: string
  pq_inputs :: gobj
  pq_rule :: gobj

record decision =
  dn_allowed :: bool
  dn_code :: string
  dn_reason :: string
  dn_output :: gobj
  dn_rule :: "gobj option"
  dn_trace :: gobj

record hook_definition =
  hd_key :: string
  hd_kind :: string
  hd_target :: string
  hd_input_contract_key :: string
  hd_output_contract_key :: string
  hd_description :: string
  hd_rule_schema_key :: string
  hd_allowed_scopes :: "string list"
  hd_default_rule :: gobj
  hd_engine :: string
  hd_rego_package :: string
  hd_rego_query :: string
  hd_default_rego_source :: string

record 'p rego =
  rg_compile :: "string \<Rightarrow> string \<Rightarrow> string \<Rightarrow> 'p result"
  rg_eval :: "'p \<Rightarrow> gobj \<Rightarrow> gval list list result"

type_synonym evaluator = "policy_request \<Rightarrow> decision"

record 'p policy_service =
  ps_cfg :: "config_service option"
  ps_defs :: "(string, hook_definition) gomap"
  ps_evaluators :: "(string, evaluator) gomap"
  ps_prepared :: "(string, 'p) gomap"

definition denied :: "string \<Rightarrow> string \<Rightarrow> gobj option \<Rightarrow> decision" where
  "denied code reason rule = \<lparr>dn_allowed = False, dn_code = code, dn_reason = reason, dn_output = [],
     dn_rule = rule, dn_trace = []\<rparr>"

definition new_policy_service :: "config_service option \<Rightarrow> 'p policy_service" where
  "new_policy_service cfg = \<lparr>ps_cfg = cfg, ps_defs = [], ps_evaluators = [], ps_prepared = []\<rparr>"

section \<open>Names\<close>

definition rule_config_key :: "string \<Rightarrow> string" where
  "rule_config_key hook_key = ''policy.'' @ hook_key"

definition module_config_key :: "string \<Rightarrow> string" where
  "module_config_key hook_key = ''policy.rego.'' @ hook_key"

definition normalized_engine :: "string \<Rightarrow> string" where
  "normalized_engine engine = (if to_lower (trim_space engine) = ''rego'' then ''rego'' else ''go'')"

text \<open>
  \<open>sanitizeRegoIdent\<close>: the loop runs over the runes of the string; in UTF-8 a rune starts
  with a byte that is not a continuation byte (128 to 191).
\<close>

definition ident_step :: "char \<Rightarrow> string \<Rightarrow> string" where
  "ident_step c b =
     (let n = byte_of c in
      if 97 \<le> n \<and> n \<le> 122 then b @ [c]
      else if 65 \<le> n \<and> n \<le> 90 then b @ [char_of (n + 32)]
      else if 48 \<le> n \<and> n \<le> 57 then (if b = [] then ''_'' else b) @ [c]
      else if 128 \<le> n \<and> n \<le> 191 then b
      else b @ ''_'')"

definition sanitize_rego_ident :: "string \<Rightarrow> string" where
  "sanitize_rego_ident v =
     (let v = trim_space v in
      if v = [] then ''policy''
      else let out = trim_char (CHR ''_'') (fold ident_step v []) in if out = [] then ''policy'' else out)"

definition rego_package_for_hook :: "string \<Rightarrow> string" where
  "rego_package_for_hook hook_key =
     join ''.'' ([''orbyte'', ''policy'']
       @ map sanitize_rego_ident (filter (\<lambda>p. p \<noteq> []) (map trim_space (split_char (CHR ''.'') hook_key))))"

definition compiled_key :: "(string \<Rightarrow> string) \<Rightarrow> string \<Rightarrow> string \<Rightarrow> string \<Rightarrow> string" where
  "compiled_key sha hook_key query source = hook_key @ ''::'' @ query @ ''::'' @ sha source"

section \<open>Registration\<close>

definition with_hook_defaults :: "hook_definition \<Rightarrow> hook_definition" where
  "with_hook_defaults def =
     (let def = def\<lparr>hd_rule_schema_key := (if hd_rule_schema_key def = [] then hd_key def else hd_rule_schema_key def),
            hd_allowed_scopes := (if hd_allowed_scopes def = [] then [''deployment''] else hd_allowed_scopes def),
            hd_engine := normalized_engine (hd_engine def)\<rparr>
      in if hd_engine def \<noteq> ''rego'' then def
         else let def = (if trim_space (hd_rego_package def) = []
                         then def\<lparr>hd_rego_package := rego_package_for_hook (hd_key def)\<rparr> else def)
              in (if trim_space (hd_rego_query def) = []
                  then def\<lparr>hd_rego_query := ''data.'' @ hd_rego_package def @ ''.decision''\<rparr> else def))"

text \<open>The field tables of \<open>ruleFields\<close> are the argument \<open>rule_fields\<close>.\<close>

definition rule_definition :: "(string \<Rightarrow> config_field list) \<Rightarrow> hook_definition \<Rightarrow> config_definition" where
  "rule_definition rule_fields def = \<lparr>cd_key = rule_config_key (hd_key def), cd_module_key = ''platform.core'',
     cd_category = ''policy'', cd_display_name = hd_key def, cd_display_name_i18n = [],
     cd_description = hd_description def, cd_description_i18n = [], cd_allowed_scopes = hd_allowed_scopes def,
     cd_default_value = hd_default_rule def, cd_fields = rule_fields (hd_rule_schema_key def)\<rparr>"

definition source_field :: config_field where
  "source_field = \<lparr>cf_key = ''source'', cf_label = ''Source'', cf_label_i18n = [], cf_type = ''string'',
     cf_required = True, cf_description = ''Embedded Rego module source.'', cf_description_i18n = [],
     cf_enum = [], cf_sensitive = False\<rparr>"

definition module_definition :: "hook_definition \<Rightarrow> config_definition" where
  "module_definition def = \<lparr>cd_key = module_config_key (hd_key def), cd_module_key = ''platform.core'',
     cd_category = ''policy'', cd_display_name = hd_key def @ '' Rego'', cd_display_name_i18n = [],
     cd_description = ''Rego policy source for '' @ hd_key def, cd_description_i18n = [],
     cd_allowed_scopes = hd_allowed_scopes def,
     cd_default_value = [(''source'', GStr (hd_default_rego_source def))], cd_fields = [source_field]\<rparr>"

definition register_in_cfg :: "config_definition \<Rightarrow> config_service option \<Rightarrow> config_service option" where
  "register_in_cfg cd cfg = map_option (\<lambda>c. snd (register_definition cd c)) cfg"

definition register_hook ::
    "(string \<Rightarrow> config_field list) \<Rightarrow> hook_definition \<Rightarrow> 'p policy_service \<Rightarrow> goerr option \<times> 'p policy_service" where
  "register_hook rule_fields def s =
     (if trim_space (hd_key def) = [] then (Some (Validation ''policy hook key is required''), s)
      else if trim_space (hd_kind def) = [] then (Some (Validation ''policy hook kind is required''), s)
      else if trim_space (hd_target def) = [] then (Some (Validation ''policy hook target is required''), s)
      else let def = with_hook_defaults def;
               cfg = register_in_cfg (rule_definition rule_fields def) (ps_cfg s);
               cfg = (if hd_engine def = ''rego'' then register_in_cfg (module_definition def) cfg else cfg)
           in (None, s\<lparr>ps_defs := mput (hd_key def) def (ps_defs s), ps_cfg := cfg\<rparr>))"

definition hook_definitions :: "'p policy_service \<Rightarrow> hook_definition list" where
  "hook_definitions s = sort_slice hd_key (map snd (ps_defs s))"

definition set_evaluator :: "string \<Rightarrow> evaluator option \<Rightarrow> 'p policy_service \<Rightarrow> goerr option \<times> 'p policy_service" where
  "set_evaluator hook_key eval s =
     (if map_of (ps_defs s) hook_key = None then (Some (NotFound ''policy hook not found''), s)
      else case eval of
             None \<Rightarrow> (Some (Validation ''policy evaluator is required''), s)
           | Some f \<Rightarrow> (None, s\<lparr>ps_evaluators := mput hook_key f (ps_evaluators s)\<rparr>))"

section \<open>Rules and modules\<close>

definition policy_entry ::
    "string \<Rightarrow> string \<Rightarrow> string \<Rightarrow> string \<Rightarrow> gotime \<Rightarrow> gobj \<Rightarrow> string \<Rightarrow> config_entry" where
  "policy_entry key scope scope_id actor_id now val description = \<lparr>ce_key = key, ce_module_key = ''platform.core'',
     ce_category = ''policy'', ce_scope = (if scope = [] then ''deployment'' else scope), ce_scope_id = scope_id,
     ce_value = val, ce_updated_at = now, ce_updated_by = first_non_empty [actor_id, ''system''],
     ce_description = description\<rparr>"

definition upsert_rule ::
    "(string \<Rightarrow> string) \<Rightarrow> gotime \<Rightarrow> string \<Rightarrow> string \<Rightarrow> string \<Rightarrow> string \<Rightarrow> gobj \<Rightarrow> 'p policy_service
       \<Rightarrow> goerr option \<times> 'p policy_service" where
  "upsert_rule ulids now hook_key scope scope_id actor_id val s =
     (case map_of (ps_defs s) hook_key of
        None \<Rightarrow> (Some (NotFound ''policy hook not found''), s)
      | Some def \<Rightarrow>
          (case ps_cfg s of
             None \<Rightarrow> (Some (Conflict ''policy service is not config-backed''), s)
           | Some cfg \<Rightarrow>
               let (err, cfg') = save_config ulids now
                     (policy_entry (rule_config_key hook_key) scope scope_id actor_id now val (hd_description def)) cfg
               in (err, s\<lparr>ps_cfg := Some cfg'\<rparr>)))"

definition default_rule_value :: "gotime \<Rightarrow> hook_definition \<Rightarrow> string \<Rightarrow> effective_value" where
  "default_rule_value now def hook_key = \<lparr>ef_key = rule_config_key hook_key, ef_module_key = ''platform.core'',
     ef_scope = ''effective'', ef_scope_id = [], ef_value = hd_default_rule def, ef_source_scope = ''default'',
     ef_source_scope_id = [], ef_resolved_at = now\<rparr>"

definition resolve_rule ::
    "gotime \<Rightarrow> string \<Rightarrow> string \<Rightarrow> string \<Rightarrow> 'p policy_service \<Rightarrow> effective_value option" where
  "resolve_rule now hook_key organization_id location_id s =
     (case map_of (ps_defs s) hook_key of
        None \<Rightarrow> None
      | Some def \<Rightarrow>
          (case ps_cfg s of
             None \<Rightarrow> Some (default_rule_value now def hook_key)
           | Some cfg \<Rightarrow>
               (case resolve_config now (rule_config_key hook_key) organization_id location_id cfg of
                  None \<Rightarrow> Some (default_rule_value now def hook_key)
                | Some ef \<Rightarrow> Some ef)))"

definition module_source :: "effective_value \<Rightarrow> string" where
  "module_source ef = trim_space (string_from_value (mget GNull (ef_value ef) ''source''))"

definition default_module_value :: "gotime \<Rightarrow> hook_definition \<Rightarrow> string \<Rightarrow> effective_value option" where
  "default_module_value now def hook_key =
     (if trim_space (hd_default_rego_source def) = [] then None
      else Some \<lparr>ef_key = module_config_key hook_key, ef_module_key = ''platform.core'',
        ef_scope = ''effective'', ef_scope_id = [], ef_value = [(''source'', GStr (hd_default_rego_source def))],
        ef_source_scope = ''default'', ef_source_scope_id = [], ef_resolved_at = now\<rparr>)"

definition resolve_module ::
    "gotime \<Rightarrow> string \<Rightarrow> string \<Rightarrow> string \<Rightarrow> 'p policy_service \<Rightarrow> effective_value option" where
  "resolve_module now hook_key organization_id location_id s =
     (case map_of (ps_defs s) hook_key of
        None \<Rightarrow> None
      | Some def \<Rightarrow>
          if hd_engine def \<noteq> ''rego'' then None
          else (case Option.bind (ps_cfg s) (resolve_config now (module_config_key hook_key) organization_id location_id) of
                  Some ef \<Rightarrow> if module_source ef \<noteq> [] then Some ef else default_module_value now def hook_key
                | None \<Rightarrow> default_module_value now def hook_key))"

text \<open>\<open>prepare\<close> compiles a source once and keeps the result under its key.\<close>

definition prepare ::
    "'p rego \<Rightarrow> (string \<Rightarrow> string) \<Rightarrow> hook_definition \<Rightarrow> string \<Rightarrow> 'p policy_service \<Rightarrow> 'p result \<times> 'p policy_service" where
  "prepare rg sha def source s =
     (let key = compiled_key sha (hd_key def) (hd_rego_query def) source
      in case map_of (ps_prepared s) key of
           Some p \<Rightarrow> (Inr p, s)
         | None \<Rightarrow>
             (case rg_compile rg (hd_rego_query def) (hd_key def @ ''.rego'') source of
                Inl err \<Rightarrow> (Inl err, s)
              | Inr p \<Rightarrow> (Inr p, s\<lparr>ps_prepared := mput key p (ps_prepared s)\<rparr>)))"

section \<open>Evaluation\<close>

definition rego_input :: "string \<Rightarrow> policy_request \<Rightarrow> gobj" where
  "rego_input hook_key req = [(''hook_key'', GStr hook_key), (''actor_id'', GStr (pq_actor_id req)),
     (''organization_id'', GStr (pq_organization_id req)), (''location_id'', GStr (pq_location_id req)),
     (''scope_id'', GStr (pq_scope_id req)), (''inputs'', GObj (pq_inputs req)), (''rule'', GObj (pq_rule req))]"

definition decision_from_rego_results :: "gval list list \<Rightarrow> decision option" where
  "decision_from_rego_results results =
     (case results of
        (GObj v # _) # _ \<Rightarrow>
          (case map_of v ''allowed'' of
             Some (GBool allowed) \<Rightarrow> Some \<lparr>dn_allowed = allowed,
               dn_code = trim_space (string_from_value (mget GNull v ''code'')),
               dn_reason = trim_space (string_from_value (mget GNull v ''reason'')),
               dn_output = (case map_of v ''output'' of Some (GObj m) \<Rightarrow> m | _ \<Rightarrow> []),
               dn_rule = None,
               dn_trace = (case map_of v ''trace'' of Some (GObj m) \<Rightarrow> m | _ \<Rightarrow> [])\<rparr>
           | _ \<Rightarrow> None)
      | _ \<Rightarrow> None)"

definition with_trace :: "string \<Rightarrow> string \<Rightarrow> decision \<Rightarrow> decision" where
  "with_trace hook_key engine d =
     d\<lparr>dn_trace := mput ''engine'' (GStr engine) (mput ''hook_key'' (GStr hook_key) (dn_trace d))\<rparr>"

definition with_rule :: "gobj \<Rightarrow> decision \<Rightarrow> decision" where
  "with_rule rule d = (case dn_rule d of None \<Rightarrow> d\<lparr>dn_rule := Some rule\<rparr> | Some _ \<Rightarrow> d)"

definition evaluate_rego ::
    "'p rego \<Rightarrow> (string \<Rightarrow> string) \<Rightarrow> gotime \<Rightarrow> hook_definition \<Rightarrow> policy_request \<Rightarrow> 'p policy_service
       \<Rightarrow> decision \<times> 'p policy_service" where
  "evaluate_rego rg sha now def req s =
     (case resolve_module now (hd_key def) (pq_organization_id req) (pq_location_id req) s of
        None \<Rightarrow> (denied ''policy_eval_missing_module'' ''rego source is not configured'' (Some (pq_rule req)), s)
      | Some ef \<Rightarrow>
          (case prepare rg sha def (module_source ef) s of
             (Inl err, s') \<Rightarrow> (denied ''policy_eval_compile_error'' (err_text err) (Some (pq_rule req)), s')
           | (Inr p, s') \<Rightarrow>
               (case rg_eval rg p (rego_input (pq_hook_key req) req) of
                  Inl err \<Rightarrow> (denied ''policy_eval_error'' (err_text err) (Some (pq_rule req)), s')
                | Inr results \<Rightarrow>
                    (case decision_from_rego_results results of
                       None \<Rightarrow> (denied ''policy_eval_invalid_result'' ''rego policy must return a decision object'' (Some (pq_rule req)), s')
                     | Some d \<Rightarrow> (with_trace (hd_key def) (hd_engine def) (with_rule (pq_rule req) d), s')))))"

definition evaluate ::
    "'p rego \<Rightarrow> (string \<Rightarrow> string) \<Rightarrow> gotime \<Rightarrow> policy_request \<Rightarrow> 'p policy_service \<Rightarrow> decision \<times> 'p policy_service" where
  "evaluate rg sha now req s =
     (case map_of (ps_defs s) (pq_hook_key req) of
        None \<Rightarrow> (denied ''policy_hook_not_found'' ''policy hook not found'' None, s)
      | Some def \<Rightarrow>
          let req = (case resolve_rule now (pq_hook_key req) (pq_organization_id req) (pq_location_id req) s of
                Some ef \<Rightarrow> req\<lparr>pq_rule := ef_value ef\<rparr>
              | None \<Rightarrow> (if pq_rule req = [] then req\<lparr>pq_rule := hd_default_rule def\<rparr> else req))
          in if hd_engine def = ''rego''
             then (let (d, s') = evaluate_rego rg sha now def req s
                   in (with_trace (pq_hook_key req) (hd_engine def) d, s'))
             else (case map_of (ps_evaluators s) (pq_hook_key req) of
                     None \<Rightarrow> (with_trace (pq_hook_key req) (hd_engine def)
                       (denied ''policy_evaluator_not_found'' ''policy evaluator not configured'' (Some (pq_rule req))), s)
                   | Some eval \<Rightarrow>
                       (with_trace (pq_hook_key req) (hd_engine def) (with_rule (pq_rule req) (eval req)), s)))"

section \<open>Administration of modules\<close>

definition empty_request :: "string \<Rightarrow> string \<Rightarrow> string \<Rightarrow> policy_request" where
  "empty_request hook_key organization_id location_id = \<lparr>pq_hook_key = hook_key, pq_actor_id = [],
     pq_organization_id = organization_id, pq_location_id = location_id, pq_scope_id = [], pq_inputs = [], pq_rule = []\<rparr>"

definition validate_prepared_decision :: "'p rego \<Rightarrow> 'p \<Rightarrow> policy_request \<Rightarrow> goerr option" where
  "validate_prepared_decision rg p req =
     (case rg_eval rg p (rego_input (pq_hook_key req) req) of
        Inl err \<Rightarrow> Some err
      | Inr results \<Rightarrow> if decision_from_rego_results results = None
          then Some (Plain ''rego policy must return a decision object'') else None)"

definition validate_rego_source ::
    "'p rego \<Rightarrow> (string \<Rightarrow> string) \<Rightarrow> hook_definition \<Rightarrow> string \<Rightarrow> 'p policy_service \<Rightarrow> goerr option \<times> 'p policy_service" where
  "validate_rego_source rg sha def source s =
     (case prepare rg sha def source s of
        (Inl err, s') \<Rightarrow> (Some err, s')
      | (Inr p, s') \<Rightarrow> (validate_prepared_decision rg p (empty_request (hd_key def) [] []), s'))"

definition invalid_source :: "goerr \<Rightarrow> goerr" where
  "invalid_source err = Validation (''invalid rego source: '' @ err_text err)"

definition upsert_module ::
    "'p rego \<Rightarrow> (string \<Rightarrow> string) \<Rightarrow> (string \<Rightarrow> string) \<Rightarrow> gotime \<Rightarrow> string \<Rightarrow> string \<Rightarrow> string \<Rightarrow> string \<Rightarrow> string
       \<Rightarrow> 'p policy_service \<Rightarrow> goerr option \<times> 'p policy_service" where
  "upsert_module rg sha ulids now hook_key scope scope_id actor_id source s =
     (case map_of (ps_defs s) hook_key of
        None \<Rightarrow> (Some (NotFound ''policy hook not found''), s)
      | Some def \<Rightarrow>
          if hd_engine def \<noteq> ''rego'' then (Some (Validation ''policy hook is not Rego-backed''), s)
          else (case ps_cfg s of
             None \<Rightarrow> (Some (Conflict ''policy service is not config-backed''), s)
           | Some cfg \<Rightarrow>
               if trim_space source = [] then (Some (Validation ''rego source is required''), s)
               else (case prepare rg sha def source s of
                  (Inl err, s') \<Rightarrow> (Some (invalid_source err), s')
                | (Inr p, s') \<Rightarrow>
                    let (err, cfg') = save_config ulids now
                          (policy_entry (module_config_key hook_key) scope scope_id actor_id now
                             [(''source'', GStr source)] (''Rego policy source for '' @ hook_key)) cfg
                    in (err, s'\<lparr>ps_cfg := Some cfg'\<rparr>))))"

text \<open>\<open>ValidateModuleSource\<close> compiles; \<open>ValidateModuleRuntimeSource\<close> also evaluates.\<close>

definition checked_source ::
    "(hook_definition \<Rightarrow> string \<Rightarrow> 'p policy_service \<Rightarrow> goerr option \<times> 'p policy_service) \<Rightarrow> string \<Rightarrow> string
       \<Rightarrow> 'p policy_service \<Rightarrow> goerr option \<times> 'p policy_service" where
  "checked_source check hook_key source s =
     (case map_of (ps_defs s) hook_key of
        None \<Rightarrow> (Some (NotFound ''policy hook not found''), s)
      | Some def \<Rightarrow>
          if hd_engine def \<noteq> ''rego'' then (Some (Validation ''policy hook is not Rego-backed''), s)
          else if trim_space source = [] then (Some (Validation ''rego source is required''), s)
          else (let (err, s') = check def (trim_space source) s in (map_option invalid_source err, s')))"

definition validate_module_source ::
    "'p rego \<Rightarrow> (string \<Rightarrow> string) \<Rightarrow> string \<Rightarrow> string \<Rightarrow> 'p policy_service \<Rightarrow> goerr option \<times> 'p policy_service" where
  "validate_module_source rg sha hook_key source s =
     checked_source (\<lambda>def src s. case prepare rg sha def src s of
         (Inl err, s') \<Rightarrow> (Some err, s') | (Inr _, s') \<Rightarrow> (None, s')) hook_key source s"

definition validate_module_runtime_source ::
    "'p rego \<Rightarrow> (string \<Rightarrow> string) \<Rightarrow> string \<Rightarrow> string \<Rightarrow> 'p policy_service \<Rightarrow> goerr option \<times> 'p policy_service" where
  "validate_module_runtime_source rg sha hook_key source s =
     checked_source (validate_rego_source rg sha) hook_key source s"

text \<open>The state of a hook as an administrator sees it.\<close>

record hook_runtime =
  hr_definition :: hook_definition
  hr_rule :: effective_value
  hr_rule_fields :: "config_field list"
  hr_rego_configured :: bool
  hr_rego_source :: string
  hr_compile_valid :: bool
  hr_compile_error :: string
  hr_eval_valid :: bool
  hr_eval_error :: string

definition runtime_of ::
    "'p rego \<Rightarrow> (string \<Rightarrow> string) \<Rightarrow> (string \<Rightarrow> config_field list) \<Rightarrow> gotime \<Rightarrow> string \<Rightarrow> string \<Rightarrow> string
       \<Rightarrow> 'p policy_service \<Rightarrow> hook_runtime option \<times> 'p policy_service" where
  "runtime_of rg sha rule_fields now hook_key organization_id location_id s =
     (case map_of (ps_defs s) hook_key of
        None \<Rightarrow> (None, s)
      | Some def \<Rightarrow>
          let rule = (case resolve_rule now hook_key organization_id location_id s of Some ef \<Rightarrow> ef | None \<Rightarrow> zero_effective);
              rt = \<lparr>hr_definition = def, hr_rule = rule, hr_rule_fields = rule_fields (hd_rule_schema_key def),
                hr_rego_configured = False, hr_rego_source = [], hr_compile_valid = False, hr_compile_error = [],
                hr_eval_valid = False, hr_eval_error = []\<rparr>
          in if hd_engine def \<noteq> ''rego''
             then (Some (if map_of (ps_evaluators s) (hd_key def) \<noteq> None then rt\<lparr>hr_eval_valid := True\<rparr>
                         else rt\<lparr>hr_eval_error := ''policy evaluator is not configured''\<rparr>), s)
             else (case resolve_module now hook_key organization_id location_id s of
                     None \<Rightarrow> (Some (rt\<lparr>hr_compile_error := ''rego source is not configured''\<rparr>), s)
                   | Some ef \<Rightarrow>
                       let rt = rt\<lparr>hr_rego_configured := True, hr_rego_source := module_source ef\<rparr>
                       in (case prepare rg sha def (module_source ef) s of
                             (Inl err, s') \<Rightarrow> (Some (rt\<lparr>hr_compile_error := err_text err\<rparr>), s')
                           | (Inr p, s') \<Rightarrow>
                               let rt = rt\<lparr>hr_compile_valid := True\<rparr>
                               in (case validate_prepared_decision rg p (empty_request (hd_key def) organization_id location_id) of
                                     Some err \<Rightarrow> (Some (rt\<lparr>hr_eval_error := err_text err\<rparr>), s')
                                   | None \<Rightarrow> (Some (rt\<lparr>hr_eval_valid := True\<rparr>), s')))))"

end
