(* ===== verification/PolicyFacts.thy ===== *)
theory PolicyFacts
  imports Policy
begin

text \<open>
  What policy evaluation guarantees: the cache of compiled modules never changes a decision, and
  a request is allowed only by the evaluator or the module configured for its hook and scope.
\<close>

section \<open>The cache of compiled modules\<close>

text \<open>
  Of SHA-256 the code relies on the fixed length of the digest and on there being no collision
  among the sources \<open>S\<close> that the service ever compiles.
\<close>

definition hash_ok :: "(string \<Rightarrow> string) \<Rightarrow> string set \<Rightarrow> bool" where
  "hash_ok sha S \<longleftrightarrow> inj_on sha S \<and> (\<forall>x y. length (sha x) = length (sha y))"

definition plain_key :: "string \<Rightarrow> bool" where
  "plain_key k \<longleftrightarrow> CHR '':'' \<notin> set k"

lemma compiled_key_inj:
  assumes "hash_ok sha S" "plain_key h" "plain_key h'" "src \<in> S" "src' \<in> S"
    and eq: "compiled_key sha h q src = compiled_key sha h' q' src'"
  shows "h = h' \<and> q = q' \<and> src = src'"
proof -
  have "length (sha src) = length (sha src')" using assms(1) by (simp add: hash_ok_def)
  moreover have "(h @ ''::'' @ q @ ''::'') @ sha src = (h' @ ''::'' @ q' @ ''::'') @ sha src'"
    using eq by (simp add: compiled_key_def)
  ultimately have "h @ ''::'' @ q @ ''::'' = h' @ ''::'' @ q' @ ''::'' \<and> sha src = sha src'"
    by (subst (asm) append_eq_append_conv) auto
  then have "(h @ ''::'' @ q) @ ''::'' = (h' @ ''::'' @ q') @ ''::'' \<and> sha src = sha src'"
    by (simp only: append.assoc)
  then have "h @ ''::'' @ q = h' @ ''::'' @ q'" "sha src = sha src'" by (simp_all only: append_same_eq)
  then have hq: "h @ ''::'' @ q = h' @ ''::'' @ q'" "src = src'"
    using assms(1,4,5) by (auto simp: hash_ok_def dest: inj_onD)
  have take: "takeWhile (\<lambda>c. c \<noteq> CHR '':'') (h @ ''::'' @ q) = h" if "plain_key h" for h q
    using that by (simp add: plain_key_def takeWhile_append takeWhile_eq_all_conv [THEN iffD2])
  have "h = h'" using take [OF assms(2), of q, unfolded hq(1)] take [OF assms(3), of q'] by (rule trans [OF sym])
  with hq show ?thesis by simp
qed

definition coherent :: "'p rego \<Rightarrow> (string \<Rightarrow> string) \<Rightarrow> string set \<Rightarrow> 'p policy_service \<Rightarrow> bool" where
  "coherent rg sha S s \<longleftrightarrow>
     (\<forall>k def. map_of (ps_defs s) k = Some def \<longrightarrow> hd_key def = k \<and> plain_key k)
   \<and> (\<forall>k p. map_of (ps_prepared s) k = Some p \<longrightarrow>
        (\<exists>h q src. src \<in> S \<and> plain_key h \<and> k = compiled_key sha h q src \<and> rg_compile rg q (h @ ''.rego'') src = Inr p))"

lemma coherentD:
  "coherent rg sha S s \<Longrightarrow> map_of (ps_defs s) k = Some def \<Longrightarrow> hd_key def = k \<and> plain_key k"
  by (simp add: coherent_def)

lemma coherent_prepared:
  "coherent rg sha S s \<Longrightarrow> map_of (ps_prepared s) k = Some p \<Longrightarrow>
     \<exists>h q src. src \<in> S \<and> plain_key h \<and> k = compiled_key sha h q src \<and> rg_compile rg q (h @ ''.rego'') src = Inr p"
  by (simp add: coherent_def)

text \<open>A coherent cache only saves time: \<open>prepare\<close> returns what compiling would.\<close>

lemma prepare_result:
  assumes "hash_ok sha S" "coherent rg sha S s" "plain_key (hd_key def)" "source \<in> S"
  shows "fst (prepare rg sha def source s) = rg_compile rg (hd_rego_query def) (hd_key def @ ''.rego'') source"
proof (cases "map_of (ps_prepared s) (compiled_key sha (hd_key def) (hd_rego_query def) source)")
  case None
  then show ?thesis by (simp add: prepare_def split: sum.split)
next
  case (Some p)
  from coherent_prepared [OF assms(2) this] obtain h q src where
    "src \<in> S" "plain_key h" "compiled_key sha (hd_key def) (hd_rego_query def) source = compiled_key sha h q src"
    "rg_compile rg q (h @ ''.rego'') src = Inr p" by blast
  with compiled_key_inj [OF assms(1,3) _ assms(4)] have "rg_compile rg (hd_rego_query def) (hd_key def @ ''.rego'') source = Inr p"
    by metis
  with Some show ?thesis by (simp add: prepare_def)
qed

lemma prepare_frame [simp]:
  "ps_cfg (snd (prepare rg sha def source s)) = ps_cfg s" "ps_defs (snd (prepare rg sha def source s)) = ps_defs s"
  "ps_evaluators (snd (prepare rg sha def source s)) = ps_evaluators s"
  by (simp_all add: prepare_def Let_def split: option.split sum.split)

lemma coherent_prepare:
  assumes "coherent rg sha S s" "plain_key (hd_key def)" "source \<in> S"
  shows "coherent rg sha S (snd (prepare rg sha def source s))"
proof (cases "map_of (ps_prepared s) (compiled_key sha (hd_key def) (hd_rego_query def) source)")
  case None
  show ?thesis
  proof (cases "rg_compile rg (hd_rego_query def) (hd_key def @ ''.rego'') source")
    case (Inr p)
    have "snd (prepare rg sha def source s) = s\<lparr>ps_prepared :=
        mput (compiled_key sha (hd_key def) (hd_rego_query def) source) p (ps_prepared s)\<rparr>"
      using None Inr by (simp add: prepare_def)
    then show ?thesis using assms Inr unfolding coherent_def by auto
  qed (use None assms in \<open>simp add: prepare_def\<close>)
qed (use assms in \<open>simp add: prepare_def\<close>)

section \<open>Reachable services\<close>

lemma coherent_other:
  "ps_defs s' = ps_defs s \<Longrightarrow> ps_prepared s' = ps_prepared s \<Longrightarrow> coherent rg sha S s \<Longrightarrow> coherent rg sha S s'"
  by (simp add: coherent_def)

lemma coherent_register:
  assumes "coherent rg sha S s" "plain_key (hd_key def)"
  shows "coherent rg sha S (snd (register_hook rf def s))"
proof -
  have "hd_key (with_hook_defaults def) = hd_key def"
    by (simp add: with_hook_defaults_def Let_def)
  with assms show ?thesis by (auto simp: register_hook_def coherent_def Let_def)
qed

text \<open>\<open>sources_in S s\<close>: the module configured for any hook and scope has its source in \<open>S\<close>.\<close>

definition sources_in :: "string set \<Rightarrow> 'p policy_service \<Rightarrow> bool" where
  "sources_in S s \<longleftrightarrow> (\<forall>now k org loc ef. resolve_module now k org loc s = Some ef \<longrightarrow> module_source ef \<in> S)"

lemma coherent_evaluate_rego:
  assumes "coherent rg sha S s" "plain_key (hd_key def)" "sources_in S s"
  shows "coherent rg sha S (snd (evaluate_rego rg sha now def req s))"
proof (cases "resolve_module now (hd_key def) (pq_organization_id req) (pq_location_id req) s")
  case (Some ef)
  then have "module_source ef \<in> S" using assms(3) by (auto simp: sources_in_def)
  note ok = coherent_prepare [OF assms(1,2) this]
  obtain res s' where prep: "prepare rg sha def (module_source ef) s = (res, s')"
    by (cases "prepare rg sha def (module_source ef) s")
  with ok have "coherent rg sha S s'" by simp
  with Some prep show ?thesis by (simp add: evaluate_rego_def split: option.split sum.split)
qed (use assms(1) in \<open>simp add: evaluate_rego_def\<close>)

lemma coherent_evaluate:
  assumes "coherent rg sha S s" "sources_in S s"
  shows "coherent rg sha S (snd (evaluate rg sha now req s))"
proof (cases "map_of (ps_defs s) (pq_hook_key req)")
  case (Some def)
  with coherentD [OF assms(1) this] have plain: "plain_key (hd_key def)" by simp
  note ok = coherent_evaluate_rego [OF assms(1) plain assms(2)]
  show ?thesis using assms(1) ok Some by (simp add: evaluate_def Let_def case_prod_unfold split: option.split)
qed (use assms in \<open>simp add: evaluate_def\<close>)

lemma coherent_upsert_module:
  assumes "coherent rg sha S s" "src \<in> S"
  shows "coherent rg sha S (snd (upsert_module rg sha ul now k sc scid actor src s))"
proof (cases "map_of (ps_defs s) k")
  case (Some def)
  with coherentD [OF assms(1) this] have plain: "plain_key (hd_key def)" by simp
  note ok = coherent_prepare [OF assms(1) plain assms(2)]
  show ?thesis
    using assms(1) ok Some coherent_other [OF _ _ ok]
    by (auto simp: upsert_module_def Let_def case_prod_unfold split: option.split sum.split)
qed (use assms in \<open>simp add: upsert_module_def\<close>)

inductive policy_reachable :: "'p rego \<Rightarrow> (string \<Rightarrow> string) \<Rightarrow> string set \<Rightarrow> 'p policy_service \<Rightarrow> bool" for rg sha S where
  pr_new: "policy_reachable rg sha S (new_policy_service cfg)"
| pr_register: "policy_reachable rg sha S s \<Longrightarrow> plain_key (hd_key def) \<Longrightarrow>
    policy_reachable rg sha S (snd (register_hook rf def s))"
| pr_set_evaluator: "policy_reachable rg sha S s \<Longrightarrow> policy_reachable rg sha S (snd (set_evaluator k f s))"
| pr_upsert_rule: "policy_reachable rg sha S s \<Longrightarrow>
    policy_reachable rg sha S (snd (upsert_rule ul now k sc scid actor v s))"
| pr_upsert_module: "policy_reachable rg sha S s \<Longrightarrow> src \<in> S \<Longrightarrow>
    policy_reachable rg sha S (snd (upsert_module rg sha ul now k sc scid actor src s))"
| pr_evaluate: "policy_reachable rg sha S s \<Longrightarrow> sources_in S s \<Longrightarrow>
    policy_reachable rg sha S (snd (evaluate rg sha now req s))"

lemma policy_coherent: "policy_reachable rg sha S s \<Longrightarrow> coherent rg sha S s"
proof (induction rule: policy_reachable.induct)
  case pr_new
  then show ?case by (simp add: coherent_def new_policy_service_def)
next
  case (pr_set_evaluator s k f)
  then show ?case by (auto simp: set_evaluator_def intro: coherent_other split: option.split)
next
  case (pr_upsert_rule s)
  then show ?case
    by (auto simp: upsert_rule_def Let_def case_prod_unfold intro: coherent_other split: option.split)
qed (simp_all add: coherent_register coherent_upsert_module coherent_evaluate)

section \<open>Decisions\<close>

definition effective_rule :: "gotime \<Rightarrow> policy_request \<Rightarrow> hook_definition \<Rightarrow> 'p policy_service \<Rightarrow> gobj" where
  "effective_rule now req def s =
     (case resolve_rule now (pq_hook_key req) (pq_organization_id req) (pq_location_id req) s of
        Some ef \<Rightarrow> ef_value ef | None \<Rightarrow> hd_default_rule def)"

text \<open>The decision of a module that is compiled for the occasion.\<close>

definition module_decision :: "'p rego \<Rightarrow> gotime \<Rightarrow> hook_definition \<Rightarrow> policy_request \<Rightarrow> 'p policy_service \<Rightarrow> decision" where
  "module_decision rg now def req s =
     (case resolve_module now (hd_key def) (pq_organization_id req) (pq_location_id req) s of
        None \<Rightarrow> denied ''policy_eval_missing_module'' ''rego source is not configured'' (Some (pq_rule req))
      | Some ef \<Rightarrow>
          (case rg_compile rg (hd_rego_query def) (hd_key def @ ''.rego'') (module_source ef) of
             Inl err \<Rightarrow> denied ''policy_eval_compile_error'' (err_text err) (Some (pq_rule req))
           | Inr p \<Rightarrow>
               (case rg_eval rg p (rego_input (pq_hook_key req) req) of
                  Inl err \<Rightarrow> denied ''policy_eval_error'' (err_text err) (Some (pq_rule req))
                | Inr results \<Rightarrow>
                    (case decision_from_rego_results results of
                       None \<Rightarrow> denied ''policy_eval_invalid_result'' ''rego policy must return a decision object'' (Some (pq_rule req))
                     | Some d \<Rightarrow> with_rule (pq_rule req) d))))"

definition decide :: "'p rego \<Rightarrow> gotime \<Rightarrow> policy_request \<Rightarrow> 'p policy_service \<Rightarrow> decision" where
  "decide rg now req s =
     (case map_of (ps_defs s) (pq_hook_key req) of
        None \<Rightarrow> denied ''policy_hook_not_found'' ''policy hook not found'' None
      | Some def \<Rightarrow>
          let req = req\<lparr>pq_rule := effective_rule now req def s\<rparr>
          in with_trace (pq_hook_key req) (hd_engine def)
               (if hd_engine def = ''rego'' then module_decision rg now def req s
                else case map_of (ps_evaluators s) (pq_hook_key req) of
                       None \<Rightarrow> denied ''policy_evaluator_not_found'' ''policy evaluator not configured'' (Some (pq_rule req))
                     | Some eval \<Rightarrow> with_rule (pq_rule req) (eval req)))"

lemma with_trace_idem: "with_trace k e (with_trace k e d) = with_trace k e d"
proof -
  have idem: "mput x a (mput x a m) = mput x a m" for x a and m :: gobj
    by (induction m) auto
  have "mput ''engine'' a (mput ''hook_key'' b (mput ''engine'' a (mput ''hook_key'' b m)))
      = mput ''engine'' a (mput ''hook_key'' b m)" for a b and m :: gobj
    by (induction m) (auto simp: idem)
  then show ?thesis by (simp add: with_trace_def)
qed

lemma uncached:
  assumes "policy_reachable rg sha S s" and "hash_ok sha S" and "sources_in S s"
  shows "fst (evaluate rg sha now req s) = decide rg now req s"
proof (cases "map_of (ps_defs s) (pq_hook_key req)")
  case None
  then show ?thesis by (simp add: evaluate_def decide_def)
next
  case (Some def)
  note coh = policy_coherent [OF assms(1)]
  from coherentD [OF coh Some] have key: "hd_key def = pq_hook_key req" "plain_key (hd_key def)" by simp_all
  have rule: "\<exists>ef. resolve_rule now (pq_hook_key req) (pq_organization_id req) (pq_location_id req) s = Some ef"
    using Some by (auto simp: resolve_rule_def split: option.split)
  then have req: "(case resolve_rule now (pq_hook_key req) (pq_organization_id req) (pq_location_id req) s of
       Some ef \<Rightarrow> req\<lparr>pq_rule := ef_value ef\<rparr>
     | None \<Rightarrow> (if pq_rule req = [] then req\<lparr>pq_rule := hd_default_rule def\<rparr> else req))
     = req\<lparr>pq_rule := effective_rule now req def s\<rparr>"
    by (auto simp: effective_rule_def)
  have rego: "with_trace (pq_hook_key req) e (fst (evaluate_rego rg sha now def req' s))
      = with_trace (pq_hook_key req) e (module_decision rg now def req' s)"
    if "hd_engine def = e" for req' e
  proof -
    have "fst (evaluate_rego rg sha now def req' s) = module_decision rg now def req' s
      \<or> fst (evaluate_rego rg sha now def req' s) = with_trace (pq_hook_key req) e (module_decision rg now def req' s)"
    proof (cases "resolve_module now (hd_key def) (pq_organization_id req') (pq_location_id req') s")
      case (Some ef)
      obtain res s' where prep: "prepare rg sha def (module_source ef) s = (res, s')"
        by (cases "prepare rg sha def (module_source ef) s")
      moreover have "module_source ef \<in> S" using assms(3) Some by (auto simp: sources_in_def)
      ultimately have "rg_compile rg (hd_rego_query def) (hd_key def @ ''.rego'') (module_source ef) = res"
        using prepare_result [OF assms(2) coh key(2), of "module_source ef"] by simp
      with Some prep that key(1) show ?thesis
        by (simp add: evaluate_rego_def module_decision_def split: option.split sum.split)
    qed (simp add: evaluate_rego_def module_decision_def)
    then show ?thesis by (auto simp: with_trace_idem)
  qed
  show ?thesis
    unfolding evaluate_def decide_def Some req option.case Let_def
    by (simp add: case_prod_unfold rego split: option.split)
qed



text \<open>A demonstration: a policy language whose only programs are \<open>allow\<close> and \<open>deny\<close>.\<close>

definition toy_rego :: "bool rego" where
  "toy_rego = \<lparr>rg_compile = (\<lambda>query name source. if source = ''allow'' then Inr True
       else if source = ''deny'' then Inr False else Inl (Plain ''syntax error'')),
     rg_eval = (\<lambda>p input. Inr [[GObj [(''allowed'', GBool p)]]])\<rparr>"

definition demo_hook :: hook_definition where
  "demo_hook = \<lparr>hd_key = ''documents.view'', hd_kind = ''security'', hd_target = ''documents'', hd_input_contract_key = [],
     hd_output_contract_key = [], hd_description = [], hd_rule_schema_key = [], hd_allowed_scopes = [], hd_default_rule = [],
     hd_engine = ''Rego'', hd_rego_package = [], hd_rego_query = [], hd_default_rego_source = ''allow''\<rparr>"

definition demo_policy :: "bool policy_service" where
  "demo_policy = snd (register_hook (\<lambda>_. []) demo_hook (new_policy_service (Some (new_config_service [] []))))"

definition demo_request :: policy_request where
  "demo_request = empty_request ''documents.view'' ''O1'' ''L1''"

lemma demo_policy_reachable: "policy_reachable toy_rego (\<lambda>_. ''h'') {''allow''} demo_policy"
  unfolding demo_policy_def by (intro policy_reachable.intros) (simp add: plain_key_def demo_hook_def)

lemma demo_hash: "hash_ok (\<lambda>_. ''h'') {''allow''}"
  by (simp add: hash_ok_def)

lemma demo_defs: "map_of (ps_defs demo_policy) k = (if k = ''documents.view'' then Some (with_hook_defaults demo_hook) else None)"
proof -
  have "ps_defs demo_policy = [(''documents.view'', with_hook_defaults demo_hook)]" by code_simp
  then show ?thesis by simp
qed

lemma demo_sources: "sources_in {''allow''} demo_policy"
proof -
  have "ps_cfg demo_policy \<noteq> None" by code_simp
  then obtain cfg where cfg: "ps_cfg demo_policy = Some cfg" by blast
  have "map_option cs_repo (ps_cfg demo_policy) = Some []" by code_simp
  then have repo: "cs_repo cfg = []" by (simp add: cfg)
  have "map_option (find_definition (module_config_key ''documents.view'')) (ps_cfg demo_policy)
      = Some (Some (module_definition (with_hook_defaults demo_hook)))" by code_simp
  then have def: "find_definition (module_config_key ''documents.view'') cfg = Some (module_definition (with_hook_defaults demo_hook))"
    by (simp add: cfg)
  have src: "trim_space ''allow'' = ''allow''" by code_simp
  have hook: "hd_default_rego_source (with_hook_defaults demo_hook) = ''allow''" by code_simp
  have stored: "module_source ef = ''allow''"
    if "resolve_config now (module_config_key ''documents.view'') org loc cfg = Some ef" for now org loc ef
  proof -
    have "resolve_scope cfg d key sc p = p" for d key sc p
      by (cases sc; cases p) (simp add: resolve_scope_def get_entry_def repo)
    then have "ef_value ef = [(''source'', GStr ''allow'')]"
      using that by (auto simp: resolve_config_def def module_definition_def hook)
    then show ?thesis by (simp add: module_source_def src)
  qed
  have default: "module_source ef = ''allow''"
    if "default_module_value now (with_hook_defaults demo_hook) k = Some ef" for now k ef
    using that by (auto simp: default_module_value_def module_source_def hook src)
  show ?thesis
    unfolding sources_in_def
  proof (intro allI impI)
    fix now k org loc ef assume r: "resolve_module now k org loc demo_policy = Some ef"
    then have k: "k = ''documents.view''" by (auto simp: resolve_module_def demo_defs split: if_splits)
    have "module_source ef = ''allow''"
      using r stored default by (auto simp: resolve_module_def demo_defs k cfg split: if_splits option.splits)
    then show "module_source ef \<in> {''allow''}" by simp
  qed
qed



text \<open>
  The guard of \<open>sanitizeRegoIdent\<close> against a leading digit is undone by the final trim of
  underscores, so the generated package name has a part that is no Rego identifier.
\<close>

lemma leading_digit_is_kept: "rego_package_for_hook ''documents.2fa'' = ''orbyte.policy.documents.2fa''"
  by code_simp

end
