(* ===== verification/Document.thy ===== *)
theory Document
  imports Shared
begin

text \<open>
  Package \<open>internal/platform/document\<close>: document records with a dynamic payload, lines,
  links and attachments, over the in-memory repository. The environment \<open>doc_env\<close> holds what
  the standard library decides: the texts of floats and times, JSON encoding, and SHA-256 as raw
  bytes. Clock readings and ULIDs are arguments. Clones of values are the values themselves, as
  nothing in the model is shared.
\<close>

record doc_env =
  de_float :: "64 word \<Rightarrow> string"
  de_time :: "gotime \<Rightarrow> string"
  de_json :: "gobj \<Rightarrow> string result"
  de_sha :: "string \<Rightarrow> string"

section \<open>Data\<close>

record doc_definition =
  dd_type :: string
  dd_display_name :: string
  dd_schema_version :: string
  dd_workflow_key :: string
  dd_numbering_key :: string
  dd_owner_module_key :: string
  dd_allowed_link_types :: "string list"
  dd_allowed_attachment_types :: "string list"

record extension_definition =
  xd_document_type :: string
  xd_module_key :: string
  xd_display_name :: string
  xd_schema_version :: string
  xd_read_permission_key :: string
  xd_write_permission_key :: string

record doc_header =
  dh_id :: string
  dh_type :: string
  dh_status :: string
  dh_version :: int
  dh_etag :: string
  dh_organization_id :: string
  dh_location_id :: string
  dh_number :: string
  dh_created_by :: string
  dh_created_at :: gotime
  dh_updated_by :: string
  dh_updated_at :: gotime
  dh_submitted_by :: string
  dh_submitted_at :: gotime
  dh_total_amount :: money
  dh_metadata :: gobj

record doc_body =
  db_document_id :: string
  db_schema_version :: string
  db_payload :: gobj
  db_content_hash :: string

record doc_line =
  ln_id :: string
  ln_document_id :: string
  ln_line_no :: int
  ln_line_type :: string
  ln_schema_ref :: string
  ln_payload :: gobj
  ln_amount :: money

record doc_link =
  lk_id :: string
  lk_document_id :: string
  lk_linked_document_id :: string
  lk_link_type :: string
  lk_metadata :: gobj
  lk_created_at :: gotime

record doc_attachment =
  at_id :: string
  at_document_id :: string
  at_attachment_type :: string
  at_file_name :: string
  at_content_type :: string
  at_storage_key :: string
  at_size_bytes :: int
  at_created_at :: gotime

record doc_record =
  dr_header :: doc_header
  dr_body :: doc_body
  dr_lines :: "doc_line list"
  dr_links :: "doc_link list"
  dr_attachments :: "doc_attachment list"

datatype view_mode = ViewNormal | ViewExpanded | ViewRaw

record doc_repo =
  rp_definitions :: "(string, doc_definition) gomap"
  rp_extensions :: "(string, (string, extension_definition) gomap) gomap"
  rp_records :: "(string, doc_record) gomap"
  rp_lines :: "(string, doc_line list) gomap"
  rp_links :: "(string, doc_link list) gomap"
  rp_attachments :: "(string, doc_attachment list) gomap"

section \<open>The repository\<close>

definition new_doc_repo :: doc_repo where
  "new_doc_repo = \<lparr>rp_definitions = [], rp_extensions = [], rp_records = [], rp_lines = [], rp_links = [],
     rp_attachments = []\<rparr>"

definition save_doc_definition :: "doc_definition \<Rightarrow> doc_repo \<Rightarrow> goerr option \<times> doc_repo" where
  "save_doc_definition def r =
     (if map_of (rp_definitions r) (dd_type def) \<noteq> None then (Some (Conflict ''document definition already exists''), r)
      else (None, r\<lparr>rp_definitions := mput (dd_type def) def (rp_definitions r)\<rparr>))"

definition get_doc_definition :: "string \<Rightarrow> doc_repo \<Rightarrow> doc_definition option" where
  "get_doc_definition t r = map_of (rp_definitions r) t"

definition list_doc_definitions :: "doc_repo \<Rightarrow> doc_definition list" where
  "list_doc_definitions r = sort_slice dd_type (map snd (rp_definitions r))"

definition save_extension_definition :: "extension_definition \<Rightarrow> doc_repo \<Rightarrow> goerr option \<times> doc_repo" where
  "save_extension_definition def r =
     (let exts = mget [] (rp_extensions r) (xd_document_type def);
          r' = r\<lparr>rp_extensions := mput (xd_document_type def) exts (rp_extensions r)\<rparr>
      in if map_of exts (xd_module_key def) \<noteq> None
         then (Some (Conflict ''document extension definition already exists''), r')
         else (None, r\<lparr>rp_extensions := mput (xd_document_type def) (mput (xd_module_key def) def exts) (rp_extensions r)\<rparr>))"

definition list_extension_definitions :: "string \<Rightarrow> doc_repo \<Rightarrow> extension_definition list" where
  "list_extension_definitions t r = sort_slice xd_module_key (map snd (mget [] (rp_extensions r) t))"

definition list_lines :: "string \<Rightarrow> doc_repo \<Rightarrow> doc_line list" where
  "list_lines did r = mget [] (rp_lines r) did"

definition list_links :: "string \<Rightarrow> doc_repo \<Rightarrow> doc_link list" where
  "list_links did r = mget [] (rp_links r) did"

definition list_attachments :: "string \<Rightarrow> doc_repo \<Rightarrow> doc_attachment list" where
  "list_attachments did r = mget [] (rp_attachments r) did"

definition with_parts :: "string \<Rightarrow> doc_repo \<Rightarrow> doc_record \<Rightarrow> doc_record" where
  "with_parts did r x = x\<lparr>dr_lines := list_lines did r, dr_links := list_links did r,
     dr_attachments := list_attachments did r\<rparr>"

definition save_record :: "doc_record \<Rightarrow> doc_repo \<Rightarrow> doc_repo" where
  "save_record x r =
     r\<lparr>rp_records := mput (dh_id (dr_header x)) (with_parts (dh_id (dr_header x)) r x) (rp_records r)\<rparr>"

definition get_record :: "string \<Rightarrow> doc_repo \<Rightarrow> doc_record option" where
  "get_record did r = map_option (with_parts did r) (map_of (rp_records r) did)"

definition list_records :: "doc_repo \<Rightarrow> doc_record list" where
  "list_records r = sort_slice (\<lambda>x. dh_created_at (dr_header x)) (map snd (rp_records r))"

definition delete_record :: "string \<Rightarrow> doc_repo \<Rightarrow> doc_repo" where
  "delete_record did r = r\<lparr>rp_records := mdel did (rp_records r), rp_lines := mdel did (rp_lines r),
     rp_links := mdel did (rp_links r), rp_attachments := mdel did (rp_attachments r)\<rparr>"

text \<open>\<open>edit_record\<close>: \<open>if record, ok := r.records[id]; ok { edit; r.records[id] = record }\<close>.\<close>

definition edit_record :: "string \<Rightarrow> (doc_record \<Rightarrow> doc_record) \<Rightarrow> doc_repo \<Rightarrow> doc_repo" where
  "edit_record did f r =
     (case map_of (rp_records r) did of None \<Rightarrow> r | Some x \<Rightarrow> r\<lparr>rp_records := mput did (f x) (rp_records r)\<rparr>)"

definition save_lines :: "string \<Rightarrow> doc_line list \<Rightarrow> doc_repo \<Rightarrow> doc_repo" where
  "save_lines did lines r =
     (let items = sort_slice ln_line_no lines
      in edit_record did (\<lambda>x. x\<lparr>dr_lines := items\<rparr>) (r\<lparr>rp_lines := mput did items (rp_lines r)\<rparr>))"

definition save_links :: "string \<Rightarrow> doc_link list \<Rightarrow> doc_repo \<Rightarrow> doc_repo" where
  "save_links did links r =
     (let items = sort_slice lk_created_at links
      in edit_record did (\<lambda>x. x\<lparr>dr_links := items\<rparr>) (r\<lparr>rp_links := mput did items (rp_links r)\<rparr>))"

definition save_attachments :: "string \<Rightarrow> doc_attachment list \<Rightarrow> doc_repo \<Rightarrow> doc_repo" where
  "save_attachments did attachments r =
     (let items = sort_slice at_created_at attachments
      in edit_record did (\<lambda>x. x\<lparr>dr_attachments := items\<rparr>) (r\<lparr>rp_attachments := mput did items (rp_attachments r)\<rparr>))"

section \<open>Payloads\<close>

definition hex_encode :: "string \<Rightarrow> string" where
  "hex_encode s = concat (map (\<lambda>c. [hex_digit (byte_of c div 16), hex_digit (byte_of c mod 16)]) s)"

definition content_hash :: "doc_env \<Rightarrow> gobj \<Rightarrow> string" where
  "content_hash env payload = hex_encode (de_sha env (sprint (de_float env) (de_time env) (GObj payload)))"

definition text_value :: "doc_env \<Rightarrow> gval \<Rightarrow> string" where
  "text_value env v = (case v of GNull \<Rightarrow> [] | GStr s \<Rightarrow> s | _ \<Rightarrow> sprint (de_float env) (de_time env) v)"

definition derived_line_id :: "doc_env \<Rightarrow> gobj \<Rightarrow> nat \<Rightarrow> string" where
  "derived_line_id env line i =
     (let scrubbed = mdel ''line_id'' line;
          payload = (case de_json env scrubbed of Inr s \<Rightarrow> s
                     | Inl _ \<Rightarrow> sprint (de_float env) (de_time env) (GObj scrubbed))
      in ''line_'' @ hex_encode (take 8 (de_sha env (show_int (int i) @ '':'' @ payload))))"

definition ensure_line_id :: "doc_env \<Rightarrow> gobj \<Rightarrow> nat \<Rightarrow> gobj" where
  "ensure_line_id env line i =
     (let line_id = trim_space (text_value env (mget GNull line ''line_id''));
          generic_id = trim_space (text_value env (mget GNull line ''id''))
      in mput ''line_id'' (GStr (if line_id \<noteq> [] then line_id else if generic_id \<noteq> [] then generic_id
           else derived_line_id env line i)) line)"

definition is_line_key :: "string \<Rightarrow> bool" where
  "is_line_key key = (let key = trim_space (to_lower key) in key = ''lines'' \<or> has_suffix key ''_lines'')"

fun ensure_row :: "doc_env \<Rightarrow> nat \<times> gval \<Rightarrow> gval" where
  "ensure_row env (i, GObj row) = GObj (ensure_line_id env row i)"
| "ensure_row env (i, v) = v"

fun normalize_lines :: "doc_env \<Rightarrow> gval \<Rightarrow> gval" where
  "normalize_lines env (GList vs) = GList (map (ensure_row env) (enumerate 0 vs))"
| "normalize_lines env (GMaps ms) = GMaps (map (\<lambda>(i, m). ensure_line_id env m i) (enumerate 0 ms))"
| "normalize_lines env v = v"

definition line_fix :: "doc_env \<Rightarrow> string \<Rightarrow> gval \<Rightarrow> gval" where
  "line_fix env key v = (if is_line_key key then normalize_lines env v else v)"

fun normalize_value :: "doc_env \<Rightarrow> gval \<Rightarrow> gval" where
  "normalize_value env (GObj m) = GObj (map (\<lambda>(k, v). (k, line_fix env k (normalize_value env v))) m)"
| "normalize_value env (GList vs) = GList (map (normalize_value env) vs)"
| "normalize_value env (GMaps ms) =
     GMaps (map (\<lambda>m. map (\<lambda>(k, v). (k, line_fix env k (normalize_value env v))) m) ms)"
| "normalize_value env v = v"

definition normalize_map :: "doc_env \<Rightarrow> gobj \<Rightarrow> gobj" where
  "normalize_map env m = map (\<lambda>(k, v). (k, line_fix env k (normalize_value env v))) m"

definition extension_map :: "gobj \<Rightarrow> gobj" where
  "extension_map payload = (case map_of payload ''extensions'' of Some (GObj m) \<Rightarrow> m | _ \<Rightarrow> [])"

definition normalize_payload :: "doc_env \<Rightarrow> gobj \<Rightarrow> gobj" where
  "normalize_payload env payload =
     (let normalized = normalize_map env payload
      in mput ''extensions'' (GObj (extension_map normalized)) normalized)"

definition set_extension_payload :: "doc_env \<Rightarrow> gobj \<Rightarrow> string \<Rightarrow> gobj \<Rightarrow> gobj" where
  "set_extension_payload env payload module_key ext =
     (let normalized = normalize_payload env payload
      in mput ''extensions'' (GObj (mput module_key (GObj ext) (extension_map normalized))) normalized)"

definition extension_payload :: "gobj \<Rightarrow> string \<Rightarrow> gobj option" where
  "extension_payload payload module_key =
     (case map_of (extension_map payload) module_key of Some (GObj m) \<Rightarrow> Some m | _ \<Rightarrow> None)"

text \<open>\<open>enabled\<close> is \<open>None\<close> for a nil map, which filters nothing.\<close>

definition filter_extensions :: "gobj \<Rightarrow> (string, bool) gomap option \<Rightarrow> gobj" where
  "filter_extensions exts enabled =
     filter (\<lambda>(k, v). case enabled of None \<Rightarrow> True | Some m \<Rightarrow> mget False m k) exts"

definition payload_for_view :: "doc_env \<Rightarrow> gobj \<Rightarrow> view_mode \<Rightarrow> (string, bool) gomap option \<Rightarrow> gobj" where
  "payload_for_view env payload mode enabled =
     (let normalized = normalize_payload env payload
      in case mode of
           ViewRaw \<Rightarrow> normalized
         | ViewExpanded \<Rightarrow> mput ''extensions'' (GObj (filter_extensions (extension_map normalized) enabled)) normalized
         | ViewNormal \<Rightarrow> mdel ''extensions'' normalized)"

section \<open>The service\<close>

definition register_doc :: "doc_definition \<Rightarrow> doc_repo \<Rightarrow> goerr option \<times> doc_repo" where
  "register_doc def r =
     (if dd_type def = [] then (Some (Validation ''document type is required''), r) else save_doc_definition def r)"

definition generic_request :: doc_definition where
  "generic_request = \<lparr>dd_type = ''generic_request'', dd_display_name = ''Generic Request'', dd_schema_version = ''v1'',
     dd_workflow_key = ''generic_request_flow'', dd_numbering_key = ''generic_request_number'', dd_owner_module_key = [],
     dd_allowed_link_types = [''related_to'', ''amends''],
     dd_allowed_attachment_types = [''note'', ''image'', ''document'']\<rparr>"

definition new_doc_service :: doc_repo where
  "new_doc_service = snd (register_doc generic_request new_doc_repo)"

definition register_extension :: "extension_definition \<Rightarrow> doc_repo \<Rightarrow> goerr option \<times> doc_repo" where
  "register_extension def r =
     (if xd_document_type def = [] then (Some (Validation ''document type is required''), r)
      else if xd_module_key def = [] then (Some (Validation ''module key is required''), r)
      else if get_doc_definition (xd_document_type def) r = None
      then (Some (NotFound ''document definition not found''), r)
      else save_extension_definition def r)"

definition document_types :: "doc_repo \<Rightarrow> string list" where
  "document_types r = map dd_type (list_doc_definitions r)"

definition get_document :: "string \<Rightarrow> doc_repo \<Rightarrow> doc_record result" where
  "get_document did r = (case get_record did r of None \<Rightarrow> Inl (NotFound ''document not found'') | Some x \<Rightarrow> Inr x)"

definition doc_definition_of :: "string \<Rightarrow> doc_repo \<Rightarrow> doc_definition result" where
  "doc_definition_of t r =
     (case get_doc_definition t r of None \<Rightarrow> Inl (NotFound ''document definition not found'') | Some d \<Rightarrow> Inr d)"

definition delete_document :: "string \<Rightarrow> doc_repo \<Rightarrow> goerr option \<times> doc_repo" where
  "delete_document did r =
     (if trim_space did = [] then (Some (Validation ''document id is required''), r) else (None, delete_record did r))"

definition create_document ::
    "doc_env \<Rightarrow> string \<Rightarrow> gotime \<Rightarrow> string \<Rightarrow> string \<Rightarrow> string \<Rightarrow> string \<Rightarrow> gobj \<Rightarrow> doc_repo
       \<Rightarrow> doc_record result \<times> doc_repo" where
  "create_document env ulid now t organization_id location_id actor_id payload r =
     (case get_doc_definition t r of
        None \<Rightarrow> (Inl (NotFound ''document definition not found''), r)
      | Some def \<Rightarrow>
          let did = new_id ''doc_'' ulid;
              p = normalize_payload env payload;
              x = \<lparr>dr_header = \<lparr>dh_id = did, dh_type = t, dh_status = ''draft'', dh_version = 1,
                     dh_etag = did @ '':'' @ show_int 1, dh_organization_id = organization_id, dh_location_id = location_id,
                     dh_number = [], dh_created_by = actor_id, dh_created_at = now, dh_updated_by = actor_id,
                     dh_updated_at = now, dh_submitted_by = [], dh_submitted_at = zero_time,
                     dh_total_amount = \<lparr>amount_minor = 0, currency = ''IDR''\<rparr>, dh_metadata = []\<rparr>,
                   dr_body = \<lparr>db_document_id = did, db_schema_version = dd_schema_version def, db_payload = p,
                     db_content_hash = content_hash env p\<rparr>,
                   dr_lines = [], dr_links = [], dr_attachments = []\<rparr>
          in (Inr x, save_record x r))"

definition replace_extension ::
    "doc_env \<Rightarrow> string \<Rightarrow> string \<Rightarrow> gobj \<Rightarrow> doc_repo \<Rightarrow> doc_record result \<times> doc_repo" where
  "replace_extension env did module_key ext r =
     (case get_document did r of
        Inl e \<Rightarrow> (Inl e, r)
      | Inr x \<Rightarrow>
          if module_key \<notin> set (map xd_module_key (list_extension_definitions (dh_type (dr_header x)) r))
          then (Inl (Validation ''document extension is not registered''), r)
          else let p = set_extension_payload env (db_payload (dr_body x)) module_key ext;
                   x' = x\<lparr>dr_body := (dr_body x)\<lparr>db_payload := p, db_content_hash := content_hash env p\<rparr>\<rparr>
               in (Inr x', save_record x' r))"

definition render :: "doc_env \<Rightarrow> doc_record \<Rightarrow> view_mode \<Rightarrow> (string, bool) gomap option \<Rightarrow> doc_record" where
  "render env x mode enabled =
     x\<lparr>dr_body := (dr_body x)\<lparr>db_payload := payload_for_view env (db_payload (dr_body x)) mode enabled\<rparr>\<rparr>"

definition prepare_line :: "string \<Rightarrow> nat \<times> doc_line \<Rightarrow> doc_line" where
  "prepare_line did = (\<lambda>(i, l). l\<lparr>
     ln_id := (if ln_id l = [] then ''line:'' @ did @ '':'' @ show_int (int i + 1) else ln_id l),
     ln_document_id := did,
     ln_line_no := (if ln_line_no l = 0 then int i + 1 else ln_line_no l)\<rparr>)"

definition replace_lines :: "string \<Rightarrow> doc_line list \<Rightarrow> doc_repo \<Rightarrow> goerr option \<times> doc_repo" where
  "replace_lines did lines r =
     (case get_document did r of
        Inl e \<Rightarrow> (Some e, r)
      | Inr x \<Rightarrow>
          let lines = map (prepare_line did) (enumerate 0 lines)
          in (case List.map_filter (\<lambda>l. validate_money (ln_amount l)) lines of
                e # _ \<Rightarrow> (Some e, r)
              | [] \<Rightarrow> (None, save_record (x\<lparr>dr_lines := lines\<rparr>) (save_lines did lines r))))"

definition add_link ::
    "string \<Rightarrow> gotime \<Rightarrow> string \<Rightarrow> string \<Rightarrow> string \<Rightarrow> gobj \<Rightarrow> doc_repo \<Rightarrow> doc_link result \<times> doc_repo" where
  "add_link ulid now did linked link_type metadata r =
     (case get_document did r of
        Inl e \<Rightarrow> (Inl e, r)
      | Inr x \<Rightarrow>
          (case doc_definition_of (dh_type (dr_header x)) r of
             Inl e \<Rightarrow> (Inl e, r)
           | Inr def \<Rightarrow>
               if link_type \<notin> set (dd_allowed_link_types def)
               then (Inl (Validation ''link type is not allowed for document definition''), r)
               else let link = \<lparr>lk_id = child_id ''link'' [did] ulid, lk_document_id = did, lk_linked_document_id = linked,
                          lk_link_type = link_type, lk_metadata = metadata, lk_created_at = now\<rparr>
                    in (Inr link, save_record (x\<lparr>dr_links := dr_links x @ [link]\<rparr>)
                          (save_links did (list_links did r @ [link]) r))))"

definition add_attachment ::
    "string \<Rightarrow> gotime \<Rightarrow> string \<Rightarrow> string \<Rightarrow> string \<Rightarrow> string \<Rightarrow> string \<Rightarrow> int \<Rightarrow> doc_repo
       \<Rightarrow> doc_attachment result \<times> doc_repo" where
  "add_attachment ulid now did attachment_type file_name content_type storage_key size_bytes r =
     (case get_document did r of
        Inl e \<Rightarrow> (Inl e, r)
      | Inr x \<Rightarrow>
          (case doc_definition_of (dh_type (dr_header x)) r of
             Inl e \<Rightarrow> (Inl e, r)
           | Inr def \<Rightarrow>
               if attachment_type \<notin> set (dd_allowed_attachment_types def)
               then (Inl (Validation ''attachment type is not allowed for document definition''), r)
               else let a = \<lparr>at_id = child_id ''attachment'' [did] ulid, at_document_id = did,
                          at_attachment_type = attachment_type, at_file_name = file_name, at_content_type = content_type,
                          at_storage_key = storage_key, at_size_bytes = size_bytes, at_created_at = now\<rparr>
                    in (Inr a, save_record (x\<lparr>dr_attachments := dr_attachments x @ [a]\<rparr>)
                          (save_attachments did (list_attachments did r @ [a]) r))))"

definition remove_link :: "string \<Rightarrow> string \<Rightarrow> doc_repo \<Rightarrow> goerr option \<times> doc_repo" where
  "remove_link did link_id r =
     (case get_document did r of
        Inl e \<Rightarrow> (Some e, r)
      | Inr x \<Rightarrow>
          let links = list_links did r; kept = filter (\<lambda>l. lk_id l \<noteq> link_id) links
          in if link_id \<notin> set (map lk_id links) then (Some (NotFound ''document link not found''), r)
             else (None, save_record (x\<lparr>dr_links := kept\<rparr>) (save_links did kept r)))"

definition remove_attachment :: "string \<Rightarrow> string \<Rightarrow> doc_repo \<Rightarrow> goerr option \<times> doc_repo" where
  "remove_attachment did attachment_id r =
     (case get_document did r of
        Inl e \<Rightarrow> (Some e, r)
      | Inr x \<Rightarrow>
          let attachments = list_attachments did r; kept = filter (\<lambda>a. at_id a \<noteq> attachment_id) attachments
          in if attachment_id \<notin> set (map at_id attachments) then (Some (NotFound ''document attachment not found''), r)
             else (None, save_record (x\<lparr>dr_attachments := kept\<rparr>) (save_attachments did kept r)))"

definition sorted_extension_module_keys :: "extension_definition list \<Rightarrow> string list" where
  "sorted_extension_module_keys defs = sort_slice (\<lambda>k. k) (map xd_module_key defs)"

end
