(* ===== verification/DocumentFacts.thy ===== *)
theory DocumentFacts
  imports Document
begin

text \<open>
  What documents guarantee: normalisation gives every row of a line collection an identity and
  is idempotent, views disclose only what they should, an extension is read back as it was set,
  and the parts embedded in a record are the stored ones.
\<close>

section \<open>Normalisation\<close>

lemma mput_same: "map_of m k = Some v \<Longrightarrow> mput k v m = m"
  by (induction m) (auto split: if_splits)

lemma mput_overwrite: "mput k v (mput k w m) = mput k v m"
  by (induction m) auto

lemma mget_SomeI: "map_of m k = Some v \<Longrightarrow> mget z m k = v"
  by (simp add: mget_def)

lemma hex_digit_visible: "n < 16 \<Longrightarrow> visible (hex_digit n)"
proof -
  assume "n < 16"
  then have "n \<in> {..<16}" by simp
  also have "{..<16} = set (map id [0..<16])" by (simp add: lessThan_atLeast0)
  finally have "n \<in> set [0..<16]" by simp
  moreover have "\<forall>n \<in> set [0..<16]. visible (hex_digit n)" by code_simp
  ultimately show ?thesis by blast
qed

lemma hex_visible: "c \<in> set (hex_encode s) \<Longrightarrow> visible c"
  by (auto simp: hex_encode_def intro!: hex_digit_visible intro: less_mult_imp_div_less)

lemma derived_line_id_good: "trim_space (derived_line_id env line i) = derived_line_id env line i"
  "derived_line_id env line i \<noteq> []"
proof -
  obtain h where h: "derived_line_id env line i = ''line_'' @ hex_encode h"
    by (simp add: derived_line_id_def Let_def)
  have "visible c" if "c \<in> set (''line_'' @ hex_encode h)" for c
    using that hex_visible by (auto simp: visible_def)
  then have "visible (hd (''line_'' @ hex_encode h))" "visible (last (''line_'' @ hex_encode h))"
    by (metis append_is_Nil_conv hd_in_set list.distinct(1), metis append_is_Nil_conv last_in_set list.distinct(1))
  then show "trim_space (derived_line_id env line i) = derived_line_id env line i"
    unfolding h by (intro trim_space_visible) simp_all
  show "derived_line_id env line i \<noteq> []" by (simp add: h)
qed

text \<open>A row with an identity: \<open>line_id\<close> is a trimmed, nonblank string.\<close>

definition identified :: "gobj \<Rightarrow> bool" where
  "identified row \<longleftrightarrow> (case map_of row ''line_id'' of Some (GStr s) \<Rightarrow> s \<noteq> [] \<and> trim_space s = s | _ \<Rightarrow> False)"

lemma ensure_identified: "identified (ensure_line_id env row i)"
  by (simp add: identified_def ensure_line_id_def Let_def derived_line_id_good)

lemma ensure_same: "identified row \<Longrightarrow> ensure_line_id env row i = row"
proof -
  assume "identified row"
  then obtain s where s: "map_of row ''line_id'' = Some (GStr s)" "s \<noteq> []" "trim_space s = s"
    by (auto simp: identified_def split: option.splits gval.splits)
  then have "trim_space (text_value env (mget GNull row ''line_id'')) = s"
    by (simp add: mget_def text_value_def)
  with s mput_same [OF s(1)] show ?thesis by (simp add: ensure_line_id_def)
qed

lemma ensure_row_idem: "ensure_row env (j, ensure_row env (i, v)) = ensure_row env (i, v)"
  by (cases v) (simp_all add: ensure_same ensure_identified)

lemma map_enumerate_idem:
  "(\<And>i j x. f (j, f (i, x)) = f (i, x)) \<Longrightarrow> map f (enumerate n (map f (enumerate n xs))) = map f (enumerate n xs)"
  by (induction xs arbitrary: n) auto

lemma normalize_lines_idem: "normalize_lines env (normalize_lines env v) = normalize_lines env v"
proof (cases v)
  case (GList vs)
  then show ?thesis by (simp add: map_enumerate_idem [of "ensure_row env"] ensure_row_idem)
next
  case (GMaps ms)
  have "map (\<lambda>(i, m). ensure_line_id env m i) (enumerate 0 (map (\<lambda>(i, m). ensure_line_id env m i) (enumerate 0 ms)))
      = map (\<lambda>(i, m). ensure_line_id env m i) (enumerate 0 ms)"
    by (rule map_enumerate_idem) (simp add: ensure_same ensure_identified)
  with GMaps show ?thesis by simp
qed simp_all

text \<open>Values that normalisation leaves alone; adding an identity to a row keeps them so.\<close>

definition fixed :: "doc_env \<Rightarrow> gval \<Rightarrow> bool" where
  "fixed env v \<longleftrightarrow> normalize_value env v = v"

definition fixed_map :: "doc_env \<Rightarrow> gobj \<Rightarrow> bool" where
  "fixed_map env m \<longleftrightarrow> (\<forall>(k, v) \<in> set m. line_fix env k (normalize_value env v) = v)"

lemma fixed_map_iff: "map (\<lambda>(k, v). (k, line_fix env k (normalize_value env v))) m = m \<longleftrightarrow> fixed_map env m"
  by (induction m) (auto simp: fixed_map_def)

lemma fixed_simps:
  "fixed env (GObj m) \<longleftrightarrow> fixed_map env m" "fixed env (GList vs) \<longleftrightarrow> (\<forall>v \<in> set vs. fixed env v)"
  "fixed env (GMaps ms) \<longleftrightarrow> (\<forall>m \<in> set ms. fixed_map env m)" "fixed env (GStr s)"
proof -
  show "fixed env (GObj m) \<longleftrightarrow> fixed_map env m" by (simp add: fixed_def fixed_map_iff)
  show "fixed env (GList vs) \<longleftrightarrow> (\<forall>v \<in> set vs. fixed env v)"
    unfolding fixed_def by (induction vs) auto
  show "fixed env (GMaps ms) \<longleftrightarrow> (\<forall>m \<in> set ms. fixed_map env m)"
    unfolding fixed_def by (induction ms) (auto simp: fixed_map_iff)
  show "fixed env (GStr s)" by (simp add: fixed_def)
qed

lemma fixed_map_mput:
  "fixed_map env m \<Longrightarrow> line_fix env k (normalize_value env v) = v \<Longrightarrow> fixed_map env (mput k v m)"
  by (induction m) (auto simp: fixed_map_def split: if_splits)

lemma not_line_keys: "\<not> is_line_key ''line_id''" "\<not> is_line_key ''extensions''"
  by code_simp+

lemma fixed_ensure: "fixed_map env row \<Longrightarrow> fixed_map env (ensure_line_id env row i)"
  by (simp add: ensure_line_id_def Let_def fixed_map_mput line_fix_def not_line_keys)

lemma fixed_normalize_lines: "fixed env v \<Longrightarrow> fixed env (normalize_lines env v)"
proof (cases v)
  case (GList vs)
  assume "fixed env v"
  moreover have "fixed env (ensure_row env (i, x))" if "fixed env x" for i x
    using that by (cases x) (simp_all add: fixed_simps fixed_ensure)
  ultimately show ?thesis
    by (auto simp: GList fixed_simps in_set_enumerate_eq)
next
  case (GMaps ms)
  assume "fixed env v"
  then show ?thesis
    by (auto simp: GMaps fixed_simps in_set_enumerate_eq intro: fixed_ensure)
qed simp_all

lemma fixed_line_fix: "fixed env v \<Longrightarrow> line_fix env k (normalize_value env (line_fix env k v)) = line_fix env k v"
  using fixed_normalize_lines [of env v]
  by (simp add: line_fix_def fixed_def normalize_lines_idem)

lemma fixed_normalize_value: "fixed env (normalize_value env v)"
proof (induction env v rule: normalize_value.induct)
  case (1 env m)
  have "line_fix env k (normalize_value env (line_fix env k (normalize_value env v))) = line_fix env k (normalize_value env v)"
    if "(k, v) \<in> set m" for k v
    using 1 [OF that refl] by (rule fixed_line_fix)
  then show ?case by (auto simp: fixed_simps fixed_map_def)
next
  case (2 env vs)
  then show ?case by (auto simp: fixed_simps)
next
  case (3 env ms)
  have "line_fix env k (normalize_value env (line_fix env k (normalize_value env v))) = line_fix env k (normalize_value env v)"
    if "m \<in> set ms" "(k, v) \<in> set m" for m k v
    using 3 [OF that refl] by (rule fixed_line_fix)
  then show ?case by (fastforce simp: fixed_simps fixed_map_def)
qed (simp_all add: fixed_def)

lemma fixed_normalize_map: "fixed_map env (normalize_map env m)"
  using fixed_normalize_value [of env "GObj m"] by (simp add: fixed_simps normalize_map_def)

lemma normalize_fixed_map: "fixed_map env m \<Longrightarrow> normalize_map env m = m"
  by (simp add: normalize_map_def fixed_map_iff)

lemma fixed_extension_map: "fixed_map env m \<Longrightarrow> fixed_map env (extension_map m)"
proof -
  assume m: "fixed_map env m"
  have "fixed_map env xs" if "map_of m ''extensions'' = Some (GObj xs)" for xs
  proof -
    have "(''extensions'', GObj xs) \<in> set m" using that by (rule map_of_SomeD)
    with m have "fixed env (GObj xs)"
      by (auto simp: fixed_map_def fixed_def line_fix_def not_line_keys)
    then show ?thesis by (simp add: fixed_simps)
  qed
  moreover have "fixed_map env []" by (simp add: fixed_map_def)
  ultimately show ?thesis by (auto simp: extension_map_def split: option.split gval.split)
qed

lemma fixed_normalize_payload: "fixed_map env (normalize_payload env p)"
proof -
  let ?m = "extension_map (normalize_map env p)"
  have "fixed env (GObj ?m)"
    using fixed_extension_map [OF fixed_normalize_map] by (simp add: fixed_simps)
  then have "line_fix env ''extensions'' (normalize_value env (GObj ?m)) = GObj ?m"
    unfolding fixed_def by (simp only: line_fix_def not_line_keys if_False)
  with fixed_normalize_map show ?thesis
    unfolding normalize_payload_def Let_def by (rule fixed_map_mput)
qed

text \<open>Every row of every line collection in a value has an identity.\<close>

fun rows_of :: "gval \<Rightarrow> gobj list" where
  "rows_of (GList vs) = List.map_filter as_obj vs"
| "rows_of (GMaps ms) = ms"
| "rows_of _ = []"

fun all_identified :: "gval \<Rightarrow> bool" where
  "all_identified (GObj m) \<longleftrightarrow>
     (\<forall>(k, v) \<in> set m. all_identified v \<and> (is_line_key k \<longrightarrow> (\<forall>row \<in> set (rows_of v). identified row)))"
| "all_identified (GList vs) \<longleftrightarrow> (\<forall>v \<in> set vs. all_identified v)"
| "all_identified (GMaps ms) \<longleftrightarrow> (\<forall>m \<in> set ms. \<forall>(k, v) \<in> set m.
     all_identified v \<and> (is_line_key k \<longrightarrow> (\<forall>row \<in> set (rows_of v). identified row)))"
| "all_identified _ = True"

lemma fixed_rows: "normalize_lines env w = v \<Longrightarrow> row \<in> set (rows_of v) \<Longrightarrow> identified row"
proof (cases w)
  case (GList vs)
  assume w: "normalize_lines env w = v" and row: "row \<in> set (rows_of v)"
  have mf: "x \<in> set (List.map_filter f xs) \<Longrightarrow> \<exists>y \<in> set xs. f y = Some x" for f :: "gval \<Rightarrow> gobj option" and x xs
    by (induction xs) (auto simp: List.map_filter_simps split: option.splits)
  have "row \<in> set (List.map_filter as_obj (map (ensure_row env) (enumerate 0 vs)))"
    using row w GList by auto
  from mf [OF this] obtain x where "x \<in> set (map (ensure_row env) (enumerate 0 vs))" "as_obj x = Some row" by blast
  then obtain i y where "x = ensure_row env (i, y)" by auto
  with \<open>as_obj x = Some row\<close> show ?thesis by (cases y) (auto simp: ensure_identified)
next
  case (GMaps ms)
  assume "normalize_lines env w = v" "row \<in> set (rows_of v)"
  with GMaps show ?thesis by (auto simp: ensure_identified)
qed auto

lemma fixed_all_identified: "fixed env v \<Longrightarrow> all_identified v"
proof (induction v rule: all_identified.induct)
  case (1 m)
  have "all_identified v \<and> (is_line_key k \<longrightarrow> (\<forall>row \<in> set (rows_of v). identified row))" if kv: "(k, v) \<in> set m" for k v
  proof -
    have eq: "line_fix env k (normalize_value env v) = v" using 1(2) kv by (auto simp: fixed_simps fixed_map_def)
    then have "fixed env v"
      using fixed_normalize_value [of env v] fixed_normalize_lines [of env "normalize_value env v"]
      by (auto simp: line_fix_def split: if_splits)
    moreover have "identified row" if "is_line_key k" "row \<in> set (rows_of v)" for row
      using fixed_rows [of env "normalize_value env v" v row] eq that by (simp add: line_fix_def)
    ultimately show ?thesis using 1(1) [OF kv refl] by blast
  qed
  then show ?case by auto
next
  case (2 vs)
  then show ?case by (auto simp: fixed_simps)
next
  case (3 ms)
  have "all_identified v \<and> (is_line_key k \<longrightarrow> (\<forall>row \<in> set (rows_of v). identified row))"
    if kv: "m \<in> set ms" "(k, v) \<in> set m" for m k v
  proof -
    have eq: "line_fix env k (normalize_value env v) = v"
      using 3(2) kv by (fastforce simp: fixed_simps fixed_map_def)
    then have "fixed env v"
      using fixed_normalize_value [of env v] fixed_normalize_lines [of env "normalize_value env v"]
      by (auto simp: line_fix_def split: if_splits)
    moreover have "identified row" if "is_line_key k" "row \<in> set (rows_of v)" for row
      using fixed_rows [of env "normalize_value env v" v row] eq that by (simp add: line_fix_def)
    ultimately show ?thesis using 3(1) [OF kv refl] by blast
  qed
  then show ?case by auto
qed auto

text \<open>
  Normalising a payload gives every row of every line collection, at any depth and in the
  extensions too, a trimmed nonblank \<open>line_id\<close>, and normalising again changes nothing.
\<close>

theorem normalization_identifies_rows:
  "all_identified (GObj (normalize_payload env p))
     \<and> normalize_payload env (normalize_payload env p) = normalize_payload env p"
proof -
  let ?n = "normalize_payload env p"
  have fixed: "fixed_map env ?n" by (rule fixed_normalize_payload)
  then have "all_identified (GObj ?n)" using fixed_all_identified [of env "GObj ?n"] by (simp add: fixed_simps)
  moreover have "map_of ?n ''extensions'' = Some (GObj (extension_map ?n))"
    by (simp add: normalize_payload_def extension_map_def Let_def)
  then have "normalize_payload env ?n = ?n"
    by (simp add: normalize_payload_def [of env ?n] normalize_fixed_map [OF fixed] mput_same)
  ultimately show ?thesis by blast
qed

section \<open>Views and extensions\<close>

lemma normalized_extensions: "map_of (normalize_payload env p) ''extensions'' = Some (GObj (extension_map (normalize_payload env p)))"
  by (simp add: normalize_payload_def extension_map_def Let_def)

text \<open>
  A view discloses exactly the extensions it should. The normal view has none, the expanded
  view has those of the enabled modules (all if no modules are given), the raw view has all; the
  other fields of the normalised payload are the same in every view.
\<close>

theorem views_disclose_enabled_extensions:
  "map_of (payload_for_view env p ViewNormal enabled) ''extensions'' = None
   \<and> extension_map (payload_for_view env p ViewExpanded enabled)
       = filter (\<lambda>(m, _). case enabled of None \<Rightarrow> True | Some ms \<Rightarrow> mget False ms m) (extension_map (normalize_payload env p))
   \<and> payload_for_view env p ViewRaw enabled = normalize_payload env p
   \<and> (\<forall>mode k. k = ''extensions'' \<or> map_of (payload_for_view env p mode enabled) k = map_of (normalize_payload env p) k)"
proof -
  have "k = ''extensions'' \<or> map_of (payload_for_view env p mode enabled) k = map_of (normalize_payload env p) k" for mode k
    by (cases mode) (simp_all add: payload_for_view_def Let_def)
  moreover have "extension_map (payload_for_view env p ViewExpanded enabled)
       = filter (\<lambda>(m, _). case enabled of None \<Rightarrow> True | Some ms \<Rightarrow> mget False ms m) (extension_map (normalize_payload env p))"
    unfolding payload_for_view_def Let_def view_mode.case filter_extensions_def
    by (simp add: extension_map_def [of "mput _ _ _"])
  ultimately show ?thesis by (simp add: payload_for_view_def Let_def)
qed

section \<open>The repository\<close>

lemma with_parts_simps [simp]:
  "dr_header (with_parts did r x) = dr_header x" "dr_body (with_parts did r x) = dr_body x"
  "with_parts did r (with_parts did r' x) = with_parts did r x"
  "with_parts did r (x\<lparr>dr_lines := a\<rparr>) = with_parts did r x"
  "with_parts did r (x\<lparr>dr_links := b\<rparr>) = with_parts did r x"
  "with_parts did r (x\<lparr>dr_attachments := c\<rparr>) = with_parts did r x"
  by (simp_all add: with_parts_def)

text \<open>
  The invariant: a record sits under its identifier and embeds the stored parts; the parts of a
  document name it and are in order.
\<close>

definition parts_ok :: "doc_repo \<Rightarrow> string \<Rightarrow> bool" where
  "parts_ok r did \<longleftrightarrow> (\<forall>l \<in> set (list_lines did r). ln_document_id l = did) \<and> sorted (map ln_line_no (list_lines did r))
     \<and> (\<forall>l \<in> set (list_links did r). lk_document_id l = did) \<and> sorted (map lk_created_at (list_links did r))
     \<and> (\<forall>a \<in> set (list_attachments did r). at_document_id a = did) \<and> sorted (map at_created_at (list_attachments did r))"

definition record_ok :: "doc_repo \<Rightarrow> string \<Rightarrow> bool" where
  "record_ok r did \<longleftrightarrow> (case map_of (rp_records r) did of None \<Rightarrow> True
     | Some x \<Rightarrow> dh_id (dr_header x) = did \<and> with_parts did r x = x)"

definition doc_inv :: "doc_repo \<Rightarrow> bool" where
  "doc_inv r \<longleftrightarrow> wf_map (rp_records r) \<and> (\<forall>did. record_ok r did \<and> parts_ok r did)"

lemma doc_invD: "doc_inv r \<Longrightarrow> record_ok r did \<and> parts_ok r did"
  by (simp add: doc_inv_def)

lemma doc_invI: "wf_map (rp_records r) \<Longrightarrow> (\<And>did. record_ok r did) \<Longrightarrow> (\<And>did. parts_ok r did) \<Longrightarrow> doc_inv r"
  by (simp add: doc_inv_def)

lemma inv_save_record: "doc_inv r \<Longrightarrow> doc_inv (save_record x r)"
proof (rule doc_invI)
  assume inv: "doc_inv r"
  then show "wf_map (rp_records (save_record x r))" by (simp add: doc_inv_def save_record_def)
  have lists: "list_lines d (save_record x r) = list_lines d r" "list_links d (save_record x r) = list_links d r"
    "list_attachments d (save_record x r) = list_attachments d r" for d
    by (simp_all add: list_lines_def list_links_def list_attachments_def save_record_def)
  then have parts: "with_parts d (save_record x r) y = with_parts d r y" for d y by (simp add: with_parts_def)
  show "parts_ok (save_record x r) did" for did using doc_invD [OF inv, of did] by (simp add: parts_ok_def lists)
  have recs: "map_of (rp_records (save_record x r)) d = (if d = dh_id (dr_header x)
      then Some (with_parts d r x) else map_of (rp_records r) d)" for d
    by (simp add: save_record_def)
  show "record_ok (save_record x r) did" for did
    using doc_invD [OF inv, of did] by (simp add: record_ok_def parts recs cong: option.case_cong)
qed

lemma with_parts_fixed:
  "with_parts did r x = x \<longleftrightarrow> dr_lines x = list_lines did r \<and> dr_links x = list_links did r
     \<and> dr_attachments x = list_attachments did r"
  by (cases x) (auto simp: with_parts_def)

lemma with_parts_one:
  "dr_links x = list_links did r \<Longrightarrow> dr_attachments x = list_attachments did r \<Longrightarrow>
     x\<lparr>dr_lines := list_lines did r\<rparr> = with_parts did r x"
  "dr_lines x = list_lines did r \<Longrightarrow> dr_attachments x = list_attachments did r \<Longrightarrow>
     x\<lparr>dr_links := list_links did r\<rparr> = with_parts did r x"
  "dr_lines x = list_lines did r \<Longrightarrow> dr_links x = list_links did r \<Longrightarrow>
     x\<lparr>dr_attachments := list_attachments did r\<rparr> = with_parts did r x"
  by (cases x; simp add: with_parts_def)+

text \<open>Writing one kind of parts of a document.\<close>

lemma edit_record_lookup [simp]:
  "map_of (rp_records (edit_record did f r)) d = (if d = did then map_option f (map_of (rp_records r) did) else map_of (rp_records r) d)"
  "rp_lines (edit_record did f r) = rp_lines r" "rp_links (edit_record did f r) = rp_links r"
  "rp_attachments (edit_record did f r) = rp_attachments r" "rp_definitions (edit_record did f r) = rp_definitions r"
  "rp_extensions (edit_record did f r) = rp_extensions r"
  by (auto simp: edit_record_def split: option.split)

lemma wf_edit_record [simp]: "wf_map (rp_records r) \<Longrightarrow> wf_map (rp_records (edit_record did f r))"
  by (auto simp: edit_record_def split: option.split)

lemma inv_save_parts:
  assumes inv: "doc_inv r" and wf: "wf_map (rp_records r')"
    and other: "\<And>d. d \<noteq> did \<Longrightarrow> list_lines d r' = list_lines d r \<and> list_links d r' = list_links d r
      \<and> list_attachments d r' = list_attachments d r \<and> map_of (rp_records r') d = map_of (rp_records r) d"
    and here: "parts_ok r' did"
    and embed: "map_of (rp_records r') did = map_option (with_parts did r') (map_of (rp_records r) did)"
  shows "doc_inv r'"
proof (rule doc_invI [OF wf])
  show "parts_ok r' d" for d
    using here other [of d] doc_invD [OF inv, of d] by (cases "d = did") (simp_all add: parts_ok_def)
  show "record_ok r' d" for d
  proof (cases "d = did")
    case True
    then show ?thesis using embed doc_invD [OF inv, of did] by (auto simp: record_ok_def split: option.splits)
  next
    case False
    then have "with_parts d r' x = with_parts d r x" for x using other [OF False] by (simp add: with_parts_def)
    with False other [OF False] doc_invD [OF inv, of d] show ?thesis by (simp add: record_ok_def cong: option.case_cong)
  qed
qed

lemma stored_parts: "doc_inv r \<Longrightarrow> map_of (rp_records r) did = Some x \<Longrightarrow> with_parts did r x = x \<and> dh_id (dr_header x) = did"
  using doc_invD [of r did] by (simp add: record_ok_def)

lemma inv_save_lines:
  assumes "doc_inv r" "\<forall>l \<in> set lines. ln_document_id l = did"
  shows "doc_inv (save_lines did lines r)"
proof (rule inv_save_parts [OF assms(1), of _ did])
  let ?r = "save_lines did lines r"
  have lists: "list_lines d ?r = (if d = did then sort_slice ln_line_no lines else list_lines d r)"
    "list_links d ?r = list_links d r" "list_attachments d ?r = list_attachments d r" for d
    by (simp_all add: save_lines_def list_lines_def list_links_def list_attachments_def Let_def)
  show "wf_map (rp_records ?r)" using assms(1) by (simp add: save_lines_def doc_inv_def Let_def)
  show "list_lines d ?r = list_lines d r \<and> list_links d ?r = list_links d r
      \<and> list_attachments d ?r = list_attachments d r \<and> map_of (rp_records ?r) d = map_of (rp_records r) d" if "d \<noteq> did" for d
    using that lists by (simp add: save_lines_def Let_def)
  show "parts_ok ?r did" using doc_invD [OF assms(1), of did] assms(2) by (simp add: parts_ok_def lists)
  show "map_of (rp_records ?r) did = map_option (with_parts did ?r) (map_of (rp_records r) did)"
  proof (cases "map_of (rp_records r) did")
    case (Some x)
    have "dr_links x = list_links did r" "dr_attachments x = list_attachments did r"
      using stored_parts [OF assms(1) Some] by (simp_all add: with_parts_fixed)
    then have "x\<lparr>dr_lines := list_lines did ?r\<rparr> = with_parts did ?r x"
      by (intro with_parts_one) (simp_all add: lists)
    then have "Some (x\<lparr>dr_lines := sort_slice ln_line_no lines\<rparr>) = Some (with_parts did ?r x)" by (simp add: lists)
    moreover have "map_of (rp_records ?r) did = Some (x\<lparr>dr_lines := sort_slice ln_line_no lines\<rparr>)"
      using Some by (simp add: save_lines_def Let_def)
    ultimately show ?thesis using Some by simp
  qed (simp add: save_lines_def Let_def)
qed

lemma inv_save_links:
  assumes "doc_inv r" "\<forall>l \<in> set links. lk_document_id l = did"
  shows "doc_inv (save_links did links r)"
proof (rule inv_save_parts [OF assms(1), of _ did])
  let ?r = "save_links did links r"
  have lists: "list_links d ?r = (if d = did then sort_slice lk_created_at links else list_links d r)"
    "list_lines d ?r = list_lines d r" "list_attachments d ?r = list_attachments d r" for d
    by (simp_all add: save_links_def list_lines_def list_links_def list_attachments_def Let_def)
  show "wf_map (rp_records ?r)" using assms(1) by (simp add: save_links_def doc_inv_def Let_def)
  show "list_lines d ?r = list_lines d r \<and> list_links d ?r = list_links d r
      \<and> list_attachments d ?r = list_attachments d r \<and> map_of (rp_records ?r) d = map_of (rp_records r) d" if "d \<noteq> did" for d
    using that lists by (simp add: save_links_def Let_def)
  show "parts_ok ?r did" using doc_invD [OF assms(1), of did] assms(2) by (simp add: parts_ok_def lists)
  show "map_of (rp_records ?r) did = map_option (with_parts did ?r) (map_of (rp_records r) did)"
  proof (cases "map_of (rp_records r) did")
    case (Some x)
    have "dr_lines x = list_lines did r" "dr_attachments x = list_attachments did r"
      using stored_parts [OF assms(1) Some] by (simp_all add: with_parts_fixed)
    then have "x\<lparr>dr_links := list_links did ?r\<rparr> = with_parts did ?r x"
      by (intro with_parts_one) (simp_all add: lists)
    then have "Some (x\<lparr>dr_links := sort_slice lk_created_at links\<rparr>) = Some (with_parts did ?r x)" by (simp add: lists)
    moreover have "map_of (rp_records ?r) did = Some (x\<lparr>dr_links := sort_slice lk_created_at links\<rparr>)"
      using Some by (simp add: save_links_def Let_def)
    ultimately show ?thesis using Some by simp
  qed (simp add: save_links_def Let_def)
qed

lemma inv_save_attachments:
  assumes "doc_inv r" "\<forall>a \<in> set attachments. at_document_id a = did"
  shows "doc_inv (save_attachments did attachments r)"
proof (rule inv_save_parts [OF assms(1), of _ did])
  let ?r = "save_attachments did attachments r"
  have lists: "list_attachments d ?r = (if d = did then sort_slice at_created_at attachments else list_attachments d r)"
    "list_lines d ?r = list_lines d r" "list_links d ?r = list_links d r" for d
    by (simp_all add: save_attachments_def list_lines_def list_links_def list_attachments_def Let_def)
  show "wf_map (rp_records ?r)" using assms(1) by (simp add: save_attachments_def doc_inv_def Let_def)
  show "list_lines d ?r = list_lines d r \<and> list_links d ?r = list_links d r
      \<and> list_attachments d ?r = list_attachments d r \<and> map_of (rp_records ?r) d = map_of (rp_records r) d" if "d \<noteq> did" for d
    using that lists by (simp add: save_attachments_def Let_def)
  show "parts_ok ?r did" using doc_invD [OF assms(1), of did] assms(2) by (simp add: parts_ok_def lists)
  show "map_of (rp_records ?r) did = map_option (with_parts did ?r) (map_of (rp_records r) did)"
  proof (cases "map_of (rp_records r) did")
    case (Some x)
    have "dr_lines x = list_lines did r" "dr_links x = list_links did r"
      using stored_parts [OF assms(1) Some] by (simp_all add: with_parts_fixed)
    then have "x\<lparr>dr_attachments := list_attachments did ?r\<rparr> = with_parts did ?r x"
      by (intro with_parts_one) (simp_all add: lists)
    then have "Some (x\<lparr>dr_attachments := sort_slice at_created_at attachments\<rparr>) = Some (with_parts did ?r x)"
      by (simp add: lists)
    moreover have "map_of (rp_records ?r) did = Some (x\<lparr>dr_attachments := sort_slice at_created_at attachments\<rparr>)"
      using Some by (simp add: save_attachments_def Let_def)
    ultimately show ?thesis using Some by simp
  qed (simp add: save_attachments_def Let_def)
qed

lemma inv_delete: "doc_inv r \<Longrightarrow> doc_inv (delete_record did r)"
proof (rule doc_invI)
  assume inv: "doc_inv r"
  then show "wf_map (rp_records (delete_record did r))" by (simp add: doc_inv_def delete_record_def)
  have lists: "list_lines d (delete_record did r) = (if d = did then [] else list_lines d r)"
    "list_links d (delete_record did r) = (if d = did then [] else list_links d r)"
    "list_attachments d (delete_record did r) = (if d = did then [] else list_attachments d r)" for d
    by (simp_all add: list_lines_def list_links_def list_attachments_def delete_record_def)
  show "parts_ok (delete_record did r) d" for d
    using doc_invD [OF inv, of d] by (simp add: parts_ok_def lists)
  show "record_ok (delete_record did r) d" for d
    using doc_invD [OF inv, of d]
    by (simp add: record_ok_def with_parts_fixed lists delete_record_def cong: option.case_cong)
       (simp add: delete_record_def [symmetric] with_parts_fixed lists cong: option.case_cong)
qed

inductive doc_reachable :: "doc_repo \<Rightarrow> bool" where
  dc_new: "doc_reachable new_doc_repo"
| dc_register: "doc_reachable r \<Longrightarrow> doc_reachable (snd (register_doc def r))"
| dc_extension: "doc_reachable r \<Longrightarrow> doc_reachable (snd (register_extension ext r))"
| dc_save: "doc_reachable r \<Longrightarrow> doc_reachable (save_record x r)"
| dc_delete: "doc_reachable r \<Longrightarrow> doc_reachable (snd (delete_document did r))"
| dc_create: "doc_reachable r \<Longrightarrow> doc_reachable (snd (create_document env ulid now t org loc actor p r))"
| dc_replace_extension: "doc_reachable r \<Longrightarrow> doc_reachable (snd (replace_extension env did m p r))"
| dc_replace_lines: "doc_reachable r \<Longrightarrow> doc_reachable (snd (replace_lines did lines r))"
| dc_add_link: "doc_reachable r \<Longrightarrow> doc_reachable (snd (add_link ulid now did linked t meta r))"
| dc_add_attachment: "doc_reachable r \<Longrightarrow> doc_reachable (snd (add_attachment ulid now did t f c k sz r))"
| dc_remove_link: "doc_reachable r \<Longrightarrow> doc_reachable (snd (remove_link did lid r))"
| dc_remove_attachment: "doc_reachable r \<Longrightarrow> doc_reachable (snd (remove_attachment did aid r))"

lemma inv_same_records:
  "rp_records r' = rp_records r \<Longrightarrow> rp_lines r' = rp_lines r \<Longrightarrow> rp_links r' = rp_links r \<Longrightarrow>
     rp_attachments r' = rp_attachments r \<Longrightarrow> doc_inv r \<Longrightarrow> doc_inv r'"
  by (simp add: doc_inv_def record_ok_def parts_ok_def with_parts_fixed list_lines_def list_links_def
      list_attachments_def cong: option.case_cong)

lemma inv_parts:
  "doc_inv r \<Longrightarrow> \<forall>l \<in> set (list_links did r). lk_document_id l = did"
  "doc_inv r \<Longrightarrow> \<forall>a \<in> set (list_attachments did r). at_document_id a = did"
  using doc_invD [of r did] by (simp_all add: parts_ok_def)

lemma prepared_lines: "l \<in> set (map (prepare_line did) (enumerate 0 lines)) \<Longrightarrow> ln_document_id l = did"
  by (auto simp: prepare_line_def)

lemma doc_inv_reachable: "doc_reachable r \<Longrightarrow> doc_inv r"
proof (induction rule: doc_reachable.induct)
  case dc_new
  show ?case
    by (simp add: doc_inv_def record_ok_def parts_ok_def new_doc_repo_def list_lines_def list_links_def list_attachments_def)
next
  case (dc_register r def)
  show ?case
    by (rule inv_same_records [OF _ _ _ _ dc_register.IH]) (simp_all add: register_doc_def save_doc_definition_def)
next
  case (dc_extension r ext)
  show ?case
    by (rule inv_same_records [OF _ _ _ _ dc_extension.IH])
      (simp_all add: register_extension_def save_extension_definition_def Let_def)
next
  case (dc_replace_lines r did lines)
  have "doc_inv (save_lines did (map (prepare_line did) (enumerate 0 lines)) r)"
    using dc_replace_lines.IH prepared_lines by (intro inv_save_lines) blast+
  with dc_replace_lines.IH show ?case
    by (auto simp: replace_lines_def Let_def inv_save_record split: sum.split list.split)
next
  case (dc_add_link r ulid now did linked t meta)
  have "doc_inv (save_links did (list_links did r @ [l]) r)" if "lk_document_id l = did" for l
    using dc_add_link.IH inv_parts(1) [OF dc_add_link.IH] that by (intro inv_save_links) auto
  with dc_add_link.IH show ?case
    by (auto simp: add_link_def Let_def inv_save_record split: sum.split)
next
  case (dc_add_attachment r ulid now did t f c k sz)
  have "doc_inv (save_attachments did (list_attachments did r @ [a]) r)" if "at_document_id a = did" for a
    using dc_add_attachment.IH inv_parts(2) [OF dc_add_attachment.IH] that by (intro inv_save_attachments) auto
  with dc_add_attachment.IH show ?case
    by (auto simp: add_attachment_def Let_def inv_save_record split: sum.split)
next
  case (dc_remove_link r did lid)
  have "doc_inv (save_links did (filter P (list_links did r)) r)" for P
    using dc_remove_link.IH inv_parts(1) [OF dc_remove_link.IH] by (intro inv_save_links) auto
  with dc_remove_link.IH show ?case
    by (auto simp: remove_link_def Let_def inv_save_record split: sum.split)
next
  case (dc_remove_attachment r did aid)
  have "doc_inv (save_attachments did (filter P (list_attachments did r)) r)" for P
    using dc_remove_attachment.IH inv_parts(2) [OF dc_remove_attachment.IH] by (intro inv_save_attachments) auto
  with dc_remove_attachment.IH show ?case
    by (auto simp: remove_attachment_def Let_def inv_save_record split: sum.split)
next
  case (dc_create r)
  then show ?case by (simp add: create_document_def Let_def inv_save_record split: option.split)
next
  case (dc_replace_extension r)
  then show ?case by (auto simp: replace_extension_def Let_def inv_save_record split: sum.split)
qed (simp_all add: inv_save_record delete_document_def inv_delete)

text \<open>
  C31: listing and reading agree. In every reachable repository the listed records are exactly
  the ones \<open>GetRecord\<close> returns, each under its own identifier and with its current lines in
  line order, links and attachments in order of creation, all naming the document.
\<close>

theorem listed_records_are_current:
  assumes "doc_reachable r"
  shows "set (list_records r) = {x. \<exists>did. get_record did r = Some x}
    \<and> (\<forall>x \<in> set (list_records r). get_record (dh_id (dr_header x)) r = Some x
        \<and> sorted (map ln_line_no (dr_lines x)) \<and> (\<forall>l \<in> set (dr_lines x). ln_document_id l = dh_id (dr_header x))
        \<and> sorted (map lk_created_at (dr_links x)) \<and> (\<forall>l \<in> set (dr_links x). lk_document_id l = dh_id (dr_header x))
        \<and> sorted (map at_created_at (dr_attachments x))
        \<and> (\<forall>a \<in> set (dr_attachments x). at_document_id a = dh_id (dr_header x)))"
proof -
  note inv = doc_inv_reachable [OF assms]
  have get: "get_record did r = map_of (rp_records r) did" for did
    using stored_parts [OF inv, of did] by (cases "map_of (rp_records r) did") (simp_all add: get_record_def)
  have wf: "wf_map (rp_records r)" using inv by (simp add: doc_inv_def)
  have listed: "x \<in> set (list_records r) \<longleftrightarrow> (\<exists>did. get_record did r = Some x)" for x
    unfolding get using map_of_entry [OF wf] by (force simp: list_records_def)
  have "get_record (dh_id (dr_header x)) r = Some x
        \<and> sorted (map ln_line_no (dr_lines x)) \<and> (\<forall>l \<in> set (dr_lines x). ln_document_id l = dh_id (dr_header x))
        \<and> sorted (map lk_created_at (dr_links x)) \<and> (\<forall>l \<in> set (dr_links x). lk_document_id l = dh_id (dr_header x))
        \<and> sorted (map at_created_at (dr_attachments x))
        \<and> (\<forall>a \<in> set (dr_attachments x). at_document_id a = dh_id (dr_header x))"
    if x: "x \<in> set (list_records r)" for x
  proof -
    from x listed obtain did where did: "map_of (rp_records r) did = Some x" by (auto simp: get)
    from stored_parts [OF inv did] have "with_parts did r x = x" "dh_id (dr_header x) = did" by simp_all
    with did doc_invD [OF inv, of did] show ?thesis by (simp add: get with_parts_fixed parts_ok_def)
  qed
  with listed show ?thesis by auto
qed

definition demo_doc_env :: doc_env where
  "demo_doc_env = \<lparr>de_float = (\<lambda>_. ''0''), de_time = (\<lambda>_. ''t''), de_json = (\<lambda>_. Inr ''{}''), de_sha = (\<lambda>s. s)\<rparr>"

definition demo_docs :: doc_repo where
  "demo_docs = snd (replace_lines ''doc_1'' [\<lparr>ln_id = [], ln_document_id = [], ln_line_no = 7, ln_line_type = [],
       ln_schema_ref = [], ln_payload = [], ln_amount = \<lparr>amount_minor = 5, currency = ''IDR''\<rparr>\<rparr>,
     \<lparr>ln_id = [], ln_document_id = [], ln_line_no = 0, ln_line_type = [], ln_schema_ref = [], ln_payload = [],
       ln_amount = \<lparr>amount_minor = 5, currency = ''IDR''\<rparr>\<rparr>]
     (snd (create_document demo_doc_env ''1'' 3 ''generic_request'' ''O1'' ''L1'' ''u1'' [(''title'', GStr ''t'')] (snd (register_extension
       \<lparr>xd_document_type = ''generic_request'', xd_module_key = ''crm'', xd_display_name = [], xd_schema_version = [],
         xd_read_permission_key = [], xd_write_permission_key = []\<rparr> new_doc_service)))))"

lemma demo_docs_reachable: "doc_reachable demo_docs"
  unfolding demo_docs_def new_doc_service_def by (intro doc_reachable.intros)

theorem listed_records_are_current_witness:
  "map (map ln_line_no \<circ> dr_lines) (list_records demo_docs) = [[2, 7]]
     \<and> list_all (\<lambda>x. get_record (dh_id (dr_header x)) demo_docs = Some x) (list_records demo_docs)"
proof -
  have "map (map ln_line_no \<circ> dr_lines) (list_records demo_docs) = [[2, 7]]" by code_simp
  then show ?thesis using listed_records_are_current [OF demo_docs_reachable] unfolding list_all_iff by blast
qed

text \<open>
  An extension is read back as it was set. Replacing a registered extension of a stored
  document succeeds, stores what it returns under a content hash of the new payload, and leaves
  every other extension as normalisation has it.
\<close>

theorem extension_is_read_back:
  assumes reach: "doc_reachable r" and x: "get_document did r = Inr x"
    and reg: "m \<in> set (map xd_module_key (list_extension_definitions (dh_type (dr_header x)) r))"
  shows "\<exists>x' r'. replace_extension env did m ext r = (Inr x', r') \<and> get_document did r' = Inr x'
    \<and> extension_payload (db_payload (dr_body x')) m = Some ext
    \<and> db_content_hash (dr_body x') = content_hash env (db_payload (dr_body x'))
    \<and> (\<forall>n. n \<noteq> m \<longrightarrow> extension_payload (db_payload (dr_body x')) n
          = extension_payload (normalize_payload env (db_payload (dr_body x))) n)"
proof -
  let ?p = "set_extension_payload env (db_payload (dr_body x)) m ext"
  let ?x = "x\<lparr>dr_body := (dr_body x)\<lparr>db_payload := ?p, db_content_hash := content_hash env ?p\<rparr>\<rparr>"
  have rep: "replace_extension env did m ext r = (Inr ?x, save_record ?x r)"
    using x reg by (auto simp: replace_extension_def Let_def)
  from x have stored: "map_of (rp_records r) did = Some x"
    using stored_parts [OF doc_inv_reachable [OF reach], of did]
    by (auto simp: get_document_def get_record_def split: option.splits)
  with stored_parts [OF doc_inv_reachable [OF reach]] have x_ok: "with_parts did r x = x" "dh_id (dr_header x) = did"
    by simp_all
  have parts: "with_parts did r y = y" if "dr_lines y = dr_lines x" "dr_links y = dr_links x" "dr_attachments y = dr_attachments x" for y
    using x_ok(1) that by (simp add: with_parts_fixed)
  have lists: "with_parts did (save_record ?x r) y = with_parts did r y" for y
    by (simp add: with_parts_def list_lines_def list_links_def list_attachments_def save_record_def)
  have same: "with_parts did r ?x = ?x" by (rule parts) simp_all
  then have "map_of (rp_records (save_record ?x r)) did = Some ?x"
    using x_ok(2) by (simp add: save_record_def)
  then have "get_document did (save_record ?x r) = Inr ?x"
    by (simp only: get_document_def get_record_def lists option.map same option.case)
  moreover have "extension_map ?p = mput m (GObj ext) (extension_map (normalize_payload env (db_payload (dr_body x))))"
    unfolding set_extension_payload_def Let_def extension_map_def [of "mput _ _ _"] by simp
  then have "extension_payload ?p n = (if n = m then Some ext
      else extension_payload (normalize_payload env (db_payload (dr_body x))) n)" for n
    by (simp add: extension_payload_def)
  ultimately show ?thesis using rep by (intro exI [of _ ?x] exI [of _ "save_record ?x r"]) simp
qed

theorem extension_is_read_back_witness:
  "\<exists>x' r'. replace_extension demo_doc_env ''doc_1'' ''crm'' [(''score'', GInt 5)] demo_docs = (Inr x', r')
     \<and> extension_payload (db_payload (dr_body x')) ''crm'' = Some [(''score'', GInt 5)]"
proof -
  have "get_record ''doc_1'' demo_docs \<noteq> None" by code_simp
  then obtain x where x: "get_document ''doc_1'' demo_docs = Inr x" by (auto simp: get_document_def)
  have "map_option (\<lambda>x. dh_type (dr_header x)) (get_record ''doc_1'' demo_docs) = Some ''generic_request''" by code_simp
  with x have type: "dh_type (dr_header x) = ''generic_request''" by (auto simp: get_document_def split: option.splits)
  have "''crm'' \<in> set (map xd_module_key (list_extension_definitions ''generic_request'' demo_docs))" by code_simp
  then have reg: "''crm'' \<in> set (map xd_module_key (list_extension_definitions (dh_type (dr_header x)) demo_docs))"
    by (simp only: type)
  show ?thesis using extension_is_read_back [OF demo_docs_reachable x reg] by blast
qed

text \<open>
  The content hash is taken of the \<open>%v\<close> text of the payload, which does not tell a number from
  the string of its digits, so payloads that differ have the same hash.
\<close>

lemma content_hash_ignores_types:
  "content_hash env [(''total'', GInt 10)] = content_hash env [(''total'', GStr ''10'')]"
  "[(''total'', GInt 10)] \<noteq> [(''total'', GStr ''10'')]"
proof -
  have "show_int 10 = ''10''" by code_simp
  then show "content_hash env [(''total'', GInt 10)] = content_hash env [(''total'', GStr ''10'')]"
    by (simp add: content_hash_def)
qed simp

end
