(* ===== verification/ModelService.thy ===== *)
theory ModelService
  imports Shared
begin

text \<open>
  Package \<open>internal/platform/model\<close>: definitions of record types, the in-memory repository
  (\<open>memory_repository.go\<close>), queries (\<open>query.go\<close>) and the service (\<open>service.go\<close>) with
  its defaults, computed fields, checks, and composite writes of a record with its children.

  An evaluator is a function of its input. Every create or update draws the next ULID and the
  next clock reading of \<open>model_env\<close>; \<open>ms_tick\<close> counts them. \<open>me_decimal\<close> is
  \<open>strconv.FormatFloat(x, 'f', -1, 64)\<close>, \<open>me_stamp\<close> the RFC 3339 text of a time.
\<close>

section \<open>Data\<close>

type_synonym localized_text = "(string, string) gomap"

record reference_definition =
  rd_model_key :: string
  rd_lookup_field :: string

record relation_definition =
  rl_key :: string
  rl_type :: string
  rl_target_model_key :: string
  rl_foreign_key :: string

record model_field =
  mf_key :: string
  mf_label :: string
  mf_label_i18n :: localized_text
  mf_type :: string
  mf_required :: bool
  mf_read_only :: bool
  mf_indexed :: bool
  mf_sensitive :: bool
  mf_security_class :: string
  mf_default_mask :: string
  mf_search_visible :: "bool option"
  mf_export_visible :: "bool option"
  mf_read_permission_key :: string
  mf_write_permission_key :: string
  mf_default_value :: gval
  mf_default_rule_key :: string
  mf_compute_rule_key :: string
  mf_constraint_rule_keys :: "string list"
  mf_reference :: "reference_definition option"
  mf_allowed_values :: "string list"

record model_definition =
  md_key :: string
  md_display_name :: string
  md_display_name_i18n :: localized_text
  md_owner_module_key :: string
  md_version :: string
  md_create_permission_key :: string
  md_list_permission_key :: string
  md_read_permission_key :: string
  md_update_permission_key :: string
  md_default_sort :: string
  md_fields :: "model_field list"
  md_relations :: "relation_definition list"

text \<open>The zero values of the structs.\<close>

definition zero_model_field :: model_field where
  "zero_model_field = \<lparr>mf_key = [], mf_label = [], mf_label_i18n = [], mf_type = [], mf_required = False, mf_read_only = False,
     mf_indexed = False, mf_sensitive = False, mf_security_class = [], mf_default_mask = [], mf_search_visible = None,
     mf_export_visible = None, mf_read_permission_key = [], mf_write_permission_key = [], mf_default_value = GNull,
     mf_default_rule_key = [], mf_compute_rule_key = [], mf_constraint_rule_keys = [], mf_reference = None, mf_allowed_values = []\<rparr>"

definition zero_model_definition :: model_definition where
  "zero_model_definition = \<lparr>md_key = [], md_display_name = [], md_display_name_i18n = [], md_owner_module_key = [], md_version = [],
     md_create_permission_key = [], md_list_permission_key = [], md_read_permission_key = [], md_update_permission_key = [],
     md_default_sort = [], md_fields = [], md_relations = []\<rparr>"

record model_record =
  mr_model_key :: string
  mr_id :: string
  mr_version :: int
  mr_values :: gobj
  mr_created_by :: string
  mr_created_at :: gotime
  mr_updated_by :: string
  mr_updated_at :: gotime

record model_query =
  mq_filters :: "(string, string) gomap"
  mq_sort_key :: string
  mq_desc :: bool
  mq_page :: int
  mq_page_size :: int

definition default_page_size :: int where "default_page_size = 20"
definition max_page_size :: int where "max_page_size = 100"

datatype child_mutation =
  Child (ch_operation: string) (ch_id: string) (ch_expected_version: int) (ch_values: gobj)
    (ch_relations: "(string \<times> child_mutation list) list")

type_synonym relation_mutations = "(string, child_mutation list) gomap"

record composite_mutation =
  cm_expected_version :: int
  cm_values :: gobj
  cm_relations :: relation_mutations

record rule_input =
  ri_model_key :: string
  ri_field_key :: string
  ri_values :: gobj
  ri_existing :: gobj
  ri_actor_id :: string

type_synonym evaluator = "rule_input \<Rightarrow> gval result"
type_synonym constraint_evaluator = "rule_input \<Rightarrow> goerr option"

section \<open>The repository\<close>

record model_repo =
  mp_definitions :: "(string, model_definition) gomap"
  mp_records :: "(string, (string, model_record) gomap) gomap"

definition new_model_repo :: model_repo where
  "new_model_repo = \<lparr>mp_definitions = [], mp_records = []\<rparr>"

definition save_model_definition :: "model_definition \<Rightarrow> model_repo \<Rightarrow> model_repo" where
  "save_model_definition def r = r\<lparr>mp_definitions := mput (md_key def) def (mp_definitions r)\<rparr>"

definition get_model_definition :: "string \<Rightarrow> model_repo \<Rightarrow> model_definition option" where
  "get_model_definition key r = map_of (mp_definitions r) key"

definition list_model_definitions :: "model_repo \<Rightarrow> model_definition list" where
  "list_model_definitions r = sort_slice md_key (map snd (mp_definitions r))"

definition save_model_record :: "model_record \<Rightarrow> model_repo \<Rightarrow> model_repo" where
  "save_model_record x r =
     r\<lparr>mp_records := mput (mr_model_key x) (mput (mr_id x) x (mget [] (mp_records r) (mr_model_key x))) (mp_records r)\<rparr>"

definition delete_model_record :: "string \<Rightarrow> string \<Rightarrow> model_repo \<Rightarrow> model_repo" where
  "delete_model_record model_key rid r =
     (case map_of (mp_records r) model_key of
        None \<Rightarrow> r
      | Some items \<Rightarrow> r\<lparr>mp_records := mput model_key (mdel rid items) (mp_records r)\<rparr>)"

definition get_model_record :: "string \<Rightarrow> string \<Rightarrow> model_repo \<Rightarrow> model_record option" where
  "get_model_record model_key rid r =
     (case map_of (mp_records r) model_key of None \<Rightarrow> None | Some items \<Rightarrow> map_of items rid)"

definition list_model_records :: "string \<Rightarrow> model_repo \<Rightarrow> model_record list" where
  "list_model_records model_key r = sort_slice mr_id (map snd (mget [] (mp_records r) model_key))"

section \<open>Values as text and the checks of a record\<close>

record model_env =
  me_ulid :: "nat \<Rightarrow> string"
  me_clock :: "nat \<Rightarrow> gotime"
  me_decimal :: "64 word \<Rightarrow> string"
  me_float :: "64 word \<Rightarrow> string"
  me_time :: "gotime \<Rightarrow> string"
  me_stamp :: "gotime \<Rightarrow> string"

record model_rules =
  ml_defaults :: "(string, evaluator) gomap"
  ml_computes :: "(string, evaluator) gomap"
  ml_constraints :: "(string, constraint_evaluator) gomap"

definition new_model_rules :: model_rules where
  "new_model_rules = \<lparr>ml_defaults = [], ml_computes = [], ml_constraints = []\<rparr>"

definition set_default_evaluator :: "string \<Rightarrow> evaluator option \<Rightarrow> model_rules \<Rightarrow> model_rules" where
  "set_default_evaluator key eval R =
     (case eval of None \<Rightarrow> R | Some f \<Rightarrow> if trim_space key = [] then R else R\<lparr>ml_defaults := mput key f (ml_defaults R)\<rparr>)"

definition set_compute_evaluator :: "string \<Rightarrow> evaluator option \<Rightarrow> model_rules \<Rightarrow> model_rules" where
  "set_compute_evaluator key eval R =
     (case eval of None \<Rightarrow> R | Some f \<Rightarrow> if trim_space key = [] then R else R\<lparr>ml_computes := mput key f (ml_computes R)\<rparr>)"

definition set_constraint_evaluator :: "string \<Rightarrow> constraint_evaluator option \<Rightarrow> model_rules \<Rightarrow> model_rules" where
  "set_constraint_evaluator key eval R =
     (case eval of None \<Rightarrow> R | Some f \<Rightarrow> if trim_space key = [] then R else R\<lparr>ml_constraints := mput key f (ml_constraints R)\<rparr>)"

fun value_text :: "model_env \<Rightarrow> gval \<Rightarrow> string" where
  "value_text env GNull = []"
| "value_text env (GStr s) = trim_space s"
| "value_text env (GTime t) = trim_space (me_time env t)"
| "value_text env (GInt i) = show_int i"
| "value_text env (GFloat w) = me_decimal env w"
| "value_text env (GBool b) = (if b then ''true'' else ''false'')"
| "value_text env v = trim_space (sprint (me_float env) (me_time env) v)"

definition fallback_actor :: "string \<Rightarrow> string" where
  "fallback_actor actor = (if trim_space actor = [] then ''system'' else trim_space actor)"

text \<open>The three loops of \<open>prepareRecord\<close>: defaults, computed values, checks.\<close>

definition default_field ::
    "model_rules \<Rightarrow> model_definition \<Rightarrow> string \<Rightarrow> model_field \<Rightarrow> gobj \<Rightarrow> gobj result" where
  "default_field R def actor f vs =
     (let vs = (if map_of vs (mf_key f) = None \<and> mf_default_value f \<noteq> GNull
                then mput (mf_key f) (mf_default_value f) vs else vs)
      in if map_of vs (mf_key f) = None \<and> trim_space (mf_default_rule_key f) \<noteq> []
         then (case map_of (ml_defaults R) (mf_default_rule_key f) of
                 None \<Rightarrow> Inr vs
               | Some eval \<Rightarrow>
                   (case eval \<lparr>ri_model_key = md_key def, ri_field_key = mf_key f, ri_values = vs, ri_existing = [], ri_actor_id = actor\<rparr> of
                      Inl e \<Rightarrow> Inl e
                    | Inr v \<Rightarrow> Inr (mput (mf_key f) v vs)))
         else Inr vs)"

definition compute_field ::
    "model_rules \<Rightarrow> model_definition \<Rightarrow> string \<Rightarrow> gobj \<Rightarrow> model_field \<Rightarrow> gobj \<Rightarrow> gobj result" where
  "compute_field R def actor existing f vs =
     (if trim_space (mf_compute_rule_key f) = [] then Inr vs
      else case map_of (ml_computes R) (mf_compute_rule_key f) of
             None \<Rightarrow> Inr vs
           | Some eval \<Rightarrow>
               (case eval \<lparr>ri_model_key = md_key def, ri_field_key = mf_key f, ri_values = vs, ri_existing = existing, ri_actor_id = actor\<rparr> of
                  Inl e \<Rightarrow> Inl e
                | Inr v \<Rightarrow> Inr (mput (mf_key f) v vs)))"

definition validate_allowed_values :: "model_env \<Rightarrow> model_field \<Rightarrow> gval \<Rightarrow> goerr option" where
  "validate_allowed_values env f v =
     (let current = trim_space (value_text env v) in
      if mf_allowed_values f = [] \<or> current = [] then None
      else if \<exists>a \<in> set (mf_allowed_values f). equal_fold current (trim_space a) then None
      else Some (Validation (''model field '' @ mf_key f @ '' must be one of: '' @ join '', '' (mf_allowed_values f))))"

definition missing_reference :: "model_field \<Rightarrow> string \<Rightarrow> goerr" where
  "missing_reference f target = Validation (''model field '' @ mf_key f @ '' references missing '' @ target @ '' record'')"

definition validate_reference :: "model_env \<Rightarrow> model_repo \<Rightarrow> model_field \<Rightarrow> gval \<Rightarrow> goerr option" where
  "validate_reference env r f v =
     (case mf_reference f of
        None \<Rightarrow> None
      | Some ref \<Rightarrow>
          let target = trim_space (rd_model_key ref); current = trim_space (value_text env v);
              lookup_field = trim_space (rd_lookup_field ref)
          in if target = [] then Some (Validation (''model field '' @ mf_key f @ '' has an invalid reference definition''))
             else if current = [] then None
             else if get_model_definition target r = None
             then Some (Validation (''model field '' @ mf_key f @ '' references unknown model '' @ target))
             else if lookup_field = [] \<or> equal_fold lookup_field ''id''
             then (if get_model_record target current r \<noteq> None then None else Some (missing_reference f target))
             else if \<exists>x \<in> set (list_model_records target r). equal_fold
                  (trim_space (value_text env (mget GNull (mr_values x) (trim_prefix ''values.'' lookup_field)))) current
             then None
             else Some (missing_reference f target))"

definition check_constraint ::
    "model_rules \<Rightarrow> model_definition \<Rightarrow> string \<Rightarrow> gobj \<Rightarrow> gobj \<Rightarrow> model_field \<Rightarrow> string \<Rightarrow> goerr option" where
  "check_constraint R def actor existing vs f key =
     (case map_of (ml_constraints R) key of
        None \<Rightarrow> None
      | Some eval \<Rightarrow> eval \<lparr>ri_model_key = md_key def, ri_field_key = mf_key f, ri_values = vs, ri_existing = existing, ri_actor_id = actor\<rparr>)"

definition check_field ::
    "model_env \<Rightarrow> model_rules \<Rightarrow> model_repo \<Rightarrow> model_definition \<Rightarrow> string \<Rightarrow> gobj \<Rightarrow> gobj \<Rightarrow> model_field \<Rightarrow> goerr option" where
  "check_field env R r def actor existing vs f =
     (let v = mget GNull vs (mf_key f) in
      if mf_required f \<and> trim_space (value_text env v) = []
      then Some (Validation (''required model field is missing: '' @ mf_key f))
      else case validate_allowed_values env f v of
             Some e \<Rightarrow> Some e
           | None \<Rightarrow>
               (case validate_reference env r f v of
                  Some e \<Rightarrow> Some e
                | None \<Rightarrow> first_error (check_constraint R def actor existing vs f) (mf_constraint_rule_keys f)))"

definition prepare_record ::
    "model_env \<Rightarrow> model_rules \<Rightarrow> model_repo \<Rightarrow> model_definition \<Rightarrow> string \<Rightarrow> gobj \<Rightarrow> gobj \<Rightarrow> gobj result" where
  "prepare_record env R r def actor existing vs =
     (case fold_result (default_field R def actor) (md_fields def) vs of
        Inl e \<Rightarrow> Inl e
      | Inr vs \<Rightarrow>
          (case fold_result (compute_field R def actor existing) (md_fields def) vs of
             Inl e \<Rightarrow> Inl e
           | Inr vs \<Rightarrow>
               (case first_error (check_field env R r def actor existing vs) (md_fields def) of
                  Some e \<Rightarrow> Inl e
                | None \<Rightarrow> Inr vs)))"

section \<open>Single records\<close>

record model_state =
  ms_repo :: model_repo
  ms_tick :: nat

definition register_model :: "model_definition \<Rightarrow> model_state \<Rightarrow> goerr option \<times> model_state" where
  "register_model def s =
     (if trim_space (md_key def) = [] \<or> trim_space (md_display_name def) = []
      then (Some (Validation ''model key and display_name are required''), s)
      else if get_model_definition (md_key def) (ms_repo s) \<noteq> None
      then (Some (Conflict ''model definition already exists''), s)
      else if \<exists>f \<in> set (md_fields def). trim_space (mf_key f) = [] \<or> trim_space (mf_type f) = []
      then (Some (Validation ''model field key and type are required''), s)
      else if \<exists>rl \<in> set (md_relations def). trim_space (rl_key rl) = [] \<or> trim_space (rl_type rl) = []
             \<or> trim_space (rl_target_model_key rl) = [] \<or> trim_space (rl_foreign_key rl) = []
      then (Some (Validation ''model relation key, type, target_model_key, and foreign_key are required''), s)
      else (None, s\<lparr>ms_repo := save_model_definition def (ms_repo s)\<rparr>))"

definition create_model ::
    "model_env \<Rightarrow> model_rules \<Rightarrow> string \<Rightarrow> string \<Rightarrow> gobj \<Rightarrow> model_state \<Rightarrow> model_record result \<times> model_state" where
  "create_model env R model_key actor vs s =
     (case get_model_definition (trim_space model_key) (ms_repo s) of
        None \<Rightarrow> (Inl (NotFound ''model definition not found''), s)
      | Some def \<Rightarrow>
          let now = me_clock env (ms_tick s);
              x = \<lparr>mr_model_key = md_key def, mr_id = new_id (md_key def) (me_ulid env (ms_tick s)), mr_version = 1,
                   mr_values = vs, mr_created_by = fallback_actor actor, mr_created_at = now,
                   mr_updated_by = fallback_actor actor, mr_updated_at = now\<rparr>;
              s = s\<lparr>ms_tick := Suc (ms_tick s)\<rparr>
          in case prepare_record env R (ms_repo s) def actor [] vs of
               Inl e \<Rightarrow> (Inl e, s)
             | Inr vs \<Rightarrow> (Inr (x\<lparr>mr_values := vs\<rparr>), s\<lparr>ms_repo := save_model_record (x\<lparr>mr_values := vs\<rparr>) (ms_repo s)\<rparr>))"

definition update_model ::
    "model_env \<Rightarrow> model_rules \<Rightarrow> string \<Rightarrow> string \<Rightarrow> string \<Rightarrow> gobj \<Rightarrow> int \<Rightarrow> model_state \<Rightarrow> model_record result \<times> model_state" where
  "update_model env R model_key rid actor vs expected s =
     (case get_model_definition (trim_space model_key) (ms_repo s) of
        None \<Rightarrow> (Inl (NotFound ''model definition not found''), s)
      | Some def \<Rightarrow>
          (case get_model_record (md_key def) (trim_space rid) (ms_repo s) of
             None \<Rightarrow> (Inl (NotFound ''record not found''), s)
           | Some current \<Rightarrow>
               if 0 < expected \<and> mr_version current \<noteq> expected then (Inl (Conflict ''record version mismatch''), s)
               else
                 let x = current\<lparr>mr_version := mr_version current + 1, mr_updated_by := fallback_actor actor,
                           mr_updated_at := me_clock env (ms_tick s)\<rparr>;
                     s = s\<lparr>ms_tick := Suc (ms_tick s)\<rparr>
                 in case prepare_record env R (ms_repo s) def actor (mr_values current) vs of
                      Inl e \<Rightarrow> (Inl e, s)
                    | Inr vs \<Rightarrow> (Inr (x\<lparr>mr_values := vs\<rparr>), s\<lparr>ms_repo := save_model_record (x\<lparr>mr_values := vs\<rparr>) (ms_repo s)\<rparr>)))"

definition get_model :: "string \<Rightarrow> string \<Rightarrow> model_state \<Rightarrow> model_record result" where
  "get_model model_key rid s =
     (case get_model_record (trim_space model_key) (trim_space rid) (ms_repo s) of
        None \<Rightarrow> Inl (NotFound ''record not found'') | Some x \<Rightarrow> Inr x)"

definition find_relation :: "model_definition \<Rightarrow> string \<Rightarrow> relation_definition option" where
  "find_relation def relation_key = find (\<lambda>rl. rl_key rl = trim_space relation_key) (md_relations def)"

definition create_related ::
    "model_env \<Rightarrow> model_rules \<Rightarrow> string \<Rightarrow> string \<Rightarrow> string \<Rightarrow> string \<Rightarrow> gobj \<Rightarrow> model_state \<Rightarrow> model_record result \<times> model_state" where
  "create_related env R model_key rid relation_key actor vs s =
     (case get_model_definition (trim_space model_key) (ms_repo s) of
        None \<Rightarrow> (Inl (NotFound ''model definition not found''), s)
      | Some def \<Rightarrow>
          (case get_model_record (md_key def) (trim_space rid) (ms_repo s) of
             None \<Rightarrow> (Inl (NotFound ''parent record not found''), s)
           | Some parent \<Rightarrow>
               (case find_relation def relation_key of
                  None \<Rightarrow> (Inl (NotFound ''model relation not found''), s)
                | Some rl \<Rightarrow>
                    create_model env R (rl_target_model_key rl) actor (mput (rl_foreign_key rl) (GStr (mr_id parent)) vs) s)))"

section \<open>Queries\<close>

definition allowed_query_key :: "model_definition \<Rightarrow> string \<Rightarrow> bool" where
  "allowed_query_key def key \<longleftrightarrow> trim_space key \<in> {[], ''id'', ''created_at'', ''updated_at''}
     \<or> (\<exists>f \<in> set (md_fields def). mf_key f = trim_space key)"

definition assert_safe_query :: "model_definition \<Rightarrow> model_query \<Rightarrow> goerr option" where
  "assert_safe_query def q =
     (let sort_by = trim_space (mq_sort_key q) in
      if sort_by \<noteq> [] \<and> \<not> allowed_query_key def sort_by then Some (Validation (''unsupported sort key: '' @ sort_by))
      else first_error (\<lambda>(k, v). let k = trim_space k in
             if k = [] \<or> allowed_query_key def k then None else Some (Validation (''unsupported filter key: '' @ k))) (mq_filters q))"

definition clean_filters :: "(string, string) gomap \<Rightarrow> (string, string) gomap" where
  "clean_filters fs = fold (\<lambda>(k, v) m. if trim_space k = [] \<or> trim_space v = [] then m
     else mput (trim_space k) (trim_space v) m) fs []"

definition normalize_query :: "model_definition \<Rightarrow> model_query \<Rightarrow> model_query result" where
  "normalize_query def q =
     (let size = (if mq_page_size q \<le> 0 then default_page_size else mq_page_size q);
          q = q\<lparr>mq_page := (if mq_page q \<le> 0 then 1 else mq_page q),
                mq_page_size := (if max_page_size < size then max_page_size else size),
                mq_sort_key := (if trim_space (mq_sort_key q) = [] then trim_space (md_default_sort def) else trim_space (mq_sort_key q))\<rparr>
      in case assert_safe_query def q of
           Some e \<Rightarrow> Inl e
         | None \<Rightarrow> Inr (q\<lparr>mq_filters := clean_filters (mq_filters q)\<rparr>))"

definition resolve_value :: "gobj \<Rightarrow> string \<Rightarrow> gval" where
  "resolve_value vs key = (if vs = [] \<or> trim_space key = [] then GStr [] else mget GNull vs (trim_space key))"

definition matches_filter :: "model_env \<Rightarrow> model_record \<Rightarrow> string \<times> string \<Rightarrow> bool" where
  "matches_filter env x = (\<lambda>(key, value).
     let current = value_text env (resolve_value (mr_values x) key); candidate = trim_space value in
     candidate = []
     \<or> (if equal_fold (trim_space key) ''name'' then has_substring (to_lower current) (to_lower candidate)
        else equal_fold current candidate))"

definition matches_filters :: "model_env \<Rightarrow> (string, string) gomap \<Rightarrow> model_record \<Rightarrow> bool" where
  "matches_filters env fs x = list_all (matches_filter env x) fs"

definition sort_text :: "model_env \<Rightarrow> string \<Rightarrow> model_record \<Rightarrow> string" where
  "sort_text env sort_by x =
     (if sort_by = ''id'' then mr_id x
      else if sort_by = ''created_at'' then me_stamp env (mr_created_at x)
      else if sort_by = ''updated_at'' then me_stamp env (mr_updated_at x)
      else value_text env (resolve_value (mr_values x) sort_by))"

text \<open>The page of the sorted matches; \<^const>\<open>None\<close> is the panic of a slice out of bounds.\<close>

definition query_matches :: "model_env \<Rightarrow> model_definition \<Rightarrow> model_query \<Rightarrow> model_repo \<Rightarrow> model_record list" where
  "query_matches env def q r =
     (if mq_desc q then sort_slice_desc else sort_slice) (sort_text env (mq_sort_key q))
       (filter (matches_filters env (mq_filters q)) (list_model_records (md_key def) r))"

definition query_records ::
    "model_env \<Rightarrow> model_definition \<Rightarrow> model_query \<Rightarrow> model_repo \<Rightarrow> (model_record list \<times> nat) option" where
  "query_records env def q r =
     (let filtered = query_matches env def q r;
          start = wrap64 ((mq_page q - 1) * mq_page_size q);
          stop = wrap64 (start + mq_page_size q)
      in if int (length filtered) \<le> start then Some ([], length filtered)
         else map_option (\<lambda>page. (page, length filtered))
                (slice_of filtered start (if int (length filtered) < stop then int (length filtered) else stop)))"

definition list_models ::
    "model_env \<Rightarrow> string \<Rightarrow> model_query \<Rightarrow> model_repo \<Rightarrow> (model_record list \<times> nat) result option" where
  "list_models env model_key q r =
     (case get_model_definition (trim_space model_key) r of
        None \<Rightarrow> Some (Inl (NotFound ''model definition not found''))
      | Some def \<Rightarrow>
          (case normalize_query def q of
             Inl e \<Rightarrow> Some (Inl e)
           | Inr q \<Rightarrow> map_option Inr (query_records env def q r)))"

definition related_models ::
    "model_env \<Rightarrow> string \<Rightarrow> string \<Rightarrow> string \<Rightarrow> model_query \<Rightarrow> model_repo \<Rightarrow> (model_record list \<times> nat) result option" where
  "related_models env model_key rid relation_key q r =
     (case get_model_definition (trim_space model_key) r of
        None \<Rightarrow> Some (Inl (NotFound ''model definition not found''))
      | Some def \<Rightarrow>
          (case find_relation def relation_key of
             None \<Rightarrow> Some (Inl (NotFound ''model relation not found''))
           | Some rl \<Rightarrow> list_models env (rl_target_model_key rl)
               (q\<lparr>mq_filters := mput (rl_foreign_key rl) (trim_space rid) (mq_filters q)\<rparr>) r))"

section \<open>Composite writes\<close>

text \<open>
  \<open>applyRelations\<close> and its two loops. An error leaves the writes made before it. The first page
  of the related records cannot panic, so that branch, which reports an error, is not reached.
\<close>

definition children_query :: model_query where
  "children_query = \<lparr>mq_filters = [], mq_sort_key = [], mq_desc = False, mq_page = 1, mq_page_size = 1000\<rparr>"

definition existing_children ::
    "model_env \<Rightarrow> string \<Rightarrow> string \<Rightarrow> string \<Rightarrow> model_repo \<Rightarrow> (string, model_record) gomap result" where
  "existing_children env model_key rid relation_key r =
     (case related_models env model_key rid relation_key children_query r of
        None \<Rightarrow> Inl (Plain ''slice bounds out of range'')
      | Some (Inl e) \<Rightarrow> Inl e
      | Some (Inr (items, _)) \<Rightarrow> Inr (fold (\<lambda>x. mput (mr_id x) x) items []))"

definition mutation_op :: "string \<Rightarrow> string" where
  "mutation_op operation = (if trim_space operation = [] then ''upsert'' else trim_space operation)"

fun relations_size :: "(string \<times> child_mutation list) list \<Rightarrow> nat" and children_size :: "child_mutation list \<Rightarrow> nat" where
  "relations_size [] = 0"
| "relations_size ((k, ms) # rels) = Suc (children_size ms + relations_size rels)"
| "children_size [] = 0"
| "children_size (Child op cid ev vs rels # ms) = Suc (relations_size rels + children_size ms)"

function apply_relations ::
    "model_env \<Rightarrow> model_rules \<Rightarrow> string \<Rightarrow> string \<Rightarrow> string \<Rightarrow> relation_mutations \<Rightarrow> model_state
       \<Rightarrow> (string, model_record list) gomap result \<times> model_state"
  and apply_each_relation ::
    "model_env \<Rightarrow> model_rules \<Rightarrow> string \<Rightarrow> model_definition \<Rightarrow> string \<Rightarrow> string \<Rightarrow> relation_mutations
       \<Rightarrow> (string, model_record list) gomap \<Rightarrow> model_state \<Rightarrow> (string, model_record list) gomap result \<times> model_state"
  and apply_children ::
    "model_env \<Rightarrow> model_rules \<Rightarrow> relation_definition \<Rightarrow> string \<Rightarrow> string \<Rightarrow> (string, model_record) gomap \<Rightarrow> child_mutation list
       \<Rightarrow> model_record list \<Rightarrow> model_state \<Rightarrow> model_record list result \<times> model_state" where
  "apply_relations env R model_key rid actor rels s =
     (if rels = [] then (Inr [], s)
      else case get_model_definition (trim_space model_key) (ms_repo s) of
             None \<Rightarrow> (Inl (NotFound ''model definition not found''), s)
           | Some def \<Rightarrow> apply_each_relation env R model_key def rid actor rels [] s)"
| "apply_each_relation env R model_key def rid actor [] done_so_far s = (Inr done_so_far, s)"
| "apply_each_relation env R model_key def rid actor ((relation_key, ms) # rels) done_so_far s =
     (case find_relation def relation_key of
        None \<Rightarrow> (Inl (NotFound ''model relation not found''), s)
      | Some rl \<Rightarrow>
          (case existing_children env model_key rid relation_key (ms_repo s) of
             Inl e \<Rightarrow> (Inl e, s)
           | Inr existing \<Rightarrow>
               (case apply_children env R rl rid actor existing ms [] s of
                  (Inl e, s) \<Rightarrow> (Inl e, s)
                | (Inr applied, s) \<Rightarrow>
                    apply_each_relation env R model_key def rid actor rels (mput relation_key applied done_so_far) s)))"
| "apply_children env R rl rid actor existing [] applied s = (Inr applied, s)"
| "apply_children env R rl rid actor existing (Child operation cid expected vs rels # ms) applied s =
     (let target = rl_target_model_key rl; vs = mput (rl_foreign_key rl) (GStr rid) vs in
      if mutation_op operation = ''delete''
      then (if trim_space cid = [] then apply_children env R rl rid actor existing ms applied s
            else if map_of existing (trim_space cid) = None then (Inl (NotFound ''related record not found''), s)
            else apply_children env R rl rid actor existing ms applied
                   (s\<lparr>ms_repo := delete_model_record target (trim_space cid) (ms_repo s)\<rparr>))
      else if trim_space cid = []
      then (case create_model env R target actor vs s of
              (Inl e, s) \<Rightarrow> (Inl e, s)
            | (Inr created, s) \<Rightarrow>
                (case apply_relations env R target (mr_id created) actor rels s of
                   (Inl e, s) \<Rightarrow> (Inl e, s\<lparr>ms_repo := delete_model_record target (mr_id created) (ms_repo s)\<rparr>)
                 | (Inr _, s) \<Rightarrow> apply_children env R rl rid actor existing ms (applied @ [created]) s))
      else (case map_of existing (trim_space cid) of
              None \<Rightarrow> (Inl (NotFound ''related record not found''), s)
            | Some current \<Rightarrow>
                (case update_model env R target (mr_id current) actor vs
                        (if expected = 0 then mr_version current else expected) s of
                   (Inl e, s) \<Rightarrow> (Inl e, s)
                 | (Inr updated, s) \<Rightarrow>
                     (case apply_relations env R target (mr_id updated) actor rels s of
                        (Inl e, s) \<Rightarrow> (Inl e, s)
                      | (Inr _, s) \<Rightarrow> apply_children env R rl rid actor existing ms (applied @ [updated]) s))))"
  by pat_completeness auto
termination
  by (relation "measure (\<lambda>x. case x of
      Inl (env, R, model_key, rid, actor, rels, s) \<Rightarrow> 2 * relations_size rels + 1
    | Inr (Inl (env, R, model_key, def, rid, actor, rels, acc, s)) \<Rightarrow> 2 * relations_size rels
    | Inr (Inr (env, R, rl, rid, actor, existing, ms, acc, s)) \<Rightarrow> 2 * children_size ms)") auto

declare apply_relations.simps [simp del]

definition create_composite ::
    "model_env \<Rightarrow> model_rules \<Rightarrow> string \<Rightarrow> string \<Rightarrow> composite_mutation \<Rightarrow> model_state
       \<Rightarrow> (model_record \<times> (string, model_record list) gomap) result \<times> model_state" where
  "create_composite env R model_key actor m s =
     (case create_model env R model_key actor (cm_values m) s of
        (Inl e, s) \<Rightarrow> (Inl e, s)
      | (Inr parent, s) \<Rightarrow>
          (case apply_relations env R model_key (mr_id parent) actor (cm_relations m) s of
             (Inl e, s) \<Rightarrow> (Inl e, s\<lparr>ms_repo := delete_model_record model_key (mr_id parent) (ms_repo s)\<rparr>)
           | (Inr related, s) \<Rightarrow> (Inr (parent, related), s)))"

definition update_composite ::
    "model_env \<Rightarrow> model_rules \<Rightarrow> string \<Rightarrow> string \<Rightarrow> string \<Rightarrow> composite_mutation \<Rightarrow> model_state
       \<Rightarrow> (model_record \<times> (string, model_record list) gomap) result \<times> model_state" where
  "update_composite env R model_key rid actor m s =
     (case update_model env R model_key rid actor (cm_values m) (cm_expected_version m) s of
        (Inl e, s) \<Rightarrow> (Inl e, s)
      | (Inr parent, s) \<Rightarrow>
          (case apply_relations env R model_key (mr_id parent) actor (cm_relations m) s of
             (Inl e, s) \<Rightarrow> (Inl e, s)
           | (Inr related, s) \<Rightarrow> (Inr (parent, related), s)))"

end

