(* ===== verification/SecurityFields.thy ===== *)
theory SecurityFields
  imports PolicyFacts DocumentFacts ModelService
begin

text \<open>
  Package \<open>internal/platform/securityfields\<close>: which fields of a model record or a document
  a caller may see and write, the masks, and the cache of profiles. A permission checker is a
  function or nil. The policy service is the model of theory \<open>Policy\<close>; the texts that
  \<open>%v\<close> gives floats and times are \<open>ff\<close> and \<open>ft\<close>. \<open>now\<close> is the clock at the
  lookup and \<open>now'\<close> the clock when the profile is stored.
\<close>

section \<open>Data\<close>

type_synonym permission_checker = "string \<Rightarrow> bool"

record access_context =
  ac_actor_id :: string
  ac_session_id :: string
  ac_organization_id :: string
  ac_location_id :: string
  ac_scope_id :: string
  ac_channel :: string
  ac_state :: string
  ac_permission_checker :: "permission_checker option"

record field_access =
  fa_visible :: bool
  fa_editable :: bool
  fa_mask :: string
  fa_search_visible :: bool
  fa_export_visible :: bool

record access_profile =
  ap_resource_kind :: string
  ap_resource_key :: string
  ap_fields :: "(string, field_access) gomap"

record cached_profile =
  cp_profile :: access_profile
  cp_expires_at :: gotime

record 'p field_service =
  fs_policy :: "'p policy_service option"
  fs_ttl :: duration
  fs_profiles :: "(string, cached_profile) gomap"

definition no_access :: field_access where
  "no_access = \<lparr>fa_visible = False, fa_editable = False, fa_mask = [], fa_search_visible = False,
     fa_export_visible = False\<rparr>"

definition new_field_service :: "'p policy_service option \<Rightarrow> 'p field_service" where
  "new_field_service pol = \<lparr>fs_policy = pol, fs_ttl = 60 * second, fs_profiles = []\<rparr>"

section \<open>Masks\<close>

definition redacted :: string where
  "redacted = ''[redacted]''"

text \<open>\<open>text\<close> is \<open>strings.TrimSpace(fmt.Sprintf("%v", value))\<close>, cut in bytes.\<close>

definition mask_last4 :: "string \<Rightarrow> string" where
  "mask_last4 t = (if length t \<le> 4 then t else replicate (length t - 4) (CHR ''*'') @ drop (length t - 4) t)"

definition mask_email :: "string \<Rightarrow> string" where
  "mask_email t =
     (case split_char (CHR ''@'') t of
        [pfx, rest] \<Rightarrow>
          if pfx = [] then redacted
          else (if 2 < length pfx then take 2 pfx @ replicate (length pfx - 2) (CHR ''*'') else pfx) @ ''@'' @ rest
      | _ \<Rightarrow> redacted)"

definition apply_mask :: "(64 word \<Rightarrow> string) \<Rightarrow> (gotime \<Rightarrow> string) \<Rightarrow> string \<Rightarrow> gval \<Rightarrow> gval" where
  "apply_mask ff ft msk v =
     (let msk = trim_space msk in
      if msk = [] \<or> msk = ''none'' then v
      else if msk = ''hide'' then GStr redacted
      else if msk = ''last4'' then GStr (mask_last4 (trim_space (sprint ff ft v)))
      else if msk = ''partial_email'' then GStr (mask_email (trim_space (sprint ff ft v)))
      else GStr redacted)"

section \<open>Profiles\<close>

definition allows :: "permission_checker option \<Rightarrow> string \<Rightarrow> bool" where
  "allows check key = (case check of None \<Rightarrow> True | Some f \<Rightarrow> f (trim_space key))"

definition field_default :: "access_context \<Rightarrow> model_field \<Rightarrow> field_access" where
  "field_default ctx f =
     (let visible = (mf_read_permission_key f = [] \<or> allows (ac_permission_checker ctx) (mf_read_permission_key f));
          editable = (\<not> mf_read_only f
            \<and> (mf_write_permission_key f = [] \<or> allows (ac_permission_checker ctx) (mf_write_permission_key f)))
      in \<lparr>fa_visible = visible, fa_editable = editable,
           fa_mask = (if visible then trim_space (mf_default_mask f) else []),
           fa_search_visible = (case mf_search_visible f of Some b \<Rightarrow> b | None \<Rightarrow> \<not> mf_sensitive f),
           fa_export_visible = (case mf_export_visible f of Some b \<Rightarrow> b | None \<Rightarrow> \<not> mf_sensitive f)\<rparr>)"

definition default_model_profile :: "access_context \<Rightarrow> model_definition \<Rightarrow> access_profile" where
  "default_model_profile ctx def = \<lparr>ap_resource_kind = ''model'', ap_resource_key = md_key def,
     ap_fields = fold (\<lambda>f. mput (mf_key f) (field_default ctx f)) (md_fields def) []\<rparr>"

definition bool_value :: "gval \<Rightarrow> bool \<Rightarrow> bool" where
  "bool_value v fallback = (case v of GBool b \<Rightarrow> b | _ \<Rightarrow> fallback)"

definition merge_field_access ::
    "(64 word \<Rightarrow> string) \<Rightarrow> (gotime \<Rightarrow> string) \<Rightarrow> gval \<Rightarrow> field_access \<Rightarrow> field_access" where
  "merge_field_access ff ft raw a =
     (case raw of
        GObj m \<Rightarrow>
          let flag = (\<lambda>k old. case map_of m k of None \<Rightarrow> old | Some v \<Rightarrow> bool_value v old);
              msk = (case map_of m ''mask'' of None \<Rightarrow> [] | Some v \<Rightarrow> trim_space (sprint ff ft v))
          in \<lparr>fa_visible = flag ''visible'' (fa_visible a), fa_editable = flag ''editable'' (fa_editable a),
               fa_mask = (if msk \<noteq> [] then msk else fa_mask a),
               fa_search_visible = flag ''search_visible'' (fa_search_visible a),
               fa_export_visible = flag ''export_visible'' (fa_export_visible a)\<rparr>
      | _ \<Rightarrow> a)"

text \<open>The loop over the fields of the decision's output; a missing field starts without access.\<close>

definition merge_fields ::
    "(64 word \<Rightarrow> string) \<Rightarrow> (gotime \<Rightarrow> string) \<Rightarrow> decision \<Rightarrow> access_profile \<Rightarrow> access_profile" where
  "merge_fields ff ft d profile =
     (case map_of (dn_output d) ''fields'' of
        Some (GObj entries) \<Rightarrow> profile\<lparr>ap_fields :=
          fold (\<lambda>(k, raw) m. mput k (merge_field_access ff ft raw (mget no_access m k)) m) entries (ap_fields profile)\<rparr>
      | _ \<Rightarrow> profile)"

definition has_hook :: "'p policy_service \<Rightarrow> string \<Rightarrow> bool" where
  "has_hook s key = (\<exists>def \<in> set (hook_definitions s). hd_key def = key)"

definition channel_of :: "access_context \<Rightarrow> string" where
  "channel_of ctx = first_non_empty [trim_space (ac_channel ctx), ''api'']"

definition cache_key :: "access_context \<Rightarrow> model_definition \<Rightarrow> string" where
  "cache_key ctx def =
     (let actor = first_non_empty [trim_space (ac_session_id ctx), trim_space (ac_actor_id ctx)]
      in if actor = [] then []
         else join ''|'' [actor, trim_space (ac_organization_id ctx), trim_space (ac_location_id ctx), channel_of ctx,
                trim_space (ac_state ctx), md_key def])"

definition document_cache_key :: "access_context \<Rightarrow> doc_header \<Rightarrow> string" where
  "document_cache_key ctx h =
     join ''|'' [first_non_empty [trim_space (ac_session_id ctx), trim_space (ac_actor_id ctx), ''system''],
       first_non_empty [trim_space (ac_organization_id ctx), trim_space (dh_organization_id h)],
       first_non_empty [trim_space (ac_location_id ctx), trim_space (dh_location_id h)],
       channel_of ctx, trim_space (dh_status h), dh_type h, dh_id h]"

definition lookup_profile :: "gotime \<Rightarrow> string \<Rightarrow> 'p field_service \<Rightarrow> access_profile option \<times> 'p field_service" where
  "lookup_profile now key s =
     (case map_of (fs_profiles s) key of
        None \<Rightarrow> (None, s)
      | Some e \<Rightarrow> if cp_expires_at e < now then (None, s\<lparr>fs_profiles := mdel key (fs_profiles s)\<rparr>)
                  else (Some (cp_profile e), s))"

definition store_profile :: "gotime \<Rightarrow> string \<Rightarrow> access_profile \<Rightarrow> 'p field_service \<Rightarrow> 'p field_service" where
  "store_profile now key profile s =
     s\<lparr>fs_profiles := mput key \<lparr>cp_profile = profile, cp_expires_at = now + fs_ttl s\<rparr> (fs_profiles s)\<rparr>"

text \<open>The policy call of both profiles: nothing without a policy service or without the hook.\<close>

definition policy_fields ::
    "'p rego \<Rightarrow> (string \<Rightarrow> string) \<Rightarrow> (64 word \<Rightarrow> string) \<Rightarrow> (gotime \<Rightarrow> string) \<Rightarrow> gotime \<Rightarrow> policy_request
       \<Rightarrow> access_profile \<Rightarrow> 'p field_service \<Rightarrow> access_profile \<times> 'p field_service" where
  "policy_fields rg sha ff ft now req profile s =
     (case fs_policy s of
        None \<Rightarrow> (profile, s)
      | Some pol \<Rightarrow>
          if \<not> has_hook pol (pq_hook_key req) then (profile, s)
          else let (d, pol') = evaluate rg sha now req pol
               in (merge_fields ff ft d profile, s\<lparr>fs_policy := Some pol'\<rparr>))"

definition model_request :: "access_context \<Rightarrow> model_definition \<Rightarrow> policy_request" where
  "model_request ctx def = \<lparr>pq_hook_key = ''models.fields.profile'', pq_actor_id = trim_space (ac_actor_id ctx),
     pq_organization_id = trim_space (ac_organization_id ctx), pq_location_id = trim_space (ac_location_id ctx),
     pq_scope_id = first_non_empty [trim_space (ac_scope_id ctx), trim_space (ac_location_id ctx)],
     pq_inputs = [(''model_key'', GStr (md_key def)), (''channel'', GStr (channel_of ctx)),
       (''state'', GStr (trim_space (ac_state ctx))), (''field_keys'', GStrs (map mf_key (md_fields def))),
       (''field_count'', GInt (int (length (md_fields def))))], pq_rule = []\<rparr>"

definition model_profile ::
    "'p rego \<Rightarrow> (string \<Rightarrow> string) \<Rightarrow> (64 word \<Rightarrow> string) \<Rightarrow> (gotime \<Rightarrow> string) \<Rightarrow> gotime \<Rightarrow> gotime
       \<Rightarrow> access_context \<Rightarrow> model_definition \<Rightarrow> 'p field_service \<Rightarrow> access_profile \<times> 'p field_service" where
  "model_profile rg sha ff ft now now' ctx def s =
     (let key = cache_key ctx def;
          (cached, s) = (if key = [] then (None, s) else lookup_profile now key s)
      in case cached of
           Some profile \<Rightarrow> (profile, s)
         | None \<Rightarrow>
             let (profile, s) = policy_fields rg sha ff ft now (model_request ctx def) (default_model_profile ctx def) s
             in (profile, if key = [] then s else store_profile now' key profile s))"

definition document_request :: "access_context \<Rightarrow> doc_header \<Rightarrow> policy_request" where
  "document_request ctx h = \<lparr>pq_hook_key = ''documents.fields.profile'', pq_actor_id = trim_space (ac_actor_id ctx),
     pq_organization_id = first_non_empty [trim_space (ac_organization_id ctx), trim_space (dh_organization_id h)],
     pq_location_id = first_non_empty [trim_space (ac_location_id ctx), trim_space (dh_location_id h)],
     pq_scope_id = first_non_empty [trim_space (ac_scope_id ctx), trim_space (dh_location_id h)],
     pq_inputs = [(''document_id'', GStr (dh_id h)), (''document_type'', GStr (dh_type h)),
       (''document_status'', GStr (dh_status h)), (''channel'', GStr (channel_of ctx))], pq_rule = []\<rparr>"

definition empty_document_profile :: "doc_header \<Rightarrow> access_profile" where
  "empty_document_profile h = \<lparr>ap_resource_kind = ''document'', ap_resource_key = dh_type h, ap_fields = []\<rparr>"

definition document_profile ::
    "'p rego \<Rightarrow> (string \<Rightarrow> string) \<Rightarrow> (64 word \<Rightarrow> string) \<Rightarrow> (gotime \<Rightarrow> string) \<Rightarrow> gotime \<Rightarrow> gotime
       \<Rightarrow> access_context \<Rightarrow> doc_header \<Rightarrow> 'p field_service \<Rightarrow> access_profile \<times> 'p field_service" where
  "document_profile rg sha ff ft now now' ctx h s =
     (let key = document_cache_key ctx h;
          (cached, s) = (if key = [] then (None, s) else lookup_profile now key s)
      in case cached of
           Some profile \<Rightarrow> (profile, s)
         | None \<Rightarrow>
             let (profile, s) = policy_fields rg sha ff ft now (document_request ctx h) (empty_document_profile h) s
             in (profile, if key = [] then s else store_profile now' key profile s))"

section \<open>Reading and writing under a profile\<close>

definition sanitize_values :: "(64 word \<Rightarrow> string) \<Rightarrow> (gotime \<Rightarrow> string) \<Rightarrow> access_profile \<Rightarrow> gobj \<Rightarrow> gobj" where
  "sanitize_values ff ft profile values =
     List.map_filter (\<lambda>(k, v).
       case map_of (ap_fields profile) k of
         None \<Rightarrow> Some (k, v)
       | Some a \<Rightarrow> if \<not> fa_visible a then None
                   else if fa_mask a \<noteq> [] then Some (k, apply_mask ff ft (fa_mask a) v) else Some (k, v)) values"

definition sanitize_model_record ::
    "(64 word \<Rightarrow> string) \<Rightarrow> (gotime \<Rightarrow> string) \<Rightarrow> access_profile \<Rightarrow> model_record \<Rightarrow> model_record" where
  "sanitize_model_record ff ft profile x = x\<lparr>mr_values := sanitize_values ff ft profile (mr_values x)\<rparr>"

fun validate_model_fields :: "access_profile \<Rightarrow> gobj \<Rightarrow> model_field list \<Rightarrow> goerr option" where
  "validate_model_fields profile values [] = None"
| "validate_model_fields profile values (f # fs) =
     (if map_of values (mf_key f) = None then validate_model_fields profile values fs
      else if mf_read_only f then Some (Forbidden (''field is read only: '' @ mf_key f))
      else case map_of (ap_fields profile) (mf_key f) of
             Some a \<Rightarrow> if \<not> fa_editable a then Some (Forbidden (''field update is not allowed: '' @ mf_key f))
                       else validate_model_fields profile values fs
           | None \<Rightarrow> validate_model_fields profile values fs)"

definition validate_model_write :: "access_profile \<Rightarrow> gobj \<Rightarrow> model_definition \<Rightarrow> goerr option" where
  "validate_model_write profile values def = validate_model_fields profile values (md_fields def)"

definition join_path :: "string \<Rightarrow> string \<Rightarrow> string" where
  "join_path pfx key =
     (if trim_space pfx = [] then trim_space key
      else if trim_space key = [] then trim_space pfx
      else trim_space pfx @ ''.'' @ trim_space key)"

text \<open>\<open>sanitize_entry\<close> is the body of the loop of \<open>sanitizeDocumentPayload\<close>.\<close>

fun sanitize_entry ::
    "(64 word \<Rightarrow> string) \<Rightarrow> (gotime \<Rightarrow> string) \<Rightarrow> access_profile \<Rightarrow> string \<Rightarrow> string \<Rightarrow> gval \<Rightarrow> gval option" where
  "sanitize_entry ff ft profile pfx key (GObj m) =
     (let path = join_path pfx key in
      case map_of (ap_fields profile) path of
        Some a \<Rightarrow> if \<not> fa_visible a then None
          else Some (GObj (concat (map (\<lambda>(k, v). case sanitize_entry ff ft profile path k v of None \<Rightarrow> [] | Some w \<Rightarrow> [(k, w)]) m)))
      | None \<Rightarrow> Some (GObj (concat (map (\<lambda>(k, v). case sanitize_entry ff ft profile path k v of None \<Rightarrow> [] | Some w \<Rightarrow> [(k, w)]) m))))"
| "sanitize_entry ff ft profile pfx key v =
     (case map_of (ap_fields profile) (join_path pfx key) of
        Some a \<Rightarrow> if \<not> fa_visible a then None
          else if fa_mask a \<noteq> [] then Some (apply_mask ff ft (fa_mask a) v) else Some v
      | None \<Rightarrow> Some v)"

definition sanitize_payload ::
    "(64 word \<Rightarrow> string) \<Rightarrow> (gotime \<Rightarrow> string) \<Rightarrow> access_profile \<Rightarrow> string \<Rightarrow> gobj \<Rightarrow> gobj" where
  "sanitize_payload ff ft profile pfx payload =
     concat (map (\<lambda>(k, v). case sanitize_entry ff ft profile pfx k v of None \<Rightarrow> [] | Some w \<Rightarrow> [(k, w)]) payload)"

fun value_paths :: "string \<Rightarrow> gval \<Rightarrow> string list" where
  "value_paths pfx (GObj m) = concat (map (\<lambda>(k, v). join_path pfx k # value_paths (join_path pfx k) v) m)"
| "value_paths pfx v = []"

definition payload_paths :: "gobj \<Rightarrow> string \<Rightarrow> string list" where
  "payload_paths payload pfx = value_paths pfx (GObj payload)"

text \<open>The first path that may not be written, in the order Go walks the maps.\<close>

definition validate_document_write :: "access_profile \<Rightarrow> gobj \<Rightarrow> string \<Rightarrow> goerr option" where
  "validate_document_write profile payload pfx =
     (case filter (\<lambda>p. case map_of (ap_fields profile) p of None \<Rightarrow> False | Some a \<Rightarrow> \<not> fa_editable a)
             (payload_paths payload pfx) of
        [] \<Rightarrow> None
      | p # _ \<Rightarrow> Some (Forbidden (''field update is not allowed: '' @ p)))"

end
