(* ===== verification/SecurityFacts.thy ===== *)
theory SecurityFacts
  imports SecurityFields
begin

text \<open>
  What theory \<open>SecurityFields\<close> guarantees: which values of a payload are disclosed and which
  writes are accepted, what the masks reveal, how old a cached profile can be, and what happens
  when the field policy does not work.
\<close>

section \<open>Payloads\<close>

text \<open>The value under a path of keys, the path's text, and whether a rule on the way hides it.\<close>

fun descend :: "string list \<Rightarrow> gval \<Rightarrow> gval option" where
  "descend [] v = Some v"
| "descend (k # ks) (GObj m) = (case map_of m k of None \<Rightarrow> None | Some v \<Rightarrow> descend ks v)"
| "descend (k # ks) _ = None"

definition hidden :: "access_profile \<Rightarrow> string \<Rightarrow> bool" where
  "hidden p path = (case map_of (ap_fields p) path of None \<Rightarrow> False | Some a \<Rightarrow> \<not> fa_visible a)"

definition locked :: "access_profile \<Rightarrow> string \<Rightarrow> bool" where
  "locked p path = (case map_of (ap_fields p) path of None \<Rightarrow> False | Some a \<Rightarrow> \<not> fa_editable a)"

definition mask_of :: "access_profile \<Rightarrow> string \<Rightarrow> string" where
  "mask_of p path = (case map_of (ap_fields p) path of None \<Rightarrow> [] | Some a \<Rightarrow> fa_mask a)"

fun concealed :: "access_profile \<Rightarrow> string \<Rightarrow> string list \<Rightarrow> bool" where
  "concealed p pfx [] = False"
| "concealed p pfx (k # ks) = (hidden p (join_path pfx k) \<or> concealed p (join_path pfx k) ks)"

definition disclose ::
    "(64 word \<Rightarrow> string) \<Rightarrow> (gotime \<Rightarrow> string) \<Rightarrow> access_profile \<Rightarrow> string \<Rightarrow> gval \<Rightarrow> gval" where
  "disclose ff ft p path v =
     (case v of GObj m \<Rightarrow> GObj (sanitize_payload ff ft p path m)
      | _ \<Rightarrow> if mask_of p path = [] then v else apply_mask ff ft (mask_of p path) v)"

lemma sanitize_entry_alt:
  "sanitize_entry ff ft p pfx k v =
     (if hidden p (join_path pfx k) then None else Some (disclose ff ft p (join_path pfx k) v))"
  by (cases v) (auto simp: hidden_def mask_of_def disclose_def sanitize_payload_def Let_def split: option.split)

lemma sanitize_payload_Cons:
  "sanitize_payload ff ft p pfx ((k, v) # m) =
     (if hidden p (join_path pfx k) then [] else [(k, disclose ff ft p (join_path pfx k) v)]) @ sanitize_payload ff ft p pfx m"
  by (simp add: sanitize_payload_def sanitize_entry_alt)

lemma map_of_sanitize:
  "map_of (sanitize_payload ff ft p pfx m) k =
     (if hidden p (join_path pfx k) then None else map_option (disclose ff ft p (join_path pfx k)) (map_of m k))"
proof (induction m)
  case Nil
  show ?case by (simp add: sanitize_payload_def)
next
  case (Cons e m)
  then show ?case by (cases e) (auto simp: sanitize_payload_Cons)
qed

lemma descend_disclose:
  "descend ks (disclose ff ft p pfx v) = (case descend ks v of None \<Rightarrow> None
     | Some w \<Rightarrow> if concealed p pfx ks then None else Some (disclose ff ft p (foldl join_path pfx ks) w))"
  if "ks \<noteq> [] \<longrightarrow> (\<exists>m. v = GObj m)"
  using that
proof (induction ks arbitrary: v pfx)
  case (Cons k ks)
  then obtain m where v: "v = GObj m" by blast
  show ?case
  proof (cases "map_of m k")
    case None
    then show ?thesis by (simp add: v disclose_def map_of_sanitize)
  next
    case (Some w)
    show ?thesis
    proof (cases "ks \<noteq> [] \<longrightarrow> (\<exists>m. w = GObj m)")
      case True
      from Cons.IH [OF True, of "join_path pfx k"] show ?thesis
        by (auto simp: v Some disclose_def [of _ _ _ pfx] map_of_sanitize split: option.split)
    next
      case False
      then obtain j js where ks: "ks = j # js" "\<forall>m. w \<noteq> GObj m" by (metis neq_Nil_conv)
      then have "descend ks (disclose ff ft p (join_path pfx k) w) = None" "descend ks w = None"
        by (cases w; auto simp: disclose_def apply_mask_def Let_def)+
      then show ?thesis by (simp add: v Some disclose_def [of _ _ _ pfx] map_of_sanitize)
    qed
  qed
qed simp

lemma descend_paths:
  "descend (k # ks) v = Some w \<Longrightarrow> foldl join_path pfx (k # ks) \<in> set (value_paths pfx v)"
proof (induction ks arbitrary: k v pfx)
  case Nil
  then show ?case by (cases v) (force split: option.splits dest: map_of_SomeD)+
next
  case (Cons j js)
  then obtain m u where v: "v = GObj m" and u: "map_of m k = Some u" "descend (j # js) u = Some w"
    by (cases v) (auto split: option.splits)
  from Cons.IH [OF u(2), of "join_path pfx k"]
  have "foldl join_path pfx (k # j # js) \<in> set (value_paths (join_path pfx k) u)" by simp
  moreover have "(k, u) \<in> set m" using u(1) by (rule map_of_SomeD)
  ultimately show ?case unfolding v by (auto intro!: bexI [of _ "(k, u)"])
qed

lemma validate_document_alt:
  "validate_document_write p m pfx =
     map_option (\<lambda>path. Forbidden (''field update is not allowed: '' @ path)) (find (locked p) (payload_paths m pfx))"
proof -
  have first: "(case filter P xs of [] \<Rightarrow> None | x # _ \<Rightarrow> Some (f x)) = map_option f (find P xs)"
    for P and f :: "string \<Rightarrow> goerr" and xs
    by (induction xs) auto
  show ?thesis unfolding validate_document_write_def locked_def [abs_def] by (rule first)
qed


text \<open>A demonstration: \<open>buyer.tax\<close> is hidden, \<open>buyer.phone\<close> is masked and read-only.\<close>

definition demo_profile :: access_profile where
  "demo_profile = \<lparr>ap_resource_kind = ''document'', ap_resource_key = ''invoice'', ap_fields =
     [(''buyer.tax'', no_access), (''buyer.phone'', no_access\<lparr>fa_visible := True, fa_mask := ''last4''\<rparr>)]\<rparr>"

definition demo_payload :: gobj where
  "demo_payload = [(''buyer'', GObj [(''name'', GStr ''Ann''), (''tax'', GStr ''12-345''), (''phone'', GStr ''5551234'')])]"


text \<open>
  Rules and masks do not reach inside lists: the rows of a line collection, whose paths a profile
  might name, are disclosed and accepted as they are. A mask on an object is ignored too.
\<close>

lemma list_items_escape_the_profile:
  "\<not> hidden p (join_path pfx k) \<Longrightarrow> mask_of p (join_path pfx k) = []
     \<Longrightarrow> sanitize_entry ff ft p pfx k (GList rows) = Some (GList rows)"
  "value_paths pfx (GObj [(k, GList rows)]) = [join_path pfx k]"
  "\<not> hidden p (join_path pfx k)
     \<Longrightarrow> sanitize_entry ff ft p pfx k (GObj m) = Some (GObj (sanitize_payload ff ft p (join_path pfx k) m))"
  by (simp_all add: sanitize_entry_alt disclose_def)

section \<open>Masks\<close>

text \<open>What a mask lets through of a text: its length, a part of its start and a part of its end.\<close>

definition reveals :: "string \<Rightarrow> string \<Rightarrow> nat \<times> string \<times> string" where
  "reveals msk t =
     (if msk = ''last4'' then (length t, [], drop (length t - 4) t)
      else if msk = ''partial_email'' then
        (case split_char (CHR ''@'') t of [name, host] \<Rightarrow> if name = [] then (0, [], []) else (length name, take 2 name, host) | _ \<Rightarrow> (0, [], []))
      else (0, [], []))"

lemma mask_last4_eq:
  "mask_last4 t = mask_last4 u \<longleftrightarrow> length t = length u \<and> drop (length t - 4) t = drop (length u - 4) u"
proof
  have len: "length (mask_last4 t) = length t" for t by (simp add: mask_last4_def)
  have tail: "drop (length t - 4) (mask_last4 t) = drop (length t - 4) t" for t by (simp add: mask_last4_def)
  assume "mask_last4 t = mask_last4 u"
  then show "length t = length u \<and> drop (length t - 4) t = drop (length u - 4) u" using len tail by metis
qed (auto simp: mask_last4_def)

definition shorten :: "string \<Rightarrow> string" where
  "shorten name = (if 2 < length name then take 2 name @ replicate (length name - 2) (CHR ''*'') else name)"

lemma shorten_eq: "shorten a = shorten b \<longleftrightarrow> length a = length b \<and> take 2 a = take 2 b"
proof
  have "length (shorten a) = length a" "take 2 (shorten a) = take 2 a" for a by (auto simp: shorten_def)
  moreover assume "shorten a = shorten b"
  ultimately show "length a = length b \<and> take 2 a = take 2 b" by metis
qed (auto simp: shorten_def)

lemma append_sep_eq: "c \<notin> set a \<Longrightarrow> c \<notin> set b \<Longrightarrow> a @ c # x = b @ c # y \<longleftrightarrow> a = b \<and> x = y"
proof (induction a arbitrary: b)
  case Nil
  then show ?case by (cases b) auto
next
  case (Cons e a)
  then show ?case by (cases b) auto
qed

lemma mask_email_cases:
  obtains (mail) name host where "split_char (CHR ''@'') t = [name, host]" "name \<noteq> []"
      "mask_email t = shorten name @ ''@'' @ host" "reveals ''partial_email'' t = (length name, take 2 name, host)"
      "CHR ''@'' \<notin> set (shorten name)"
  | (other) "mask_email t = redacted" "reveals ''partial_email'' t = (0, [], [])"
proof (cases "\<exists>name host. split_char (CHR ''@'') t = [name, host] \<and> name \<noteq> []")
  case True
  then obtain name host where s: "split_char (CHR ''@'') t = [name, host]" "name \<noteq> []" by blast
  then have "CHR ''@'' \<notin> set (shorten name)"
    using split_char_pair [OF s(1)] by (auto simp: shorten_def dest: in_set_takeD)
  with s show thesis by (intro mail) (simp_all add: mask_email_def reveals_def shorten_def)
next
  case False
  then show thesis by (intro other) (auto simp: mask_email_def reveals_def split: list.splits)
qed

lemma redacted_at: "CHR ''@'' \<notin> set redacted"
  by (simp add: redacted_def)

lemma mask_email_eq: "mask_email t = mask_email u \<longleftrightarrow> reveals ''partial_email'' t = reveals ''partial_email'' u"
proof (cases t rule: mask_email_cases)
  case (mail name host)
  note t = this
  show ?thesis
  proof (cases u rule: mask_email_cases)
    case (mail name' host')
    with t show ?thesis by (auto simp: append_sep_eq shorten_eq)
  next
    case other
    have "CHR ''@'' \<in> set (mask_email t)" using t by simp
    then have "mask_email t \<noteq> mask_email u" using other redacted_at by metis
    with other t show ?thesis by simp
  qed
next
  case other
  note t = this
  show ?thesis
  proof (cases u rule: mask_email_cases)
    case (mail name' host')
    then have "CHR ''@'' \<in> set (mask_email u)" by simp
    then have "mask_email t \<noteq> mask_email u" using t redacted_at by metis
    with mail t show ?thesis by simp
  next
    case other
    with t show ?thesis by simp
  qed
qed

text \<open>
  C35: what a mask reveals. Two values look the same under a mask exactly if their texts agree in
  what the mask lets through: nothing for \<open>hide\<close> and for an unknown mask; the length and the
  last four bytes for \<open>last4\<close>; the domain, the length of the name and its first two bytes for
  \<open>partial_email\<close>, or only that the text is no address. No mask and \<open>none\<close> let all through.
\<close>

theorem masks_reveal_only_what_they_name:
  "apply_mask ff ft msk v = apply_mask ff ft msk w \<longleftrightarrow>
     (if trim_space msk \<in> {[], ''none''} then v = w
      else reveals (trim_space msk) (trim_space (sprint ff ft v)) = reveals (trim_space msk) (trim_space (sprint ff ft w)))"
proof -
  have "mask_last4 t = mask_last4 u \<longleftrightarrow> reveals ''last4'' t = reveals ''last4'' u" for t u
    by (auto simp: mask_last4_eq reveals_def)
  moreover have "reveals m t = reveals m u" if "m \<noteq> ''last4''" "m \<noteq> ''partial_email''" for m t u
    using that by (simp add: reveals_def)
  ultimately show ?thesis by (simp add: apply_mask_def Let_def mask_email_eq)
qed

text \<open>Texts of up to four bytes, and names of up to two, are shown whole.\<close>

lemma short_values_are_not_masked:
  "length t \<le> 4 \<Longrightarrow> mask_last4 t = t"
  "mask_email ''jo@example.org'' = ''jo@example.org''"
  by (simp add: mask_last4_def) code_simp

section \<open>The lookup, the policy call and the store\<close>

text \<open>Both profiles are served the same way; they differ in the key and in the policy request.\<close>

definition serve ::
    "gotime \<Rightarrow> gotime \<Rightarrow> string \<Rightarrow> ('p field_service \<Rightarrow> access_profile \<times> 'p field_service) \<Rightarrow> 'p field_service
       \<Rightarrow> access_profile \<times> 'p field_service" where
  "serve now now' key fresh s =
     (case (if key = [] then (None, s) else lookup_profile now key s) of
        (Some profile, s) \<Rightarrow> (profile, s)
      | (None, s) \<Rightarrow> (case fresh s of (profile, s) \<Rightarrow> (profile, if key = [] then s else store_profile now' key profile s)))"

lemma model_profile_serve:
  "model_profile rg sha ff ft now now' ctx def =
     serve now now' (cache_key ctx def) (policy_fields rg sha ff ft now (model_request ctx def) (default_model_profile ctx def))"
  by (auto simp: fun_eq_iff model_profile_def serve_def Let_def split: option.split prod.split)

lemma document_profile_serve:
  "document_profile rg sha ff ft now now' ctx h =
     serve now now' (document_cache_key ctx h) (policy_fields rg sha ff ft now (document_request ctx h) (empty_document_profile h))"
  by (auto simp: fun_eq_iff document_profile_def serve_def Let_def split: option.split prod.split)

lemma lookup_frame [simp]:
  "fs_policy (snd (lookup_profile now k s)) = fs_policy s" "fs_ttl (snd (lookup_profile now k s)) = fs_ttl s"
  by (simp_all add: lookup_profile_def split: option.split)

lemma policy_fields_frame [simp]:
  "fs_profiles (snd (policy_fields rg sha ff ft now req p s)) = fs_profiles s"
  "fs_ttl (snd (policy_fields rg sha ff ft now req p s)) = fs_ttl s"
  by (simp_all add: policy_fields_def Let_def case_prod_unfold split: option.split)

lemma policy_fields_policy:
  "fs_policy s' = fs_policy s \<Longrightarrow> fst (policy_fields rg sha ff ft now req p s') = fst (policy_fields rg sha ff ft now req p s)"
  by (simp add: policy_fields_def Let_def case_prod_unfold split: option.split)

lemma serve_uncached:
  assumes "\<And>s'. fs_policy s' = fs_policy s \<Longrightarrow> fst (fresh s') = fst (fresh s)"
    and "key = [] \<or> fst (lookup_profile now key s) = None"
  shows "fst (serve now now' key fresh s) = fst (fresh s)"
proof -
  have "fst (fresh (snd (lookup_profile now key s))) = fst (fresh s)" by (rule assms(1)) simp
  with assms(2) show ?thesis
    by (cases "lookup_profile now key s") (auto simp: serve_def split: prod.split)
qed

lemma serve_policy_fields:
  "key = [] \<or> fst (lookup_profile now key s) = None
     \<Longrightarrow> fst (serve now now' key (policy_fields rg sha ff ft t req p) s) = fst (policy_fields rg sha ff ft t req p s)"
  by (rule serve_uncached [OF policy_fields_policy])

section \<open>Model fields\<close>

lemma map_of_fold_mput_other:
  "k \<notin> key ` set xs \<Longrightarrow> map_of (fold (\<lambda>x. mput (key x) (g x)) xs m) k = map_of m k"
  by (induction xs arbitrary: m) auto

lemma map_of_fold_mput:
  "distinct (map key xs) \<Longrightarrow> x \<in> set xs \<Longrightarrow> map_of (fold (\<lambda>x. mput (key x) (g x)) xs m) (key x) = Some (g x)"
proof (induction xs arbitrary: m)
  case (Cons y ys)
  then show ?case by (cases "x = y") (auto simp: map_of_fold_mput_other)
qed simp

lemma map_of_sanitize_values:
  "map_of (sanitize_values ff ft p values) k =
     (case map_of (ap_fields p) k of None \<Rightarrow> map_of values k
      | Some a \<Rightarrow> if \<not> fa_visible a then None
                  else map_option (if fa_mask a = [] then (\<lambda>v. v) else apply_mask ff ft (fa_mask a)) (map_of values k))"
  unfolding sanitize_values_def
  by (induction "values") (auto simp: map_filter_simps split: option.splits if_splits)

lemma validate_model_fields_None:
  "validate_model_fields p values fs = None \<longleftrightarrow>
     (\<forall>f \<in> set fs. map_of values (mf_key f) \<noteq> None \<longrightarrow> \<not> mf_read_only f \<and> \<not> locked p (mf_key f))"
  by (induction fs) (auto simp: locked_def split: option.splits)

text \<open>
  Without a field policy the model's own declarations decide. A declared field is disclosed
  exactly if it needs no read permission or the caller has it, under its default mask if it has
  one; a write is accepted exactly if each declared field it sets is not read-only and needs no
  write permission or one the caller has.
\<close>

theorem model_fields_follow_permissions:
  assumes "distinct (map mf_key (md_fields def))" and f: "f \<in> set (md_fields def)"
    and nopolicy: "case fs_policy s of None \<Rightarrow> True | Some pol \<Rightarrow> \<not> has_hook pol ''models.fields.profile''"
    and uncached: "fst (lookup_profile now (cache_key ctx def) s) = None"
    and p_def: "p = fst (model_profile rg sha ff ft now now' ctx def s)"
    and may_def: "may = (\<lambda>key. key = [] \<or> allows (ac_permission_checker ctx) key)"
  shows "map_of (sanitize_values ff ft p values) (mf_key f) =
      (if may (mf_read_permission_key f)
       then map_option (if trim_space (mf_default_mask f) = [] then (\<lambda>v. v) else apply_mask ff ft (trim_space (mf_default_mask f)))
              (map_of values (mf_key f))
       else None)
    \<and> (validate_model_write p values def = None \<longleftrightarrow>
        (\<forall>f \<in> set (md_fields def). map_of values (mf_key f) \<noteq> None
           \<longrightarrow> \<not> mf_read_only f \<and> may (mf_write_permission_key f)))"
proof -
  have "fst (policy_fields rg sha ff ft now (model_request ctx def) (default_model_profile ctx def) s) = default_model_profile ctx def"
    using nopolicy by (simp add: policy_fields_def model_request_def split: option.splits)
  then have p: "p = default_model_profile ctx def"
    using uncached by (simp add: p_def model_profile_serve serve_policy_fields)
  have known: "map_of (ap_fields p) (mf_key g) = Some (field_default ctx g)" if "g \<in> set (md_fields def)" for g
    using map_of_fold_mput [OF assms(1) that, of "field_default ctx" "[]"] by (simp add: p default_model_profile_def)
  have "\<not> locked p (mf_key g) \<longleftrightarrow> \<not> mf_read_only g \<and> may (mf_write_permission_key g)" if "g \<in> set (md_fields def)" for g
    using known [OF that] by (simp add: locked_def field_default_def Let_def may_def)
  then show ?thesis
    by (auto simp: map_of_sanitize_values known [OF f] field_default_def Let_def may_def
        validate_model_write_def validate_model_fields_None)
qed

section \<open>The cache of profiles\<close>

text \<open>
  A history of calls on one service, with the clock at the lookup and at the store of each call.
  \<open>Rewired\<close> stands for whatever others do to the policy service in between.
\<close>

datatype 'p profile_call =
    ModelCall gotime gotime access_context model_definition
  | DocumentCall gotime gotime access_context doc_header
  | Rewired "'p policy_service option"

fun call_key :: "'p profile_call \<Rightarrow> string" where
  "call_key (ModelCall _ _ ctx def) = cache_key ctx def"
| "call_key (DocumentCall _ _ ctx h) = document_cache_key ctx h"
| "call_key (Rewired _) = []"

fun asked_at :: "'p profile_call \<Rightarrow> gotime" where
  "asked_at (ModelCall now _ _ _) = now"
| "asked_at (DocumentCall now _ _ _) = now"
| "asked_at (Rewired _) = 0"

fun stored_at :: "'p profile_call \<Rightarrow> gotime" where
  "stored_at (ModelCall _ now' _ _) = now'"
| "stored_at (DocumentCall _ now' _ _) = now'"
| "stored_at (Rewired _) = 0"

fun run_call :: "'p rego \<Rightarrow> (string \<Rightarrow> string) \<Rightarrow> (64 word \<Rightarrow> string) \<Rightarrow> (gotime \<Rightarrow> string)
    \<Rightarrow> 'p profile_call \<Rightarrow> 'p field_service \<Rightarrow> access_profile option \<times> 'p field_service" where
  "run_call rg sha ff ft (ModelCall now now' ctx def) s = apfst Some (model_profile rg sha ff ft now now' ctx def s)"
| "run_call rg sha ff ft (DocumentCall now now' ctx h) s = apfst Some (document_profile rg sha ff ft now now' ctx h s)"
| "run_call rg sha ff ft (Rewired pol) s = (None, s\<lparr>fs_policy := pol\<rparr>)"

text \<open>What the call would answer with an empty cache.\<close>

fun fresh_answer :: "'p rego \<Rightarrow> (string \<Rightarrow> string) \<Rightarrow> (64 word \<Rightarrow> string) \<Rightarrow> (gotime \<Rightarrow> string)
    \<Rightarrow> 'p profile_call \<Rightarrow> 'p field_service \<Rightarrow> access_profile option" where
  "fresh_answer rg sha ff ft (ModelCall now now' ctx def) s =
     Some (fst (policy_fields rg sha ff ft now (model_request ctx def) (default_model_profile ctx def) s))"
| "fresh_answer rg sha ff ft (DocumentCall now now' ctx h) s =
     Some (fst (policy_fields rg sha ff ft now (document_request ctx h) (empty_document_profile h) s))"
| "fresh_answer rg sha ff ft (Rewired pol) s = None"

definition run_calls where
  "run_calls rg sha ff ft cs s = fold (\<lambda>c s. snd (run_call rg sha ff ft c s)) cs s"

text \<open>An entry comes from a call of the history that computed it afresh and stored it a TTL before it expires.\<close>

definition computed_by ::
    "'p rego \<Rightarrow> (string \<Rightarrow> string) \<Rightarrow> (64 word \<Rightarrow> string) \<Rightarrow> (gotime \<Rightarrow> string) \<Rightarrow> 'p field_service
       \<Rightarrow> 'p profile_call list \<Rightarrow> string \<Rightarrow> cached_profile \<Rightarrow> bool" where
  "computed_by rg sha ff ft s0 cs key e \<longleftrightarrow>
     (\<exists>earlier c later. cs = earlier @ c # later \<and> call_key c = key \<and> cp_expires_at e = stored_at c + 60 * second
        \<and> fresh_answer rg sha ff ft c (run_calls rg sha ff ft earlier s0) = Some (cp_profile e))"

lemma computed_by_snoc: "computed_by rg sha ff ft s0 cs key e \<Longrightarrow> computed_by rg sha ff ft s0 (cs @ [c]) key e"
  unfolding computed_by_def by (metis append_Cons append_assoc)

lemma serve_effect:
  assumes fresh: "fresh = policy_fields rg sha ff ft t req p"
  shows "fs_ttl (snd (serve now now' key fresh s)) = fs_ttl s"
    and "map_of (fs_profiles (snd (serve now now' key fresh s))) k = Some e \<Longrightarrow>
      map_of (fs_profiles s) k = Some e
      \<or> (k = key \<and> e = \<lparr>cp_profile = fst (fresh s), cp_expires_at = now' + fs_ttl s\<rparr>)"
    and "(\<exists>e. map_of (fs_profiles s) key = Some e \<and> now \<le> cp_expires_at e \<and> fst (serve now now' key fresh s) = cp_profile e)
      \<or> fst (serve now now' key fresh s) = fst (fresh s)"
proof -
  obtain c s1 where l: "(if key = [] then (None, s) else lookup_profile now key s) = (c, s1)" by fastforce
  then have s1: "fs_policy s1 = fs_policy s" "fs_ttl s1 = fs_ttl s" "fs_profiles s1 = fs_profiles s \<or> fs_profiles s1 = mdel key (fs_profiles s)"
    and c: "\<And>p. c = Some p \<Longrightarrow> \<exists>e. map_of (fs_profiles s) key = Some e \<and> now \<le> cp_expires_at e \<and> p = cp_profile e"
    by (auto simp: lookup_profile_def split: if_splits option.splits)
  obtain q s2 where f: "fresh s1 = (q, s2)" by fastforce
  have q: "q = fst (fresh s)" and s2: "fs_profiles s2 = fs_profiles s1" "fs_ttl s2 = fs_ttl s"
    using policy_fields_policy [OF s1(1), of rg sha ff ft t req p] policy_fields_frame [of rg sha ff ft t req p s1] s1(2) f
    unfolding fresh by simp_all
  note def = serve_def [of now now' key fresh s] l f
  show "fs_ttl (snd (serve now now' key fresh s)) = fs_ttl s"
    using s1(2) s2(2) by (simp add: def store_profile_def split: option.split)
  show "map_of (fs_profiles (snd (serve now now' key fresh s))) k = Some e \<Longrightarrow>
      map_of (fs_profiles s) k = Some e
      \<or> (k = key \<and> e = \<lparr>cp_profile = fst (fresh s), cp_expires_at = now' + fs_ttl s\<rparr>)"
    using s1(3) s2 q by (auto simp: def store_profile_def split: option.splits if_splits)
  show "(\<exists>e. map_of (fs_profiles s) key = Some e \<and> now \<le> cp_expires_at e \<and> fst (serve now now' key fresh s) = cp_profile e)
      \<or> fst (serve now now' key fresh s) = fst (fresh s)"
    using c q by (cases c) (auto simp: def)
qed

lemma call_effect:
  shows "fs_ttl (snd (run_call rg sha ff ft c s)) = fs_ttl s"
    and "map_of (fs_profiles (snd (run_call rg sha ff ft c s))) k = Some e \<Longrightarrow>
      map_of (fs_profiles s) k = Some e
      \<or> (k = call_key c \<and> cp_expires_at e = stored_at c + fs_ttl s \<and> fresh_answer rg sha ff ft c s = Some (cp_profile e))"
    and "(\<exists>e. map_of (fs_profiles s) (call_key c) = Some e \<and> asked_at c \<le> cp_expires_at e
        \<and> fst (run_call rg sha ff ft c s) = Some (cp_profile e))
      \<or> fst (run_call rg sha ff ft c s) = fresh_answer rg sha ff ft c s"
proof -
  note effect = serve_effect [OF refl]
  show "fs_ttl (snd (run_call rg sha ff ft c s)) = fs_ttl s"
    by (cases c) (simp_all add: model_profile_serve document_profile_serve effect(1))
  show "map_of (fs_profiles (snd (run_call rg sha ff ft c s))) k = Some e \<Longrightarrow>
      map_of (fs_profiles s) k = Some e
      \<or> (k = call_key c \<and> cp_expires_at e = stored_at c + fs_ttl s \<and> fresh_answer rg sha ff ft c s = Some (cp_profile e))"
  proof (cases c)
    case (ModelCall now now' ctx def)
    moreover assume "map_of (fs_profiles (snd (run_call rg sha ff ft c s))) k = Some e"
    ultimately show ?thesis
      using effect(2) [where rg = rg and sha = sha and ff = ff and ft = ft and s = s and now = now and now' = now' and t = now and key = "cache_key ctx def" and req = "model_request ctx def" and p = "default_model_profile ctx def" and k = k and e = e]
      by (auto simp: model_profile_serve)
  next
    case (DocumentCall now now' ctx h)
    moreover assume "map_of (fs_profiles (snd (run_call rg sha ff ft c s))) k = Some e"
    ultimately show ?thesis
      using effect(2) [where rg = rg and sha = sha and ff = ff and ft = ft and s = s and now = now and now' = now' and t = now and key = "document_cache_key ctx h" and req = "document_request ctx h" and p = "empty_document_profile h" and k = k and e = e]
      by (auto simp: document_profile_serve)
  qed simp
  show "(\<exists>e. map_of (fs_profiles s) (call_key c) = Some e \<and> asked_at c \<le> cp_expires_at e
        \<and> fst (run_call rg sha ff ft c s) = Some (cp_profile e))
      \<or> fst (run_call rg sha ff ft c s) = fresh_answer rg sha ff ft c s"
  proof (cases c)
    case (ModelCall now now' ctx def)
    then show ?thesis using effect(3) [where rg = rg and sha = sha and ff = ff and ft = ft and s = s and now = now and now' = now' and t = now and key = "cache_key ctx def" and req = "model_request ctx def" and p = "default_model_profile ctx def"]
      by (auto simp: model_profile_serve)
  next
    case (DocumentCall now now' ctx h)
    then show ?thesis using effect(3) [where rg = rg and sha = sha and ff = ff and ft = ft and s = s and now = now and now' = now' and t = now and key = "document_cache_key ctx h" and req = "document_request ctx h" and p = "empty_document_profile h"]
      by (auto simp: document_profile_serve)
  qed simp
qed

lemma run_calls_snoc: "run_calls rg sha ff ft (cs @ [c]) s = snd (run_call rg sha ff ft c (run_calls rg sha ff ft cs s))"
  by (simp add: run_calls_def)

lemma cache_is_computed:
  "fs_ttl (run_calls rg sha ff ft cs (new_field_service pol)) = 60 * second
   \<and> (\<forall>k e. map_of (fs_profiles (run_calls rg sha ff ft cs (new_field_service pol))) k = Some e
        \<longrightarrow> computed_by rg sha ff ft (new_field_service pol) cs k e)"
proof (induction cs rule: rev_induct)
  case Nil
  show ?case by (simp add: run_calls_def new_field_service_def)
next
  case (snoc c cs)
  let ?s = "run_calls rg sha ff ft cs (new_field_service pol)"
  have "computed_by rg sha ff ft (new_field_service pol) (cs @ [c]) k e"
    if "map_of (fs_profiles (snd (run_call rg sha ff ft c ?s))) k = Some e" for k e
    using call_effect(2) [OF that]
  proof
    assume "map_of (fs_profiles ?s) k = Some e"
    with snoc show ?thesis by (blast intro: computed_by_snoc)
  next
    assume "k = call_key c \<and> cp_expires_at e = stored_at c + fs_ttl ?s \<and> fresh_answer rg sha ff ft c ?s = Some (cp_profile e)"
    with snoc show ?thesis unfolding computed_by_def by (intro exI [of _ cs] exI [of _ c] exI [of _ "[]"]) simp
  qed
  with snoc show ?case by (simp add: run_calls_snoc call_effect(1))
qed

text \<open>
  After any history of calls on a service, whatever happens to the policy service in between,
  a call is answered either as it would be with an empty cache, or with the profile that an
  earlier call of the same cache key computed afresh and stored at most 60 seconds before.
\<close>

theorem profiles_are_fresh_or_a_minute_old:
  "let s = run_calls rg sha ff ft cs (new_field_service pol) in
     fst (run_call rg sha ff ft c s) = fresh_answer rg sha ff ft c s
   \<or> (\<exists>earlier c' later. cs = earlier @ c' # later \<and> call_key c' = call_key c
        \<and> asked_at c \<le> stored_at c' + 60 * second
        \<and> fst (run_call rg sha ff ft c s)
            = fresh_answer rg sha ff ft c' (run_calls rg sha ff ft earlier (new_field_service pol)))"
proof -
  define s where "s = run_calls rg sha ff ft cs (new_field_service pol)"
  from call_effect(3) [where s = s and c = c and rg = rg and sha = sha and ff = ff and ft = ft] have "fst (run_call rg sha ff ft c s) = fresh_answer rg sha ff ft c s
   \<or> (\<exists>earlier c' later. cs = earlier @ c' # later \<and> call_key c' = call_key c
        \<and> asked_at c \<le> stored_at c' + 60 * second
        \<and> fst (run_call rg sha ff ft c s)
            = fresh_answer rg sha ff ft c' (run_calls rg sha ff ft earlier (new_field_service pol)))"
  proof (elim disjE exE conjE)
    fix e assume e: "map_of (fs_profiles s) (call_key c) = Some e" "asked_at c \<le> cp_expires_at e"
      "fst (run_call rg sha ff ft c s) = Some (cp_profile e)"
    from e(1) have "computed_by rg sha ff ft (new_field_service pol) cs (call_key c) e"
      using cache_is_computed unfolding s_def by blast
    with e(2,3) show ?thesis unfolding computed_by_def by metis
  qed blast
  then show ?thesis by (simp only: Let_def s_def)
qed

text \<open>
  The permission checker is not part of the key: within the minute a caller who lost the permission
  to read a field is still served the profile computed when it had it.
\<close>

definition salary_model :: model_definition where
  "salary_model = zero_model_definition\<lparr>md_key := ''employee'', md_fields :=
     [zero_model_field\<lparr>mf_key := ''salary'', mf_type := ''decimal'', mf_sensitive := True,
        mf_read_permission_key := ''salary.read''\<rparr>]\<rparr>"

definition employee_context :: "permission_checker \<Rightarrow> access_context" where
  "employee_context check = \<lparr>ac_actor_id = ''A1'', ac_session_id = ''S1'', ac_organization_id = [], ac_location_id = [],
     ac_scope_id = [], ac_channel = [], ac_state = [], ac_permission_checker = Some check\<rparr>"

lemma revocation_is_not_seen_within_the_minute:
  "let call = (\<lambda>now check. ModelCall now now (employee_context check) salary_model);
       answer = (\<lambda>now. map_option (\<lambda>p. hidden p ''salary'') (fst (run_call rg sha ff ft (call now (\<lambda>_. False))
         (run_calls rg sha ff ft [call 0 (\<lambda>_. True)] (new_field_service None)))))
   in answer (60 * second) = Some False \<and> answer (60 * second + 1) = Some True"
  by code_simp

section \<open>A broken field policy\<close>

lemma no_rules_sanitize: "ap_fields p = [] \<Longrightarrow> sanitize_entry ff ft p pfx k v = Some v"
proof (induction ff ft p pfx k v rule: sanitize_entry.induct)
  case (1 ff ft p pfx key m)
  then have "(\<lambda>(k, v). case sanitize_entry ff ft p (join_path pfx key) k v of None \<Rightarrow> [] | Some w \<Rightarrow> [(k, w)]) e = [e]"
    if "e \<in> set m" for e using that by (cases e) auto
  then have "concat (map (\<lambda>(k, v). case sanitize_entry ff ft p (join_path pfx key) k v of None \<Rightarrow> [] | Some w \<Rightarrow> [(k, w)]) m) = m"
    by (induction m) auto
  with 1 show ?case by (simp add: Let_def)
qed simp_all

lemma no_rules_payload: "ap_fields p = [] \<Longrightarrow> sanitize_payload ff ft p pfx m = m"
  unfolding sanitize_payload_def by (induction m) (auto simp: no_rules_sanitize)

text \<open>
  The field policy of documents fails open. When the decision carries no output, as every
  denial does that the engine itself makes (module missing, not compiling, failing, or returning
  no decision), the profile ignores the denial and has no rules: every payload is disclosed
  unmasked and every write accepted.
\<close>

theorem broken_field_policy_discloses_everything:
  assumes pol: "fs_policy s = Some pol"
    and cold: "fst (lookup_profile now (document_cache_key ctx h) s) = None"
    and denied: "dn_output (fst (evaluate rg sha now (document_request ctx h) pol)) = []"
  shows "let p = fst (document_profile rg sha ff ft now now' ctx h s)
    in sanitize_payload ff ft p [] payload = payload \<and> validate_document_write p payload [] = None"
proof -
  have "fst (policy_fields rg sha ff ft now (document_request ctx h) (empty_document_profile h) s) = empty_document_profile h"
    using pol denied by (simp add: policy_fields_def merge_fields_def Let_def case_prod_unfold)
  then have p: "fst (document_profile rg sha ff ft now now' ctx h s) = empty_document_profile h"
    using cold by (simp add: document_profile_serve serve_policy_fields)
  then show ?thesis
    by (simp add: no_rules_payload empty_document_profile_def validate_document_write_def)
qed

definition broken_policy :: "bool policy_service" where
  "broken_policy = snd (register_hook (\<lambda>_. [])
     (demo_hook\<lparr>hd_key := ''documents.fields.profile'', hd_default_rego_source := ''garbage''\<rparr>) (new_policy_service None))"

definition demo_header :: doc_header where
  "demo_header = \<lparr>dh_id = ''D1'', dh_type = ''invoice'', dh_status = ''draft'', dh_version = 1, dh_etag = [],
     dh_organization_id = ''O1'', dh_location_id = [], dh_number = [], dh_created_by = [], dh_created_at = 0,
     dh_updated_by = [], dh_updated_at = 0, dh_submitted_by = [], dh_submitted_at = 0,
     dh_total_amount = \<lparr>amount_minor = 0, currency = []\<rparr>, dh_metadata = []\<rparr>"

theorem broken_field_policy_discloses_everything_witness:
  "let d = fst (evaluate toy_rego (\<lambda>_. ''h'') 5 (document_request (employee_context (\<lambda>_. False)) demo_header) broken_policy);
       p = fst (document_profile toy_rego (\<lambda>_. ''h'') (\<lambda>_. []) (\<lambda>_. []) 5 5 (employee_context (\<lambda>_. False)) demo_header
             (new_field_service (Some broken_policy)))
   in \<not> dn_allowed d \<and> dn_code d = ''policy_eval_compile_error''
      \<and> sanitize_payload (\<lambda>_. []) (\<lambda>_. []) p [] demo_payload = demo_payload"
proof -
  let ?ctx = "employee_context (\<lambda>_. False)"
  let ?s = "new_field_service (Some broken_policy)"
  have "fst (lookup_profile 5 (document_cache_key ?ctx demo_header) ?s) = None"
    by (simp add: lookup_profile_def new_field_service_def)
  moreover have "fs_policy ?s = Some broken_policy" by (simp add: new_field_service_def)
  moreover have d: "dn_output (fst (evaluate toy_rego (\<lambda>_. ''h'') 5 (document_request ?ctx demo_header) broken_policy)) = []"
    "\<not> dn_allowed (fst (evaluate toy_rego (\<lambda>_. ''h'') 5 (document_request ?ctx demo_header) broken_policy))"
    "dn_code (fst (evaluate toy_rego (\<lambda>_. ''h'') 5 (document_request ?ctx demo_header) broken_policy)) = ''policy_eval_compile_error''"
    by code_simp+
  ultimately show ?thesis
    using broken_field_policy_discloses_everything [of ?s broken_policy 5 ?ctx demo_header toy_rego "\<lambda>_. ''h''"
        "\<lambda>_. []" "\<lambda>_. []" 5 demo_payload]
    by (simp add: Let_def)
qed

theorem model_fields_follow_permissions_witness:
  "let p = fst (model_profile toy_rego (\<lambda>_. ''h'') (\<lambda>_. []) (\<lambda>_. []) 5 5 (employee_context (\<lambda>_. False)) salary_model
          (new_field_service None)) in
   map_of (sanitize_values (\<lambda>_. []) (\<lambda>_. []) p [(''salary'', GInt 9)]) ''salary'' = None
   \<and> validate_model_write p [(''salary'', GInt 9)] salary_model = None"
proof -
  let ?ctx = "employee_context (\<lambda>_. False)"
  obtain f where f: "md_fields salary_model = [f]" "mf_key f = ''salary''" "mf_read_permission_key f = ''salary.read''"
      "\<not> mf_read_only f" "mf_write_permission_key f = []"
    by (simp add: salary_model_def zero_model_field_def)
  have no: "\<not> allows (ac_permission_checker ?ctx) ''salary.read''" by (simp add: allows_def employee_context_def)
  have "fst (lookup_profile 5 (cache_key ?ctx salary_model) (new_field_service None)) = None"
    by (simp add: lookup_profile_def new_field_service_def)
  then show ?thesis
    using model_fields_follow_permissions [of salary_model f "new_field_service None :: bool field_service" 5 ?ctx _ toy_rego
        "\<lambda>_. ''h''" "\<lambda>_. []" "\<lambda>_. []" 5 _ "[(''salary'', GInt 9)]", OF _ _ _ _ refl refl] f no
    by (simp add: new_field_service_def Let_def)
qed

end
