(* ===== verification/ModelFacts.thy ===== *)
theory ModelFacts
  imports ModelService
begin

text \<open>
  What theory \<open>ModelService\<close> guarantees: stored records conform to their definition, versions
  guard updates, pages partition the matches, composite writes are bounded but not atomic.
\<close>

section \<open>The repository\<close>

lemma get_save_record:
  "get_model_record mk rid (save_model_record x r) =
     (if mk = mr_model_key x \<and> rid = mr_id x then Some x else get_model_record mk rid r)"
  by (auto simp: get_model_record_def save_model_record_def mget_def split: option.split)

lemma get_delete_record:
  "get_model_record mk rid (delete_model_record mk' rid' r) =
     (if mk = mk' \<and> rid = rid' then None else get_model_record mk rid r)"
  by (auto simp: get_model_record_def delete_model_record_def split: option.split)

lemma get_definition_frames [simp]:
  "get_model_definition k (save_model_record x r) = get_model_definition k r"
  "get_model_definition k (delete_model_record mk rid r) = get_model_definition k r"
  by (simp_all add: get_model_definition_def save_model_record_def delete_model_record_def split: option.split)

lemma get_save_definition:
  "get_model_definition k (save_model_definition def r) = (if k = md_key def then Some def else get_model_definition k r)"
  "get_model_record mk rid (save_model_definition def r) = get_model_record mk rid r"
  by (simp_all add: get_model_definition_def save_model_definition_def get_model_record_def)

section \<open>What a single write does\<close>

text \<open>The checks of a field, stated on the values alone.\<close>

definition field_text :: "model_env \<Rightarrow> gobj \<Rightarrow> model_field \<Rightarrow> string" where
  "field_text env vs f = trim_space (value_text env (mget GNull vs (mf_key f)))"

definition conforms :: "model_env \<Rightarrow> model_definition \<Rightarrow> gobj \<Rightarrow> bool" where
  "conforms env def vs \<longleftrightarrow> (\<forall>f \<in> set (md_fields def).
     (mf_required f \<longrightarrow> field_text env vs f \<noteq> [])
   \<and> (mf_allowed_values f = [] \<or> field_text env vs f = []
      \<or> (\<exists>a \<in> set (mf_allowed_values f). equal_fold (field_text env vs f) (trim_space a))))"

lemma prepare_record_checked:
  "prepare_record env R r def actor existing vs = Inr vs'
     \<Longrightarrow> f \<in> set (md_fields def) \<Longrightarrow> check_field env R r def actor existing vs' f = None"
  by (auto simp: prepare_record_def first_error_None split: sum.splits option.splits)

lemma check_field_conforms:
  "check_field env R r def actor existing vs f = None \<Longrightarrow>
     (mf_required f \<longrightarrow> field_text env vs f \<noteq> [])
   \<and> (mf_allowed_values f = [] \<or> field_text env vs f = []
      \<or> (\<exists>a \<in> set (mf_allowed_values f). equal_fold (field_text env vs f) (trim_space a)))"
  by (auto simp: check_field_def Let_def field_text_def validate_allowed_values_def split: if_splits option.splits)

lemma prepare_record_conforms:
  "prepare_record env R r def actor existing vs = Inr vs' \<Longrightarrow> conforms env def vs'"
  unfolding conforms_def using prepare_record_checked check_field_conforms by blast

lemma create_model_cases:
  obtains (fails) e where "create_model env R mk actor vs s = (Inl e, s)"
    | (refused) e where "create_model env R mk actor vs s = (Inl e, s\<lparr>ms_tick := Suc (ms_tick s)\<rparr>)"
    | (stored) def x where "get_model_definition (trim_space mk) (ms_repo s) = Some def"
        "prepare_record env R (ms_repo s) def actor [] vs = Inr (mr_values x)"
        "mr_model_key x = md_key def" "mr_id x = new_id (md_key def) (me_ulid env (ms_tick s))" "mr_version x = 1"
        "mr_created_by x = fallback_actor actor" "mr_updated_by x = fallback_actor actor"
        "create_model env R mk actor vs s = (Inr x, s\<lparr>ms_tick := Suc (ms_tick s), ms_repo := save_model_record x (ms_repo s)\<rparr>)"
proof (cases "get_model_definition (trim_space mk) (ms_repo s)")
  case None
  then show thesis by (intro fails) (simp add: create_model_def)
next
  case (Some def)
  show thesis
  proof (cases "prepare_record env R (ms_repo s) def actor [] vs")
    case (Inl e)
    with Some show thesis by (intro refused) (simp add: create_model_def Let_def)
  next
    case (Inr vs')
    with Some show thesis by (intro stored) (auto simp: create_model_def Let_def)
  qed
qed

lemma update_model_cases:
  obtains (fails) e where "update_model env R mk rid actor vs expected s = (Inl e, s)"
    | (refused) e where "update_model env R mk rid actor vs expected s = (Inl e, s\<lparr>ms_tick := Suc (ms_tick s)\<rparr>)"
    | (stored) def current x where "get_model_definition (trim_space mk) (ms_repo s) = Some def"
        "get_model_record (md_key def) (trim_space rid) (ms_repo s) = Some current"
        "0 < expected \<longrightarrow> mr_version current = expected"
        "prepare_record env R (ms_repo s) def actor (mr_values current) vs = Inr (mr_values x)"
        "x = current\<lparr>mr_version := mr_version current + 1, mr_updated_by := fallback_actor actor,
               mr_updated_at := me_clock env (ms_tick s), mr_values := mr_values x\<rparr>"
        "update_model env R mk rid actor vs expected s =
           (Inr x, s\<lparr>ms_tick := Suc (ms_tick s), ms_repo := save_model_record x (ms_repo s)\<rparr>)"
proof (cases "get_model_definition (trim_space mk) (ms_repo s)")
  case None
  then show thesis by (intro fails) (simp add: update_model_def)
next
  case (Some def)
  note def = Some
  show thesis
  proof (cases "get_model_record (md_key def) (trim_space rid) (ms_repo s)")
    case None
    with def show thesis by (intro fails) (simp add: update_model_def)
  next
    case (Some current)
    show thesis
    proof (cases "0 < expected \<and> mr_version current \<noteq> expected")
      case True
      with def Some show thesis by (intro fails) (simp add: update_model_def)
    next
      case False
      show thesis
      proof (cases "prepare_record env R (ms_repo s) def actor (mr_values current) vs")
        case (Inl e)
        with def Some False show thesis by (intro refused) (auto simp: update_model_def Let_def)
      next
        case (Inr vs')
        with def Some False show thesis by (intro stored [of def current
            "current\<lparr>mr_version := mr_version current + 1, mr_updated_by := fallback_actor actor,
               mr_updated_at := me_clock env (ms_tick s), mr_values := vs'\<rparr>"]) (auto simp: update_model_def Let_def)
      qed
    qed
  qed
qed

section \<open>Composite writes keep what single writes and deletions keep\<close>

text \<open>
  The contract of the writes a composite is made of: \<open>I env k s\<close> says that the state \<open>s\<close> is
  as it should be after at most \<open>k\<close> creates and updates. Whatever one create, one update and
  one deletion keep is kept by the whole tree of mutations.
\<close>

fun mutation_count :: "(string \<times> child_mutation list) list \<Rightarrow> nat" and child_count :: "child_mutation list \<Rightarrow> nat" where
  "mutation_count [] = 0"
| "mutation_count ((k, ms) # rels) = child_count ms + mutation_count rels"
| "child_count [] = 0"
| "child_count (Child op cid ev vs rels # ms) = Suc (mutation_count rels + child_count ms)"

locale kept_by_writes =
  fixes I :: "model_env \<Rightarrow> nat \<Rightarrow> model_state \<Rightarrow> bool"
  assumes create: "I env k s \<Longrightarrow> I env (Suc k) (snd (create_model env R mk actor vs s))"
    and update: "I env k s \<Longrightarrow> I env (Suc k) (snd (update_model env R mk rid actor vs expected s))"
    and delete: "I env k s \<Longrightarrow> I env k (s\<lparr>ms_repo := delete_model_record mk rid (ms_repo s)\<rparr>)"
    and weaken: "I env k s \<Longrightarrow> k \<le> l \<Longrightarrow> I env l s"
begin

lemma create_result: "I env k s \<Longrightarrow> create_model env R mk actor vs s = (res, t) \<Longrightarrow> I env (Suc k) t"
  using create [of env k s R mk actor vs] by simp

lemma update_result: "I env k s \<Longrightarrow> update_model env R mk rid actor vs expected s = (res, t) \<Longrightarrow> I env (Suc k) t"
  using update [of env k s R mk rid actor vs expected] by simp

text \<open>The induction over the tree, on the size that bounds the recursion.\<close>

definition kept_upto :: "nat \<Rightarrow> bool" where
  "kept_upto n \<longleftrightarrow>
     (\<forall>env k R mk rid actor rels s. 2 * relations_size rels < n \<longrightarrow> I env k s
        \<longrightarrow> I env (k + mutation_count rels) (snd (apply_relations env R mk rid actor rels s)))
   \<and> (\<forall>env k R mk def rid actor rels acc s. 2 * relations_size rels \<le> n \<longrightarrow> I env k s
        \<longrightarrow> I env (k + mutation_count rels) (snd (apply_each_relation env R mk def rid actor rels acc s)))
   \<and> (\<forall>env k R rl rid actor existing ms applied s. 2 * children_size ms \<le> n \<longrightarrow> I env k s
        \<longrightarrow> I env (k + child_count ms) (snd (apply_children env R rl rid actor existing ms applied s)))"

lemma kept_uptoD:
  assumes "kept_upto n" "I env k s"
  shows "apply_relations env R mk rid actor rels s = (r1, t) \<Longrightarrow> 2 * relations_size rels < n
      \<Longrightarrow> I env (k + mutation_count rels) t"
    and "2 * relations_size rels \<le> n \<Longrightarrow> k + mutation_count rels \<le> l
      \<Longrightarrow> I env l (snd (apply_each_relation env R mk def rid actor rels acc s))"
    and "2 * children_size ms \<le> n \<Longrightarrow> k + child_count ms \<le> l
      \<Longrightarrow> I env l (snd (apply_children env R rl rid actor existing ms applied s))"
proof -
  note D = assms(1) [unfolded kept_upto_def] and s = assms(2)
  show "apply_relations env R mk rid actor rels s = (r1, t) \<Longrightarrow> 2 * relations_size rels < n
      \<Longrightarrow> I env (k + mutation_count rels) t"
    using D [THEN conjunct1, rule_format, of rels env k s R mk rid actor] s by simp
  show "2 * relations_size rels \<le> n \<Longrightarrow> k + mutation_count rels \<le> l
      \<Longrightarrow> I env l (snd (apply_each_relation env R mk def rid actor rels acc s))"
    using D [THEN conjunct2, THEN conjunct1] s by (blast intro: weaken)
  show "2 * children_size ms \<le> n \<Longrightarrow> k + child_count ms \<le> l
      \<Longrightarrow> I env l (snd (apply_children env R rl rid actor existing ms applied s))"
    using D [THEN conjunct2, THEN conjunct2] s by (blast intro: weaken)
qed

lemma kept_by_child:
  assumes IH: "kept_upto n" and s: "I env k s"
    and small: "2 * relations_size rels < n" "2 * children_size ms \<le> n"
  shows "I env (Suc (k + (mutation_count rels + child_count ms)))
    (snd (apply_children env R rl rid actor existing (Child operation cid expected vs rels # ms) applied s))"
proof -
  let ?target = "rl_target_model_key rl" and ?vs = "mput (rl_foreign_key rl) (GStr rid) vs"
  let ?k = "Suc (k + (mutation_count rels + child_count ms))"
  have rest: "I env ?k (snd (apply_children env R rl rid actor existing ms acc t))"
    if "I env (Suc (k + mutation_count rels)) t" for acc t
    by (rule kept_uptoD(3) [OF IH that small(2)]) simp
  have sub: "I env (Suc (k + mutation_count rels)) u"
    if "apply_relations env R ?target i actor rels t = (q, u)" "I env (Suc k) t" for i q t u
    using kept_uptoD(1) [OF IH that(2,1) small(1)] by simp
  have stop: "I env ?k t" if "I env (Suc (k + mutation_count rels)) t" for t
    by (rule weaken [OF that]) simp
  consider (gone) "mutation_op operation = ''delete''" | (new) "mutation_op operation \<noteq> ''delete''" "trim_space cid = []"
    | (old) "mutation_op operation \<noteq> ''delete''" "trim_space cid \<noteq> []" by blast
  then show ?thesis
  proof cases
    case gone
    have "I env (Suc (k + mutation_count rels)) s" "I env ?k s" using s by (auto intro: weaken)
    with gone show ?thesis by (auto simp: Let_def intro!: rest delete)
  next
    case new
    obtain c t where c: "create_model env R ?target actor ?vs s = (c, t)" by fastforce
    then have t: "I env (Suc k) t" by (rule create_result [OF s])
    then have t': "I env ?k t" by (rule weaken) simp
    obtain q u where q: "apply_relations env R ?target (mr_id (projr c)) actor rels t = (q, u)" by fastforce
    note u = sub [OF q t]
    with new c t' q stop [OF u] show ?thesis
      by (cases c; cases q) (auto simp: Let_def intro!: rest delete)
  next
    case old
    show ?thesis
    proof (cases "map_of existing (trim_space cid)")
      case (Some current)
      let ?expected = "if expected = 0 then mr_version current else expected"
      obtain c t where c: "update_model env R ?target (mr_id current) actor ?vs ?expected s = (c, t)" by fastforce
      then have t: "I env (Suc k) t" by (rule update_result [OF s])
      then have t': "I env ?k t" by (rule weaken) simp
      obtain q u where q: "apply_relations env R ?target (mr_id (projr c)) actor rels t = (q, u)" by fastforce
      note u = sub [OF q t]
      with old Some c t' q stop [OF u] show ?thesis
        by (cases c; cases q) (auto simp: Let_def intro!: rest)
    qed (use old weaken [OF s] in \<open>simp add: Let_def\<close>)
  qed
qed

lemma kept_upto_Suc:
  assumes IH: "kept_upto n"
  shows "kept_upto (Suc n)"
proof -
  have children: "I env (k + child_count ms) (snd (apply_children env R rl rid actor existing ms applied s))"
    if "2 * children_size ms \<le> Suc n" "I env k s" for env k R rl rid actor existing ms applied s
  proof (cases ms)
    case (Cons m ms')
    obtain operation cid expected vs rels where m: "m = Child operation cid expected vs rels" by (cases m)
    with Cons that(1) have "2 * relations_size rels < n" "2 * children_size ms' \<le> n" by simp_all
    then show ?thesis unfolding Cons m using kept_by_child [OF IH that(2)] by (simp del: apply_children.simps)
  qed (use that in simp)
  have each: "I env (k + mutation_count rels) (snd (apply_each_relation env R mk def rid actor rels acc s))"
    if "2 * relations_size rels \<le> Suc n" "I env k s" for env k R mk def rid actor rels acc s
  proof (cases rels)
    case (Cons e rels')
    obtain key ms where e: "e = (key, ms)" by (cases e)
    have now: "I env (k + mutation_count rels) s" using that(2) by (rule weaken) simp
    show ?thesis
    proof (cases "find_relation def key")
      case (Some rl)
      show ?thesis
      proof (cases "existing_children env mk rid key (ms_repo s)")
        case (Inr existing)
        obtain q t where q: "apply_children env R rl rid actor existing ms [] s = (q, t)" by fastforce
        have "2 * children_size ms \<le> n" using that(1) Cons e by simp
        from kept_uptoD(3) [OF IH that(2) this order_refl, of R rl rid actor existing "[]"]
        have t: "I env (k + child_count ms) t" by (simp add: q)
        then have "I env (k + mutation_count rels) t" by (rule weaken) (simp add: Cons e)
        with t show ?thesis using Some Inr q Cons e that
          by (cases q) (auto intro!: kept_uptoD(2) [OF IH])
      qed (use Cons e Some now in simp)
    qed (use Cons e now in simp)
  qed (use that in simp)
  have rels: "I env (k + mutation_count rels) (snd (apply_relations env R mk rid actor rels s))"
    if "2 * relations_size rels < Suc n" "I env k s" for env k R mk rid actor rels s
    using that weaken [OF that(2), of "k + mutation_count rels"]
    by (auto simp: apply_relations.simps split: option.split intro!: kept_uptoD(2) [OF IH])
  show ?thesis unfolding kept_upto_def by (intro conjI allI impI) (rule rels each children; assumption)+
qed

lemma kept_upto: "kept_upto n"
proof (induction n)
  case 0
  have none: "children_size ms = 0 \<Longrightarrow> ms = []" for ms
    by (cases ms) (auto, metis children_size.simps(2) child_mutation.exhaust nat.distinct(1))
  have "I env (k + child_count ms) (snd (apply_children env R rl rid actor existing ms applied s))"
    if "I env k s" "2 * children_size ms \<le> 0" for env k R rl rid actor existing ms applied s
    using none [of ms] that by simp
  moreover have "I env (k + mutation_count rels) (snd (apply_each_relation env R mk def rid actor rels acc s))"
    if "I env k s" "2 * relations_size rels \<le> 0" for env k R mk def rid actor rels acc s
    using that by (cases rels) auto
  ultimately show ?case unfolding kept_upto_def by blast
qed (rule kept_upto_Suc)

lemma relations:
  "I env k s \<Longrightarrow> apply_relations env R mk rid actor rels s = (res, t) \<Longrightarrow> I env (k + mutation_count rels) t"
  by (rule kept_uptoD(1) [OF kept_upto _ _ lessI])

lemma create_composite:
  "I env k s \<Longrightarrow> I env (Suc k + mutation_count (cm_relations m)) (snd (create_composite env R mk actor m s))"
proof -
  assume s: "I env k s"
  obtain c t where c: "create_model env R mk actor (cm_values m) s = (c, t)" by fastforce
  then have t: "I env (Suc k) t" by (rule create_result [OF s])
  obtain q u where q: "apply_relations env R mk (mr_id (projr c)) actor (cm_relations m) t = (q, u)" by fastforce
  then have "I env (Suc k + mutation_count (cm_relations m)) u" by (rule relations [OF t])
  with c t q weaken [OF t] show ?thesis by (cases c; cases q) (auto simp: create_composite_def intro!: delete)
qed

lemma update_composite:
  "I env k s \<Longrightarrow> I env (Suc k + mutation_count (cm_relations m)) (snd (update_composite env R mk rid actor m s))"
proof -
  assume s: "I env k s"
  obtain c t where c: "update_model env R mk rid actor (cm_values m) (cm_expected_version m) s = (c, t)" by fastforce
  then have t: "I env (Suc k) t" by (rule update_result [OF s])
  obtain q u where q: "apply_relations env R mk (mr_id (projr c)) actor (cm_relations m) t = (q, u)" by fastforce
  then have "I env (Suc k + mutation_count (cm_relations m)) u" by (rule relations [OF t])
  with c t q weaken [OF t] show ?thesis by (cases c; cases q) (auto simp: update_composite_def)
qed

lemma create_related: "I env k s \<Longrightarrow> I env (Suc k) (snd (create_related env R mk rid rk actor vs s))"
  using weaken [of env k s "Suc k"] by (auto simp: create_related_def create split: option.split)

end

section \<open>Stored records conform to their definition\<close>

definition models_ok :: "model_env \<Rightarrow> model_state \<Rightarrow> bool" where
  "models_ok env s \<longleftrightarrow>
     (\<forall>key def. get_model_definition key (ms_repo s) = Some def \<longrightarrow> md_key def = key)
   \<and> (\<forall>mk rid x. get_model_record mk rid (ms_repo s) = Some x \<longrightarrow>
        mr_model_key x = mk \<and> mr_id x = rid \<and> 1 \<le> mr_version x
      \<and> (\<exists>def. get_model_definition mk (ms_repo s) = Some def \<and> conforms env def (mr_values x)))"

lemma models_ok_definition: "models_ok env s \<Longrightarrow> get_model_definition key (ms_repo s) = Some def \<Longrightarrow> md_key def = key"
  and models_ok_record: "models_ok env s \<Longrightarrow> get_model_record mk rid (ms_repo s) = Some x \<Longrightarrow>
      mr_model_key x = mk \<and> mr_id x = rid \<and> 1 \<le> mr_version x
      \<and> (\<exists>def. get_model_definition mk (ms_repo s) = Some def \<and> conforms env def (mr_values x))"
  unfolding models_ok_def by blast+

lemma models_ok_save:
  assumes ok: "models_ok env s" and def: "get_model_definition (mr_model_key x) (ms_repo s) = Some def"
    and x: "conforms env def (mr_values x)" "1 \<le> mr_version x"
    and t: "ms_repo t = save_model_record x (ms_repo s)"
  shows "models_ok env t"
  unfolding models_ok_def t get_definition_frames get_save_record
  using models_ok_definition [OF ok] models_ok_record [OF ok] def x by (auto split: if_splits)

lemma models_ok_repo: "ms_repo t = ms_repo s \<Longrightarrow> models_ok env s \<Longrightarrow> models_ok env t"
  by (simp add: models_ok_def)

lemma models_ok_create: "models_ok env s \<Longrightarrow> models_ok env (snd (create_model env R mk actor vs s))"
proof (cases rule: create_model_cases [of env R mk actor vs s])
  case (stored def x)
  assume ok: "models_ok env s"
  have "get_model_definition (mr_model_key x) (ms_repo s) = Some def"
    using stored(1,3) models_ok_definition [OF ok stored(1)] by simp
  then have "models_ok env (s\<lparr>ms_tick := Suc (ms_tick s), ms_repo := save_model_record x (ms_repo s)\<rparr>)"
    using prepare_record_conforms [OF stored(2)] stored(5) by (intro models_ok_save [OF ok]) simp_all
  with stored show ?thesis by simp
qed (auto intro: models_ok_repo)

lemma models_ok_update: "models_ok env s \<Longrightarrow> models_ok env (snd (update_model env R mk rid actor vs expected s))"
proof (cases rule: update_model_cases [of env R mk rid actor vs expected s])
  case (stored def current x)
  assume ok: "models_ok env s"
  note cur = models_ok_record [OF ok stored(2)]
  have "mr_model_key x = mr_model_key current" "mr_version x = mr_version current + 1"
    by (subst stored(5), simp)+
  then have "get_model_definition (mr_model_key x) (ms_repo s) = Some def" "1 \<le> mr_version x"
    using stored(1) models_ok_definition [OF ok stored(1)] cur by auto
  then have "models_ok env (s\<lparr>ms_tick := Suc (ms_tick s), ms_repo := save_model_record x (ms_repo s)\<rparr>)"
    using prepare_record_conforms [OF stored(4)] by (intro models_ok_save [OF ok]) simp_all
  with stored(6) show ?thesis by simp
qed (auto intro: models_ok_repo)

lemma models_ok_delete: "models_ok env s \<Longrightarrow> models_ok env (s\<lparr>ms_repo := delete_model_record mk rid (ms_repo s)\<rparr>)"
  unfolding models_ok_def by (simp add: get_delete_record)

interpretation conf: kept_by_writes "\<lambda>env k s. models_ok env s"
  by unfold_locales (auto intro: models_ok_create models_ok_update models_ok_delete)

interpretation budget: kept_by_writes "\<lambda>env k s. ms_tick s \<le> b + k" for b
proof
  fix env :: model_env and k :: nat and s :: model_state and R mk actor vs
  assume "ms_tick s \<le> b + k"
  then show "ms_tick (snd (create_model env R mk actor vs s)) \<le> b + Suc k"
    by (cases rule: create_model_cases [of env R mk actor vs s]) auto
next
  fix env :: model_env and k :: nat and s :: model_state and R mk rid actor vs expected
  assume "ms_tick s \<le> b + k"
  then show "ms_tick (snd (update_model env R mk rid actor vs expected s)) \<le> b + Suc k"
    by (cases rule: update_model_cases [of env R mk rid actor vs expected s]) auto
qed auto

lemma models_ok_register: "models_ok env s \<Longrightarrow> models_ok env (snd (register_model def s))"
proof -
  assume ok: "models_ok env s"
  show ?thesis
  proof (cases "fst (register_model def s)")
    case None
    then have new: "get_model_definition (md_key def) (ms_repo s) = None"
        and t: "snd (register_model def s) = s\<lparr>ms_repo := save_model_definition def (ms_repo s)\<rparr>"
      by (auto simp: register_model_def split: if_splits)
    have other: "mk \<noteq> md_key def" if "get_model_record mk rid (ms_repo s) = Some x" for mk rid x
      using models_ok_record [OF ok that] new by auto
    show ?thesis unfolding models_ok_def t
      using models_ok_definition [OF ok] models_ok_record [OF ok] other by (auto simp: get_save_definition)
  next
    case (Some e)
    then have "snd (register_model def s) = s" by (auto simp: register_model_def split: if_splits)
    with ok show ?thesis by simp
  qed
qed

inductive model_reachable :: "model_env \<Rightarrow> model_state \<Rightarrow> bool" for env where
  new: "model_reachable env \<lparr>ms_repo = new_model_repo, ms_tick = 0\<rparr>"
| register: "model_reachable env s \<Longrightarrow> model_reachable env (snd (register_model def s))"
| create: "model_reachable env s \<Longrightarrow> model_reachable env (snd (create_model env R mk actor vs s))"
| update: "model_reachable env s \<Longrightarrow> model_reachable env (snd (update_model env R mk rid actor vs expected s))"
| related: "model_reachable env s \<Longrightarrow> model_reachable env (snd (create_related env R mk rid rk actor vs s))"
| create_composite: "model_reachable env s \<Longrightarrow> model_reachable env (snd (create_composite env R mk actor m s))"
| update_composite: "model_reachable env s \<Longrightarrow> model_reachable env (snd (update_composite env R mk rid actor m s))"

lemma reachable_models_ok: "model_reachable env s \<Longrightarrow> models_ok env s"
proof (induction rule: model_reachable.induct)
  case new
  show ?case by (simp add: models_ok_def new_model_repo_def get_model_definition_def get_model_record_def)
qed (auto intro: models_ok_register models_ok_create models_ok_update conf.create_related
    conf.create_composite conf.update_composite)


text \<open>
  A composite write always ends, and does at most one create or update per mutation of its tree
  and one for its root: it draws no more identifiers and clock readings than that.
\<close>

theorem composite_writes_are_bounded:
  "ms_tick (snd (create_composite env R mk actor m s)) \<le> ms_tick s + Suc (mutation_count (cm_relations m))
   \<and> ms_tick (snd (update_composite env R mk rid actor m s)) \<le> ms_tick s + Suc (mutation_count (cm_relations m))"
  using budget.create_composite [where b = "ms_tick s" and k = 0 and s = s and m = m]
    budget.update_composite [where b = "ms_tick s" and k = 0 and s = s and m = m] by simp

section \<open>Versions guard updates\<close>

text \<open>
  C33: no update is lost. An update made with an expected version is stored only if the record still
  has that version; it then has the next one, every other record is as before, and a second update
  with the same expected version, whatever its values, is refused as a conflict and changes nothing.
  A refused update leaves the repository as it was.
\<close>

theorem updates_are_not_lost:
  assumes ok: "model_reachable env s" and e: "0 < expected"
    and upd: "update_model env R mk rid actor vs expected s = (res, s')"
  shows "(case res of
      Inl err \<Rightarrow> ms_repo s' = ms_repo s
    | Inr x \<Rightarrow> map_option mr_version (get_model_record (mr_model_key x) (mr_id x) (ms_repo s)) = Some expected
        \<and> mr_version x = expected + 1
        \<and> (\<forall>mk' rid'. get_model_record mk' rid' (ms_repo s') =
              (if mk' = mr_model_key x \<and> rid' = mr_id x then Some x else get_model_record mk' rid' (ms_repo s)))
        \<and> update_model env R' mk rid actor' vs' expected s' = (Inl (Conflict ''record version mismatch''), s'))"
proof (cases rule: update_model_cases [of env R mk rid actor vs expected s])
  case (stored def current x)
  have x: "mr_model_key x = mr_model_key current" "mr_id x = mr_id current" "mr_version x = mr_version current + 1"
    by (subst stored(5), simp)+
  have cur: "mr_model_key current = md_key def" "mr_id current = trim_space rid"
    using models_ok_record [OF reachable_models_ok [OF ok] stored(2)] by simp_all
  have v: "mr_version current = expected" using stored(3) e by simp
  have res: "res = Inr x" "s' = s\<lparr>ms_tick := Suc (ms_tick s), ms_repo := save_model_record x (ms_repo s)\<rparr>"
    using upd stored(6) by simp_all
  have "get_model_record (md_key def) (trim_space rid) (ms_repo s') = Some x"
    by (simp add: res(2) get_save_record x cur)
  moreover have "get_model_definition (trim_space mk) (ms_repo s') = Some def" using stored(1) by (simp add: res(2))
  ultimately have "update_model env R' mk rid actor' vs' expected s' = (Inl (Conflict ''record version mismatch''), s')"
    using e by (simp add: update_model_def x v)
  with stored(2) show ?thesis by (simp add: res(1)) (simp add: res(2) get_save_record x cur v)
qed (use upd in auto)

section \<open>Pages\<close>

lemma take_add_drop: "take n xs @ take m (drop n xs) = take (n + m) xs"
  by (simp add: take_add)

lemma query_page:
  assumes page: "1 \<le> page" and size: "1 \<le> mq_page_size q" and small: "page * mq_page_size q < 2 ^ 63"
  shows "query_records env def (q\<lparr>mq_page := page\<rparr>) r =
    Some (take (nat (mq_page_size q)) (drop (nat ((page - 1) * mq_page_size q)) (query_matches env def q r)),
      length (query_matches env def q r))"
proof -
  let ?m = "query_matches env def q r" and ?n = "mq_page_size q"
  have m: "query_matches env def (q\<lparr>mq_page := page\<rparr>) r = ?m" by (simp add: query_matches_def)
  have pos: "0 \<le> (page - 1) * ?n" using page size by simp
  have eq: "(page - 1) * ?n + ?n = page * ?n" by (simp add: algebra_simps)
  have "(page - 1) * ?n < 2 ^ 63" using small eq size by linarith
  then have w: "wrap64 ((page - 1) * ?n) = (page - 1) * ?n" using pos by (intro wrap64_id) auto
  have w': "wrap64 ((page - 1) * ?n + ?n) = (page - 1) * ?n + ?n"
    using small eq pos size by (intro wrap64_id) auto
  show ?thesis
  proof (cases "int (length ?m) \<le> (page - 1) * ?n")
    case True
    then have "drop (nat ((page - 1) * ?n)) ?m = []" by simp
    with True show ?thesis by (simp add: query_records_def m w Let_def)
  next
    case False
    have "take (nat (int (length ?m) - (page - 1) * ?n)) (drop (nat ((page - 1) * ?n)) ?m)
        = take (nat ?n) (drop (nat ((page - 1) * ?n)) ?m)" if "int (length ?m) < (page - 1) * ?n + ?n"
      using that False pos by (simp add: nat_diff_distrib nat_less_iff)
    with False pos size show ?thesis
      by (auto simp: query_records_def m w w' Let_def slice_of_def)
  qed
qed

lemma pages_concat:
  assumes size: "1 \<le> mq_page_size q" and small: "int n * mq_page_size q < 2 ^ 63"
  shows "concat (map (\<lambda>p. case query_records env def (q\<lparr>mq_page := int p\<rparr>) r of Some (xs, _) \<Rightarrow> xs | None \<Rightarrow> []) [1..<Suc n])
    = take (n * nat (mq_page_size q)) (query_matches env def q r)"
  using small
proof (induction n)
  case (Suc n)
  have "int n * mq_page_size q < 2 ^ 63" using Suc.prems size by (simp add: algebra_simps)
  note IH = Suc.IH [OF this]
  have "nat ((int (Suc n) - 1) * mq_page_size q) = n * nat (mq_page_size q)"
    using size by (simp add: nat_mult_distrib)
  moreover have "take (Suc n * nat (mq_page_size q)) xs = take (n * nat (mq_page_size q)) xs
      @ take (nat (mq_page_size q)) (drop (n * nat (mq_page_size q)) xs)" for xs :: "model_record list"
    by (simp add: take_add_drop add.commute)
  ultimately show ?case using IH Suc.prems size query_page [of "int (Suc n)" q env def r]
    by (simp del: of_nat_Suc mult_Suc)
qed simp

text \<open>
  C37: the pages of a query partition its matches. A query normalised by the service has pages of 1
  to 100 records; the first \<open>n\<close> pages together are the first records of the sorted matches, every
  page reports how many matches there are, and enough pages give every match exactly once.
\<close>

theorem pages_partition_the_matches:
  assumes "normalize_query def q0 = Inr q" and "int n * 100 < 2 ^ 63"
    and "int (length (query_matches env def q r)) \<le> int n * mq_page_size q"
  shows "1 \<le> mq_page_size q \<and> mq_page_size q \<le> 100
    \<and> concat (map (\<lambda>p. case query_records env def (q\<lparr>mq_page := int p\<rparr>) r of Some (xs, _) \<Rightarrow> xs | None \<Rightarrow> []) [1..<Suc n])
        = query_matches env def q r
    \<and> list_all (\<lambda>p. map_option snd (query_records env def (q\<lparr>mq_page := int p\<rparr>) r)
        = Some (length (query_matches env def q r))) [1..<Suc n]"
proof -
  have size: "1 \<le> mq_page_size q" "mq_page_size q \<le> 100"
    using assms(1) by (auto simp: normalize_query_def Let_def default_page_size_def max_page_size_def split: option.splits)
  have small: "int p * mq_page_size q < 2 ^ 63" if "p \<le> n" for p
  proof -
    have "int p * mq_page_size q \<le> int n * 100" using that size by (intro mult_mono) auto
    with assms(2) show ?thesis by simp
  qed
  have "length (query_matches env def q r) \<le> n * nat (mq_page_size q)"
    using assms(3) size by (metis nat_int_comparison(3) of_nat_mult int_nat_eq less_imp_le order_trans zero_le_one)
  then have "concat (map (\<lambda>p. case query_records env def (q\<lparr>mq_page := int p\<rparr>) r of Some (xs, _) \<Rightarrow> xs | None \<Rightarrow> []) [1..<Suc n])
        = query_matches env def q r"
    using pages_concat [OF size(1) small [OF order_refl]] by simp
  moreover have "map_option snd (query_records env def (q\<lparr>mq_page := int p\<rparr>) r) = Some (length (query_matches env def q r))"
    if "p \<in> set [1..<Suc n]" for p
  proof -
    have p: "1 \<le> int p" "p \<le> n" using that by auto
    show ?thesis using query_page [OF p(1) size(1) small [OF p(2)]] by simp
  qed
  ultimately show ?thesis using size by (simp add: list_all_iff)
qed

text \<open>A page number near the top of the range wraps the start of the slice below zero: the query panics.\<close>

lemma huge_page_panics:
  "mq_page q = 2 ^ 62 \<Longrightarrow> mq_page_size q = 100 \<Longrightarrow> query_records env def q r = None"
  by (simp add: query_records_def Let_def wrap64_def slice_of_def)

section \<open>Children beyond the first page, and failed composites\<close>

lemma length_fold_mput: "length (fold (\<lambda>x. mput (f x) x) xs m) \<le> length xs + length m"
proof (induction xs arbitrary: m)
  case (Cons x xs)
  have "length (mput (f x) x m) \<le> Suc (length m)" by (induction m) auto
  with Cons [of "mput (f x) x m"] show ?case by simp
qed simp

lemma first_page_small:
  assumes "normalize_query def q0 = Inr q" and "query_records env def q r = Some (xs, n)" and "mq_page q0 = 1"
  shows "length xs \<le> 100"
proof -
  have size: "1 \<le> mq_page_size q" "mq_page_size q \<le> 100" "mq_page q = 1"
    using assms(1,3) by (auto simp: normalize_query_def Let_def default_page_size_def max_page_size_def split: option.splits)
  from size(3) have "q\<lparr>mq_page := 1\<rparr> = q" by simp
  with query_page [of 1 q env def r] size assms(2) have "xs = take (nat (mq_page_size q)) (query_matches env def q r)" by simp
  then have "length xs \<le> nat (mq_page_size q)" by simp
  with size(2) show ?thesis by simp
qed

lemma existing_children_small: "existing_children env mk rid rk r = Inr existing \<Longrightarrow> length existing \<le> 100"
proof -
  assume "existing_children env mk rid rk r = Inr existing"
  then obtain xs n where rel: "related_models env mk rid rk children_query r = Some (Inr (xs, n))"
      and ex: "existing = fold (\<lambda>x. mput (mr_id x) x) xs []"
    by (auto simp: existing_children_def split: option.splits sum.splits)
  then have "length xs \<le> 100"
    by (auto simp: related_models_def list_models_def children_query_def split: option.splits sum.splits
      dest!: first_page_small)
  with length_fold_mput [of mr_id xs "[]"] show ?thesis by (simp add: ex)
qed

text \<open>
  Only the first hundred children of a record can be changed through it. Although
  \<open>applyRelations\<close> asks for a page of 1000, the page is cut to 100, and a mutation that names any
  other child, an update or a deletion, is refused as not found. Among more than a hundred
  children there is always such a child.
\<close>

theorem children_beyond_a_hundred_are_not_found:
  assumes "existing_children env mk rid rk (ms_repo s) = Inr existing"
    and "100 < card ids" and ids: "\<forall>i \<in> ids. trim_space i = i \<and> i \<noteq> []"
  shows "\<exists>i \<in> ids. \<forall>operation expected vs rels ms applied.
    apply_children env R rl rid actor existing (Child operation i expected vs rels # ms) applied s
      = (Inl (NotFound ''related record not found''), s)"
proof -
  have "card (set (mkeys existing)) \<le> 100"
    using card_length [of "mkeys existing"] existing_children_small [OF assms(1)] by (simp add: mkeys_def)
  with assms(2) have "\<not> ids \<subseteq> set (mkeys existing)"
    using card_mono [of "set (mkeys existing)" ids] by auto
  then obtain i where "i \<in> ids" "i \<notin> set (mkeys existing)" by blast
  then have i: "i \<in> ids" "map_of existing i = None" using map_of_keys_iff [of i existing] by auto
  moreover have "trim_space i = i" "i \<noteq> []" using ids i(1) by auto
  ultimately show ?thesis by (intro bexI [of _ i]) (simp_all add: Let_def)
qed

text \<open>A demonstration: orders with lines and notes; a note needs a text.\<close>

definition demo_model_env :: model_env where
  "demo_model_env = \<lparr>me_ulid = (\<lambda>n. show_nat n), me_clock = (\<lambda>n. int n), me_decimal = (\<lambda>_. []), me_float = (\<lambda>_. []),
     me_time = (\<lambda>_. []), me_stamp = (\<lambda>_. [])\<rparr>"

definition demo_model :: "string \<Rightarrow> model_field list \<Rightarrow> relation_definition list \<Rightarrow> model_definition" where
  "demo_model key fs rels = zero_model_definition\<lparr>md_key := key, md_display_name := key, md_fields := fs, md_relations := rels\<rparr>"

definition demo_field :: "string \<Rightarrow> bool \<Rightarrow> model_field" where
  "demo_field key required = zero_model_field\<lparr>mf_key := key, mf_type := ''string'', mf_required := required\<rparr>"

definition demo_relation :: "string \<Rightarrow> string \<Rightarrow> relation_definition" where
  "demo_relation key target = \<lparr>rl_key = key, rl_type = ''one_to_many'', rl_target_model_key = target, rl_foreign_key = ''order_id''\<rparr>"

definition demo_models :: model_state where
  "demo_models = snd (register_model (demo_model ''note'' [demo_field ''order_id'' False, demo_field ''text'' True] [])
    (snd (register_model (demo_model ''line'' [demo_field ''order_id'' False] [])
    (snd (register_model (demo_model ''order'' [] [demo_relation ''lines'' ''line'', demo_relation ''notes'' ''note''])
      \<lparr>ms_repo = new_model_repo, ms_tick = 0\<rparr>)))))"

definition new_child :: "gobj \<Rightarrow> child_mutation" where
  "new_child vs = Child [] [] 0 vs []"

lemma demo_models_reachable: "model_reachable env demo_models"
  unfolding demo_models_def by (intro model_reachable.intros)

text \<open>
  A composite write is not atomic by itself. When a child of a new record is refused, the record
  is taken back, but the children already created stay and refer to a record that does not exist.
\<close>

theorem failed_composite_leaves_orphans:
  "let order = new_id ''order'' (show_nat 0); line = new_id ''line'' (show_nat 1);
       (res, s) = create_composite demo_model_env new_model_rules ''order'' ''u1''
         \<lparr>cm_expected_version = 0, cm_values = [], cm_relations = [(''lines'', [new_child []]), (''notes'', [new_child []])]\<rparr> demo_models
   in res = Inl (Validation ''required model field is missing: text'')
    \<and> get_model_record ''order'' order (ms_repo s) = None
    \<and> map_option (\<lambda>x. map_of (mr_values x) ''order_id'') (get_model_record ''line'' line (ms_repo s)) = Some (Some (GStr order))"
  by code_simp

definition one_order :: model_state where
  "one_order = snd (create_model demo_model_env new_model_rules ''order'' ''u1'' [(''total'', GInt 3)] demo_models)"

lemma one_order_reachable: "model_reachable demo_model_env one_order"
  unfolding one_order_def by (intro model_reachable.create demo_models_reachable)


theorem updates_are_not_lost_witness:
  "let (res, s) = update_model demo_model_env new_model_rules ''order'' (new_id ''order'' (show_nat 0)) ''u2'' [(''total'', GInt 5)] 1 one_order
   in map_sum (\<lambda>e. e) mr_version res = Inr 2
    \<and> update_model demo_model_env new_model_rules ''order'' (new_id ''order'' (show_nat 0)) ''u3'' [(''total'', GInt 7)] 1 s
      = (Inl (Conflict ''record version mismatch''), s)"
proof -
  let ?id = "new_id ''order'' (show_nat 0)"
  obtain res s where upd: "update_model demo_model_env new_model_rules ''order'' ?id ''u2'' [(''total'', GInt 5)] 1 one_order = (res, s)"
    by fastforce
  have "map_sum (\<lambda>e. e) mr_version (fst (update_model demo_model_env new_model_rules ''order'' ?id ''u2'' [(''total'', GInt 5)] 1 one_order)) = Inr 2"
    by code_simp
  then have "map_sum (\<lambda>e. e) mr_version res = Inr 2" by (simp add: upd)
  moreover from this obtain x where "res = Inr x" by (cases res) auto
  ultimately show ?thesis
    using updates_are_not_lost [OF one_order_reachable zero_less_one upd, of new_model_rules "''u3''" "[(''total'', GInt 7)]"]
    by (simp add: upd)
qed

theorem pages_partition_the_matches_witness:
  "let q = \<lparr>mq_filters = [], mq_sort_key = [], mq_desc = False, mq_page = 7, mq_page_size = 20\<rparr> in
   map (\<lambda>p. map_option fst (query_records demo_model_env (demo_model ''order'' [] []) (q\<lparr>mq_page := int p\<rparr>) (ms_repo one_order))) [1..<Suc 2]
     = [Some (query_matches demo_model_env (demo_model ''order'' [] []) q (ms_repo one_order)), Some []]
   \<and> length (query_matches demo_model_env (demo_model ''order'' [] []) q (ms_repo one_order)) = 1"
proof -
  let ?q = "\<lparr>mq_filters = [], mq_sort_key = [], mq_desc = False, mq_page = 7, mq_page_size = 20\<rparr>"
  let ?m = "query_matches demo_model_env (demo_model ''order'' [] []) ?q (ms_repo one_order)"
  have "normalize_query (demo_model ''order'' [] []) ?q = Inr ?q" by code_simp
  moreover have one: "length ?m = 1" by code_simp
  ultimately have all: "concat (map (\<lambda>p. case query_records demo_model_env (demo_model ''order'' [] []) (?q\<lparr>mq_page := int p\<rparr>) (ms_repo one_order) of
        Some (xs, _) \<Rightarrow> xs | None \<Rightarrow> []) [1..<Suc 2]) = ?m"
    using pages_partition_the_matches [of "demo_model ''order'' [] []" ?q ?q 2 demo_model_env "ms_repo one_order"] by simp
  have "map_option (length \<circ> fst) (query_records demo_model_env (demo_model ''order'' [] []) (?q\<lparr>mq_page := 1\<rparr>) (ms_repo one_order)) = Some 1"
    "map_option (length \<circ> fst) (query_records demo_model_env (demo_model ''order'' [] []) (?q\<lparr>mq_page := 2\<rparr>) (ms_repo one_order)) = Some 0"
    by code_simp+
  with all one show ?thesis by (auto simp: Let_def upt_rec)
qed

theorem children_beyond_a_hundred_are_not_found_witness:
  "\<exists>n \<in> {1..101}. apply_children demo_model_env new_model_rules (demo_relation ''lines'' ''line'') [] [] []
      [Child ''delete'' (replicate n (CHR ''a'')) 0 [] []] [] demo_models
    = (Inl (NotFound ''related record not found''), demo_models)"
proof -
  let ?ids = "(\<lambda>n. replicate n (CHR ''a'')) ` {1..101::nat}"
  have "inj_on (\<lambda>n. replicate n (CHR ''a'')) {1..101}" by (rule inj_onI) (metis length_replicate)
  then have card: "100 < card ?ids" by (simp add: card_image)
  have "visible (CHR ''a'')" by (simp add: visible_def)
  then have ids: "\<forall>i \<in> ?ids. trim_space i = i \<and> i \<noteq> []" by (auto intro!: trim_space_visible)
  have "existing_children demo_model_env ''order'' [] ''lines'' (ms_repo demo_models) = Inr []" by code_simp
  from children_beyond_a_hundred_are_not_found [OF this card ids] show ?thesis by blast
qed

end
