(* ===== verification/Modules.thy ===== *)
theory Modules
  imports Shared
begin

text \<open>
  Package \<open>internal/platform/module\<close>: semantic versions and their ranges, the dependencies of a
  manifest, enabling and disabling of installed modules, the compatibility with the kernel, and the
  activation of local extensions. A manifest is kept with the fields these operations read; the
  contract checks of \<open>validateManifest\<close> and \<open>Lint\<close>, which run before \<open>install_manifest\<close>,
  are not modelled. \<open>now\<close> is the clock.
\<close>

section \<open>Semantic versions\<close>

record semantic_version =
  sv_major :: int
  sv_minor :: int
  sv_patch :: int

definition parse_version :: "string \<Rightarrow> semantic_version result" where
  "parse_version value =
     (let err = Plain (''invalid semantic version '' @ quote value) in
      case split_char (CHR ''.'') (trim_space (trim_prefix ''v'' value)) of
        [a, b, c] \<Rightarrow>
          (case atoi a of None \<Rightarrow> Inl err
           | Some major \<Rightarrow>
               (case atoi b of None \<Rightarrow> Inl err
                | Some minor \<Rightarrow>
                    (case atoi c of None \<Rightarrow> Inl err
                     | Some patch \<Rightarrow> Inr \<lparr>sv_major = major, sv_minor = minor, sv_patch = patch\<rparr>)))
      | _ \<Rightarrow> Inl err)"

definition compare_int :: "int \<Rightarrow> int \<Rightarrow> int" where
  "compare_int left right = (if left < right then - 1 else if right < left then 1 else 0)"

definition compare_versions :: "semantic_version \<Rightarrow> semantic_version \<Rightarrow> int" where
  "compare_versions left right =
     (if sv_major left \<noteq> sv_major right then compare_int (sv_major left) (sv_major right)
      else if sv_minor left \<noteq> sv_minor right then compare_int (sv_minor left) (sv_minor right)
      else compare_int (sv_patch left) (sv_patch right))"

text \<open>The operator and the operand of one constraint of a range.\<close>

definition split_constraint :: "string \<Rightarrow> string \<times> string" where
  "split_constraint c =
     (if prefix ''>='' c then (''>='', trim_space (trim_prefix ''>='' c))
      else if prefix ''<='' c then (''<='', trim_space (trim_prefix ''<='' c))
      else if prefix ''>'' c then (''>'', trim_space (trim_prefix ''>'' c))
      else if prefix ''<'' c then (''<'', trim_space (trim_prefix ''<'' c))
      else if prefix ''='' c then (''='', trim_space (trim_prefix ''='' c))
      else (''='', c))"

definition constraint_holds :: "string \<Rightarrow> int \<Rightarrow> bool" where
  "constraint_holds operator cmp =
     (if operator = ''>='' then \<not> cmp < 0
      else if operator = ''<='' then \<not> 0 < cmp
      else if operator = ''>'' then \<not> cmp \<le> 0
      else if operator = ''<'' then \<not> 0 \<le> cmp
      else cmp = 0)"

fun satisfies_all :: "semantic_version \<Rightarrow> string list \<Rightarrow> bool result" where
  "satisfies_all current [] = Inr True"
| "satisfies_all current (c # cs) =
     (if trim_space c = [] then satisfies_all current cs
      else let (operator, operand) = split_constraint (trim_space c) in
        case parse_version operand of
          Inl e \<Rightarrow> Inl e
        | Inr target \<Rightarrow>
            if constraint_holds operator (compare_versions current target) then satisfies_all current cs else Inr False)"

definition version_satisfies :: "string \<Rightarrow> string \<Rightarrow> bool result" where
  "version_satisfies version requirement =
     (case parse_version version of
        Inl e \<Rightarrow> Inl e
      | Inr current \<Rightarrow> satisfies_all current (split_char (CHR '','') requirement))"

section \<open>Manifests and installed modules\<close>

record dependency_requirement =
  dq_module_key :: string
  dq_version_range :: string
  dq_kind :: string

record local_extension_definition =
  le_base_module_key :: string
  le_locality_type :: string
  le_locality_code :: string
  le_locality_label :: string

record manifest =
  mn_key :: string
  mn_version :: string
  mn_role :: string
  mn_local_extension :: local_extension_definition
  mn_kernel_version_range :: string
  mn_required_capabilities :: "string list"
  mn_dependencies :: "string list"
  mn_dependency_requirements :: "dependency_requirement list"

definition zero_manifest :: manifest where
  "zero_manifest = \<lparr>mn_key = [], mn_version = [], mn_role = [], mn_local_extension = \<lparr>le_base_module_key = [], le_locality_type = [],
     le_locality_code = [], le_locality_label = []\<rparr>, mn_kernel_version_range = [], mn_required_capabilities = [],
     mn_dependencies = [], mn_dependency_requirements = []\<rparr>"

record installed_module =
  im_key :: string
  im_enabled :: bool
  im_updated_at :: gotime
  im_updated_by :: string

record local_extension_activation =
  la_base_module_key :: string
  la_extension_module_key :: string
  la_scope :: string
  la_scope_id :: string
  la_updated_at :: gotime
  la_updated_by :: string

record diagnostic =
  dg_severity :: string
  dg_code :: string
  dg_message :: string
  dg_module_key :: string
  dg_path :: string

record dependency_diagnostic =
  dd_module_key :: string
  dd_version_range :: string
  dd_kind :: string
  dd_enabled :: bool
  dd_compatible :: bool
  dd_dependency_version :: string
  dd_reason :: string

record module_detail =
  mt_manifest :: manifest
  mt_installed :: installed_module
  mt_dependency_state :: "(string, bool) gomap"
  mt_dependency_diagnostics :: "dependency_diagnostic list"
  mt_kernel_diagnostics :: "diagnostic list"
  mt_lifecycle_state :: string

record module_repo =
  mo_items :: "(string, installed_module) gomap"
  mo_activations :: "(string, local_extension_activation) gomap"

record module_service =
  mv_repo :: module_repo
  mv_manifests :: "(string, manifest) gomap"
  mv_kernel_version :: string
  mv_kernel_capabilities :: "(string, bool) gomap"

definition kernel_version :: string where "kernel_version = ''1.0.0''"

definition default_kernel_capabilities :: "(string, bool) gomap" where
  "default_kernel_capabilities = map (\<lambda>k. (k, True)) [''generic_ui'', ''workflow_runtime'', ''search_runtime'',
     ''offline_sync'', ''observability_ops'', ''mcp'', ''reporting'']"

definition new_module_repo :: "installed_module list \<Rightarrow> module_repo" where
  "new_module_repo items = \<lparr>mo_items = fold (\<lambda>i. mput (im_key i) i) items [], mo_activations = []\<rparr>"

definition new_module_service :: "module_repo \<Rightarrow> module_service" where
  "new_module_service r = \<lparr>mv_repo = r, mv_manifests = [], mv_kernel_version = kernel_version,
     mv_kernel_capabilities = default_kernel_capabilities\<rparr>"

definition get_installed :: "string \<Rightarrow> module_repo \<Rightarrow> installed_module option" where
  "get_installed key r = map_of (mo_items r) key"

definition list_installed :: "module_repo \<Rightarrow> installed_module list" where
  "list_installed r = sort_slice im_key (map snd (mo_items r))"

definition save_installed :: "installed_module \<Rightarrow> module_repo \<Rightarrow> module_repo" where
  "save_installed i r = r\<lparr>mo_items := mput (im_key i) i (mo_items r)\<rparr>"

definition activation_key :: "string \<Rightarrow> string \<Rightarrow> string \<Rightarrow> string" where
  "activation_key base scope scope_id = base @ ''|'' @ scope @ ''|'' @ scope_id"

definition get_activation :: "string \<Rightarrow> string \<Rightarrow> string \<Rightarrow> module_repo \<Rightarrow> local_extension_activation option" where
  "get_activation base scope scope_id r = map_of (mo_activations r) (activation_key base scope scope_id)"

definition list_activations :: "module_repo \<Rightarrow> local_extension_activation list" where
  "list_activations r = sort_slice (\<lambda>a. (la_base_module_key a, la_scope a, la_scope_id a, la_extension_module_key a))
     (map snd (mo_activations r))"

definition save_activation :: "local_extension_activation \<Rightarrow> module_repo \<Rightarrow> module_repo" where
  "save_activation a r = r\<lparr>mo_activations :=
     mput (activation_key (la_base_module_key a) (la_scope a) (la_scope_id a)) a (mo_activations r)\<rparr>"

definition delete_activation :: "string \<Rightarrow> string \<Rightarrow> string \<Rightarrow> module_repo \<Rightarrow> module_repo" where
  "delete_activation base scope scope_id r = r\<lparr>mo_activations := mdel (activation_key base scope scope_id) (mo_activations r)\<rparr>"

section \<open>Dependencies and the kernel\<close>

definition manifest_dependencies :: "manifest \<Rightarrow> dependency_requirement list" where
  "manifest_dependencies m =
     (if mn_dependency_requirements m \<noteq> []
      then map (\<lambda>d. if dq_kind d = [] then d\<lparr>dq_kind := ''required''\<rparr> else d) (mn_dependency_requirements m)
      else map (\<lambda>k. \<lparr>dq_module_key = k, dq_version_range = [], dq_kind = ''required''\<rparr>)
             (filter (\<lambda>k. trim_space k \<noteq> []) (mn_dependencies m)))"

definition set_kernel_version :: "string \<Rightarrow> module_service \<Rightarrow> module_service" where
  "set_kernel_version version s =
     s\<lparr>mv_kernel_version := (if trim_space version = [] then kernel_version else trim_space version)\<rparr>"

definition set_kernel_capabilities :: "(string, bool) gomap \<Rightarrow> module_service \<Rightarrow> module_service" where
  "set_kernel_capabilities caps s =
     s\<lparr>mv_kernel_capabilities := fold (\<lambda>(k, enabled). mput (trim_space k) enabled) caps []\<rparr>"

definition kernel_error :: "manifest \<Rightarrow> string \<Rightarrow> string \<Rightarrow> string \<Rightarrow> diagnostic" where
  "kernel_error m code path message = \<lparr>dg_severity = ''error'', dg_code = code, dg_message = message, dg_module_key = mn_key m, dg_path = path\<rparr>"

definition kernel_compatibility :: "module_service \<Rightarrow> manifest \<Rightarrow> diagnostic list" where
  "kernel_compatibility s m =
     (if trim_space (mn_kernel_version_range m) = [] then []
      else case version_satisfies (mv_kernel_version s) (mn_kernel_version_range m) of
             Inl e \<Rightarrow> [kernel_error m ''kernel_version_range_invalid'' ''kernel_version_range''
               (''module '' @ quote (mn_key m) @ '' has invalid kernel_version_range '' @ quote (mn_kernel_version_range m))]
           | Inr compatible \<Rightarrow> if compatible then [] else [kernel_error m ''kernel_version_incompatible'' ''kernel_version_range''
               (''module '' @ quote (mn_key m) @ '' requires kernel '' @ mn_kernel_version_range m
                  @ '' but current kernel is '' @ mv_kernel_version s)])
     @ map (\<lambda>c. kernel_error m ''kernel_capability_missing'' ''required_capabilities''
              (''module '' @ quote (mn_key m) @ '' requires missing kernel capability '' @ quote c))
         (filter (\<lambda>c. c \<noteq> [] \<and> \<not> mget False (mv_kernel_capabilities s) c) (map trim_space (mn_required_capabilities m)))"

definition lifecycle_state :: "bool \<Rightarrow> dependency_diagnostic list \<Rightarrow> diagnostic list \<Rightarrow> string" where
  "lifecycle_state enabled diagnostics kds =
     (if \<not> enabled then ''disabled''
      else if \<exists>d \<in> set kds. dg_severity d = ''error'' then ''blocked''
      else if \<exists>d \<in> set diagnostics. dd_kind d \<noteq> ''optional'' \<and> \<not> dd_compatible d then ''blocked''
      else ''healthy'')"

section \<open>Enabling and disabling\<close>

text \<open>What \<open>Register\<close> does with a manifest that passed its checks: the module is enabled at once.\<close>

definition install_manifest :: "gotime \<Rightarrow> manifest \<Rightarrow> string \<Rightarrow> module_service \<Rightarrow> module_service" where
  "install_manifest now m actor s =
     (let s = s\<lparr>mv_manifests := mput (mn_key m) m (mv_manifests s)\<rparr>
      in if get_installed (mn_key m) (mv_repo s) \<noteq> None then s
         else s\<lparr>mv_repo := save_installed \<lparr>im_key = mn_key m, im_enabled = True, im_updated_at = now,
                im_updated_by = (if actor = [] then ''system'' else actor)\<rparr> (mv_repo s)\<rparr>)"

definition is_enabled :: "string \<Rightarrow> module_service \<Rightarrow> bool" where
  "is_enabled key s = (case get_installed key (mv_repo s) of None \<Rightarrow> False | Some i \<Rightarrow> im_enabled i)"

definition enabled_map :: "module_service \<Rightarrow> (string, bool) gomap" where
  "enabled_map s = fold (\<lambda>i. mput (im_key i) (im_enabled i)) (list_installed (mv_repo s)) []"

definition check_dependency :: "module_service \<Rightarrow> dependency_requirement \<Rightarrow> goerr option" where
  "check_dependency s d =
     (if dq_kind d = ''optional'' then None
      else if \<not> is_enabled (dq_module_key d) s then Some (Conflict ''module dependency is disabled'')
      else if dq_version_range d = [] then None
      else case map_of (mv_manifests s) (dq_module_key d) of
             None \<Rightarrow> Some (Conflict ''module dependency is missing'')
           | Some current \<Rightarrow>
               (case version_satisfies (mn_version current) (dq_version_range d) of
                  Inl e \<Rightarrow> Some (Validation (err_text e))
                | Inr compatible \<Rightarrow> if compatible then None else Some (Conflict ''module dependency version is incompatible'')))"

definition has_active_bindings :: "string \<Rightarrow> module_service \<Rightarrow> bool" where
  "has_active_bindings key s =
     (\<exists>a \<in> set (list_activations (mv_repo s)). la_base_module_key a = key \<or> la_extension_module_key a = key)"

definition has_enabled_dependents :: "string \<Rightarrow> module_service \<Rightarrow> bool" where
  "has_enabled_dependents key s =
     (\<exists>(k, m) \<in> set (mv_manifests s). k \<noteq> key \<and> is_enabled k s
        \<and> (\<exists>d \<in> set (manifest_dependencies m). dq_kind d \<noteq> ''optional'' \<and> dq_module_key d = key))"

definition validate_set_enabled :: "string \<Rightarrow> bool \<Rightarrow> module_service \<Rightarrow> installed_module result" where
  "validate_set_enabled key enabled s =
     (case get_installed key (mv_repo s) of
        None \<Rightarrow> Inl (NotFound ''module not found'')
      | Some item \<Rightarrow>
          (case find (\<lambda>d. dg_severity d = ''error'') (kernel_compatibility s (mget zero_manifest (mv_manifests s) key)) of
             Some d \<Rightarrow> Inl (Conflict (dg_message d))
           | None \<Rightarrow>
               if enabled
               then (case first_error (check_dependency s) (manifest_dependencies (mget zero_manifest (mv_manifests s) key)) of
                       Some e \<Rightarrow> Inl e | None \<Rightarrow> Inr item)
               else if has_active_bindings key s then Inl (Conflict ''module has active local extension bindings'')
               else if has_enabled_dependents key s then Inl (Conflict ''module has enabled dependents'')
               else Inr item))"

definition set_enabled :: "gotime \<Rightarrow> string \<Rightarrow> string \<Rightarrow> bool \<Rightarrow> module_service \<Rightarrow> installed_module result \<times> module_service" where
  "set_enabled now key actor enabled s =
     (case validate_set_enabled key enabled s of
        Inl e \<Rightarrow> (Inl e, s)
      | Inr item \<Rightarrow>
          let item = item\<lparr>im_enabled := enabled, im_updated_at := now, im_updated_by := (if actor = [] then ''system'' else actor)\<rparr>
          in (Inr item, s\<lparr>mv_repo := save_installed item (mv_repo s)\<rparr>))"

definition enable_module :: "gotime \<Rightarrow> string \<Rightarrow> string \<Rightarrow> module_service \<Rightarrow> installed_module result \<times> module_service" where
  "enable_module now key actor s = set_enabled now key actor True s"

definition disable_module :: "gotime \<Rightarrow> string \<Rightarrow> string \<Rightarrow> module_service \<Rightarrow> installed_module result \<times> module_service" where
  "disable_module now key actor s = set_enabled now key actor False s"

section \<open>What an administrator sees\<close>

definition dependency_diagnostic_of :: "module_service \<Rightarrow> dependency_requirement \<Rightarrow> dependency_diagnostic" where
  "dependency_diagnostic_of s d =
     (let enabled = is_enabled (dq_module_key d) s; optional = (dq_kind d = ''optional'');
          (compatible, version, reason) =
            (case map_of (mv_manifests s) (dq_module_key d) of
               None \<Rightarrow> (optional, [], ''dependency manifest not registered'')
             | Some current \<Rightarrow>
                 if dq_version_range d = [] then (True, mn_version current, [])
                 else (case version_satisfies (mn_version current) (dq_version_range d) of
                         Inr ok \<Rightarrow> (ok, mn_version current, if ok then [] else ''version incompatible'')
                       | Inl e \<Rightarrow> (optional, mn_version current, err_text e)));
          (compatible, reason) = (if \<not> enabled \<and> \<not> optional then (False, ''dependency disabled'') else (compatible, reason));
          reason = (if optional \<and> \<not> enabled \<and> reason = [] then ''optional dependency disabled'' else reason)
      in \<lparr>dd_module_key = dq_module_key d, dd_version_range = dq_version_range d, dd_kind = dq_kind d, dd_enabled = enabled,
           dd_compatible = compatible, dd_dependency_version = version, dd_reason = reason\<rparr>)"

definition detail_of :: "module_service \<Rightarrow> manifest \<Rightarrow> installed_module \<Rightarrow> module_detail" where
  "detail_of s m item =
     (let ds = sort_slice dd_module_key (map (dependency_diagnostic_of s) (manifest_dependencies m))
      in \<lparr>mt_manifest = m, mt_installed = item,
           mt_dependency_state = fold (\<lambda>d. mput (dq_module_key d) (is_enabled (dq_module_key d) s)) (manifest_dependencies m) [],
           mt_dependency_diagnostics = ds, mt_kernel_diagnostics = kernel_compatibility s m,
           mt_lifecycle_state = lifecycle_state (im_enabled item) ds (kernel_compatibility s m)\<rparr>)"

definition list_modules :: "module_service \<Rightarrow> module_detail list" where
  "list_modules s = List.map_filter (\<lambda>item. map_option (\<lambda>m. detail_of s m item) (map_of (mv_manifests s) (im_key item)))
     (list_installed (mv_repo s))"

definition get_module :: "string \<Rightarrow> module_service \<Rightarrow> module_detail option" where
  "get_module key s =
     (case get_installed key (mv_repo s) of
        None \<Rightarrow> None
      | Some item \<Rightarrow> map_option (\<lambda>m. detail_of s m item) (map_of (mv_manifests s) key))"

section \<open>Local extensions\<close>

definition normalize_extension_scope :: "string \<Rightarrow> string \<Rightarrow> (string \<times> string) result" where
  "normalize_extension_scope scope scope_id =
     (if trim_space scope = ''deployment'' then Inr (trim_space scope, [])
      else if trim_space scope \<in> {''organization'', ''location'', ''operating_unit''}
      then (if trim_space scope_id = [] then Inl (Validation ''scope_id is required'')
            else Inr (trim_space scope, trim_space scope_id))
      else Inl (Validation ''scope is invalid''))"

definition extension_scope_candidates :: "string \<Rightarrow> string \<Rightarrow> string \<Rightarrow> (string \<times> string) list" where
  "extension_scope_candidates organization_id location_id operating_unit_id =
     filter (\<lambda>(scope, scope_id). scope = ''deployment'' \<or> scope_id \<noteq> [])
       [(''operating_unit'', trim_space operating_unit_id), (''location'', trim_space location_id),
        (''organization'', trim_space organization_id), (''deployment'', [])]"

definition extension_eligible :: "string \<Rightarrow> string \<Rightarrow> module_service \<Rightarrow> bool" where
  "extension_eligible base extension s =
     (case map_of (mv_manifests s) base of
        None \<Rightarrow> False
      | Some base_manifest \<Rightarrow>
          mn_role base_manifest = ''base'' \<and> is_enabled base s
        \<and> (case map_of (mv_manifests s) extension of
             None \<Rightarrow> False
           | Some m \<Rightarrow> mn_role m = ''local_extension'' \<and> is_enabled extension s
               \<and> le_base_module_key (mn_local_extension m) = base
               \<and> (\<forall>d \<in> set (manifest_dependencies m). dq_kind d = ''optional'' \<or> is_enabled (dq_module_key d) s)))"

definition validate_extension_activation :: "string \<Rightarrow> string \<Rightarrow> module_service \<Rightarrow> goerr option" where
  "validate_extension_activation base extension s =
     (case map_of (mv_manifests s) base of
        None \<Rightarrow> Some (NotFound ''base module not found'')
      | Some base_manifest \<Rightarrow>
          if mn_role base_manifest \<noteq> ''base'' then Some (Validation ''base module must use role base'')
          else if \<not> is_enabled base s then Some (Conflict ''base module is disabled'')
          else (case map_of (mv_manifests s) extension of
                  None \<Rightarrow> Some (NotFound ''local extension module not found'')
                | Some m \<Rightarrow>
                    if mn_role m \<noteq> ''local_extension'' then Some (Validation ''module is not a local extension'')
                    else if le_base_module_key (mn_local_extension m) \<noteq> base
                    then Some (Validation ''local extension does not target the requested base module'')
                    else if \<not> is_enabled extension s then Some (Conflict ''local extension module is disabled'')
                    else (case validate_set_enabled extension True s of Inl e \<Rightarrow> Some e | Inr _ \<Rightarrow> None)))"

definition activate_extension ::
    "gotime \<Rightarrow> string \<Rightarrow> string \<Rightarrow> string \<Rightarrow> string \<Rightarrow> string \<Rightarrow> module_service
       \<Rightarrow> local_extension_activation result \<times> module_service" where
  "activate_extension now base extension scope scope_id actor s =
     (case normalize_extension_scope scope scope_id of
        Inl e \<Rightarrow> (Inl e, s)
      | Inr (scope, scope_id) \<Rightarrow>
          (case validate_extension_activation base extension s of
             Some e \<Rightarrow> (Inl e, s)
           | None \<Rightarrow>
               let a = \<lparr>la_base_module_key = base, la_extension_module_key = extension, la_scope = scope, la_scope_id = scope_id,
                        la_updated_at = now, la_updated_by = (if actor = [] then ''system'' else actor)\<rparr>
               in (Inr a, s\<lparr>mv_repo := save_activation a (mv_repo s)\<rparr>)))"

definition deactivate_extension :: "string \<Rightarrow> string \<Rightarrow> string \<Rightarrow> module_service \<Rightarrow> goerr option \<times> module_service" where
  "deactivate_extension base scope scope_id s =
     (case normalize_extension_scope scope scope_id of
        Inl e \<Rightarrow> (Some e, s)
      | Inr (scope, scope_id) \<Rightarrow>
          if get_activation base scope scope_id (mv_repo s) = None
          then (Some (NotFound ''local extension activation not found''), s)
          else (None, s\<lparr>mv_repo := delete_activation base scope scope_id (mv_repo s)\<rparr>))"

definition resolve_extension ::
    "string \<Rightarrow> string \<Rightarrow> string \<Rightarrow> string \<Rightarrow> module_service \<Rightarrow> local_extension_activation option" where
  "resolve_extension base organization_id location_id operating_unit_id s =
     (case List.map_filter (\<lambda>(scope, scope_id).
         case get_activation base scope scope_id (mv_repo s) of
           None \<Rightarrow> None
         | Some a \<Rightarrow> if extension_eligible (la_base_module_key a) (la_extension_module_key a) s then Some a else None)
           (extension_scope_candidates organization_id location_id operating_unit_id) of
        [] \<Rightarrow> None
      | a # _ \<Rightarrow> Some a)"

record extension_state =
  xs_eligible :: bool
  xs_active :: bool
  xs_definition :: local_extension_definition
  xs_source_scope :: string
  xs_source_scope_id :: string
  xs_activated_module_key :: string
  xs_activation_consistent :: bool

definition extension_state_of :: "manifest \<Rightarrow> string \<Rightarrow> string \<Rightarrow> string \<Rightarrow> module_service \<Rightarrow> extension_state option" where
  "extension_state_of m organization_id location_id operating_unit_id s =
     (if mn_role m \<noteq> ''local_extension'' then None
      else let le = mn_local_extension m;
               st = \<lparr>xs_eligible = extension_eligible (le_base_module_key le) (mn_key m) s, xs_active = False, xs_definition = le,
                 xs_source_scope = [], xs_source_scope_id = [], xs_activated_module_key = [], xs_activation_consistent = False\<rparr>
           in case resolve_extension (le_base_module_key le) organization_id location_id operating_unit_id s of
                None \<Rightarrow> Some st
              | Some a \<Rightarrow>
                  let active = (la_extension_module_key a = mn_key m)
                  in Some (st\<lparr>xs_source_scope := la_scope a, xs_source_scope_id := la_scope_id a,
                       xs_activated_module_key := la_extension_module_key a, xs_active := active,
                       xs_activation_consistent := active \<and> xs_eligible st\<rparr>))"

end
