(* ===== verification/ModuleFacts.thy ===== *)
theory ModuleFacts
  imports Modules
begin

text \<open>
  What theory \<open>Modules\<close> guarantees: version ranges are intervals of the lexicographic order, and
  the enabled modules stay closed under dependencies with every bound local extension eligible.
\<close>

section \<open>Versions\<close>

definition version_key :: "semantic_version \<Rightarrow> int \<times> int \<times> int" where
  "version_key v = (sv_major v, sv_minor v, sv_patch v)"

lemma compare_versions_order:
  "compare_versions v w < 0 \<longleftrightarrow> version_key v < version_key w"
  "0 < compare_versions v w \<longleftrightarrow> version_key w < version_key v"
  "compare_versions v w = 0 \<longleftrightarrow> version_key v = version_key w"
  by (auto simp: compare_versions_def compare_int_def version_key_def less_prod_def)

definition in_relation :: "string \<Rightarrow> semantic_version \<Rightarrow> semantic_version \<Rightarrow> bool" where
  "in_relation operator v w =
     (if operator = ''>='' then version_key w \<le> version_key v
      else if operator = ''<='' then version_key v \<le> version_key w
      else if operator = ''>'' then version_key w < version_key v
      else if operator = ''<'' then version_key v < version_key w
      else version_key v = version_key w)"

lemma constraint_in_relation: "constraint_holds operator (compare_versions v w) \<longleftrightarrow> in_relation operator v w"
  using compare_versions_order [of v w] by (auto simp: constraint_holds_def in_relation_def)

lemma satisfies_all_True:
  "satisfies_all v cs = Inr True \<longleftrightarrow>
     (\<forall>c \<in> set cs. trim_space c = [] \<or> (\<exists>w. parse_version (snd (split_constraint (trim_space c))) = Inr w
        \<and> in_relation (fst (split_constraint (trim_space c))) v w))"
  by (induction cs) (auto simp: Let_def case_prod_unfold constraint_in_relation split: sum.splits)

text \<open>The text of a version, and reading it back.\<close>

definition show_version :: "nat \<Rightarrow> nat \<Rightarrow> nat \<Rightarrow> string" where
  "show_version a b c = show_nat a @ ''.'' @ show_nat b @ ''.'' @ show_nat c"

lemma show_nat_ends: "visible (hd (show_nat n))" "visible (last (show_nat n))"
  using show_nat_digits [of n] by (auto simp: list_all_iff intro!: digit_visible)

lemma show_version_trim: "trim_space (show_version a b c) = show_version a b c"
  using show_nat_ends [of a] show_nat_ends [of c] show_nat_digits [of a] show_nat_digits [of c]
  by (intro trim_space_visible) (auto simp: show_version_def hd_append)

lemma show_version_split: "split_char (CHR ''.'') (show_version a b c) = [show_nat a, show_nat b, show_nat c]"
proof -
  have dot: "CHR ''.'' \<notin> set (show_nat n)" for n by (rule show_nat_free) (simp add: is_digit_def)
  show ?thesis by (simp add: show_version_def split_char_append split_char_free dot)
qed

lemma show_version_plain: "\<not> prefix ''v'' (show_version a b c)"
proof -
  have "CHR ''v'' \<notin> set (show_nat a)" by (rule show_nat_free) (simp add: is_digit_def)
  with show_nat_digits [of a] show ?thesis by (cases "show_nat a") (auto simp: show_version_def)
qed

lemma parse_show_version:
  assumes "int a < 2 ^ 63" "int b < 2 ^ 63" "int c < 2 ^ 63"
  shows "parse_version (show_version a b c) = Inr \<lparr>sv_major = int a, sv_minor = int b, sv_patch = int c\<rparr>"
  using assms show_version_plain
  by (simp add: parse_version_def trim_prefix_def show_version_trim show_version_split atoi_show_nat Let_def)

lemma show_version_free: "\<not> is_digit x \<Longrightarrow> x \<noteq> CHR ''.'' \<Longrightarrow> x \<notin> set (show_version a b c)"
  by (simp add: show_version_def show_nat_free)

lemma show_version_first: "\<exists>x xs. show_version a b c = x # xs \<and> is_digit x"
  using show_nat_digits [of a] by (cases "show_nat a") (auto simp: show_version_def)

lemma trim_operator:
  "trim_space (CHR ''>'' # CHR ''='' # show_version a b c) = CHR ''>'' # CHR ''='' # show_version a b c"
  "trim_space (CHR ''<'' # show_version a b c) = CHR ''<'' # show_version a b c"
  using show_nat_ends [of c] show_nat_digits [of c]
  by (auto intro!: trim_space_visible simp: show_version_def visible_def [of "CHR ''>''"] visible_def [of "CHR ''<''"])

lemma trim_visible_version: "trim_space (''>='' @ show_version a b c) = ''>='' @ show_version a b c"
    "trim_space (''<'' @ show_version a b c) = ''<'' @ show_version a b c"
  using trim_operator by simp_all

lemma split_constraint_version:
  "split_constraint (''>='' @ show_version a b c) = (''>='', show_version a b c)"
  "split_constraint (''<'' @ show_version a b c) = (''<'', show_version a b c)"
proof -
  obtain x xs where "show_version a b c = x # xs" "is_digit x" using show_version_first by blast
  moreover from this(2) have "x \<noteq> CHR ''=''" by (auto simp: is_digit_def)
  ultimately show "split_constraint (''>='' @ show_version a b c) = (''>='', show_version a b c)"
    "split_constraint (''<'' @ show_version a b c) = (''<'', show_version a b c)"
    using show_version_trim [of a b c] by (simp_all add: split_constraint_def trim_prefix_def)
qed

text \<open>
  The text of a version reads back as that version, and the range \<open>>=lo,<hi\<close> holds of exactly
  the versions from \<open>lo\<close> to below \<open>hi\<close>, ordered by major, then minor, then patch number; a range of
  any number of constraints holds of a version exactly if each of them does.
\<close>

theorem version_ranges_are_intervals:
  assumes "list_all (\<lambda>n. int n < 2 ^ 63) [a, b, c, d, e, f, g, h, i]"
  shows "parse_version (show_version a b c) = Inr \<lparr>sv_major = int a, sv_minor = int b, sv_patch = int c\<rparr>
    \<and> version_satisfies (show_version a b c) (''>='' @ show_version d e f @ '',<'' @ show_version g h i)
      = Inr ((d, e, f) \<le> (a, b, c) \<and> (a, b, c) < (g, h, i))
    \<and> (version_satisfies v requirement = Inr True \<longleftrightarrow>
        (\<exists>w. parse_version v = Inr w \<and> list_all (\<lambda>r. trim_space r = []
          \<or> (\<exists>t. parse_version (snd (split_constraint (trim_space r))) = Inr t
                \<and> in_relation (fst (split_constraint (trim_space r))) w t)) (split_char (CHR '','') requirement)))"
proof -
  have bounds: "int a < 2 ^ 63" "int b < 2 ^ 63" "int c < 2 ^ 63" "int d < 2 ^ 63" "int e < 2 ^ 63" "int f < 2 ^ 63"
      "int g < 2 ^ 63" "int h < 2 ^ 63" "int i < 2 ^ 63"
    using assms by simp_all
  note parses = parse_show_version [OF bounds(1-3)] parse_show_version [OF bounds(4-6)] parse_show_version [OF bounds(7-9)]
  have comma: "CHR '','' \<notin> set (show_version x y z)" for x y z
    by (rule show_version_free) (simp_all add: is_digit_def)
  have "''>='' @ show_version d e f @ '',<'' @ show_version g h i
      = (''>='' @ show_version d e f) @ CHR '','' # (''<'' @ show_version g h i)" by simp
  then have split: "split_char (CHR '','') (''>='' @ show_version d e f @ '',<'' @ show_version g h i)
      = [''>='' @ show_version d e f, ''<'' @ show_version g h i]"
    using comma by (simp only: split_char_append split_char_free set_append) (simp add: split_char_append split_char_free)
  have order: "((int d, int e, int f) \<le> (int a, int b, int c)) = ((d, e, f) \<le> (a, b, c))"
      "((int a, int b, int c) < (int g, int h, int i)) = ((a, b, c) < (g, h, i))"
    by (auto simp: less_eq_prod_def less_prod_def)
  have "version_satisfies (show_version a b c) (''>='' @ show_version d e f @ '',<'' @ show_version g h i)
      = Inr ((d, e, f) \<le> (a, b, c) \<and> (a, b, c) < (g, h, i))"
    unfolding version_satisfies_def split
    by (simp only: parses sum.case satisfies_all.simps trim_visible_version split_constraint_version Let_def prod.case
        constraint_in_relation) (auto simp: in_relation_def version_key_def order)
  moreover have "version_satisfies v requirement = Inr True \<longleftrightarrow>
        (\<exists>w. parse_version v = Inr w \<and> list_all (\<lambda>r. trim_space r = []
          \<or> (\<exists>t. parse_version (snd (split_constraint (trim_space r))) = Inr t
                \<and> in_relation (fst (split_constraint (trim_space r))) w t)) (split_char (CHR '','') requirement))"
    by (auto simp: version_satisfies_def list_all_iff satisfies_all_True split: sum.split)
  ultimately show ?thesis using parses(1) by blast
qed

theorem version_ranges_are_intervals_witness:
  "version_satisfies ''1.10.2'' ''>=1.9.0,<2.0.0'' = Inr True \<and> version_satisfies ''2.0.0'' ''>=1.9.0,<2.0.0'' = Inr False"
proof -
  have texts: "show_version 1 10 2 = ''1.10.2''" "show_version 2 0 0 = ''2.0.0''"
    "''>='' @ show_version 1 9 0 @ '',<'' @ show_version 2 0 0 = ''>=1.9.0,<2.0.0''" by code_simp+
  have "version_satisfies (show_version 1 10 2) (''>='' @ show_version 1 9 0 @ '',<'' @ show_version 2 0 0)
      = Inr ((1::nat, 9::nat, 0::nat) \<le> (1, 10, 2) \<and> (1::nat, 10::nat, 2::nat) < (2, 0, 0))"
    "version_satisfies (show_version 2 0 0) (''>='' @ show_version 1 9 0 @ '',<'' @ show_version 2 0 0)
      = Inr ((1::nat, 9::nat, 0::nat) \<le> (2, 0, 0) \<and> (2::nat, 0::nat, 0::nat) < (2, 0, 0))"
    by (rule version_ranges_are_intervals [THEN conjunct2, THEN conjunct1]; simp)+
  note this [unfolded texts(3), unfolded texts]
  then show ?thesis by (simp add: less_eq_prod_def less_prod_def)
qed

section \<open>Enabled modules and active extensions\<close>

text \<open>
  Modules are registered after the modules they require. Then they are enabled and disabled, and
  extensions activated and deactivated, in any order.
\<close>

definition required_by :: "manifest \<Rightarrow> string set" where
  "required_by m = dq_module_key ` {d \<in> set (manifest_dependencies m). dq_kind d \<noteq> ''optional''}"

inductive modules_reachable :: "module_service \<Rightarrow> bool" where
  new: "modules_reachable (new_module_service (new_module_repo []))"
| install: "modules_reachable s \<Longrightarrow> map_of (mv_manifests s) (mn_key m) = None
    \<Longrightarrow> (\<forall>k \<in> required_by m. is_enabled k s) \<Longrightarrow> modules_reachable (install_manifest now m actor s)"
| kernel: "modules_reachable s \<Longrightarrow> modules_reachable (set_kernel_version version (set_kernel_capabilities caps s))"
| enable: "modules_reachable s \<Longrightarrow> modules_reachable (snd (enable_module now key actor s))"
| disable: "modules_reachable s \<Longrightarrow> modules_reachable (snd (disable_module now key actor s))"
| activate: "modules_reachable s \<Longrightarrow> modules_reachable (snd (activate_extension now base extension scope scope_id actor s))"
| deactivate: "modules_reachable s \<Longrightarrow> modules_reachable (snd (deactivate_extension base scope scope_id s))"

definition modules_ok :: "module_service \<Rightarrow> bool" where
  "modules_ok s \<longleftrightarrow> gm.keyed im_key (mo_items (mv_repo s))
   \<and> (\<forall>k m. map_of (mv_manifests s) k = Some m \<longrightarrow> is_enabled k s \<longrightarrow> (\<forall>r \<in> required_by m. is_enabled r s))
   \<and> (\<forall>p a. map_of (mo_activations (mv_repo s)) p = Some a
        \<longrightarrow> extension_eligible (la_base_module_key a) (la_extension_module_key a) s)"

lemma modules_okD:
  assumes "modules_ok s"
  shows "get_installed k (mv_repo s) = Some i \<Longrightarrow> im_key i = k"
    and "map_of (mv_manifests s) k = Some m \<Longrightarrow> is_enabled k s \<Longrightarrow> r \<in> required_by m \<Longrightarrow> is_enabled r s"
    and "map_of (mo_activations (mv_repo s)) p = Some a
      \<Longrightarrow> extension_eligible (la_base_module_key a) (la_extension_module_key a) s"
  using assms unfolding modules_ok_def get_installed_def by (blast dest: gm.keyedD)+

lemma modules_okI:
  "gm.keyed im_key (mo_items (mv_repo s))
   \<Longrightarrow> (\<And>k m r. map_of (mv_manifests s) k = Some m \<Longrightarrow> is_enabled k s \<Longrightarrow> r \<in> required_by m \<Longrightarrow> is_enabled r s)
   \<Longrightarrow> (\<And>p a. map_of (mo_activations (mv_repo s)) p = Some a
        \<Longrightarrow> extension_eligible (la_base_module_key a) (la_extension_module_key a) s)
   \<Longrightarrow> modules_ok s"
  unfolding modules_ok_def by blast

lemma modules_ok_keyed: "modules_ok s \<Longrightarrow> gm.keyed im_key (mo_items (mv_repo s))"
  by (simp add: modules_ok_def)

lemma extension_eligible_alt:
  "extension_eligible base ext s \<longleftrightarrow> (\<exists>b m. map_of (mv_manifests s) base = Some b \<and> mn_role b = ''base'' \<and> is_enabled base s
     \<and> map_of (mv_manifests s) ext = Some m \<and> mn_role m = ''local_extension'' \<and> is_enabled ext s
     \<and> le_base_module_key (mn_local_extension m) = base \<and> (\<forall>k \<in> required_by m. is_enabled k s))"
  by (auto simp: extension_eligible_def required_by_def split: option.splits)

lemma extension_eligible_mono:
  "extension_eligible base ext s
   \<Longrightarrow> (\<And>k m. map_of (mv_manifests s) k = Some m \<Longrightarrow> map_of (mv_manifests t) k = Some m)
   \<Longrightarrow> (\<And>k. is_enabled k s \<Longrightarrow> is_enabled k t) \<Longrightarrow> extension_eligible base ext t"
  unfolding extension_eligible_alt by blast

lemma modules_ok_kernel: "modules_ok s \<Longrightarrow> modules_ok (set_kernel_version version (set_kernel_capabilities caps s))"
  by (simp add: modules_ok_def set_kernel_version_def set_kernel_capabilities_def is_enabled_def extension_eligible_alt)

lemma is_enabled_save:
  "is_enabled k (s\<lparr>mv_repo := save_installed i (mv_repo s)\<rparr>) = (if k = im_key i then im_enabled i else is_enabled k s)"
  by (simp add: is_enabled_def get_installed_def save_installed_def)

lemma set_enabled_cases [consumes 1, case_names refused stored]:
  assumes "modules_ok s"
  obtains (refused) e where "set_enabled now key actor enabled s = (Inl e, s)"
    | (stored) i item where "validate_set_enabled key enabled s = Inr item" "im_key i = key" "im_enabled i = enabled"
        "set_enabled now key actor enabled s = (Inr i, s\<lparr>mv_repo := save_installed i (mv_repo s)\<rparr>)"
proof (cases "validate_set_enabled key enabled s")
  case (Inl e)
  then show thesis by (intro refused) (simp add: set_enabled_def)
next
  case (Inr item)
  then have "get_installed key (mv_repo s) = Some item"
    by (auto simp: validate_set_enabled_def split: option.splits if_splits)
  then have "im_key item = key" by (rule modules_okD(1) [OF assms])
  with Inr show thesis by (intro stored [OF Inr]) (simp_all add: set_enabled_def Let_def)
qed

lemma modules_ok_enable: "modules_ok s \<Longrightarrow> modules_ok (snd (enable_module now key actor s))"
proof -
  assume ok: "modules_ok s"
  from ok show ?thesis
  proof (cases rule: set_enabled_cases [where now = now and key = key and actor = actor and enabled = True])
    case (stored i item)
    let ?t = "s\<lparr>mv_repo := save_installed i (mv_repo s)\<rparr>"
    have deps: "is_enabled r s" if m: "map_of (mv_manifests s) key = Some m" and r: "r \<in> required_by m" for m r
    proof -
      have "first_error (check_dependency s) (manifest_dependencies m) = None"
        using stored(1) m by (auto simp: validate_set_enabled_def mget_def split: option.splits if_splits)
      moreover obtain d where "d \<in> set (manifest_dependencies m)" "dq_kind d \<noteq> ''optional''" "r = dq_module_key d"
        using r by (auto simp: required_by_def)
      ultimately have "check_dependency s d = None" "dq_kind d \<noteq> ''optional''" "r = dq_module_key d"
        by (auto simp: first_error_None)
      then show ?thesis by (auto simp: check_dependency_def split: if_splits)
    qed
    have en: "is_enabled k ?t \<longleftrightarrow> k = key \<or> is_enabled k s" for k
      using stored(2,3) by (simp add: is_enabled_save)
    have "modules_ok ?t"
    proof (rule modules_okI)
      show "gm.keyed im_key (mo_items (mv_repo ?t))"
        by (simp add: save_installed_def gm.keyed_insert modules_ok_keyed [OF ok])
      show "is_enabled r ?t" if "map_of (mv_manifests ?t) k = Some m" "is_enabled k ?t" "r \<in> required_by m" for k m r
        using that deps modules_okD(2) [OF ok, of k m r] en by auto
      show "extension_eligible (la_base_module_key a) (la_extension_module_key a) ?t"
        if "map_of (mo_activations (mv_repo ?t)) p = Some a" for p a
        by (rule extension_eligible_mono [OF modules_okD(3) [OF ok, of p]]) (use that en in \<open>auto simp: save_installed_def\<close>)
    qed
    with stored(4) show ?thesis by (simp add: enable_module_def)
  qed (use ok in \<open>simp add: enable_module_def\<close>)
qed

lemma disable_allowed:
  assumes "validate_set_enabled key False s = Inr item"
  shows "map_of (mo_activations (mv_repo s)) p = Some a \<Longrightarrow> la_base_module_key a \<noteq> key \<and> la_extension_module_key a \<noteq> key"
    and "map_of (mv_manifests s) k = Some m \<Longrightarrow> k \<noteq> key \<Longrightarrow> is_enabled k s \<Longrightarrow> key \<notin> required_by m"
proof -
  have no: "\<not> has_active_bindings key s" "\<not> has_enabled_dependents key s"
    using assms by (auto simp: validate_set_enabled_def split: option.splits if_splits)
  show "la_base_module_key a \<noteq> key \<and> la_extension_module_key a \<noteq> key" if "map_of (mo_activations (mv_repo s)) p = Some a"
    using no(1) map_of_SomeD [OF that] by (force simp: has_active_bindings_def list_activations_def)
  show "key \<notin> required_by m" if "map_of (mv_manifests s) k = Some m" "k \<noteq> key" "is_enabled k s"
    using no(2) map_of_SomeD [OF that(1)] that(2,3) by (force simp: has_enabled_dependents_def required_by_def)
qed

lemma modules_ok_disable: "modules_ok s \<Longrightarrow> modules_ok (snd (disable_module now key actor s))"
proof -
  assume ok: "modules_ok s"
  from ok show ?thesis
  proof (cases rule: set_enabled_cases [where now = now and key = key and actor = actor and enabled = False])
    case (stored i item)
    let ?t = "s\<lparr>mv_repo := save_installed i (mv_repo s)\<rparr>"
    have en: "is_enabled k ?t \<longleftrightarrow> k \<noteq> key \<and> is_enabled k s" for k
      using stored(2,3) by (simp add: is_enabled_save)
    have "modules_ok ?t"
    proof (rule modules_okI)
      show "gm.keyed im_key (mo_items (mv_repo ?t))"
        by (simp add: save_installed_def gm.keyed_insert modules_ok_keyed [OF ok])
      show "is_enabled r ?t" if "map_of (mv_manifests ?t) k = Some m" "is_enabled k ?t" "r \<in> required_by m" for k m r
        using that disable_allowed(2) [OF stored(1), of k m] modules_okD(2) [OF ok, of k m r] en by auto
      show "extension_eligible (la_base_module_key a) (la_extension_module_key a) ?t"
        if "map_of (mo_activations (mv_repo ?t)) p = Some a" for p a
      proof -
        have a: "map_of (mo_activations (mv_repo s)) p = Some a" using that by (simp add: save_installed_def)
        from modules_okD(3) [OF ok a] obtain b m where e: "map_of (mv_manifests s) (la_base_module_key a) = Some b"
            "mn_role b = ''base''" "is_enabled (la_base_module_key a) s"
            "map_of (mv_manifests s) (la_extension_module_key a) = Some m" "mn_role m = ''local_extension''"
            "is_enabled (la_extension_module_key a) s" "le_base_module_key (mn_local_extension m) = la_base_module_key a"
            "\<forall>k \<in> required_by m. is_enabled k s"
          unfolding extension_eligible_alt by blast
        with disable_allowed [OF stored(1)] a show ?thesis unfolding extension_eligible_alt by (auto simp: en)
      qed
    qed
    with stored(4) show ?thesis by (simp add: disable_module_def)
  qed (use ok in \<open>simp add: disable_module_def\<close>)
qed

lemma validated_extension_eligible:
  "validate_extension_activation base ext s = None \<Longrightarrow> extension_eligible base ext s"
proof -
  assume v: "validate_extension_activation base ext s = None"
  then obtain b m item where m: "map_of (mv_manifests s) base = Some b" "mn_role b = ''base''" "is_enabled base s"
      "map_of (mv_manifests s) ext = Some m" "mn_role m = ''local_extension''"
      "le_base_module_key (mn_local_extension m) = base" "is_enabled ext s"
      and item: "validate_set_enabled ext True s = Inr item"
    by (auto simp: validate_extension_activation_def split: option.splits if_splits sum.splits)
  have "first_error (check_dependency s) (manifest_dependencies m) = None"
    using item m(4) by (auto simp: validate_set_enabled_def mget_def split: option.splits if_splits)
  then have "is_enabled k s" if "k \<in> required_by m" for k
    using that by (auto simp: required_by_def first_error_None check_dependency_def split: if_splits)
  with m show ?thesis unfolding extension_eligible_alt by blast
qed

lemma is_enabled_activations: "is_enabled k (s\<lparr>mv_repo := (mv_repo s)\<lparr>mo_activations := acts\<rparr>\<rparr>) = is_enabled k s"
  by (simp add: is_enabled_def get_installed_def)

lemma modules_ok_activations:
  assumes ok: "modules_ok s"
    and new: "\<And>p a. map_of acts p = Some a \<Longrightarrow> map_of (mo_activations (mv_repo s)) p = Some a
        \<or> extension_eligible (la_base_module_key a) (la_extension_module_key a) s"
  shows "modules_ok (s\<lparr>mv_repo := (mv_repo s)\<lparr>mo_activations := acts\<rparr>\<rparr>)" (is "modules_ok ?t")
proof (rule modules_okI)
  show "gm.keyed im_key (mo_items (mv_repo ?t))" using modules_ok_keyed [OF ok] by simp
  show "is_enabled r ?t" if "map_of (mv_manifests ?t) k = Some m" "is_enabled k ?t" "r \<in> required_by m" for k m r
    using that modules_okD(2) [OF ok, of k m r] by (simp add: is_enabled_activations)
  show "extension_eligible (la_base_module_key a) (la_extension_module_key a) ?t"
    if "map_of (mo_activations (mv_repo ?t)) p = Some a" for p a
  proof -
    have "extension_eligible (la_base_module_key a) (la_extension_module_key a) s"
      using that new [of p a] modules_okD(3) [OF ok, of p a] by auto
    then show ?thesis by (rule extension_eligible_mono) (simp_all add: is_enabled_activations)
  qed
qed

lemma modules_ok_activate: "modules_ok s \<Longrightarrow> modules_ok (snd (activate_extension now base ext scope scope_id actor s))"
proof -
  assume ok: "modules_ok s"
  show ?thesis
  proof (cases "normalize_extension_scope scope scope_id")
    case (Inr q)
    obtain sc sid where q: "q = (sc, sid)" by (cases q)
    show ?thesis
    proof (cases "validate_extension_activation base ext s")
      case None
      let ?a = "\<lparr>la_base_module_key = base, la_extension_module_key = ext, la_scope = sc, la_scope_id = sid,
                 la_updated_at = now, la_updated_by = (if actor = [] then ''system'' else actor)\<rparr>"
      have "snd (activate_extension now base ext scope scope_id actor s)
          = s\<lparr>mv_repo := (mv_repo s)\<lparr>mo_activations := mput (activation_key base sc sid) ?a (mo_activations (mv_repo s))\<rparr>\<rparr>"
        using Inr q None by (simp add: activate_extension_def Let_def save_activation_def)
      moreover have "modules_ok \<dots>"
        by (rule modules_ok_activations [OF ok]) (use validated_extension_eligible [OF None] in \<open>auto split: if_splits\<close>)
      ultimately show ?thesis by simp
    qed (use ok Inr q in \<open>simp add: activate_extension_def\<close>)
  qed (use ok in \<open>simp add: activate_extension_def\<close>)
qed

lemma modules_ok_deactivate: "modules_ok s \<Longrightarrow> modules_ok (snd (deactivate_extension base scope scope_id s))"
  by (auto simp: deactivate_extension_def delete_activation_def split: sum.split prod.split
      intro!: modules_ok_activations split: if_splits)

lemma modules_ok_install:
  assumes ok: "modules_ok s" and new: "map_of (mv_manifests s) (mn_key m) = None"
    and deps: "\<forall>k \<in> required_by m. is_enabled k s"
  shows "modules_ok (install_manifest now m actor s)" (is "modules_ok ?t")
proof -
  have mono: "is_enabled k s \<Longrightarrow> is_enabled k ?t" for k
    by (auto simp: install_manifest_def Let_def is_enabled_def get_installed_def save_installed_def split: option.splits)
  have other: "is_enabled k ?t \<Longrightarrow> k \<noteq> mn_key m \<Longrightarrow> is_enabled k s" for k
    by (auto simp: install_manifest_def Let_def is_enabled_def get_installed_def save_installed_def split: option.splits if_splits)
  have mans: "mv_manifests ?t = mput (mn_key m) m (mv_manifests s)" by (simp add: install_manifest_def Let_def)
  have acts: "mo_activations (mv_repo ?t) = mo_activations (mv_repo s)"
    by (simp add: install_manifest_def Let_def save_installed_def)
  show ?thesis
  proof (rule modules_okI)
    show "gm.keyed im_key (mo_items (mv_repo ?t))"
      using modules_ok_keyed [OF ok] by (auto simp: install_manifest_def Let_def save_installed_def intro: gm.keyed_insert)
    show "is_enabled r ?t" if "map_of (mv_manifests ?t) k = Some m'" "is_enabled k ?t" "r \<in> required_by m'" for k m' r
    proof (cases "k = mn_key m")
      case True
      with that deps mono show ?thesis by (auto simp: mans)
    next
      case False
      with that other modules_okD(2) [OF ok, of k m' r] mono show ?thesis by (auto simp: mans)
    qed
    show "extension_eligible (la_base_module_key a) (la_extension_module_key a) ?t"
      if "map_of (mo_activations (mv_repo ?t)) p = Some a" for p a
      by (rule extension_eligible_mono [OF modules_okD(3) [OF ok, of p]]) (use that acts mono new in \<open>auto simp: mans\<close>)
  qed
qed

lemma reachable_modules_ok: "modules_reachable s \<Longrightarrow> modules_ok s"
proof (induction rule: modules_reachable.induct)
  case new
  show ?case by (simp add: modules_ok_def new_module_service_def new_module_repo_def gm.keyed_empty)
qed (auto intro: modules_ok_install modules_ok_kernel modules_ok_enable modules_ok_disable modules_ok_activate modules_ok_deactivate)



definition demo_base :: manifest where
  "demo_base = zero_manifest\<lparr>mn_key := ''leave'', mn_version := ''1.0.0'', mn_role := ''base''\<rparr>"

definition demo_extension :: manifest where
  "demo_extension = zero_manifest\<lparr>mn_key := ''leave_id'', mn_version := ''1.0.0'', mn_role := ''local_extension'',
     mn_local_extension := \<lparr>le_base_module_key = ''leave'', le_locality_type = ''country'', le_locality_code = ''ID'', le_locality_label = []\<rparr>,
     mn_dependencies := [''leave'']\<rparr>"

definition demo_modules :: module_service where
  "demo_modules = snd (activate_extension 3 ''leave'' ''leave_id'' ''organization'' ''org1'' []
     (install_manifest 2 demo_extension [] (install_manifest 1 demo_base [] (new_module_service (new_module_repo [])))))"

lemma demo_modules_reachable: "modules_reachable demo_modules"
  unfolding demo_modules_def
proof (intro modules_reachable.intros ballI)
  show "map_of (mv_manifests (new_module_service (new_module_repo []))) (mn_key demo_base) = None"
    "map_of (mv_manifests (install_manifest 1 demo_base [] (new_module_service (new_module_repo [])))) (mn_key demo_extension) = None"
    by code_simp+
  show "is_enabled k (new_module_service (new_module_repo []))" if "k \<in> required_by demo_base" for k
    using that by (simp add: required_by_def manifest_dependencies_def demo_base_def zero_manifest_def)
  have "required_by demo_extension = {''leave''}" by code_simp
  moreover have "is_enabled ''leave'' (install_manifest 1 demo_base [] (new_module_service (new_module_repo [])))" by code_simp
  ultimately show "is_enabled k (install_manifest 1 demo_base [] (new_module_service (new_module_repo [])))"
    if "k \<in> required_by demo_extension" for k using that by simp
qed


section \<open>What cannot be switched off\<close>

text \<open>A module that the kernel no longer suits cannot be disabled: the check runs for both directions.\<close>

lemma incompatible_module_stays_enabled:
  assumes "d \<in> set (kernel_compatibility s (mget zero_manifest (mv_manifests s) key))" "get_installed key (mv_repo s) = Some i"
  shows "\<exists>e. disable_module now key actor s = (Inl (Conflict e), s)"
proof -
  have sev: "dg_severity d = ''error''" if "d \<in> set (kernel_compatibility s m)" for d m
    using that by (auto simp: kernel_compatibility_def kernel_error_def split: if_splits sum.splits)
  with assms(1) have "find (\<lambda>d. dg_severity d = ''error'') (kernel_compatibility s (mget zero_manifest (mv_manifests s) key)) \<noteq> None"
    by (auto simp: find_None_iff)
  then show ?thesis using assms(2)
    by (auto simp: disable_module_def set_enabled_def validate_set_enabled_def)
qed

text \<open>Registering enables a module whatever its dependencies; two modules that require each other stay enabled for good.\<close>

lemma install_ignores_dependencies:
  "get_installed (mn_key m) (mv_repo s) = None \<Longrightarrow> is_enabled (mn_key m) (install_manifest now m actor s)"
  by (simp add: install_manifest_def is_enabled_save [simplified] is_enabled_def get_installed_def save_installed_def)

lemma mutual_requirement_is_permanent:
  assumes "map_of (mv_manifests s) k = Some m" "is_enabled k s" "key \<in> required_by m" "k \<noteq> key"
  shows "\<exists>e. disable_module now key actor s = (Inl e, s)"
proof (cases "validate_set_enabled key False s")
  case (Inr item)
  from disable_allowed(2) [OF Inr assms(1) assms(4,2)] assms(3) show ?thesis by simp
qed (simp add: disable_module_def set_enabled_def)

end
