(* ===== verification/Password.thy ===== *)
theory Password
  imports Shared
begin

text \<open>
  \<open>internal/platform/identity/password.go\<close>: password hashes in the PHC text format. The
  Argon2id key derivation is a third-party package and an argument (\<open>argon2\<close>); the random salt is
  an argument as well. \<open>encoding/base64\<close>'s unpadded alphabet is written out, with the decoder's
  treatment of line breaks, trailing bits and corrupt input.
\<close>

section \<open>Unpadded base64\<close>

definition base64_chars :: string where
  "base64_chars = ''ABCDEFGHIJKLMNOPQRSTUVWXYZabcdefghijklmnopqrstuvwxyz0123456789+/''"

definition b64 :: "nat \<Rightarrow> char" where
  "b64 n = base64_chars ! (n mod 64)"

definition b64_value :: "char \<Rightarrow> nat option" where
  "b64_value c = map_of (zip base64_chars [0..<64]) c"

fun base64_encode :: "string \<Rightarrow> string" where
  "base64_encode [] = []"
| "base64_encode [a] = [b64 (byte_of a div 4), b64 (byte_of a mod 4 * 16)]"
| "base64_encode [a, b] =
     [b64 (byte_of a div 4), b64 (byte_of a mod 4 * 16 + byte_of b div 16), b64 (byte_of b mod 16 * 4)]"
| "base64_encode (a # b # c # s) =
     [b64 (byte_of a div 4), b64 (byte_of a mod 4 * 16 + byte_of b div 16),
      b64 (byte_of b mod 16 * 4 + byte_of c div 64), b64 (byte_of c mod 64)] @ base64_encode s"

fun sextets_bytes :: "nat list \<Rightarrow> string" where
  "sextets_bytes (p # q # r # t # v) =
     [char_of (p * 4 + q div 16), char_of (q mod 16 * 16 + r div 4), char_of (r mod 4 * 64 + t)] @ sextets_bytes v"
| "sextets_bytes [p, q, r] = [char_of (p * 4 + q div 16), char_of (q mod 16 * 16 + r div 4)]"
| "sextets_bytes [p, q] = [char_of (p * 4 + q div 16)]"
| "sextets_bytes _ = []"

definition line_break :: "char \<Rightarrow> bool" where
  "line_break c \<longleftrightarrow> byte_of c = 10 \<or> byte_of c = 13"

definition corrupt_input :: "nat \<Rightarrow> goerr" where
  "corrupt_input i = Plain (''illegal base64 data at input byte '' @ show_nat i)"

definition base64_decode :: "string \<Rightarrow> string result" where
  "base64_decode s =
     (case find (\<lambda>i. \<not> line_break (s ! i) \<and> b64_value (s ! i) = None) [0..<length s] of
        Some i \<Rightarrow> Inl (corrupt_input i)
      | None \<Rightarrow>
          let v = List.map_filter b64_value s
          in if length v mod 4 = 1 then Inl (corrupt_input (length s - 1)) else Inr (sextets_bytes v))"

section \<open>Hashing and verifying\<close>

record argon2 =
  a2_version :: int
  a2_key :: "string \<Rightarrow> string \<Rightarrow> int \<Rightarrow> int \<Rightarrow> int \<Rightarrow> int \<Rightarrow> string"

text \<open>\<open>a2_key password salt time memory threads length\<close> is \<open>argon2.IDKey\<close>.\<close>

definition hash_password :: "argon2 \<Rightarrow> string \<Rightarrow> string \<Rightarrow> string" where
  "hash_password A salt password =
     ''$argon2id$v='' @ show_int (a2_version A) @ ''$m='' @ show_int 65536 @ '',t='' @ show_int 1 @ '',p='' @ show_int 4
       @ ''$'' @ base64_encode salt @ ''$'' @ base64_encode (a2_key A password salt 1 65536 4 32)"

text \<open>\<open>fmt.Sscanf(text, "v=%d", &n)\<close>: the text after the number is not looked at.\<close>

definition scan_version :: "string \<Rightarrow> int result" where
  "scan_version s =
     (if \<not> prefix ''v='' s then Inl (Plain ''input does not match format'')
      else let t = trim_left (drop 2 s); blank = take (length s - 2 - length t) (drop 2 s);
               (sign, ds) = (case t of [] \<Rightarrow> (1, []) | c # cs \<Rightarrow>
                  if c = CHR ''-'' then (- 1, cs) else if c = CHR ''+'' then (1, cs) else (1, t));
               digits = takeWhile is_digit ds
           in if CHR 0x0A \<in> set blank then Inl (Plain ''unexpected newline'')
              else if digits = [] then Inl (Plain (if ds = [] then ''unexpected EOF'' else ''expected integer''))
              else if sign * digits_value digits < - (2 ^ 63) \<or> 2 ^ 63 \<le> sign * digits_value digits
              then Inl (Plain (''strconv.ParseInt: parsing '' @ quote (take (length t - length ds) t @ digits) @ '': value out of range''))
              else Inr (sign * digits_value digits))"

text \<open>\<open>strconv.ParseUint(value, 10, bits)\<close> after the prefix.\<close>

definition parse_uint_param :: "nat \<Rightarrow> string \<Rightarrow> string \<Rightarrow> int result" where
  "parse_uint_param bits value pfx =
     (let raw = trim_prefix pfx value in
      if raw = [] \<or> \<not> list_all is_digit raw
      then Inl (Plain (''strconv.ParseUint: parsing '' @ quote raw @ '': invalid syntax''))
      else if 2 ^ bits \<le> digits_value raw
      then Inl (Plain (''strconv.ParseUint: parsing '' @ quote raw @ '': value out of range''))
      else Inr (digits_value raw))"

definition bind_result :: "'a result \<Rightarrow> ('a \<Rightarrow> 'b result) \<Rightarrow> 'b result" where
  "bind_result r f = (case r of Inl e \<Rightarrow> Inl e | Inr x \<Rightarrow> f x)"

lemma bind_result_simps [simp]: "bind_result (Inl e) f = Inl e" "bind_result (Inr x) f = f x"
  by (simp_all add: bind_result_def)

definition verify_password :: "argon2 \<Rightarrow> string \<Rightarrow> string \<Rightarrow> bool result" where
  "verify_password A encoded password =
     (let parts = split_char (CHR ''$'') encoded in
      if length parts \<noteq> 6 \<or> parts ! 1 \<noteq> ''argon2id'' then Inl (Plain ''invalid password hash format'')
      else bind_result (scan_version (parts ! 2)) (\<lambda>version.
        if version \<noteq> a2_version A then Inl (Plain ''unsupported argon2 version'')
        else let params = split_char (CHR '','') (parts ! 3) in
          if length params \<noteq> 3 then Inl (Plain ''invalid password hash parameters'')
          else bind_result (parse_uint_param 32 (params ! 0) ''m='') (\<lambda>memory.
            bind_result (parse_uint_param 32 (params ! 1) ''t='') (\<lambda>iterations.
            bind_result (parse_uint_param 8 (params ! 2) ''p='') (\<lambda>threads.
            bind_result (base64_decode (parts ! 4)) (\<lambda>salt.
            bind_result (base64_decode (parts ! 5)) (\<lambda>hash.
              Inr (hash = a2_key A password salt iterations memory threads (int (length hash) mod 2 ^ 32)))))))))"

section \<open>Round trips\<close>

lemma b64_value_b64: "n < 64 \<Longrightarrow> b64_value (b64 n) = Some n"
proof -
  assume n: "n < 64"
  have "\<forall>i \<in> set [0..<64]. map_of (zip base64_chars [0..<64]) (base64_chars ! i) = Some i" by code_simp
  with n show ?thesis by (simp add: b64_value_def b64_def)
qed

lemma b64_char: "b64 n \<in> set base64_chars"
proof -
  have "length base64_chars = 64" by code_simp
  then show ?thesis by (simp add: b64_def)
qed

lemma base64_chars_plain: "list_all (\<lambda>c. c \<noteq> CHR ''$'' \<and> \<not> line_break c \<and> b64_value c \<noteq> None) base64_chars"
  by code_simp

lemma base64_encode_chars: "set (base64_encode s) \<subseteq> set base64_chars"
  by (induction s rule: base64_encode.induct) (simp_all add: b64_char)

lemma sextet_bounds: "byte_of c div 4 < 64" "byte_of c mod 4 * 16 + byte_of d div 16 < 64"
    "byte_of c mod 16 * 4 + byte_of d div 64 < 64" "byte_of c mod 4 * 16 < 64" "byte_of c mod 16 * 4 < 64" "byte_of c mod 64 < 64"
proof -
  have "byte_of c < 256" "byte_of d < 256" by (rule nat_of_char_less_256)+
  then have "byte_of c div 4 < 64" "byte_of d div 16 < 16" "byte_of d div 64 < 4"
    by (simp_all only: less_mult_imp_div_less [of _ 64 4, simplified] less_mult_imp_div_less [of _ 16 16, simplified]
        less_mult_imp_div_less [of _ 4 64, simplified])
  moreover have "byte_of c mod 4 \<le> 3" "byte_of c mod 16 \<le> 15" by simp_all
  ultimately show "byte_of c div 4 < 64" "byte_of c mod 4 * 16 + byte_of d div 16 < 64"
    "byte_of c mod 16 * 4 + byte_of d div 64 < 64" "byte_of c mod 4 * 16 < 64" "byte_of c mod 16 * 4 < 64" "byte_of c mod 64 < 64"
    by linarith+
qed

lemma sextet_joins:
  fixes x y z :: nat
  assumes "y < 256" "z < 256"
  shows "x div 4 * 4 + (x mod 4 * 16 + y div 16) div 16 = x" "x div 4 * 4 + x mod 4 * 16 div 16 = x"
    "(x mod 4 * 16 + y div 16) mod 16 * 16 + (y mod 16 * 4 + z div 64) div 4 = y"
    "(x mod 4 * 16 + y div 16) mod 16 * 16 + y mod 16 * 4 div 4 = y"
proof -
  have d: "y div 16 < 16" "z div 64 < 4" using assms by simp_all
  show "x div 4 * 4 + (x mod 4 * 16 + y div 16) div 16 = x" using d by (simp add: div_mult2_eq)
  show "x div 4 * 4 + x mod 4 * 16 div 16 = x" by simp
  show "(x mod 4 * 16 + y div 16) mod 16 * 16 + y mod 16 * 4 div 4 = y" using d by simp
  show "(x mod 4 * 16 + y div 16) mod 16 * 16 + (y mod 16 * 4 + z div 64) div 4 = y" using d by simp
qed

lemma sextet_last: "(y mod 16 * 4 + z div 64) mod 4 * 64 + z mod 64 = z" if "z < (256::nat)"
proof -
  have "z div 64 < 4" using that by simp
  then show ?thesis by simp
qed

lemma sextets_group:
  fixes a b c :: nat
  assumes "a < 256" "b < 256" "c < 256"
  shows "sextets_bytes (a div 4 # (a mod 4 * 16 + b div 16) # (b mod 16 * 4 + c div 64) # c mod 64 # v)
      = [char_of a, char_of b, char_of c] @ sextets_bytes v"
    "sextets_bytes [a div 4, a mod 4 * 16 + b div 16, b mod 16 * 4] = [char_of a, char_of b]"
    "sextets_bytes [a div 4, a mod 4 * 16] = [char_of a]"
proof -
  note joins = sextet_joins [OF assms(2,3), of a] sextet_last [OF assms(3), of b]
  show "sextets_bytes (a div 4 # (a mod 4 * 16 + b div 16) # (b mod 16 * 4 + c div 64) # c mod 64 # v)
      = [char_of a, char_of b, char_of c] @ sextets_bytes v"
    by (simp only: sextets_bytes.simps joins append.simps)
  show "sextets_bytes [a div 4, a mod 4 * 16 + b div 16, b mod 16 * 4] = [char_of a, char_of b]"
    "sextets_bytes [a div 4, a mod 4 * 16] = [char_of a]"
    by (simp_all only: sextets_bytes.simps joins)
qed

lemma sextets_encoded: "sextets_bytes (List.map_filter b64_value (base64_encode s)) = s"
proof (induction s rule: base64_encode.induct)
  case (4 a b c s)
  then show ?case
    by (simp add: b64_value_b64 sextet_bounds sextets_group del: sextets_bytes.simps)
next
  case (3 a b)
  show ?case using sextets_group(2) [of "byte_of a" "byte_of b" 0]
    by (simp add: b64_value_b64 sextet_bounds del: sextets_bytes.simps)
next
  case (2 a)
  show ?case using sextets_group(3) [of "byte_of a" 0 0]
    by (simp add: b64_value_b64 sextet_bounds del: sextets_bytes.simps)
qed simp

lemma length_encoded: "length (base64_encode s) mod 4 \<noteq> 1"
  by (induction s rule: base64_encode.induct) simp_all

lemma base64_roundtrip: "base64_decode (base64_encode s) = Inr s"
proof -
  have plain: "\<not> line_break c \<and> b64_value c \<noteq> None" if "c \<in> set (base64_encode s)" for c
    using that base64_encode_chars [of s] base64_chars_plain by (auto simp: list_all_iff)
  then have "find (\<lambda>i. \<not> line_break (base64_encode s ! i) \<and> b64_value (base64_encode s ! i) = None)
      [0..<length (base64_encode s)] = None"
    by (auto simp: find_None_iff)
  moreover have "length (List.map_filter b64_value (base64_encode s)) = length (base64_encode s)"
    using plain by (simp add: List.map_filter_def filter_id_conv [THEN iffD2])
  ultimately show ?thesis using length_encoded [of s] by (simp add: base64_decode_def sextets_encoded Let_def)
qed

lemma show_int_nat: "0 \<le> i \<Longrightarrow> show_int i = show_nat (nat i)"
  by (simp add: show_int_def)

lemma trim_left_digits: "list_all is_digit s \<Longrightarrow> trim_left s = s"
proof (rule trim_left_id)
  assume "list_all is_digit s"
  then show "space_len s = 0" by (cases s) (auto simp del: space_len.simps intro: visible_space_len digit_visible, simp)
qed

lemma scan_version_shown:
  assumes "0 \<le> i" "i < 2 ^ 63"
  shows "scan_version (''v='' @ show_int i) = Inr i"
proof -
  note d = show_nat_digits [of "nat i"]
  then obtain c cs where s: "show_nat (nat i) = c # cs" by (cases "show_nat (nat i)") auto
  have c: "c \<noteq> CHR ''-''" "c \<noteq> CHR ''+''" using d s by (auto simp: is_digit_def)
  have "trim_left (show_nat (nat i)) = show_nat (nat i)" using d by (simp add: trim_left_digits)
  moreover have "takeWhile is_digit cs = cs"
    using d s by (auto simp: list_all_iff intro: takeWhile_eq_all_conv [THEN iffD2])
  ultimately show ?thesis using d assms c s
    by (simp add: scan_version_def show_int_nat Let_def del: takeWhile_eq_all_conv)
qed

lemma verify_parts:
  assumes "split_char (CHR ''$'') encoded = [a, ''argon2id'', v, p, s, h]" "scan_version v = Inr (a2_version A)"
    "split_char (CHR '','') p = [x, y, z]" "parse_uint_param 32 x ''m='' = Inr memory" "parse_uint_param 32 y ''t='' = Inr iterations"
    "parse_uint_param 8 z ''p='' = Inr threads" "base64_decode s = Inr salt" "base64_decode h = Inr hash"
  shows "verify_password A encoded attempt = Inr (hash = a2_key A attempt salt iterations memory threads (int (length hash) mod 2 ^ 32))"
  using assms by (simp add: verify_password_def)

text \<open>
  C30: a password verifies against its own hash, and another one exactly if Argon2id maps both to the
  same key under the salt; the version and the salt read back from the text of the hash.
\<close>

theorem password_verifies_against_its_hash:
  assumes "0 \<le> a2_version A" "a2_version A < 2 ^ 63" "length (a2_key A password salt 1 65536 4 32) = 32"
  shows "verify_password A (hash_password A salt password) attempt
    = Inr (a2_key A password salt 1 65536 4 32 = a2_key A attempt salt 1 65536 4 32)"
proof -
  have plain: "CHR ''$'' \<notin> set (base64_encode s)" for s
    using base64_encode_chars [of s] base64_chars_plain by (auto simp: list_all_iff)
  have free: "CHR ''$'' \<notin> set (''v='' @ show_int (a2_version A))"
    using assms(1) show_nat_free [of "CHR ''$''"] by (simp add: show_int_nat is_digit_def)
  have params: "''m='' @ show_int 65536 @ '',t='' @ show_int 1 @ '',p='' @ show_int 4 = ''m=65536,t=1,p=4''"
    by (simp add: show_int_def show_nat.simps char_of_def bit_0)
  have shown: "hash_password A salt password = [] @ CHR ''$'' # (''argon2id'' @ CHR ''$'' # ((''v='' @ show_int (a2_version A))
      @ CHR ''$'' # (''m=65536,t=1,p=4'' @ CHR ''$'' # (base64_encode salt @ CHR ''$''
      # base64_encode (a2_key A password salt 1 65536 4 32)))))"
  proof -
    have "hash_password A salt password = ''$argon2id$v='' @ show_int (a2_version A) @ ''$''
        @ (''m='' @ show_int 65536 @ '',t='' @ show_int 1 @ '',p='' @ show_int 4) @ ''$'' @ base64_encode salt @ ''$''
        @ base64_encode (a2_key A password salt 1 65536 4 32)"
      by (simp only: hash_password_def append_assoc append.simps)
    then show ?thesis unfolding params by (simp only: append_assoc append.simps)
  qed
  have parts: "split_char (CHR ''$'') (hash_password A salt password) = [[], ''argon2id'', ''v='' @ show_int (a2_version A),
      ''m=65536,t=1,p=4'', base64_encode salt, base64_encode (a2_key A password salt 1 65536 4 32)]"
    unfolding shown by (subst split_char_append, use plain free in \<open>simp; fail\<close>)+
      (simp add: split_char_free plain)
  have ps: "split_char (CHR '','') ''m=65536,t=1,p=4'' = [''m=65536'', ''t=1'', ''p=4'']"
    "parse_uint_param 32 ''m=65536'' ''m='' = Inr 65536" "parse_uint_param 32 ''t=1'' ''t='' = Inr 1"
    "parse_uint_param 8 ''p=4'' ''p='' = Inr 4" by code_simp+
  show ?thesis
    using verify_parts [OF parts scan_version_shown [OF assms(1,2)] ps base64_roundtrip base64_roundtrip] assms(3) by simp
qed

definition demo_argon2 :: argon2 where
  "demo_argon2 = \<lparr>a2_version = 19, a2_key = (\<lambda>password salt time memory threads n.
     take (nat n) (password @ replicate (nat n) (CHR ''.'')))\<rparr>"

theorem password_verifies_against_its_hash_witness:
  "verify_password demo_argon2 (hash_password demo_argon2 ''salt'' ''pass-word'') ''pass-word'' = Inr True
   \<and> verify_password demo_argon2 (hash_password demo_argon2 ''salt'' ''pass-word'') ''pass-wort'' = Inr False"
proof -
  have law: "0 \<le> a2_version demo_argon2" "a2_version demo_argon2 < 2 ^ 63"
    "length (a2_key demo_argon2 ''pass-word'' ''salt'' 1 65536 4 32) = 32"
    by (simp_all add: demo_argon2_def)
  show ?thesis
    by (simp add: password_verifies_against_its_hash [OF law]) (simp add: demo_argon2_def numeral_eq_Suc)
qed

end
