(* ===== verification/Organization.thy ===== *)
theory Organization
  imports Shared
begin

text \<open>
  Package \<open>internal/platform/organization\<close>: the one organization, its locations and operating
  units, and the scope a request runs in. \<open>now\<close> is the clock.
\<close>

record organization =
  og_id :: string
  og_key :: string
  og_name :: string
  og_status :: string
  og_created_at :: gotime
  og_updated_at :: gotime

record location =
  lo_id :: string
  lo_organization_id :: string
  lo_key :: string
  lo_name :: string
  lo_type :: string
  lo_status :: string
  lo_parent_id :: string
  lo_created_at :: gotime
  lo_updated_at :: gotime

record operating_unit =
  ou_id :: string
  ou_organization_id :: string
  ou_location_id :: string
  ou_key :: string
  ou_name :: string
  ou_status :: string
  ou_created_at :: gotime
  ou_updated_at :: gotime

record scope_context =
  sx_organization_id :: string
  sx_location_id :: string
  sx_operating_unit_id :: string
  sx_allowed_scopes :: "string list"
  sx_allowed_operating_units :: "string list"
  sx_source :: string

record organization_repo =
  oz_root :: organization
  oz_locations :: "location list"
  oz_operating_units :: "operating_unit list"

definition new_organization :: "gotime \<Rightarrow> organization_repo" where
  "new_organization now =
     \<lparr>oz_root = \<lparr>og_id = ''org_default'', og_key = ''default'', og_name = ''Default Organization'', og_status = ''active'',
        og_created_at = now, og_updated_at = now\<rparr>,
      oz_locations = [\<lparr>lo_id = ''loc_hq'', lo_organization_id = ''org_default'', lo_key = ''hq'', lo_name = ''Head Office'',
        lo_type = ''location'', lo_status = ''active'', lo_parent_id = [], lo_created_at = now, lo_updated_at = now\<rparr>],
      oz_operating_units = [\<lparr>ou_id = ''ou_hq_ops'', ou_organization_id = ''org_default'', ou_location_id = ''loc_hq'',
        ou_key = ''hq_ops'', ou_name = ''HQ Operations'', ou_status = ''active'', ou_created_at = now, ou_updated_at = now\<rparr>]\<rparr>"

definition save_operating_unit :: "operating_unit \<Rightarrow> organization_repo \<Rightarrow> organization_repo" where
  "save_operating_unit unit r = r\<lparr>oz_operating_units := save_by ou_id unit (oz_operating_units r)\<rparr>"

text \<open>One location, and one active operating unit, of the two loops of \<open>ResolveScope\<close>.\<close>

definition resolve_location :: "string \<Rightarrow> location \<Rightarrow> scope_context \<Rightarrow> scope_context" where
  "resolve_location location_id l ctx =
     (let ctx = ctx\<lparr>sx_allowed_scopes := sx_allowed_scopes ctx @ [lo_id l]\<rparr>
      in if lo_id l = location_id then ctx\<lparr>sx_location_id := location_id, sx_source := ''requested_location''\<rparr> else ctx)"

definition resolve_unit :: "string \<Rightarrow> operating_unit \<Rightarrow> scope_context \<Rightarrow> scope_context" where
  "resolve_unit unit_id unit ctx =
     (if ou_status unit \<noteq> ''active'' then ctx
      else let ctx = ctx\<lparr>sx_allowed_operating_units := sx_allowed_operating_units ctx @ [ou_id unit]\<rparr>
      in if unit_id = [] \<or> ou_id unit \<noteq> unit_id then ctx
         else if sx_location_id ctx = [] \<or> ou_location_id unit = [] \<or> ou_location_id unit = sx_location_id ctx
         then ctx\<lparr>sx_operating_unit_id := ou_id unit, sx_source := ''requested_operating_unit'',
                  sx_location_id := (if sx_location_id ctx = [] then ou_location_id unit else sx_location_id ctx)\<rparr>
         else ctx)"

definition resolve_scope :: "string \<Rightarrow> string \<Rightarrow> organization_repo \<Rightarrow> scope_context" where
  "resolve_scope location_id unit_id r =
     fold (resolve_unit unit_id) (oz_operating_units r)
       (fold (resolve_location location_id) (oz_locations r)
         \<lparr>sx_organization_id = og_id (oz_root r), sx_location_id = [], sx_operating_unit_id = [], sx_allowed_scopes = [],
          sx_allowed_operating_units = [], sx_source = ''default''\<rparr>)"

definition resolve_scope_at :: "string \<Rightarrow> organization_repo \<Rightarrow> scope_context" where
  "resolve_scope_at location_id r = resolve_scope location_id [] r"

definition upsert_operating_unit ::
    "gotime \<Rightarrow> operating_unit \<Rightarrow> organization_repo \<Rightarrow> operating_unit \<times> organization_repo" where
  "upsert_operating_unit now unit r =
     (let unit = (if ou_id unit = [] then unit\<lparr>ou_id := ''ou:'' @ ou_key unit\<rparr> else unit);
          unit = (if ou_organization_id unit = [] then unit\<lparr>ou_organization_id := og_id (oz_root r)\<rparr> else unit);
          unit = (if ou_status unit = [] then unit\<lparr>ou_status := ''active''\<rparr> else unit);
          unit = unit\<lparr>ou_created_at := or_now now (ou_created_at unit), ou_updated_at := now\<rparr>
      in (unit, save_operating_unit unit r))"

section \<open>The scope of a request\<close>

lemma fold_location:
  "sx_location_id (fold (resolve_location l) ls ctx) = (if l \<in> lo_id ` set ls then l else sx_location_id ctx)"
  "sx_operating_unit_id (fold (resolve_location l) ls ctx) = sx_operating_unit_id ctx"
  "sx_organization_id (fold (resolve_location l) ls ctx) = sx_organization_id ctx"
  by (induction ls arbitrary: ctx) (auto simp: resolve_location_def Let_def)

lemma resolve_at_location:
  "sx_location_id (resolve_scope_at l r) = (if l \<in> lo_id ` set (oz_locations r) then l else [])"
proof -
  have "sx_location_id (fold (resolve_unit []) us ctx) = sx_location_id ctx" for us ctx
    by (induction us arbitrary: ctx) (auto simp: resolve_unit_def Let_def)
  then show ?thesis by (simp add: resolve_scope_at_def resolve_scope_def fold_location)
qed

lemma fold_unit_source:
  "sx_operating_unit_id (fold (resolve_unit u) us ctx) = sx_operating_unit_id ctx
   \<or> (\<exists>x \<in> set us. ou_id x = u \<and> ou_status x = ''active'' \<and> sx_operating_unit_id (fold (resolve_unit u) us ctx) = u)"
proof (induction us arbitrary: ctx)
  case (Cons x us)
  let ?c = "resolve_unit u x ctx"
  have "sx_operating_unit_id ?c = sx_operating_unit_id ctx
      \<or> ou_id x = u \<and> ou_status x = ''active'' \<and> sx_operating_unit_id ?c = u"
    by (auto simp: resolve_unit_def Let_def)
  with Cons.IH [of ?c] show ?case by auto
qed simp

text \<open>The unit a request runs in is an active one that was asked for.\<close>

lemma resolved_unit_is_active:
  "sx_operating_unit_id (resolve_scope l u r) = []
   \<or> (\<exists>x \<in> set (oz_operating_units r). ou_id x = u \<and> ou_status x = ''active'' \<and> sx_operating_unit_id (resolve_scope l u r) = u)"
  using fold_unit_source [of u "oz_operating_units r" "fold (resolve_location l) (oz_locations r)
    \<lparr>sx_organization_id = og_id (oz_root r), sx_location_id = [], sx_operating_unit_id = [], sx_allowed_scopes = [],
     sx_allowed_operating_units = [], sx_source = ''default''\<rparr>"]
  by (simp only: resolve_scope_def fold_location scope_context.simps)

end
