(* ===== verification/IdentityModel.thy ===== *)
theory IdentityModel
  imports Password Organization
begin

text \<open>
  Package \<open>internal/platform/identity\<close>, first part: users, roles, permissions, bindings, credentials,
  sessions, second factors, delegation and deep link grants, reporting lines, and the in-memory
  repository that holds them in slices.
\<close>

section \<open>Records\<close>

record user =
  u_id :: string
  u_username :: string
  u_authentication_subject :: string
  u_status :: string
  u_default_location_id :: string
  u_preferred_locale :: string
  u_preferred_user_route :: string
  u_preferred_admin_route :: string
  u_created_at :: gotime
  u_updated_at :: gotime

record role =
  ro_id :: string
  ro_key :: string
  ro_name :: string
  ro_scope_type :: string
  ro_default_user_route :: string
  ro_default_admin_route :: string
  ro_created_at :: gotime
  ro_updated_at :: gotime

record permission =
  pe_key :: string
  pe_module :: string
  pe_action :: string
  pe_resource :: string
  pe_description :: string

record role_binding =
  bi_id :: string
  bi_user_id :: string
  bi_role_id :: string
  bi_scope_type :: string
  bi_scope_id :: string
  bi_priority :: int
  bi_effective_from :: gotime
  bi_effective_to :: gotime
  bi_status :: string

record role_permission =
  rpg_role_id :: string
  rpg_permission_key :: string

record credential =
  cr_user_id :: string
  cr_password_hash :: string
  cr_password_changed_at :: gotime
  cr_cashier_pin_hash :: string
  cr_cashier_pin_changed_at :: gotime
  cr_failed_attempt_count :: int
  cr_locked_until :: gotime
  cr_updated_at :: gotime

record session =
  sn_id :: string
  sn_user_id :: string
  sn_status :: string
  sn_issued_at :: gotime
  sn_expires_at :: gotime
  sn_last_seen_at :: gotime
  sn_authentication_method :: string
  sn_current_location_id :: string
  sn_login_step_up_at :: gotime
  sn_approval_step_up_at :: gotime
  sn_approval_step_up_until :: gotime
  sn_revoked_at :: gotime
  sn_client_metadata :: gobj

record totp_enrollment =
  te_user_id :: string
  te_secret :: string
  te_issuer :: string
  te_account_name :: string
  te_login_enabled :: bool
  te_approval_enabled :: bool
  te_verified_at :: gotime
  te_disabled_at :: gotime
  te_created_at :: gotime
  te_updated_at :: gotime

record auth_challenge =
  ch_id :: string
  ch_user_id :: string
  ch_username :: string
  ch_auth_method :: string
  ch_current_location_id :: string
  ch_status :: string
  ch_purpose :: string
  ch_expires_at :: gotime
  ch_created_at :: gotime
  ch_consumed_at :: gotime
  ch_client_metadata :: gobj

record delegation_grant =
  gt_id :: string
  gt_grantor_user_id :: string
  gt_delegate_kind :: string
  gt_delegate_id :: string
  gt_delegate_user_id :: string
  gt_status :: string
  gt_location_id :: string
  gt_allowed_permission_keys :: "string list"
  gt_allowed_document_types :: "string list"
  gt_reason :: string
  gt_starts_at :: gotime
  gt_expires_at :: gotime
  gt_accepted_at :: gotime
  gt_accepted_by_kind :: string
  gt_accepted_by_id :: string
  gt_accepted_by_user_id :: string
  gt_revoked_at :: gotime
  gt_revoked_by_user_id :: string
  gt_created_at :: gotime
  gt_updated_at :: gotime

record deep_link_grant =
  dk_id :: string
  dk_kind :: string
  dk_user_id :: string
  dk_status :: string
  dk_target_type :: string
  dk_target_id :: string
  dk_location_id :: string
  dk_allowed_permission_keys :: "string list"
  dk_allowed_actions :: "string list"
  dk_review_only :: bool
  dk_require_step_up :: bool
  dk_one_time :: bool
  dk_title :: string
  dk_message :: string
  dk_starts_at :: gotime
  dk_expires_at :: gotime
  dk_activated_at :: gotime
  dk_consumed_at :: gotime
  dk_consumed_by_action :: string
  dk_revoked_at :: gotime
  dk_created_at :: gotime
  dk_updated_at :: gotime
  dk_metadata :: gobj

record service_principal =
  sp_id :: string
  sp_key :: string
  sp_status :: string
  sp_allowed_operation_types :: "string list"
  sp_credential_ref :: string
  sp_created_at :: gotime
  sp_updated_at :: gotime

record reporting_line =
  rep_id :: string
  rep_subject_user_id :: string
  rep_manager_user_id :: string
  rep_relationship_type :: string
  rep_organization_id :: string
  rep_location_id :: string
  rep_operating_unit_id :: string
  rep_status :: string
  rep_priority :: int
  rep_effective_from :: gotime
  rep_effective_to :: gotime
  rep_created_at :: gotime
  rep_updated_at :: gotime

record access =
  ax_allowed :: bool
  ax_constraints :: "string list"
  ax_reason :: string

record identity_repo =
  iy_users :: "user list"
  iy_roles :: "role list"
  iy_permissions :: "permission list"
  iy_bindings :: "role_binding list"
  iy_grants :: "role_permission list"
  iy_credentials :: "credential list"
  iy_sessions :: "session list"
  iy_totp_enrollments :: "totp_enrollment list"
  iy_auth_challenges :: "auth_challenge list"
  iy_service_principals :: "service_principal list"
  iy_delegation_grants :: "delegation_grant list"
  iy_deep_link_grants :: "deep_link_grant list"
  iy_reporting_lines :: "reporting_line list"
  iy_login_failures :: "(string, gotime list) gomap"

definition new_identity_repo ::
    "user list \<Rightarrow> role list \<Rightarrow> permission list \<Rightarrow> role_binding list \<Rightarrow> role_permission list \<Rightarrow> credential list
       \<Rightarrow> session list \<Rightarrow> service_principal list \<Rightarrow> identity_repo" where
  "new_identity_repo us rs ps bs gs cs ss sps =
     \<lparr>iy_users = us, iy_roles = rs, iy_permissions = ps, iy_bindings = bs, iy_grants = gs, iy_credentials = cs,
      iy_sessions = ss, iy_totp_enrollments = [], iy_auth_challenges = [], iy_service_principals = sps,
      iy_delegation_grants = [], iy_deep_link_grants = [], iy_reporting_lines = [], iy_login_failures = []\<rparr>"

section \<open>The repository\<close>

definition save_user :: "user \<Rightarrow> identity_repo \<Rightarrow> identity_repo" where
  "save_user x r = r\<lparr>iy_users := save_by u_id x (iy_users r)\<rparr>"

definition save_role :: "role \<Rightarrow> identity_repo \<Rightarrow> identity_repo" where
  "save_role x r = r\<lparr>iy_roles := save_by ro_id x (iy_roles r)\<rparr>"

definition save_permission :: "permission \<Rightarrow> identity_repo \<Rightarrow> identity_repo" where
  "save_permission x r = r\<lparr>iy_permissions := save_by pe_key x (iy_permissions r)\<rparr>"

definition save_role_binding :: "role_binding \<Rightarrow> identity_repo \<Rightarrow> identity_repo" where
  "save_role_binding x r = r\<lparr>iy_bindings := save_by bi_id x (iy_bindings r)\<rparr>"

definition save_role_permission :: "role_permission \<Rightarrow> identity_repo \<Rightarrow> identity_repo" where
  "save_role_permission x r = r\<lparr>iy_grants := save_by (\<lambda>g. (rpg_role_id g, rpg_permission_key g)) x (iy_grants r)\<rparr>"

definition delete_role_permission :: "string \<Rightarrow> string \<Rightarrow> identity_repo \<Rightarrow> identity_repo" where
  "delete_role_permission role_id permission_key r =
     r\<lparr>iy_grants := filter (\<lambda>g. \<not> (rpg_role_id g = role_id \<and> rpg_permission_key g = permission_key)) (iy_grants r)\<rparr>"

definition save_credential :: "credential \<Rightarrow> identity_repo \<Rightarrow> identity_repo" where
  "save_credential x r = r\<lparr>iy_credentials := save_by cr_user_id x (iy_credentials r)\<rparr>"

definition save_session :: "session \<Rightarrow> identity_repo \<Rightarrow> identity_repo" where
  "save_session x r = r\<lparr>iy_sessions := save_by sn_id x (iy_sessions r)\<rparr>"

definition save_totp_enrollment :: "totp_enrollment \<Rightarrow> identity_repo \<Rightarrow> identity_repo" where
  "save_totp_enrollment x r = r\<lparr>iy_totp_enrollments := save_by te_user_id x (iy_totp_enrollments r)\<rparr>"

definition save_auth_challenge :: "auth_challenge \<Rightarrow> identity_repo \<Rightarrow> identity_repo" where
  "save_auth_challenge x r = r\<lparr>iy_auth_challenges := save_by ch_id x (iy_auth_challenges r)\<rparr>"

definition save_service_principal :: "service_principal \<Rightarrow> identity_repo \<Rightarrow> identity_repo" where
  "save_service_principal x r = r\<lparr>iy_service_principals := save_by sp_id x (iy_service_principals r)\<rparr>"

definition store_delegation_grant :: "delegation_grant \<Rightarrow> identity_repo \<Rightarrow> identity_repo" where
  "store_delegation_grant x r = r\<lparr>iy_delegation_grants := save_by gt_id x (iy_delegation_grants r)\<rparr>"

definition store_deep_link_grant :: "deep_link_grant \<Rightarrow> identity_repo \<Rightarrow> identity_repo" where
  "store_deep_link_grant x r = r\<lparr>iy_deep_link_grants := save_by dk_id x (iy_deep_link_grants r)\<rparr>"

definition save_reporting_line :: "reporting_line \<Rightarrow> identity_repo \<Rightarrow> identity_repo" where
  "save_reporting_line x r = r\<lparr>iy_reporting_lines := save_by rep_id x (iy_reporting_lines r)\<rparr>"

definition find_user :: "string \<Rightarrow> identity_repo \<Rightarrow> user option" where
  "find_user k r = find_by u_id k (iy_users r)"

definition find_user_by_username :: "string \<Rightarrow> identity_repo \<Rightarrow> user option" where
  "find_user_by_username k r = find_by u_username k (iy_users r)"

definition find_user_by_subject :: "string \<Rightarrow> identity_repo \<Rightarrow> user option" where
  "find_user_by_subject k r = find_by u_authentication_subject k (iy_users r)"

definition find_session :: "string \<Rightarrow> identity_repo \<Rightarrow> session option" where
  "find_session k r = find_by sn_id k (iy_sessions r)"

definition find_credential :: "string \<Rightarrow> identity_repo \<Rightarrow> credential option" where
  "find_credential k r = find_by cr_user_id k (iy_credentials r)"

definition find_totp_enrollment :: "string \<Rightarrow> identity_repo \<Rightarrow> totp_enrollment option" where
  "find_totp_enrollment k r = find_by te_user_id k (iy_totp_enrollments r)"

definition find_auth_challenge :: "string \<Rightarrow> identity_repo \<Rightarrow> auth_challenge option" where
  "find_auth_challenge k r = find_by ch_id k (iy_auth_challenges r)"

definition find_service_principal :: "string \<Rightarrow> identity_repo \<Rightarrow> service_principal option" where
  "find_service_principal k r = find_by sp_id k (iy_service_principals r)"

definition find_delegation_grant :: "string \<Rightarrow> identity_repo \<Rightarrow> delegation_grant option" where
  "find_delegation_grant k r = find_by gt_id k (iy_delegation_grants r)"

definition find_deep_link_grant :: "string \<Rightarrow> identity_repo \<Rightarrow> deep_link_grant option" where
  "find_deep_link_grant k r = find_by dk_id k (iy_deep_link_grants r)"

text \<open>Login failures of a key; counting drops those before \<open>since\<close>.\<close>

definition count_recent_login_failures :: "string \<Rightarrow> gotime \<Rightarrow> identity_repo \<Rightarrow> int \<times> identity_repo" where
  "count_recent_login_failures key since r =
     (let failures = mget [] (iy_login_failures r) key; kept = filter (\<lambda>t. \<not> t < since) failures in
      if failures = [] then (0, r)
      else if kept = [] then (0, r\<lparr>iy_login_failures := mdel key (iy_login_failures r)\<rparr>)
      else (int (length kept), r\<lparr>iy_login_failures := mput key kept (iy_login_failures r)\<rparr>))"

definition record_login_failure :: "string \<Rightarrow> gotime \<Rightarrow> identity_repo \<Rightarrow> identity_repo" where
  "record_login_failure key at r =
     r\<lparr>iy_login_failures := mput key (mget [] (iy_login_failures r) key @ [at]) (iy_login_failures r)\<rparr>"

definition clear_login_failures :: "string \<Rightarrow> identity_repo \<Rightarrow> identity_repo" where
  "clear_login_failures key r = r\<lparr>iy_login_failures := mdel key (iy_login_failures r)\<rparr>"

definition cleanup_login_failures :: "gotime \<Rightarrow> identity_repo \<Rightarrow> identity_repo" where
  "cleanup_login_failures before r =
     r\<lparr>iy_login_failures := filter (\<lambda>(k, ts). ts \<noteq> [])
        (map (\<lambda>(k, ts). (k, filter (\<lambda>t. \<not> t < before) ts)) (iy_login_failures r))\<rparr>"

lemmas store_defs = save_user_def save_role_def save_permission_def save_role_binding_def save_role_permission_def
  delete_role_permission_def save_credential_def save_session_def save_totp_enrollment_def save_auth_challenge_def
  save_service_principal_def store_delegation_grant_def store_deep_link_grant_def save_reporting_line_def

lemmas find_defs = find_user_def find_user_by_username_def find_user_by_subject_def find_session_def find_credential_def
  find_totp_enrollment_def find_auth_challenge_def find_service_principal_def find_delegation_grant_def find_deep_link_grant_def

section \<open>Small helpers\<close>

definition normalize_string_list :: "string list \<Rightarrow> string list" where
  "normalize_string_list items = sort_slice (\<lambda>x. x) (fold (\<lambda>x acc. if x = [] \<or> x \<in> set acc then acc else acc @ [x]) (map trim_space items) [])"

definition contains_string :: "string list \<Rightarrow> string \<Rightarrow> bool" where
  "contains_string items candidate \<longleftrightarrow> trim_space candidate \<in> set items"

definition normalize_route :: "string \<Rightarrow> string" where
  "normalize_route route =
     (let route = trim_space route in if route = [] then [] else if \<not> prefix ''/'' route then ''/'' @ route else route)"

definition resolve_time :: "gotime \<Rightarrow> gotime \<Rightarrow> gotime" where
  "resolve_time now at = or_now now at"

definition normalize_locale :: "string \<Rightarrow> string" where
  "normalize_locale locale =
     (let v = map (\<lambda>c. if c = CHR ''_'' then CHR ''-'' else c) (trim_space (to_lower locale)) in
      if v = ''en'' \<or> prefix ''en-'' v then ''en'' else if v = ''id'' \<or> prefix ''id-'' v then ''id'' else ''en'')"

lemma in_normalize_string_list: "x \<in> set (normalize_string_list items) \<longleftrightarrow> x \<noteq> [] \<and> x \<in> trim_space ` set items"
proof -
  have "x \<in> set (fold (\<lambda>x acc. if x = [] \<or> x \<in> set acc then acc else acc @ [x]) xs acc) \<longleftrightarrow> x \<in> set acc \<or> x \<noteq> [] \<and> x \<in> set xs" for xs acc
    by (induction xs arbitrary: acc) auto
  then show ?thesis by (simp add: normalize_string_list_def image_iff)
qed

end
