(* ===== verification/IdentityAccess.thy ===== *)
theory IdentityAccess
  imports IdentityModel
begin

text \<open>
  The decisions of \<open>identity.Service\<close> (permissions of users, sessions, delegates, agents and deep
  links), of \<open>authz.Service\<close>, and the people a role or a reporting line names. A decision that reads
  the clock at several places has the readings as \<open>clk i\<close>, in the order of the code.
\<close>

section \<open>Roles in force\<close>

definition denied_access :: "string \<Rightarrow> access" where
  "denied_access reason = \<lparr>ax_allowed = False, ax_constraints = [], ax_reason = reason\<rparr>"

definition binding_in_force :: "gotime \<Rightarrow> role_binding \<Rightarrow> bool" where
  "binding_in_force now b \<longleftrightarrow> bi_status b = ''active'' \<and> \<not> now < bi_effective_from b
     \<and> (is_zero_time (bi_effective_to b) \<or> \<not> bi_effective_to b < now)"

definition binding_matches_scope :: "role_binding \<Rightarrow> string \<Rightarrow> string \<Rightarrow> string \<Rightarrow> bool" where
  "binding_matches_scope b organization_id location_id unit_id =
     (if bi_scope_type b = ''organization'' then bi_scope_id b = [] \<or> organization_id = [] \<or> bi_scope_id b = organization_id
      else if bi_scope_type b = ''location'' then bi_scope_id b = [] \<or> location_id = [] \<or> bi_scope_id b = location_id
      else if bi_scope_type b = ''operating_unit'' then bi_scope_id b = [] \<or> unit_id = [] \<or> bi_scope_id b = unit_id
      else True)"

text \<open>The scope test of \<open>userHasPermission\<close>, which looks at locations only.\<close>

definition binding_reaches :: "string \<Rightarrow> role_binding \<Rightarrow> bool" where
  "binding_reaches location_id b \<longleftrightarrow>
     \<not> (bi_scope_type b = ''location'' \<and> bi_scope_id b \<noteq> [] \<and> location_id \<noteq> [] \<and> bi_scope_id b \<noteq> location_id)"

definition user_has_permission :: "gotime \<Rightarrow> string \<Rightarrow> string \<Rightarrow> string \<Rightarrow> identity_repo \<Rightarrow> bool" where
  "user_has_permission now user_id permission_key location_id r \<longleftrightarrow>
     (\<exists>g \<in> set (iy_grants r). rpg_permission_key g = permission_key
        \<and> rpg_role_id g \<in> bi_role_id ` {b \<in> set (iy_bindings r).
             bi_user_id b = user_id \<and> binding_in_force now b \<and> binding_reaches location_id b})"

definition active_role_ids_for_user ::
    "gotime \<Rightarrow> string \<Rightarrow> string \<Rightarrow> string \<Rightarrow> string \<Rightarrow> gotime \<Rightarrow> identity_repo \<Rightarrow> string list" where
  "active_role_ids_for_user now user_id organization_id location_id unit_id at r =
     (if trim_space user_id = [] then []
      else sort_slice (\<lambda>x. x) (fold (\<lambda>b items.
        let role_id = trim_space (bi_role_id b) in
        if bi_user_id b \<noteq> trim_space user_id \<or> \<not> binding_in_force (resolve_time now at) b
           \<or> \<not> binding_matches_scope b organization_id location_id unit_id \<or> role_id = [] \<or> role_id \<in> set items
        then items else items @ [role_id]) (iy_bindings r) []))"

definition find_role :: "string \<Rightarrow> identity_repo \<Rightarrow> role option" where
  "find_role role_id r = find_by ro_id role_id (iy_roles r)"

definition role_exists :: "string \<Rightarrow> identity_repo \<Rightarrow> bool" where
  "role_exists role_id r \<longleftrightarrow> (\<exists>x \<in> set (iy_roles r). ro_id x = role_id)"

definition find_role_by_key :: "string \<Rightarrow> identity_repo \<Rightarrow> role option" where
  "find_role_by_key role_key r = find_by ro_key (trim_space role_key) (iy_roles r)"

definition permission_exists :: "string \<Rightarrow> identity_repo \<Rightarrow> bool" where
  "permission_exists permission_key r \<longleftrightarrow> (\<exists>x \<in> set (iy_permissions r). pe_key x = permission_key)"

definition resolve_role_candidates ::
    "gotime \<Rightarrow> string \<Rightarrow> string \<Rightarrow> string \<Rightarrow> string \<Rightarrow> gotime \<Rightarrow> identity_repo \<Rightarrow> user list" where
  "resolve_role_candidates now role_key organization_id location_id unit_id at r =
     (if trim_space role_key = [] then []
      else case find_role_by_key (trim_space role_key) r of
             None \<Rightarrow> []
           | Some role \<Rightarrow>
               let candidates = List.map_filter (\<lambda>b.
                     if bi_role_id b \<noteq> ro_id role \<or> \<not> binding_in_force (resolve_time now at) b
                        \<or> \<not> binding_matches_scope b organization_id location_id unit_id then None
                     else case find_user (bi_user_id b) r of
                            None \<Rightarrow> None | Some u \<Rightarrow> if u_status u = ''active'' then Some (u_id u) else None) (iy_bindings r)
               in sort_slice (\<lambda>u. (u_username u, u_id u)) (filter (\<lambda>u. u_id u \<in> set candidates) (iy_users r)))"

text \<open>The default route of the roles of a user: highest priority first, then the latest binding, then the role.\<close>

definition default_route :: "gotime \<Rightarrow> string \<Rightarrow> string \<Rightarrow> identity_repo \<Rightarrow> string" where
  "default_route now user_id surface r =
     (let ranked = List.map_filter (\<lambda>b.
            if bi_user_id b \<noteq> user_id \<or> \<not> binding_in_force now b then None
            else map_option (\<lambda>role. (role, bi_priority b, bi_effective_from b)) (find_role (bi_role_id b) r)) (iy_bindings r);
          ranked = sort_slice (\<lambda>(role, priority, from). (- priority, - from, ro_id role)) ranked;
          route = (\<lambda>role. if to_lower (trim_space surface) = ''admin'' then normalize_route (ro_default_admin_route role)
                          else normalize_route (ro_default_user_route role))
      in case filter (\<lambda>x. x \<noteq> []) (map (route \<circ> fst) ranked) of [] \<Rightarrow> [] | x # _ \<Rightarrow> x)"

definition preferred_route :: "string \<Rightarrow> string \<Rightarrow> identity_repo \<Rightarrow> string" where
  "preferred_route user_id surface r =
     (case find_user user_id r of
        None \<Rightarrow> []
      | Some u \<Rightarrow> if to_lower (trim_space surface) = ''admin'' then normalize_route (u_preferred_admin_route u)
                  else normalize_route (u_preferred_user_route u))"

definition preferred_locale :: "string \<Rightarrow> identity_repo \<Rightarrow> string" where
  "preferred_locale user_id r =
     (case find_user user_id r of
        None \<Rightarrow> []
      | Some u \<Rightarrow> if trim_space (u_preferred_locale u) = [] then [] else normalize_locale (u_preferred_locale u))"

section \<open>Managers\<close>

definition reporting_line_rank :: "string \<Rightarrow> int" where
  "reporting_line_rank kind =
     (if trim_space kind = ''acting_manager'' then 0 else if trim_space kind = ''primary_manager'' then 1 else 2)"

definition reporting_line_matches_scope :: "reporting_line \<Rightarrow> string \<Rightarrow> string \<Rightarrow> string \<Rightarrow> bool" where
  "reporting_line_matches_scope l organization_id location_id unit_id \<longleftrightarrow>
     (rep_organization_id l = [] \<or> organization_id = [] \<or> rep_organization_id l = organization_id)
   \<and> (rep_location_id l = [] \<or> location_id = [] \<or> rep_location_id l = location_id)
   \<and> (rep_operating_unit_id l = [] \<or> unit_id = [] \<or> rep_operating_unit_id l = unit_id)"

definition active_reporting_lines ::
    "reporting_line list \<Rightarrow> string \<Rightarrow> string \<Rightarrow> string \<Rightarrow> string \<Rightarrow> gotime \<Rightarrow> reporting_line list" where
  "active_reporting_lines ls subject organization_id location_id unit_id at =
     filter (\<lambda>l. rep_subject_user_id l = subject \<and> rep_status l = ''active'' \<and> \<not> at < rep_effective_from l
        \<and> (is_zero_time (rep_effective_to l) \<or> \<not> rep_effective_to l < at)
        \<and> reporting_line_matches_scope l organization_id location_id unit_id) ls"

definition resolve_manager ::
    "gotime \<Rightarrow> string \<Rightarrow> string \<Rightarrow> string \<Rightarrow> string \<Rightarrow> gotime \<Rightarrow> identity_repo \<Rightarrow> (reporting_line \<times> user) option" where
  "resolve_manager now subject organization_id location_id unit_id at r =
     (let ls = active_reporting_lines (iy_reporting_lines r) (trim_space subject) organization_id location_id unit_id (resolve_time now at);
          ls = sort_slice (\<lambda>l. (reporting_line_rank (rep_relationship_type l), - rep_priority l, rep_id l)) ls
      in case List.map_filter (\<lambda>l. case find_user (rep_manager_user_id l) r of
              None \<Rightarrow> None | Some m \<Rightarrow> if u_status m = ''active'' then Some (l, m) else None) ls of
           [] \<Rightarrow> None | x # _ \<Rightarrow> Some x)"

section \<open>Grants as they stand now\<close>

definition normalize_delegation_grant_at :: "delegation_grant \<Rightarrow> gotime \<Rightarrow> delegation_grant" where
  "normalize_delegation_grant_at g now =
     (let kind = to_lower (trim_space (gt_delegate_kind g)); kind = (if kind = [] then ''user'' else kind);
          delegate_user = trim_space (gt_delegate_user_id g);
          delegate = trim_space (gt_delegate_id g); delegate = (if delegate = [] then delegate_user else delegate);
          delegate_user = (if kind = ''user'' \<and> delegate_user = [] then delegate else delegate_user);
          by_user = trim_space (gt_accepted_by_user_id g);
          by_kind = to_lower (trim_space (gt_accepted_by_kind g));
          by_kind = (if by_kind = [] \<and> by_user \<noteq> [] then ''user'' else by_kind);
          by_id = trim_space (gt_accepted_by_id g); by_id = (if by_id = [] then by_user else by_id);
          by_user = (if by_kind = ''user'' \<and> by_user = [] then by_id else by_user);
          status = (if gt_status g \<in> {''pending'', ''accepted''} \<and> \<not> is_zero_time (gt_expires_at g) \<and> \<not> now < gt_expires_at g
                    then ''expired'' else gt_status g)
      in g\<lparr>gt_delegate_kind := kind, gt_delegate_id := delegate, gt_delegate_user_id := delegate_user, gt_accepted_by_kind := by_kind,
           gt_accepted_by_id := by_id, gt_accepted_by_user_id := by_user, gt_status := status\<rparr>)"

definition normalize_deep_link_grant_at :: "deep_link_grant \<Rightarrow> gotime \<Rightarrow> deep_link_grant" where
  "normalize_deep_link_grant_at g now =
     (let kind = trim_space (to_lower (dk_kind g)); kind = (if kind = [] then ''workflow_approval'' else kind);
          status = trim_space (to_lower (dk_status g)); status = (if status = [] then ''pending'' else status);
          status = (if \<not> is_zero_time (dk_revoked_at g) then ''revoked'' else status);
          status = (if \<not> is_zero_time (dk_consumed_at g) then ''consumed'' else status);
          status = (if status \<noteq> ''revoked'' \<and> status \<noteq> ''consumed'' \<and> \<not> is_zero_time (dk_expires_at g) \<and> \<not> now < dk_expires_at g
                    then ''expired'' else status)
      in g\<lparr>dk_kind := kind, dk_status := status\<rparr>)"

section \<open>Decisions\<close>

definition decide :: "gotime \<Rightarrow> organization_repo \<Rightarrow> string \<Rightarrow> string \<Rightarrow> string \<Rightarrow> identity_repo \<Rightarrow> access" where
  "decide now org user_id permission_key location_id r =
     (if user_id = [] then denied_access ''missing user''
      else if permission_key = [] then denied_access ''missing permission''
      else case find_user user_id r of
             None \<Rightarrow> denied_access ''user not active''
           | Some u \<Rightarrow>
               if u_status u \<noteq> ''active'' then denied_access ''user not active''
               else if \<not> user_has_permission now user_id permission_key location_id r then denied_access ''permission denied''
               else \<lparr>ax_allowed = True, ax_constraints =
                       (if sx_location_id (resolve_scope_at location_id org) = [] \<and> location_id \<noteq> []
                        then [''requested_location_not_found''] else []), ax_reason = []\<rparr>)"

text \<open>
  \<open>clk 0\<close> is read for the expiry of the session, \<open>clk 1\<close> to normalise the grant, \<open>clk 2\<close> and \<open>clk 3\<close>
  for its start and its end, \<open>clk 4\<close> for the bindings. A missing grant is \<^const>\<open>None\<close>.
\<close>

definition decide_acting_session ::
    "(nat \<Rightarrow> gotime) \<Rightarrow> organization_repo \<Rightarrow> string \<Rightarrow> string \<Rightarrow> string \<Rightarrow> string \<Rightarrow> delegation_grant option \<Rightarrow> identity_repo \<Rightarrow> access" where
  "decide_acting_session clk org session_id effective_user_id permission_key location_id grant r =
     (if session_id = [] then denied_access ''missing session''
      else case find_session session_id r of
        None \<Rightarrow> denied_access ''session not found''
      | Some s \<Rightarrow>
          if sn_status s \<noteq> ''active'' then denied_access ''session not active''
          else if \<not> is_zero_time (sn_revoked_at s) then denied_access ''session revoked''
          else if \<not> is_zero_time (sn_expires_at s) \<and> sn_expires_at s < clk 0 then denied_access ''session expired''
          else
            let location_id = (if location_id = [] then sn_current_location_id s else location_id);
                acting = (if trim_space effective_user_id = [] then sn_user_id s else trim_space effective_user_id)
            in (case grant of
                 None \<Rightarrow> decide (clk 4) org acting permission_key location_id r
               | Some g \<Rightarrow>
                   let g = normalize_delegation_grant_at g (clk 1) in
                   if trim_space (gt_status g) \<noteq> ''accepted'' then denied_access ''delegation grant is not active''
                   else if gt_delegate_kind g \<noteq> ''user'' \<or> gt_delegate_id g \<noteq> sn_user_id s \<or> gt_grantor_user_id g \<noteq> acting
                   then denied_access ''delegation grant does not match session''
                   else if gt_location_id g \<noteq> [] \<and> location_id \<noteq> [] \<and> gt_location_id g \<noteq> location_id
                   then denied_access ''delegation grant location mismatch''
                   else if \<not> is_zero_time (gt_starts_at g) \<and> clk 2 < gt_starts_at g then denied_access ''delegation grant not active yet''
                   else if \<not> is_zero_time (gt_expires_at g) \<and> \<not> clk 3 < gt_expires_at g then denied_access ''delegation grant expired''
                   else if \<not> contains_string (gt_allowed_permission_keys g) permission_key
                   then denied_access ''delegation grant does not allow permission''
                   else decide (clk 4) org acting permission_key location_id r))"

definition decide_session ::
    "(nat \<Rightarrow> gotime) \<Rightarrow> organization_repo \<Rightarrow> string \<Rightarrow> string \<Rightarrow> string \<Rightarrow> identity_repo \<Rightarrow> access" where
  "decide_session clk org session_id permission_key location_id r =
     decide_acting_session clk org session_id [] permission_key location_id None r"

definition decide_acting_service_principal ::
    "(nat \<Rightarrow> gotime) \<Rightarrow> organization_repo \<Rightarrow> string \<Rightarrow> string \<Rightarrow> string \<Rightarrow> string \<Rightarrow> delegation_grant option \<Rightarrow> identity_repo \<Rightarrow> access" where
  "decide_acting_service_principal clk org principal_id effective_user_id permission_key location_id grant r =
     (if principal_id = [] then denied_access ''missing service principal''
      else case find_service_principal principal_id r of
        None \<Rightarrow> denied_access ''service principal not found''
      | Some p \<Rightarrow>
          if sp_status p \<noteq> ''active'' then denied_access ''service principal not active''
          else (case grant of
            None \<Rightarrow> denied_access ''delegation grant is required''
          | Some g \<Rightarrow>
              let g = normalize_delegation_grant_at g (clk 0) in
              if trim_space (gt_status g) \<noteq> ''accepted'' then denied_access ''delegation grant is not active''
              else
                let acting = (if trim_space effective_user_id = [] then gt_grantor_user_id g else trim_space effective_user_id) in
                if gt_delegate_kind g \<noteq> ''agent'' \<or> gt_delegate_id g \<noteq> principal_id \<or> gt_grantor_user_id g \<noteq> acting
                then denied_access ''delegation grant does not match service principal''
                else if gt_location_id g \<noteq> [] \<and> location_id \<noteq> [] \<and> gt_location_id g \<noteq> location_id
                then denied_access ''delegation grant location mismatch''
                else if \<not> is_zero_time (gt_starts_at g) \<and> clk 1 < gt_starts_at g then denied_access ''delegation grant not active yet''
                else if \<not> is_zero_time (gt_expires_at g) \<and> \<not> clk 2 < gt_expires_at g then denied_access ''delegation grant expired''
                else if \<not> contains_string (gt_allowed_permission_keys g) permission_key
                then denied_access ''delegation grant does not allow permission''
                else decide (clk 3) org acting permission_key (gt_location_id g) r))"

text \<open>\<open>now\<close> is the argument of \<open>DecideDeepLinkGrant\<close>, \<open>later\<close> the clock reading for the bindings.\<close>

definition decide_deep_link_grant ::
    "gotime \<Rightarrow> organization_repo \<Rightarrow> deep_link_grant \<Rightarrow> string \<Rightarrow> string \<Rightarrow> string \<Rightarrow> gotime \<Rightarrow> identity_repo \<Rightarrow> access" where
  "decide_deep_link_grant later org g user_id permission_key location_id now r =
     (let g = normalize_deep_link_grant_at g now in
      if trim_space (dk_user_id g) \<noteq> trim_space user_id then denied_access ''deep link grant does not match user''
      else if dk_status g \<noteq> ''pending'' \<and> dk_status g \<noteq> ''active'' then denied_access ''deep link grant is not active''
      else if \<not> is_zero_time (dk_starts_at g) \<and> now < dk_starts_at g then denied_access ''deep link grant not active yet''
      else if \<not> is_zero_time (dk_expires_at g) \<and> \<not> now < dk_expires_at g then denied_access ''deep link grant expired''
      else if \<not> is_zero_time (dk_revoked_at g) then denied_access ''deep link grant is revoked''
      else if \<not> is_zero_time (dk_consumed_at g) then denied_access ''deep link grant has already been used''
      else if permission_key \<noteq> [] \<and> dk_allowed_permission_keys g \<noteq> [] \<and> \<not> contains_string (dk_allowed_permission_keys g) permission_key
      then denied_access ''deep link grant does not allow permission''
      else if location_id \<noteq> [] \<and> dk_location_id g \<noteq> [] \<and> dk_location_id g \<noteq> location_id
      then denied_access ''deep link grant location mismatch''
      else decide later org user_id permission_key
             (if trim_space location_id = [] then trim_space (dk_location_id g) else trim_space location_id) r)"

definition decide_service_principal :: "string \<Rightarrow> string \<Rightarrow> identity_repo \<Rightarrow> access" where
  "decide_service_principal principal_id operation_type r =
     (if principal_id = [] then denied_access ''missing service principal''
      else if operation_type = [] then denied_access ''missing operation type''
      else case find_service_principal principal_id r of
        None \<Rightarrow> denied_access ''service principal not found''
      | Some p \<Rightarrow>
          if sp_status p \<noteq> ''active'' then denied_access ''service principal not active''
          else if operation_type \<in> set (sp_allowed_operation_types p)
          then \<lparr>ax_allowed = True, ax_constraints = [], ax_reason = []\<rparr>
          else denied_access ''operation not allowed'')"

section \<open>Package authz\<close>

record auth_subject =
  as_kind :: string
  as_user_id :: string
  as_session_id :: string
  as_service_id :: string
  as_current_location_id :: string
  as_auth_method :: string
  as_step_up_verified :: bool

record auth_request =
  aq_subject :: auth_subject
  aq_permission_key :: string
  aq_service_operation :: string
  aq_location_id :: string
  aq_require_step_up :: bool

record auth_decision =
  ad_allowed :: bool
  ad_reason :: string
  ad_constraints :: "string list"
  ad_require_step_up :: bool

definition auth_of :: "access \<Rightarrow> auth_decision" where
  "auth_of d = \<lparr>ad_allowed = ax_allowed d, ad_reason = (if ax_allowed d then [] else ax_reason d), ad_constraints = ax_constraints d,
     ad_require_step_up = False\<rparr>"

definition authz_decide :: "(nat \<Rightarrow> gotime) \<Rightarrow> organization_repo \<Rightarrow> auth_request \<Rightarrow> identity_repo \<Rightarrow> auth_decision" where
  "authz_decide clk org req r =
     (if as_kind (aq_subject req) = ''user''
      then let d = decide_session clk org (as_session_id (aq_subject req)) (trim_space (aq_permission_key req))
                     (trim_space (aq_location_id req)) r
           in if \<not> ax_allowed d then auth_of d
              else if aq_require_step_up req \<and> \<not> as_step_up_verified (aq_subject req)
              then \<lparr>ad_allowed = False, ad_reason = ''step-up verification required'', ad_constraints = [], ad_require_step_up = True\<rparr>
              else auth_of d
      else if as_kind (aq_subject req) = ''service''
      then auth_of (decide_service_principal (as_service_id (aq_subject req)) (trim_space (aq_service_operation req)) r)
      else \<lparr>ad_allowed = False, ad_reason = ''authentication required'', ad_constraints = [], ad_require_step_up = False\<rparr>)"

end
