(* ===== verification/IdentityService.thy ===== *)
theory IdentityService
  imports IdentityAccess
begin

text \<open>
  The operations of \<open>identity.Service\<close> that change the repository: users, roles and bindings,
  passwords and cashier PINs, sessions, delegation grants, deep links, principals and reporting
  lines. \<open>now\<close> is the clock reading of a call (\<open>later\<close> a second one), \<open>ulid\<close> a generated
  identifier, \<open>A\<close> and \<open>salt\<close> what a password hash needs.
\<close>

type_synonym 'a identity_call = "identity_repo \<Rightarrow> 'a result \<times> identity_repo"

section \<open>Users, roles, permissions\<close>

record password_policy =
  pp_min_length :: int
  pp_require_uppercase :: bool
  pp_require_number :: bool
  pp_require_special :: bool

definition min_password_length :: int where "min_password_length = 8"
definition max_failed_password_attempt :: int where "max_failed_password_attempt = 5"
definition password_lockout_window :: duration where "password_lockout_window = 900000000000"
definition default_session_ttl :: duration where "default_session_ttl = 28800000000000"
definition cashier_pin_length :: int where "cashier_pin_length = 6"

definition upper_letters :: string where "upper_letters = ''ABCDEFGHIJKLMNOPQRSTUVWXYZ''"
definition digit_letters :: string where "digit_letters = ''0123456789''"
definition special_letters :: string where
  "special_letters = [CHR ''!'', CHR 0x22, CHR 0x23, CHR 0x24, CHR 0x25, CHR 0x26, CHR 0x27] @ ''()*+,-./:;<=>?@[''
     @ [CHR 0x5C] @ '']^_{|}~''"

definition contains_any :: "string \<Rightarrow> string \<Rightarrow> bool" where
  "contains_any s chars \<longleftrightarrow> (\<exists>c \<in> set s. c \<in> set chars)"

definition validate_new_password :: "string \<Rightarrow> password_policy \<Rightarrow> goerr option" where
  "validate_new_password password policy =
     (let min_length = (if pp_min_length policy \<le> 0 then min_password_length else pp_min_length policy) in
      if trim_space password = [] then Some (Validation ''new_password is required'')
      else if int (length password) < min_length
      then Some (Validation (''new_password must be at least '' @ show_int min_length @ '' characters''))
      else if pp_require_uppercase policy \<and> \<not> contains_any password upper_letters
      then Some (Validation ''new_password must include at least one uppercase letter'')
      else if pp_require_number policy \<and> \<not> contains_any password digit_letters
      then Some (Validation ''new_password must include at least one number'')
      else if pp_require_special policy \<and> \<not> contains_any password special_letters
      then Some (Validation ''new_password must include at least one special character'')
      else None)"

definition zero_credential :: "string \<Rightarrow> credential" where
  "zero_credential user_id = \<lparr>cr_user_id = user_id, cr_password_hash = [], cr_password_changed_at = zero_time, cr_cashier_pin_hash = [],
     cr_cashier_pin_changed_at = zero_time, cr_failed_attempt_count = 0, cr_locked_until = zero_time, cr_updated_at = zero_time\<rparr>"

definition new_user :: "string \<Rightarrow> string \<Rightarrow> string \<Rightarrow> string \<Rightarrow> gotime \<Rightarrow> user" where
  "new_user user_id username subject location_id now =
     \<lparr>u_id = user_id, u_username = username, u_authentication_subject = subject, u_status = ''active'',
      u_default_location_id = location_id, u_preferred_locale = [], u_preferred_user_route = [], u_preferred_admin_route = [],
      u_created_at = now, u_updated_at = now\<rparr>"

definition new_binding :: "string \<Rightarrow> string \<Rightarrow> string \<Rightarrow> string \<Rightarrow> string \<Rightarrow> gotime \<Rightarrow> role_binding" where
  "new_binding binding_id user_id role_id scope_type scope_id now =
     \<lparr>bi_id = binding_id, bi_user_id = user_id, bi_role_id = role_id, bi_scope_type = scope_type, bi_scope_id = scope_id,
      bi_priority = 0, bi_effective_from = now, bi_effective_to = zero_time, bi_status = ''active''\<rparr>"

definition create_user ::
    "argon2 \<Rightarrow> string \<Rightarrow> string \<Rightarrow> string \<Rightarrow> gotime \<Rightarrow> string \<Rightarrow> string \<Rightarrow> string \<Rightarrow> string \<Rightarrow> string \<Rightarrow> string
       \<Rightarrow> password_policy \<Rightarrow> user identity_call" where
  "create_user A salt ulid ulid2 now username password location_id role_id scope_type scope_id policy r =
     (let username = trim_space username; role_id = (if role_id = [] then ''role_admin'' else role_id) in
      if username = [] then (Inl (Validation ''username is required''), r)
      else if find_user_by_username username r \<noteq> None then (Inl (Conflict ''username already exists''), r)
      else case validate_new_password password policy of
        Some e \<Rightarrow> (Inl e, r)
      | None \<Rightarrow>
          if \<not> role_exists role_id r then (Inl (Validation ''role_id is invalid''), r)
          else
            let u = new_user (new_id ''user'' ulid) username [] location_id now;
                c = (zero_credential (u_id u))\<lparr>cr_password_hash := hash_password A salt password, cr_password_changed_at := now,
                      cr_updated_at := now\<rparr>;
                b = new_binding (new_id ''rb'' ulid2) (u_id u) role_id (if scope_type = [] then ''deployment'' else scope_type) scope_id now
            in (Inr u, save_role_binding b (save_credential c (save_user u r))))"

definition upsert_user :: "gotime \<Rightarrow> user \<Rightarrow> identity_repo \<Rightarrow> goerr option \<times> identity_repo" where
  "upsert_user now u r =
     (let status = trim_space (to_lower (u_status u)); status = (if status = [] then ''active'' else status) in
      if trim_space (u_id u) = [] \<or> trim_space (u_username u) = [] then (Some (Validation ''user id and username are required''), r)
      else if status \<notin> {''active'', ''disabled''} then (Some (Validation ''user status must be active or disabled''), r)
      else (None, save_user (u\<lparr>u_status := status, u_created_at := or_now now (u_created_at u), u_updated_at := now\<rparr>) r))"

definition set_user_preferred_locale :: "gotime \<Rightarrow> string \<Rightarrow> string \<Rightarrow> user identity_call" where
  "set_user_preferred_locale now user_id locale r =
     (case find_user user_id r of
        None \<Rightarrow> (Inl (NotFound ''user not found''), r)
      | Some u \<Rightarrow> let u = u\<lparr>u_preferred_locale := normalize_locale locale, u_updated_at := now\<rparr> in (Inr u, save_user u r))"

definition set_user_preferred_routes :: "gotime \<Rightarrow> string \<Rightarrow> string \<Rightarrow> string \<Rightarrow> user identity_call" where
  "set_user_preferred_routes now user_id user_route admin_route r =
     (case find_user user_id r of
        None \<Rightarrow> (Inl (NotFound ''user not found''), r)
      | Some u \<Rightarrow>
          let u = u\<lparr>u_preferred_user_route := normalize_route user_route, u_preferred_admin_route := normalize_route admin_route,
                   u_updated_at := now\<rparr>
          in (Inr u, save_user u r))"

definition upsert_role :: "gotime \<Rightarrow> role \<Rightarrow> identity_repo \<Rightarrow> goerr option \<times> identity_repo" where
  "upsert_role now x r =
     (if trim_space (ro_id x) = [] \<or> trim_space (ro_key x) = [] \<or> trim_space (ro_name x) = []
      then (Some (Validation ''role id, key, and name are required''), r)
      else (None, save_role (x\<lparr>ro_default_user_route := normalize_route (ro_default_user_route x),
              ro_default_admin_route := normalize_route (ro_default_admin_route x), ro_created_at := or_now now (ro_created_at x),
              ro_updated_at := now\<rparr>) r))"

definition set_role_default_routes :: "gotime \<Rightarrow> string \<Rightarrow> string \<Rightarrow> string \<Rightarrow> role identity_call" where
  "set_role_default_routes now role_id user_route admin_route r =
     (case find_role role_id r of
        None \<Rightarrow> (Inl (NotFound ''role not found''), r)
      | Some x \<Rightarrow>
          let x = x\<lparr>ro_default_user_route := normalize_route user_route, ro_default_admin_route := normalize_route admin_route,
                   ro_updated_at := now\<rparr>
          in (Inr x, save_role x r))"

definition upsert_permission :: "permission \<Rightarrow> identity_repo \<Rightarrow> goerr option \<times> identity_repo" where
  "upsert_permission p r =
     (if trim_space (pe_key p) = [] \<or> trim_space (pe_action p) = [] \<or> trim_space (pe_resource p) = []
      then (Some (Validation ''permission key, action, and resource are required''), r)
      else (None, save_permission p r))"

definition grant_role_permission :: "role_permission \<Rightarrow> identity_repo \<Rightarrow> goerr option \<times> identity_repo" where
  "grant_role_permission g r =
     (if trim_space (rpg_role_id g) = [] \<or> trim_space (rpg_permission_key g) = []
      then (Some (Validation ''role permission grant is invalid''), r)
      else (None, save_role_permission g r))"

definition upsert_role_binding :: "gotime \<Rightarrow> role_binding \<Rightarrow> identity_repo \<Rightarrow> goerr option \<times> identity_repo" where
  "upsert_role_binding now b r =
     (let scope_type = trim_space (bi_scope_type b); scope_type = (if scope_type = [] then ''deployment'' else scope_type);
          status = trim_space (to_lower (bi_status b)); status = (if status = [] then ''active'' else status);
          from = or_now now (bi_effective_from b)
      in
      if trim_space (bi_id b) = [] \<or> trim_space (bi_user_id b) = [] \<or> trim_space (bi_role_id b) = []
      then (Some (Validation ''role binding id, user_id, and role_id are required''), r)
      else if find_user (bi_user_id b) r = None then (Some (NotFound ''user not found''), r)
      else if \<not> role_exists (bi_role_id b) r then (Some (NotFound ''role not found''), r)
      else if scope_type \<notin> {''deployment'', ''organization'', ''location'', ''operating_unit''}
      then (Some (Validation ''role binding scope_type is invalid''), r)
      else if scope_type \<noteq> ''deployment'' \<and> trim_space (bi_scope_id b) = []
      then (Some (Validation ''role binding scope_id is required''), r)
      else if status \<noteq> ''active'' \<and> status \<noteq> ''inactive''
      then (Some (Validation ''role binding status must be active or inactive''), r)
      else if \<not> is_zero_time (bi_effective_to b) \<and> bi_effective_to b < from
      then (Some (Validation ''role binding effective_to must be after effective_from''), r)
      else (None, save_role_binding (b\<lparr>bi_scope_type := scope_type, bi_status := status, bi_effective_from := from\<rparr>) r))"

definition revoke_role_permission :: "string \<Rightarrow> string \<Rightarrow> identity_repo \<Rightarrow> goerr option \<times> identity_repo" where
  "revoke_role_permission role_id permission_key r =
     (let role_id = trim_space role_id; permission_key = trim_space permission_key in
      if role_id = [] \<or> permission_key = [] then (Some (Validation ''role permission revoke is invalid''), r)
      else if \<not> role_exists role_id r then (Some (NotFound ''role not found''), r)
      else if \<not> permission_exists permission_key r then (Some (NotFound ''permission not found''), r)
      else (None, delete_role_permission role_id permission_key r))"

definition set_role_binding_priority :: "string \<Rightarrow> int \<Rightarrow> role_binding identity_call" where
  "set_role_binding_priority binding_id priority r =
     (if priority < 0 then (Inl (Validation ''priority must be zero or greater''), r)
      else case find_by bi_id binding_id (iy_bindings r) of
        None \<Rightarrow> (Inl (NotFound ''role binding not found''), r)
      | Some b \<Rightarrow> let b = b\<lparr>bi_priority := priority\<rparr> in (Inr b, save_role_binding b r))"

section \<open>Sessions\<close>

text \<open>\<open>revokeUserSessions\<close>: a session is revoked by saving its changed copy.\<close>

definition live_session :: "session \<Rightarrow> bool" where
  "live_session s \<longleftrightarrow> sn_status s = ''active'' \<and> is_zero_time (sn_revoked_at s)"

definition revoked :: "gotime \<Rightarrow> session \<Rightarrow> session" where
  "revoked at s = s\<lparr>sn_status := ''revoked'', sn_revoked_at := at, sn_last_seen_at := at\<rparr>"

definition revoke_user_sessions :: "string \<Rightarrow> gotime \<Rightarrow> identity_repo \<Rightarrow> identity_repo" where
  "revoke_user_sessions user_id at r =
     fold (\<lambda>s r. if sn_user_id s \<noteq> user_id \<or> \<not> live_session s then r else save_session (revoked at s) r) (iy_sessions r) r"

definition new_session :: "string \<Rightarrow> string \<Rightarrow> string \<Rightarrow> string \<Rightarrow> gobj \<Rightarrow> gotime \<Rightarrow> duration \<Rightarrow> session" where
  "new_session session_id user_id auth_method location_id metadata now ttl =
     \<lparr>sn_id = session_id, sn_user_id = user_id, sn_status = ''active'', sn_issued_at = now, sn_expires_at = now + ttl,
      sn_last_seen_at = now, sn_authentication_method = auth_method, sn_current_location_id = location_id,
      sn_login_step_up_at = zero_time, sn_approval_step_up_at = zero_time, sn_approval_step_up_until = zero_time,
      sn_revoked_at = zero_time, sn_client_metadata = metadata\<rparr>"

definition start_session_for_user ::
    "string \<Rightarrow> gotime \<Rightarrow> user \<Rightarrow> string \<Rightarrow> string \<Rightarrow> gobj \<Rightarrow> duration \<Rightarrow> session identity_call" where
  "start_session_for_user ulid now u location_id auth_method metadata ttl r =
     (if u_status u \<noteq> ''active'' then (Inl (Forbidden ''user not active''), r)
      else let s = new_session (new_id ''sess'' ulid) (u_id u) auth_method
                     (if location_id = [] then u_default_location_id u else location_id) metadata now
                     (if ttl \<le> 0 then default_session_ttl else ttl)
           in (Inr s, save_session s r))"

definition start_session ::
    "string \<Rightarrow> gotime \<Rightarrow> string \<Rightarrow> string \<Rightarrow> string \<Rightarrow> gobj \<Rightarrow> duration \<Rightarrow> session identity_call" where
  "start_session ulid now username location_id auth_method metadata ttl r =
     (case find_user_by_username username r of
        None \<Rightarrow> (Inl (Unauthorized ''invalid credentials''), r)
      | Some u \<Rightarrow> start_session_for_user ulid now u location_id auth_method metadata ttl r)"

text \<open>\<open>RotateSession\<close>, which \<open>RefreshSession\<close> is. The in-memory repository never fails to save, so the
  clean-up after a failed save is not reached.\<close>

definition rotate_session :: "string \<Rightarrow> gotime \<Rightarrow> string \<Rightarrow> duration \<Rightarrow> session identity_call" where
  "rotate_session ulid now session_id ttl r =
     (case find_session session_id r of
        None \<Rightarrow> (Inl (NotFound ''session not found''), r)
      | Some s \<Rightarrow>
          if \<not> live_session s then (Inl (Unauthorized ''session is not refreshable''), r)
          else let t = new_session (new_id ''sess'' ulid) (sn_user_id s) (sn_authentication_method s) (sn_current_location_id s)
                         (sn_client_metadata s) now (if ttl \<le> 0 then default_session_ttl else ttl)
               in (Inr t, save_session (revoked now s) (save_session t r)))"

definition touch_session :: "gotime \<Rightarrow> string \<Rightarrow> gotime \<Rightarrow> session identity_call" where
  "touch_session now session_id seen_at r =
     (case find_session session_id r of
        None \<Rightarrow> (Inl (NotFound ''session not found''), r)
      | Some s \<Rightarrow> let s = s\<lparr>sn_last_seen_at := or_now now seen_at\<rparr> in (Inr s, save_session s r))"

definition revoke_session :: "gotime \<Rightarrow> string \<Rightarrow> gotime \<Rightarrow> session identity_call" where
  "revoke_session now session_id revoked_at r =
     (case find_session session_id r of
        None \<Rightarrow> (Inl (NotFound ''session not found''), r)
      | Some s \<Rightarrow> let s = revoked (or_now now revoked_at) s in (Inr s, save_session s r))"

definition set_user_status :: "gotime \<Rightarrow> string \<Rightarrow> string \<Rightarrow> user identity_call" where
  "set_user_status now user_id status r =
     (case find_user user_id r of
        None \<Rightarrow> (Inl (NotFound ''user not found''), r)
      | Some u \<Rightarrow>
          let status = trim_space (to_lower status) in
          if status \<notin> {''active'', ''disabled''} then (Inl (Validation ''status must be active or disabled''), r)
          else let u = u\<lparr>u_status := status, u_updated_at := now\<rparr>; r = save_user u r
               in (Inr u, if status \<noteq> ''active'' then revoke_user_sessions (u_id u) now r else r))"

record session_review =
  sw_concurrent_active_sessions :: int
  sw_flags :: "string list"

definition append_if_missing :: "string list \<Rightarrow> string \<Rightarrow> string list" where
  "append_if_missing items value = (if value \<in> set items then items else items @ [value])"

definition metadata_text :: "session \<Rightarrow> string \<Rightarrow> string" where
  "metadata_text s key = (case as_str (mget GNull (sn_client_metadata s) key) of None \<Rightarrow> [] | Some t \<Rightarrow> t)"

definition review_candidate :: "session \<Rightarrow> session \<Rightarrow> session_review \<Rightarrow> session_review" where
  "review_candidate s c w =
     (if sn_user_id c \<noteq> sn_user_id s \<or> sn_id c = sn_id s then w
      else let w = (if live_session c then w\<lparr>sw_concurrent_active_sessions := sw_concurrent_active_sessions w + 1\<rparr> else w);
               differs = (\<lambda>key. metadata_text s key \<noteq> [] \<and> metadata_text c key \<noteq> [] \<and> metadata_text c key \<noteq> metadata_text s key);
               w = (if differs ''remote_addr'' then w\<lparr>sw_flags := append_if_missing (sw_flags w) ''new_remote_addr''\<rparr> else w)
           in if differs ''user_agent'' then w\<lparr>sw_flags := append_if_missing (sw_flags w) ''new_user_agent''\<rparr> else w)"

definition review_session :: "string \<Rightarrow> identity_repo \<Rightarrow> session_review option" where
  "review_session session_id r =
     (case find_session session_id r of
        None \<Rightarrow> None
      | Some s \<Rightarrow>
          let w = fold (review_candidate s) (iy_sessions r) \<lparr>sw_concurrent_active_sessions = 0, sw_flags = []\<rparr>
          in Some (if 0 < sw_concurrent_active_sessions w
                   then w\<lparr>sw_flags := append_if_missing (sw_flags w) ''concurrent_active_sessions''\<rparr> else w))"

end
