(* ===== verification/IdentityGrants.thy ===== *)
theory IdentityGrants
  imports IdentityService
begin

text \<open>
  Delegation grants (a user lets another user or an agent act for it), deep link grants (a link that
  gives one user access to one target), service principals and reporting lines, with the operations
  that move them from state to state.
\<close>

section \<open>Delegation\<close>

definition check_delegated_permission ::
    "gotime \<Rightarrow> organization_repo \<Rightarrow> string \<Rightarrow> string \<Rightarrow> identity_repo \<Rightarrow> string \<Rightarrow> goerr option" where
  "check_delegated_permission now org grantor location_id r key =
     (if \<not> permission_exists key r then Some (Validation (''unknown permission key: '' @ key))
      else if \<not> ax_allowed (decide now org grantor key location_id r)
      then Some (Forbidden (''grantor is not allowed to delegate permission: '' @ key))
      else None)"

definition check_delegate :: "string \<Rightarrow> string \<Rightarrow> identity_repo \<Rightarrow> goerr option" where
  "check_delegate kind delegate r =
     (if kind = ''user'' then (if find_user delegate r = None then Some (NotFound ''delegate user not found'') else None)
      else case find_service_principal delegate r of
             None \<Rightarrow> Some (NotFound ''delegate service principal not found'')
           | Some p \<Rightarrow> if sp_status p \<noteq> ''active'' then Some (Forbidden ''delegate service principal is not active'') else None)"

text \<open>\<open>now\<close> is read for the permissions of the grantor, \<open>later\<close> for the times of the grant.\<close>

definition create_grant ::
    "string \<Rightarrow> gotime \<Rightarrow> gotime \<Rightarrow> organization_repo \<Rightarrow> string \<Rightarrow> string \<Rightarrow> string \<Rightarrow> string \<Rightarrow> string list \<Rightarrow> string list
       \<Rightarrow> gotime \<Rightarrow> gotime \<Rightarrow> string \<Rightarrow> delegation_grant identity_call" where
  "create_grant ulid now later org grantor kind delegate location_id permission_keys document_types starts_at expires_at reason r =
     (let grantor = trim_space grantor; kind = to_lower (trim_space kind); delegate = trim_space delegate;
          location_id = trim_space location_id; reason = trim_space reason; keys = normalize_string_list permission_keys;
          starts_at = or_now later starts_at; kind' = (if kind = [] then ''user'' else kind)
      in
      if grantor = [] \<or> delegate = [] then (Inl (Validation ''grantor and delegate are required''), r)
      else if kind' \<noteq> ''user'' \<and> kind' \<noteq> ''agent'' then (Inl (Validation ''delegate_kind must be user or agent''), r)
      else if kind' = ''user'' \<and> grantor = delegate then (Inl (Validation ''delegate user must be different from grantor''), r)
      else if location_id = [] then (Inl (Validation ''location_id is required''), r)
      else if sx_location_id (resolve_scope_at location_id org) = [] then (Inl (Validation ''location_id is invalid''), r)
      else if find_user grantor r = None then (Inl (NotFound ''grantor user not found''), r)
      else (case check_delegate kind' delegate r of
        Some e \<Rightarrow> (Inl e, r)
      | None \<Rightarrow>
          if keys = [] then (Inl (Validation ''allowed_permission_keys is required''), r)
          else (case first_error (check_delegated_permission now org grantor location_id r) keys of
            Some e \<Rightarrow> (Inl e, r)
          | None \<Rightarrow>
              if is_zero_time expires_at then (Inl (Validation ''expires_at is required''), r)
              else if \<not> starts_at < expires_at then (Inl (Validation ''expires_at must be after starts_at''), r)
              else let g = \<lparr>gt_id = new_id ''dlg'' ulid, gt_grantor_user_id = grantor, gt_delegate_kind = kind', gt_delegate_id = delegate,
                     gt_delegate_user_id = (if kind' = ''user'' then delegate else []), gt_status = ''pending'',
                     gt_location_id = location_id, gt_allowed_permission_keys = keys,
                     gt_allowed_document_types = normalize_string_list document_types, gt_reason = reason,
                     gt_starts_at = starts_at, gt_expires_at = expires_at, gt_accepted_at = zero_time, gt_accepted_by_kind = [],
                     gt_accepted_by_id = [], gt_accepted_by_user_id = [], gt_revoked_at = zero_time, gt_revoked_by_user_id = [],
                     gt_created_at = later, gt_updated_at = later\<rparr>
                   in (Inr g, store_delegation_grant g r))))"

definition create_delegation_grant ::
    "string \<Rightarrow> gotime \<Rightarrow> gotime \<Rightarrow> organization_repo \<Rightarrow> string \<Rightarrow> string \<Rightarrow> string \<Rightarrow> string list \<Rightarrow> string list
       \<Rightarrow> gotime \<Rightarrow> gotime \<Rightarrow> string \<Rightarrow> delegation_grant identity_call" where
  "create_delegation_grant ulid now later org grantor delegate location_id keys types starts_at expires_at reason =
     create_grant ulid now later org grantor ''user'' delegate location_id keys types starts_at expires_at reason"

definition create_agent_delegation_grant ::
    "string \<Rightarrow> gotime \<Rightarrow> gotime \<Rightarrow> organization_repo \<Rightarrow> string \<Rightarrow> string \<Rightarrow> string \<Rightarrow> string list \<Rightarrow> string list
       \<Rightarrow> gotime \<Rightarrow> gotime \<Rightarrow> string \<Rightarrow> delegation_grant identity_call" where
  "create_agent_delegation_grant ulid now later org grantor principal_id location_id keys types starts_at expires_at reason =
     create_grant ulid now later org grantor ''agent'' principal_id location_id keys types starts_at expires_at reason"

definition require_delegation_grant :: "string \<Rightarrow> identity_repo \<Rightarrow> delegation_grant result" where
  "require_delegation_grant grant_id r =
     (case find_delegation_grant (trim_space grant_id) r of
        None \<Rightarrow> Inl (NotFound ''delegation grant not found'') | Some g \<Rightarrow> Inr g)"

text \<open>Accepting and rejecting: \<open>now\<close> is read to normalise the grant, \<open>later\<close> for the time of the answer.\<close>

definition accept_grant :: "gotime \<Rightarrow> gotime \<Rightarrow> string \<Rightarrow> string \<Rightarrow> string \<Rightarrow> delegation_grant identity_call" where
  "accept_grant now later grant_id kind delegate r =
     (case require_delegation_grant grant_id r of
        Inl e \<Rightarrow> (Inl e, r)
      | Inr g \<Rightarrow>
          let g = normalize_delegation_grant_at g now in
          if gt_delegate_kind g \<noteq> trim_space kind \<or> gt_delegate_id g \<noteq> trim_space delegate
          then (Inl (Forbidden ''delegation grant is not assigned to the current user''), r)
          else if gt_status g \<noteq> ''pending'' then (Inl (Conflict ''delegation grant is not pending''), r)
          else let g = g\<lparr>gt_status := ''accepted'', gt_accepted_at := later, gt_accepted_by_kind := kind,
                        gt_accepted_by_id := trim_space delegate,
                        gt_accepted_by_user_id := (if kind = ''user'' then trim_space delegate else []), gt_updated_at := later\<rparr>
               in (Inr g, store_delegation_grant g r))"

definition reject_grant :: "gotime \<Rightarrow> gotime \<Rightarrow> string \<Rightarrow> string \<Rightarrow> string \<Rightarrow> delegation_grant identity_call" where
  "reject_grant now later grant_id kind delegate r =
     (case require_delegation_grant grant_id r of
        Inl e \<Rightarrow> (Inl e, r)
      | Inr g \<Rightarrow>
          let g = normalize_delegation_grant_at g now in
          if gt_delegate_kind g \<noteq> trim_space kind \<or> gt_delegate_id g \<noteq> trim_space delegate
          then (Inl (Forbidden ''delegation grant is not assigned to the current user''), r)
          else if gt_status g \<noteq> ''pending'' then (Inl (Conflict ''delegation grant is not pending''), r)
          else let g = g\<lparr>gt_status := ''rejected'', gt_updated_at := later\<rparr> in (Inr g, store_delegation_grant g r))"

definition accept_delegation_grant :: "gotime \<Rightarrow> gotime \<Rightarrow> string \<Rightarrow> string \<Rightarrow> delegation_grant identity_call" where
  "accept_delegation_grant now later grant_id user_id = accept_grant now later grant_id ''user'' user_id"

definition reject_delegation_grant :: "gotime \<Rightarrow> gotime \<Rightarrow> string \<Rightarrow> string \<Rightarrow> delegation_grant identity_call" where
  "reject_delegation_grant now later grant_id user_id = reject_grant now later grant_id ''user'' user_id"

definition accept_agent_delegation_grant :: "gotime \<Rightarrow> gotime \<Rightarrow> string \<Rightarrow> string \<Rightarrow> delegation_grant identity_call" where
  "accept_agent_delegation_grant now later grant_id principal_id = accept_grant now later grant_id ''agent'' principal_id"

definition reject_agent_delegation_grant :: "gotime \<Rightarrow> gotime \<Rightarrow> string \<Rightarrow> string \<Rightarrow> delegation_grant identity_call" where
  "reject_agent_delegation_grant now later grant_id principal_id = reject_grant now later grant_id ''agent'' principal_id"

definition revoke_delegation_grant :: "gotime \<Rightarrow> gotime \<Rightarrow> string \<Rightarrow> string \<Rightarrow> delegation_grant identity_call" where
  "revoke_delegation_grant now later grant_id grantor r =
     (case require_delegation_grant grant_id r of
        Inl e \<Rightarrow> (Inl e, r)
      | Inr g \<Rightarrow>
          if gt_grantor_user_id g \<noteq> trim_space grantor
          then (Inl (Forbidden ''delegation grant is not owned by the current user''), r)
          else let g = normalize_delegation_grant_at g now in
            if gt_status g \<notin> {''pending'', ''accepted''} then (Inl (Conflict ''delegation grant cannot be revoked''), r)
            else let g = g\<lparr>gt_status := ''revoked'', gt_revoked_at := later, gt_revoked_by_user_id := trim_space grantor,
                          gt_updated_at := later\<rparr>
                 in (Inr g, store_delegation_grant g r))"

definition resolve_grant_for_activation :: "string \<Rightarrow> string \<Rightarrow> string \<Rightarrow> string \<Rightarrow> string \<Rightarrow> gotime \<Rightarrow> identity_repo \<Rightarrow> delegation_grant result" where
  "resolve_grant_for_activation kind what grant_id delegate location_id now r =
     (case require_delegation_grant grant_id r of
        Inl e \<Rightarrow> Inl e
      | Inr g \<Rightarrow>
          let g = normalize_delegation_grant_at g now in
          if gt_delegate_kind g \<noteq> kind \<or> gt_delegate_id g \<noteq> trim_space delegate
          then Inl (Forbidden (''delegation grant is not assigned to the current '' @ what))
          else if gt_status g \<noteq> ''accepted'' then Inl (Forbidden ''delegation grant is not active'')
          else if location_id \<noteq> [] \<and> gt_location_id g \<noteq> trim_space location_id
          then Inl (Forbidden ''delegation grant is not valid for the current location'')
          else Inr g)"

definition resolve_delegation_grant :: "string \<Rightarrow> string \<Rightarrow> string \<Rightarrow> gotime \<Rightarrow> identity_repo \<Rightarrow> delegation_grant result" where
  "resolve_delegation_grant = resolve_grant_for_activation ''user'' ''user''"

definition resolve_agent_delegation_grant :: "string \<Rightarrow> string \<Rightarrow> string \<Rightarrow> gotime \<Rightarrow> identity_repo \<Rightarrow> delegation_grant result" where
  "resolve_agent_delegation_grant = resolve_grant_for_activation ''agent'' ''service principal''"

text \<open>The lists a user or an agent sees; \<open>now\<close> stands for the readings of the clock.\<close>

definition list_delegation_grants :: "identity_repo \<Rightarrow> delegation_grant list" where
  "list_delegation_grants r = sort_slice (\<lambda>g. (gt_created_at g, gt_id g)) (iy_delegation_grants r)"

definition list_outgoing_delegation_grants :: "gotime \<Rightarrow> string \<Rightarrow> identity_repo \<Rightarrow> delegation_grant list" where
  "list_outgoing_delegation_grants now user_id r =
     map (\<lambda>g. normalize_delegation_grant_at g now) (filter (\<lambda>g. gt_grantor_user_id g = user_id) (list_delegation_grants r))"

definition list_incoming_grants :: "string \<Rightarrow> gotime \<Rightarrow> string \<Rightarrow> identity_repo \<Rightarrow> delegation_grant list" where
  "list_incoming_grants kind now delegate r =
     filter (\<lambda>g. gt_delegate_kind g = kind \<and> gt_delegate_id g = delegate)
       (map (\<lambda>g. normalize_delegation_grant_at g now) (list_delegation_grants r))"

section \<open>Deep links\<close>

text \<open>The fields as \<open>SaveDeepLinkGrant\<close> normalises them before it checks them.\<close>

definition prepare_deep_link_grant :: "string \<Rightarrow> gotime \<Rightarrow> deep_link_grant \<Rightarrow> deep_link_grant" where
  "prepare_deep_link_grant ulid now g =
     (let kind = trim_space (to_lower (dk_kind g)); status = trim_space (to_lower (dk_status g)) in
      g\<lparr>dk_id := (if trim_space (dk_id g) = [] then new_id ''link'' ulid else trim_space (dk_id g)),
        dk_kind := (if kind = [] then ''workflow_approval'' else kind), dk_user_id := trim_space (dk_user_id g),
        dk_target_type := trim_space (dk_target_type g), dk_target_id := trim_space (dk_target_id g),
        dk_status := (if status = [] then ''pending'' else status), dk_starts_at := or_now now (dk_starts_at g)\<rparr>)"

definition save_deep_link_grant :: "string \<Rightarrow> gotime \<Rightarrow> gotime \<Rightarrow> deep_link_grant \<Rightarrow> deep_link_grant identity_call" where
  "save_deep_link_grant ulid now later g r =
     (let g = prepare_deep_link_grant ulid now g in
      if dk_status g \<notin> {''pending'', ''active'', ''consumed'', ''revoked'', ''expired''}
      then (Inl (Validation ''deep link grant status is invalid''), r)
      else if dk_user_id g = [] \<or> dk_target_type g = [] \<or> dk_target_id g = []
      then (Inl (Validation ''deep link grant target and user are required''), r)
      else if is_zero_time (dk_expires_at g) \<or> \<not> dk_starts_at g < dk_expires_at g
      then (Inl (Validation ''deep link grant expiry is invalid''), r)
      else
        let created = (case find_deep_link_grant (dk_id g) r of None \<Rightarrow> dk_created_at g | Some old \<Rightarrow> dk_created_at old);
            g = g\<lparr>dk_created_at := or_now now created, dk_updated_at := now\<rparr>
        in (Inr (normalize_deep_link_grant_at g later), store_deep_link_grant g r))"

definition activate_deep_link_grant ::
    "gotime \<Rightarrow> string \<Rightarrow> string \<Rightarrow> string \<Rightarrow> string \<Rightarrow> gotime \<Rightarrow> deep_link_grant identity_call" where
  "activate_deep_link_grant later grant_id user_id target_type target_id now r =
     (case find_deep_link_grant (trim_space grant_id) r of
        None \<Rightarrow> (Inl (NotFound ''deep link grant not found''), r)
      | Some g \<Rightarrow>
          let g = normalize_deep_link_grant_at g now in
          if dk_user_id g \<noteq> trim_space user_id then (Inl (Forbidden ''deep link grant is not assigned to the current user''), r)
          else if dk_target_type g \<noteq> trim_space target_type \<or> dk_target_id g \<noteq> trim_space target_id
          then (Inl (Forbidden ''deep link grant target mismatch''), r)
          else if dk_status g = ''revoked'' \<or> \<not> is_zero_time (dk_revoked_at g) then (Inl (Forbidden ''deep link grant is revoked''), r)
          else if dk_status g = ''consumed'' \<or> \<not> is_zero_time (dk_consumed_at g)
          then (Inl (Forbidden ''deep link grant has already been used''), r)
          else if \<not> is_zero_time (dk_starts_at g) \<and> now < dk_starts_at g then (Inl (Forbidden ''deep link grant is not active yet''), r)
          else if \<not> is_zero_time (dk_expires_at g) \<and> \<not> now < dk_expires_at g
          then (Inl (Forbidden ''deep link grant expired''), store_deep_link_grant (g\<lparr>dk_status := ''expired'', dk_updated_at := now\<rparr>) r)
          else if dk_one_time g \<and> dk_status g = ''active'' \<and> \<not> is_zero_time (dk_activated_at g)
          then (Inl (Forbidden ''deep link grant has already been used''), r)
          else let g = g\<lparr>dk_status := ''active'', dk_activated_at := or_now now (dk_activated_at g), dk_updated_at := now\<rparr>
               in (Inr (normalize_deep_link_grant_at g later), store_deep_link_grant g r))"

definition consume_deep_link_grant ::
    "gotime \<Rightarrow> string \<Rightarrow> string \<Rightarrow> string \<Rightarrow> gotime \<Rightarrow> deep_link_grant identity_call" where
  "consume_deep_link_grant later grant_id user_id action now r =
     (case find_deep_link_grant (trim_space grant_id) r of
        None \<Rightarrow> (Inl (NotFound ''deep link grant not found''), r)
      | Some g \<Rightarrow>
          let g = normalize_deep_link_grant_at g now in
          if dk_user_id g \<noteq> trim_space user_id then (Inl (Forbidden ''deep link grant is not assigned to the current user''), r)
          else if dk_status g = ''revoked'' \<or> \<not> is_zero_time (dk_revoked_at g) then (Inl (Forbidden ''deep link grant is revoked''), r)
          else if dk_status g = ''consumed'' \<or> \<not> is_zero_time (dk_consumed_at g)
          then (Inl (Forbidden ''deep link grant has already been used''), r)
          else if \<not> is_zero_time (dk_expires_at g) \<and> \<not> now < dk_expires_at g then (Inl (Forbidden ''deep link grant expired''), r)
          else if dk_allowed_actions g \<noteq> [] \<and> \<not> contains_string (dk_allowed_actions g) (trim_space action)
          then (Inl (Forbidden ''deep link grant does not allow this action''), r)
          else let g = g\<lparr>dk_status := ''consumed'', dk_consumed_at := now, dk_consumed_by_action := trim_space action, dk_updated_at := now\<rparr>
               in (Inr (normalize_deep_link_grant_at g later), store_deep_link_grant g r))"

definition revoke_deep_link_grant :: "gotime \<Rightarrow> string \<Rightarrow> gotime \<Rightarrow> deep_link_grant identity_call" where
  "revoke_deep_link_grant later grant_id now r =
     (case find_deep_link_grant (trim_space grant_id) r of
        None \<Rightarrow> (Inl (NotFound ''deep link grant not found''), r)
      | Some g \<Rightarrow>
          let g = normalize_deep_link_grant_at g now in
          if dk_status g = ''consumed'' \<or> \<not> is_zero_time (dk_consumed_at g)
          then (Inl (Conflict ''deep link grant has already been consumed''), r)
          else if dk_status g = ''revoked'' \<or> \<not> is_zero_time (dk_revoked_at g) then (Inr (normalize_deep_link_grant_at g later), r)
          else let g = g\<lparr>dk_status := ''revoked'', dk_revoked_at := now, dk_updated_at := now\<rparr>
               in (Inr (normalize_deep_link_grant_at g later), store_deep_link_grant g r))"

definition find_active_deep_link_grant ::
    "gotime \<Rightarrow> string \<Rightarrow> string \<Rightarrow> string \<Rightarrow> gotime \<Rightarrow> identity_repo \<Rightarrow> deep_link_grant option" where
  "find_active_deep_link_grant clock target_type target_id user_id now r =
     find (\<lambda>g. dk_target_type g = trim_space target_type \<and> dk_target_id g = trim_space target_id \<and> dk_user_id g = trim_space user_id
        \<and> dk_status g \<in> {''pending'', ''active''} \<and> (is_zero_time (dk_starts_at g) \<or> \<not> now < dk_starts_at g)
        \<and> (is_zero_time (dk_expires_at g) \<or> now < dk_expires_at g) \<and> is_zero_time (dk_revoked_at g) \<and> is_zero_time (dk_consumed_at g))
       (map (\<lambda>g. normalize_deep_link_grant_at g clock) (iy_deep_link_grants r))"

section \<open>Service principals and reporting lines\<close>

definition upsert_service_principal :: "string \<Rightarrow> gotime \<Rightarrow> service_principal \<Rightarrow> service_principal identity_call" where
  "upsert_service_principal ulid now p r =
     (let status = trim_space (to_lower (sp_status p)); status = (if status = [] then ''active'' else status) in
      if trim_space (sp_key p) = [] then (Inl (Validation ''service principal key is required''), r)
      else if status \<notin> {''active'', ''disabled''} then (Inl (Validation ''service principal status must be active or disabled''), r)
      else
        let p = (if trim_space (sp_id p) = [] then p\<lparr>sp_id := new_id ''sp'' ulid\<rparr> else p);
            p = (case find_service_principal (sp_id p) r of
                   None \<Rightarrow> p
                 | Some old \<Rightarrow> p\<lparr>sp_created_at := sp_created_at old,
                     sp_credential_ref := (if sp_credential_ref p = [] then sp_credential_ref old else sp_credential_ref p)\<rparr>);
            p = p\<lparr>sp_created_at := or_now now (sp_created_at p), sp_key := trim_space (sp_key p), sp_status := status, sp_updated_at := now\<rparr>;
            p = p\<lparr>sp_credential_ref := (if sp_credential_ref p = [] then ''managed://'' @ sp_key p else sp_credential_ref p),
                  sp_allowed_operation_types := fold (\<lambda>x acc. if x = [] \<or> x \<in> set acc then acc else acc @ [x])
                    (map trim_space (sp_allowed_operation_types p)) []\<rparr>
        in (Inr p, save_service_principal p r))"

definition set_service_principal_status :: "string \<Rightarrow> gotime \<Rightarrow> string \<Rightarrow> string \<Rightarrow> service_principal identity_call" where
  "set_service_principal_status ulid now principal_id status r =
     (case find_service_principal (trim_space principal_id) r of
        None \<Rightarrow> (Inl (NotFound ''service principal not found''), r)
      | Some p \<Rightarrow> upsert_service_principal ulid now (p\<lparr>sp_status := status\<rparr>) r)"

definition upsert_reporting_line :: "string \<Rightarrow> gotime \<Rightarrow> reporting_line \<Rightarrow> reporting_line identity_call" where
  "upsert_reporting_line ulid now l r =
     (let l = l\<lparr>rep_id := trim_space (rep_id l), rep_subject_user_id := trim_space (rep_subject_user_id l),
                rep_manager_user_id := trim_space (rep_manager_user_id l),
                rep_relationship_type := to_lower (trim_space (rep_relationship_type l)),
                rep_organization_id := trim_space (rep_organization_id l), rep_location_id := trim_space (rep_location_id l),
                rep_operating_unit_id := trim_space (rep_operating_unit_id l), rep_status := to_lower (trim_space (rep_status l))\<rparr>;
          l = (if rep_id l = [] then l\<lparr>rep_id := new_id ''reporting_line'' ulid\<rparr> else l)
      in
      if rep_subject_user_id l = [] \<or> rep_manager_user_id l = []
      then (Inl (Validation ''subject_user_id and manager_user_id are required''), r)
      else if rep_subject_user_id l = rep_manager_user_id l
      then (Inl (Validation ''subject_user_id and manager_user_id must differ''), r)
      else if find_user (rep_subject_user_id l) r = None then (Inl (NotFound ''subject user not found''), r)
      else if find_user (rep_manager_user_id l) r = None then (Inl (NotFound ''manager user not found''), r)
      else if rep_relationship_type l \<notin> {[], ''primary_manager'', ''acting_manager''}
      then (Inl (Validation ''relationship_type must be primary_manager or acting_manager''), r)
      else
        let l = l\<lparr>rep_relationship_type := (if rep_relationship_type l = [] then ''primary_manager'' else rep_relationship_type l),
                  rep_status := (if rep_status l = [] then ''active'' else rep_status l)\<rparr>
        in
        if rep_status l \<noteq> ''active'' \<and> rep_status l \<noteq> ''inactive'' then (Inl (Validation ''status must be active or inactive''), r)
        else
          let l = l\<lparr>rep_effective_from := or_now now (rep_effective_from l)\<rparr> in
          if \<not> is_zero_time (rep_effective_to l) \<and> rep_effective_to l < rep_effective_from l
          then (Inl (Validation ''effective_to must be after effective_from''), r)
          else let l = l\<lparr>rep_created_at := or_now now (rep_created_at l), rep_updated_at := now\<rparr>
               in (Inr l, save_reporting_line l r))"

end
