(* ===== verification/Totp.thy ===== *)
theory Totp
  imports Shared
begin

text \<open>
  \<open>internal/platform/identity/totp.go\<close>: the time-based codes of the second factor, with what they
  use of the standard library: \<open>encoding/base32\<close>, \<open>crypto/sha1\<close> and \<open>crypto/hmac\<close>.
\<close>

unbundle bit_operations_syntax

section \<open>SHA-1 and HMAC\<close>

type_synonym sha_state = "32 word \<times> 32 word \<times> 32 word \<times> 32 word \<times> 32 word"

definition rotate :: "nat \<Rightarrow> 32 word \<Rightarrow> 32 word" where
  "rotate n w = push_bit n w OR drop_bit (32 - n) w"

definition be_word :: "char list \<Rightarrow> 32 word" where
  "be_word cs = foldl (\<lambda>w c. push_bit 8 w OR of_nat (byte_of c)) 0 cs"

fun chunks :: "nat \<Rightarrow> 'a list \<Rightarrow> 'a list list" where
  "chunks n [] = []"
| "chunks n (x # xs) = (x # take (n - 1) xs) # chunks n (drop (n - 1) xs)"

text \<open>Bytes of a number, most significant first.\<close>

primrec be_bytes :: "nat \<Rightarrow> nat \<Rightarrow> string" where
  "be_bytes 0 n = []"
| "be_bytes (Suc k) n = be_bytes k (n div 256) @ [char_of (n mod 256)]"

definition sha1_pad :: "string \<Rightarrow> string" where
  "sha1_pad m = m @ [char_of (128 :: nat)] @ replicate ((119 - length m mod 64) mod 64) (char_of (0 :: nat)) @ be_bytes 8 (8 * length m)"

text \<open>The message schedule, latest word first.\<close>

primrec sha1_schedule :: "nat \<Rightarrow> 32 word list \<Rightarrow> 32 word list" where
  "sha1_schedule 0 ws = ws"
| "sha1_schedule (Suc n) ws = sha1_schedule n (rotate 1 (ws ! 2 XOR ws ! 7 XOR ws ! 13 XOR ws ! 15) # ws)"

definition sha1_round :: "nat \<Rightarrow> 32 word \<Rightarrow> sha_state \<Rightarrow> sha_state" where
  "sha1_round t w s =
     (let (a, b, c, d, e) = s;
          f = (if t < 20 then (b AND c) OR (NOT b AND d) else if t < 40 then b XOR c XOR d
               else if t < 60 then (b AND c) OR (b AND d) OR (c AND d) else b XOR c XOR d);
          k = (if t < 20 then 0x5A827999 else if t < 40 then 0x6ED9EBA1 else if t < 60 then 0x8F1BBCDC else 0xCA62C1D6)
      in (rotate 5 a + f + e + k + w, a, rotate 30 b, c, d))"

definition sha1_block :: "string \<Rightarrow> sha_state \<Rightarrow> sha_state" where
  "sha1_block block s =
     (let ws = rev (sha1_schedule 64 (rev (map be_word (chunks 4 block))));
          (a, b, c, d, e) = s; (a', b', c', d', e') = fold (\<lambda>(t, w). sha1_round t w) (enumerate 0 ws) s
      in (a + a', b + b', c + c', d + d', e + e'))"

definition sha1 :: "string \<Rightarrow> string" where
  "sha1 m =
     (let (a, b, c, d, e) = fold sha1_block (chunks 64 (sha1_pad m)) (0x67452301, 0xEFCDAB89, 0x98BADCFE, 0x10325476, 0xC3D2E1F0)
      in concat (map (\<lambda>w. be_bytes 4 (unat w)) [a, b, c, d, e]))"

definition hmac_sha1 :: "string \<Rightarrow> string \<Rightarrow> string" where
  "hmac_sha1 key m =
     (let key = (if 64 < length key then sha1 key else key); key = key @ replicate (64 - length key) (char_of (0 :: nat));
          pad = (\<lambda>n. map (\<lambda>c. char_of (byte_of c XOR n)) key)
      in sha1 (pad 92 @ sha1 (pad 54 @ m)))"

section \<open>Base32\<close>

definition base32_chars :: string where
  "base32_chars = ''ABCDEFGHIJKLMNOPQRSTUVWXYZ234567''"

definition b32_value :: "char \<Rightarrow> nat option" where
  "b32_value c = map_of (zip base32_chars [0..<32]) c"

definition base32_encode :: "string \<Rightarrow> string" where
  "base32_encode s =
     concat (map (\<lambda>g. let n = foldl (\<lambda>n c. n * 256 + byte_of c) 0 (g @ replicate (5 - length g) (char_of (0 :: nat)));
                          d = map (\<lambda>i. base32_chars ! (n div 32 ^ (7 - i) mod 32)) [0..<8];
                          keep = (8 * length g + 4) div 5
                      in take keep d @ replicate (8 - keep) (CHR ''='')) (chunks 5 s))"

text \<open>
  One group of eight characters of \<open>DecodeString\<close>, after line breaks are removed: the values read
  so far, and the rest of the text. \<^const>\<open>None\<close> is corrupt input; the flag tells that padding ended the text.
\<close>

fun b32_group :: "nat list \<Rightarrow> string \<Rightarrow> (nat list \<times> bool \<times> string) option" where
  "b32_group vs [] = (if length vs = 8 then Some (vs, False, []) else None)"
| "b32_group vs (c # src) =
     (if length vs = 8 then Some (vs, False, c # src)
      else if c = CHR ''='' \<and> 2 \<le> length vs \<and> length src < 8
      then (if length src + length vs < 7 \<or> (\<exists>x \<in> set (take (7 - length vs) src). x \<noteq> CHR ''='') \<or> length vs \<in> {1, 3, 6} then None
            else Some (vs, True, src))
      else case b32_value c of None \<Rightarrow> None | Some v \<Rightarrow> b32_group (vs @ [v]) src)"

lemma b32_group_shorter: "b32_group vs src = Some (ws, e, rest) \<Longrightarrow> length vs < 8 \<Longrightarrow> length rest < length src"
proof (induction vs src rule: b32_group.induct)
  case (2 vs c src)
  show ?case
  proof (cases "length vs = 7")
    case True
    then have "ws = vs @ [the (b32_value c)] \<and> rest = src \<or> rest = src"
      using 2 by (cases src) (auto split: if_splits option.splits)
    then show ?thesis by auto
  next
    case False
    with 2 show ?thesis by (auto split: if_splits option.splits)
  qed
qed (auto split: if_splits)

definition b32_bytes :: "nat list \<Rightarrow> string" where
  "b32_bytes vs =
     (let n = foldl (\<lambda>n v. n * 32 + v) 0 (vs @ replicate (8 - length vs) 0)
      in take (5 * length vs div 8) (be_bytes 5 n))"

function b32_groups :: "string \<Rightarrow> string option" where
  "b32_groups [] = Some []"
| "b32_groups (c # src) =
     (case b32_group [] (c # src) of
        None \<Rightarrow> None
      | Some (vs, ends, rest) \<Rightarrow>
          if ends then Some (b32_bytes vs) else map_option (\<lambda>t. b32_bytes vs @ t) (b32_groups rest))"
  by pat_completeness auto
termination
proof (relation "measure length", simp)
  fix c src p vs q ends rest
  assume "b32_group [] (c # src) = Some p" "(vs, q) = p" "(ends, rest) = q"
  then have "b32_group [] (c # src) = Some (vs, ends, rest)" by auto
  from b32_group_shorter [OF this] show "(rest, c # src) \<in> measure length" by simp
qed

definition base32_decode :: "string \<Rightarrow> string option" where
  "base32_decode s = b32_groups (filter (\<lambda>c. byte_of c \<noteq> 10 \<and> byte_of c \<noteq> 13) s)"

section \<open>Time-based codes\<close>

definition upper_char :: "char \<Rightarrow> char" where
  "upper_char c = (if 97 \<le> byte_of c \<and> byte_of c \<le> 122 then char_of (byte_of c - 32) else c)"

definition to_upper :: "string \<Rightarrow> string" where
  "to_upper s = map upper_char s"

definition unix_seconds :: "gotime \<Rightarrow> int" where
  "unix_seconds t = t div 1000000000 - 62135596800"

text \<open>\<open>uint64(at.Unix() / 30)\<close>; Go's division truncates towards zero.\<close>

definition totp_counter :: "gotime \<Rightarrow> nat" where
  "totp_counter at = nat ((sgn (unix_seconds at) * (\<bar>unix_seconds at\<bar> div 30)) mod 2 ^ 64)"

definition generate_totp_secret :: "string \<Rightarrow> string" where
  "generate_totp_secret random = trim_right_char (CHR ''='') (base32_encode random)"

definition totp_truncate :: "string \<Rightarrow> nat" where
  "totp_truncate digest =
     (let i = byte_of (last digest) mod 16
      in byte_of (digest ! i) mod 128 * 2 ^ 24 + byte_of (digest ! (i + 1)) * 2 ^ 16 + byte_of (digest ! (i + 2)) * 2 ^ 8 + byte_of (digest ! (i + 3)))"

definition pad_zeros :: "nat \<Rightarrow> string \<Rightarrow> string" where
  "pad_zeros n s = replicate (n - length s) (CHR ''0'') @ s"

definition generate_totp_code :: "string \<Rightarrow> gotime \<Rightarrow> string" where
  "generate_totp_code secret at =
     (let s = to_upper (trim_space secret); rem = length s mod 8;
          s = (if rem \<noteq> 0 then s @ replicate (8 - rem) (CHR ''='') else s)
      in case base32_decode s of
           None \<Rightarrow> []
         | Some key \<Rightarrow>
             if key = [] then []
             else pad_zeros 6 (show_nat (totp_truncate (hmac_sha1 key (be_bytes 8 (totp_counter at))) mod 10 ^ 6)))"

definition totp_period :: duration where "totp_period = 30000000000"

definition validate_totp :: "string \<Rightarrow> string \<Rightarrow> gotime \<Rightarrow> gotime \<Rightarrow> bool" where
  "validate_totp secret code clock now =
     (let secret = trim_space secret; code = trim_space code; now = or_now clock now in
      secret \<noteq> [] \<and> length code = 6 \<and>
      (\<exists>i \<in> {- 1, 0, 1}. generate_totp_code secret (now + i * totp_period) = code))"

end
