(* ===== verification/IdentityAuth.thy ===== *)
theory IdentityAuth
  imports IdentityService Totp
begin

text \<open>
  Authentication in \<open>identity.Service\<close>: passwords with their lockout, cashier PINs, Google accounts
  (\<open>service.go\<close>) and the second factor (\<open>totp_service.go\<close>). The answer of the OpenID verifier and the
  random bytes of a secret are arguments.
\<close>

section \<open>Passwords\<close>

text \<open>The part of a credential a wrong password changes, and one a right password changes.\<close>

definition failed_attempt :: "gotime \<Rightarrow> credential \<Rightarrow> credential" where
  "failed_attempt now c =
     (let n = cr_failed_attempt_count c + 1 in
      if max_failed_password_attempt \<le> n
      then c\<lparr>cr_failed_attempt_count := 0, cr_locked_until := now + password_lockout_window, cr_updated_at := now\<rparr>
      else c\<lparr>cr_failed_attempt_count := n, cr_updated_at := now\<rparr>)"

definition passed_attempt :: "gotime \<Rightarrow> credential \<Rightarrow> credential" where
  "passed_attempt now c = c\<lparr>cr_failed_attempt_count := 0, cr_locked_until := zero_time, cr_updated_at := now\<rparr>"

definition authenticate_password_primary :: "argon2 \<Rightarrow> gotime \<Rightarrow> string \<Rightarrow> string \<Rightarrow> user identity_call" where
  "authenticate_password_primary A now username password r =
     (case find_user_by_username username r of
        None \<Rightarrow> (Inl (Unauthorized ''invalid credentials''), r)
      | Some u \<Rightarrow>
          if u_status u \<noteq> ''active'' then (Inl (Forbidden ''user not active''), r)
          else (case find_credential (u_id u) r of
            None \<Rightarrow> (Inl (Unauthorized ''invalid credentials''), r)
          | Some c \<Rightarrow>
              if \<not> is_zero_time (cr_locked_until c) \<and> now < cr_locked_until c
              then (Inl (Forbidden ''account temporarily locked''), r)
              else (case verify_password A (cr_password_hash c) password of
                Inl e \<Rightarrow> (Inl e, r)
              | Inr verified \<Rightarrow>
                  if \<not> verified then (Inl (Unauthorized ''invalid credentials''), save_credential (failed_attempt now c) r)
                  else (Inr u, save_credential (passed_attempt now c) r))))"

definition authenticate_password ::
    "argon2 \<Rightarrow> string \<Rightarrow> gotime \<Rightarrow> gotime \<Rightarrow> string \<Rightarrow> string \<Rightarrow> string \<Rightarrow> gobj \<Rightarrow> duration \<Rightarrow> session identity_call" where
  "authenticate_password A ulid now later username password location_id metadata ttl r =
     (case authenticate_password_primary A now username password r of
        (Inl e, r) \<Rightarrow> (Inl e, r)
      | (Inr u, r) \<Rightarrow> start_session ulid later (u_username u) location_id ''password'' metadata ttl r)"

definition store_password :: "argon2 \<Rightarrow> string \<Rightarrow> gotime \<Rightarrow> string \<Rightarrow> string \<Rightarrow> credential \<Rightarrow> identity_repo \<Rightarrow> identity_repo" where
  "store_password A salt now user_id password c r =
     revoke_user_sessions user_id now
       (save_credential (c\<lparr>cr_password_hash := hash_password A salt password, cr_password_changed_at := now,
          cr_failed_attempt_count := 0, cr_locked_until := zero_time, cr_updated_at := now\<rparr>) r)"

definition change_password ::
    "argon2 \<Rightarrow> string \<Rightarrow> gotime \<Rightarrow> string \<Rightarrow> string \<Rightarrow> string \<Rightarrow> password_policy \<Rightarrow> identity_repo \<Rightarrow> goerr option \<times> identity_repo" where
  "change_password A salt now user_id current password policy r =
     (case validate_new_password password policy of
        Some e \<Rightarrow> (Some e, r)
      | None \<Rightarrow>
          (case find_user user_id r of
             None \<Rightarrow> (Some (NotFound ''user not found''), r)
           | Some u \<Rightarrow>
               (case find_credential (u_id u) r of
                  None \<Rightarrow> (Some (NotFound ''credential not found''), r)
                | Some c \<Rightarrow>
                    (case verify_password A (cr_password_hash c) current of
                       Inl e \<Rightarrow> (Some e, r)
                     | Inr verified \<Rightarrow>
                         if \<not> verified then (Some (Unauthorized ''current password is invalid''), r)
                         else (None, store_password A salt now (u_id u) password c r)))))"

definition reset_password ::
    "argon2 \<Rightarrow> string \<Rightarrow> gotime \<Rightarrow> string \<Rightarrow> string \<Rightarrow> password_policy \<Rightarrow> identity_repo \<Rightarrow> goerr option \<times> identity_repo" where
  "reset_password A salt now user_id password policy r =
     (case validate_new_password password policy of
        Some e \<Rightarrow> (Some e, r)
      | None \<Rightarrow>
          (case find_user user_id r of
             None \<Rightarrow> (Some (NotFound ''user not found''), r)
           | Some u \<Rightarrow>
               (case find_credential (u_id u) r of
                  None \<Rightarrow> (Some (NotFound ''credential not found''), r)
                | Some c \<Rightarrow> (None, store_password A salt now (u_id u) password c r))))"

definition ensure_bootstrap_admin_credential ::
    "argon2 \<Rightarrow> string \<Rightarrow> gotime \<Rightarrow> string \<Rightarrow> identity_repo \<Rightarrow> goerr option \<times> identity_repo" where
  "ensure_bootstrap_admin_credential A salt now password r =
     (let password = trim_space password in
      if password = [] then (None, r)
      else case find_user_by_username ''admin'' r of
             None \<Rightarrow> (Some (NotFound ''bootstrap admin user not found''), r)
           | Some u \<Rightarrow> (None, save_credential ((zero_credential (u_id u))\<lparr>cr_password_hash := hash_password A salt password,
                 cr_password_changed_at := now, cr_updated_at := now\<rparr>) r))"

definition password_expired :: "gotime \<Rightarrow> string \<Rightarrow> duration \<Rightarrow> gotime \<Rightarrow> identity_repo \<Rightarrow> bool result" where
  "password_expired clock user_id max_age now r =
     (if max_age \<le> 0 then Inr False
      else if trim_space user_id = [] then Inl (Validation ''user id is required'')
      else case find_credential (trim_space user_id) r of
             None \<Rightarrow> Inr False
           | Some c \<Rightarrow>
               if is_zero_time (cr_password_changed_at c) then Inr True
               else Inr (\<not> or_now clock now < cr_password_changed_at c + max_age))"

section \<open>Cashier PINs\<close>

definition validate_new_cashier_pin :: "string \<Rightarrow> goerr option" where
  "validate_new_cashier_pin pin =
     (let trimmed = trim_space pin in
      if int (length trimmed) \<noteq> cashier_pin_length
      then Some (Validation (''cashier PIN must be '' @ show_int cashier_pin_length @ '' digits''))
      else if \<not> list_all is_digit trimmed then Some (Validation ''cashier PIN must contain digits only'')
      else None)"

definition verify_cashier_pin :: "argon2 \<Rightarrow> string \<Rightarrow> string \<Rightarrow> identity_repo \<Rightarrow> goerr option" where
  "verify_cashier_pin A user_id pin r =
     (case find_credential (trim_space user_id) r of
        None \<Rightarrow> Some (NotFound ''credential not found'')
      | Some c \<Rightarrow>
          if trim_space (cr_cashier_pin_hash c) = [] then Some (Forbidden ''cashier PIN is not configured'')
          else (case verify_password A (cr_cashier_pin_hash c) (trim_space pin) of
                  Inl e \<Rightarrow> Some e
                | Inr verified \<Rightarrow> if verified then None else Some (Unauthorized ''cashier PIN is invalid'')))"

definition store_pin :: "argon2 \<Rightarrow> string \<Rightarrow> gotime \<Rightarrow> string \<Rightarrow> credential \<Rightarrow> identity_repo \<Rightarrow> identity_repo" where
  "store_pin A salt now pin c r =
     save_credential (c\<lparr>cr_cashier_pin_hash := hash_password A salt (trim_space pin), cr_cashier_pin_changed_at := now, cr_updated_at := now\<rparr>) r"

definition set_cashier_pin :: "argon2 \<Rightarrow> string \<Rightarrow> gotime \<Rightarrow> string \<Rightarrow> string \<Rightarrow> identity_repo \<Rightarrow> goerr option \<times> identity_repo" where
  "set_cashier_pin A salt now user_id pin r =
     (case validate_new_cashier_pin pin of
        Some e \<Rightarrow> (Some e, r)
      | None \<Rightarrow>
          (case find_credential (trim_space user_id) r of
             None \<Rightarrow> (Some (NotFound ''credential not found''), r)
           | Some c \<Rightarrow>
               if trim_space (cr_cashier_pin_hash c) \<noteq> [] then (Some (Conflict ''cashier PIN is already configured''), r)
               else (None, store_pin A salt now pin c r)))"

definition change_cashier_pin ::
    "argon2 \<Rightarrow> string \<Rightarrow> gotime \<Rightarrow> string \<Rightarrow> string \<Rightarrow> string \<Rightarrow> identity_repo \<Rightarrow> goerr option \<times> identity_repo" where
  "change_cashier_pin A salt now user_id current pin r =
     (case validate_new_cashier_pin pin of
        Some e \<Rightarrow> (Some e, r)
      | None \<Rightarrow>
          (case find_credential (trim_space user_id) r of
             None \<Rightarrow> (Some (NotFound ''credential not found''), r)
           | Some c \<Rightarrow>
               if trim_space (cr_cashier_pin_hash c) = [] then (Some (Forbidden ''cashier PIN is not configured''), r)
               else (case verify_password A (cr_cashier_pin_hash c) (trim_space current) of
                       Inl e \<Rightarrow> (Some e, r)
                     | Inr verified \<Rightarrow>
                         if \<not> verified then (Some (Unauthorized ''current cashier PIN is invalid''), r)
                         else (None, store_pin A salt now pin c r))))"

section \<open>Google accounts\<close>

record google_identity =
  gi_subject :: string
  gi_email :: string
  gi_email_verified :: bool
  gi_name :: string
  gi_picture_url :: string
  gi_hosted_domain :: string
  gi_issuer :: string

record google_provisioning =
  gp_enabled :: bool
  gp_allowed_domains :: "string list"
  gp_role_id :: string
  gp_scope_type :: string
  gp_scope_id :: string
  gp_default_location_id :: string

text \<open>\<open>strings.SplitN(email, "@", 2)\<close>: the domain is everything after the first sign.\<close>

definition domain_allowed :: "string list \<Rightarrow> string \<Rightarrow> bool" where
  "domain_allowed domains email \<longleftrightarrow>
     (case dropWhile (\<lambda>c. c \<noteq> CHR ''@'') email of
        [] \<Rightarrow> False
      | _ # domain \<Rightarrow> \<exists>d \<in> set domains. equal_fold (trim_space d) (to_lower (trim_space domain)))"

definition provision_google_user ::
    "string \<Rightarrow> string \<Rightarrow> gotime \<Rightarrow> google_identity \<Rightarrow> string \<Rightarrow> google_provisioning \<Rightarrow> user identity_call" where
  "provision_google_user ulid ulid2 now gi subject gp r =
     (let email = to_lower (trim_space (gi_email gi)); role_id = trim_space (gp_role_id gp); scope_type = trim_space (gp_scope_type gp) in
      if \<not> gp_enabled gp then (Inl (Forbidden ''google account is not linked to a platform user''), r)
      else if email = [] then (Inl (Forbidden ''google account email is required''), r)
      else if gp_allowed_domains gp \<noteq> [] \<and> \<not> domain_allowed (gp_allowed_domains gp) email
      then (Inl (Forbidden ''google account domain is not allowed for auto provisioning''), r)
      else if role_id = [] then (Inl (Validation ''google auto provision role id is required''), r)
      else if \<not> role_exists role_id r then (Inl (Validation ''google auto provision role id is invalid''), r)
      else
        let u = new_user (new_id ''user'' ulid) email subject (trim_space (gp_default_location_id gp)) now;
            b = new_binding (new_id ''rb'' ulid2) (u_id u) role_id (if scope_type = [] then ''deployment'' else scope_type)
                  (trim_space (gp_scope_id gp)) now
        in (Inr u, save_role_binding b (save_user u r)))"

definition link_google_user :: "gotime \<Rightarrow> string \<Rightarrow> user \<Rightarrow> user identity_call" where
  "link_google_user now subject u r =
     (if u_authentication_subject u = []
      then let u = u\<lparr>u_authentication_subject := subject, u_updated_at := now\<rparr> in (Inr u, save_user u r)
      else if u_authentication_subject u \<noteq> subject
      then (Inl (Forbidden ''google account does not match linked platform user''), r)
      else (Inr u, r))"

definition authenticate_google_primary ::
    "string \<Rightarrow> string \<Rightarrow> gotime \<Rightarrow> gotime \<Rightarrow> google_identity \<Rightarrow> gobj \<Rightarrow> google_provisioning \<Rightarrow> (user \<times> gobj) identity_call" where
  "authenticate_google_primary ulid ulid2 now later gi metadata gp r =
     (let subject = ''google:'' @ trim_space (gi_subject gi);
          metadata = mput ''google_email'' (GStr (gi_email gi)) (mput ''google_subject'' (GStr (gi_subject gi)) metadata);
          metadata = (if gi_hosted_domain gi \<noteq> [] then mput ''google_hosted_domain'' (GStr (gi_hosted_domain gi)) metadata else metadata);
          metadata = (if gi_name gi \<noteq> [] then mput ''google_name'' (GStr (gi_name gi)) metadata else metadata)
      in
      if subject = ''google:'' then (Inl (Validation ''google subject is required''), r)
      else
        let (found, r) = (case find_user_by_subject subject r of
               Some u \<Rightarrow> (Inr u, r)
             | None \<Rightarrow>
                 (case find_user_by_username (to_lower (trim_space (gi_email gi))) r of
                    Some u \<Rightarrow> (Inr u, r)
                  | None \<Rightarrow> provision_google_user ulid ulid2 now gi subject gp r))
        in (case found of
              Inl e \<Rightarrow> (Inl e, r)
            | Inr u \<Rightarrow> (case link_google_user later subject u r of
                  (Inl e, r) \<Rightarrow> (Inl e, r) | (Inr u, r) \<Rightarrow> (Inr (u, metadata), r))))"

definition authenticate_google ::
    "string \<Rightarrow> string \<Rightarrow> string \<Rightarrow> gotime \<Rightarrow> gotime \<Rightarrow> gotime \<Rightarrow> google_identity \<Rightarrow> string \<Rightarrow> gobj \<Rightarrow> duration \<Rightarrow> google_provisioning
       \<Rightarrow> session identity_call" where
  "authenticate_google ulid ulid2 ulid3 t1 t2 t3 gi location_id metadata ttl gp r =
     (case authenticate_google_primary ulid ulid2 t1 t2 gi metadata gp r of
        (Inl e, r) \<Rightarrow> (Inl e, r)
      | (Inr (u, metadata), r) \<Rightarrow> start_session_for_user ulid3 t3 u location_id ''google'' metadata ttl r)"

section \<open>The second factor\<close>

definition normalize_totp_enrollment :: "totp_enrollment \<Rightarrow> totp_enrollment" where
  "normalize_totp_enrollment e =
     (if \<not> is_zero_time (te_disabled_at e) then e\<lparr>te_login_enabled := False, te_approval_enabled := False\<rparr> else e)"

definition normalize_auth_challenge :: "gotime \<Rightarrow> auth_challenge \<Rightarrow> auth_challenge" where
  "normalize_auth_challenge now c =
     (if ch_status c = ''pending'' \<and> \<not> is_zero_time (ch_expires_at c) \<and> \<not> now < ch_expires_at c
      then c\<lparr>ch_status := ''expired''\<rparr> else c)"

definition metadata_bool :: "gobj \<Rightarrow> string \<Rightarrow> bool" where
  "metadata_bool metadata key =
     (case map_of metadata (trim_space key) of
        None \<Rightarrow> False
      | Some v \<Rightarrow> (case v of GBool b \<Rightarrow> b | GStr t \<Rightarrow> equal_fold (trim_space t) ''true'' | _ \<Rightarrow> False))"

text \<open>The enrolment of \<open>BeginTOTPEnrollment\<close>; the link for the authenticator app it also returns is left out.\<close>

definition begin_totp_enrollment :: "string \<Rightarrow> gotime \<Rightarrow> string \<Rightarrow> string \<Rightarrow> totp_enrollment identity_call" where
  "begin_totp_enrollment random now user_id issuer r =
     (case find_user (trim_space user_id) r of
        None \<Rightarrow> (Inl (NotFound ''user not found''), r)
      | Some u \<Rightarrow>
          let e = \<lparr>te_user_id = u_id u, te_secret = generate_totp_secret random, te_issuer = trim_space issuer,
                   te_account_name = u_username u, te_login_enabled = False, te_approval_enabled = False, te_verified_at = zero_time,
                   te_disabled_at = zero_time,
                   te_created_at = (case find_totp_enrollment (u_id u) r of None \<Rightarrow> now | Some old \<Rightarrow> te_created_at old),
                   te_updated_at = now\<rparr>
          in (Inr (normalize_totp_enrollment e), save_totp_enrollment e r))"

definition configure_verified_totp :: "gotime \<Rightarrow> string \<Rightarrow> bool \<Rightarrow> bool \<Rightarrow> totp_enrollment identity_call" where
  "configure_verified_totp now user_id login_enabled approval_enabled r =
     (case find_totp_enrollment (trim_space user_id) r of
        None \<Rightarrow> (Inl (NotFound ''2FA enrollment not found''), r)
      | Some e \<Rightarrow>
          let e = normalize_totp_enrollment e in
          if is_zero_time (te_verified_at e) then (Inl (Conflict ''2FA enrollment is not verified''), r)
          else let e = e\<lparr>te_login_enabled := login_enabled, te_approval_enabled := approval_enabled, te_updated_at := now\<rparr>
               in (Inr (normalize_totp_enrollment e), save_totp_enrollment e r))"

definition disable_totp :: "gotime \<Rightarrow> string \<Rightarrow> gotime \<Rightarrow> identity_repo \<Rightarrow> identity_repo" where
  "disable_totp clock user_id now r =
     (case find_totp_enrollment (trim_space user_id) r of
        None \<Rightarrow> r
      | Some e \<Rightarrow>
          let now = or_now clock now;
              e = e\<lparr>te_secret := [], te_login_enabled := False, te_approval_enabled := False, te_verified_at := zero_time,
                    te_disabled_at := now, te_updated_at := now\<rparr>
          in revoke_user_sessions (te_user_id e) now (save_totp_enrollment e r))"

definition verify_totp_enrollment :: "gotime \<Rightarrow> string \<Rightarrow> string \<Rightarrow> bool \<Rightarrow> bool \<Rightarrow> gotime \<Rightarrow> totp_enrollment identity_call" where
  "verify_totp_enrollment clock user_id code login_enabled approval_enabled now r =
     (case find_totp_enrollment (trim_space user_id) r of
        None \<Rightarrow> (Inl (NotFound ''2FA enrollment not found''), r)
      | Some e \<Rightarrow>
          let e = normalize_totp_enrollment e; now = or_now clock now in
          if te_secret e = [] then (Inl (Conflict ''2FA enrollment is disabled''), r)
          else if \<not> validate_totp (te_secret e) code clock now then (Inl (Unauthorized ''invalid authentication code''), r)
          else let e = e\<lparr>te_verified_at := now, te_disabled_at := zero_time, te_login_enabled := login_enabled,
                        te_approval_enabled := approval_enabled, te_updated_at := now\<rparr>
               in (Inr (normalize_totp_enrollment e), save_totp_enrollment e r))"

definition create_auth_challenge ::
    "string \<Rightarrow> gotime \<Rightarrow> string \<Rightarrow> string \<Rightarrow> string \<Rightarrow> string \<Rightarrow> string \<Rightarrow> gobj \<Rightarrow> duration \<Rightarrow> auth_challenge identity_call" where
  "create_auth_challenge ulid now user_id username auth_method location_id purpose metadata ttl r =
     (let c = \<lparr>ch_id = new_id ''auth-challenge'' ulid, ch_user_id = trim_space user_id, ch_username = trim_space username,
               ch_auth_method = trim_space auth_method, ch_current_location_id = trim_space location_id, ch_status = ''pending'',
               ch_purpose = trim_space purpose, ch_expires_at = now + (if ttl \<le> 0 then 600000000000 else ttl), ch_created_at = now,
               ch_consumed_at = zero_time, ch_client_metadata = metadata\<rparr>
      in if ch_user_id c = [] \<or> ch_username c = [] \<or> ch_purpose c = []
         then (Inl (Validation ''auth challenge is invalid''), r)
         else (Inr c, save_auth_challenge c r))"

text \<open>The first verification of an enrolment turns it on as the challenge says.\<close>

definition first_verification :: "gotime \<Rightarrow> auth_challenge \<Rightarrow> totp_enrollment \<Rightarrow> identity_repo \<Rightarrow> identity_repo" where
  "first_verification now c e r =
     (if is_zero_time (te_verified_at e)
      then save_totp_enrollment (e\<lparr>te_verified_at := now, te_disabled_at := zero_time,
             te_login_enabled := metadata_bool (ch_client_metadata c) ''login_enabled'',
             te_approval_enabled := metadata_bool (ch_client_metadata c) ''approval_enabled'', te_updated_at := now\<rparr>) r
      else r)"

text \<open>\<open>t0\<close>, \<open>now\<close>, \<open>t2\<close> and \<open>t3\<close> are the readings for normalising, deciding, starting the session and answering.\<close>

definition complete_auth_challenge ::
    "string \<Rightarrow> gotime \<Rightarrow> gotime \<Rightarrow> gotime \<Rightarrow> gotime \<Rightarrow> string \<Rightarrow> string \<Rightarrow> duration \<Rightarrow> (session \<times> auth_challenge) identity_call" where
  "complete_auth_challenge ulid t0 now t2 t3 challenge_id code ttl r =
     (case find_auth_challenge (trim_space challenge_id) r of
        None \<Rightarrow> (Inl (NotFound ''2FA challenge not found''), r)
      | Some c \<Rightarrow>
          let c = normalize_auth_challenge t0 c in
          if ch_status c \<noteq> ''pending'' then (Inl (Conflict ''2FA challenge is no longer active''), r)
          else if \<not> is_zero_time (ch_expires_at c) \<and> \<not> now < ch_expires_at c
          then (Inl (Forbidden ''2FA challenge expired''), save_auth_challenge (c\<lparr>ch_status := ''expired'', ch_consumed_at := now\<rparr>) r)
          else (case find_totp_enrollment (ch_user_id c) r of
            None \<Rightarrow> (Inl (NotFound ''2FA enrollment not found''), r)
          | Some e \<Rightarrow>
              let e = normalize_totp_enrollment e in
              if te_secret e = [] then (Inl (Conflict ''2FA enrollment is disabled''), r)
              else if \<not> validate_totp (te_secret e) code now now then (Inl (Unauthorized ''invalid authentication code''), r)
              else
                let r = first_verification now c e r in
                (case find_user (ch_user_id c) r of
                   None \<Rightarrow> (Inl (NotFound ''user not found''), r)
                 | Some u \<Rightarrow>
                     (case start_session_for_user ulid t2 u (ch_current_location_id c) (ch_auth_method c) (ch_client_metadata c) ttl r of
                        (Inl e, r) \<Rightarrow> (Inl e, r)
                      | (Inr s, r) \<Rightarrow>
                          let s = s\<lparr>sn_login_step_up_at := now\<rparr>; c = c\<lparr>ch_status := ''consumed'', ch_consumed_at := now\<rparr>
                          in (Inr (s, normalize_auth_challenge t3 c), save_auth_challenge c (save_session s r))))))"

definition verify_session_totp :: "gotime \<Rightarrow> gotime \<Rightarrow> string \<Rightarrow> string \<Rightarrow> string \<Rightarrow> duration \<Rightarrow> session identity_call" where
  "verify_session_totp t0 now session_id user_id code ttl r =
     (case find_session (trim_space session_id) r of
        None \<Rightarrow> (Inl (NotFound ''session not found''), r)
      | Some s \<Rightarrow>
          if trim_space user_id \<noteq> [] \<and> sn_user_id s \<noteq> trim_space user_id then (Inl (Forbidden ''session user mismatch''), r)
          else (case find_totp_enrollment (sn_user_id s) r of
            None \<Rightarrow> (Inl (NotFound ''2FA enrollment not found''), r)
          | Some e \<Rightarrow>
              if \<not> validate_totp (te_secret (normalize_totp_enrollment e)) code t0 t0
              then (Inl (Unauthorized ''invalid authentication code''), r)
              else let s = s\<lparr>sn_approval_step_up_at := now, sn_approval_step_up_until := now + (if ttl \<le> 0 then 600000000000 else ttl)\<rparr>
                   in (Inr s, save_session s r)))"

end
