(* ===== verification/IdentityFacts.thy ===== *)
theory IdentityFacts
  imports IdentityGrants IdentityAuth
begin

text \<open>
  What the identity service guarantees: every access is justified by a live session, an active user
  and a role in force; a session that was shut out stays shut out; delegates act within their grant;
  grants and deep links move only forwards; passwords cannot be guessed faster than the lockout lets.
\<close>

section \<open>Access\<close>

lemma denied_not_allowed [simp]: "\<not> ax_allowed (denied_access reason)"
  by (simp add: denied_access_def)

lemma decide_allowed:
  "ax_allowed (decide now org user_id key location_id r) \<longleftrightarrow>
     user_id \<noteq> [] \<and> key \<noteq> [] \<and> (\<exists>u. find_user user_id r = Some u \<and> u_status u = ''active'')
     \<and> user_has_permission now user_id key location_id r"
  by (auto simp: decide_def split: option.split)

text \<open>A session that still counts at a time.\<close>

definition current_session :: "gotime \<Rightarrow> session \<Rightarrow> bool" where
  "current_session now s \<longleftrightarrow> live_session s \<and> (sn_expires_at s = 0 \<or> now \<le> sn_expires_at s)"

lemma decide_acting_session_allowed:
  "ax_allowed (decide_acting_session clk org session_id effective key location_id grant r) \<longleftrightarrow>
     session_id \<noteq> [] \<and> (\<exists>s. find_session session_id r = Some s \<and> current_session (clk 0) s
       \<and> (let location_id = (if location_id = [] then sn_current_location_id s else location_id);
              acting = (if trim_space effective = [] then sn_user_id s else trim_space effective)
          in ax_allowed (decide (clk 4) org acting key location_id r)
           \<and> (case grant of None \<Rightarrow> True
              | Some g \<Rightarrow> let g = normalize_delegation_grant_at g (clk 1) in
                  trim_space (gt_status g) = ''accepted'' \<and> gt_delegate_kind g = ''user'' \<and> gt_delegate_id g = sn_user_id s
                \<and> gt_grantor_user_id g = acting \<and> (gt_location_id g = [] \<or> location_id = [] \<or> gt_location_id g = location_id)
                \<and> (gt_starts_at g = 0 \<or> gt_starts_at g \<le> clk 2) \<and> (gt_expires_at g = 0 \<or> clk 3 < gt_expires_at g)
                \<and> trim_space key \<in> set (gt_allowed_permission_keys g))))"
  by (cases "session_id = []"; cases "find_session session_id r"; cases grant)
    (simp_all add: decide_acting_session_def current_session_def live_session_def is_zero_time_def Let_def contains_string_def
      not_less linorder_not_le, auto)

definition permission_path :: "gotime \<Rightarrow> string \<Rightarrow> string \<Rightarrow> string \<Rightarrow> identity_repo \<Rightarrow> role_binding \<Rightarrow> role_permission \<Rightarrow> bool" where
  "permission_path now user_id key location_id r b g \<longleftrightarrow>
     b \<in> set (iy_bindings r) \<and> bi_user_id b = user_id \<and> bi_status b = ''active'' \<and> bi_effective_from b \<le> now
   \<and> (bi_effective_to b = 0 \<or> now \<le> bi_effective_to b)
   \<and> (bi_scope_type b \<noteq> ''location'' \<or> bi_scope_id b = [] \<or> location_id = [] \<or> bi_scope_id b = location_id)
   \<and> g \<in> set (iy_grants r) \<and> rpg_role_id g = bi_role_id b \<and> rpg_permission_key g = key"

lemma user_has_permission_path:
  "user_has_permission now user_id key location_id r \<longleftrightarrow> (\<exists>b g. permission_path now user_id key location_id r b g)"
  unfolding user_has_permission_def permission_path_def binding_in_force_def binding_reaches_def is_zero_time_def
  by (auto simp: not_less)

lemma decide_session_allowed:
  "ax_allowed (decide_session clk org session_id key location_id r) \<longleftrightarrow> session_id \<noteq> [] \<and> key \<noteq> []
     \<and> (\<exists>s u b g. find_session session_id r = Some s \<and> sn_status s = ''active'' \<and> sn_revoked_at s = 0
           \<and> (sn_expires_at s = 0 \<or> clk 0 \<le> sn_expires_at s) \<and> sn_user_id s \<noteq> []
           \<and> find_user (sn_user_id s) r = Some u \<and> u_status u = ''active''
           \<and> permission_path (clk 4) (sn_user_id s) key (if location_id = [] then sn_current_location_id s else location_id) r b g)"
proof -
  have "ax_allowed (decide_session clk org session_id key location_id r) \<longleftrightarrow> session_id \<noteq> [] \<and>
      (\<exists>s. find_session session_id r = Some s \<and> current_session (clk 0) s
        \<and> ax_allowed (decide (clk 4) org (sn_user_id s) key (if location_id = [] then sn_current_location_id s else location_id) r))"
    by (simp add: decide_session_def decide_acting_session_allowed Let_def)
  then show ?thesis
    unfolding decide_allowed user_has_permission_path current_session_def live_session_def is_zero_time_def by blast
qed


definition demo_identity :: identity_repo where
  "demo_identity = new_identity_repo
     [new_user ''user:a'' ''alice'' [] ''loc_hq'' 1, new_user ''user:b'' ''bob'' [] ''loc_hq'' 1] [] []
     [new_binding ''rb:1'' ''user:a'' ''role_clerk'' ''location'' ''loc_hq'' 1,
      new_binding ''rb:2'' ''user:b'' ''role_unit'' ''operating_unit'' ''ou_1'' 1]
     [\<lparr>rpg_role_id = ''role_clerk'', rpg_permission_key = ''orders.read''\<rparr>,
      \<lparr>rpg_role_id = ''role_unit'', rpg_permission_key = ''stock.write''\<rparr>]
     [] [new_session ''sess:1'' ''user:a'' ''password'' ''loc_hq'' [] 10 100, new_session ''sess:2'' ''user:b'' ''password'' ''loc_hq'' [] 10 100] []"

definition demo_request :: "string \<Rightarrow> auth_request" where
  "demo_request key = \<lparr>aq_subject = \<lparr>as_kind = ''user'', as_user_id = ''user:a'', as_session_id = ''sess:1'', as_service_id = [],
     as_current_location_id = [], as_auth_method = ''cookie'', as_step_up_verified = False\<rparr>, aq_permission_key = key,
     aq_service_operation = [], aq_location_id = [], aq_require_step_up = False\<rparr>"


text \<open>
  The location is the only scope a permission looks at: a role bound to one operating unit (or one
  organization) gives its permissions for every other one as well, although the roles listed for
  that scope do not include it.
\<close>

lemma unit_binding_reaches_everywhere:
  "bi_scope_type b \<noteq> ''location'' \<Longrightarrow> binding_reaches location_id b"
  by (simp add: binding_reaches_def)

lemma unit_role_elsewhere:
  "ax_allowed (decide 50 (new_organization 1) ''user:b'' ''stock.write'' ''loc_hq'' demo_identity)
   \<and> active_role_ids_for_user 50 ''user:b'' ''org_default'' ''loc_hq'' ''ou_2'' 50 demo_identity = []"
  by code_simp

section \<open>Sessions that are shut out\<close>

definition dead_session :: "session \<Rightarrow> bool" where
  "dead_session s \<longleftrightarrow> \<not> live_session s"

lemma revoked_dead [simp]: "dead_session (revoked at s)" "sn_id (revoked at s) = sn_id s" "sn_user_id (revoked at s) = sn_user_id s"
  by (simp_all add: dead_session_def live_session_def revoked_def)

text \<open>What can happen to the sessions; a new session has a fresh identifier.\<close>

inductive session_step :: "identity_repo \<Rightarrow> identity_repo \<Rightarrow> bool" where
  start: "find_session (new_id ''sess'' ulid) r = None
    \<Longrightarrow> session_step r (snd (start_session_for_user ulid now u location_id auth_method metadata ttl r))"
| rotate: "find_session (new_id ''sess'' ulid) r = None \<Longrightarrow> session_step r (snd (rotate_session ulid now session_id ttl r))"
| touch: "session_step r (snd (touch_session now session_id seen_at r))"
| revoke: "session_step r (snd (revoke_session now session_id at r))"
| revoke_all: "session_step r (revoke_user_sessions user_id at r)"
| step_up: "session_step r (snd (verify_session_totp t0 now session_id user_id code ttl r))"
| challenge: "find_session (new_id ''sess'' ulid) r = None
    \<Longrightarrow> session_step r (snd (complete_auth_challenge ulid t0 now t2 t3 challenge_id code ttl r))"
| other: "iy_sessions r' = iy_sessions r \<Longrightarrow> session_step r r'"

lemma find_save_session: "find_session k (save_session s r) = (if k = sn_id s then Some s else find_session k r)"
  by (simp add: find_session_def save_session_def)

lemma find_session_frame: "iy_sessions r' = iy_sessions r \<Longrightarrow> find_session k r' = find_session k r"
  by (simp add: find_session_def)

lemma revoking_finds:
  "find_session k (fold (\<lambda>s r. if sn_user_id s \<noteq> user_id \<or> \<not> live_session s then r else save_session (revoked at s) r) xs t) = Some s
   \<Longrightarrow> dead_session s \<or> find_session k t = Some s"
proof (induction xs arbitrary: t)
  case (Cons x xs)
  show ?case
  proof (cases "sn_user_id x \<noteq> user_id \<or> \<not> live_session x")
    case True
    with Cons show ?thesis by auto
  next
    case False
    with Cons.prems have "dead_session s \<or> find_session k (save_session (revoked at x) t) = Some s"
      by (intro Cons.IH) simp
    then show ?thesis by (auto simp: find_save_session split: if_splits)
  qed
qed simp

lemma revoke_user_sessions_find:
  "find_session k (revoke_user_sessions user_id at r) = Some s \<Longrightarrow> dead_session s \<or> find_session k r = Some s"
  unfolding revoke_user_sessions_def by (rule revoking_finds)

lemma revoke_user_sessions_total:
  "find_session k (revoke_user_sessions user_id at r) = None \<longleftrightarrow> find_session k r = None"
proof -
  have "sn_id ` set xs \<subseteq> sn_id ` set (iy_sessions t) \<Longrightarrow>
      find_session k (fold (\<lambda>s r. if sn_user_id s \<noteq> user_id \<or> \<not> live_session s then r else save_session (revoked at s) r) xs t) = None
      \<longleftrightarrow> find_session k t = None" for xs t
  proof (induction xs arbitrary: t)
    case (Cons x xs)
    let ?t = "if sn_user_id x \<noteq> user_id \<or> \<not> live_session x then t else save_session (revoked at x) t"
    have "sn_id ` set xs \<subseteq> sn_id ` set (iy_sessions t)" using Cons.prems by simp
    moreover have "sn_id ` set (iy_sessions t) \<subseteq> sn_id ` set (iy_sessions ?t)"
      using keys_save_by [of sn_id "revoked at x" "iy_sessions t"]
      by (auto simp: save_session_def dest: arg_cong [where f = set])
    ultimately have "sn_id ` set xs \<subseteq> sn_id ` set (iy_sessions ?t)" by (rule order_trans)
    from Cons.IH [OF this] Cons.prems show ?case
      by (auto simp: find_save_session find_session_def [of k t] find_by_None)
  qed simp
  then show ?thesis by (simp add: revoke_user_sessions_def)
qed

lemma dead_kept_by_revoke_all:
  assumes "find_session k r = Some s" "dead_session s"
  shows "\<exists>t. find_session k (revoke_user_sessions user_id at r) = Some t \<and> dead_session t"
  using assms revoke_user_sessions_total [of k user_id at r] revoke_user_sessions_find [of k user_id at r]
  by (cases "find_session k (revoke_user_sessions user_id at r)") auto

lemma find_session_id: "find_session k r = Some s \<Longrightarrow> sn_id s = k"
  by (auto simp: find_session_def dest: find_by_SomeD)

text \<open>Saving a session that is new, or the dead version of one that is there, brings nothing back to life.\<close>

lemma dead_kept_by_save:
  "find_session k r = Some s \<Longrightarrow> dead_session s \<Longrightarrow> (sn_id x = k \<Longrightarrow> dead_session x)
   \<Longrightarrow> \<exists>t. find_session k (save_session x r) = Some t \<and> dead_session t"
  by (simp add: find_save_session)

lemma dead_kept_by_change:
  assumes "find_session k r = Some s" "dead_session s" "find_session j r = Some x" "sn_id y = sn_id x" "live_session y = live_session x"
  shows "\<exists>t. find_session k (save_session y r) = Some t \<and> dead_session t"
proof (cases "k = j")
  case True
  with assms have "dead_session y" by (simp add: dead_session_def)
  with assms(1,2) show ?thesis by (intro dead_kept_by_save)
next
  case False
  with assms find_session_id [OF assms(3)] show ?thesis by (simp add: find_save_session)
qed

lemma sn_id_new_session [simp]: "sn_id (new_session i u a l m now ttl) = i"
  by (simp add: new_session_def)

lemma dead_kept_by_challenge:
  assumes s: "find_session k r = Some s" "dead_session s" and fresh: "find_session (new_id ''sess'' ulid) r = None"
  shows "\<exists>t. find_session k (snd (complete_auth_challenge ulid t0 now t2 t3 challenge_id code ttl r)) = Some t \<and> dead_session t"
proof -
  have k: "k \<noteq> new_id ''sess'' ulid" using s fresh by auto
  have frame: "find_session k (first_verification now c e r) = find_session k r" for c e
    by (simp add: first_verification_def save_totp_enrollment_def find_session_def)
  have other: "find_session k (save_auth_challenge c r') = find_session k r'" for c r'
    by (simp add: save_auth_challenge_def find_session_def)
  have "find_session k (snd (complete_auth_challenge ulid t0 now t2 t3 challenge_id code ttl r)) = find_session k r"
    using k by (auto simp: complete_auth_challenge_def Let_def frame other start_session_for_user_def find_save_session
        split: option.split sum.split prod.split)
  with s show ?thesis by simp
qed

lemma session_step_keeps_dead:
  assumes "session_step r r'" "find_session k r = Some s" "dead_session s"
  shows "\<exists>t. find_session k r' = Some t \<and> dead_session t"
  using assms
proof (cases rule: session_step.cases)
  case (start ulid now u location_id auth_method metadata ttl)
  then show ?thesis using assms(2,3)
    by (auto simp: start_session_for_user_def Let_def intro!: dead_kept_by_save)
next
  case (rotate ulid now session_id ttl)
  then have "k \<noteq> new_id ''sess'' ulid" using assms(2) by auto
  with rotate assms(2,3) show ?thesis
    by (auto simp: rotate_session_def Let_def find_save_session split: option.split)
next
  case (touch now session_id seen_at)
  then show ?thesis using assms(2,3) dead_kept_by_change [OF assms(2,3), of session_id]
    by (simp add: touch_session_def Let_def live_session_def split: option.split)
next
  case (revoke now session_id at)
  then show ?thesis using assms(2,3)
    by (auto simp: revoke_session_def Let_def split: option.split intro!: dead_kept_by_save)
next
  case (revoke_all user_id at)
  then show ?thesis using dead_kept_by_revoke_all [OF assms(2,3)] by simp
next
  case (step_up t0 now session_id user_id code ttl)
  then show ?thesis using assms(2,3) dead_kept_by_change [OF assms(2,3), of "trim_space session_id"]
    by (simp add: verify_session_totp_def Let_def live_session_def split: option.split)
next
  case (challenge ulid t0 now t2 t3 challenge_id code ttl)
  then show ?thesis using dead_kept_by_challenge [OF assms(2,3)] by simp
next
  case other
  then show ?thesis using assms(2,3) by (simp add: find_session_def)
qed

interpretation dead: one_way "\<lambda>r k. find_session k r" session_step dead_session
  by unfold_locales (rule session_step_keeps_dead)

lemma revoke_user_sessions_dead:
  assumes "find_session k (revoke_user_sessions user_id at r) = Some s" "sn_user_id s = user_id"
  shows "dead_session s"
proof -
  let ?f = "\<lambda>s r. if sn_user_id s \<noteq> user_id \<or> \<not> live_session s then r else save_session (revoked at s) r"
  have "find_session k (fold ?f xs t) = Some s \<Longrightarrow> s \<in> set xs \<Longrightarrow> dead_session s" for xs t
  proof (induction xs arbitrary: t)
    case (Cons x xs)
    show ?case
    proof (cases "s = x \<and> live_session s")
      case True
      then have start: "?f x t = save_session (revoked at s) t" using assms(2) by auto
      have "k = sn_id s" using assms(1) find_session_id by metis
      then have "find_session k (?f x t) = Some (revoked at s)" using start by (simp add: find_save_session)
      moreover have "dead_session s \<or> find_session k (?f x t) = Some s"
        by (rule revoking_finds [where xs = xs]) (use Cons.prems(1) in simp)
      ultimately show ?thesis by (metis option.inject revoked_dead(1))
    next
      case False
      with Cons show ?thesis by (auto simp: dead_session_def)
    qed
  qed simp
  moreover have "dead_session s \<or> s \<in> set (iy_sessions r)"
    using revoke_user_sessions_find [OF assms(1)] by (auto simp: find_session_def dest: find_by_SomeD)
  ultimately show ?thesis using assms(1) unfolding revoke_user_sessions_def by blast
qed

lemma find_user_id: "find_user k r = Some u \<Longrightarrow> u_id u = k"
  by (auto simp: find_user_def dest: find_by_SomeD)

text \<open>The calls that end the sessions of a user.\<close>

lemma session_still_found:
  assumes "find_session k r = Some s" "iy_sessions r' = iy_sessions r"
  shows "\<exists>t. find_session k (revoke_user_sessions (sn_user_id s) at r') = Some t \<and> dead_session t"
proof -
  have s: "find_session k r' = Some s" using assms by (simp add: find_session_def)
  then obtain t where t: "find_session k (revoke_user_sessions (sn_user_id s) at r') = Some t"
    using revoke_user_sessions_total [of k "sn_user_id s" at r'] by (cases "find_session k (revoke_user_sessions (sn_user_id s) at r')") auto
  moreover have "dead_session t"
  proof (cases "t = s")
    case True
    with revoke_user_sessions_dead [OF t] show ?thesis by simp
  next
    case False
    with revoke_user_sessions_find [OF t] s show ?thesis by auto
  qed
  ultimately show ?thesis by blast
qed

definition ends_sessions :: "string \<Rightarrow> string \<Rightarrow> identity_repo \<Rightarrow> identity_repo \<Rightarrow> bool" where
  "ends_sessions session_id user_id r r' \<longleftrightarrow>
     (\<exists>A salt now current password policy. change_password A salt now user_id current password policy r = (None, r'))
   \<or> (\<exists>A salt now password policy. reset_password A salt now user_id password policy r = (None, r'))
   \<or> (\<exists>now u. set_user_status now user_id ''disabled'' r = (Inr u, r'))
   \<or> (\<exists>now at s. revoke_session now session_id at r = (Inr s, r'))"

lemma ends_sessions_dead:
  assumes "ends_sessions session_id (sn_user_id s) r r'" "find_session session_id r = Some s"
  shows "\<exists>t. find_session session_id r' = Some t \<and> dead_session t"
proof -
  have stored: "\<exists>t. find_session session_id (store_password A salt now (sn_user_id s) password c r) = Some t \<and> dead_session t" for A salt now password c
    unfolding store_password_def by (rule session_still_found [OF assms(2)]) (simp add: save_credential_def)
  have disabled: "\<exists>t. find_session session_id (revoke_user_sessions (sn_user_id s) now (save_user u r)) = Some t \<and> dead_session t" for now u
    by (rule session_still_found [OF assms(2)]) (simp add: save_user_def)
  have low: "trim_space (to_lower ''disabled'') = ''disabled''" by code_simp
  from assms(1) show ?thesis unfolding ends_sessions_def
  proof (elim disjE exE)
    fix A salt now current password policy
    assume "change_password A salt now (sn_user_id s) current password policy r = (None, r')"
    then show ?thesis using stored by (auto simp: change_password_def split: option.splits sum.splits if_splits dest: find_user_id)
  next
    fix A salt now password policy
    assume "reset_password A salt now (sn_user_id s) password policy r = (None, r')"
    then show ?thesis using stored by (auto simp: reset_password_def split: option.splits dest: find_user_id)
  next
    fix now u
    assume "set_user_status now (sn_user_id s) ''disabled'' r = (Inr u, r')"
    then show ?thesis using disabled by (auto simp: set_user_status_def low Let_def split: option.splits dest: find_user_id)
  next
    fix now at t
    assume "revoke_session now session_id at r = (Inr t, r')"
    then show ?thesis using assms(2) find_session_id [OF assms(2)]
      by (auto simp: revoke_session_def Let_def find_save_session split: option.splits)
  qed
qed



text \<open>
  \<open>RotateSession\<close>, unlike every decision, does not look at the expiry: an expired session that nobody
  revoked is exchanged for a fresh one.
\<close>

lemma expired_session_is_rotated:
  assumes "find_session session_id r = Some s" "live_session s"
  shows "\<exists>t r'. rotate_session ulid now session_id ttl r = (Inr t, r') \<and> live_session t \<and> sn_user_id t = sn_user_id s
    \<and> sn_expires_at t = now + (if ttl \<le> 0 then default_session_ttl else ttl)"
  using assms by (simp add: rotate_session_def Let_def new_session_def live_session_def is_zero_time_def zero_time_def)

section \<open>Guessing passwords\<close>

text \<open>Login attempts on one account: times and passwords.\<close>

fun run_logins :: "argon2 \<Rightarrow> string \<Rightarrow> (gotime \<times> string) list \<Rightarrow> identity_repo \<Rightarrow> user result list \<times> identity_repo" where
  "run_logins A username [] r = ([], r)"
| "run_logins A username ((now, password) # attempts) r =
     (let (res, r) = authenticate_password_primary A now username password r; (ress, r) = run_logins A username attempts r
      in (res # ress, r))"

definition guessed :: "user result list \<Rightarrow> nat" where
  "guessed ress = length (filter (\<lambda>res. res = Inl (Unauthorized ''invalid credentials'')) ress)"

lemma guessed_simps [simp]: "guessed [] = 0"
    "guessed (res # ress) = (if res = Inl (Unauthorized ''invalid credentials'') then Suc (guessed ress) else guessed ress)"
  by (simp_all add: guessed_def)

lemma guesses_limited:
  assumes "find_user_by_username username r = Some u" "u_status u = ''active''" "find_credential (u_id u) r = Some c"
    and "0 \<le> cr_failed_attempt_count c" "0 \<le> t"
    and "list_all (\<lambda>(now, password). t \<le> now \<and> now < t + password_lockout_window \<and> verify_password A (cr_password_hash c) password = Inr False) attempts"
  shows "guessed (fst (run_logins A username attempts r))
    \<le> (if t + password_lockout_window \<le> cr_locked_until c then 0 else nat (max 1 (5 - cr_failed_attempt_count c)))"
  using assms
proof (induction attempts arbitrary: r c)
  case (Cons a attempts)
  obtain now password where a: "a = (now, password)" by (cases a)
  have times: "t \<le> now" "now < t + password_lockout_window" "verify_password A (cr_password_hash c) password = Inr False"
    and rest: "list_all (\<lambda>(now, password). t \<le> now \<and> now < t + password_lockout_window
      \<and> verify_password A (cr_password_hash c) password = Inr False) attempts"
    using Cons.prems(6) a by auto
  have W: "0 < password_lockout_window" by (simp add: password_lockout_window_def)
  show ?case
  proof (cases "\<not> is_zero_time (cr_locked_until c) \<and> now < cr_locked_until c")
    case True
    then have "authenticate_password_primary A now username password r = (Inl (Forbidden ''account temporarily locked''), r)"
      using Cons.prems by (simp add: authenticate_password_primary_def)
    then show ?thesis using Cons.IH [OF Cons.prems(1-5) rest] a
      by (simp add: case_prod_unfold Let_def Forbidden_def Unauthorized_def)
  next
    case False
    let ?c = "failed_attempt now c" and ?r = "save_credential (failed_attempt now c) r"
    have uid: "cr_user_id c = u_id u" using Cons.prems(3) by (auto simp: find_credential_def dest: find_by_SomeD)
    have res: "authenticate_password_primary A now username password r = (Inl (Unauthorized ''invalid credentials''), ?r)"
      using False Cons.prems times by (auto simp: authenticate_password_primary_def)
    have keep: "cr_user_id ?c = u_id u" "cr_password_hash ?c = cr_password_hash c"
      using uid by (simp_all add: failed_attempt_def Let_def)
    have "guessed (fst (run_logins A username attempts ?r))
        \<le> (if t + password_lockout_window \<le> cr_locked_until ?c then 0 else nat (max 1 (5 - cr_failed_attempt_count ?c)))"
    proof (rule Cons.IH)
      show "find_user_by_username username ?r = Some u" using Cons.prems(1) by (simp add: find_user_by_username_def save_credential_def)
      show "find_credential (u_id u) ?r = Some ?c" using keep(1) by (simp add: find_credential_def save_credential_def)
      show "0 \<le> cr_failed_attempt_count ?c" using Cons.prems(4) by (simp add: failed_attempt_def Let_def)
    qed (use Cons.prems rest keep in simp_all)
    moreover have "\<not> t + password_lockout_window \<le> cr_locked_until c"
      using False times(2) Cons.prems(5) W by (auto simp: is_zero_time_def)
    moreover have "cr_failed_attempt_count c < 4 \<Longrightarrow> cr_failed_attempt_count ?c = cr_failed_attempt_count c + 1"
      "4 \<le> cr_failed_attempt_count c \<Longrightarrow> t + password_lockout_window \<le> cr_locked_until ?c"
      "cr_failed_attempt_count c < 4 \<Longrightarrow> cr_locked_until ?c = cr_locked_until c"
      using times by (auto simp: failed_attempt_def Let_def max_failed_password_attempt_def)
    ultimately show ?thesis using a res Cons.prems(4)
      by (cases "cr_failed_attempt_count c < 4") (auto simp: case_prod_unfold Let_def)
  qed
qed simp


definition demo_logins :: identity_repo where
  "demo_logins = save_credential ((zero_credential ''user:a'')\<lparr>cr_password_hash := ''$argon2id$v=19$m=1,t=1,p=1$AAAA$AAAA''\<rparr>) demo_identity"


text \<open>A wrong code of the second factor is not counted: it leaves no trace, so the challenge can be tried again at once.\<close>

lemma wrong_code_changes_nothing:
  "fst (complete_auth_challenge ulid t0 now t2 t3 challenge_id code ttl r) = Inl (Unauthorized ''invalid authentication code'')
   \<Longrightarrow> snd (complete_auth_challenge ulid t0 now t2 t3 challenge_id code ttl r) = r"
  by (auto simp: complete_auth_challenge_def Let_def start_session_for_user_def err_defs split: option.splits if_splits)

text \<open>Starting an enrolment again replaces a verified secret and turns the second factor off.\<close>

lemma enrolling_again_turns_totp_off:
  assumes "find_user (trim_space user_id) r = Some u"
  shows "\<exists>e. find_totp_enrollment (trim_space user_id) (snd (begin_totp_enrollment random now user_id issuer r)) = Some e
    \<and> \<not> te_login_enabled e \<and> \<not> te_approval_enabled e \<and> te_verified_at e = 0 \<and> te_secret e = generate_totp_secret random"
  using assms find_user_id [OF assms]
  by (simp add: begin_totp_enrollment_def Let_def find_totp_enrollment_def save_totp_enrollment_def zero_time_def)

end
