(* ===== verification/GrantFacts.thy ===== *)
theory GrantFacts
  imports IdentityFacts
begin

text \<open>
  The lifecycles of delegation grants and deep links: a grant moves from pending to accepted or
  rejected and from pending or accepted to revoked, its terms never change, and a delegate never has
  more than the grantor has now; a deep link is used at most once.
\<close>

section \<open>Delegation\<close>

text \<open>What the parties agreed on, and the abstract lifecycle.\<close>

definition grant_terms :: "delegation_grant \<Rightarrow> string \<times> string \<times> string \<times> string \<times> string list \<times> string list \<times> gotime \<times> gotime" where
  "grant_terms g = (gt_grantor_user_id g, gt_delegate_kind g, gt_delegate_id g, gt_location_id g,
     gt_allowed_permission_keys g, gt_allowed_document_types g, gt_starts_at g, gt_expires_at g)"

definition grant_life :: "(string \<times> string) set" where
  "grant_life = {(''pending'', ''accepted''), (''pending'', ''rejected''), (''pending'', ''revoked''), (''accepted'', ''revoked'')}"

inductive grant_step :: "identity_repo \<Rightarrow> identity_repo \<Rightarrow> bool" where
  create: "find_delegation_grant (new_id ''dlg'' ulid) r = None
    \<Longrightarrow> grant_step r (snd (create_grant ulid now later org grantor kind delegate location_id keys types starts_at expires_at reason r))"
| accept_user: "grant_step r (snd (accept_delegation_grant now later grant_id user_id r))"
| accept_agent: "grant_step r (snd (accept_agent_delegation_grant now later grant_id user_id r))"
| reject_user: "grant_step r (snd (reject_delegation_grant now later grant_id user_id r))"
| reject_agent: "grant_step r (snd (reject_agent_delegation_grant now later grant_id user_id r))"
| revoke: "grant_step r (snd (revoke_delegation_grant now later grant_id user_id r))"
| other: "iy_delegation_grants r' = iy_delegation_grants r \<Longrightarrow> grant_step r r'"

definition grant_ok :: "delegation_grant \<Rightarrow> bool" where
  "grant_ok g \<longleftrightarrow> gt_delegate_kind g \<in> {''user'', ''agent''} \<and> gt_delegate_id g \<noteq> [] \<and> trim_space (gt_delegate_id g) = gt_delegate_id g
   \<and> gt_grantor_user_id g \<noteq> [] \<and> gt_location_id g \<noteq> [] \<and> gt_allowed_permission_keys g \<noteq> []
   \<and> gt_starts_at g < gt_expires_at g \<and> gt_expires_at g \<noteq> 0
   \<and> gt_status g \<in> {''pending'', ''accepted'', ''rejected'', ''revoked''}
   \<and> (gt_status g = ''accepted'' \<longrightarrow> gt_accepted_by_kind g = gt_delegate_kind g \<and> gt_accepted_by_id g = gt_delegate_id g)"

definition grants_ok :: "identity_repo \<Rightarrow> bool" where
  "grants_ok r \<longleftrightarrow> (\<forall>k g. find_delegation_grant k r = Some g \<longrightarrow> grant_ok g)"

lemma find_store_grant: "find_delegation_grant k (store_delegation_grant g r) = (if k = gt_id g then Some g else find_delegation_grant k r)"
  by (simp add: find_delegation_grant_def store_delegation_grant_def)

lemma find_grant_id: "find_delegation_grant k r = Some g \<Longrightarrow> gt_id g = k"
  by (auto simp: find_delegation_grant_def dest: find_by_SomeD)

lemma lower_kinds: "to_lower (trim_space ''user'') = ''user''" "to_lower (trim_space ''agent'') = ''agent''"
    "trim_space ''user'' = ''user''" "trim_space ''agent'' = ''agent''"
  by code_simp+

text \<open>Normalising a grant of the store changes nothing but its status, and that only to expired.\<close>

lemma normalize_ok:
  assumes "grant_ok g"
  shows "grant_terms (normalize_delegation_grant_at g now) = grant_terms g" "gt_id (normalize_delegation_grant_at g now) = gt_id g"
    "gt_status (normalize_delegation_grant_at g now) \<in> {gt_status g, ''expired''}"
    "gt_delegate_kind (normalize_delegation_grant_at g now) = gt_delegate_kind g"
    "gt_delegate_id (normalize_delegation_grant_at g now) = gt_delegate_id g"
    "gt_grantor_user_id (normalize_delegation_grant_at g now) = gt_grantor_user_id g"
proof -
  have k: "to_lower (trim_space (gt_delegate_kind g)) = gt_delegate_kind g" "gt_delegate_kind g \<noteq> []"
    using assms lower_kinds by (auto simp: grant_ok_def)
  have d: "trim_space (gt_delegate_id g) = gt_delegate_id g" "gt_delegate_id g \<noteq> []" using assms by (auto simp: grant_ok_def)
  show "grant_terms (normalize_delegation_grant_at g now) = grant_terms g" "gt_id (normalize_delegation_grant_at g now) = gt_id g"
    "gt_status (normalize_delegation_grant_at g now) \<in> {gt_status g, ''expired''}"
    "gt_delegate_kind (normalize_delegation_grant_at g now) = gt_delegate_kind g"
    "gt_delegate_id (normalize_delegation_grant_at g now) = gt_delegate_id g"
    "gt_grantor_user_id (normalize_delegation_grant_at g now) = gt_grantor_user_id g"
    using k d by (auto simp: normalize_delegation_grant_at_def Let_def grant_terms_def)
qed

text \<open>What an operation does to the store: nothing, or it stores a grant that is new or the next stage of one that is there.\<close>

definition next_stage :: "delegation_grant \<Rightarrow> delegation_grant \<Rightarrow> bool" where
  "next_stage g h \<longleftrightarrow> gt_id h = gt_id g \<and> grant_terms h = grant_terms g \<and> (gt_status g, gt_status h) \<in> grant_life"

definition moves_on :: "identity_repo \<Rightarrow> identity_repo \<Rightarrow> bool" where
  "moves_on r r' \<longleftrightarrow> r' = r
   \<or> (\<exists>g h. find_delegation_grant (gt_id g) r = Some g \<and> next_stage g h \<and> grant_ok h \<and> r' = store_delegation_grant h r)"

lemma moves_onI:
  "find_delegation_grant (gt_id g) r = Some g \<Longrightarrow> next_stage g h \<Longrightarrow> grant_ok h \<Longrightarrow> moves_on r (store_delegation_grant h r)"
  unfolding moves_on_def by blast

lemma moves_on_refl: "moves_on r r"
  by (simp add: moves_on_def)

lemma grants_okD: "grants_ok r \<Longrightarrow> find_delegation_grant k r = Some g \<Longrightarrow> grant_ok g"
  by (simp add: grants_ok_def)

lemma same_terms_ok:
  "grant_ok g \<Longrightarrow> grant_terms h = grant_terms g \<Longrightarrow> gt_status h \<in> {''accepted'', ''rejected'', ''revoked''}
   \<Longrightarrow> (gt_status h = ''accepted'' \<Longrightarrow> gt_accepted_by_kind h = gt_delegate_kind h \<and> gt_accepted_by_id h = gt_delegate_id h) \<Longrightarrow> grant_ok h"
  by (auto simp: grant_ok_def grant_terms_def)

lemma accept_moves_on:
  assumes "grants_ok r" "kind \<in> {''user'', ''agent''}"
  shows "moves_on r (snd (accept_grant now later grant_id kind delegate r))"
proof (cases "find_delegation_grant (trim_space grant_id) r")
  case None
  then show ?thesis by (simp add: accept_grant_def require_delegation_grant_def moves_on_def)
next
  case (Some g)
  let ?n = "normalize_delegation_grant_at g now"
  let ?h = "?n\<lparr>gt_status := ''accepted'', gt_accepted_at := later, gt_accepted_by_kind := kind, gt_accepted_by_id := trim_space delegate,
     gt_accepted_by_user_id := (if kind = ''user'' then trim_space delegate else []), gt_updated_at := later\<rparr>"
  note ok = grants_okD [OF assms(1) Some] and n = normalize_ok [OF grants_okD [OF assms(1) Some], of now]
  have kind: "trim_space kind = kind" using assms(2) lower_kinds by auto
  have refused: "moves_on r (snd (accept_grant now later grant_id kind delegate r))"
    if "gt_delegate_kind ?n \<noteq> kind \<or> gt_delegate_id ?n \<noteq> trim_space delegate \<or> gt_status ?n \<noteq> ''pending''"
    using that Some kind by (auto simp: accept_grant_def require_delegation_grant_def moves_on_def Let_def)
  have "moves_on r (snd (accept_grant now later grant_id kind delegate r))"
    if "gt_delegate_kind ?n = kind" "gt_delegate_id ?n = trim_space delegate" "gt_status ?n = ''pending''"
  proof -
    have terms: "grant_terms ?h = grant_terms g" using n(1) by (simp add: grant_terms_def)
    have stage: "next_stage g ?h" using terms n(2,3) that(3) by (simp add: next_stage_def grant_life_def)
    have "grant_ok ?h" by (rule same_terms_ok [OF ok terms]) (use that in simp_all)
    moreover have "snd (accept_grant now later grant_id kind delegate r) = store_delegation_grant ?h r"
      using that Some kind by (simp add: accept_grant_def require_delegation_grant_def Let_def)
    ultimately show ?thesis using moves_onI [OF _ stage] Some find_grant_id [OF Some] by simp
  qed
  with refused show ?thesis by blast
qed

lemma reject_moves_on:
  assumes "grants_ok r" "kind \<in> {''user'', ''agent''}"
  shows "moves_on r (snd (reject_grant now later grant_id kind delegate r))"
proof (cases "find_delegation_grant (trim_space grant_id) r")
  case None
  then show ?thesis by (simp add: reject_grant_def require_delegation_grant_def moves_on_def)
next
  case (Some g)
  let ?n = "normalize_delegation_grant_at g now"
  let ?h = "?n\<lparr>gt_status := ''rejected'', gt_updated_at := later\<rparr>"
  note ok = grants_okD [OF assms(1) Some] and n = normalize_ok [OF grants_okD [OF assms(1) Some], of now]
  have kind: "trim_space kind = kind" using assms(2) lower_kinds by auto
  have terms: "grant_terms ?h = grant_terms g" using n(1) by (simp add: grant_terms_def)
  have "moves_on r (store_delegation_grant ?h r)" if "gt_status ?n = ''pending''"
  proof -
    have "next_stage g ?h" using terms n(2,3) that by (simp add: next_stage_def grant_life_def)
    moreover have "grant_ok ?h" by (rule same_terms_ok [OF ok terms]) simp_all
    ultimately show ?thesis using moves_onI [of g r ?h] Some find_grant_id [OF Some] by simp
  qed
  moreover have "snd (reject_grant now later grant_id kind delegate r) = r \<or>
      gt_status ?n = ''pending'' \<and> snd (reject_grant now later grant_id kind delegate r) = store_delegation_grant ?h r"
    using Some kind by (simp add: reject_grant_def require_delegation_grant_def Let_def)
  ultimately show ?thesis using moves_on_refl [of r] by auto
qed

lemma revoke_moves_on:
  assumes "grants_ok r"
  shows "moves_on r (snd (revoke_delegation_grant now later grant_id grantor r))"
proof (cases "find_delegation_grant (trim_space grant_id) r")
  case None
  then show ?thesis by (simp add: revoke_delegation_grant_def require_delegation_grant_def moves_on_def)
next
  case (Some g)
  let ?n = "normalize_delegation_grant_at g now"
  let ?h = "?n\<lparr>gt_status := ''revoked'', gt_revoked_at := later, gt_revoked_by_user_id := trim_space grantor, gt_updated_at := later\<rparr>"
  note ok = grants_okD [OF assms(1) Some] and n = normalize_ok [OF grants_okD [OF assms(1) Some], of now]
  have terms: "grant_terms ?h = grant_terms g" using n(1) by (simp add: grant_terms_def)
  have "moves_on r (store_delegation_grant ?h r)" if "gt_status ?n \<in> {''pending'', ''accepted''}"
  proof -
    have "next_stage g ?h" using terms n(2,3) that by (auto simp: next_stage_def grant_life_def)
    moreover have "grant_ok ?h" by (rule same_terms_ok [OF ok terms]) simp_all
    ultimately show ?thesis using moves_onI [of g r ?h] Some find_grant_id [OF Some] by simp
  qed
  moreover have "snd (revoke_delegation_grant now later grant_id grantor r) = r \<or> gt_status ?n \<in> {''pending'', ''accepted''}
      \<and> snd (revoke_delegation_grant now later grant_id grantor r) = store_delegation_grant ?h r"
    using Some by (simp add: revoke_delegation_grant_def require_delegation_grant_def Let_def)
  ultimately show ?thesis using moves_on_refl [of r] by auto
qed

lemma create_grant_effect:
  assumes "create_grant ulid now later org grantor kind delegate location_id keys types starts_at expires_at reason r = (res, r')"
  shows "case res of Inl e \<Rightarrow> r' = r
    | Inr g \<Rightarrow> r' = store_delegation_grant g r \<and> gt_id g = new_id ''dlg'' ulid \<and> gt_status g = ''pending'' \<and> grant_ok g
        \<and> gt_grantor_user_id g = trim_space grantor \<and> gt_location_id g = trim_space location_id
        \<and> (\<forall>key \<in> set (gt_allowed_permission_keys g). permission_exists key r \<and> ax_allowed (decide now org (gt_grantor_user_id g) key (gt_location_id g) r))"
proof (cases res)
  case (Inl e)
  then show ?thesis using assms by (auto simp: create_grant_def Let_def split: if_splits option.splits)
next
  case (Inr g)
  let ?keys = "normalize_string_list keys"
  let ?kind = "if to_lower (trim_space kind) = [] then ''user'' else to_lower (trim_space kind)"
  have checks: "trim_space grantor \<noteq> []" "trim_space delegate \<noteq> []" "trim_space location_id \<noteq> []" "?kind \<in> {''user'', ''agent''}"
      "?keys \<noteq> []" "first_error (check_delegated_permission now org (trim_space grantor) (trim_space location_id) r) ?keys = None"
      "expires_at \<noteq> 0" "or_now later starts_at < expires_at"
    using assms Inr by (auto simp: create_grant_def Let_def is_zero_time_def split: if_splits option.splits)
  moreover have g: "r' = store_delegation_grant g r" "gt_id g = new_id ''dlg'' ulid" "gt_status g = ''pending''"
      "gt_grantor_user_id g = trim_space grantor" "gt_location_id g = trim_space location_id" "gt_allowed_permission_keys g = ?keys"
      "gt_delegate_kind g = ?kind" "gt_delegate_id g = trim_space delegate" "gt_starts_at g = or_now later starts_at" "gt_expires_at g = expires_at"
    using assms Inr by (auto simp: create_grant_def Let_def split: if_splits option.splits)
  moreover have "grant_ok g" unfolding grant_ok_def g using checks by auto
  moreover have "\<forall>key \<in> set ?keys. check_delegated_permission now org (trim_space grantor) (trim_space location_id) r key = None"
    using checks(6) by (simp add: first_error_None)
  ultimately show ?thesis using Inr by (auto simp: check_delegated_permission_def split: if_splits)
qed

lemma moves_on_lookup:
  assumes "moves_on r r'" "find_delegation_grant k r = Some g"
  shows "\<exists>h. find_delegation_grant k r' = Some h \<and> grant_terms h = grant_terms g \<and> (gt_status g, gt_status h) \<in> grant_life\<^sup>="
  using assms by (auto simp: moves_on_def find_store_grant next_stage_def)

lemma moves_on_ok: "moves_on r r' \<Longrightarrow> grants_ok r \<Longrightarrow> grants_ok r'"
  by (auto simp: moves_on_def grants_ok_def find_store_grant split: if_splits)

text \<open>Every step either moves one grant on, or adds one, or leaves the grants alone.\<close>

lemma grant_step_cases:
  assumes "grant_step r r'" "grants_ok r"
  obtains (moved) "moves_on r r'"
    | (added) g where "find_delegation_grant (gt_id g) r = None" "grant_ok g" "gt_status g = ''pending''" "r' = store_delegation_grant g r"
    | (same) "iy_delegation_grants r' = iy_delegation_grants r"
  using assms(1)
proof (cases rule: grant_step.cases)
  case (create ulid now later org grantor kind delegate location_id keys types starts_at expires_at reason)
  obtain res r1 where res: "create_grant ulid now later org grantor kind delegate location_id keys types starts_at expires_at reason r = (res, r1)"
    by (cases "create_grant ulid now later org grantor kind delegate location_id keys types starts_at expires_at reason r")
  with create_grant_effect [OF this] create show thesis
  proof (cases res)
    case (Inr g)
    with create_grant_effect [OF res] create res show thesis by (intro added [of g]) auto
  qed (auto intro: same)
next
  case (accept_user now later grant_id user_id)
  then show thesis using moved accept_moves_on [OF assms(2)] by (simp add: accept_delegation_grant_def)
next
  case (accept_agent now later grant_id user_id)
  then show thesis using moved accept_moves_on [OF assms(2)] by (simp add: accept_agent_delegation_grant_def)
next
  case (reject_user now later grant_id user_id)
  then show thesis using moved reject_moves_on [OF assms(2)] by (simp add: reject_delegation_grant_def)
next
  case (reject_agent now later grant_id user_id)
  then show thesis using moved reject_moves_on [OF assms(2)] by (simp add: reject_agent_delegation_grant_def)
next
  case (revoke now later grant_id user_id)
  then show thesis using moved revoke_moves_on [OF assms(2)] by simp
next
  case other
  then show thesis by (rule same)
qed

lemma grant_step_ok: "grant_step r r' \<Longrightarrow> grants_ok r \<Longrightarrow> grants_ok r'"
proof (erule grant_step_cases)
  show "grants_ok r" if "grants_ok r" for r using that .
  show "grants_ok r'" if "grants_ok r" "moves_on r r'" using moves_on_ok [OF that(2,1)] .
  show "grants_ok r'" if "grants_ok r" "grant_ok g" "r' = store_delegation_grant g r" for g
    using that by (auto simp: grants_ok_def find_store_grant split: if_splits)
  show "grants_ok r'" if "grants_ok r" "iy_delegation_grants r' = iy_delegation_grants r"
    using that by (simp add: grants_ok_def find_delegation_grant_def)
qed

lemma grant_step_lookup:
  assumes "grant_step r r'" "grants_ok r" "find_delegation_grant k r = Some g"
  shows "\<exists>h. find_delegation_grant k r' = Some h \<and> grant_terms h = grant_terms g \<and> (gt_status g, gt_status h) \<in> grant_life\<^sup>="
  using assms(1,2)
proof (cases rule: grant_step_cases)
  case moved
  then show ?thesis using moves_on_lookup assms(3) by blast
next
  case (added h)
  then show ?thesis using assms(3) by (auto simp: find_store_grant)
next
  case same
  then show ?thesis using assms(3) by (auto simp: find_delegation_grant_def)
qed

lemma grants_ok_reachable: "grant_step\<^sup>*\<^sup>* r r' \<Longrightarrow> grants_ok r \<Longrightarrow> grants_ok r'"
  by (induction rule: rtranclp_induct) (auto dest: grant_step_ok)


definition demo_grantable :: identity_repo where
  "demo_grantable = demo_identity\<lparr>iy_permissions := [\<lparr>pe_key = ''orders.read'', pe_module = [], pe_action = ''read'', pe_resource = ''orders'', pe_description = []\<rparr>]\<rparr>"

definition demo_granted :: identity_repo where
  "demo_granted = snd (create_grant ''1'' 20 20 (new_organization 1) ''user:a'' [] ''user:b'' ''loc_hq'' [''orders.read''] [] 0 90 [] demo_grantable)"


text \<open>
  C9: a delegate never has more than the grant and the grantor. A session acting under a grant is
  allowed only if the grant is accepted, names the user of the session and the grantor acted for,
  lists the permission, has started and not expired, and the grantor would be allowed the same now;
  an agent likewise, and only at the location of the grant.
\<close>

theorem delegates_never_exceed_the_grantor:
  assumes "grant_ok g"
  shows "(ax_allowed (decide_acting_session clk org session_id effective key location_id (Some g) r) \<longrightarrow>
      (\<exists>s. find_session session_id r = Some s \<and> current_session (clk 0) s \<and> gt_delegate_kind g = ''user'' \<and> gt_delegate_id g = sn_user_id s
        \<and> gt_status g = ''accepted'' \<and> trim_space key \<in> set (gt_allowed_permission_keys g)
        \<and> (gt_starts_at g = 0 \<or> gt_starts_at g \<le> clk 2) \<and> clk 3 < gt_expires_at g
        \<and> ax_allowed (decide (clk 4) org (gt_grantor_user_id g) key (if location_id = [] then sn_current_location_id s else location_id) r)))
    \<and> (ax_allowed (decide_acting_service_principal clk org principal_id effective key location_id (Some g) r) \<longrightarrow>
      (\<exists>p. find_service_principal principal_id r = Some p \<and> sp_status p = ''active'' \<and> gt_delegate_kind g = ''agent'' \<and> gt_delegate_id g = principal_id
        \<and> gt_status g = ''accepted'' \<and> trim_space key \<in> set (gt_allowed_permission_keys g)
        \<and> (gt_starts_at g = 0 \<or> gt_starts_at g \<le> clk 1) \<and> clk 2 < gt_expires_at g
        \<and> (location_id = [] \<or> location_id = gt_location_id g)
        \<and> ax_allowed (decide (clk 3) org (gt_grantor_user_id g) key (gt_location_id g) r)))"
proof (intro conjI impI)
  have same: "gt_allowed_permission_keys (normalize_delegation_grant_at g t) = gt_allowed_permission_keys g"
    "gt_starts_at (normalize_delegation_grant_at g t) = gt_starts_at g" "gt_expires_at (normalize_delegation_grant_at g t) = gt_expires_at g"
    "gt_location_id (normalize_delegation_grant_at g t) = gt_location_id g" for t
    using normalize_ok(1) [OF assms, of t] by (simp_all add: grant_terms_def)
  have trims: "trim_space ''expired'' = ''expired''" "trim_space ''pending'' = ''pending''" "trim_space ''accepted'' = ''accepted''"
    "trim_space ''rejected'' = ''rejected''" "trim_space ''revoked'' = ''revoked''" by code_simp+
  have status: "gt_status g = ''accepted''" if "trim_space (gt_status (normalize_delegation_grant_at g t)) = ''accepted''" for t
    using that normalize_ok(3) [OF assms, of t] assms trims by (auto simp: grant_ok_def)
  have fin: "gt_expires_at g \<noteq> 0" "gt_location_id g \<noteq> []" using assms by (auto simp: grant_ok_def)
  note n = same normalize_ok(4-6) [OF assms]
  show "\<exists>s. find_session session_id r = Some s \<and> current_session (clk 0) s \<and> gt_delegate_kind g = ''user'' \<and> gt_delegate_id g = sn_user_id s
        \<and> gt_status g = ''accepted'' \<and> trim_space key \<in> set (gt_allowed_permission_keys g)
        \<and> (gt_starts_at g = 0 \<or> gt_starts_at g \<le> clk 2) \<and> clk 3 < gt_expires_at g
        \<and> ax_allowed (decide (clk 4) org (gt_grantor_user_id g) key (if location_id = [] then sn_current_location_id s else location_id) r)"
    if "ax_allowed (decide_acting_session clk org session_id effective key location_id (Some g) r)"
  proof -
    from that obtain s where s: "find_session session_id r = Some s" "current_session (clk 0) s"
        and d: "ax_allowed (decide (clk 4) org (if trim_space effective = [] then sn_user_id s else trim_space effective) key
          (if location_id = [] then sn_current_location_id s else location_id) r)"
        and st: "trim_space (gt_status (normalize_delegation_grant_at g (clk 1))) = ''accepted''"
        and g: "gt_delegate_kind g = ''user''" "gt_delegate_id g = sn_user_id s"
          "gt_grantor_user_id g = (if trim_space effective = [] then sn_user_id s else trim_space effective)"
          "gt_starts_at g = 0 \<or> gt_starts_at g \<le> clk 2" "gt_expires_at g = 0 \<or> clk 3 < gt_expires_at g"
          "trim_space key \<in> set (gt_allowed_permission_keys g)"
      unfolding decide_acting_session_allowed Let_def option.case n by (elim conjE exE)
    from d have "ax_allowed (decide (clk 4) org (gt_grantor_user_id g) key (if location_id = [] then sn_current_location_id s else location_id) r)"
      unfolding g(3) .
    moreover have "clk 3 < gt_expires_at g" using g(5) fin(1) by simp
    ultimately show ?thesis by (intro exI [of _ s] conjI s g(1,2,4,6) status [OF st])
  qed
  show "\<exists>p. find_service_principal principal_id r = Some p \<and> sp_status p = ''active'' \<and> gt_delegate_kind g = ''agent'' \<and> gt_delegate_id g = principal_id
        \<and> gt_status g = ''accepted'' \<and> trim_space key \<in> set (gt_allowed_permission_keys g)
        \<and> (gt_starts_at g = 0 \<or> gt_starts_at g \<le> clk 1) \<and> clk 2 < gt_expires_at g
        \<and> (location_id = [] \<or> location_id = gt_location_id g)
        \<and> ax_allowed (decide (clk 3) org (gt_grantor_user_id g) key (gt_location_id g) r)"
    if "ax_allowed (decide_acting_service_principal clk org principal_id effective key location_id (Some g) r)"
  proof (cases "find_service_principal principal_id r")
    case None
    with that show ?thesis by (simp add: decide_acting_service_principal_def split: if_splits)
  next
    case (Some p)
    with that status [of "clk 0"] fin show ?thesis
      unfolding decide_acting_service_principal_def Let_def option.case n is_zero_time_def contains_string_def
      by (simp split: if_splits) (auto simp: not_less)
  qed
qed

definition demo_accepted :: identity_repo where
  "demo_accepted = snd (accept_delegation_grant 30 30 ''dlg:1'' ''user:b'' demo_granted)"

theorem delegates_never_exceed_the_grantor_witness:
  "case find_delegation_grant ''dlg:1'' demo_accepted of
     None \<Rightarrow> False
   | Some g \<Rightarrow> ax_allowed (decide_acting_session (\<lambda>_. 50) (new_organization 1) ''sess:2'' ''user:a'' ''orders.read'' ''loc_hq'' (Some g) demo_accepted)
       \<and> ax_allowed (decide 50 (new_organization 1) (gt_grantor_user_id g) ''orders.read'' ''loc_hq'' demo_accepted)"
proof -
  have "find_delegation_grant ''dlg:1'' demo_accepted \<noteq> None" by code_simp
  then obtain g where g: "find_delegation_grant ''dlg:1'' demo_accepted = Some g" by auto
  have "case find_delegation_grant ''dlg:1'' demo_accepted of None \<Rightarrow> False | Some g \<Rightarrow> grant_ok g
      \<and> ax_allowed (decide_acting_session (\<lambda>_. 50) (new_organization 1) ''sess:2'' ''user:a'' ''orders.read'' ''loc_hq'' (Some g) demo_accepted)"
    by code_simp
  then have ok: "grant_ok g"
    and allowed: "ax_allowed (decide_acting_session (\<lambda>_. 50) (new_organization 1) ''sess:2'' ''user:a'' ''orders.read'' ''loc_hq'' (Some g) demo_accepted)"
    by (simp_all add: g)
  from delegates_never_exceed_the_grantor [OF ok, THEN conjunct1, rule_format, OF allowed] allowed show ?thesis
    by (auto simp: g)
qed

section \<open>Deep links\<close>

text \<open>A link that is used up or withdrawn.\<close>

definition spent_link :: "deep_link_grant \<Rightarrow> bool" where
  "spent_link g \<longleftrightarrow> dk_status (normalize_deep_link_grant_at g 0) \<in> {''consumed'', ''revoked''}"

lemma spent_link_any: "spent_link g \<Longrightarrow> dk_status (normalize_deep_link_grant_at g now) \<in> {''consumed'', ''revoked''}"
  by (auto simp: spent_link_def normalize_deep_link_grant_at_def Let_def split: if_splits)

inductive link_step :: "identity_repo \<Rightarrow> identity_repo \<Rightarrow> bool" where
  save: "find_deep_link_grant (dk_id (prepare_deep_link_grant ulid now g)) r = None
    \<Longrightarrow> link_step r (snd (save_deep_link_grant ulid now later g r))"
| activate: "link_step r (snd (activate_deep_link_grant later grant_id user_id target_type target_id now r))"
| consume: "link_step r (snd (consume_deep_link_grant later grant_id user_id action now r))"
| revoke: "link_step r (snd (revoke_deep_link_grant later grant_id now r))"
| other: "iy_deep_link_grants r' = iy_deep_link_grants r \<Longrightarrow> link_step r r'"

lemma find_store_link: "find_deep_link_grant k (store_deep_link_grant g r) = (if k = dk_id g then Some g else find_deep_link_grant k r)"
  by (simp add: find_deep_link_grant_def store_deep_link_grant_def)

lemma find_link_id: "find_deep_link_grant k r = Some g \<Longrightarrow> dk_id g = k"
  by (auto simp: find_deep_link_grant_def dest: find_by_SomeD)

lemma normalize_link_same [simp]:
  "dk_id (normalize_deep_link_grant_at g t) = dk_id g" "dk_user_id (normalize_deep_link_grant_at g t) = dk_user_id g"
  "dk_consumed_at (normalize_deep_link_grant_at g t) = dk_consumed_at g" "dk_revoked_at (normalize_deep_link_grant_at g t) = dk_revoked_at g"
  "dk_expires_at (normalize_deep_link_grant_at g t) = dk_expires_at g" "dk_allowed_actions (normalize_deep_link_grant_at g t) = dk_allowed_actions g"
  by (simp_all add: normalize_deep_link_grant_at_def Let_def)

lemma spent_link_refused:
  assumes "find_deep_link_grant (trim_space grant_id) r = Some g" "spent_link g"
  shows "\<exists>e. activate_deep_link_grant later grant_id user_id target_type target_id now r = (Inl e, r)"
    "\<exists>e. consume_deep_link_grant later grant_id user_id action now r = (Inl e, r)"
    "snd (revoke_deep_link_grant later grant_id now r) = r"
  using assms(1) spent_link_any [OF assms(2), of now]
  by (auto simp: activate_deep_link_grant_def consume_deep_link_grant_def revoke_deep_link_grant_def Let_def)

lemma save_link_effect:
  obtains (refused) "snd (save_deep_link_grant ulid now later g r) = r"
    | (saved) h where "dk_id h = dk_id (prepare_deep_link_grant ulid now g)"
        "snd (save_deep_link_grant ulid now later g r) = store_deep_link_grant h r"
proof -
  let ?g = "prepare_deep_link_grant ulid now g"
  let ?h = "?g\<lparr>dk_created_at := or_now now (case find_deep_link_grant (dk_id ?g) r of None \<Rightarrow> dk_created_at ?g | Some old \<Rightarrow> dk_created_at old),
    dk_updated_at := now\<rparr>"
  have "snd (save_deep_link_grant ulid now later g r) = r \<or> snd (save_deep_link_grant ulid now later g r) = store_deep_link_grant ?h r"
    by (simp add: save_deep_link_grant_def Let_def)
  then show thesis using refused saved [of ?h] by auto
qed

text \<open>The other operations keep every link but their own.\<close>

lemma link_ops_frame:
  assumes "k \<noteq> trim_space grant_id"
  shows "find_deep_link_grant k (snd (activate_deep_link_grant later grant_id user_id target_type target_id now r)) = find_deep_link_grant k r"
    "find_deep_link_grant k (snd (consume_deep_link_grant later grant_id user_id action now r)) = find_deep_link_grant k r"
    "find_deep_link_grant k (snd (revoke_deep_link_grant later grant_id now r)) = find_deep_link_grant k r"
  using assms
  by (auto simp: activate_deep_link_grant_def consume_deep_link_grant_def revoke_deep_link_grant_def Let_def find_store_link
      split: option.split dest: find_link_id)

lemma link_step_keeps_spent:
  assumes "link_step r r'" "find_deep_link_grant k r = Some g" "spent_link g"
  shows "\<exists>h. find_deep_link_grant k r' = Some h \<and> spent_link h"
  using assms(1)
proof (cases rule: link_step.cases)
  case (save ulid now h later)
  show ?thesis
  proof (cases rule: save_link_effect [of ulid now later h r])
    case (saved x)
    with save assms(2,3) show ?thesis by (auto simp: find_store_link)
  qed (use save assms(2,3) in auto)
next
  case (activate later grant_id user_id target_type target_id now)
  then show ?thesis
    using assms(2,3) spent_link_refused(1) [of grant_id r g later user_id target_type target_id now] link_ops_frame(1) [of k grant_id]
    by (cases "k = trim_space grant_id") auto
next
  case (consume later grant_id user_id action now)
  then show ?thesis
    using assms(2,3) spent_link_refused(2) [of grant_id r g later user_id action now] link_ops_frame(2) [of k grant_id]
    by (cases "k = trim_space grant_id") auto
next
  case (revoke later grant_id now)
  then show ?thesis
    using assms(2,3) spent_link_refused(3) [of grant_id r g later now] link_ops_frame(3) [of k grant_id]
    by (cases "k = trim_space grant_id") auto
next
  case other
  then show ?thesis using assms(2,3) by (simp add: find_deep_link_grant_def)
qed

interpretation spent: one_way "\<lambda>r k. find_deep_link_grant k r" link_step spent_link
  by unfold_locales (rule link_step_keeps_spent)

text \<open>The same contract for delegation grants: one that was rejected or revoked stays so.\<close>

definition reachable_grant_step :: "identity_repo \<Rightarrow> identity_repo \<Rightarrow> bool" where
  "reachable_grant_step r r' \<longleftrightarrow> grants_ok r \<and> grant_step r r'"

interpretation ended: one_way "\<lambda>r k. find_delegation_grant k r" reachable_grant_step "\<lambda>g. gt_status g \<in> {''rejected'', ''revoked''}"
proof unfold_locales
  fix s t k x
  assume "reachable_grant_step s t" "find_delegation_grant k s = Some x" "gt_status x \<in> {''rejected'', ''revoked''}"
  then show "\<exists>y. find_delegation_grant k t = Some y \<and> gt_status y \<in> {''rejected'', ''revoked''}"
    using grant_step_lookup [of s t k x] by (auto simp: reachable_grant_step_def grant_life_def)
qed

lemma consume_effect:
  assumes "consume_deep_link_grant later grant_id user_id action now r = (Inr x, r')"
  shows "\<exists>g h. find_deep_link_grant (trim_space grant_id) r = Some g \<and> dk_user_id g = trim_space user_id
    \<and> (dk_expires_at g = 0 \<or> now < dk_expires_at g) \<and> (dk_allowed_actions g = [] \<or> trim_space action \<in> set (dk_allowed_actions g))
    \<and> find_deep_link_grant (trim_space grant_id) r' = Some h \<and> spent_link h"
proof (cases "find_deep_link_grant (trim_space grant_id) r")
  case None
  with assms show ?thesis by (simp add: consume_deep_link_grant_def)
next
  case (Some g)
  let ?n = "normalize_deep_link_grant_at g now"
  let ?h = "?n\<lparr>dk_status := ''consumed'', dk_consumed_at := now, dk_consumed_by_action := trim_space action, dk_updated_at := now\<rparr>"
  have r': "r' = store_deep_link_grant ?h r" and facts: "dk_user_id g = trim_space user_id"
      "dk_expires_at g = 0 \<or> now < dk_expires_at g" "dk_allowed_actions g = [] \<or> trim_space action \<in> set (dk_allowed_actions g)"
      and alive: "is_zero_time (dk_revoked_at g)"
    using assms Some by (auto simp: consume_deep_link_grant_def Let_def contains_string_def is_zero_time_def split: if_splits)
  have "trim_space (to_lower ''consumed'') = ''consumed''" by code_simp
  then have "spent_link ?h" by (auto simp: spent_link_def normalize_deep_link_grant_at_def [of ?h] Let_def)
  moreover have "find_deep_link_grant (trim_space grant_id) r' = Some ?h"
    using find_link_id [OF Some] by (simp add: r' find_store_link)
  ultimately show ?thesis using Some facts by blast
qed


definition demo_link :: deep_link_grant where
  "demo_link = \<lparr>dk_id = ''link:1'', dk_kind = [], dk_user_id = ''user:a'', dk_status = [], dk_target_type = ''approval'', dk_target_id = ''ap:1'',
     dk_location_id = [], dk_allowed_permission_keys = [], dk_allowed_actions = [''approve''], dk_review_only = False,
     dk_require_step_up = False, dk_one_time = True, dk_title = [], dk_message = [], dk_starts_at = 20, dk_expires_at = 90,
     dk_activated_at = 0, dk_consumed_at = 0, dk_consumed_by_action = [], dk_revoked_at = 0, dk_created_at = 0, dk_updated_at = 0, dk_metadata = []\<rparr>"

definition demo_linked :: identity_repo where
  "demo_linked = snd (save_deep_link_grant [] 20 20 demo_link demo_identity)"

definition demo_consumed :: identity_repo where
  "demo_consumed = snd (consume_deep_link_grant 30 ''link:1'' ''user:a'' ''approve'' 30 demo_linked)"


end
