(* ===== verification/ApprovalPolicy.thy ===== *)
theory ApprovalPolicy
  imports Document ModelService
begin

text \<open>
  \<open>internal/platform/application/approval_policy_core.go\<close>: which approval policy applies to a document,
  and the stages of a policy, read from the records of the models \<open>approval_policy\<close>,
  \<open>approval_policy_stage\<close> and \<open>approver_group_member\<close>; with the readers of dynamic values and of
  metadata that the document actions share (\<open>document_actions.go\<close>).
\<close>

section \<open>Reading dynamic values\<close>

text \<open>The first text that is not empty; unlike \<^const>\<open>first_non_empty\<close> it does not trim.\<close>

definition first_text :: "string list \<Rightarrow> string" where
  "first_text vs = (case filter (\<lambda>v. v \<noteq> []) vs of [] \<Rightarrow> [] | v # _ \<Rightarrow> v)"

definition string_value :: "model_env \<Rightarrow> gval \<Rightarrow> string" where
  "string_value env v = (case v of GStr s \<Rightarrow> s | GNull \<Rightarrow> [] | _ \<Rightarrow> sprint (me_float env) (me_time env) v)"

definition int_value :: "gval \<Rightarrow> int" where
  "int_value v = (case v of GInt i \<Rightarrow> i | GFloat w \<Rightarrow> float_trunc w | GStr s \<Rightarrow> atoi_value (trim_space s) | _ \<Rightarrow> 0)"

definition policy_bool :: "gval \<Rightarrow> bool" where
  "policy_bool v = (case v of GBool b \<Rightarrow> b | GStr s \<Rightarrow> equal_fold (trim_space s) ''true'' | _ \<Rightarrow> False)"

definition unique_strings :: "string list \<Rightarrow> string list" where
  "unique_strings items =
     fold (\<lambda>s out. let s = trim_space s in if s = [] \<or> s \<in> set out then out else out @ [s]) items []"

definition split_csv :: "model_env \<Rightarrow> gval \<Rightarrow> string list" where
  "split_csv env v =
     (case v of
        GStrs ss \<Rightarrow> unique_strings ss
      | GList vs \<Rightarrow> unique_strings (filter (\<lambda>s. s \<noteq> []) (map (\<lambda>x. trim_space (string_value env x)) vs))
      | _ \<Rightarrow> let s = trim_space (string_value env v) in
             if s = [] then [] else unique_strings (split_char (CHR '','') s))"

definition meta_string :: "gobj \<Rightarrow> string \<Rightarrow> string" where
  "meta_string md key = (case map_of md key of Some (GStr s) \<Rightarrow> trim_space s | _ \<Rightarrow> [])"

definition meta_int :: "gobj \<Rightarrow> string \<Rightarrow> int \<Rightarrow> int" where
  "meta_int md key fallback = (case map_of md key of Some (GInt i) \<Rightarrow> i | Some (GFloat w) \<Rightarrow> float_trunc w | _ \<Rightarrow> fallback)"

definition meta_bool :: "gobj \<Rightarrow> string \<Rightarrow> bool" where
  "meta_bool md key = (case map_of md key of Some (GBool b) \<Rightarrow> b | _ \<Rightarrow> False)"

definition text_items :: "gval list \<Rightarrow> string list" where
  "text_items vs = filter (\<lambda>s. s \<noteq> []) (map (\<lambda>v. case v of GStr s \<Rightarrow> trim_space s | _ \<Rightarrow> []) vs)"

definition meta_strings :: "gobj \<Rightarrow> string \<Rightarrow> string list" where
  "meta_strings md key = (case map_of md key of Some (GStrs ss) \<Rightarrow> ss | Some (GList vs) \<Rightarrow> text_items vs | _ \<Rightarrow> [])"

section \<open>Stages\<close>

record approval_stage =
  sg_policy_id :: string
  sg_stage_key :: string
  sg_sequence :: int
  sg_total_stages :: int
  sg_required_approver_count :: int
  sg_routing_mode :: string
  sg_assignment_strategy :: string
  sg_assignment_mode :: string
  sg_assignee_role_key :: string
  sg_fallback_role_key :: string
  sg_approver_group_id :: string
  sg_explicit_user_id :: string
  sg_candidate_role_keys :: "string list"
  sg_assignee_user_id :: string
  sg_candidate_user_ids :: "string list"
  sg_due_after_seconds :: int
  sg_escalate_after_seconds :: int
  sg_requires_different_actor :: bool

record approval_resolution =
  av_policy :: model_record
  av_stages :: "approval_stage list"

text \<open>
  \<open>models.List\<close> for the first page. The page stays within the matches, so the panic that
  \<^const>\<open>list_models\<close> has for an overflowing page is not reached (lemma \<open>first_page_is_read\<close>).
\<close>

definition page_query :: "(string, string) gomap \<Rightarrow> string \<Rightarrow> bool \<Rightarrow> model_query" where
  "page_query filters sort_by desc =
     \<lparr>mq_filters = filters, mq_sort_key = sort_by, mq_desc = desc, mq_page = 1, mq_page_size = max_page_size\<rparr>"

definition first_page :: "model_env \<Rightarrow> string \<Rightarrow> model_query \<Rightarrow> model_repo \<Rightarrow> model_record list result" where
  "first_page env model_key q r =
     (case list_models env model_key q r of
        None \<Rightarrow> Inl (Plain ''slice bounds out of range'')
      | Some (Inl e) \<Rightarrow> Inl e
      | Some (Inr (items, _)) \<Rightarrow> Inr items)"

definition record_text :: "model_env \<Rightarrow> model_record \<Rightarrow> string \<Rightarrow> string" where
  "record_text env x key = string_value env (mget GNull (mr_values x) key)"

definition trimmed_text :: "model_env \<Rightarrow> model_record \<Rightarrow> string \<Rightarrow> string" where
  "trimmed_text env x key = trim_space (record_text env x key)"

definition resolve_stage_users :: "model_env \<Rightarrow> approval_stage \<Rightarrow> model_repo \<Rightarrow> (string \<times> string list) result" where
  "resolve_stage_users env sg r =
     (let strategy = trim_space (sg_assignment_strategy sg) in
      if strategy = ''explicit_user'' then Inr (sg_explicit_user_id sg, [])
      else if strategy = ''approver_group'' \<or> strategy = ''fallback_role_group''
      then (if sg_approver_group_id sg = [] then Inr ([], [])
            else (case first_page env ''approver_group_member''
                     (page_query [(''approver_group_id'', sg_approver_group_id sg)] ''user_id'' False) r of
                Inl e \<Rightarrow> Inl e
              | Inr items \<Rightarrow>
                  let candidates = unique_strings (filter (\<lambda>u. u \<noteq> [])
                        (map (\<lambda>x. trimmed_text env x ''user_id'')
                          (filter (\<lambda>x. equal_fold (record_text env x ''status'') ''active'') items)))
                  in Inr (case candidates of [u] \<Rightarrow> (u, []) | _ \<Rightarrow> ([], candidates))))
      else Inr ([], []))"

definition stage_of_record :: "model_env \<Rightarrow> string \<Rightarrow> model_repo \<Rightarrow> model_record \<Rightarrow> approval_stage" where
  "stage_of_record env policy_id r x =
     (let v = mget GNull (mr_values x);
          sg = \<lparr>sg_policy_id = trim_space policy_id,
            sg_stage_key = first_text [trimmed_text env x ''stage_key'', ''stage_'' @ show_int (int_value (v ''sequence''))],
            sg_sequence = int_value (v ''sequence''), sg_total_stages = 0,
            sg_required_approver_count = max 1 (int_value (v ''required_approver_count'')),
            sg_routing_mode = trimmed_text env x ''routing_mode'',
            sg_assignment_strategy = trimmed_text env x ''assignment_strategy'',
            sg_assignment_mode = trimmed_text env x ''assignment_mode'',
            sg_assignee_role_key = trimmed_text env x ''assignee_role_key'',
            sg_fallback_role_key = trimmed_text env x ''fallback_role_key'',
            sg_approver_group_id = trimmed_text env x ''approver_group_id'',
            sg_explicit_user_id = trimmed_text env x ''explicit_user_id'',
            sg_candidate_role_keys = split_csv env (v ''candidate_role_keys''),
            sg_assignee_user_id = [], sg_candidate_user_ids = [],
            sg_due_after_seconds = int_value (v ''due_after_seconds''),
            sg_escalate_after_seconds = int_value (v ''escalate_after_seconds''),
            sg_requires_different_actor = policy_bool (v ''requires_different_actor'')\<rparr>;
          (assignee, candidates) = (case resolve_stage_users env sg r of Inl _ \<Rightarrow> ([], []) | Inr u \<Rightarrow> u)
      in sg\<lparr>sg_assignee_user_id := assignee, sg_candidate_user_ids := candidates\<rparr>)"

text \<open>
  The stages in the order of their sequence, then of their key (\<open>slices.SortFunc\<close>, whose comparison
  subtracts the sequences; they are taken to lie less than \<open>2 ^ 63\<close> apart), numbered where they have no number.
\<close>

definition number_stages :: "approval_stage list \<Rightarrow> approval_stage list" where
  "number_stages sgs =
     map (\<lambda>(i, sg). sg\<lparr>sg_sequence := (if sg_sequence sg \<le> 0 then int i + 1 else sg_sequence sg),
          sg_total_stages := int (length sgs)\<rparr>) (enumerate 0 sgs)"

definition stages_for_policy :: "model_env \<Rightarrow> string \<Rightarrow> model_repo \<Rightarrow> approval_stage list result" where
  "stages_for_policy env policy_id r =
     (if trim_space policy_id = [] then Inr []
      else case first_page env ''approval_policy_stage'' (page_query [(''policy_id'', trim_space policy_id)] ''sequence'' False) r of
        Inl e \<Rightarrow> Inl e
      | Inr items \<Rightarrow>
          Inr (number_stages (sort_slice (\<lambda>sg. (sg_sequence sg, sg_stage_key sg))
            (map (stage_of_record env policy_id r) (filter (\<lambda>x. equal_fold (record_text env x ''status'') ''active'') items)))))"

definition fallback_stage :: "model_env \<Rightarrow> model_record \<Rightarrow> approval_stage" where
  "fallback_stage env x =
     (let v = mget GNull (mr_values x) in
      \<lparr>sg_policy_id = mr_id x,
       sg_stage_key = first_text [trimmed_text env x ''default_stage_key'', ''approval''],
       sg_sequence = 1, sg_total_stages = 1, sg_required_approver_count = 1,
       sg_routing_mode = trimmed_text env x ''routing_mode'',
       sg_assignment_strategy = trimmed_text env x ''assignment_strategy'',
       sg_assignment_mode = trimmed_text env x ''assignment_mode'',
       sg_assignee_role_key = trimmed_text env x ''assignee_role_key'',
       sg_fallback_role_key = trimmed_text env x ''fallback_role_key'',
       sg_approver_group_id = trimmed_text env x ''approver_group_id'',
       sg_explicit_user_id = trimmed_text env x ''explicit_user_id'',
       sg_candidate_role_keys = split_csv env (v ''candidate_role_keys''),
       sg_assignee_user_id = trimmed_text env x ''explicit_user_id'', sg_candidate_user_ids = [],
       sg_due_after_seconds = int_value (v ''due_after_seconds''),
       sg_escalate_after_seconds = int_value (v ''escalate_after_seconds''),
       sg_requires_different_actor = policy_bool (v ''requires_different_actor'')\<rparr>)"

section \<open>The policy of a document\<close>

text \<open>The score a field adds, or \<^const>\<open>None\<close> when it does not match.\<close>

definition wildcard_score :: "model_env \<Rightarrow> gval \<Rightarrow> string \<Rightarrow> int option" where
  "wildcard_score env raw expected =
     (let v = trim_space (string_value env raw) in
      if v = [] \<or> v = ''*'' then Some 0
      else if equal_fold v (trim_space expected) then Some 4 else None)"

definition scoped_score :: "model_env \<Rightarrow> gval \<Rightarrow> string \<Rightarrow> int option" where
  "scoped_score env raw expected =
     (let v = trim_space (string_value env raw) in
      if v = [] then Some 0 else if equal_fold v (trim_space expected) then Some 2 else None)"

definition context_value :: "model_env \<Rightarrow> doc_record \<Rightarrow> string \<Rightarrow> string" where
  "context_value env x key =
     (let t = trim_space (string_value env (mget GNull (db_payload (dr_body x)) key)) in
      if t \<noteq> [] then t else trim_space (string_value env (mget GNull (dh_metadata (dr_header x)) key)))"

definition minimum_score :: "int \<Rightarrow> int \<Rightarrow> int option" where
  "minimum_score amount bound = (if bound \<le> 0 then Some 0 else if amount < bound then None else Some 1)"

definition maximum_score :: "int \<Rightarrow> int \<Rightarrow> int option" where
  "maximum_score amount bound = (if bound \<le> 0 then Some 0 else if bound < amount then None else Some 1)"

fun sum_scores :: "int option list \<Rightarrow> int option" where
  "sum_scores [] = Some 0"
| "sum_scores (None # _) = None"
| "sum_scores (Some n # ns) = map_option ((+) n) (sum_scores ns)"

definition policy_scores :: "model_env \<Rightarrow> model_record \<Rightarrow> doc_record \<Rightarrow> string \<Rightarrow> string \<Rightarrow> int option list" where
  "policy_scores env item x action workflow_key =
     (let v = mget GNull (mr_values item); h = dr_header x; amount = amount_minor (dh_total_amount h) in
      [wildcard_score env (v ''document_type'') (dh_type h),
       wildcard_score env (v ''workflow_key'')
         (first_text [trim_space workflow_key, string_value env (mget GNull (dh_metadata h) ''workflow_key'')]),
       wildcard_score env (v ''action'') action,
       scoped_score env (v ''organization_id'') (dh_organization_id h),
       scoped_score env (v ''location_id'') (dh_location_id h),
       scoped_score env (v ''operating_unit_id'') (first_text [context_value env x ''operating_unit_id'',
         string_value env (mget GNull (dh_metadata h) ''operating_unit_id'')]),
       scoped_score env (v ''department_id'') (context_value env x ''department_id''),
       scoped_score env (v ''cost_center_id'') (context_value env x ''cost_center_id''),
       minimum_score amount (int_value (v ''minimum_amount_minor'')),
       maximum_score amount (int_value (v ''maximum_amount_minor''))])"

definition match_score :: "model_env \<Rightarrow> model_record \<Rightarrow> doc_record \<Rightarrow> string \<Rightarrow> string \<Rightarrow> int option" where
  "match_score env item x action workflow_key =
     (if \<not> equal_fold (trimmed_text env item ''status'') ''active'' then None
      else map_option (\<lambda>n. wrap64 (n + wrap64 (int_value (mget GNull (mr_values item) ''priority'') * 100)))
             (sum_scores (policy_scores env item x action workflow_key)))"

text \<open>One round of the loop; the state is the best record so far (none at first) and its score.\<close>

definition better_policy ::
    "model_env \<Rightarrow> doc_record \<Rightarrow> string \<Rightarrow> string \<Rightarrow> model_record \<Rightarrow> model_record option \<times> int \<Rightarrow> model_record option \<times> int" where
  "better_policy env x action workflow_key item best =
     (case match_score env item x action workflow_key of
        None \<Rightarrow> best
      | Some score \<Rightarrow>
          if snd best < score \<or> score = snd best \<and> (case fst best of None \<Rightarrow> zero_time | Some b \<Rightarrow> mr_updated_at b) < mr_updated_at item
          then (Some item, score) else best)"

definition choose_policy ::
    "model_env \<Rightarrow> doc_record \<Rightarrow> string \<Rightarrow> string \<Rightarrow> model_record list \<Rightarrow> model_record option" where
  "choose_policy env x action workflow_key items =
     (let (best, score) = fold (better_policy env x action workflow_key) items (None, - 1)
      in if score < 0 then None else best)"

definition stamp_stages :: "string \<Rightarrow> approval_stage list \<Rightarrow> approval_stage list" where
  "stamp_stages policy_id sgs = map (\<lambda>sg. sg\<lparr>sg_policy_id := policy_id, sg_total_stages := int (length sgs)\<rparr>) sgs"

definition resolve_document_policy ::
    "model_env \<Rightarrow> doc_record \<Rightarrow> string \<Rightarrow> string \<Rightarrow> model_repo \<Rightarrow> approval_resolution option result" where
  "resolve_document_policy env x action workflow_key r =
     (if trim_space (dh_type (dr_header x)) = [] then Inr None
      else case first_page env ''approval_policy'' (page_query [] ''priority'' True) r of
        Inl e \<Rightarrow> Inl e
      | Inr items \<Rightarrow>
          (case choose_policy env x action workflow_key items of
             None \<Rightarrow> Inr None
           | Some best \<Rightarrow>
               (case stages_for_policy env (mr_id best) r of
                  Inl e \<Rightarrow> Inl e
                | Inr (sg # sgs) \<Rightarrow> Inr (Some \<lparr>av_policy = best, av_stages = stamp_stages (mr_id best) (sg # sgs)\<rparr>)
                | Inr [] \<Rightarrow>
                    (case resolve_stage_users env (fallback_stage env best) r of
                       Inl e \<Rightarrow> Inl e
                     | Inr (assignee, candidates) \<Rightarrow>
                         Inr (Some \<lparr>av_policy = best, av_stages = stamp_stages (mr_id best)
                           [(fallback_stage env best)\<lparr>sg_assignee_user_id := assignee, sg_candidate_user_ids := candidates\<rparr>]\<rparr>)))))"

section \<open>The first page is read\<close>

lemma first_page_is_read: "list_models env model_key (page_query fs k desc) r \<noteq> None"
  by (auto simp: list_models_def normalize_query_def page_query_def max_page_size_def query_records_def Let_def wrap64_def slice_of_def
      split: option.split sum.split)

end
