(* ===== verification/AuditTrail.thy ===== *)
theory AuditTrail
  imports Shared
begin

text \<open>
  Package \<open>internal/platform/audit\<close> over its repository in memory: events are appended, queried by their
  fields, searched as text, sorted and paged. The JSON text of a dynamic value (\<open>env_json\<close>) and the text of a
  time (\<open>env_time\<close>) are the standard library's.
\<close>

record audit_event =
  au_event_id :: string
  au_action :: string
  au_target_type :: string
  au_target_id :: string
  au_actor_id :: string
  au_actor_kind :: string
  au_on_behalf_of_user_id :: string
  au_delegation_grant_id :: string
  au_from_state :: string
  au_to_state :: string
  au_organization_id :: string
  au_location_id :: string
  au_operating_unit_id :: string
  au_request_id :: string
  au_occurred_at :: gotime
  au_change_summary :: gobj
  au_metadata :: gobj
  au_correlation_id :: string

record audit_query =
  uq_target_type :: string
  uq_target_id :: string
  uq_actor_id :: string
  uq_actor_kind :: string
  uq_on_behalf_of_user_id :: string
  uq_action :: string
  uq_correlation_id :: string
  uq_request_id :: string
  uq_delegation_grant_id :: string
  uq_from_state :: string
  uq_to_state :: string
  uq_organization_id :: string
  uq_location_id :: string
  uq_operating_unit_id :: string
  uq_occurred_from :: gotime
  uq_occurred_to :: gotime
  uq_text :: string
  uq_metadata_key :: string
  uq_metadata_value :: string
  uq_sort :: string
  uq_direction :: string
  uq_page :: int
  uq_page_size :: int

record audit_result =
  ur_items :: "audit_event list"
  ur_total :: int
  ur_facets :: gobj
  ur_summary :: gobj

record audit_env =
  env_json :: "gval \<Rightarrow> string"
  env_time :: "gotime \<Rightarrow> string"

section \<open>Events\<close>

definition record_audit :: "audit_event \<Rightarrow> audit_event list \<Rightarrow> audit_event list" where
  "record_audit e es = es @ [e]"

definition list_audit :: "audit_event list \<Rightarrow> audit_event list" where
  "list_audit es = sort_slice au_occurred_at es"

definition stringify_audit_value :: "audit_env \<Rightarrow> gval \<Rightarrow> string" where
  "stringify_audit_value env v = (case v of GNull \<Rightarrow> [] | GStr s \<Rightarrow> s | _ \<Rightarrow> trim_space (env_json env v))"

definition text_fields :: "audit_event \<Rightarrow> string list" where
  "text_fields e = [au_event_id e, au_action e, au_target_type e, au_target_id e, au_actor_id e, au_actor_kind e,
     au_on_behalf_of_user_id e, au_delegation_grant_id e, au_from_state e, au_to_state e, au_organization_id e,
     au_location_id e, au_operating_unit_id e, au_request_id e, au_correlation_id e]"

definition contains_text :: "string \<Rightarrow> string \<Rightarrow> bool" where
  "contains_text s needle \<longleftrightarrow> (\<exists>i \<in> {0..length s}. prefix needle (drop i s))"

definition event_contains :: "audit_env \<Rightarrow> audit_event \<Rightarrow> string \<Rightarrow> bool" where
  "event_contains env e t \<longleftrightarrow>
     (let needle = to_lower (trim_space t); hit = (\<lambda>s. contains_text (to_lower s) needle);
          hit_entry = (\<lambda>(k, v). hit k \<or> hit (stringify_audit_value env v))
      in needle = [] \<or> list_ex hit (text_fields e) \<or> list_ex hit_entry (au_metadata e) \<or> list_ex hit_entry (au_change_summary e))"

text \<open>A filter that is empty lets every event pass.\<close>

definition passes :: "string \<Rightarrow> string \<Rightarrow> bool" where
  "passes wanted actual \<longleftrightarrow> wanted = [] \<or> actual = wanted"

definition matches_metadata :: "audit_env \<Rightarrow> audit_event \<Rightarrow> string \<Rightarrow> string \<Rightarrow> bool" where
  "matches_metadata env e key wanted \<longleftrightarrow>
     key = [] \<or> (case map_of (au_metadata e) key of
       None \<Rightarrow> False
     | Some v \<Rightarrow> wanted = [] \<or> equal_fold (trim_space (stringify_audit_value env v)) (trim_space wanted))"

definition matches_query :: "audit_env \<Rightarrow> audit_query \<Rightarrow> audit_event \<Rightarrow> bool" where
  "matches_query env q e \<longleftrightarrow>
     passes (uq_target_type q) (au_target_type e) \<and> passes (uq_target_id q) (au_target_id e)
   \<and> passes (uq_actor_id q) (au_actor_id e) \<and> passes (uq_actor_kind q) (au_actor_kind e)
   \<and> passes (uq_on_behalf_of_user_id q) (au_on_behalf_of_user_id e) \<and> passes (uq_action q) (au_action e)
   \<and> passes (uq_correlation_id q) (au_correlation_id e) \<and> passes (uq_request_id q) (au_request_id e)
   \<and> passes (uq_delegation_grant_id q) (au_delegation_grant_id e)
   \<and> passes (uq_from_state q) (au_from_state e) \<and> passes (uq_to_state q) (au_to_state e)
   \<and> passes (uq_organization_id q) (au_organization_id e) \<and> passes (uq_location_id q) (au_location_id e)
   \<and> passes (uq_operating_unit_id q) (au_operating_unit_id e)
   \<and> (is_zero_time (uq_occurred_from q) \<or> uq_occurred_from q \<le> au_occurred_at e)
   \<and> (is_zero_time (uq_occurred_to q) \<or> au_occurred_at e \<le> uq_occurred_to q)
   \<and> matches_metadata env e (uq_metadata_key q) (uq_metadata_value q)
   \<and> (uq_text q = [] \<or> event_contains env e (uq_text q))"

definition query_audit :: "audit_env \<Rightarrow> audit_query \<Rightarrow> audit_event list \<Rightarrow> audit_event list" where
  "query_audit env q es = sort_slice au_occurred_at (filter (matches_query env q) es)"

section \<open>Search\<close>

definition audit_sort_value :: "audit_env \<Rightarrow> string \<Rightarrow> audit_event \<Rightarrow> string" where
  "audit_sort_value env key e =
     (if key = ''action'' then au_action e else if key = ''target_type'' then au_target_type e
      else if key = ''target_id'' then au_target_id e else if key = ''actor_id'' then au_actor_id e
      else if key = ''actor_kind'' then au_actor_kind e else if key = ''correlation_id'' then au_correlation_id e
      else env_time env (au_occurred_at e))"

definition sort_audit :: "audit_env \<Rightarrow> audit_query \<Rightarrow> audit_event list \<Rightarrow> audit_event list" where
  "sort_audit env q es =
     (let key = (if trim_space (uq_sort q) = [] then ''occurred_at'' else trim_space (uq_sort q))
      in (if equal_fold (uq_direction q) ''desc'' then sort_slice_desc else sort_slice) (audit_sort_value env key) es)"

text \<open>\<^const>\<open>None\<close> is the panic of a slice out of bounds, which a page beyond \<open>2 ^ 63\<close> elements reaches by overflow.\<close>

definition paginate_audit :: "int \<Rightarrow> int \<Rightarrow> audit_event list \<Rightarrow> audit_event list option" where
  "paginate_audit page per_page es =
     (let page = (if page \<le> 0 then 1 else page); per_page = (if per_page \<le> 0 then 20 else per_page);
          start = wrap64 (wrap64 (page - 1) * per_page); stop = wrap64 (start + per_page)
      in if int (length es) \<le> start then Some []
         else slice_of es start (if int (length es) < stop then int (length es) else stop))"

definition count_by :: "(audit_event \<Rightarrow> string) \<Rightarrow> audit_event list \<Rightarrow> gobj" where
  "count_by f es = fold (\<lambda>e m. mput (f e) (GInt ((case map_of m (f e) of Some (GInt n) \<Rightarrow> n | _ \<Rightarrow> 0) + 1)) m) es []"

definition audit_facets :: "audit_event list \<Rightarrow> gobj" where
  "audit_facets es = [(''actions'', GObj (count_by au_action es)), (''target_types'', GObj (count_by au_target_type es)),
     (''actors'', GObj (count_by au_actor_id (filter (\<lambda>e. au_actor_id e \<noteq> []) es)))]"

definition search_audit :: "audit_env \<Rightarrow> audit_query \<Rightarrow> audit_event list \<Rightarrow> audit_result option" where
  "search_audit env q es =
     (let items = sort_audit env q (query_audit env q es)
      in map_option (\<lambda>page. \<lparr>ur_items = page, ur_total = int (length items), ur_facets = audit_facets items,
           ur_summary = [(''count'', GInt (int (length items)))]\<rparr>) (paginate_audit (uq_page q) (uq_page_size q) items))"

section \<open>What a search shows\<close>

lemma query_is_a_filter: "mset (query_audit env q es) = mset (filter (matches_query env q) es)"
    "sorted (map au_occurred_at (query_audit env q es))"
  by (simp_all add: query_audit_def)

lemma mset_sort_audit [simp]: "mset (sort_audit env q es) = mset es" and set_sort_audit [simp]: "set (sort_audit env q es) = set es"
  by (simp_all add: sort_audit_def Let_def)

lemma count_by_counts: "map_of (count_by f es) k = (if k \<in> f ` set es then Some (GInt (int (length (filter (\<lambda>e. f e = k) es)))) else None)"
proof -
  have step: "map_of (fold (\<lambda>e m. mput (f e) (GInt ((case map_of m (f e) of Some (GInt n) \<Rightarrow> n | _ \<Rightarrow> 0) + 1)) m) es []) k
      = (if k \<in> f ` set es then Some (GInt (int (length (filter (\<lambda>e. f e = k) es)))) else None)"
  proof (induction es arbitrary: k rule: rev_induct)
    case (snoc e es)
    show ?case by (cases "f e \<in> f ` set es") (auto simp: snoc.IH filter_empty_conv image_iff)
  qed simp
  then show ?thesis by (simp add: count_by_def)
qed

text \<open>Walking the pages of a search shows every match once: page \<open>i\<close> is its slice of the sorted matches.\<close>

lemma page_is_a_slice:
  assumes "0 < page" "0 < per_page" "page * per_page < 2 ^ 63"
  shows "paginate_audit page per_page es = Some (take (nat per_page) (drop (nat ((page - 1) * per_page)) es))"
proof -
  have nonneg: "0 \<le> (page - 1) * per_page" using assms by simp
  have le: "(page - 1) * per_page + per_page = page * per_page" by (simp add: algebra_simps)
  have p: "page < 2 ^ 63" using assms by (smt (verit) mult_le_cancel_left1)
  have s: "wrap64 (wrap64 (page - 1) * per_page) = (page - 1) * per_page"
  proof -
    have "wrap64 (page - 1) = page - 1" using assms(1) p by (intro wrap64_id) linarith+
    moreover have "wrap64 ((page - 1) * per_page) = (page - 1) * per_page"
      using nonneg le assms(2,3) by (intro wrap64_id) linarith+
    ultimately show ?thesis by simp
  qed
  define a b where "a = (page - 1) * per_page" and "b = page * per_page"
  have ab: "0 \<le> a" "b = a + per_page" "b < 2 ^ 63"
    using nonneg le assms(3) by (simp_all only: a_def b_def)
  have "0 \<le> b" using ab(1,2) assms(2) by simp
  with ab(3) have "wrap64 b = b" by (intro wrap64_id) linarith+
  then have t: "wrap64 (a + per_page) = b" by (simp only: ab(2))
  have "paginate_audit page per_page es = (if int (length es) \<le> a then Some []
      else slice_of es a (if int (length es) < b then int (length es) else b))"
    using assms(1,2) s t by (simp add: paginate_audit_def Let_def a_def [symmetric])
  also have "\<dots> = Some (take (nat per_page) (drop (nat a) es))"
    using ab assms(2) by (auto simp: slice_of_def nat_diff_distrib nat_add_distrib)
  finally show ?thesis by (simp add: a_def)
qed

end
