(* ===== verification/WorkflowDecisions.thy ===== *)
theory WorkflowDecisions
  imports ApprovalPolicy AuditTrail WorkflowService Policy EventOutbox IdentityGrants
begin

text \<open>
  What \<open>application.DocumentActions\<close> decides before it moves a document (\<open>document_actions.go\<close>): the policy
  hooks it asks, what they and the approval policies change in a transition, and who gets the work. The
  state holds every service the actions use. Activities and notifications are taken as not attached;
  a policy service and approval rules are there when \<open>pe_policy\<close> and \<open>pe_approval_rules\<close> say so.
  \<open>pe_clock i\<close> are the readings of the clock within one call: 0 for the action, 1 for what it publishes, 2 to 4
  and 5 to 7 for the states and the decisions of the three hooks, 8 for numbering, 9 for the outbox, then two for each link.
\<close>

section \<open>The state and its environment\<close>

record acting =
  ac_actor_id :: string
  ac_actor_kind :: string
  ac_effective_user_id :: string
  ac_on_behalf_of_user_id :: string
  ac_delegation_grant_id :: string
  ac_deep_link_grant_id :: string
  ac_correlation_id :: string

definition effective_actor :: "acting \<Rightarrow> string" where
  "effective_actor a = (if ac_effective_user_id a \<noteq> [] then ac_effective_user_id a else ac_actor_id a)"

record 'p app_env =
  pe_doc :: doc_env
  pe_model :: model_env
  pe_rego :: "'p rego"
  pe_sha :: "string \<Rightarrow> string"
  pe_rule_fields :: "string \<Rightarrow> config_field list"
  pe_policy :: bool
  pe_approval_rules :: bool
  pe_validate :: schema_validator
  pe_events :: event_service
  pe_sinks :: "string list"
  pe_copy :: "doc_record \<Rightarrow> doc_record"
  pe_stamp :: "gotime \<Rightarrow> string"
  pe_clock :: "nat \<Rightarrow> gotime"
  pe_ulid :: "nat \<Rightarrow> string"

text \<open>\<open>pe_copy\<close> is the copy through JSON (\<open>cloneDocumentRecord\<close>), \<open>pe_stamp\<close> the text of a time in \<open>20060102150405\<close>.\<close>

record 'p app_state =
  pp_docs :: doc_repo
  pp_flows :: wf_repo
  pp_identity :: identity_repo
  pp_policy :: "'p policy_service"
  pp_models :: model_repo
  pp_audit :: "audit_event list"
  pp_events :: event_repo

section \<open>Asking the policy hooks\<close>

definition ask_policy :: "'p app_env \<Rightarrow> nat \<Rightarrow> policy_request \<Rightarrow> 'p app_state \<Rightarrow> decision \<times> 'p app_state" where
  "ask_policy env i req s =
     (let (d, p) = Policy.evaluate (pe_rego env) (pe_sha env) (pe_clock env i) req (pp_policy s) in (d, s\<lparr>pp_policy := p\<rparr>))"

definition policy_request_of :: "doc_header \<Rightarrow> string \<Rightarrow> string \<Rightarrow> gobj \<Rightarrow> policy_request" where
  "policy_request_of h hook actor inputs =
     \<lparr>pq_hook_key = hook, pq_actor_id = actor, pq_organization_id = dh_organization_id h, pq_location_id = dh_location_id h,
      pq_scope_id = dh_location_id h, pq_inputs = inputs, pq_rule = []\<rparr>"

definition runtime_fault :: "string \<Rightarrow> hook_runtime option \<Rightarrow> goerr option" where
  "runtime_fault hook rt =
     (let invalid = (\<lambda>reason. Some (Forbidden (''workflow policy runtime invalid for '' @ hook @ '': '' @ reason))) in
      case rt of
        None \<Rightarrow> Some (Forbidden (''workflow policy runtime is not configured for '' @ hook))
      | Some rt \<Rightarrow>
          if hd_engine (hr_definition rt) = ''rego''
          then (if \<not> hr_compile_valid rt then invalid (first_text [hr_compile_error rt, ''rego source is not configured''])
                else if \<not> hr_eval_valid rt then invalid (first_text [hr_eval_error rt, ''rego policy must return a decision object''])
                else None)
          else if \<not> hr_eval_valid rt then invalid (first_text [hr_eval_error rt, ''policy evaluator is not configured''])
          else None)"

definition ensure_hook :: "'p app_env \<Rightarrow> doc_header \<Rightarrow> nat \<times> string \<Rightarrow> 'p app_state \<Rightarrow> goerr option \<times> 'p app_state" where
  "ensure_hook env h = (\<lambda>(i, hook) s.
     let (rt, p) = runtime_of (pe_rego env) (pe_sha env) (pe_rule_fields env) (pe_clock env i) hook (dh_organization_id h)
                     (dh_location_id h) (pp_policy s)
     in (runtime_fault hook rt, s\<lparr>pp_policy := p\<rparr>))"

definition ensure_policy_runtime :: "'p app_env \<Rightarrow> doc_header \<Rightarrow> string list \<Rightarrow> 'p app_state \<Rightarrow> goerr option \<times> 'p app_state" where
  "ensure_policy_runtime env h hooks s =
     (if \<not> pe_policy env then (None, s) else run_each (ensure_hook env h) (enumerate 2 hooks) s)"

section \<open>What a decision changes in a transition\<close>

definition policy_keys :: "string list" where
  "policy_keys = [''approval_policy_id'', ''approval_policy_name'', ''approval_stage_key'', ''approval_stage_sequence'',
     ''approval_stage_total'', ''approval_routing_mode'', ''required_approver_count'']"

definition apply_decision_metadata :: "gobj \<Rightarrow> transition \<Rightarrow> transition" where
  "apply_decision_metadata output t =
     t\<lparr>tr_metadata := fold (\<lambda>k m. case map_of output k of None \<Rightarrow> m | Some v \<Rightarrow> mput k v m) policy_keys (tr_metadata t)\<rparr>"

text \<open>\<open>if value, ok := output[key].(string); ok && strings.TrimSpace(value) != ""\<close>, and the two readings of a list of texts.\<close>

definition text_or :: "gobj \<Rightarrow> string \<Rightarrow> string \<Rightarrow> string" where
  "text_or output key old = (case map_of output key of Some (GStr v) \<Rightarrow> if trim_space v \<noteq> [] then v else old | _ \<Rightarrow> old)"

definition texts_or :: "gobj \<Rightarrow> string \<Rightarrow> string list \<Rightarrow> string list" where
  "texts_or output key old =
     (case map_of output key of
        Some (GList vs) \<Rightarrow> text_items vs
      | Some (GStrs ss) \<Rightarrow> if ss \<noteq> [] then ss else old
      | _ \<Rightarrow> old)"

definition flag_or :: "gobj \<Rightarrow> string \<Rightarrow> bool \<Rightarrow> bool" where
  "flag_or output key old = (case map_of output key of Some (GBool b) \<Rightarrow> b | _ \<Rightarrow> old)"

definition count_or :: "gobj \<Rightarrow> string \<Rightarrow> int \<Rightarrow> int" where
  "count_or output key old =
     (case map_of output key of
        Some (GFloat w) \<Rightarrow> if 0 < float_trunc w then float_trunc w else old
      | Some (GInt i) \<Rightarrow> if 0 < i then i else old
      | _ \<Rightarrow> old)"

definition apply_assignment_decision :: "gobj \<Rightarrow> transition \<Rightarrow> transition" where
  "apply_assignment_decision output t =
     apply_decision_metadata output (t\<lparr>
       tr_assignment_strategy := text_or output ''assignment_strategy'' (tr_assignment_strategy t),
       tr_assignment_mode := text_or output ''assignment_mode'' (tr_assignment_mode t),
       tr_assignee_role_key := text_or output ''assignee_role_key'' (tr_assignee_role_key t),
       tr_fallback_role_key := text_or output ''fallback_role_key'' (tr_fallback_role_key t),
       tr_candidate_role_keys := texts_or output ''candidate_role_keys'' (tr_candidate_role_keys t),
       tr_assignee_user_id := (case map_of output ''assignee_user_id'' of
          Some (GStr v) \<Rightarrow> if trim_space v \<noteq> [] then trim_space v else tr_assignee_user_id t | _ \<Rightarrow> tr_assignee_user_id t),
       tr_candidate_user_ids := texts_or output ''candidate_user_ids'' (tr_candidate_user_ids t),
       tr_requires_different_actor := flag_or output ''requires_different_actor'' (tr_requires_different_actor t)\<rparr>)"

definition apply_sla_decision :: "gobj \<Rightarrow> transition \<Rightarrow> transition" where
  "apply_sla_decision output t =
     apply_decision_metadata output (t\<lparr>
       tr_due_after_seconds := count_or output ''due_after_seconds'' (tr_due_after_seconds t),
       tr_escalate_after_seconds := count_or output ''escalate_after_seconds'' (tr_escalate_after_seconds t)\<rparr>)"

text \<open>What a stage of an approval policy changes; \<open>policy_id\<close> and \<open>vs\<close> are those of the record of the policy.\<close>

definition apply_stage :: "model_env \<Rightarrow> string \<Rightarrow> gobj \<Rightarrow> approval_stage \<Rightarrow> int \<Rightarrow> transition \<Rightarrow> transition" where
  "apply_stage env policy_id vs sg total_stages t =
     (let name = first_text [trim_space (string_value env (mget GNull vs ''name'')),
            trim_space (string_value env (mget GNull vs ''code'')), policy_id] in
      t\<lparr>tr_approval_stage_key := first_text [sg_stage_key sg, tr_approval_stage_key t],
        tr_assignment_strategy := first_text [sg_assignment_strategy sg, tr_assignment_strategy t],
        tr_assignment_mode := first_text [sg_assignment_mode sg, tr_assignment_mode t],
        tr_assignee_role_key := first_text [sg_assignee_role_key sg, tr_assignee_role_key t],
        tr_fallback_role_key := first_text [sg_fallback_role_key sg, tr_fallback_role_key t],
        tr_candidate_role_keys := (if sg_candidate_role_keys sg \<noteq> [] then sg_candidate_role_keys sg else tr_candidate_role_keys t),
        tr_assignee_user_id := first_text [sg_assignee_user_id sg, sg_explicit_user_id sg, tr_assignee_user_id t],
        tr_candidate_user_ids := (if sg_candidate_user_ids sg \<noteq> [] then sg_candidate_user_ids sg else tr_candidate_user_ids t),
        tr_due_after_seconds := (if 0 < sg_due_after_seconds sg then sg_due_after_seconds sg else tr_due_after_seconds t),
        tr_escalate_after_seconds := (if 0 < sg_escalate_after_seconds sg then sg_escalate_after_seconds sg
                                      else tr_escalate_after_seconds t),
        tr_requires_different_actor := (sg_requires_different_actor sg \<or> tr_requires_different_actor t),
        tr_metadata := mput ''required_approver_count'' (GInt (sg_required_approver_count sg))
          (mput ''approval_routing_mode'' (GStr (first_text [sg_routing_mode sg, sg_assignment_strategy sg]))
          (mput ''approval_stage_total'' (GInt total_stages) (mput ''approval_stage_sequence'' (GInt (sg_sequence sg))
          (mput ''approval_stage_key'' (GStr (sg_stage_key sg)) (mput ''approval_policy_name'' (GStr name)
          (mput ''approval_policy_id'' (GStr policy_id) (tr_metadata t)))))))\<rparr>)"

definition merge_decision_output :: "gobj \<Rightarrow> decision \<Rightarrow> decision" where
  "merge_decision_output output d = d\<lparr>dn_output := mmerge (dn_output d) output\<rparr>"

definition assignment_output :: "transition \<Rightarrow> gobj" where
  "assignment_output t =
     (let md = tr_metadata t in
      [(''assignment_strategy'', GStr (tr_assignment_strategy t)), (''assignment_mode'', GStr (tr_assignment_mode t)),
       (''assignee_role_key'', GStr (tr_assignee_role_key t)), (''fallback_role_key'', GStr (tr_fallback_role_key t)),
       (''candidate_role_keys'', GStrs (tr_candidate_role_keys t)), (''assignee_user_id'', GStr (tr_assignee_user_id t)),
       (''candidate_user_ids'', GStrs (tr_candidate_user_ids t)),
       (''approval_policy_id'', GStr (meta_string md ''approval_policy_id'')),
       (''approval_stage_key'', GStr (meta_string md ''approval_stage_key'')),
       (''approval_stage_sequence'', GInt (meta_int md ''approval_stage_sequence'' 0)),
       (''approval_stage_total'', GInt (meta_int md ''approval_stage_total'' 0)),
       (''approval_routing_mode'', GStr (meta_string md ''approval_routing_mode''))])"

definition sla_output :: "transition \<Rightarrow> gobj" where
  "sla_output t = [(''due_after_seconds'', GInt (tr_due_after_seconds t)),
     (''escalate_after_seconds'', GInt (tr_escalate_after_seconds t))]"

section \<open>The decisions on a transition\<close>

text \<open>A pending approval that keeps its requester from deciding.\<close>

definition requester_conflict :: "string \<Rightarrow> string \<Rightarrow> bool \<Rightarrow> wf_repo \<Rightarrow> bool" where
  "requester_conflict did actor different r \<longleftrightarrow>
     (\<exists>a \<in> set (list_approvals r). ap_target_id a = did \<and> ap_status a = ''pending'' \<and> ap_requested_by a \<noteq> []
        \<and> ap_requested_by a = actor \<and> (different \<or> meta_bool (ap_metadata a) ''requires_different_actor''))"

definition same_actor_error :: goerr where
  "same_actor_error = Forbidden ''workflow transition requires a different actor than the requester''"

definition transition_inputs :: "doc_header \<Rightarrow> string \<Rightarrow> gobj" where
  "transition_inputs h action = [(''document_id'', GStr (dh_id h)), (''document_type'', GStr (dh_type h)),
     (''current_state'', GStr (dh_status h)), (''status'', GStr (dh_status h)), (''action'', GStr action)]"

definition assignment_inputs :: "doc_header \<Rightarrow> string \<Rightarrow> transition \<Rightarrow> gobj" where
  "assignment_inputs h action t = [(''document_id'', GStr (dh_id h)), (''document_type'', GStr (dh_type h)),
     (''workflow_key'', GStr (tr_workflow_key t)), (''workflow_version'', GInt (tr_workflow_version t)),
     (''action'', GStr action), (''task_type'', GStr (tr_task_type t)), (''current_state'', GStr (dh_status h))]"

definition sla_inputs :: "doc_header \<Rightarrow> string \<Rightarrow> transition \<Rightarrow> gobj" where
  "sla_inputs h action t = [(''document_id'', GStr (dh_id h)), (''document_type'', GStr (dh_type h)),
     (''workflow_key'', GStr (tr_workflow_key t)), (''workflow_version'', GInt (tr_workflow_version t)),
     (''action'', GStr action), (''current_state'', GStr (dh_status h))]"

definition allowed_decision :: decision where
  "allowed_decision = \<lparr>dn_allowed = True, dn_code = [], dn_reason = [], dn_output = [], dn_rule = None, dn_trace = []\<rparr>"

record decisions =
  de_transition :: transition
  de_permit :: decision
  de_assignment :: decision
  de_sla :: decision

definition workflow_hooks :: "string list" where
  "workflow_hooks = [''documents.workflow.transition'', ''documents.workflow.assignment'', ''documents.workflow.sla'']"

definition policy_decisions ::
    "'p app_env \<Rightarrow> doc_header \<Rightarrow> string \<Rightarrow> string \<Rightarrow> transition \<Rightarrow> 'p app_state \<Rightarrow> decisions result \<times> 'p app_state" where
  "policy_decisions env h actor action t s =
     (if \<not> pe_policy env
      then (Inr \<lparr>de_transition = t, de_permit = allowed_decision, de_assignment = allowed_decision, de_sla = allowed_decision\<rparr>, s)
      else case ensure_policy_runtime env h workflow_hooks s of
        (Some e, s) \<Rightarrow> (Inl e, s)
      | (None, s) \<Rightarrow>
          let (permit, s) = ask_policy env 5 (policy_request_of h ''documents.workflow.transition'' actor (transition_inputs h action)) s
          in if \<not> dn_allowed permit
             then (Inl (Forbidden (first_text [dn_reason permit, ''workflow transition denied by policy''])), s)
             else
               let (assign, s) = ask_policy env 6
                     (policy_request_of h ''documents.workflow.assignment'' actor (assignment_inputs h action t)) s;
                   t = apply_assignment_decision (dn_output assign) t;
                   (sla, s) = ask_policy env 7 (policy_request_of h ''documents.workflow.sla'' actor (sla_inputs h action t)) s;
                   t = apply_sla_decision (dn_output sla) t
               in (Inr \<lparr>de_transition = t, de_permit = permit, de_assignment = assign, de_sla = sla\<rparr>, s))"

definition approval_rule_decisions ::
    "'p app_env \<Rightarrow> doc_record \<Rightarrow> string \<Rightarrow> decisions \<Rightarrow> 'p app_state \<Rightarrow> decisions result" where
  "approval_rule_decisions env x action ds s =
     (let t = de_transition ds in
      if \<not> (pe_approval_rules env \<and> (tr_create_approval t \<or> tr_task_type t \<noteq> [])) then Inr ds
      else case resolve_document_policy (pe_model env) x action (tr_workflow_key t) (pp_models s) of
        Inl e \<Rightarrow> Inl e
      | Inr None \<Rightarrow> Inr ds
      | Inr (Some res) \<Rightarrow>
          (case av_stages res of
             [] \<Rightarrow> Inr ds
           | sg # _ \<Rightarrow>
               let t = apply_stage (pe_model env) (mr_id (av_policy res)) (mr_values (av_policy res)) sg (int (length (av_stages res))) t
               in Inr (ds\<lparr>de_transition := t, de_assignment := merge_decision_output (assignment_output t) (de_assignment ds),
                      de_sla := merge_decision_output (sla_output t) (de_sla ds)\<rparr>)))"

definition apply_runtime_decisions ::
    "'p app_env \<Rightarrow> doc_record \<Rightarrow> string \<Rightarrow> string \<Rightarrow> transition \<Rightarrow> 'p app_state \<Rightarrow> decisions result \<times> 'p app_state" where
  "apply_runtime_decisions env x actor action t s =
     (if requester_conflict (dh_id (dr_header x)) actor (tr_requires_different_actor t) (pp_flows s) then (Inl same_actor_error, s)
      else case policy_decisions env (dr_header x) actor action t s of
        (Inl e, s) \<Rightarrow> (Inl e, s)
      | (Inr ds, s) \<Rightarrow> (approval_rule_decisions env x action ds s, s))"

section \<open>Who gets the work\<close>

record resolution =
  rz_strategy :: string
  rz_source_user_id :: string
  rz_resolved_via :: string
  rz_assignee_user_id :: string
  rz_candidate_user_ids :: "string list"
  rz_trace :: "string list"

definition no_resolution :: "string \<Rightarrow> string \<Rightarrow> resolution" where
  "no_resolution strategy source = \<lparr>rz_strategy = strategy, rz_source_user_id = source, rz_resolved_via = [],
     rz_assignee_user_id = [], rz_candidate_user_ids = [], rz_trace = []\<rparr>"

definition unresolved :: goerr where
  "unresolved = Validation ''workflow assignment could not be resolved''"

definition role_users :: "string \<Rightarrow> doc_header \<Rightarrow> gotime \<Rightarrow> identity_repo \<Rightarrow> string list" where
  "role_users role_key h now r =
     map u_id (resolve_role_candidates now role_key (dh_organization_id h) (dh_location_id h) [] now r)"

definition resolve_role_group ::
    "string \<Rightarrow> doc_header \<Rightarrow> transition \<Rightarrow> gotime \<Rightarrow> identity_repo \<Rightarrow> resolution result" where
  "resolve_role_group source h t now r =
     (let role_key = (if trim_space (tr_assignee_role_key t) \<noteq> [] then trim_space (tr_assignee_role_key t)
                      else trim_space (tr_fallback_role_key t));
          z = (no_resolution (tr_assignment_strategy t) source)\<lparr>rz_resolved_via := ''role_group'', rz_trace := [''role_group:'' @ role_key]\<rparr>
      in if role_key = [] then Inl (Validation ''role_group assignment requires assignee_role_key'')
         else case role_users role_key h now r of
           [] \<Rightarrow> Inl unresolved
         | [u] \<Rightarrow> Inr (z\<lparr>rz_assignee_user_id := u\<rparr>)
         | us \<Rightarrow> Inr (z\<lparr>rz_candidate_user_ids := us\<rparr>))"

definition resolve_fallback ::
    "string \<Rightarrow> doc_header \<Rightarrow> transition \<Rightarrow> gotime \<Rightarrow> identity_repo \<Rightarrow> resolution result" where
  "resolve_fallback source h t now r =
     (let role_key = (if trim_space (tr_fallback_role_key t) \<noteq> [] then trim_space (tr_fallback_role_key t)
                      else trim_space (tr_assignee_role_key t));
          trace = [''fallback_role:'' @ role_key];
          z = (no_resolution (tr_assignment_strategy t) source)\<lparr>rz_resolved_via := ''fallback_role'', rz_trace := trace\<rparr>
      in if role_key = [] then Inl unresolved
         else case role_users role_key h now r of
           [] \<Rightarrow> Inl unresolved
         | [u] \<Rightarrow> Inr (z\<lparr>rz_assignee_user_id := u, rz_trace := trace @ [''assignee:'' @ u]\<rparr>)
         | us \<Rightarrow> Inr (z\<lparr>rz_candidate_user_ids := us\<rparr>))"

definition resolve_manager_assignment ::
    "string \<Rightarrow> doc_header \<Rightarrow> transition \<Rightarrow> gotime \<Rightarrow> identity_repo \<Rightarrow> resolution result" where
  "resolve_manager_assignment source h t now r =
     (case resolve_manager now source (dh_organization_id h) (dh_location_id h) [] now r of
        Some (line, manager) \<Rightarrow>
          Inr ((no_resolution (tr_assignment_strategy t) source)\<lparr>rz_assignee_user_id := u_id manager,
            rz_resolved_via := rep_relationship_type line, rz_trace := [rep_relationship_type line @ '':'' @ u_id manager]\<rparr>)
      | None \<Rightarrow> resolve_fallback source h t now r)"

definition resolve_assignment ::
    "doc_header \<Rightarrow> transition \<Rightarrow> string \<Rightarrow> gotime \<Rightarrow> identity_repo \<Rightarrow> resolution result" where
  "resolve_assignment h t actor now r =
     (let strategy = trim_space (tr_assignment_strategy t); z = no_resolution strategy []; creator = trim_space (dh_created_by h);
          named = z\<lparr>rz_assignee_user_id := trim_space (tr_assignee_user_id t), rz_candidate_user_ids := tr_candidate_user_ids t\<rparr>
      in
      if trim_space (tr_assignee_user_id t) \<noteq> [] \<or> tr_candidate_user_ids t \<noteq> []
      then Inr (named\<lparr>rz_resolved_via := ''policy_users''\<rparr>)
      else if strategy \<in> {[], ''static_user'', ''static_role''} then Inr z
      else if strategy = ''explicit_user'' then Inl (Validation ''explicit_user assignment requires assignee_user_id'')
      else if strategy = ''requester_manager''
      then (if creator = [] then Inl (Validation ''requester_manager assignment requires document creator'')
            else resolve_manager_assignment creator h t now r)
      else if strategy = ''previous_approver_manager''
      then (if trim_space actor = [] then Inl (Validation ''previous_approver_manager assignment requires current approver'')
            else resolve_manager_assignment (trim_space actor) h t now r)
      else if strategy = ''role_fallback'' then resolve_fallback [] h t now r
      else if strategy = ''role_group'' then resolve_role_group [] h t now r
      else if strategy = ''approver_group'' then Inl (Validation ''approver_group assignment could not be resolved'')
      else if strategy = ''hybrid''
      then (case (if creator = [] then Inl unresolved else resolve_manager_assignment creator h t now r) of
              Inr m \<Rightarrow> if rz_assignee_user_id m \<noteq> [] \<or> rz_candidate_user_ids m \<noteq> []
                then Inr (m\<lparr>rz_strategy := ''hybrid'', rz_trace := rz_trace m @ [''hybrid:manager'']\<rparr>)
                else resolve_fallback creator h t now r
            | Inl _ \<Rightarrow> resolve_fallback creator h t now r)
      else Inl (Validation ''unsupported workflow assignment strategy''))"

definition resolution_metadata :: "resolution \<Rightarrow> gotime \<Rightarrow> gobj \<Rightarrow> gobj" where
  "resolution_metadata z now md =
     (let md = mput ''resolution_time'' (GTime now) (mput ''resolved_via'' (GStr (rz_resolved_via z))
            (mput ''assignment_source_user_id'' (GStr (rz_source_user_id z)) (mput ''assignment_strategy'' (GStr (rz_strategy z)) md)));
          md = (if rz_trace z \<noteq> [] then mput ''resolution_trace'' (GStrs (rz_trace z)) md else md);
          md = (if rz_assignee_user_id z \<noteq> [] then mput ''resolved_assignee_user_id'' (GStr (rz_assignee_user_id z)) md else md)
      in if rz_candidate_user_ids z \<noteq> [] then mput ''resolved_candidate_user_ids'' (GStrs (rz_candidate_user_ids z)) md else md)"

definition snapshot_task :: "resolution \<Rightarrow> gotime \<Rightarrow> task \<Rightarrow> task" where
  "snapshot_task z now t = t\<lparr>tk_metadata := resolution_metadata z now (tk_metadata t),
     tk_assignee_user_id := (if rz_assignee_user_id z \<noteq> [] then rz_assignee_user_id z else tk_assignee_user_id t),
     tk_assignment_mode := (if rz_candidate_user_ids z \<noteq> [] then ''user_queue'' else tk_assignment_mode t)\<rparr>"

definition snapshot_approval :: "resolution \<Rightarrow> gotime \<Rightarrow> approval \<Rightarrow> approval" where
  "snapshot_approval z now a = a\<lparr>ap_metadata := resolution_metadata z now (ap_metadata a)\<rparr>"

definition apply_transition_resolution :: "resolution \<Rightarrow> transition \<Rightarrow> transition" where
  "apply_transition_resolution z t =
     (if rz_assignee_user_id z \<noteq> [] then t\<lparr>tr_assignment_mode := ''user'', tr_assignee_user_id := rz_assignee_user_id z\<rparr>
      else if rz_candidate_user_ids z \<noteq> []
      then t\<lparr>tr_assignment_mode := ''user_queue'', tr_candidate_user_ids := rz_candidate_user_ids z\<rparr> else t)"

text \<open>The transition and the mutation with the resolution written in.\<close>

definition apply_assignment_snapshots ::
    "doc_header \<Rightarrow> transition \<Rightarrow> mutation \<Rightarrow> string \<Rightarrow> gotime \<Rightarrow> identity_repo \<Rightarrow> (transition \<times> mutation) result" where
  "apply_assignment_snapshots h t m actor now r =
     (case resolve_assignment h t actor now r of
        Inl e \<Rightarrow> Inl e
      | Inr z \<Rightarrow>
          if mu_tasks m = [] \<and> mu_approvals m = [] then Inr (t, m)
          else Inr (apply_transition_resolution z t, m\<lparr>mu_tasks := map (snapshot_task z now) (mu_tasks m),
                 mu_approvals := map (snapshot_approval z now) (mu_approvals m)\<rparr>))"

definition merge_mutation :: "mutation \<Rightarrow> mutation \<Rightarrow> mutation" where
  "merge_mutation m n = \<lparr>mu_tasks = mu_tasks m @ mu_tasks n, mu_approvals = mu_approvals m @ mu_approvals n,
     mu_task_updates = mu_task_updates m @ mu_task_updates n, mu_approval_updates = mu_approval_updates m @ mu_approval_updates n,
     mu_history = mu_history m @ mu_history n\<rparr>"

text \<open>\<open>resolving\<close> is the status of the approvals and of the tasks that are resolved, if any are.\<close>

definition build_workflow_mutation ::
    "doc_header \<Rightarrow> transition \<Rightarrow> string \<Rightarrow> gotime \<Rightarrow> (string \<times> string) option \<Rightarrow> 'p app_state \<Rightarrow> mutation result" where
  "build_workflow_mutation h t actor now resolving s =
     (let m = (case resolving of None \<Rightarrow> empty_mutation
                | Some (approvals, tasks) \<Rightarrow> plan_resolve_artifacts (dh_id h) approvals tasks actor now (pp_flows s));
          created = plan_create_side_effects t ''document'' (dh_id h) actor now
      in case apply_assignment_snapshots h t created actor now (pp_identity s) of
           Inl e \<Rightarrow> Inl e | Inr (_, created) \<Rightarrow> Inr (merge_mutation m created))"

end
