(* ===== verification/DocumentActions.thy ===== *)
theory DocumentActions
  imports WorkflowDecisions
begin

text \<open>
  The actions on documents: \<open>document_actions_services.go\<close> (submit, edit, extend, approve and every other
  transition), with the progress of staged approvals, the links to approvals (\<open>document_actions.go\<close>) and the
  unit of work over the repositories in memory (\<open>unit_of_work.go\<close>).

  The repository in memory hands out its records without copying them, so the metadata map of a record that was
  read is the stored one as soon as there is a map (an empty map stands for nil): \<open>write_metadata\<close> writes both.
  A struct inside a dynamic value stands as the object of its JSON fields.
\<close>

section \<open>Metadata, shared with the stored record\<close>

definition write_metadata :: "(gobj \<Rightarrow> gobj) \<Rightarrow> doc_record \<Rightarrow> 'p app_state \<Rightarrow> doc_record \<times> 'p app_state" where
  "write_metadata f x s =
     (let did = dh_id (dr_header x); edit = (\<lambda>y. y\<lparr>dr_header := (dr_header y)\<lparr>dh_metadata := f (dh_metadata (dr_header y))\<rparr>\<rparr>);
          shared = (case map_of (rp_records (pp_docs s)) did of None \<Rightarrow> False | Some y \<Rightarrow> dh_metadata (dr_header y) \<noteq> [])
      in (edit x, if shared then s\<lparr>pp_docs := edit_record did edit (pp_docs s)\<rparr> else s))"

definition bound_workflow_version :: "doc_record \<Rightarrow> int" where
  "bound_workflow_version x = meta_int (dh_metadata (dr_header x)) ''workflow_version'' 0"

definition bind_workflow :: "transition \<Rightarrow> gobj \<Rightarrow> gobj" where
  "bind_workflow t md = mput ''workflow_version'' (GInt (tr_workflow_version t)) (mput ''workflow_key'' (GStr (tr_workflow_key t)) md)"

definition stage_actors :: "gobj \<Rightarrow> string \<Rightarrow> string list" where
  "stage_actors md stage_key =
     (if trim_space stage_key = [] then []
      else case map_of md ''approval_stage_approver_ids'' of Some (GObj m) \<Rightarrow> meta_strings m (trim_space stage_key) | _ \<Rightarrow> [])"

definition stage_has_actor :: "gobj \<Rightarrow> string \<Rightarrow> string \<Rightarrow> bool" where
  "stage_has_actor md stage_key actor \<longleftrightarrow>
     trim_space actor \<noteq> [] \<and> (\<exists>x \<in> set (stage_actors md stage_key). equal_fold (trim_space x) (trim_space actor))"

definition set_stage_actors :: "string \<Rightarrow> string list \<Rightarrow> gobj \<Rightarrow> gobj" where
  "set_stage_actors stage_key actors md =
     (if trim_space stage_key = [] then md
      else mput ''approval_stage_approver_ids'' (GObj (mput (trim_space stage_key) (GStrs (unique_strings actors))
             (case map_of md ''approval_stage_approver_ids'' of Some (GObj m) \<Rightarrow> m | _ \<Rightarrow> []))) md)"

section \<open>Audit trail, events and history\<close>

definition decision_summary :: "decision \<Rightarrow> gval" where
  "decision_summary d = GObj ([(''allowed'', GBool (dn_allowed d)), (''code'', GStr (dn_code d)), (''reason'', GStr (dn_reason d))]
     @ (if dn_output d \<noteq> [] then [(''output'', GObj (dn_output d))] else [])
     @ (if dn_trace d \<noteq> [] then [(''trace'', GObj (dn_trace d))] else []))"

definition header_value :: "doc_header \<Rightarrow> gval" where
  "header_value h = GObj [(''id'', GStr (dh_id h)), (''type'', GStr (dh_type h)), (''status'', GStr (dh_status h)),
     (''version'', GInt (dh_version h)), (''etag'', GStr (dh_etag h)), (''organization_id'', GStr (dh_organization_id h)),
     (''location_id'', GStr (dh_location_id h)), (''number'', GStr (dh_number h)), (''created_by'', GStr (dh_created_by h)),
     (''created_at'', GTime (dh_created_at h)), (''updated_by'', GStr (dh_updated_by h)), (''updated_at'', GTime (dh_updated_at h)),
     (''submitted_by'', GStr (dh_submitted_by h)), (''submitted_at'', GTime (dh_submitted_at h)),
     (''total_amount'', GObj [(''AmountMinor'', GInt (amount_minor (dh_total_amount h))), (''Currency'', GStr (currency (dh_total_amount h)))]),
     (''metadata'', GObj (dh_metadata h))]"

definition body_value :: "doc_body \<Rightarrow> gval" where
  "body_value b = GObj [(''document_id'', GStr (db_document_id b)), (''schema_version'', GStr (db_schema_version b)),
     (''payload'', GObj (db_payload b)), (''content_hash'', GStr (db_content_hash b))]"

definition snapshot_envelope :: "doc_record \<Rightarrow> doc_record \<Rightarrow> gval" where
  "snapshot_envelope before after =
     (let side = (\<lambda>x. GObj [(''header'', header_value (dr_header x)), (''body'', body_value (dr_body x))])
      in GObj [(''before'', side before), (''after'', side after)])"

definition change_summary :: "doc_record \<Rightarrow> doc_record \<Rightarrow> gobj" where
  "change_summary before after =
     (let b = dr_header before; a = dr_header after;
          fields = (if dh_status b \<noteq> dh_status a then [''header.status''] else [])
            @ (if dh_number b \<noteq> dh_number a then [''header.number''] else [])
            @ (if db_content_hash (dr_body before) \<noteq> db_content_hash (dr_body after) then [''body.payload''] else [])
      in [(''fields'', GStrs fields), (''before_version'', GInt (dh_version b)), (''after_version'', GInt (dh_version a)),
          (''before_status'', GStr (dh_status b)), (''after_status'', GStr (dh_status a))])"

definition correlation_of :: "acting \<Rightarrow> string \<Rightarrow> string" where
  "correlation_of a fallback = first_text [trim_space (ac_correlation_id a), fallback]"

definition action_audit ::
    "acting \<Rightarrow> string \<Rightarrow> string \<Rightarrow> string \<Rightarrow> string \<Rightarrow> gotime \<Rightarrow> doc_record \<Rightarrow> doc_record \<Rightarrow> gobj \<Rightarrow> audit_event" where
  "action_audit a action from_state to_state corr now before x metadata =
     \<lparr>au_event_id = ''audit:'' @ corr, au_action = action, au_target_type = ''document'', au_target_id = dh_id (dr_header x),
      au_actor_id = ac_actor_id a, au_actor_kind = ''user'', au_on_behalf_of_user_id = ac_on_behalf_of_user_id a,
      au_delegation_grant_id = ac_delegation_grant_id a, au_from_state = from_state, au_to_state = to_state,
      au_organization_id = dh_organization_id (dr_header x), au_location_id = dh_location_id (dr_header x), au_operating_unit_id = [],
      au_request_id = [], au_occurred_at = now, au_change_summary = change_summary before x, au_metadata = metadata,
      au_correlation_id = corr\<rparr>"

definition acting_fields :: "acting \<Rightarrow> gobj" where
  "acting_fields a = [(''effective_user_id'', GStr (effective_actor a)), (''on_behalf_of_user_id'', GStr (ac_on_behalf_of_user_id a)),
     (''delegation_grant_id'', GStr (ac_delegation_grant_id a))]"

definition action_event :: "acting \<Rightarrow> string \<Rightarrow> string \<Rightarrow> gotime \<Rightarrow> doc_record \<Rightarrow> gobj \<Rightarrow> event" where
  "action_event a type corr now x payload =
     \<lparr>ev_id = ''event:'' @ corr, ev_type = type, ev_version = 1, ev_schema_version = [], ev_aggregate_type = ''document'',
      ev_aggregate_id = dh_id (dr_header x), ev_actor_id = ac_actor_id a, ev_correlation_id = corr,
      ev_organization_id = dh_organization_id (dr_header x), ev_location_id = dh_location_id (dr_header x), ev_module_key = [],
      ev_occurred_at = now, ev_payload = payload\<rparr>"

definition document_fields :: "doc_record \<Rightarrow> gobj" where
  "document_fields x = [(''document_id'', GStr (dh_id (dr_header x))), (''document_type'', GStr (dh_type (dr_header x)))]"

definition workflow_fields :: "transition \<Rightarrow> gobj" where
  "workflow_fields t = [(''workflow_key'', GStr (tr_workflow_key t)), (''workflow_version'', GInt (tr_workflow_version t))]"

definition transition_metadata :: "doc_record \<Rightarrow> decisions \<Rightarrow> gobj" where
  "transition_metadata x ds =
     [(''document_type'', GStr (dh_type (dr_header x))), (''version'', GInt (dh_version (dr_header x)))]
     @ workflow_fields (de_transition ds)
     @ [(''policy_code'', GStr (dn_code (de_permit ds))), (''policy_reason'', GStr (dn_reason (de_permit ds))),
        (''assignment_policy'', decision_summary (de_assignment ds)), (''sla_policy'', decision_summary (de_sla ds))]"

definition policy_fields :: "decisions \<Rightarrow> gobj" where
  "policy_fields ds = [(''transition_policy'', decision_summary (de_permit ds)),
     (''assignment_policy'', decision_summary (de_assignment ds)), (''sla_policy'', decision_summary (de_sla ds))]"

definition transition_payload :: "acting \<Rightarrow> doc_record \<Rightarrow> doc_record \<Rightarrow> decisions \<Rightarrow> gobj" where
  "transition_payload a before x ds =
     document_fields x @ [(''from_state'', GStr (tr_from_state (de_transition ds))), (''to_state'', GStr (tr_to_state (de_transition ds))),
       (''version'', GInt (dh_version (dr_header x)))]
     @ workflow_fields (de_transition ds) @ policy_fields ds @ [(''snapshots'', snapshot_envelope before x)] @ acting_fields a"

definition stage_payload :: "acting \<Rightarrow> doc_record \<Rightarrow> doc_record \<Rightarrow> decisions \<Rightarrow> gobj \<Rightarrow> gobj" where
  "stage_payload a before x ds stage =
     document_fields x @ [(''status'', GStr (dh_status (dr_header x))), (''version'', GInt (dh_version (dr_header x)))]
     @ workflow_fields (de_transition ds) @ policy_fields ds @ [(''approval_stage'', GObj stage), (''snapshots'', snapshot_envelope before x)]
     @ acting_fields a"

definition edit_payload :: "acting \<Rightarrow> doc_record \<Rightarrow> doc_record \<Rightarrow> gobj \<Rightarrow> gobj" where
  "edit_payload a before x extra =
     document_fields x @ extra @ [(''status'', GStr (dh_status (dr_header x))), (''version'', GInt (dh_version (dr_header x))),
       (''snapshots'', snapshot_envelope before x)] @ acting_fields a"

definition history_of_action ::
    "doc_record \<Rightarrow> transition \<Rightarrow> string \<Rightarrow> string \<Rightarrow> decision \<Rightarrow> decision \<Rightarrow> gotime \<Rightarrow> history_event" where
  "history_of_action x t actor corr permit assign now =
     \<lparr>he_id = ''workflow-history:'' @ dh_id (dr_header x) @ '':'' @ tr_action t @ '':'' @ show_int (dh_version (dr_header x)),
      he_workflow_key = tr_workflow_key t, he_workflow_version = tr_workflow_version t, he_target_type = ''document'',
      he_target_id = dh_id (dr_header x), he_action = tr_action t, he_from_state = tr_from_state t, he_to_state = tr_to_state t,
      he_actor_id = actor, he_occurred_at = now, he_decision_code = dn_code permit, he_decision_reason = dn_reason permit,
      he_assignment_summary = [(''assignment_strategy'', GStr (tr_assignment_strategy t)), (''assignment_mode'', GStr (tr_assignment_mode t)),
        (''assignee_role_key'', GStr (tr_assignee_role_key t)), (''assignee_user_id'', GStr (tr_assignee_user_id t)),
        (''fallback_role_key'', GStr (tr_fallback_role_key t)), (''candidate_role_keys'', GStrs (tr_candidate_role_keys t)),
        (''candidate_user_ids'', GStrs (tr_candidate_user_ids t)), (''assignment_policy'', decision_summary assign)],
      he_metadata = [(''document_type'', GStr (dh_type (dr_header x))), (''status'', GStr (dh_status (dr_header x))),
        (''correlation_id'', GStr corr), (''approval_policy_id'', GStr (meta_string (tr_metadata t) ''approval_policy_id'')),
        (''approval_stage_key'', GStr (meta_string (tr_metadata t) ''approval_stage_key'')),
        (''approval_stage_sequence'', GInt (meta_int (tr_metadata t) ''approval_stage_sequence'' 0))]\<rparr>"

definition append_history :: "history_event \<Rightarrow> mutation \<Rightarrow> mutation" where
  "append_history e m = m\<lparr>mu_history := mu_history m @ [e]\<rparr>"

section \<open>The unit of work in memory\<close>

definition update_document :: "int \<Rightarrow> doc_record \<Rightarrow> 'p app_state \<Rightarrow> goerr option \<times> 'p app_state" where
  "update_document previous x s =
     (case get_document (dh_id (dr_header x)) (pp_docs s) of
        Inl e \<Rightarrow> (Some e, s)
      | Inr current \<Rightarrow>
          if dh_version (dr_header current) \<noteq> previous then (Some (Conflict ''document version mismatch''), s)
          else (None, s\<lparr>pp_docs := save_record x (pp_docs s)\<rparr>))"

definition save_audit :: "audit_event \<Rightarrow> 'p app_state \<Rightarrow> goerr option \<times> 'p app_state" where
  "save_audit e s = (None, s\<lparr>pp_audit := record_audit e (pp_audit s)\<rparr>)"

definition save_domain_event :: "'p app_env \<Rightarrow> event \<Rightarrow> 'p app_state \<Rightarrow> goerr option \<times> 'p app_state" where
  "save_domain_event env e s =
     (let (err, r) = record_event (pe_validate env) (pe_events env) (pe_sinks env) (pe_clock env 9) e (pp_events s)
      in (err, s\<lparr>pp_events := r\<rparr>))"

definition apply_workflow_mutation :: "mutation \<Rightarrow> 'p app_state \<Rightarrow> goerr option \<times> 'p app_state" where
  "apply_workflow_mutation m s = (let (err, r) = apply_mutation m (pp_flows s) in (err, s\<lparr>pp_flows := r\<rparr>))"

text \<open>\<open>documentPersistCommand.Run\<close>; \<open>SaveOutbox\<close> of the unit of work in memory does nothing, \<^const>\<open>record_event\<close> saves the outbox record.\<close>

definition persist_command ::
    "'p app_env \<Rightarrow> int \<Rightarrow> doc_record \<Rightarrow> audit_event \<Rightarrow> event \<Rightarrow> mutation \<Rightarrow> 'p app_state \<Rightarrow> goerr option \<times> 'p app_state" where
  "persist_command env previous x audit ev m s =
     and_then (update_document previous x s) (\<lambda>s.
     and_then (save_audit audit s) (\<lambda>s.
     and_then (save_domain_event env ev s) (\<lambda>s.
     apply_workflow_mutation m s)))"

section \<open>Links to approvals\<close>

definition action_permission :: "string \<Rightarrow> string list" where
  "action_permission action =
     (let a = trim_space action in
      if a \<in> {''approve'', ''reject'', ''reopen'', ''cancel''} then [''document.'' @ a] else [])"

definition approval_link :: "doc_record \<Rightarrow> approval \<Rightarrow> string \<Rightarrow> gotime \<Rightarrow> deep_link_grant" where
  "approval_link x ap user_id now =
     (let h = dr_header x; md = ap_metadata ap; ttl = meta_int md ''link_ttl_seconds'' 900; ttl = (if ttl \<le> 0 then 900 else ttl);
          review_only = meta_bool md ''link_review_only''; actions = meta_strings md ''link_allowed_actions'';
          permissions = ''document.read'' # (if review_only then [] else concat (map action_permission actions))
      in \<lparr>dk_id = [], dk_kind = ''workflow_approval'', dk_user_id = user_id, dk_status = ''pending'', dk_target_type = ''workflow_approval'',
          dk_target_id = ap_id ap, dk_location_id = dh_location_id h, dk_allowed_permission_keys = unique_strings permissions,
          dk_allowed_actions = unique_strings actions, dk_review_only = review_only,
          dk_require_step_up = meta_bool md ''link_require_step_up'', dk_one_time = True,
          dk_title = first_text [trim_space (dh_number h), trim_space (dh_type h), dh_id h],
          dk_message = first_text [trim_space (ap_stage_key ap), trim_space (ap_workflow_key ap), ''workflow approval''],
          dk_starts_at = now, dk_expires_at = now + seconds ttl, dk_activated_at = zero_time, dk_consumed_at = zero_time,
          dk_consumed_by_action = [], dk_revoked_at = zero_time, dk_created_at = zero_time, dk_updated_at = zero_time,
          dk_metadata = [(''document_id'', GStr (dh_id h)), (''document_type'', GStr (dh_type h)),
            (''workflow_key'', GStr (ap_workflow_key ap)), (''workflow_stage'', GStr (ap_stage_key ap)), (''approval_id'', GStr (ap_id ap))]\<rparr>)"

definition issue_link :: "'p app_env \<Rightarrow> doc_record \<Rightarrow> gotime \<Rightarrow> nat \<times> approval \<Rightarrow> identity_repo \<Rightarrow> identity_repo" where
  "issue_link env x now = (\<lambda>(i, ap) r.
     (let user_id = trim_space (meta_string (ap_metadata ap) ''resolved_assignee_user_id'') in
      if trim_space (to_lower (meta_string (ap_metadata ap) ''link_mode'')) \<noteq> ''tokenized'' \<or> user_id = [] then r
      else if find_active_deep_link_grant (pe_clock env (10 + 2 * i)) ''workflow_approval'' (ap_id ap) user_id now r \<noteq> None then r
      else snd (save_deep_link_grant (pe_ulid env i) (pe_clock env (10 + 2 * i)) (pe_clock env (11 + 2 * i)) (approval_link x ap user_id now) r)))"

definition issue_links :: "'p app_env \<Rightarrow> doc_record \<Rightarrow> approval list \<Rightarrow> gotime \<Rightarrow> identity_repo \<Rightarrow> identity_repo" where
  "issue_links env x aps now r = fold (issue_link env x now) (enumerate 0 aps) r"

text \<open>Persist, then publish what was planned unless a draft was edited.\<close>

definition persist_document ::
    "'p app_env \<Rightarrow> int \<Rightarrow> doc_record \<Rightarrow> audit_event \<Rightarrow> event \<Rightarrow> mutation \<Rightarrow> bool \<Rightarrow> 'p app_state \<Rightarrow> doc_record result \<times> 'p app_state" where
  "persist_document env previous x audit ev m draft s =
     (case persist_command env previous x audit ev m s of
        (Some e, s) \<Rightarrow> (Inl e, s)
      | (None, s) \<Rightarrow> (Inr x, if draft then s
          else s\<lparr>pp_identity := issue_links env x (mu_approvals m) (pe_clock env 1) (pp_identity s)\<rparr>))"


section \<open>Staged approvals\<close>

text \<open>The pending approval of the highest stage, or the latest.\<close>

definition later_approval :: "approval \<Rightarrow> approval option \<Rightarrow> approval option" where
  "later_approval a current =
     (case current of
        None \<Rightarrow> Some a
      | Some c \<Rightarrow>
          if meta_int (ap_metadata c) ''approval_stage_sequence'' 0 < meta_int (ap_metadata a) ''approval_stage_sequence'' 0
             \<or> ap_requested_at c < ap_requested_at a
          then Some a else Some c)"

definition current_pending_approval :: "string \<Rightarrow> wf_repo \<Rightarrow> approval option" where
  "current_pending_approval did r =
     (if trim_space did = [] then None
      else fold later_approval (filter (\<lambda>a. ap_target_id a = did \<and> ap_status a = ''pending'') (list_approvals r)) None)"

definition find_stage :: "int \<Rightarrow> approval_stage list \<Rightarrow> approval_stage option" where
  "find_stage n sgs = find (\<lambda>sg. sg_sequence sg = n) sgs"

text \<open>The part of a progress the quorum of the current stage decides.\<close>

record quorum =
  qm_stage :: approval_stage
  qm_approvers :: "string list"

definition quorum_fields :: "string \<Rightarrow> quorum \<Rightarrow> gobj" where
  "quorum_fields policy_id q =
     (let sg = qm_stage q in
      [(''approval_policy_id'', GStr policy_id), (''current_stage_key'', GStr (sg_stage_key sg)),
       (''current_stage_sequence'', GInt (sg_sequence sg)), (''current_stage_total'', GInt (sg_total_stages sg)),
       (''required_approver_count'', GInt (sg_required_approver_count sg)),
       (''current_approver_count'', GInt (int (length (qm_approvers q)))), (''recorded_approver_ids'', GStrs (qm_approvers q)),
       (''approval_routing_mode'', GStr (first_text [sg_routing_mode sg, sg_assignment_strategy sg])),
       (''requires_different_actor'', GBool (sg_requires_different_actor sg)), (''quorum_pending'', GBool True)])"

text \<open>
  Recording an approver of the current stage, if it needs more than one: the quorum, or \<^const>\<open>None\<close>
  where the stage needs no quorum, and the record with the approver in its metadata.
\<close>

definition record_approver ::
    "approval_stage option \<Rightarrow> string \<Rightarrow> doc_record \<Rightarrow> 'p app_state \<Rightarrow> quorum option result \<times> doc_record \<times> 'p app_state" where
  "record_approver stage actor x s =
     (case stage of
        None \<Rightarrow> (Inr None, x, s)
      | Some sg \<Rightarrow>
          if sg_required_approver_count sg \<le> 1 then (Inr None, x, s)
          else
            let md = dh_metadata (dr_header x) in
            if stage_has_actor md (sg_stage_key sg) actor
            then (Inl (Conflict ''approval already recorded for the current stage''), x, s)
            else
              let approvers = unique_strings (stage_actors md (sg_stage_key sg)) @ [trim_space actor];
                  (x, s) = write_metadata (set_stage_actors (sg_stage_key sg) approvers) x s
              in (Inr (Some \<lparr>qm_stage = sg, qm_approvers = approvers\<rparr>), x, s))"

text \<open>The transition that opens the next stage, and what it creates under the names of that stage.\<close>

definition next_stage_transition ::
    "model_env \<Rightarrow> string \<Rightarrow> approval \<Rightarrow> approval_stage \<Rightarrow> nat \<Rightarrow> doc_record \<Rightarrow> transition \<Rightarrow> transition" where
  "next_stage_transition env policy_id current sg stages x base =
     apply_stage env policy_id [] sg (int stages)
       (base\<lparr>tr_to_state := dh_status (dr_header x),
         tr_task_type := first_text [meta_string (ap_metadata current) ''task_type'', tr_task_type base, ''review''],
         tr_create_approval := True, tr_assignment_mode := [], tr_assignee_user_id := [], tr_candidate_user_ids := []\<rparr>)"

definition stage_artifacts :: "string \<Rightarrow> string \<Rightarrow> transition \<Rightarrow> mutation \<Rightarrow> mutation" where
  "stage_artifacts did stage_key t m =
     (let typed = mput ''task_type'' (GStr (tr_task_type t)) in
      m\<lparr>mu_tasks := map (\<lambda>k. k\<lparr>tk_id := ''task:'' @ did @ '':stage:'' @ stage_key, tk_metadata := typed (tk_metadata k)\<rparr>) (mu_tasks m),
        mu_approvals := map (\<lambda>a. a\<lparr>ap_id := ''approval:'' @ did @ '':stage:'' @ stage_key, ap_metadata := typed (ap_metadata a)\<rparr>)
          (mu_approvals m)\<rparr>)"

definition next_stage_fields :: "string \<Rightarrow> approval \<Rightarrow> int \<Rightarrow> approval_stage \<Rightarrow> transition \<Rightarrow> gobj" where
  "next_stage_fields policy_id current sequence sg t =
     [(''approval_policy_id'', GStr policy_id),
      (''current_stage_key'', GStr (meta_string (ap_metadata current) ''approval_stage_key'')),
      (''current_stage_sequence'', GInt sequence), (''next_stage_key'', GStr (sg_stage_key sg)),
      (''next_stage_sequence'', GInt (sg_sequence sg)), (''next_stage_total'', GInt (sg_total_stages sg)),
      (''approval_routing_mode'', GStr (first_text [sg_routing_mode sg, sg_assignment_strategy sg])),
      (''requires_different_actor'', GBool (sg_requires_different_actor sg)),
      (''resolved_assignee_user_id'', GStr (tr_assignee_user_id t))]
     @ (if tr_candidate_user_ids t \<noteq> [] then [(''resolved_candidate_user_ids'', GStrs (tr_candidate_user_ids t))] else [])"

text \<open>
  A progress within the stages: the mutation, the payload, and the base transition as the history shows it. The
  metadata map of the next transition is the one of the base transition, where there is one.
\<close>

record progress =
  pg_mutation :: mutation
  pg_payload :: gobj
  pg_transition :: transition

definition open_next_stage ::
    "'p app_env \<Rightarrow> string \<Rightarrow> approval \<Rightarrow> int \<Rightarrow> approval_stage \<Rightarrow> nat \<Rightarrow> doc_record \<Rightarrow> string \<Rightarrow> transition \<Rightarrow> gotime \<Rightarrow> 'p app_state
       \<Rightarrow> progress result" where
  "open_next_stage env policy_id current sequence sg stages x actor base now s =
     (let did = dh_id (dr_header x); t = next_stage_transition (pe_model env) policy_id current sg stages x base;
          created = stage_artifacts did (sg_stage_key sg) t (plan_create_side_effects t ''document'' did actor now);
          resolved = plan_resolve_artifacts did ''approved'' ''completed'' actor now (pp_flows s)
      in case apply_assignment_snapshots (dr_header x) t created actor now (pp_identity s) of
           Inl e \<Rightarrow> Inl e
         | Inr (t, created) \<Rightarrow>
             Inr \<lparr>pg_mutation = merge_mutation resolved created, pg_payload = next_stage_fields policy_id current sequence sg t,
               pg_transition = (if tr_metadata base = [] then base else base\<lparr>tr_metadata := tr_metadata t\<rparr>)\<rparr>)"

definition resolve_approval_progression ::
    "'p app_env \<Rightarrow> doc_record \<Rightarrow> string \<Rightarrow> transition \<Rightarrow> gotime \<Rightarrow> 'p app_state \<Rightarrow> progress option result \<times> doc_record \<times> 'p app_state" where
  "resolve_approval_progression env x actor base now s =
     (if \<not> pe_approval_rules env then (Inr None, x, s)
      else case current_pending_approval (dh_id (dr_header x)) (pp_flows s) of
        None \<Rightarrow> (Inr None, x, s)
      | Some current \<Rightarrow>
          let policy_id = meta_string (ap_metadata current) ''approval_policy_id'';
              sequence = meta_int (ap_metadata current) ''approval_stage_sequence'' 0
          in if policy_id = [] \<or> sequence \<le> 0 then (Inr None, x, s)
          else (case stages_for_policy (pe_model env) policy_id (pp_models s) of
            Inl e \<Rightarrow> (Inl e, x, s)
          | Inr stages \<Rightarrow>
              (case record_approver (find_stage sequence stages) actor x s of
                 (Inl e, x, s) \<Rightarrow> (Inl e, x, s)
               | (Inr q, x, s) \<Rightarrow>
                   (case q of
                      Some q \<Rightarrow>
                        if int (length (qm_approvers q)) < sg_required_approver_count (qm_stage q)
                        then (Inr (Some \<lparr>pg_mutation = empty_mutation, pg_payload = quorum_fields policy_id q, pg_transition = base\<rparr>), x, s)
                        else (case find_stage (sequence + 1) stages of
                            None \<Rightarrow> (Inr None, x, s)
                          | Some sg \<Rightarrow> (map_sum id Some (open_next_stage env policy_id current sequence sg (length stages) x actor base now s), x, s))
                    | None \<Rightarrow>
                        (case find_stage (sequence + 1) stages of
                            None \<Rightarrow> (Inr None, x, s)
                          | Some sg \<Rightarrow> (map_sum id Some (open_next_stage env policy_id current sequence sg (length stages) x actor base now s), x, s))))))"

section \<open>The actions\<close>

definition check_expected :: "doc_record \<Rightarrow> int \<Rightarrow> string \<Rightarrow> goerr option" where
  "check_expected x version etag =
     (if 0 < version \<and> dh_version (dr_header x) \<noteq> version then Some (Conflict ''document version mismatch'')
      else if etag \<noteq> [] \<and> dh_etag (dr_header x) \<noteq> etag then Some (Conflict ''document etag mismatch'')
      else None)"

text \<open>\<open>Version++\<close> (64 bits), the ETag of the new version, and who wrote it when.\<close>

definition next_version :: "string \<Rightarrow> gotime \<Rightarrow> doc_record \<Rightarrow> doc_record" where
  "next_version actor now x =
     (let h = dr_header x; v = wrap64 (dh_version h + 1)
      in x\<lparr>dr_header := h\<lparr>dh_version := v, dh_etag := dh_id h @ '':'' @ show_int v, dh_updated_by := actor, dh_updated_at := now\<rparr>\<rparr>)"

definition set_status :: "string \<Rightarrow> doc_record \<Rightarrow> doc_record" where
  "set_status status x = x\<lparr>dr_header := (dr_header x)\<lparr>dh_status := status\<rparr>\<rparr>"

definition set_number :: "string \<Rightarrow> doc_record \<Rightarrow> doc_record" where
  "set_number number x = x\<lparr>dr_header := (dr_header x)\<lparr>dh_number := number\<rparr>\<rparr>"

definition set_payload :: "doc_env \<Rightarrow> gobj \<Rightarrow> doc_record \<Rightarrow> doc_record" where
  "set_payload env p x = x\<lparr>dr_body := (dr_body x)\<lparr>db_payload := p, db_content_hash := content_hash env p\<rparr>\<rparr>"

definition numbering_inputs :: "doc_header \<Rightarrow> string \<Rightarrow> string \<Rightarrow> gobj" where
  "numbering_inputs h key action = [(''document_id'', GStr (dh_id h)), (''document_type'', GStr (dh_type h)),
     (''numbering_key'', GStr key), (''action'', GStr action), (''organization_id'', GStr (dh_organization_id h)),
     (''location_id'', GStr (dh_location_id h))]"

definition assign_number ::
    "'p app_env \<Rightarrow> doc_definition \<Rightarrow> string \<Rightarrow> string \<Rightarrow> gotime \<Rightarrow> doc_record \<Rightarrow> 'p app_state \<Rightarrow> doc_record \<times> 'p app_state" where
  "assign_number env def actor action now x s =
     (let h = dr_header x; key = dd_numbering_key def; default_number = key @ ''-'' @ pe_stamp env now in
      if key = [] \<or> dh_number h \<noteq> [] then (x, s)
      else if \<not> pe_policy env then (set_number default_number x, s)
      else
        let (d, s) = ask_policy env 8 (policy_request_of h ''documents.numbering.assign'' actor (numbering_inputs h key action)) s
        in (set_number (case map_of (dn_output d) ''number'' of
                 Some (GStr n) \<Rightarrow> if n \<noteq> [] then n else default_number | _ \<Rightarrow> default_number) x, s))"

definition merge_base_payload :: "doc_env \<Rightarrow> gobj \<Rightarrow> gobj \<Rightarrow> gobj" where
  "merge_base_payload env existing updated =
     (case map_of (normalize_payload env existing) ''extensions'' of
        Some (GObj exts) \<Rightarrow> mput ''extensions'' (GObj exts) (normalize_payload env updated)
      | _ \<Rightarrow> normalize_payload env updated)"


text \<open>The end of every transition: the audit event, the domain event, the history, and everything stored.\<close>

definition finish_transition ::
    "'p app_env \<Rightarrow> acting \<Rightarrow> string \<Rightarrow> string \<Rightarrow> doc_record \<Rightarrow> doc_record \<Rightarrow> decisions \<Rightarrow> mutation \<Rightarrow> 'p app_state
       \<Rightarrow> doc_record result \<times> 'p app_state" where
  "finish_transition env a action type before x ds m s =
     (let h = dr_header x; t = de_transition ds; now = pe_clock env 0;
          corr = correlation_of a (''doc-'' @ action @ '':'' @ dh_id h @ '':'' @ show_int (dh_version h));
          audit = action_audit a (''document.'' @ action) (tr_from_state t) (tr_to_state t) corr now (pe_copy env before) x
                    (transition_metadata x ds);
          ev = action_event a type corr now x (transition_payload a (pe_copy env before) x ds);
          hist = history_of_action x t (effective_actor a) corr (de_permit ds) (de_assignment ds) now
      in persist_document env (dh_version (dr_header before)) x audit ev (append_history hist m) False s)"

text \<open>The status, the bound workflow and the number of a document that moves.\<close>

definition move_document ::
    "'p app_env \<Rightarrow> doc_definition \<Rightarrow> string \<Rightarrow> string \<Rightarrow> transition \<Rightarrow> doc_record \<Rightarrow> 'p app_state \<Rightarrow> doc_record \<times> 'p app_state" where
  "move_document env def actor action t x s =
     (let (x, s) = write_metadata (bind_workflow t) (set_status (tr_to_state t) x) s;
          (x, s) = assign_number env def actor action (pe_clock env 0) x s
      in (next_version actor (pe_clock env 0) x, s))"

definition mark_submitted :: "string \<Rightarrow> gotime \<Rightarrow> doc_record \<Rightarrow> doc_record" where
  "mark_submitted actor now x = x\<lparr>dr_header := (dr_header x)\<lparr>dh_submitted_by := actor, dh_submitted_at := now\<rparr>\<rparr>"

definition submit_document ::
    "'p app_env \<Rightarrow> string \<Rightarrow> acting \<Rightarrow> int \<Rightarrow> string \<Rightarrow> 'p app_state \<Rightarrow> doc_record result \<times> 'p app_state" where
  "submit_document env did a version etag s =
     (case get_document did (pp_docs s) of
        Inl e \<Rightarrow> (Inl e, s)
      | Inr x \<Rightarrow>
     (case check_expected x version etag of
        Some e \<Rightarrow> (Inl e, s)
      | None \<Rightarrow>
     (case doc_definition_of (dh_type (dr_header x)) (pp_docs s) of
        Inl e \<Rightarrow> (Inl e, s)
      | Inr def \<Rightarrow>
          if dd_workflow_key def = [] then (Inl (Conflict ''document type has no workflow binding''), s) else
     (case execute (dd_workflow_key def) (dh_status (dr_header x)) ''submit'' (pp_flows s) of
        Inl e \<Rightarrow> (Inl e, s)
      | Inr t \<Rightarrow>
     (case apply_runtime_decisions env x (effective_actor a) ''submit'' t s of
        (Inl e, s) \<Rightarrow> (Inl e, s)
      | (Inr ds, s) \<Rightarrow>
          let (y, s) = move_document env def (effective_actor a) ''submit'' (de_transition ds) x s;
              y = mark_submitted (effective_actor a) (pe_clock env 0) y
          in (case build_workflow_mutation (dr_header y) (de_transition ds) (effective_actor a) (pe_clock env 0) None s of
                Inl e \<Rightarrow> (Inl e, s)
              | Inr m \<Rightarrow> finish_transition env a ''submit'' ''document.submitted'' x y ds m s))))))"

text \<open>The transition of an action: allowed by the published workflow and, where the document is bound to a version, by that version.\<close>

definition bound_transition :: "string \<Rightarrow> doc_record \<Rightarrow> string \<Rightarrow> wf_repo \<Rightarrow> transition result" where
  "bound_transition workflow_key x action r =
     (case execute workflow_key (dh_status (dr_header x)) action r of
        Inl e \<Rightarrow> Inl e
      | Inr t \<Rightarrow>
          if 0 < bound_workflow_version x
          then execute_version workflow_key (bound_workflow_version x) (dh_status (dr_header x)) action r else Inr t)"

text \<open>A step within the stages of an approval.\<close>

definition finish_stage ::
    "'p app_env \<Rightarrow> acting \<Rightarrow> doc_record \<Rightarrow> doc_record \<Rightarrow> decisions \<Rightarrow> progress \<Rightarrow> 'p app_state \<Rightarrow> doc_record result \<times> 'p app_state" where
  "finish_stage env a before x ds pg s =
     (let h = dr_header x; t = de_transition ds; now = pe_clock env 0;
          corr = correlation_of a (''doc-approve-stage:'' @ dh_id h @ '':'' @ show_int (dh_version h));
          audit = action_audit a ''document.approval.progress'' (tr_from_state t) (dh_status h) corr now (pe_copy env before) x
                    (transition_metadata x ds @ [(''approval_stage'', GObj (pg_payload pg))]);
          ev = action_event a ''document.approval.progressed'' corr now x (stage_payload a (pe_copy env before) x ds (pg_payload pg));
          hist = history_of_action x ((pg_transition pg)\<lparr>tr_to_state := dh_status h\<rparr>) (effective_actor a) corr (de_permit ds)
                   (de_assignment ds) now
      in persist_document env (dh_version (dr_header before)) x audit ev (append_history hist (pg_mutation pg)) False s)"

definition approve_document ::
    "'p app_env \<Rightarrow> string \<Rightarrow> acting \<Rightarrow> int \<Rightarrow> string \<Rightarrow> 'p app_state \<Rightarrow> doc_record result \<times> 'p app_state" where
  "approve_document env did a version etag s =
     (case get_document did (pp_docs s) of
        Inl e \<Rightarrow> (Inl e, s)
      | Inr x \<Rightarrow>
     (case check_expected x version etag of
        Some e \<Rightarrow> (Inl e, s)
      | None \<Rightarrow>
     (case doc_definition_of (dh_type (dr_header x)) (pp_docs s) of
        Inl e \<Rightarrow> (Inl e, s)
      | Inr def \<Rightarrow>
     (case bound_transition (dd_workflow_key def) x ''approve'' (pp_flows s) of
        Inl e \<Rightarrow> (Inl e, s)
      | Inr t \<Rightarrow>
     (case apply_runtime_decisions env x (effective_actor a) ''approve'' t s of
        (Inl e, s) \<Rightarrow> (Inl e, s)
      | (Inr ds, s) \<Rightarrow>
     (case resolve_approval_progression env x (effective_actor a) (de_transition ds) (pe_clock env 0) s of
        (Inl e, _, s) \<Rightarrow> (Inl e, s)
      | (Inr (Some pg), y, s) \<Rightarrow> finish_stage env a x (next_version (effective_actor a) (pe_clock env 0) y) ds pg s
      | (Inr None, y, s) \<Rightarrow>
          let (y, s) = move_document env def (effective_actor a) ''approve'' (de_transition ds) y s
          in (case build_workflow_mutation (dr_header y) (de_transition ds) (effective_actor a) (pe_clock env 0)
                     (Some (''approved'', ''completed'')) s of
                Inl e \<Rightarrow> (Inl e, s)
              | Inr m \<Rightarrow> finish_transition env a ''approve'' ''document.approved'' x y ds m s)))))))"

text \<open>What a transition other than an approval plans: reject and cancel close the open work of the document.\<close>

definition plan_transition ::
    "'p app_env \<Rightarrow> string \<Rightarrow> doc_header \<Rightarrow> string \<Rightarrow> string \<Rightarrow> transition \<Rightarrow> 'p app_state \<Rightarrow> mutation result" where
  "plan_transition env did h action actor t s =
     (let now = pe_clock env 0;
          m = (if action = ''reject'' \<or> action = ''cancel''
               then plan_resolve_artifacts did (tr_to_state t) ''cancelled'' actor now (pp_flows s) else empty_mutation)
      in if tr_task_type t = [] \<and> \<not> tr_create_approval t then Inr m
         else map_sum id (merge_mutation m) (build_workflow_mutation h t actor now None s))"

definition transition_document ::
    "'p app_env \<Rightarrow> string \<Rightarrow> acting \<Rightarrow> int \<Rightarrow> string \<Rightarrow> string \<Rightarrow> string \<Rightarrow> 'p app_state \<Rightarrow> doc_record result \<times> 'p app_state" where
  "transition_document env did a version etag action type s =
     (case get_document did (pp_docs s) of
        Inl e \<Rightarrow> (Inl e, s)
      | Inr x \<Rightarrow>
     (case check_expected x version etag of
        Some e \<Rightarrow> (Inl e, s)
      | None \<Rightarrow>
     (case doc_definition_of (dh_type (dr_header x)) (pp_docs s) of
        Inl e \<Rightarrow> (Inl e, s)
      | Inr def \<Rightarrow>
     (case bound_transition (dd_workflow_key def) x action (pp_flows s) of
        Inl e \<Rightarrow> (Inl e, s)
      | Inr t \<Rightarrow>
     (case apply_runtime_decisions env x (effective_actor a) action t s of
        (Inl e, s) \<Rightarrow> (Inl e, s)
      | (Inr ds, s) \<Rightarrow>
     (case plan_transition env did (dr_header x) action (effective_actor a) (de_transition ds) s of
        Inl e \<Rightarrow> (Inl e, s)
      | Inr m \<Rightarrow>
          let (y, s) = write_metadata (bind_workflow (de_transition ds)) (set_status (tr_to_state (de_transition ds)) x) s;
              y = next_version (effective_actor a) (pe_clock env 0) y
          in finish_transition env a action type x y ds m s))))))"

definition reject_document ::
    "'p app_env \<Rightarrow> string \<Rightarrow> acting \<Rightarrow> int \<Rightarrow> string \<Rightarrow> 'p app_state \<Rightarrow> doc_record result \<times> 'p app_state" where
  "reject_document env did a version etag s = transition_document env did a version etag ''reject'' ''document.reject'' s"

definition reopen_document ::
    "'p app_env \<Rightarrow> string \<Rightarrow> acting \<Rightarrow> int \<Rightarrow> string \<Rightarrow> 'p app_state \<Rightarrow> doc_record result \<times> 'p app_state" where
  "reopen_document env did a version etag s = transition_document env did a version etag ''reopen'' ''document.reopened'' s"

definition cancel_document ::
    "'p app_env \<Rightarrow> string \<Rightarrow> acting \<Rightarrow> int \<Rightarrow> string \<Rightarrow> 'p app_state \<Rightarrow> doc_record result \<times> 'p app_state" where
  "cancel_document env did a version etag s = transition_document env did a version etag ''cancel'' ''document.cancelled'' s"

section \<open>Editing drafts\<close>

definition finish_edit ::
    "'p app_env \<Rightarrow> acting \<Rightarrow> string \<Rightarrow> string \<Rightarrow> string \<Rightarrow> gobj \<Rightarrow> doc_record \<Rightarrow> doc_record \<Rightarrow> 'p app_state
       \<Rightarrow> doc_record result \<times> 'p app_state" where
  "finish_edit env a action type corr extra before x s =
     (let h = dr_header x; now = pe_clock env 0;
          corr = correlation_of a (corr @ dh_id h @ '':'' @ show_int (dh_version h));
          audit = action_audit a action (dh_status h) (dh_status h) corr now (pe_copy env before) x
                    ((''document_type'', GStr (dh_type h)) # extra @ [(''version'', GInt (dh_version h))]);
          ev = action_event a type corr now x (edit_payload a (pe_copy env before) x extra)
      in persist_document env (dh_version (dr_header before)) x audit ev empty_mutation True s)"

definition update_draft ::
    "'p app_env \<Rightarrow> string \<Rightarrow> acting \<Rightarrow> gobj \<Rightarrow> int \<Rightarrow> string \<Rightarrow> 'p app_state \<Rightarrow> doc_record result \<times> 'p app_state" where
  "update_draft env did a payload version etag s =
     (case get_document did (pp_docs s) of
        Inl e \<Rightarrow> (Inl e, s)
      | Inr x \<Rightarrow>
          if dh_status (dr_header x) \<noteq> ''draft'' then (Inl (Conflict ''only draft documents may be updated''), s)
          else (case check_expected x version etag of
                  Some e \<Rightarrow> (Inl e, s)
                | None \<Rightarrow>
                    let y = set_payload (pe_doc env) (merge_base_payload (pe_doc env) (db_payload (dr_body x)) payload)
                          (next_version (effective_actor a) (pe_clock env 0) x)
                    in finish_edit env a ''document.update'' ''document.updated'' ''doc-update:'' [] x y s))"

definition update_extension ::
    "'p app_env \<Rightarrow> string \<Rightarrow> string \<Rightarrow> acting \<Rightarrow> gobj \<Rightarrow> int \<Rightarrow> string \<Rightarrow> 'p app_state \<Rightarrow> doc_record result \<times> 'p app_state" where
  "update_extension env did module_key a payload version etag s =
     (case get_document did (pp_docs s) of
        Inl e \<Rightarrow> (Inl e, s)
      | Inr x \<Rightarrow>
          if dh_status (dr_header x) \<noteq> ''draft'' then (Inl (Conflict ''only draft documents may be extended''), s)
          else (case check_expected x version etag of
                  Some e \<Rightarrow> (Inl e, s)
                | None \<Rightarrow>
                    if module_key \<notin> set (map xd_module_key (list_extension_definitions (dh_type (dr_header x)) (pp_docs s)))
                    then (Inl (Validation ''document extension is not registered''), s)
                    else
                      let y = set_payload (pe_doc env) (set_extension_payload (pe_doc env) (db_payload (dr_body x)) module_key payload)
                            (next_version (effective_actor a) (pe_clock env 0) x)
                      in finish_edit env a ''document.extension.update'' ''document.extension.updated''
                           (''doc-extension-update:'' @ module_key @ '':'') [(''module_key'', GStr module_key)] x y s))"

end
