(* ===== verification/ActionFacts.thy ===== *)
theory ActionFacts
  imports DocumentActions DocumentFacts WorkflowTasks
begin

text \<open>
  What the actions on documents guarantee, over the services they call: a document moves only as its workflow
  declares and its policies allow, a staged approval ends with the quorum of its last stage, every change leaves one
  audit event, one domain event and one entry of history, and what fails leaves everything but the metadata alone.
\<close>

section \<open>Commands\<close>

datatype command = Submit | Approve | Move string string | EditDraft gobj | Extend string gobj

fun run_command ::
    "'p app_env \<Rightarrow> string \<Rightarrow> acting \<Rightarrow> int \<Rightarrow> string \<Rightarrow> command \<Rightarrow> 'p app_state \<Rightarrow> doc_record result \<times> 'p app_state" where
  "run_command env did a version etag Submit s = submit_document env did a version etag s"
| "run_command env did a version etag Approve s = approve_document env did a version etag s"
| "run_command env did a version etag (Move action type) s = transition_document env did a version etag action type s"
| "run_command env did a version etag (EditDraft payload) s = update_draft env did a payload version etag s"
| "run_command env did a version etag (Extend module_key payload) s = update_extension env did module_key a payload version etag s"

fun action_of :: "command \<Rightarrow> string option" where
  "action_of Submit = Some ''submit''"
| "action_of Approve = Some ''approve''"
| "action_of (Move action type) = Some action"
| "action_of _ = None"

section \<open>What the steps leave alone\<close>

lemma ask_policy_frame: "\<exists>p. snd (ask_policy env i req s) = s\<lparr>pp_policy := p\<rparr>"
  by (auto simp: ask_policy_def split: prod.split)

lemma run_hooks_frame: "\<exists>p. snd (run_each (ensure_hook env h) hooks s) = s\<lparr>pp_policy := p\<rparr>"
proof (induction hooks arbitrary: s)
  case Nil
  show ?case by (simp add: exI [of _ "pp_policy s"])
next
  case (Cons ih hooks)
  obtain i hook where ih: "ih = (i, hook)" by (cases ih)
  obtain rt p where "runtime_of (pe_rego env) (pe_sha env) (pe_rule_fields env) (pe_clock env i) hook (dh_organization_id h)
      (dh_location_id h) (pp_policy s) = (rt, p)" by fastforce
  then obtain err where step: "ensure_hook env h (i, hook) s = (err, s\<lparr>pp_policy := p\<rparr>)"
    by (simp add: ensure_hook_def)
  show ?case
  proof (cases err)
    case None
    obtain p' where "snd (run_each (ensure_hook env h) hooks (s\<lparr>pp_policy := p\<rparr>)) = s\<lparr>pp_policy := p\<rparr>\<lparr>pp_policy := p'\<rparr>"
      using Cons.IH by blast
    then show ?thesis by (auto simp: ih step None)
  qed (auto simp: ih step)
qed

lemma ensure_runtime_frame: "\<exists>p. snd (ensure_policy_runtime env h hooks s) = s\<lparr>pp_policy := p\<rparr>"
  using run_hooks_frame [of env h "enumerate 2 hooks" s]
  by (auto simp: ensure_policy_runtime_def intro: exI [of _ "pp_policy s"])

text \<open>The state in which the hook of the transition is asked.\<close>

definition asked_state :: "'p app_env \<Rightarrow> doc_header \<Rightarrow> 'p app_state \<Rightarrow> 'p app_state" where
  "asked_state env h s = snd (ensure_policy_runtime env h workflow_hooks s)"

definition permitted :: "'p app_env \<Rightarrow> doc_header \<Rightarrow> string \<Rightarrow> string \<Rightarrow> 'p app_state \<Rightarrow> bool" where
  "permitted env h actor action s \<longleftrightarrow> fst (ensure_policy_runtime env h workflow_hooks s) = None
     \<and> dn_allowed (fst (ask_policy env 5 (policy_request_of h ''documents.workflow.transition'' actor (transition_inputs h action))
          (asked_state env h s)))"

text \<open>The fields of a transition that no decision changes.\<close>

definition same_move :: "transition \<Rightarrow> transition \<Rightarrow> bool" where
  "same_move t u \<longleftrightarrow> tr_workflow_key t = tr_workflow_key u \<and> tr_workflow_version t = tr_workflow_version u \<and> tr_action t = tr_action u
     \<and> tr_from_state t = tr_from_state u \<and> tr_to_state t = tr_to_state u"

lemma same_move_simps [simp]:
  "same_move t t" "same_move t (apply_decision_metadata out u) = same_move t u" "same_move t (apply_assignment_decision out u) = same_move t u"
  "same_move t (apply_sla_decision out u) = same_move t u" "same_move t (apply_stage menv pid vs sg n u) = same_move t u"
  by (simp_all add: same_move_def apply_decision_metadata_def apply_assignment_decision_def apply_sla_decision_def apply_stage_def Let_def)

lemma policy_decisions_cases:
  assumes "policy_decisions env h actor action t s = (r, s')"
  shows "\<exists>p. s' = s\<lparr>pp_policy := p\<rparr>"
    and "r = Inr ds \<Longrightarrow> (pe_policy env \<longrightarrow> permitted env h actor action s) \<and> same_move t (de_transition ds)"
proof -
  obtain err s1 where e: "ensure_policy_runtime env h workflow_hooks s = (err, s1)" by fastforce
  obtain p1 where s1: "s1 = s\<lparr>pp_policy := p1\<rparr>" using ensure_runtime_frame [of env h workflow_hooks s] e by auto
  let ?q = "policy_request_of h ''documents.workflow.transition'' actor (transition_inputs h action)"
  obtain permit s2 where a: "ask_policy env 5 ?q s1 = (permit, s2)" by fastforce
  obtain p2 where s2: "s2 = s\<lparr>pp_policy := p2\<rparr>" using ask_policy_frame [of env 5 ?q s1] a s1 by auto
  let ?q6 = "policy_request_of h ''documents.workflow.assignment'' actor (assignment_inputs h action t)"
  obtain assign s3 where b: "ask_policy env 6 ?q6 s2 = (assign, s3)" by fastforce
  obtain p3 where s3: "s3 = s\<lparr>pp_policy := p3\<rparr>" using ask_policy_frame [of env 6 ?q6 s2] b s2 by auto
  let ?t = "apply_assignment_decision (dn_output assign) t"
  let ?q7 = "policy_request_of h ''documents.workflow.sla'' actor (sla_inputs h action ?t)"
  obtain sla s4 where c: "ask_policy env 7 ?q7 s3 = (sla, s4)" by fastforce
  obtain p4 where s4: "s4 = s\<lparr>pp_policy := p4\<rparr>" using ask_policy_frame [of env 7 ?q7 s3] c s3 by auto
  have same: "\<exists>p. s = s\<lparr>pp_policy := p\<rparr>" by (rule exI [of _ "pp_policy s"]) simp
  have only: "\<exists>p. s1 = s\<lparr>pp_policy := p\<rparr>" "\<exists>p. s2 = s\<lparr>pp_policy := p\<rparr>" "\<exists>p. s4 = s\<lparr>pp_policy := p\<rparr>"
    using s1 s2 s4 by blast+
  have "s' = s \<or> s' = s1 \<or> s' = s2 \<or> s' = s4"
    using assms by (auto simp: policy_decisions_def e a b c split: if_splits option.splits)
  then show "\<exists>p. s' = s\<lparr>pp_policy := p\<rparr>" using same only by blast
  show "(pe_policy env \<longrightarrow> permitted env h actor action s) \<and> same_move t (de_transition ds)" if "r = Inr ds"
    using assms that by (auto simp: policy_decisions_def e a b c permitted_def asked_state_def split: if_splits option.splits)
qed

lemma approval_rule_decisions_move:
  "approval_rule_decisions env x action ds s = Inr es \<Longrightarrow> same_move t (de_transition ds) \<Longrightarrow> same_move t (de_transition es)"
  by (auto simp: approval_rule_decisions_def Let_def split: if_splits sum.splits option.splits list.splits)

lemma runtime_decisions_frame: "apply_runtime_decisions env x actor action t s = (r, s') \<Longrightarrow> \<exists>p. s' = s\<lparr>pp_policy := p\<rparr>"
  using policy_decisions_cases(1) [of env "dr_header x" actor action t s]
  by (auto simp: apply_runtime_decisions_def split: if_splits prod.splits sum.splits intro: exI [of _ "pp_policy s"])

lemma runtime_decisions_ok:
  assumes "apply_runtime_decisions env x actor action t s = (Inr ds, s')"
  shows "\<not> requester_conflict (dh_id (dr_header x)) actor (tr_requires_different_actor t) (pp_flows s)"
    "pe_policy env \<Longrightarrow> permitted env (dr_header x) actor action s" "same_move t (de_transition ds)"
proof -
  obtain r s1 where p: "policy_decisions env (dr_header x) actor action t s = (r, s1)" by fastforce
  have facts: "\<not> requester_conflict (dh_id (dr_header x)) actor (tr_requires_different_actor t) (pp_flows s)"
      "\<exists>es. r = Inr es \<and> approval_rule_decisions env x action es s1 = Inr ds"
    using assms by (auto simp: apply_runtime_decisions_def p split: if_splits sum.splits)
  then obtain es where es: "r = Inr es" "approval_rule_decisions env x action es s1 = Inr ds" by blast
  show "\<not> requester_conflict (dh_id (dr_header x)) actor (tr_requires_different_actor t) (pp_flows s)" by (rule facts(1))
  show "pe_policy env \<Longrightarrow> permitted env (dr_header x) actor action s" "same_move t (de_transition ds)"
    using policy_decisions_cases(2) [OF p es(1)] approval_rule_decisions_move [OF es(2), of t] by auto
qed


section \<open>Documents up to their metadata\<close>

definition plain :: "doc_record \<Rightarrow> doc_record" where
  "plain x = x\<lparr>dr_header := (dr_header x)\<lparr>dh_metadata := []\<rparr>\<rparr>"

definition metadata_only :: "string \<Rightarrow> doc_repo \<Rightarrow> doc_repo \<Rightarrow> bool" where
  "metadata_only did d d' \<longleftrightarrow>
     rp_definitions d' = rp_definitions d \<and> rp_extensions d' = rp_extensions d \<and> rp_lines d' = rp_lines d
   \<and> rp_links d' = rp_links d \<and> rp_attachments d' = rp_attachments d \<and> (wf_map (rp_records d) \<longrightarrow> wf_map (rp_records d'))
   \<and> (\<forall>k. k \<noteq> did \<longrightarrow> map_of (rp_records d') k = map_of (rp_records d) k)
   \<and> map_option plain (map_of (rp_records d') did) = map_option plain (map_of (rp_records d) did)"

lemma metadata_only_refl [simp]: "metadata_only did d d"
  by (simp add: metadata_only_def)

lemma metadata_only_trans: "metadata_only did d e \<Longrightarrow> metadata_only did e f \<Longrightarrow> metadata_only did d f"
  by (simp add: metadata_only_def)

lemma plain_eqD: "plain x = plain y \<Longrightarrow> dr_body x = dr_body y \<and> dr_lines x = dr_lines y \<and> dr_links x = dr_links y
    \<and> dr_attachments x = dr_attachments y \<and> dh_id (dr_header x) = dh_id (dr_header y) \<and> dh_version (dr_header x) = dh_version (dr_header y)
    \<and> dh_status (dr_header x) = dh_status (dr_header y)"
  by (cases x; cases y; cases "dr_header x"; cases "dr_header y") (auto simp: plain_def)

lemma metadata_only_lookup:
  assumes "metadata_only did d d'" "map_of (rp_records d) did = Some x"
  obtains y where "map_of (rp_records d') did = Some y" "plain y = plain x"
  using assms by (auto simp: metadata_only_def)

lemma metadata_only_inv:
  assumes "metadata_only did d d'" "doc_inv d"
  shows "doc_inv d'"
proof (rule doc_invI)
  show "wf_map (rp_records d')" using assms by (simp add: metadata_only_def doc_inv_def)
  have lists: "list_lines k d' = list_lines k d" "list_links k d' = list_links k d" "list_attachments k d' = list_attachments k d" for k
    using assms(1) by (simp_all add: metadata_only_def list_lines_def list_links_def list_attachments_def)
  show "parts_ok d' k" for k using doc_invD [OF assms(2), of k] by (simp add: parts_ok_def lists)
  show "record_ok d' k" for k
  proof (cases "map_of (rp_records d') k")
    case (Some y)
    have "\<exists>x. map_of (rp_records d) k = Some x \<and> plain x = plain y"
    proof (cases "k = did")
      case True
      with Some assms(1) have "map_option plain (map_of (rp_records d) k) = Some (plain y)" by (simp add: metadata_only_def)
      then show ?thesis by auto
    qed (use Some assms(1) in \<open>simp add: metadata_only_def\<close>)
    then obtain x where x: "map_of (rp_records d) k = Some x" "plain x = plain y" by blast
    show ?thesis
      using stored_parts [OF assms(2) x(1)] plain_eqD [OF x(2)] Some by (simp add: record_ok_def with_parts_fixed lists)
  qed (simp add: record_ok_def)
qed

lemma stored_document: "doc_inv d \<Longrightarrow> get_document did d = Inr x \<longleftrightarrow> map_of (rp_records d) did = Some x"
  using stored_parts [of d did] by (auto simp: get_document_def get_record_def split: option.splits)

text \<open>Writing metadata changes the record and, through the shared map, the stored one; nothing else.\<close>

definition with_metadata :: "(gobj \<Rightarrow> gobj) \<Rightarrow> doc_record \<Rightarrow> doc_record" where
  "with_metadata f x = x\<lparr>dr_header := (dr_header x)\<lparr>dh_metadata := f (dh_metadata (dr_header x))\<rparr>\<rparr>"

lemma plain_with_metadata [simp]: "plain (with_metadata f x) = plain x"
  by (simp add: plain_def with_metadata_def)

lemma with_metadata_simps [simp]:
  "dr_body (with_metadata f x) = dr_body x" "dh_id (dr_header (with_metadata f x)) = dh_id (dr_header x)"
  "dh_version (dr_header (with_metadata f x)) = dh_version (dr_header x)" "dh_status (dr_header (with_metadata f x)) = dh_status (dr_header x)"
  "dh_metadata (dr_header (with_metadata f x)) = f (dh_metadata (dr_header x))" "dh_type (dr_header (with_metadata f x)) = dh_type (dr_header x)"
  "dr_lines (with_metadata f x) = dr_lines x" "dr_links (with_metadata f x) = dr_links x"
  "dr_attachments (with_metadata f x) = dr_attachments x"
  by (simp_all add: with_metadata_def)

lemma write_metadata_effect:
  assumes "write_metadata f x s = (y, s')"
  obtains d where "y = with_metadata f x" "s' = s\<lparr>pp_docs := d\<rparr>" "metadata_only (dh_id (dr_header x)) (pp_docs s) d"
proof -
  let ?did = "dh_id (dr_header x)"
  have edit: "metadata_only ?did (pp_docs s) (edit_record ?did (with_metadata f) (pp_docs s))"
    by (cases "map_of (rp_records (pp_docs s)) ?did") (simp_all add: metadata_only_def)
  have y: "y = with_metadata f x" and
      "s' = s\<lparr>pp_docs := edit_record ?did (with_metadata f) (pp_docs s)\<rparr> \<or> s' = s"
    using assms by (auto simp: write_metadata_def Let_def with_metadata_def [abs_def] split: if_splits)
  then consider "s' = s\<lparr>pp_docs := edit_record ?did (with_metadata f) (pp_docs s)\<rparr>" | "s' = s\<lparr>pp_docs := pp_docs s\<rparr>" by auto
  then show thesis
  proof cases
    case 1 then show thesis by (rule that [OF y]) (rule edit)
  next
    case 2 then show thesis by (rule that [OF y]) simp
  qed
qed

text \<open>A state that differs in policies and in the metadata of one document only.\<close>

definition quiet :: "string \<Rightarrow> 'p app_state \<Rightarrow> 'p app_state \<Rightarrow> bool" where
  "quiet did s s' \<longleftrightarrow> s' = s\<lparr>pp_policy := pp_policy s', pp_docs := pp_docs s'\<rparr> \<and> metadata_only did (pp_docs s) (pp_docs s')"

lemma quiet_policy: "quiet did s (s\<lparr>pp_policy := p\<rparr>)"
  by (simp add: quiet_def)

lemma quiet_refl [simp]: "quiet did s s"
  using quiet_policy [of did s "pp_policy s"] by simp

lemma quiet_trans: "quiet did s t \<Longrightarrow> quiet did t u \<Longrightarrow> quiet did s u"
  by (cases s; cases t; cases u) (auto simp: quiet_def intro: metadata_only_trans)

lemma quiet_write: "write_metadata f x s = (y, s') \<Longrightarrow> dh_id (dr_header x) = did \<Longrightarrow> quiet did s s'"
  by (erule write_metadata_effect) (auto simp: quiet_def)

lemma quietD:
  assumes "quiet did s s'"
  shows "pp_flows s' = pp_flows s" "pp_identity s' = pp_identity s" "pp_models s' = pp_models s" "pp_audit s' = pp_audit s"
    "pp_events s' = pp_events s" "metadata_only did (pp_docs s) (pp_docs s')"
  using assms by (cases s; cases s'; auto simp: quiet_def)+

lemma quiet_decisions: "apply_runtime_decisions env x actor action t s = (r, s') \<Longrightarrow> quiet did s s'"
  using runtime_decisions_frame quiet_policy by blast

lemma quiet_number: "assign_number env def actor action now x s = (y, s') \<Longrightarrow> quiet did s s' \<and> (\<exists>n. y = set_number n x)"
proof -
  assume a: "assign_number env def actor action now x s = (y, s')"
  let ?q = "policy_request_of (dr_header x) ''documents.numbering.assign'' actor (numbering_inputs (dr_header x) (dd_numbering_key def) action)"
  obtain d t where ask: "ask_policy env 8 ?q s = (d, t)" by fastforce
  then have "quiet did s t" using ask_policy_frame [of env 8 ?q s] quiet_policy [of did s] by auto
  moreover have "\<exists>n. x = set_number n x" by (rule exI [of _ "dh_number (dr_header x)"]) (simp add: set_number_def)
  ultimately show ?thesis using a by (auto simp: assign_number_def Let_def ask split: if_splits)
qed

section \<open>Applying what was planned\<close>

text \<open>A loop of updates of stored records does not fail; the letters are those of \<open>update_loop\<close>.\<close>

lemma update_loop_ok:
  fixes sel :: "'r \<Rightarrow> 'a list" and put :: "'a list \<Rightarrow> 'r \<Rightarrow> 'r"
  assumes upd: "\<And>u r. f u r = (case update_first (\<lambda>x. key x = ukey u) (res u) (sel r) of
       Some xs \<Rightarrow> (None, put xs r) | None \<Rightarrow> (Some (err u), r))"
    and lens: "\<And>xs r. sel (put xs r) = xs" "\<And>xs ys r. put xs (put ys r) = put xs r"
    and key: "\<And>u x. key (res u x) = key x" and put_id: "\<And>r. put (sel r) r = r"
  shows "ukey ` set us \<subseteq> key ` set (sel r) \<Longrightarrow> \<exists>xs. run_each f us r = (None, put xs r)"
proof (induction us arbitrary: r)
  case Nil
  show ?case using put_id [of r] by (auto intro: exI [of _ "sel r"])
next
  case (Cons u us)
  obtain xs where xs: "update_first (\<lambda>x. key x = ukey u) (res u) (sel r) = Some xs"
    using Cons.prems by (cases "update_first (\<lambda>x. key x = ukey u) (res u) (sel r)") (auto simp: update_first_None)
  then have "map key xs = map key (sel r)" by (rule update_first_map) (simp add: key)
  then have "key ` set xs = key ` set (sel r)" by (metis list.set_map)
  then obtain ys where "run_each f us (put xs r) = (None, put ys (put xs r))"
    using Cons.IH [of "put xs r"] Cons.prems by (auto simp: lens(1))
  moreover have "f u r = (None, put xs r)" using xs by (simp only: upd option.case)
  ultimately have "run_each f (u # us) r = (None, put ys r)" by (simp add: lens(2))
  then show ?case ..
qed

lemma run_each_tasks_ok:
  "tu_id ` set us \<subseteq> tk_id ` set (wr_tasks r) \<Longrightarrow> \<exists>ts. run_each update_task_status us r = (None, r\<lparr>wr_tasks := ts\<rparr>)"
  by (rule update_loop_ok [where sel = wr_tasks and put = "\<lambda>xs r. r\<lparr>wr_tasks := xs\<rparr>" and res = resolve_task
        and err = "\<lambda>_. NotFound ''workflow task not found''"]) (auto simp: update_task_status_def)

lemma run_each_approvals_ok:
  "au_id ` set us \<subseteq> ap_id ` set (wr_approvals r) \<Longrightarrow> \<exists>as. run_each update_approval_status us r = (None, r\<lparr>wr_approvals := as\<rparr>)"
  by (rule update_loop_ok [where sel = wr_approvals and put = "\<lambda>xs r. r\<lparr>wr_approvals := xs\<rparr>" and res = resolve_approval_record
        and err = "\<lambda>_. NotFound ''workflow approval not found''"]) (auto simp: update_approval_status_def)

text \<open>A mutation that updates only stored tasks and approvals.\<close>

definition applicable :: "wf_repo \<Rightarrow> mutation \<Rightarrow> bool" where
  "applicable r m \<longleftrightarrow> au_id ` set (mu_approval_updates m) \<subseteq> ap_id ` set (wr_approvals r)
     \<and> tu_id ` set (mu_task_updates m) \<subseteq> tk_id ` set (wr_tasks r)"

lemma applicable_simps [simp]:
  "applicable r empty_mutation" "applicable r (append_history h m) = applicable r m"
  "applicable r (stage_artifacts did k t m) = applicable r m" "applicable r (plan_create_side_effects t ty did actor now)"
  "applicable r (plan_resolve_artifacts did sa st actor now r)"
  "applicable r (merge_mutation m n) \<longleftrightarrow> applicable r m \<and> applicable r n"
  by (auto simp: applicable_def empty_mutation_def append_history_def stage_artifacts_def plan_create_side_effects_def
      plan_resolve_artifacts_def merge_mutation_def list_tasks_def list_approvals_def Let_def)

lemma history_simps [simp]:
  "mu_history empty_mutation = []" "mu_history (append_history h m) = mu_history m @ [h]"
  "mu_history (stage_artifacts did k t m) = mu_history m" "mu_history (plan_create_side_effects t ty did actor now) = []"
  "mu_history (plan_resolve_artifacts did sa st actor now r) = []"
  "mu_history (merge_mutation m n) = mu_history m @ mu_history n"
  by (simp_all add: empty_mutation_def append_history_def stage_artifacts_def plan_create_side_effects_def
      plan_resolve_artifacts_def merge_mutation_def Let_def)

lemma snapshots_plan:
  "apply_assignment_snapshots h t m actor now r = Inr (u, n) \<Longrightarrow>
     same_move t u \<and> mu_history n = mu_history m \<and> (\<forall>r. applicable r n = applicable r m)"
  by (auto simp: apply_assignment_snapshots_def apply_transition_resolution_def same_move_def applicable_def
      split: sum.splits if_splits)

lemma built_mutation:
  assumes "build_workflow_mutation h t actor now resolving s = Inr m"
  shows "mu_history m = [] \<and> applicable (pp_flows s) m"
  using assms
  by (auto simp: build_workflow_mutation_def Let_def split: option.splits sum.splits dest!: snapshots_plan)

lemma applicable_succeeds:
  assumes "applicable r m"
  obtains r' where "apply_mutation m r = (None, r')" "wr_history r' = wr_history r @ mu_history m"
    "wr_definitions r' = wr_definitions r"
proof -
  let ?r1 = "r\<lparr>wr_tasks := wr_tasks r @ mu_tasks m, wr_approvals := wr_approvals r @ mu_approvals m\<rparr>"
  have sub: "au_id ` set (mu_approval_updates m) \<subseteq> ap_id ` set (wr_approvals ?r1)"
      "tu_id ` set (mu_task_updates m) \<subseteq> tk_id ` set (wr_tasks (?r1\<lparr>wr_approvals := as\<rparr>))" for as
    using assms by (auto simp: applicable_def)
  obtain as where as: "run_each update_approval_status (mu_approval_updates m) ?r1 = (None, ?r1\<lparr>wr_approvals := as\<rparr>)"
    using run_each_approvals_ok [OF sub(1)] by auto
  obtain ts where ts: "run_each update_task_status (mu_task_updates m) (?r1\<lparr>wr_approvals := as\<rparr>)
      = (None, ?r1\<lparr>wr_approvals := as\<rparr>\<lparr>wr_tasks := ts\<rparr>)"
    using run_each_tasks_ok [OF sub(2), of as] by auto
  show thesis
    by (rule that [of "?r1\<lparr>wr_approvals := as, wr_tasks := ts, wr_history := wr_history r @ mu_history m\<rparr>"])
      (use as ts in \<open>simp_all add: apply_mutation_def run_each_saves\<close>)
qed


section \<open>Persisting\<close>

lemma persist_cases:
  assumes "persist_document env v y audit ev m draft s = (r, s')" "applicable (pp_flows s) m"
    and "get_document (dh_id (dr_header y)) (pp_docs s) = Inr cur" "dh_version (dr_header cur) = v"
  obtains (stored) "r = Inr y" "pp_docs s' = save_record y (pp_docs s)" "pp_audit s' = record_audit audit (pp_audit s)"
      "record_event (pe_validate env) (pe_events env) (pe_sinks env) (pe_clock env 9) ev (pp_events s) = (None, pp_events s')"
      "apply_mutation m (pp_flows s) = (None, pp_flows s')" "pp_models s' = pp_models s" "pp_policy s' = pp_policy s"
      "draft \<Longrightarrow> pp_identity s' = pp_identity s"
  | (rejected) e where "r = Inl e" "s' = s\<lparr>pp_docs := save_record y (pp_docs s), pp_audit := record_audit audit (pp_audit s)\<rparr>"
      "record_event (pe_validate env) (pe_events env) (pe_sinks env) (pe_clock env 9) ev (pp_events s) = (Some e, pp_events s)"
proof -
  obtain err evs where e: "record_event (pe_validate env) (pe_events env) (pe_sinks env) (pe_clock env 9) ev (pp_events s) = (err, evs)"
    by fastforce
  have kept: "evs = pp_events s" if "err = Some x" for x
    using e that by (auto simp: record_event_def Let_def split: sum.splits list.splits prod.splits)
  obtain flows where m: "apply_mutation m (pp_flows s) = (None, flows)" using applicable_succeeds [OF assms(2)] by metis
  have up: "update_document v y s = (None, s\<lparr>pp_docs := save_record y (pp_docs s)\<rparr>)"
    using assms(3,4) by (simp add: update_document_def)
  show thesis
  proof (cases err)
    case None
    show thesis
      by (rule stored) (use assms(1) e m None in \<open>auto simp: persist_document_def persist_command_def up save_audit_def save_domain_event_def
          apply_workflow_mutation_def\<close>)
  next
    case (Some x)
    show thesis
      by (rule rejected [of x]) (use assms(1) e kept Some in \<open>auto simp: persist_document_def persist_command_def up save_audit_def
          save_domain_event_def\<close>)
  qed
qed

text \<open>An event the schemas accept is stored with its outbox record.\<close>

lemma accepted_event:
  assumes "record_event schema svc names now e r = (None, r')"
  shows "er_events r' = er_events r @ [with_schema_version e] \<and> er_outbox r' = er_outbox r @ [new_outbox now (with_schema_version e)]"
proof -
  let ?ob = "new_outbox now (with_schema_version e)"
  have loop: "er_events (fold (record_delivery svc (with_schema_version e) ?ob) ns q) = er_events q
      \<and> er_outbox (fold (record_delivery svc (with_schema_version e) ?ob) ns q) = er_outbox q" for ns q
    by (induction ns arbitrary: q) (auto simp: record_delivery_def save_delivery_def split: option.splits if_splits)
  show ?thesis
    using assms by (auto simp: record_event_def Let_def loop save_outbox_def save_event_def split: sum.splits list.splits prod.splits)
qed

end
