(* ===== verification/DocumentMoves.thy ===== *)
theory DocumentMoves
  imports ActionFacts
begin

text \<open>
  One attempt for all commands on documents: what was read, what had to hold, what was planned, and the one place
  where it is persisted. Every property of the actions follows from it.
\<close>

section \<open>What is planned\<close>

text \<open>The document as it is to be stored.\<close>

definition successor :: "string \<Rightarrow> string \<Rightarrow> doc_record \<Rightarrow> doc_record \<Rightarrow> bool" where
  "successor did actor x y \<longleftrightarrow> dh_id (dr_header y) = did \<and> dh_type (dr_header y) = dh_type (dr_header x)
     \<and> dh_version (dr_header y) = wrap64 (dh_version (dr_header x) + 1)
     \<and> dh_etag (dr_header y) = did @ '':'' @ show_int (dh_version (dr_header y)) \<and> dh_updated_by (dr_header y) = actor
     \<and> dr_lines y = dr_lines x \<and> dr_links y = dr_links x \<and> dr_attachments y = dr_attachments x"

text \<open>What is told about it: one audit event and one domain event of the actor under one correlation.\<close>

definition told :: "acting \<Rightarrow> doc_record \<Rightarrow> audit_event \<Rightarrow> event \<Rightarrow> bool" where
  "told a y audit ev \<longleftrightarrow> au_target_id audit = dh_id (dr_header y) \<and> ev_aggregate_id ev = dh_id (dr_header y)
     \<and> au_actor_id audit = ac_actor_id a \<and> ev_actor_id ev = ac_actor_id a
     \<and> au_on_behalf_of_user_id audit = ac_on_behalf_of_user_id a
     \<and> au_correlation_id audit = ev_correlation_id ev \<and> au_to_state audit = dh_status (dr_header y)"

text \<open>The history of a move: one entry, from the status before to the status after.\<close>

definition noted :: "string \<Rightarrow> string \<Rightarrow> doc_record \<Rightarrow> doc_record \<Rightarrow> mutation \<Rightarrow> bool" where
  "noted actor action x y m \<longleftrightarrow> (\<exists>h. mu_history m = [h] \<and> he_target_id h = dh_id (dr_header y) \<and> he_actor_id h = actor
     \<and> he_action h = action \<and> he_from_state h = dh_status (dr_header x) \<and> he_to_state h = dh_status (dr_header y))"

text \<open>The transition a command starts from, and what it had to pass.\<close>

definition chosen :: "command \<Rightarrow> string \<Rightarrow> doc_record \<Rightarrow> wf_repo \<Rightarrow> transition \<Rightarrow> bool" where
  "chosen c key x r t \<longleftrightarrow> (if c = Submit then key \<noteq> [] \<and> execute key (dh_status (dr_header x)) ''submit'' r = Inr t
     else \<exists>action. action_of c = Some action \<and> bound_transition key x action r = Inr t)"

definition cleared :: "'p app_env \<Rightarrow> string \<Rightarrow> string \<Rightarrow> doc_record \<Rightarrow> transition \<Rightarrow> 'p app_state \<Rightarrow> bool" where
  "cleared env actor action x t s \<longleftrightarrow>
     \<not> requester_conflict (dh_id (dr_header x)) actor (tr_requires_different_actor t) (pp_flows s)
   \<and> (pe_policy env \<longrightarrow> permitted env (dr_header x) actor action s)"

text \<open>The status: that of the transition, or for a step within the stages of an approval the one before.\<close>

definition arrived :: "command \<Rightarrow> doc_record \<Rightarrow> transition \<Rightarrow> doc_record \<Rightarrow> bool" where
  "arrived c x t y \<longleftrightarrow> dh_status (dr_header y) = tr_to_state t \<or> c = Approve \<and> dh_status (dr_header y) = dh_status (dr_header x)"

definition moved :: "'p app_env \<Rightarrow> acting \<Rightarrow> command \<Rightarrow> string \<Rightarrow> doc_record \<Rightarrow> doc_record \<Rightarrow> mutation \<Rightarrow> 'p app_state \<Rightarrow> bool" where
  "moved env a c action x y m s \<longleftrightarrow> (\<exists>def t. doc_definition_of (dh_type (dr_header x)) (pp_docs s) = Inr def
     \<and> chosen c (dd_workflow_key def) x (pp_flows s) t \<and> cleared env (effective_actor a) action x t s
     \<and> arrived c x t y \<and> noted (effective_actor a) action x y m)"

definition edited :: "doc_record \<Rightarrow> doc_record \<Rightarrow> mutation \<Rightarrow> bool" where
  "edited x y m \<longleftrightarrow> dh_status (dr_header x) = ''draft'' \<and> dh_status (dr_header y) = ''draft'' \<and> m = empty_mutation"

definition attempt ::
    "'p app_env \<Rightarrow> string \<Rightarrow> acting \<Rightarrow> int \<Rightarrow> string \<Rightarrow> command \<Rightarrow> 'p app_state
       \<Rightarrow> doc_record \<Rightarrow> doc_record \<Rightarrow> audit_event \<Rightarrow> event \<Rightarrow> mutation \<Rightarrow> 'p app_state \<Rightarrow> bool" where
  "attempt env did a version etag c s x y audit ev m s1 \<longleftrightarrow>
     get_document did (pp_docs s) = Inr x \<and> check_expected x version etag = None \<and> quiet did s s1
   \<and> successor did (effective_actor a) x y \<and> told a y audit ev \<and> applicable (pp_flows s1) m
   \<and> (case action_of c of None \<Rightarrow> edited x y m | Some action \<Rightarrow> moved env a c action x y m s)"

text \<open>A command fails before it persists anything, or it is an attempt that is persisted.\<close>

definition outcome ::
    "'p app_env \<Rightarrow> string \<Rightarrow> acting \<Rightarrow> int \<Rightarrow> string \<Rightarrow> command \<Rightarrow> 'p app_state \<Rightarrow> doc_record result \<Rightarrow> 'p app_state \<Rightarrow> bool" where
  "outcome env did a version etag c s r s' \<longleftrightarrow>
     (\<exists>e. r = Inl e \<and> quiet did s s')
   \<or> (\<exists>x y audit ev m draft s1. attempt env did a version etag c s x y audit ev m s1
        \<and> persist_document env (dh_version (dr_header x)) y audit ev m draft s1 = (r, s'))"

lemma outcome_fails: "quiet did s s' \<Longrightarrow> outcome env did a version etag c s (Inl e) s'"
  by (simp add: outcome_def)

lemma outcome_attempt:
  "attempt env did a version etag c s x y audit ev m s1 \<Longrightarrow>
     persist_document env (dh_version (dr_header x)) y audit ev m draft s1 = (r, s') \<Longrightarrow> outcome env did a version etag c s r s'"
  by (auto simp: outcome_def)

section \<open>The commands\<close>

text \<open>Reading and checking a document: the steps before a command looks at anything else.\<close>

lemma read_checked:
  assumes "(case get_document did (pp_docs s) of Inl e \<Rightarrow> (Inl e, s) | Inr x \<Rightarrow>
       (case check_expected x version etag of Some e \<Rightarrow> (Inl e, s) | None \<Rightarrow> f x)) = (r, s')"
    and "\<And>x. get_document did (pp_docs s) = Inr x \<Longrightarrow> check_expected x version etag = None \<Longrightarrow> f x = (r, s')
       \<Longrightarrow> outcome env did a version etag c s r s'"
  shows "outcome env did a version etag c s r s'"
proof (cases "get_document did (pp_docs s)")
  case (Inr x)
  then show ?thesis using assms by (cases "check_expected x version etag") (auto simp: outcome_fails)
next
  case (Inl e)
  with assms(1) have "r = Inl e" "s' = s" by simp_all
  then show ?thesis by (simp add: outcome_fails)
qed

text \<open>The decisions on a transition, and what they leave.\<close>

lemma decided:
  assumes "(case apply_runtime_decisions env x actor action t s of (Inl e, s) \<Rightarrow> (Inl e, s) | (Inr ds, s) \<Rightarrow> f ds s) = (r, s')"
    and "\<And>ds s1. quiet did s s1 \<Longrightarrow> cleared env actor action x t s \<Longrightarrow> same_move t (de_transition ds) \<Longrightarrow> f ds s1 = (r, s')
       \<Longrightarrow> outcome env did a version etag c s r s'"
  shows "outcome env did a version etag c s r s'"
proof -
  obtain res s1 where d: "apply_runtime_decisions env x actor action t s = (res, s1)" by fastforce
  note quiet = quiet_decisions [OF d, of did]
  show ?thesis
  proof (cases res)
    case (Inr ds)
    show ?thesis
      by (rule assms(2) [OF quiet]) (use runtime_decisions_ok [OF d [unfolded Inr]] assms(1) d Inr in \<open>auto simp: cleared_def\<close>)
  qed (use assms(1) d quiet in \<open>auto simp: outcome_fails\<close>)
qed


lemma successor_with_metadata [simp]: "successor did actor (with_metadata f x) y = successor did actor x y"
  by (simp add: successor_def)

lemma next_version_successor:
  "dh_id (dr_header x) = did \<Longrightarrow> successor did actor x (next_version actor now x) \<and> dh_status (dr_header (next_version actor now x)) = dh_status (dr_header x)"
  by (simp add: successor_def next_version_def Let_def)

lemma executed_states:
  assumes "execute key st action r = Inr t"
  shows "tr_from_state t = st \<and> tr_action t = action"
  using assms by (auto simp: execute_def transition_for_definition_def transition_of_rule_def split: option.splits)

lemma bound_states:
  assumes "bound_transition key x action r = Inr t"
  shows "tr_from_state t = dh_status (dr_header x) \<and> tr_action t = action"
  using assms executed_states
  by (auto simp: bound_transition_def execute_version_def transition_for_definition_def transition_of_rule_def
      split: sum.splits option.splits if_splits)

lemma move_effect:
  assumes "move_document env def actor action t x s = (y, s')" "dh_id (dr_header x) = did"
  shows "quiet did s s' \<and> successor did actor x y \<and> dh_status (dr_header y) = tr_to_state t"
proof -
  obtain y1 s1 where w: "write_metadata (bind_workflow t) (set_status (tr_to_state t) x) s = (y1, s1)" by fastforce
  have q1: "quiet did s s1" by (rule quiet_write [OF w]) (simp add: set_status_def assms(2))
  have y1: "y1 = with_metadata (bind_workflow t) (set_status (tr_to_state t) x)"
    using write_metadata_effect [OF w] by blast
  obtain y2 s2 where n: "assign_number env def actor action (pe_clock env 0) y1 s1 = (y2, s2)" by fastforce
  from quiet_number [OF n, of did] obtain num where y2: "quiet did s1 s2" "y2 = set_number num y1" by blast
  have "y = next_version actor (pe_clock env 0) y2" "s' = s2" using assms(1) by (simp_all add: move_document_def w n)
  with y1 y2 quiet_trans [OF q1] show ?thesis
    by (simp add: successor_def next_version_def Let_def set_number_def with_metadata_def set_status_def assms(2))
qed

lemma finish_transition_plan:
  assumes "finish_transition env a action type x y ds m s = res" "dh_status (dr_header y) = tr_to_state (de_transition ds)"
  obtains audit ev h where "persist_document env (dh_version (dr_header x)) y audit ev (append_history h m) False s = res"
    "told a y audit ev" "he_target_id h = dh_id (dr_header y)" "he_actor_id h = effective_actor a"
    "he_action h = tr_action (de_transition ds)" "he_from_state h = tr_from_state (de_transition ds)"
    "he_to_state h = tr_to_state (de_transition ds)"
  by (rule that [OF assms(1) [unfolded finish_transition_def Let_def]])
    (simp_all add: told_def action_audit_def action_event_def history_of_action_def assms(2))

text \<open>The end of a move: attempted with the history of the transition.\<close>

lemma finish_outcome:
  assumes "finish_transition env a action type x y ds m s1 = (r, s')" "action_of c = Some action"
    and "get_document did (pp_docs s) = Inr x" "check_expected x version etag = None" "quiet did s s1"
    and "successor did (effective_actor a) x y" "dh_status (dr_header y) = tr_to_state t" "mu_history m = []" "applicable (pp_flows s) m"
    and "doc_definition_of (dh_type (dr_header x)) (pp_docs s) = Inr def" "chosen c (dd_workflow_key def) x (pp_flows s) t"
    and "cleared env (effective_actor a) action x t s" "same_move t (de_transition ds)"
  shows "outcome env did a version etag c s r s'"
proof -
  have t: "tr_from_state t = dh_status (dr_header x) \<and> tr_action t = action"
    using assms(2,11) executed_states bound_states by (cases c) (auto simp: chosen_def)
  have st: "dh_status (dr_header y) = tr_to_state (de_transition ds)" using assms(7,13) by (simp add: same_move_def)
  obtain audit ev h where
    p: "persist_document env (dh_version (dr_header x)) y audit ev (append_history h m) False s1 = (r, s')" and
    told: "told a y audit ev" and h: "he_target_id h = dh_id (dr_header y)" "he_actor_id h = effective_actor a"
    "he_action h = tr_action (de_transition ds)" "he_from_state h = tr_from_state (de_transition ds)"
    "he_to_state h = tr_to_state (de_transition ds)"
    by (rule finish_transition_plan [OF assms(1) st])
  have "noted (effective_actor a) action x y (append_history h m)"
    using h t assms(7,8,13) by (simp add: noted_def same_move_def)
  then have "moved env a c action x y (append_history h m) s"
    unfolding moved_def using assms(7,10-12) by (intro exI [of _ def] exI [of _ t]) (simp add: arrived_def)
  then have "attempt env did a version etag c s x y audit ev (append_history h m) s1"
    using assms(2-6,9) told by (simp add: attempt_def quietD(1) [OF assms(5)])
  then show ?thesis by (rule outcome_attempt [OF _ p])
qed

lemma submit_outcome:
  assumes "submit_document env did a version etag s = (r, s')" "doc_inv (pp_docs s)"
  shows "outcome env did a version etag Submit s r s'"
proof (rule read_checked [OF assms(1) [unfolded submit_document_def]])
  fix x
  assume x: "get_document did (pp_docs s) = Inr x" "check_expected x version etag = None"
  assume rest: "(case doc_definition_of (dh_type (dr_header x)) (pp_docs s) of
        Inl e \<Rightarrow> (Inl e, s)
      | Inr def \<Rightarrow>
          if dd_workflow_key def = [] then (Inl (Conflict ''document type has no workflow binding''), s) else
     (case execute (dd_workflow_key def) (dh_status (dr_header x)) ''submit'' (pp_flows s) of
        Inl e \<Rightarrow> (Inl e, s)
      | Inr t \<Rightarrow>
     (case apply_runtime_decisions env x (effective_actor a) ''submit'' t s of
        (Inl e, s) \<Rightarrow> (Inl e, s)
      | (Inr ds, s) \<Rightarrow>
          let (y, s) = move_document env def (effective_actor a) ''submit'' (de_transition ds) x s;
              y = mark_submitted (effective_actor a) (pe_clock env 0) y
          in (case build_workflow_mutation (dr_header y) (de_transition ds) (effective_actor a) (pe_clock env 0) None s of
                Inl e \<Rightarrow> (Inl e, s)
              | Inr m \<Rightarrow> finish_transition env a ''submit'' ''document.submitted'' x y ds m s)))) = (r, s')"
  have did: "dh_id (dr_header x) = did" using x(1) stored_document stored_parts assms(2) by blast
  show "outcome env did a version etag Submit s r s'"
  proof (cases "\<exists>def t. doc_definition_of (dh_type (dr_header x)) (pp_docs s) = Inr def \<and> dd_workflow_key def \<noteq> []
      \<and> execute (dd_workflow_key def) (dh_status (dr_header x)) ''submit'' (pp_flows s) = Inr t")
    case False
    then have "s' = s \<and> (\<exists>e. r = Inl e)" using rest by (auto split: sum.splits if_splits)
    then show ?thesis by (auto simp: outcome_fails)
  next
    case True
    then obtain def t where def: "doc_definition_of (dh_type (dr_header x)) (pp_docs s) = Inr def" "dd_workflow_key def \<noteq> []"
      "execute (dd_workflow_key def) (dh_status (dr_header x)) ''submit'' (pp_flows s) = Inr t" by blast
    show ?thesis
    proof (rule decided [OF rest [unfolded def(1) sum.case if_not_P [OF def(2)] def(3)]])
      fix ds :: decisions and s1
      assume ds: "quiet did s s1" "cleared env (effective_actor a) ''submit'' x t s" "same_move t (de_transition ds)"
      assume rest: "(let (y, s) = move_document env def (effective_actor a) ''submit'' (de_transition ds) x s1;
              y = mark_submitted (effective_actor a) (pe_clock env 0) y
          in (case build_workflow_mutation (dr_header y) (de_transition ds) (effective_actor a) (pe_clock env 0) None s of
                Inl e \<Rightarrow> (Inl e, s)
              | Inr m \<Rightarrow> finish_transition env a ''submit'' ''document.submitted'' x y ds m s)) = (r, s')"
      obtain y s2 where mv: "move_document env def (effective_actor a) ''submit'' (de_transition ds) x s1 = (y, s2)" by fastforce
      let ?y = "mark_submitted (effective_actor a) (pe_clock env 0) y"
      from move_effect [OF mv did] have y: "quiet did s1 s2" "successor did (effective_actor a) x ?y"
          "dh_status (dr_header ?y) = tr_to_state t"
        using ds(3) by (simp_all add: successor_def mark_submitted_def same_move_def)
      have q: "quiet did s s2" by (rule quiet_trans [OF ds(1) y(1)])
      show ?thesis
      proof (cases "build_workflow_mutation (dr_header ?y) (de_transition ds) (effective_actor a) (pe_clock env 0) None s2")
        case (Inl e)
        then have "r = Inl e" "s' = s2" using rest by (simp_all add: mv)
        then show ?thesis using q by (simp add: outcome_fails)
      next
        case (Inr m)
        have "finish_transition env a ''submit'' ''document.submitted'' x ?y ds m s2 = (r, s')" using rest by (simp add: mv Inr)
        then show ?thesis
          by (rule finish_outcome [OF _ _ x q y(2,3) _ _ def(1) _ ds(2,3)])
            (use def(2,3) built_mutation [OF Inr] quietD(1) [OF q] in \<open>auto simp: chosen_def\<close>)
      qed
    qed
  qed
qed


lemma bound_found:
  assumes "(case doc_definition_of (dh_type (dr_header x)) (pp_docs s) of Inl e \<Rightarrow> (Inl e, s) | Inr def \<Rightarrow>
       (case bound_transition (dd_workflow_key def) x action (pp_flows s) of Inl e \<Rightarrow> (Inl e, s) | Inr t \<Rightarrow> f def t)) = (r, s')"
    and "\<And>def t. doc_definition_of (dh_type (dr_header x)) (pp_docs s) = Inr def
       \<Longrightarrow> bound_transition (dd_workflow_key def) x action (pp_flows s) = Inr t \<Longrightarrow> f def t = (r, s') \<Longrightarrow> outcome env did a version etag c s r s'"
  shows "outcome env did a version etag c s r s'"
proof (cases "\<exists>def t. doc_definition_of (dh_type (dr_header x)) (pp_docs s) = Inr def
    \<and> bound_transition (dd_workflow_key def) x action (pp_flows s) = Inr t")
  case False
  then have "s' = s \<and> (\<exists>e. r = Inl e)" using assms(1) by (auto split: sum.splits)
  then show ?thesis by (auto simp: outcome_fails)
next
  case True
  then obtain def t where "doc_definition_of (dh_type (dr_header x)) (pp_docs s) = Inr def"
    "bound_transition (dd_workflow_key def) x action (pp_flows s) = Inr t" by blast
  then show ?thesis using assms(1) by (intro assms(2)) simp_all
qed

lemma planned_transition:
  "plan_transition env did h action actor t s = Inr m \<Longrightarrow> mu_history m = [] \<and> applicable (pp_flows s) m"
  by (cases "build_workflow_mutation h t actor (pe_clock env 0) None s")
    (auto simp: plan_transition_def Let_def dest!: built_mutation split: if_splits)

lemma rebound_effect:
  assumes "write_metadata (bind_workflow u) (set_status (tr_to_state u) x) s = (y0, s')" "dh_id (dr_header x) = did"
  shows "quiet did s s' \<and> successor did actor x (next_version actor now y0) \<and> dh_status (dr_header (next_version actor now y0)) = tr_to_state u"
proof -
  have q: "quiet did s s'" by (rule quiet_write [OF assms(1)]) (simp add: set_status_def assms(2))
  moreover have "y0 = with_metadata (bind_workflow u) (set_status (tr_to_state u) x)" using write_metadata_effect [OF assms(1)] by blast
  ultimately show ?thesis by (simp add: successor_def next_version_def Let_def with_metadata_def set_status_def assms(2))
qed

lemma transition_outcome:
  assumes "transition_document env did a version etag action type s = (r, s')" "doc_inv (pp_docs s)"
  shows "outcome env did a version etag (Move action type) s r s'"
proof (rule read_checked [OF assms(1) [unfolded transition_document_def]], erule bound_found, erule decided)
  fix x def t s1 and ds :: decisions
  assume x: "get_document did (pp_docs s) = Inr x" "check_expected x version etag = None"
    and def: "doc_definition_of (dh_type (dr_header x)) (pp_docs s) = Inr def" "bound_transition (dd_workflow_key def) x action (pp_flows s) = Inr t"
    and ds: "quiet did s s1" "cleared env (effective_actor a) action x t s" "same_move t (de_transition ds)"
    and rest: "(case plan_transition env did (dr_header x) action (effective_actor a) (de_transition ds) s1 of
        Inl e \<Rightarrow> (Inl e, s1)
      | Inr m \<Rightarrow>
          let (y, s) = write_metadata (bind_workflow (de_transition ds)) (set_status (tr_to_state (de_transition ds)) x) s1;
              y = next_version (effective_actor a) (pe_clock env 0) y
          in finish_transition env a action type x y ds m s) = (r, s')"
  have did: "dh_id (dr_header x) = did" using x(1) stored_document stored_parts assms(2) by blast
  show "outcome env did a version etag (Move action type) s r s'"
  proof (cases "plan_transition env did (dr_header x) action (effective_actor a) (de_transition ds) s1")
    case (Inl e)
    then have "r = Inl e" "s' = s1" using rest by simp_all
    then show ?thesis using ds(1) by (simp add: outcome_fails)
  next
    case (Inr m)
    obtain y0 s2 where w: "write_metadata (bind_workflow (de_transition ds)) (set_status (tr_to_state (de_transition ds)) x) s1 = (y0, s2)"
      by fastforce
    let ?y = "next_version (effective_actor a) (pe_clock env 0) y0"
    have y: "quiet did s1 s2" "successor did (effective_actor a) x ?y" "dh_status (dr_header ?y) = tr_to_state t"
      using rebound_effect [OF w did] ds(3) by (simp_all add: same_move_def)
    have q: "quiet did s s2" by (rule quiet_trans [OF ds(1) y(1)])
    have "finish_transition env a action type x ?y ds m s2 = (r, s')" using rest by (simp add: w Inr)
    then show ?thesis
      by (rule finish_outcome [OF _ _ x q y(2,3) _ _ def(1) _ ds(2,3)])
        (use def planned_transition [OF Inr] quietD(1) [OF ds(1)] in \<open>auto simp: chosen_def\<close>)
  qed
qed


section \<open>Approvals in stages\<close>

lemma record_approver_effect:
  assumes "record_approver stage actor x s = (q, y, s')" "dh_id (dr_header x) = did"
  shows "quiet did s s' \<and> (\<exists>f. y = with_metadata f x)"
proof -
  have same: "\<exists>f. x = with_metadata f x" by (rule exI [of _ "\<lambda>m. m"]) (simp add: with_metadata_def)
  show ?thesis
  proof (cases "\<exists>k as. write_metadata (set_stage_actors k as) x s = (y, s')")
    case True
    then obtain f where w: "write_metadata f x s = (y, s')" by blast
    then show ?thesis using quiet_write [OF w assms(2)] write_metadata_effect [OF w] by blast
  next
    case False
    then have "y = x \<and> s' = s"
      using assms(1) by (auto simp: record_approver_def Let_def split: option.splits if_splits prod.splits)
    then show ?thesis using same by simp
  qed
qed

lemma map_sum_some [simp]: "map_sum id Some z = Inr (Some pg) \<longleftrightarrow> z = Inr pg"
  by (cases z) simp_all

lemma opened_stage:
  assumes "open_next_stage env policy_id current sequence sg stages x actor base now s = Inr pg"
  shows "mu_history (pg_mutation pg) = [] \<and> applicable (pp_flows s) (pg_mutation pg) \<and> same_move base (pg_transition pg)"
  using assms
  by (auto simp: open_next_stage_def Let_def same_move_def split: sum.splits dest!: snapshots_plan)

text \<open>Where the next stage is looked for once the current one has its approvers.\<close>

definition to_next_stage ::
    "'p app_env \<Rightarrow> string \<Rightarrow> approval \<Rightarrow> int \<Rightarrow> approval_stage list \<Rightarrow> doc_record \<Rightarrow> string \<Rightarrow> transition \<Rightarrow> gotime \<Rightarrow> 'p app_state
       \<Rightarrow> progress option result" where
  "to_next_stage env policy_id current sequence stages x actor base now s =
     (case find_stage (sequence + 1) stages of
        None \<Rightarrow> Inr None
      | Some sg \<Rightarrow> map_sum id Some (open_next_stage env policy_id current sequence sg (length stages) x actor base now s))"

lemma progression_cases:
  assumes "resolve_approval_progression env x actor base now s = (res, y, s')"
  obtains (unstaged) "y = x" "s' = s" "\<forall>pg. res \<noteq> Inr (Some pg)"
      "\<not> pe_approval_rules env \<or> (case current_pending_approval (dh_id (dr_header x)) (pp_flows s) of None \<Rightarrow> True | Some ap \<Rightarrow>
         meta_string (ap_metadata ap) ''approval_policy_id'' = [] \<or> meta_int (ap_metadata ap) ''approval_stage_sequence'' 0 \<le> 0
       \<or> (\<exists>e. stages_for_policy (pe_model env) (meta_string (ap_metadata ap) ''approval_policy_id'') (pp_models s) = Inl e \<and> res = Inl e))"
  | (staged) ap policy_id n stages q where "pe_approval_rules env" "current_pending_approval (dh_id (dr_header x)) (pp_flows s) = Some ap"
      "policy_id = meta_string (ap_metadata ap) ''approval_policy_id''" "n = meta_int (ap_metadata ap) ''approval_stage_sequence'' 0" "0 < n"
      "policy_id \<noteq> []" "stages_for_policy (pe_model env) policy_id (pp_models s) = Inr stages"
      "record_approver (find_stage n stages) actor x s = (q, y, s')"
      "res = (case q of Inl e \<Rightarrow> Inl e | Inr None \<Rightarrow> to_next_stage env policy_id ap n stages y actor base now s'
        | Inr (Some k) \<Rightarrow> if int (length (qm_approvers k)) < sg_required_approver_count (qm_stage k)
            then Inr (Some \<lparr>pg_mutation = empty_mutation, pg_payload = quorum_fields policy_id k, pg_transition = base\<rparr>)
            else to_next_stage env policy_id ap n stages y actor base now s')"
proof (cases "pe_approval_rules env")
  case False
  then show thesis using assms by (intro unstaged) (auto simp: resolve_approval_progression_def)
next
  case rules: True
  show thesis
  proof (cases "current_pending_approval (dh_id (dr_header x)) (pp_flows s)")
    case None
    then show thesis using assms rules by (intro unstaged) (auto simp: resolve_approval_progression_def)
  next
    case (Some ap)
    let ?p = "meta_string (ap_metadata ap) ''approval_policy_id''" and ?n = "meta_int (ap_metadata ap) ''approval_stage_sequence'' 0"
    show thesis
    proof (cases "?p = [] \<or> ?n \<le> 0")
      case True
      then show thesis using assms rules Some by (intro unstaged) (auto simp: resolve_approval_progression_def Let_def)
    next
      case named: False
      show thesis
      proof (cases "stages_for_policy (pe_model env) ?p (pp_models s)")
        case (Inl e)
        then show thesis using assms rules Some named by (intro unstaged) (auto simp: resolve_approval_progression_def Let_def)
      next
        case (Inr stages)
        obtain q y1 s1 where q: "record_approver (find_stage ?n stages) actor x s = (q, y1, s1)" by (metis prod_cases3)
        have "y1 = y \<and> s1 = s' \<and> res = (case q of Inl e \<Rightarrow> Inl e | Inr None \<Rightarrow> to_next_stage env ?p ap ?n stages y actor base now s'
            | Inr (Some k) \<Rightarrow> if int (length (qm_approvers k)) < sg_required_approver_count (qm_stage k)
                then Inr (Some \<lparr>pg_mutation = empty_mutation, pg_payload = quorum_fields ?p k, pg_transition = base\<rparr>)
                else to_next_stage env ?p ap ?n stages y actor base now s')"
        proof -
          have "(res, y, s') = (case q of Inl e \<Rightarrow> Inl e | Inr None \<Rightarrow> to_next_stage env ?p ap ?n stages y1 actor base now s1
            | Inr (Some k) \<Rightarrow> if int (length (qm_approvers k)) < sg_required_approver_count (qm_stage k)
                then Inr (Some \<lparr>pg_mutation = empty_mutation, pg_payload = quorum_fields ?p k, pg_transition = base\<rparr>)
                else to_next_stage env ?p ap ?n stages y1 actor base now s1, y1, s1)"
            unfolding assms [symmetric]
            by (simp add: resolve_approval_progression_def rules Some named Inr q to_next_stage_def split: sum.split option.split)
          then show ?thesis by auto
        qed
        with q named show thesis by (intro staged [OF rules Some refl refl _ _ Inr]) auto
      qed
    qed
  qed
qed

lemma progression_effect:
  assumes "resolve_approval_progression env x actor base now s = (res, y, s')" "dh_id (dr_header x) = did"
  shows "quiet did s s' \<and> (\<exists>f. y = with_metadata f x)
    \<and> (\<forall>pg. res = Inr (Some pg) \<longrightarrow> mu_history (pg_mutation pg) = [] \<and> applicable (pp_flows s') (pg_mutation pg) \<and> same_move base (pg_transition pg))"
proof (rule progression_cases [OF assms(1)], goal_cases)
  case 1
  have "\<exists>f. x = with_metadata f x" by (rule exI [of _ "\<lambda>m. m"]) (simp add: with_metadata_def)
  with 1 show ?case by simp
next
  case (2 ap policy_id n stages q)
  have next_ok: "mu_history (pg_mutation pg) = [] \<and> applicable (pp_flows s') (pg_mutation pg) \<and> same_move base (pg_transition pg)"
    if "to_next_stage env policy_id ap n stages y actor base now s' = Inr (Some pg)" for pg
    using that by (auto simp: to_next_stage_def split: option.splits dest: opened_stage)
  have "mu_history (pg_mutation pg) = [] \<and> applicable (pp_flows s') (pg_mutation pg) \<and> same_move base (pg_transition pg)"
    if "res = Inr (Some pg)" for pg
    using that next_ok 2(9) by (auto split: sum.splits option.splits if_splits)
  with record_approver_effect [OF 2(8) assms(2)] show ?case by blast
qed


lemma stage_outcome:
  assumes "finish_stage env a x y ds pg s1 = (r, s')" "get_document did (pp_docs s) = Inr x" "check_expected x version etag = None"
    and "quiet did s s1" "successor did (effective_actor a) x y" "dh_status (dr_header y) = dh_status (dr_header x)"
    and "mu_history (pg_mutation pg) = []" "applicable (pp_flows s) (pg_mutation pg)" "same_move t (pg_transition pg)"
    and "doc_definition_of (dh_type (dr_header x)) (pp_docs s) = Inr def" "chosen Approve (dd_workflow_key def) x (pp_flows s) t"
    and "cleared env (effective_actor a) ''approve'' x t s"
  shows "outcome env did a version etag Approve s r s'"
proof -
  have t: "tr_from_state t = dh_status (dr_header x) \<and> tr_action t = ''approve''"
    using assms(11) bound_states by (auto simp: chosen_def)
  let ?h = "dr_header y" and ?now = "pe_clock env 0"
  let ?corr = "correlation_of a (''doc-approve-stage:'' @ dh_id ?h @ '':'' @ show_int (dh_version ?h))"
  let ?audit = "action_audit a ''document.approval.progress'' (tr_from_state (de_transition ds)) (dh_status ?h) ?corr ?now (pe_copy env x) y
      (transition_metadata y ds @ [(''approval_stage'', GObj (pg_payload pg))])"
  let ?ev = "action_event a ''document.approval.progressed'' ?corr ?now y (stage_payload a (pe_copy env x) y ds (pg_payload pg))"
  let ?hist = "history_of_action y ((pg_transition pg)\<lparr>tr_to_state := dh_status ?h\<rparr>) (effective_actor a) ?corr (de_permit ds) (de_assignment ds) ?now"
  have p: "persist_document env (dh_version (dr_header x)) y ?audit ?ev (append_history ?hist (pg_mutation pg)) False s1 = (r, s')"
    using assms(1) by (simp only: finish_stage_def Let_def)
  have told: "told a y ?audit ?ev" by (simp add: told_def action_audit_def action_event_def)
  have "noted (effective_actor a) ''approve'' x y (append_history ?hist (pg_mutation pg))"
    using t assms(6,7,9) by (simp add: noted_def history_of_action_def same_move_def)
  then have "moved env a Approve ''approve'' x y (append_history ?hist (pg_mutation pg)) s"
    unfolding moved_def using assms(6,10-12) by (intro exI [of _ def] exI [of _ t]) (simp add: arrived_def)
  then have "attempt env did a version etag Approve s x y ?audit ?ev (append_history ?hist (pg_mutation pg)) s1"
    using assms(2-5,8) told by (simp add: attempt_def quietD(1) [OF assms(4)])
  then show ?thesis by (rule outcome_attempt [OF _ p])
qed

lemma approve_outcome:
  assumes "approve_document env did a version etag s = (r, s')" "doc_inv (pp_docs s)"
  shows "outcome env did a version etag Approve s r s'"
proof (rule read_checked [OF assms(1) [unfolded approve_document_def]], erule bound_found, erule decided)
  fix x def t s1 and ds :: decisions
  assume x: "get_document did (pp_docs s) = Inr x" "check_expected x version etag = None"
    and def: "doc_definition_of (dh_type (dr_header x)) (pp_docs s) = Inr def" "bound_transition (dd_workflow_key def) x ''approve'' (pp_flows s) = Inr t"
    and ds: "quiet did s s1" "cleared env (effective_actor a) ''approve'' x t s" "same_move t (de_transition ds)"
    and rest: "(case resolve_approval_progression env x (effective_actor a) (de_transition ds) (pe_clock env 0) s1 of
        (Inl e, _, s) \<Rightarrow> (Inl e, s)
      | (Inr (Some pg), y, s) \<Rightarrow> finish_stage env a x (next_version (effective_actor a) (pe_clock env 0) y) ds pg s
      | (Inr None, y, s) \<Rightarrow>
          let (y, s) = move_document env def (effective_actor a) ''approve'' (de_transition ds) y s
          in (case build_workflow_mutation (dr_header y) (de_transition ds) (effective_actor a) (pe_clock env 0)
                     (Some (''approved'', ''completed'')) s of
                Inl e \<Rightarrow> (Inl e, s)
              | Inr m \<Rightarrow> finish_transition env a ''approve'' ''document.approved'' x y ds m s)) = (r, s')"
  have did: "dh_id (dr_header x) = did" using x(1) stored_document stored_parts assms(2) by blast
  have chosen: "chosen Approve (dd_workflow_key def) x (pp_flows s) t" using def(2) by (simp add: chosen_def)
  obtain res y0 s2 where pr: "resolve_approval_progression env x (effective_actor a) (de_transition ds) (pe_clock env 0) s1 = (res, y0, s2)"
    by (metis prod_cases3)
  from progression_effect [OF pr did] obtain f where eff: "quiet did s1 s2" "y0 = with_metadata f x" and
    staged: "\<And>pg. res = Inr (Some pg) \<Longrightarrow> mu_history (pg_mutation pg) = [] \<and> applicable (pp_flows s2) (pg_mutation pg)
      \<and> same_move (de_transition ds) (pg_transition pg)" by blast
  have did0: "dh_id (dr_header y0) = did" by (simp add: eff did)
  have q: "quiet did s s2" by (rule quiet_trans [OF ds(1) eff(1)])
  show "outcome env did a version etag Approve s r s'"
  proof (cases res)
    case (Inl e)
    then have "r = Inl e" "s' = s2" using rest by (simp_all add: pr)
    then show ?thesis using q by (simp add: outcome_fails)
  next
    case (Inr p)
    show ?thesis
    proof (cases p)
      case (Some pg)
      have "finish_stage env a x (next_version (effective_actor a) (pe_clock env 0) y0) ds pg s2 = (r, s')"
        using rest by (simp add: pr Inr Some)
      then show ?thesis
        by (rule stage_outcome [OF _ x q _ _ _ _ _ def(1) chosen ds(2)])
          (use next_version_successor [OF did0, of "effective_actor a" "pe_clock env 0"] eff(2) staged [of pg] Inr Some ds(3)
             quietD(1) [OF q] in \<open>auto simp: same_move_def\<close>)
    next
      case None
      obtain y s3 where mv: "move_document env def (effective_actor a) ''approve'' (de_transition ds) y0 s2 = (y, s3)" by fastforce
      from move_effect [OF mv did0] have y: "quiet did s2 s3" "successor did (effective_actor a) x y" "dh_status (dr_header y) = tr_to_state t"
        using ds(3) eff(2) by (simp_all add: same_move_def)
      have q3: "quiet did s s3" by (rule quiet_trans [OF q y(1)])
      let ?m = "build_workflow_mutation (dr_header y) (de_transition ds) (effective_actor a) (pe_clock env 0) (Some (''approved'', ''completed'')) s3"
      show ?thesis
      proof (cases ?m)
        case (Inl e)
        then have "r = Inl e" "s' = s3" using rest by (simp_all add: pr Inr None mv)
        then show ?thesis using q3 by (simp add: outcome_fails)
      next
        case m: (Inr m)
        have "finish_transition env a ''approve'' ''document.approved'' x y ds m s3 = (r, s')" using rest by (simp add: pr Inr None mv m)
        then show ?thesis
          by (rule finish_outcome [OF _ _ x q3 y(2,3) _ _ def(1) chosen ds(2,3)])
            (use built_mutation [OF m] quietD(1) [OF q3] in auto)
      qed
    qed
  qed
qed

section \<open>Editing\<close>

lemma edit_outcome:
  assumes "finish_edit env a action type corr extra x y s = (r, s')" "get_document did (pp_docs s) = Inr x" "check_expected x version etag = None"
    and "successor did (effective_actor a) x y" "dh_status (dr_header x) = ''draft''" "dh_status (dr_header y) = ''draft''" "action_of c = None"
  shows "outcome env did a version etag c s r s'"
proof -
  let ?h = "dr_header y" and ?now = "pe_clock env 0"
  let ?corr = "correlation_of a (corr @ dh_id ?h @ '':'' @ show_int (dh_version ?h))"
  let ?audit = "action_audit a action (dh_status ?h) (dh_status ?h) ?corr ?now (pe_copy env x) y
      ((''document_type'', GStr (dh_type ?h)) # extra @ [(''version'', GInt (dh_version ?h))])"
  let ?ev = "action_event a type ?corr ?now y (edit_payload a (pe_copy env x) y extra)"
  have p: "persist_document env (dh_version (dr_header x)) y ?audit ?ev empty_mutation True s = (r, s')"
    using assms(1) by (simp only: finish_edit_def Let_def)
  have "told a y ?audit ?ev" by (simp add: told_def action_audit_def action_event_def)
  then have "attempt env did a version etag c s x y ?audit ?ev empty_mutation s"
    using assms(2-7) by (simp add: attempt_def edited_def)
  then show ?thesis by (rule outcome_attempt [OF _ p])
qed

lemma set_payload_simps [simp]:
  "dr_header (set_payload env p x) = dr_header x" "dr_lines (set_payload env p x) = dr_lines x"
  "dr_links (set_payload env p x) = dr_links x" "dr_attachments (set_payload env p x) = dr_attachments x"
  by (simp_all add: set_payload_def)

lemma payload_successor:
  "dh_id (dr_header x) = did \<Longrightarrow> successor did actor x (set_payload env p (next_version actor now x))"
  by (simp add: successor_def next_version_def Let_def)

lemma edits_outcome:
  assumes "update_draft env did a payload version etag s = (r, s') \<and> c = EditDraft payload
      \<or> update_extension env did k a payload version etag s = (r, s') \<and> c = Extend k payload" and inv: "doc_inv (pp_docs s)"
  shows "outcome env did a version etag c s r s'"
proof (cases "\<exists>x. get_document did (pp_docs s) = Inr x \<and> dh_status (dr_header x) = ''draft'' \<and> check_expected x version etag = None")
  case False
  then have "s' = s \<and> (\<exists>e. r = Inl e)"
    using assms(1) by (auto simp: update_draft_def update_extension_def split: sum.splits option.splits if_splits)
  then show ?thesis by (auto simp: outcome_fails)
next
  case True
  then obtain x where x: "get_document did (pp_docs s) = Inr x" "dh_status (dr_header x) = ''draft''" "check_expected x version etag = None" by blast
  then have did: "dh_id (dr_header x) = did" using stored_document stored_parts inv by blast
  note step = payload_successor [OF did] next_version_successor [OF did]
  show ?thesis
  proof (cases "c = Extend k payload \<and> k \<notin> set (map xd_module_key (list_extension_definitions (dh_type (dr_header x)) (pp_docs s)))")
    case True
    then have "s' = s \<and> (\<exists>e. r = Inl e)" using assms(1) x by (auto simp: update_extension_def)
    then show ?thesis by (auto simp: outcome_fails)
  next
    case ok: False
    from assms(1) show ?thesis
    proof
      assume "update_draft env did a payload version etag s = (r, s') \<and> c = EditDraft payload"
      then have "finish_edit env a ''document.update'' ''document.updated'' ''doc-update:'' [] x
          (set_payload (pe_doc env) (merge_base_payload (pe_doc env) (db_payload (dr_body x)) payload)
            (next_version (effective_actor a) (pe_clock env 0) x)) s = (r, s')" "action_of c = None"
        using x by (simp_all add: update_draft_def Let_def)
      then show ?thesis by (intro edit_outcome [OF _ x(1,3) step(1) x(2)]) (simp_all add: step(2) x(2))
    next
      assume "update_extension env did k a payload version etag s = (r, s') \<and> c = Extend k payload"
      then have "finish_edit env a ''document.extension.update'' ''document.extension.updated''
          (''doc-extension-update:'' @ k @ '':'') [(''module_key'', GStr k)] x
          (set_payload (pe_doc env) (set_extension_payload (pe_doc env) (db_payload (dr_body x)) k payload)
            (next_version (effective_actor a) (pe_clock env 0) x)) s = (r, s')" "action_of c = None"
        using x ok by (simp_all add: update_extension_def Let_def)
      then show ?thesis by (intro edit_outcome [OF _ x(1,3) step(1) x(2)]) (simp_all add: step(2) x(2))
    qed
  qed
qed

lemma command_outcome:
  assumes "run_command env did a version etag c s = (r, s')" "doc_inv (pp_docs s)"
  shows "outcome env did a version etag c s r s'"
  using assms submit_outcome approve_outcome transition_outcome edits_outcome by (cases c) fastforce+


section \<open>What a command leaves\<close>

text \<open>The document is stored as answered, and no other is touched.\<close>

lemma stored_successor:
  assumes "doc_inv d" "map_of (rp_records d) did = Some x" "metadata_only did d d1" "successor did actor x y"
  shows "map_of (rp_records (save_record y d1)) did = Some y"
    and "k \<noteq> did \<Longrightarrow> map_of (rp_records (save_record y d1)) k = map_of (rp_records d) k"
proof -
  have "with_parts did d x = x" using stored_parts [OF assms(1,2)] by simp
  then have "list_lines did d1 = dr_lines x" "list_links did d1 = dr_links x" "list_attachments did d1 = dr_attachments x"
    using assms(3) by (simp_all add: metadata_only_def list_lines_def list_links_def list_attachments_def with_parts_fixed)
  then have "with_parts did d1 y = y" using assms(4) by (simp add: with_parts_fixed successor_def)
  then show "map_of (rp_records (save_record y d1)) did = Some y" using assms(4) by (simp add: save_record_def successor_def)
  show "map_of (rp_records (save_record y d1)) k = map_of (rp_records d) k" if "k \<noteq> did"
    using that assms(3,4) by (simp add: save_record_def successor_def metadata_only_def)
qed

lemma command_cases:
  assumes "run_command env did a version etag c s = (r, s')" "doc_inv (pp_docs s)"
  obtains (failed) e where "r = Inl e" "quiet did s s'"
  | (rejected) e x y audit ev m s1 where "attempt env did a version etag c s x y audit ev m s1" "r = Inl e"
      "s' = s1\<lparr>pp_docs := save_record y (pp_docs s1), pp_audit := record_audit audit (pp_audit s)\<rparr>"
      "record_event (pe_validate env) (pe_events env) (pe_sinks env) (pe_clock env 9) ev (pp_events s) = (Some e, pp_events s)"
  | (stored) x y audit ev m s1 where "attempt env did a version etag c s x y audit ev m s1" "r = Inr y"
      "map_of (rp_records (pp_docs s)) did = Some x" "pp_docs s' = save_record y (pp_docs s1)"
      "pp_audit s' = record_audit audit (pp_audit s)"
      "record_event (pe_validate env) (pe_events env) (pe_sinks env) (pe_clock env 9) ev (pp_events s) = (None, pp_events s')"
      "apply_mutation m (pp_flows s) = (None, pp_flows s')" "pp_models s' = pp_models s"
proof (cases "\<exists>e. r = Inl e \<and> quiet did s s'")
  case True
  then show thesis using failed by blast
next
  case False
  with command_outcome [OF assms] obtain x y audit ev m draft s1 where
    at: "attempt env did a version etag c s x y audit ev m s1" and
    p: "persist_document env (dh_version (dr_header x)) y audit ev m draft s1 = (r, s')"
    by (auto simp: outcome_def)
  have q: "quiet did s s1" and succ: "successor did (effective_actor a) x y" and app: "applicable (pp_flows s1) m"
    and get: "get_document did (pp_docs s) = Inr x" using at by (auto simp: attempt_def)
  note q_only = quietD [OF q]
  have x: "map_of (rp_records (pp_docs s)) did = Some x" using get stored_document [OF assms(2)] by blast
  obtain cur where "map_of (rp_records (pp_docs s1)) did = Some cur" and plain: "plain cur = plain x"
    using metadata_only_lookup [OF q_only(6) x] by blast
  then have cur: "get_document (dh_id (dr_header y)) (pp_docs s1) = Inr cur"
    using stored_document [OF metadata_only_inv [OF q_only(6) assms(2)]] succ by (simp add: successor_def)
  have same: "dh_version (dr_header cur) = dh_version (dr_header x)" using plain_eqD [OF plain] by blast
  show thesis
  proof (rule persist_cases [OF p app cur same])
    assume "r = Inr y" "pp_docs s' = save_record y (pp_docs s1)" "pp_audit s' = record_audit audit (pp_audit s1)"
      "record_event (pe_validate env) (pe_events env) (pe_sinks env) (pe_clock env 9) ev (pp_events s1) = (None, pp_events s')"
      "apply_mutation m (pp_flows s1) = (None, pp_flows s')" "pp_models s' = pp_models s1"
    then show thesis by (intro stored [OF at _ x]) (simp_all add: q_only)
  next
    fix e
    assume "r = Inl e" "s' = s1\<lparr>pp_docs := save_record y (pp_docs s1), pp_audit := record_audit audit (pp_audit s1)\<rparr>"
      "record_event (pe_validate env) (pe_events env) (pe_sinks env) (pe_clock env 9) ev (pp_events s1) = (Some e, pp_events s1)"
    then show thesis by (intro rejected [OF at]) (simp_all add: q_only)
  qed
qed

end
