(* ===== verification/ActionProperties.thy ===== *)
theory ActionProperties
  imports DocumentMoves
begin

text \<open>
  The guarantees of the actions on documents. They are shown on a small desk: one document of a type whose
  workflow has two states, and a policy whose only stage needs two approvers.
\<close>

section \<open>A desk for demonstrations\<close>

definition desk_env :: "bool \<Rightarrow> bool app_env" where
  "desk_env rules = \<lparr>pe_doc = \<lparr>de_float = (\<lambda>_. []), de_time = (\<lambda>_. []), de_json = (\<lambda>_. Inr []), de_sha = (\<lambda>s. s)\<rparr>,
     pe_model = \<lparr>me_ulid = (\<lambda>_. []), me_clock = (\<lambda>_. 100), me_decimal = (\<lambda>_. []), me_float = (\<lambda>_. []), me_time = (\<lambda>_. []), me_stamp = (\<lambda>_. [])\<rparr>,
     pe_rego = \<lparr>rg_compile = (\<lambda>_ _ _. Inr True), rg_eval = (\<lambda>_ _. Inr [])\<rparr>, pe_sha = (\<lambda>s. s), pe_rule_fields = (\<lambda>_. []),
     pe_policy = False, pe_approval_rules = rules, pe_validate = (\<lambda>_ _ _. Inr []), pe_events = new_event_service,
     pe_sinks = [], pe_copy = (\<lambda>x. x), pe_stamp = (\<lambda>_. []), pe_clock = (\<lambda>_. 100), pe_ulid = (\<lambda>_. [])\<rparr>"

definition desk_document :: doc_record where
  "desk_document = \<lparr>dr_header = \<lparr>dh_id = ''d'', dh_type = ''t'', dh_status = ''draft'', dh_version = 1, dh_etag = ''d:1'',
       dh_organization_id = [], dh_location_id = [], dh_number = [], dh_created_by = ''ann'', dh_created_at = 1, dh_updated_by = ''ann'',
       dh_updated_at = 1, dh_submitted_by = [], dh_submitted_at = 0, dh_total_amount = \<lparr>amount_minor = 0, currency = []\<rparr>, dh_metadata = []\<rparr>,
     dr_body = \<lparr>db_document_id = ''d'', db_schema_version = ''v1'', db_payload = [], db_content_hash = []\<rparr>,
     dr_lines = [], dr_links = [], dr_attachments = []\<rparr>"

definition desk_docs :: "doc_record \<Rightarrow> doc_repo" where
  "desk_docs x = \<lparr>rp_definitions = [(''t'', \<lparr>dd_type = ''t'', dd_display_name = [], dd_schema_version = ''v1'', dd_workflow_key = ''f'',
       dd_numbering_key = [], dd_owner_module_key = [], dd_allowed_link_types = [], dd_allowed_attachment_types = []\<rparr>)],
     rp_extensions = [], rp_records = [(''d'', x)], rp_lines = [], rp_links = [], rp_attachments = []\<rparr>"

definition desk_flow :: wf_definition where
  "desk_flow = (plain_definition ''f'' [''draft'', ''closed'', ''approved'']
     [plain_rule ''close'' ''draft'' ''closed'' [], plain_rule ''approve'' ''draft'' ''approved'' []])\<lparr>wd_version := 1, wd_status := ''published''\<rparr>"

definition desk :: "doc_record \<Rightarrow> approval list \<Rightarrow> model_repo \<Rightarrow> bool app_state" where
  "desk x as models = \<lparr>pp_docs = desk_docs x, pp_flows = \<lparr>wr_definitions = [(''f'', [desk_flow])], wr_tasks = [], wr_approvals = as, wr_history = []\<rparr>,
     pp_identity = new_identity_repo [] [] [] [] [] [] [] [], pp_policy = new_policy_service None, pp_models = models, pp_audit = [],
     pp_events = new_event_repo\<rparr>"

definition acting_as :: "string \<Rightarrow> acting" where
  "acting_as u = \<lparr>ac_actor_id = u, ac_actor_kind = ''user'', ac_effective_user_id = [], ac_on_behalf_of_user_id = [],
     ac_delegation_grant_id = [], ac_deep_link_grant_id = [], ac_correlation_id = []\<rparr>"

lemma desk_docs_inv:
  assumes "dh_id (dr_header x) = ''d''" "dr_lines x = []" "dr_links x = []" "dr_attachments x = []"
  shows "doc_inv (desk_docs x)"
  using assms
  by (intro doc_invI) (simp_all add: desk_docs_def wf_map_def record_ok_def parts_ok_def with_parts_fixed list_lines_def list_links_def list_attachments_def)

lemmas desk_defs = desk_env_def desk_document_def desk_docs_def desk_def acting_as_def new_identity_repo_def new_event_repo_def

section \<open>Moves that are allowed succeed\<close>

definition accepts_events :: "'p app_env \<Rightarrow> bool" where
  "accepts_events env \<longleftrightarrow> (\<forall>t sv e. pe_validate env t sv e = Inr [])"

lemma accepted: "accepts_events env \<Longrightarrow> fst (record_event (pe_validate env) svc names now e r) = None"
  by (simp add: record_event_def Let_def accepts_events_def)

lemma finishing:
  assumes "accepts_events env" "doc_inv (pp_docs s)" "get_document did (pp_docs s) = Inr x" "quiet did s s1" "dh_id (dr_header y) = did"
    "applicable (pp_flows s1) m" "dh_status (dr_header y) = tr_to_state (de_transition ds)"
  shows "fst (finish_transition env a action type x y ds m s1) = Inr y"
proof -
  obtain r s' where f: "finish_transition env a action type x y ds m s1 = (r, s')" by fastforce
  obtain audit ev h where p: "persist_document env (dh_version (dr_header x)) y audit ev (append_history h m) False s1 = (r, s')"
    by (rule finish_transition_plan [OF f assms(7)])
  have "map_of (rp_records (pp_docs s)) did = Some x" using assms(2,3) stored_document by blast
  then obtain cur where cur: "map_of (rp_records (pp_docs s1)) did = Some cur" "plain cur = plain x"
    using metadata_only_lookup quietD(6) [OF assms(4)] by blast
  then have get: "get_document (dh_id (dr_header y)) (pp_docs s1) = Inr cur"
    using stored_document [OF metadata_only_inv [OF quietD(6) [OF assms(4)] assms(2)]] assms(5) by simp
  have "dh_version (dr_header cur) = dh_version (dr_header x)" using plain_eqD [OF cur(2)] by blast
  from persist_cases [OF p _ get this] have "r = Inr y"
    using assms(6) accepted [OF assms(1)] by (metis applicable_simps(2) fst_conv option.distinct(1))
  then show ?thesis by (simp add: f)
qed

lemma declared_move_succeeds:
  assumes inv: "doc_inv (pp_docs s)" and events: "accepts_events env"
    and x: "get_document did (pp_docs s) = Inr x" "check_expected x version etag = None"
    and def: "doc_definition_of (dh_type (dr_header x)) (pp_docs s) = Inr def"
    and t: "bound_transition (dd_workflow_key def) x action (pp_flows s) = Inr t"
    and ds: "apply_runtime_decisions env x (effective_actor a) action t s = (Inr ds, s1)"
    and m: "plan_transition env did (dr_header x) action (effective_actor a) (de_transition ds) s1 = Inr m"
  shows "\<exists>y. fst (transition_document env did a version etag action type s) = Inr y
    \<and> dh_status (dr_header y) = tr_to_state t \<and> dh_version (dr_header y) = wrap64 (dh_version (dr_header x) + 1)"
proof -
  let ?t = "de_transition ds"
  have did: "dh_id (dr_header x) = did" using x(1) stored_document stored_parts inv by blast
  obtain y0 s2 where w: "write_metadata (bind_workflow ?t) (set_status (tr_to_state ?t) x) s1 = (y0, s2)" by fastforce
  let ?y = "next_version (effective_actor a) (pe_clock env 0) y0"
  note q1 = quiet_decisions [OF ds, of did]
  have y: "quiet did s1 s2" "successor did (effective_actor a) x ?y" "dh_status (dr_header ?y) = tr_to_state ?t"
    using rebound_effect [OF w did] by simp_all
  have q: "quiet did s s2" by (rule quiet_trans [OF q1 y(1)])
  have app: "applicable (pp_flows s2) m" using planned_transition [OF m] quietD(1) [OF q] quietD(1) [OF q1] by simp
  have id: "dh_id (dr_header ?y) = did" using y(2) by (simp add: successor_def)
  have run: "transition_document env did a version etag action type s = finish_transition env a action type x ?y ds m s2"
    by (simp add: transition_document_def x def t ds m w)
  have fin: "fst (finish_transition env a action type x ?y ds m s2) = Inr ?y"
    by (rule finishing [OF events inv x(1) q id app y(3)])
  have "tr_to_state ?t = tr_to_state t" using runtime_decisions_ok(3) [OF ds] by (simp add: same_move_def)
  then show ?thesis using y(2,3) by (intro exI [of _ ?y]) (simp only: run fin successor_def simp_thms)
qed

lemma desk_read:
  "get_document ''d'' (pp_docs (desk desk_document [] r)) = Inr desk_document" "check_expected desk_document 1 [] = None"
  "doc_inv (pp_docs (desk desk_document [] r))" "accepts_events (desk_env b)" "pp_flows (desk x [] r) = pp_flows (desk desk_document [] r)"
  by (simp_all add: desk_defs get_document_def get_record_def with_parts_def list_lines_def list_links_def list_attachments_def
      check_expected_def accepts_events_def desk_docs_inv [unfolded desk_docs_def])

lemma desk_type:
  "doc_definition_of (dh_type (dr_header desk_document)) (pp_docs (desk desk_document [] r)) = Inr (snd (hd (rp_definitions (desk_docs desk_document))))"
  "dd_workflow_key (snd (hd (rp_definitions (desk_docs desk_document)))) = ''f''"
  by (simp_all add: desk_defs doc_definition_of_def get_doc_definition_def)

definition desk_move :: transition where
  "desk_move = transition_of_rule desk_flow ''draft'' ''close'' (plain_rule ''close'' ''draft'' ''closed'' [])"

lemma desk_bound: "bound_transition ''f'' desk_document ''close'' (pp_flows (desk desk_document [] r)) = Inr desk_move"
  by (simp add: bound_transition_def execute_def get_definition_def desk_def desk_document_def desk_flow_def plain_definition_def
      plain_rule_def transition_for_definition_def bound_workflow_version_def meta_int_def desk_move_def)

lemma desk_decided:
  "apply_runtime_decisions (desk_env False) desk_document u ''close'' desk_move (desk desk_document [] r)
     = (Inr \<lparr>de_transition = desk_move, de_permit = allowed_decision, de_assignment = allowed_decision, de_sla = allowed_decision\<rparr>, desk desk_document [] r)"
  by (simp add: apply_runtime_decisions_def requester_conflict_def policy_decisions_def approval_rule_decisions_def desk_env_def desk_def
      list_approvals_def)

lemma desk_planned:
  "plan_transition env ''d'' h ''close'' u desk_move s = Inr empty_mutation"
  by (simp add: plan_transition_def desk_move_def transition_of_rule_def plain_rule_def)

lemma desk_closes:
  "\<exists>y. fst (transition_document (desk_env False) ''d'' (acting_as u) 1 [] ''close'' ''document.closed''
       (desk desk_document [] new_model_repo)) = Inr y \<and> dh_status (dr_header y) = tr_to_state desk_move
     \<and> dh_version (dr_header y) = wrap64 (dh_version (dr_header desk_document) + 1)"
  by (rule declared_move_succeeds [OF desk_read(3,4,1,2) desk_type(1) _ desk_decided])
    (simp_all add: desk_planned desk_type(2) desk_bound)

lemma desk_runs:
  obtains y s' where "run_command (desk_env False) ''d'' (acting_as ''bob'') 1 [] (Move ''close'' ''document.closed'')
    (desk desk_document [] new_model_repo) = (Inr y, s')"
  using desk_closes [of "''bob''"] by (metis prod.collapse run_command.simps(3))

section \<open>Properties\<close>




text \<open>The rule a transition was made of, in the version it was looked up in.\<close>

lemma chosen_rule:
  assumes "chosen c key x r t" "action_of c = Some action"
  obtains d rule where "d \<in> set (wf_versions r key)" "rule \<in> set (wd_actions d)" "ar_action rule = action"
    "ar_from_state rule = dh_status (dr_header x)" "t = transition_of_rule d (dh_status (dr_header x)) action rule"
    "c = Submit \<or> bound_workflow_version x \<le> 0 \<or> wd_version d = bound_workflow_version x"
proof -
  have of_def: "\<exists>rule \<in> set (wd_actions d). ar_action rule = action \<and> ar_from_state rule = st \<and> t = transition_of_rule d st action rule"
    if "transition_for_definition d st action = Inr t" for d st
    using that find_SomeD by (fastforce simp: transition_for_definition_def split: option.splits)
  have "\<exists>d \<in> set (wf_versions r key). transition_for_definition d (dh_status (dr_header x)) action = Inr t
      \<and> (c = Submit \<or> bound_workflow_version x \<le> 0 \<or> wd_version d = bound_workflow_version x)"
  proof (cases "c = Submit")
    case True
    then have "execute key (dh_status (dr_header x)) action r = Inr t" using assms by (simp add: chosen_def)
    then show ?thesis using True get_definition_elem by (fastforce simp: execute_def split: option.splits)
  next
    case False
    then have b: "bound_transition key x action r = Inr t" using assms by (simp add: chosen_def)
    show ?thesis
    proof (cases "0 < bound_workflow_version x")
      case True
      then have "execute_version key (bound_workflow_version x) (dh_status (dr_header x)) action r = Inr t"
        using b by (simp add: bound_transition_def split: sum.splits)
      then show ?thesis using True get_definition_version_elem by (fastforce simp: execute_version_def split: option.splits)
    next
      case low: False
      then have "execute key (dh_status (dr_header x)) action r = Inr t"
        using b by (simp add: bound_transition_def split: sum.splits)
      then show ?thesis using low get_definition_elem by (fastforce simp: execute_def split: option.splits)
    qed
  qed
  with of_def that show thesis by blast
qed

text \<open>
  C3: a document moves only as its workflow declares and its rules allow. If an action succeeds, a version of the
  workflow of its type (the bound one, if the document is bound and the action is not submit) has a rule for
  that action from the status the document had; the actor is not the requester of pending work that asks for a
  different actor; the transition hook permitted it; and the document is in the state of the rule, or for a step within
  the stages of an approval still in its own.
\<close>

theorem moves_are_declared_and_allowed:
  assumes inv: "doc_inv (pp_docs s)" and run: "run_command env did a version etag c s = (Inr y, s')" and c: "action_of c = Some action"
  shows "\<exists>x def d rule. map_of (rp_records (pp_docs s)) did = Some x
    \<and> doc_definition_of (dh_type (dr_header x)) (pp_docs s) = Inr def
    \<and> d \<in> set (wf_versions (pp_flows s) (dd_workflow_key def)) \<and> rule \<in> set (wd_actions d)
    \<and> (c = Submit \<or> bound_workflow_version x \<le> 0 \<or> wd_version d = bound_workflow_version x)
    \<and> ar_action rule = action \<and> ar_from_state rule = dh_status (dr_header x)
    \<and> (dh_status (dr_header y) = ar_to_state rule \<or> c = Approve \<and> dh_status (dr_header y) = dh_status (dr_header x))
    \<and> \<not> (\<exists>p \<in> set (list_approvals (pp_flows s)). ap_target_id p = did \<and> ap_status p = ''pending'' \<and> ap_requested_by p \<noteq> []
        \<and> ap_requested_by p = effective_actor a
        \<and> (ar_requires_different_actor rule \<or> meta_bool (ap_metadata p) ''requires_different_actor''))
    \<and> (\<not> pe_policy env \<or> permitted env (dr_header x) (effective_actor a) action s)"
proof (rule command_cases [OF run inv])
  fix x y' audit ev m s1
  assume at: "attempt env did a version etag c s x y' audit ev m s1" and y': "Inr y = Inr y'"
    and x: "map_of (rp_records (pp_docs s)) did = Some x"
  then obtain def t where def: "doc_definition_of (dh_type (dr_header x)) (pp_docs s) = Inr def"
    and t: "chosen c (dd_workflow_key def) x (pp_flows s) t" "cleared env (effective_actor a) action x t s" "arrived c x t y"
    using c by (auto simp: attempt_def moved_def)
  obtain d rule where r: "d \<in> set (wf_versions (pp_flows s) (dd_workflow_key def))" "rule \<in> set (wd_actions d)" "ar_action rule = action"
    "ar_from_state rule = dh_status (dr_header x)" and tr: "t = transition_of_rule d (dh_status (dr_header x)) action rule"
    and bound: "c = Submit \<or> bound_workflow_version x \<le> 0 \<or> wd_version d = bound_workflow_version x"
    by (rule chosen_rule [OF t(1) c])
  have "dh_id (dr_header x) = did" using x stored_parts inv by blast
  then have "\<not> requester_conflict did (effective_actor a) (ar_requires_different_actor rule) (pp_flows s)"
    using t(2) by (simp add: cleared_def tr transition_of_rule_def)
  note other = this [unfolded requester_conflict_def]
  show ?thesis
    by (intro exI [of _ x] exI [of _ def] exI [of _ d] exI [of _ rule] conjI other)
      (use x def r bound t(2,3) in \<open>auto simp: cleared_def arrived_def tr transition_of_rule_def not_less\<close>)
qed simp_all

theorem moves_are_declared_and_allowed_witness:
  "\<exists>rule \<in> set (wd_actions desk_flow). ar_action rule = ''close'' \<and> ar_from_state rule = ''draft''"
proof (rule desk_runs)
  fix y s'
  assume "run_command (desk_env False) ''d'' (acting_as ''bob'') 1 [] (Move ''close'' ''document.closed'')
    (desk desk_document [] new_model_repo) = (Inr y, s')"
  from moves_are_declared_and_allowed [OF desk_read(3) this]
  obtain x def d rule where x: "map_of (rp_records (pp_docs (desk desk_document [] new_model_repo))) ''d'' = Some x"
    and def: "doc_definition_of (dh_type (dr_header x)) (pp_docs (desk desk_document [] new_model_repo)) = Inr def"
    and d: "d \<in> set (wf_versions (pp_flows (desk desk_document [] new_model_repo)) (dd_workflow_key def))" "rule \<in> set (wd_actions d)"
      "ar_action rule = ''close''" "ar_from_state rule = dh_status (dr_header x)"
    by auto
  have "x = desk_document" using x by (simp add: desk_def desk_docs_def)
  with def desk_type have "dd_workflow_key def = ''f''" by simp
  with d \<open>x = desk_document\<close> show ?thesis by (auto simp: desk_def desk_document_def go_defs)
qed


text \<open>A command that expects another version than the stored one.\<close>

lemma stale_command:
  assumes "doc_inv (pp_docs s)" "map_of (rp_records (pp_docs s)) did = Some y" "0 < version" "dh_version (dr_header y) \<noteq> version"
  shows "\<exists>m. run_command env did a version etag c s = (Inl (Conflict m), s)"
proof -
  have get: "get_document did (pp_docs s) = Inr y" using assms(1,2) stored_document by blast
  have check: "check_expected y version etag = Some (Conflict ''document version mismatch'')" using assms(3,4) by (simp add: check_expected_def)
  show ?thesis
    by (cases c) (auto simp: submit_document_def approve_document_def transition_document_def update_draft_def update_extension_def get check)
qed

lemma wrap64_successor: "wrap64 (v + 1) \<noteq> v"
proof (cases "v + 1 < 2 ^ 63 \<and> - (2 ^ 63) \<le> v + 1")
  case True
  then show ?thesis by (simp add: wrap64_id)
next
  case False
  then consider "v = 2 ^ 63 - 1" | "2 ^ 63 \<le> v" | "v < - (2 ^ 63)" by linarith
  then show ?thesis
  proof cases
    case 1
    show ?thesis unfolding 1 by (simp add: wrap64_def)
  qed (use wrap64_bounds [of "v + 1"] in linarith)+
qed

text \<open>
  C7: no update is lost. An action or edit that succeeds found the version and the ETag its caller had read, stores what
  it answers under the next version and its ETag, and touches no other document; whoever still holds the old version
  gets a conflict, whatever the command, and changes nothing.
\<close>

theorem documents_are_not_overwritten:
  assumes inv: "doc_inv (pp_docs s)" and run: "run_command env did a version etag c s = (Inr y, s')"
  shows "\<exists>x. map_of (rp_records (pp_docs s)) did = Some x
    \<and> (version \<le> 0 \<or> dh_version (dr_header x) = version) \<and> (etag = [] \<or> dh_etag (dr_header x) = etag)
    \<and> map_of (rp_records (pp_docs s')) did = Some y \<and> dh_version (dr_header y) = wrap64 (dh_version (dr_header x) + 1)
    \<and> dh_etag (dr_header y) = did @ '':'' @ show_int (dh_version (dr_header y))
    \<and> (\<forall>k. k = did \<or> map_of (rp_records (pp_docs s')) k = map_of (rp_records (pp_docs s)) k)
    \<and> (version \<le> 0 \<or> (\<exists>m. run_command env' did a' version etag' c' s' = (Inl (Conflict m), s')))"
proof (rule command_cases [OF run inv])
  fix x y' audit ev m s1
  assume at: "attempt env did a version etag c s x y' audit ev m s1" and y': "Inr y = Inr y'"
    and x: "map_of (rp_records (pp_docs s)) did = Some x" and docs: "pp_docs s' = save_record y' (pp_docs s1)"
  have q: "quiet did s s1" and succ: "successor did (effective_actor a) x y" and chk: "check_expected x version etag = None"
    using at y' by (auto simp: attempt_def)
  note only = quietD(6) [OF q]
  have stored: "map_of (rp_records (pp_docs s')) did = Some y"
    and others: "\<forall>k. k = did \<or> map_of (rp_records (pp_docs s')) k = map_of (rp_records (pp_docs s)) k"
    using stored_successor [OF inv x only succ] docs y' by auto
  have version: "version \<le> 0 \<or> dh_version (dr_header x) = version" "etag = [] \<or> dh_etag (dr_header x) = etag"
    using chk by (auto simp: check_expected_def split: if_splits)
  have inv': "doc_inv (pp_docs s')" using docs inv_save_record metadata_only_inv [OF only inv] by simp
  have "version \<le> 0 \<or> dh_version (dr_header y) \<noteq> version"
    using version(1) succ wrap64_successor unfolding successor_def by metis
  then have "version \<le> 0 \<or> (\<exists>m. run_command env' did a' version etag' c' s' = (Inl (Conflict m), s'))"
    using stale_command [OF inv' stored] by force
  with x stored others version succ show ?thesis by (auto simp: successor_def)
qed simp_all

theorem documents_are_not_overwritten_witness:
  "\<exists>y s' m. run_command (desk_env False) ''d'' (acting_as ''bob'') 1 [] (Move ''close'' ''document.closed'') (desk desk_document [] new_model_repo) = (Inr y, s')
     \<and> dh_version (dr_header y) = 2 \<and> run_command (desk_env False) ''d'' (acting_as ''ann'') 1 [] (EditDraft []) s' = (Inl (Conflict m), s')"
proof (rule desk_runs)
  fix y s'
  assume run: "run_command (desk_env False) ''d'' (acting_as ''bob'') 1 [] (Move ''close'' ''document.closed'')
    (desk desk_document [] new_model_repo) = (Inr y, s')"
  from documents_are_not_overwritten [OF desk_read(3) run, of "desk_env False" "acting_as ''ann''" "[]" "EditDraft []"]
  obtain x m where x: "map_of (rp_records (pp_docs (desk desk_document [] new_model_repo))) ''d'' = Some x"
    and y: "dh_version (dr_header y) = wrap64 (dh_version (dr_header x) + 1)"
    and m: "run_command (desk_env False) ''d'' (acting_as ''ann'') 1 [] (EditDraft []) s' = (Inl (Conflict m), s')" by auto
  have "x = desk_document" using x by (simp add: desk_def desk_docs_def)
  then have "dh_version (dr_header y) = 2" using y by (simp add: desk_document_def wrap64_def)
  with run m show ?thesis by blast
qed



text \<open>
  C13: what succeeds is told exactly once. Every action and edit that succeeds appends one audit event, one domain event
  and one outbox record, about this document, by the actor, under one correlation; an action appends one entry of
  history from the status before to the status after, an edit none.
\<close>

theorem every_change_is_told_once:
  assumes inv: "doc_inv (pp_docs s)" and run: "run_command env did a version etag c s = (Inr y, s')"
  shows "\<exists>audit ev hs. pp_audit s' = pp_audit s @ [audit] \<and> er_events (pp_events s') = er_events (pp_events s) @ [with_schema_version ev]
    \<and> er_outbox (pp_events s') = er_outbox (pp_events s) @ [new_outbox (pe_clock env 9) (with_schema_version ev)]
    \<and> au_target_id audit = did \<and> ev_aggregate_id ev = did \<and> au_actor_id audit = ac_actor_id a \<and> ev_actor_id ev = ac_actor_id a
    \<and> au_correlation_id audit = ev_correlation_id ev \<and> au_to_state audit = dh_status (dr_header y)
    \<and> wr_history (pp_flows s') = wr_history (pp_flows s) @ hs
    \<and> (case action_of c of None \<Rightarrow> hs = []
       | Some action \<Rightarrow> \<exists>h x. hs = [h] \<and> map_of (rp_records (pp_docs s)) did = Some x \<and> he_target_id h = did
           \<and> he_actor_id h = effective_actor a \<and> he_action h = action
           \<and> he_from_state h = dh_status (dr_header x) \<and> he_to_state h = dh_status (dr_header y))"
proof (rule command_cases [OF run inv])
  fix x y' audit ev m s1
  assume at: "attempt env did a version etag c s x y' audit ev m s1" and y': "Inr y = Inr y'"
    and x: "map_of (rp_records (pp_docs s)) did = Some x" and audit: "pp_audit s' = record_audit audit (pp_audit s)"
    and ev: "record_event (pe_validate env) (pe_events env) (pe_sinks env) (pe_clock env 9) ev (pp_events s) = (None, pp_events s')"
    and m: "apply_mutation m (pp_flows s) = (None, pp_flows s')"
  have q: "quiet did s s1" and succ: "dh_id (dr_header y) = did" and app: "applicable (pp_flows s1) m" and told: "told a y audit ev"
    and act: "case action_of c of None \<Rightarrow> edited x y m | Some action \<Rightarrow> moved env a c action x y m s"
    using at y' by (auto simp: attempt_def successor_def)
  have hist: "wr_history (pp_flows s') = wr_history (pp_flows s) @ mu_history m"
    using applicable_succeeds [OF app] m quietD(1) [OF q] by (metis prod.inject)
  have "case action_of c of None \<Rightarrow> mu_history m = []
       | Some action \<Rightarrow> \<exists>h x. mu_history m = [h] \<and> map_of (rp_records (pp_docs s)) did = Some x \<and> he_target_id h = did
           \<and> he_actor_id h = effective_actor a \<and> he_action h = action
           \<and> he_from_state h = dh_status (dr_header x) \<and> he_to_state h = dh_status (dr_header y)"
    using act x succ by (auto simp: edited_def moved_def noted_def split: option.splits)
  then show ?thesis
    using audit accepted_event [OF ev] hist told succ
    by (intro exI [of _ audit] exI [of _ ev] exI [of _ "mu_history m"]) (simp add: told_def record_audit_def)
qed simp_all

theorem every_change_is_told_once_witness:
  "\<exists>y s'. run_command (desk_env False) ''d'' (acting_as ''bob'') 1 [] (Move ''close'' ''document.closed'') (desk desk_document [] new_model_repo) = (Inr y, s')
     \<and> map au_actor_id (pp_audit s') = [''bob''] \<and> map he_action (wr_history (pp_flows s')) = [''close'']"
proof (rule desk_runs)
  fix y s'
  assume run: "run_command (desk_env False) ''d'' (acting_as ''bob'') 1 [] (Move ''close'' ''document.closed'')
    (desk desk_document [] new_model_repo) = (Inr y, s')"
  from every_change_is_told_once [OF desk_read(3) run] have "map au_actor_id (pp_audit s') = [''bob''] \<and> map he_action (wr_history (pp_flows s')) = [''close'']"
    by (auto simp: desk_def acting_as_def)
  with run show ?thesis by (intro exI [of _ y] exI [of _ s']) simp
qed

end
