(* ===== verification/QuorumFacts.thy ===== *)
theory QuorumFacts imports ActionProperties begin
text \<open>
  Approvals in stages: when a document leaves its status by an approval, the last stage has its quorum.
\<close>


lemma stage_key_visible: "sg \<in> set stages \<Longrightarrow> stages_for_policy env policy_id r = Inr stages \<Longrightarrow> trim_space (sg_stage_key sg) \<noteq> []"
proof -
  assume sg: "sg \<in> set stages" and stages: "stages_for_policy env policy_id r = Inr stages"
  have numbered: "trim_space (''stage_'' @ show_int n) \<noteq> []" for n
  proof -
    have "visible (hd (''stage_'' @ show_int n))" by (simp add: visible_def)
    moreover have "visible (last (''stage_'' @ show_int n))"
    proof -
      have "show_int n \<noteq> []" "\<forall>c \<in> set (show_int n). visible c"
        using show_nat_digits [of "nat n"] show_nat_digits [of "nat (- n)"] digit_visible
        by (auto simp: show_int_def list_all_iff visible_def [of "CHR ''-''"])
      then show ?thesis using last_in_set by fastforce
    qed
    ultimately show ?thesis by (simp add: trim_space_visible)
  qed
  have key: "sg_stage_key (stage_of_record env policy_id r x) = first_text [trimmed_text env x ''stage_key'',
      ''stage_'' @ show_int (ApprovalPolicy.int_value (mget GNull (mr_values x) ''sequence''))]" for x
    by (simp add: stage_of_record_def Let_def split: sum.split prod.split)
  have visible_key: "trim_space (sg_stage_key (stage_of_record env policy_id r x)) \<noteq> []" for x
    unfolding key using numbered by (auto simp: first_text_def trimmed_text_def simp del: append.simps)
  have "sg_stage_key ` set (number_stages sgs) \<subseteq> sg_stage_key ` set sgs" for sgs
    by (auto simp: number_stages_def in_set_enumerate_eq)
  moreover obtain items where "stages = number_stages (sort_slice (\<lambda>sg. (sg_sequence sg, sg_stage_key sg)) (map (stage_of_record env policy_id r) items))"
    using stages sg by (auto simp: stages_for_policy_def split: if_splits sum.splits)
  ultimately have "sg_stage_key sg \<in> sg_stage_key ` set (map (stage_of_record env policy_id r) items)"
    using sg by (metis (no_types, lifting) image_eqI set_sort_slice subsetD)
  then show ?thesis using visible_key by auto
qed

lemma unique_strings_step: "unique_strings (xs @ [u]) = (if trim_space u = [] \<or> trim_space u \<in> set (unique_strings xs) then unique_strings xs
    else unique_strings xs @ [trim_space u])"
  by (simp add: unique_strings_def Let_def)

lemma unique_strings_clean:
  "distinct (unique_strings xs) \<and> (\<forall>u \<in> set (unique_strings xs). u \<noteq> [] \<and> trim_space u = u) \<and> set (unique_strings xs) \<subseteq> trim_space ` set xs"
proof (induction xs rule: rev_induct)
  case Nil
  show ?case by (simp add: unique_strings_def)
next
  case (snoc u xs)
  then show ?case by (auto simp: unique_strings_step)
qed

lemma unique_strings_id: "distinct xs \<Longrightarrow> (\<forall>u \<in> set xs. u \<noteq> [] \<and> trim_space u = u) \<Longrightarrow> unique_strings xs = xs"
proof (induction xs rule: rev_induct)
  case Nil
  show ?case by (simp add: unique_strings_def)
qed (auto simp: unique_strings_step)

lemma stage_actors_recorded [simp]:
  "trim_space k \<noteq> [] \<Longrightarrow> stage_actors (set_stage_actors k us md) k = unique_strings us"
  by (simp add: stage_actors_def set_stage_actors_def meta_strings_def)

lemma stage_actors_bound [simp]: "stage_actors (bind_workflow t md) k = stage_actors md k"
  by (simp add: stage_actors_def bind_workflow_def)

text \<open>A fresh approver is not among those recorded.\<close>

lemma fresh_approver:
  assumes "\<not> stage_has_actor md k actor" "trim_space actor \<noteq> []"
  shows "trim_space actor \<notin> set (unique_strings (stage_actors md k))"
proof
  assume "trim_space actor \<in> set (unique_strings (stage_actors md k))"
  then obtain u where "u \<in> set (stage_actors md k)" "trim_space u = trim_space actor"
    using unique_strings_clean [of "stage_actors md k"] by auto
  then show False using assms by (auto simp: stage_has_actor_def equal_fold_def)
qed

lemma move_metadata:
  assumes "move_document env def actor action t x s = (y, s')"
  shows "dh_metadata (dr_header y) = bind_workflow t (dh_metadata (dr_header x))"
proof -
  obtain y1 s1 where w: "write_metadata (bind_workflow t) (set_status (tr_to_state t) x) s = (y1, s1)" by fastforce
  have y1: "y1 = with_metadata (bind_workflow t) (set_status (tr_to_state t) x)" using write_metadata_effect [OF w] by blast
  obtain y2 s2 where n: "assign_number env def actor action (pe_clock env 0) y1 s1 = (y2, s2)" by fastforce
  from quiet_number [OF n] obtain num where "y2 = set_number num y1" by blast
  moreover have "y = next_version actor (pe_clock env 0) y2" using assms by (simp add: move_document_def w n)
  ultimately show ?thesis by (simp add: y1 set_number_def next_version_def Let_def set_status_def with_metadata_def)
qed

text \<open>An approval that moves the document went through the stages without a step left.\<close>

lemma final_approval:
  assumes "approve_document env did a version etag s = (Inr y, s')" "get_document did (pp_docs s) = Inr x"
    "dh_status (dr_header y) \<noteq> dh_status (dr_header x)" "dh_id (dr_header x) = did"
  obtains t s1 y0 s2 where "quiet did s s1" "resolve_approval_progression env x (effective_actor a) t (pe_clock env 0) s1 = (Inr None, y0, s2)"
    "\<forall>k. stage_actors (dh_metadata (dr_header y)) k = stage_actors (dh_metadata (dr_header y0)) k"
proof -
  have "check_expected x version etag = None" using assms(1,2) by (cases "check_expected x version etag") (simp_all add: approve_document_def)
  note run = assms(1) [unfolded approve_document_def assms(2) sum.case this option.case]
  obtain def where def: "doc_definition_of (dh_type (dr_header x)) (pp_docs s) = Inr def"
    using run by (cases "doc_definition_of (dh_type (dr_header x)) (pp_docs s)") simp_all
  note run = run [unfolded def sum.case]
  obtain t where t: "bound_transition (dd_workflow_key def) x ''approve'' (pp_flows s) = Inr t"
    using run by (cases "bound_transition (dd_workflow_key def) x ''approve'' (pp_flows s)") simp_all
  note run = run [unfolded t sum.case]
  obtain rs s1 where rs: "apply_runtime_decisions env x (effective_actor a) ''approve'' t s = (rs, s1)" by fastforce
  note run = run [unfolded rs prod.case]
  obtain ds where ds: "rs = Inr ds" using run by (cases rs) simp_all
  note d = rs [unfolded ds]
  have rest: "(case resolve_approval_progression env x (effective_actor a) (de_transition ds) (pe_clock env 0) s1 of
        (Inl e, _, s) \<Rightarrow> (Inl e, s)
      | (Inr (Some pg), y, s) \<Rightarrow> finish_stage env a x (next_version (effective_actor a) (pe_clock env 0) y) ds pg s
      | (Inr None, y, s) \<Rightarrow>
          let (y, s) = move_document env def (effective_actor a) ''approve'' (de_transition ds) y s
          in (case build_workflow_mutation (dr_header y) (de_transition ds) (effective_actor a) (pe_clock env 0)
                     (Some (''approved'', ''completed'')) s of
                Inl e \<Rightarrow> (Inl e, s)
              | Inr m \<Rightarrow> finish_transition env a ''approve'' ''document.approved'' x y ds m s)) = (Inr y, s')"
    by (rule run [unfolded ds sum.case])
  obtain res y0 s2 where pr: "resolve_approval_progression env x (effective_actor a) (de_transition ds) (pe_clock env 0) s1 = (res, y0, s2)"
    by (metis prod_cases3)
  obtain f where y0: "y0 = with_metadata f x" using progression_effect [OF pr assms(4)] by blast
  have answer: "z = z'" if "persist_document env v z au ev m draft q = (Inr z', q')" for v z z' au ev m draft and q q' :: "'a app_state"
    using that by (auto simp: persist_document_def split: prod.splits option.splits)
  show thesis
  proof (cases "res = Inr None")
    case True
    obtain y1 s3 where mv: "move_document env def (effective_actor a) ''approve'' (de_transition ds) y0 s2 = (y1, s3)" by fastforce
    have "y1 = y" using rest answer by (auto simp: pr True mv finish_transition_def Let_def split: sum.splits)
    then show thesis using move_metadata [OF mv] by (intro that [OF quiet_decisions [OF d] pr [unfolded True]]) simp
  next
    case False
    then obtain pg where "res = Inr (Some pg)" using rest by (auto simp: pr split: sum.splits option.splits)
    then have "finish_stage env a x (next_version (effective_actor a) (pe_clock env 0) y0) ds pg s2 = (Inr y, s')" using rest by (simp add: pr)
    from answer [OF this [unfolded finish_stage_def Let_def]] have "y = next_version (effective_actor a) (pe_clock env 0) y0" ..
    then show thesis using assms(3) y0 by (simp add: next_version_def Let_def)
  qed
qed

text \<open>
  C8: an approval needs its quorum. While an approval of a stage of a policy is pending and that stage needs more
  than one approver, a document leaves its status by an approval only at the last stage, when as many distinct approvers
  as it needs are recorded in its metadata, the last of them the actor, who had not approved before.
\<close>

theorem approval_needs_its_quorum:
  assumes inv: "doc_inv (pp_docs s)" and run: "approve_document env did a version etag s = (Inr y, s')"
    and x: "map_of (rp_records (pp_docs s)) did = Some x" and left: "dh_status (dr_header y) \<noteq> dh_status (dr_header x)"
    and rules: "pe_approval_rules env" and ap: "current_pending_approval did (pp_flows s) = Some ap"
    and stage: "meta_string (ap_metadata ap) ''approval_policy_id'' = policy_id" "policy_id \<noteq> []"
      "meta_int (ap_metadata ap) ''approval_stage_sequence'' 0 = n" "0 < n"
    and stages: "stages_for_policy (pe_model env) policy_id (pp_models s) = Inr stages" "find_stage n stages = Some sg"
    and many: "1 < sg_required_approver_count sg" and actor: "trim_space (effective_actor a) \<noteq> []"
  shows "find_stage (n + 1) stages = None
    \<and> \<not> stage_has_actor (dh_metadata (dr_header x)) (sg_stage_key sg) (effective_actor a)
    \<and> (\<exists>us. stage_actors (dh_metadata (dr_header y)) (sg_stage_key sg) = us @ [trim_space (effective_actor a)]
        \<and> distinct (us @ [trim_space (effective_actor a)])
        \<and> set us \<subseteq> trim_space ` set (stage_actors (dh_metadata (dr_header x)) (sg_stage_key sg))
        \<and> sg_required_approver_count sg \<le> int (length us) + 1)"
proof -
  let ?md = "dh_metadata (dr_header x)" and ?k = "sg_stage_key sg" and ?u = "trim_space (effective_actor a)"
  let ?us = "unique_strings (stage_actors ?md ?k)"
  have did: "dh_id (dr_header x) = did" using x stored_parts inv by blast
  have get: "get_document did (pp_docs s) = Inr x" using x stored_document inv by blast
  obtain t s1 y0 s2 where q: "quiet did s s1"
    and pr: "resolve_approval_progression env x (effective_actor a) t (pe_clock env 0) s1 = (Inr None, y0, s2)"
    and same: "\<forall>k. stage_actors (dh_metadata (dr_header y)) k = stage_actors (dh_metadata (dr_header y0)) k"
    by (rule final_approval [OF run get left did])
  have key: "trim_space ?k \<noteq> []" using stages stage_key_visible find_SomeD unfolding find_stage_def by metis
  from pr show ?thesis
  proof (cases rule: progression_cases)
    case unstaged
    then show ?thesis using rules ap stage stages by (simp add: did quietD(1,3) [OF q])
  next
    case (staged ap' policy_id' n' stages' r)
    have eqs: "policy_id' = policy_id" "n' = n" "stages' = stages"
      using staged(2-7) ap stage stages by (simp_all add: did quietD(1,3) [OF q])
    have rec: "record_approver (Some sg) (effective_actor a) x s1 = (r, y0, s2)" using staged(8) stages(2) eqs by simp
    have fresh: "\<not> stage_has_actor ?md ?k (effective_actor a)"
      using rec staged(9) many by (auto simp: record_approver_def Let_def split: if_splits)
    obtain y1 s3 where w: "write_metadata (set_stage_actors ?k (?us @ [?u])) x s1 = (y1, s3)" by fastforce
    have "r = Inr (Some \<lparr>qm_stage = sg, qm_approvers = ?us @ [?u]\<rparr>)" "y0 = y1"
      using rec many fresh w by (auto simp: record_approver_def Let_def split: if_splits)
    with staged(9) have enough: "sg_required_approver_count sg \<le> int (length ?us) + 1"
      and last: "to_next_stage env policy_id' ap' n' stages' y0 (effective_actor a) t (pe_clock env 0) s2 = Inr None"
      by (auto split: if_splits)
    have "map_sum id Some z \<noteq> Inr None" for z :: "progress result" by (cases z) simp_all
    then have none: "find_stage (n + 1) stages = None" using last by (auto simp: to_next_stage_def eqs split: option.splits)
    have clean: "distinct (?us @ [?u])" "\<forall>v \<in> set (?us @ [?u]). v \<noteq> [] \<and> trim_space v = v"
      using unique_strings_clean [of "stage_actors ?md ?k"] fresh_approver [OF fresh actor] actor by auto
    have "y0 = with_metadata (set_stage_actors ?k (?us @ [?u])) x" using \<open>y0 = y1\<close> write_metadata_effect [OF w] by blast
    then have "stage_actors (dh_metadata (dr_header y)) ?k = ?us @ [?u]"
      using same key unique_strings_id [OF clean] by simp
    with none fresh clean(1) enough unique_strings_clean [of "stage_actors ?md ?k"] show ?thesis by blast
  qed
qed


section \<open>A desk with two approvers\<close>

definition peers_stage :: model_record where
  "peers_stage = \<lparr>mr_model_key = ''approval_policy_stage'', mr_id = ''s1'', mr_version = 1, mr_values = [(''status'', GStr ''active''),
     (''policy_id'', GStr ''p1''), (''sequence'', GInt 1), (''stage_key'', GStr ''peers''), (''required_approver_count'', GInt 2)],
     mr_created_by = [], mr_created_at = 1, mr_updated_by = [], mr_updated_at = 1\<rparr>"

definition desk_rules :: model_repo where
  "desk_rules = \<lparr>mp_definitions = [(''approval_policy_stage'', zero_model_definition\<lparr>md_key := ''approval_policy_stage'',
       md_fields := map (\<lambda>k. zero_model_field\<lparr>mf_key := k\<rparr>) [''status'', ''policy_id'', ''sequence'']\<rparr>)],
     mp_records = [(''approval_policy_stage'', [(''s1'', peers_stage)])]\<rparr>"

definition pending_approval :: approval where
  "pending_approval = \<lparr>ap_id = ''a1'', ap_workflow_key = ''f'', ap_workflow_version = 1, ap_target_type = ''document'', ap_target_id = ''d'',
     ap_status = ''pending'', ap_stage_key = ''peers'', ap_requested_by = ''ann'', ap_requested_at = 1, ap_resolved_by = [], ap_resolved_at = 0,
     ap_candidate_role_keys = [], ap_due_at = 0,
     ap_metadata = [(''approval_policy_id'', GStr ''p1''), (''approval_stage_sequence'', GInt 1)]\<rparr>"

text \<open>The document as it is once \<open>us\<close> have approved.\<close>

definition approved_by :: "string list \<Rightarrow> doc_record" where
  "approved_by us = with_metadata (set_stage_actors ''peers'' us) desk_document"

definition quorum_desk :: "string list \<Rightarrow> bool app_state" where
  "quorum_desk us = desk (approved_by us) [pending_approval] desk_rules"

lemma peers_stages:
  "\<exists>sg. stages_for_policy (pe_model (desk_env True)) ''p1'' (pp_models (quorum_desk us)) = Inr [sg] \<and> sg_sequence sg = 1
     \<and> sg_stage_key sg = ''peers'' \<and> sg_required_approver_count sg = 2"
proof -
  have "map_sum id (map (\<lambda>sg. (sg_sequence sg, sg_stage_key sg, sg_required_approver_count sg)))
      (stages_for_policy (pe_model (desk_env True)) ''p1'' desk_rules) = Inr [(1, ''peers'', 2)]"
    by code_simp
  then show ?thesis
    by (cases "stages_for_policy (pe_model (desk_env True)) ''p1'' desk_rules") (auto simp: quorum_desk_def desk_def)
qed

lemma final_approval_succeeds:
  assumes inv: "doc_inv (pp_docs s)" and events: "accepts_events env"
    and x: "get_document did (pp_docs s) = Inr x" "check_expected x version etag = None"
    and def: "doc_definition_of (dh_type (dr_header x)) (pp_docs s) = Inr def"
    and t: "bound_transition (dd_workflow_key def) x ''approve'' (pp_flows s) = Inr t"
    and ds: "apply_runtime_decisions env x (effective_actor a) ''approve'' t s = (Inr ds, s1)"
    and pr: "resolve_approval_progression env x (effective_actor a) (de_transition ds) (pe_clock env 0) s1 = (Inr None, y0, s2)"
    and mv: "move_document env def (effective_actor a) ''approve'' (de_transition ds) y0 s2 = (y, s3)"
    and m: "build_workflow_mutation (dr_header y) (de_transition ds) (effective_actor a) (pe_clock env 0) (Some (''approved'', ''completed'')) s3 = Inr m"
  shows "fst (approve_document env did a version etag s) = Inr y"
proof -
  have did: "dh_id (dr_header x) = did" using x(1) stored_document stored_parts inv by blast
  from progression_effect [OF pr did] obtain f where y0: "quiet did s1 s2" "y0 = with_metadata f x" by blast
  have did0: "dh_id (dr_header y0) = did" by (simp add: y0 did)
  note y = move_effect [OF mv did0]
  have q: "quiet did s s3" using quiet_trans [OF quiet_trans [OF quiet_decisions [OF ds] y0(1)]] y by blast
  have "approve_document env did a version etag s = finish_transition env a ''approve'' ''document.approved'' x y ds m s3"
    by (simp add: approve_document_def x def t ds pr mv m)
  moreover have "fst (finish_transition env a ''approve'' ''document.approved'' x y ds m s3) = Inr y"
    by (rule finishing [OF events inv x(1) q]) (use y built_mutation [OF m] in \<open>simp_all add: successor_def\<close>)
  ultimately show ?thesis by simp
qed

text \<open>The second of two approvers: the approval goes through.\<close>

definition desk_approval :: transition where
  "desk_approval = transition_of_rule desk_flow ''draft'' ''approve'' (plain_rule ''approve'' ''draft'' ''approved'' [])"

lemma approved_by_fields:
  "dh_id (dr_header (approved_by us)) = ''d''" "dh_type (dr_header (approved_by us)) = ''t''" "dh_status (dr_header (approved_by us)) = ''draft''"
  "dr_lines (approved_by us) = []" "dr_links (approved_by us) = []" "dr_attachments (approved_by us) = []" "bound_workflow_version (approved_by us) = 0"
  "stage_actors (dh_metadata (dr_header (approved_by us))) ''peers'' = unique_strings us"
proof -
  have "trim_space ''peers'' = ''peers''" by code_simp
  then show "stage_actors (dh_metadata (dr_header (approved_by us))) ''peers'' = unique_strings us" by (simp add: approved_by_def)
  show "bound_workflow_version (approved_by us) = 0"
    by (simp add: approved_by_def desk_document_def set_stage_actors_def bound_workflow_version_def meta_int_def)
qed (simp_all add: approved_by_def desk_document_def)

lemma quorum_desk_read:
  "doc_inv (pp_docs (quorum_desk us))" "map_of (rp_records (pp_docs (quorum_desk us))) ''d'' = Some (approved_by us)"
  "doc_definition_of ''t'' (pp_docs (quorum_desk us)) = Inr (snd (hd (rp_definitions (desk_docs desk_document))))"
  "bound_transition ''f'' (approved_by us) ''approve'' (pp_flows (quorum_desk us)) = Inr desk_approval"
  "current_pending_approval ''d'' (pp_flows (quorum_desk us)) = Some pending_approval"
  "meta_string (ap_metadata pending_approval) ''approval_policy_id'' = ''p1''" "meta_int (ap_metadata pending_approval) ''approval_stage_sequence'' 0 = 1"
proof -
  have trim: "trim_space ''d'' = ''d''" "trim_space ''p1'' = ''p1''" by code_simp+
  show "doc_inv (pp_docs (quorum_desk us))" by (simp add: quorum_desk_def desk_def desk_docs_inv approved_by_fields)
  show "map_of (rp_records (pp_docs (quorum_desk us))) ''d'' = Some (approved_by us)" by (simp add: quorum_desk_def desk_def desk_docs_def)
  show "doc_definition_of ''t'' (pp_docs (quorum_desk us)) = Inr (snd (hd (rp_definitions (desk_docs desk_document))))"
    by (simp add: quorum_desk_def desk_def desk_docs_def doc_definition_of_def get_doc_definition_def)
  show "bound_transition ''f'' (approved_by us) ''approve'' (pp_flows (quorum_desk us)) = Inr desk_approval"
    by (simp add: bound_transition_def approved_by_fields execute_def get_definition_def quorum_desk_def desk_def desk_flow_def plain_definition_def
      plain_rule_def transition_for_definition_def desk_approval_def)
  show "current_pending_approval ''d'' (pp_flows (quorum_desk us)) = Some pending_approval"
    by (simp add: current_pending_approval_def trim quorum_desk_def desk_def list_approvals_def pending_approval_def later_approval_def sort_slice_def)
  show "meta_string (ap_metadata pending_approval) ''approval_policy_id'' = ''p1''" "meta_int (ap_metadata pending_approval) ''approval_stage_sequence'' 0 = 1"
    by (simp_all add: pending_approval_def meta_string_def meta_int_def trim)
qed

lemma second_approval:
  obtains y s' where "approve_document (desk_env True) ''d'' (acting_as ''cid'') 1 [] (quorum_desk [''bob'']) = (Inr y, s')"
    "dh_status (dr_header y) = ''approved''"
proof -
  let ?s = "quorum_desk [''bob'']" and ?x = "approved_by [''bob'']"
  let ?ds = "\<lparr>de_transition = desk_approval, de_permit = allowed_decision, de_assignment = allowed_decision, de_sla = allowed_decision\<rparr>"
  let ?def = "snd (hd (rp_definitions (desk_docs desk_document)))"
  have tr: "\<not> tr_create_approval desk_approval" "tr_task_type desk_approval = []" "\<not> tr_requires_different_actor desk_approval"
    "tr_assignment_strategy desk_approval = []" "tr_assignee_user_id desk_approval = []" "tr_candidate_user_ids desk_approval = []"
    "tr_to_state desk_approval = ''approved''"
    by (simp_all add: desk_approval_def transition_of_rule_def plain_rule_def)
  have actor: "effective_actor (acting_as ''cid'') = ''cid''" by (simp add: effective_actor_def acting_as_def)
  have env: "pe_policy (desk_env True) = False" "pe_approval_rules (desk_env True)" by (simp_all add: desk_env_def)
  have get: "get_document ''d'' (pp_docs ?s) = Inr ?x" using quorum_desk_read stored_document by blast
  have chk: "check_expected ?x 1 [] = None" by (simp add: check_expected_def approved_by_def desk_document_def with_metadata_def)
  have "list_approvals (pp_flows ?s) = [pending_approval]" by (simp add: list_approvals_def quorum_desk_def desk_def sort_slice_def)
  then have ds: "apply_runtime_decisions (desk_env True) ?x ''cid'' ''approve'' desk_approval ?s = (Inr ?ds, ?s)"
    by (simp add: apply_runtime_decisions_def requester_conflict_def policy_decisions_def approval_rule_decisions_def env tr pending_approval_def)
  obtain sg where sg: "stages_for_policy (pe_model (desk_env True)) ''p1'' (pp_models ?s) = Inr [sg]" "sg_sequence sg = 1"
    "sg_stage_key sg = ''peers''" "sg_required_approver_count sg = 2" using peers_stages by blast
  have "unique_strings [''bob''] = [''bob'']" "trim_space ''bob'' = ''bob''" "trim_space ''cid'' = ''cid''" "\<not> equal_fold ''bob'' ''cid''"
    by code_simp+
  then have actors: "stage_actors (dh_metadata (dr_header ?x)) ''peers'' = [''bob'']" "\<not> stage_has_actor (dh_metadata (dr_header ?x)) ''peers'' ''cid''"
    by (simp_all add: approved_by_fields stage_has_actor_def)
  obtain y0 s2 where w: "write_metadata (set_stage_actors ''peers'' [''bob'', ''cid'']) ?x ?s = (y0, s2)" by fastforce
  have pr: "resolve_approval_progression (desk_env True) ?x ''cid'' desk_approval (pe_clock (desk_env True) 0) ?s = (Inr None, y0, s2)"
    by (simp add: resolve_approval_progression_def env approved_by_fields quorum_desk_read sg find_stage_def record_approver_def actors w Let_def
        \<open>unique_strings [''bob''] = [''bob'']\<close> \<open>trim_space ''cid'' = ''cid''\<close>)
  obtain y s3 where mv: "move_document (desk_env True) ?def ''cid'' ''approve'' desk_approval y0 s2 = (y, s3)" by fastforce
  obtain m where m: "build_workflow_mutation (dr_header y) desk_approval ''cid'' (pe_clock (desk_env True) 0) (Some (''approved'', ''completed'')) s3 = Inr m"
  proof -
    have "trim_space [] = []" by simp
    then show thesis
      by (intro that) (simp add: build_workflow_mutation_def plan_create_side_effects_def tr apply_assignment_snapshots_def resolve_assignment_def empty_mutation_def)
  qed
  have events: "accepts_events (desk_env True)" by (simp add: accepts_events_def desk_env_def)
  have def: "doc_definition_of (dh_type (dr_header ?x)) (pp_docs ?s) = Inr ?def" by (simp only: approved_by_fields quorum_desk_read)
  have t: "bound_transition (dd_workflow_key ?def) ?x ''approve'' (pp_flows ?s) = Inr desk_approval" by (simp only: desk_type(2) quorum_desk_read)
  have "fst (approve_document (desk_env True) ''d'' (acting_as ''cid'') 1 [] ?s) = Inr y"
    using final_approval_succeeds [OF quorum_desk_read(1) events get chk def t, of "acting_as ''cid''" ?ds ?s y0 s2 y s3 m] ds pr mv m
    by (simp add: actor)
  moreover have "dh_status (dr_header y) = ''approved''"
    using move_effect [OF mv, of "''d''"] write_metadata_effect [OF w] tr by (metis approved_by_fields(1) with_metadata_simps(2))
  ultimately show thesis using that by (metis prod.collapse)
qed

theorem approval_needs_its_quorum_witness:
  "\<exists>y s' us. approve_document (desk_env True) ''d'' (acting_as ''cid'') 1 [] (quorum_desk [''bob'']) = (Inr y, s')
     \<and> stage_actors (dh_metadata (dr_header y)) ''peers'' = us @ [''cid''] \<and> distinct (us @ [''cid'']) \<and> set us \<subseteq> {''bob''} \<and> 1 \<le> length us"
proof -
  obtain y s' where run: "approve_document (desk_env True) ''d'' (acting_as ''cid'') 1 [] (quorum_desk [''bob'']) = (Inr y, s')"
    and y: "dh_status (dr_header y) = ''approved''" by (rule second_approval)
  obtain sg where sg: "stages_for_policy (pe_model (desk_env True)) ''p1'' (pp_models (quorum_desk [''bob''])) = Inr [sg]" "sg_sequence sg = 1"
    "sg_stage_key sg = ''peers''" "sg_required_approver_count sg = 2" using peers_stages by blast
  have texts: "unique_strings [''bob''] = [''bob'']" "trim_space ''bob'' = ''bob''" "trim_space ''cid'' = ''cid''" by code_simp+
  have actor: "effective_actor (acting_as ''cid'') = ''cid''" by (simp add: effective_actor_def acting_as_def)
  have "find_stage 1 [sg] = Some sg" by (simp add: find_stage_def sg)
  note approval_needs_its_quorum [OF quorum_desk_read(1) run quorum_desk_read(2) _ _ quorum_desk_read(5-6) _ quorum_desk_read(7) _ sg(1) this]
  then have "\<exists>us. stage_actors (dh_metadata (dr_header y)) ''peers'' = us @ [''cid''] \<and> distinct (us @ [''cid'']) \<and> set us \<subseteq> {''bob''} \<and> 2 \<le> int (length us) + 1"
    by (simp add: y approved_by_fields actor sg texts desk_env_def)
  with run show ?thesis by force
qed


text \<open>Whether a document is sent back, reopened or cancelled, those who approved its stages stay recorded.\<close>

lemma returned_documents_keep_approvers:
  assumes "transition_document env did a version etag action kind s = (Inr y, s')" "get_document did (pp_docs s) = Inr x"
  shows "stage_actors (dh_metadata (dr_header y)) k = stage_actors (dh_metadata (dr_header x)) k"
proof -
  note run = assms(1) [unfolded transition_document_def assms(2) sum.case]
  have chk: "check_expected x version etag = None" using run by (cases "check_expected x version etag") simp_all
  note run = run [unfolded chk option.case]
  obtain def where def: "doc_definition_of (dh_type (dr_header x)) (pp_docs s) = Inr def"
    using run by (cases "doc_definition_of (dh_type (dr_header x)) (pp_docs s)") simp_all
  note run = run [unfolded def sum.case]
  obtain t where t: "bound_transition (dd_workflow_key def) x action (pp_flows s) = Inr t"
    using run by (cases "bound_transition (dd_workflow_key def) x action (pp_flows s)") simp_all
  note run = run [unfolded t sum.case]
  obtain ds s1 where ds: "apply_runtime_decisions env x (effective_actor a) action t s = (Inr ds, s1)"
    using run by (cases "apply_runtime_decisions env x (effective_actor a) action t s") (auto split: sum.splits)
  note run = run [unfolded ds prod.case sum.case]
  obtain m where m: "plan_transition env did (dr_header x) action (effective_actor a) (de_transition ds) s1 = Inr m"
    using run by (cases "plan_transition env did (dr_header x) action (effective_actor a) (de_transition ds) s1") simp_all
  obtain y1 s2 where w: "write_metadata (bind_workflow (de_transition ds)) (set_status (tr_to_state (de_transition ds)) x) s1 = (y1, s2)" by fastforce
  have "y = next_version (effective_actor a) (pe_clock env 0) y1"
    using run by (auto simp: m w finish_transition_def persist_document_def Let_def split: prod.splits option.splits)
  moreover have "y1 = with_metadata (bind_workflow (de_transition ds)) (set_status (tr_to_state (de_transition ds)) x)"
    using write_metadata_effect [OF w] by blast
  ultimately show ?thesis by (simp add: next_version_def Let_def set_status_def with_metadata_def)
qed

text \<open>So in the next round whoever approved a stage before is counted already, and cannot approve it again.\<close>

lemma earlier_approvers_cannot_approve_again:
  assumes "stage_has_actor (dh_metadata (dr_header x)) (sg_stage_key sg) actor" "1 < sg_required_approver_count sg"
  shows "record_approver (Some sg) actor x s = (Inl (Conflict ''approval already recorded for the current stage''), x, s)"
  using assms by (simp add: record_approver_def Let_def)

text \<open>An actor without a name is never found among the approvers, and adds to their count each time.\<close>

lemma unnamed_approvers_are_counted:
  assumes "trim_space actor = []" "1 < sg_required_approver_count sg" "record_approver (Some sg) actor x s = (r, y, s')"
  obtains q where "r = Inr (Some q)" "length (qm_approvers q) = length (unique_strings (stage_actors (dh_metadata (dr_header x)) (sg_stage_key sg))) + 1"
  using assms by (auto simp: record_approver_def Let_def stage_has_actor_def split: prod.splits)

end
