(* ===== verification/Reference.thy ===== *)
theory Reference
  imports Shared
begin

text \<open>
  Package \<open>internal/platform/reference\<close>: types of reference data and their records, per deployment,
  organization or location, and the set in effect at a place and time. The repository is the one in memory;
  \<open>now\<close> is the clock. A stored record lies under the text of its key, scope and identifier, joined with bars.
\<close>

section \<open>Types and records\<close>

record reference_type =
  ry_key :: string
  ry_display_name :: string
  ry_display_name_i18n :: "(string, string) gomap"
  ry_owner_module_key :: string
  ry_value_type :: string
  ry_allowed_scopes :: "string list"

record reference_record =
  rr_type_key :: string
  rr_key :: string
  rr_display_name :: string
  rr_display_name_i18n :: "(string, string) gomap"
  rr_scope :: string
  rr_scope_id :: string
  rr_status :: string
  rr_value :: gobj
  rr_external_codes :: "(string, string) gomap"
  rr_effective_from :: gotime
  rr_effective_to :: gotime
  rr_updated_at :: gotime
  rr_updated_by :: string

record resolved_set =
  rset_type_key :: string
  rset_scope :: string
  rset_scope_id :: string
  rset_resolved_at :: gotime
  rset_source_scopes :: "string list"
  rset_items :: "reference_record list"

section \<open>The repository in memory\<close>

record reference_repo =
  ref_types :: "(string, reference_type) gomap"
  ref_records :: "(string, (string, reference_record) gomap) gomap"

definition new_reference_repo :: reference_repo where
  "new_reference_repo = \<lparr>ref_types = [], ref_records = []\<rparr>"

definition save_reference_type :: "reference_type \<Rightarrow> reference_repo \<Rightarrow> reference_repo" where
  "save_reference_type def r = r\<lparr>ref_types := mput (ry_key def) def (ref_types r)\<rparr>"

definition get_reference_type :: "string \<Rightarrow> reference_repo \<Rightarrow> reference_type option" where
  "get_reference_type key r = map_of (ref_types r) key"

definition list_reference_types :: "reference_repo \<Rightarrow> reference_type list" where
  "list_reference_types r = sort_slice ry_key (map snd (ref_types r))"

definition record_key :: "reference_record \<Rightarrow> string" where
  "record_key x = rr_key x @ ''|'' @ rr_scope x @ ''|'' @ rr_scope_id x"

definition save_reference :: "reference_record \<Rightarrow> reference_repo \<Rightarrow> reference_repo" where
  "save_reference x r =
     r\<lparr>ref_records := mput (rr_type_key x) (mput (record_key x) x (mget [] (ref_records r) (rr_type_key x))) (ref_records r)\<rparr>"

definition list_references :: "string \<Rightarrow> reference_repo \<Rightarrow> reference_record list" where
  "list_references type_key r =
     sort_slice (\<lambda>x. (rr_key x, rr_scope x, rr_scope_id x)) (map snd (mget [] (ref_records r) type_key))"

section \<open>The service\<close>

definition register_reference_type :: "reference_type \<Rightarrow> reference_repo \<Rightarrow> goerr option \<times> reference_repo" where
  "register_reference_type def r =
     (if trim_space (ry_key def) = [] \<or> trim_space (ry_display_name def) = []
      then (Some (Validation ''reference type key and display_name are required''), r)
      else
        let def = (if ry_value_type def = [] then def\<lparr>ry_value_type := ''json''\<rparr> else def);
            def = (if ry_allowed_scopes def = []
                   then def\<lparr>ry_allowed_scopes := [''deployment'', ''organization'', ''location'']\<rparr> else def)
        in (None, save_reference_type def r))"

definition reference_type_of :: "string \<Rightarrow> reference_repo \<Rightarrow> reference_type option" where
  "reference_type_of key r = get_reference_type (trim_space key) r"

definition references_of :: "string \<Rightarrow> reference_repo \<Rightarrow> reference_record list" where
  "references_of type_key r = list_references (trim_space type_key) r"

definition normalize_reference_scope :: "string \<Rightarrow> string" where
  "normalize_reference_scope scope = (let scope = trim_space scope in if scope = [] then ''deployment'' else scope)"

definition upsert_reference :: "gotime \<Rightarrow> reference_record \<Rightarrow> reference_repo \<Rightarrow> goerr option \<times> reference_repo" where
  "upsert_reference now x r =
     (if trim_space (rr_type_key x) = [] \<or> trim_space (rr_key x) = [] \<or> trim_space (rr_display_name x) = []
      then (Some (Validation ''reference record type_key, key, and display_name are required''), r)
      else
     (case get_reference_type (rr_type_key x) r of
        None \<Rightarrow> (Some (NotFound ''reference type not found''), r)
      | Some def \<Rightarrow>
          let scope = normalize_reference_scope (rr_scope x)
          in if scope \<notin> set (ry_allowed_scopes def) then (Some (Validation ''reference record scope is not allowed''), r)
             else
               let x = x\<lparr>rr_scope := scope\<rparr>;
                   x = (if rr_status x = [] then x\<lparr>rr_status := ''active''\<rparr> else x);
                   x = x\<lparr>rr_updated_at := or_now now (rr_updated_at x)\<rparr>
               in (None, save_reference x r)))"

section \<open>The set in effect\<close>

definition reference_in_scope :: "reference_record \<Rightarrow> string \<Rightarrow> string \<Rightarrow> bool" where
  "reference_in_scope x organization_id location_id =
     (let scope = normalize_reference_scope (rr_scope x)
      in if scope = ''deployment'' then True
         else if scope = ''organization'' then rr_scope_id x = [] \<or> rr_scope_id x = trim_space organization_id
         else if scope = ''location'' then rr_scope_id x \<noteq> [] \<and> rr_scope_id x = trim_space location_id
         else False)"

definition reference_effective :: "reference_record \<Rightarrow> gotime \<Rightarrow> bool" where
  "reference_effective x t \<longleftrightarrow>
     \<not> (\<not> is_zero_time (rr_effective_from x) \<and> t < rr_effective_from x)
     \<and> \<not> (\<not> is_zero_time (rr_effective_to x) \<and> rr_effective_to x < t)"

definition scope_rank :: "string \<Rightarrow> int" where
  "scope_rank scope =
     (let scope = normalize_reference_scope scope
      in if scope = ''location'' then 3 else if scope = ''organization'' then 2 else 1)"

definition scope_for :: "string \<Rightarrow> string \<Rightarrow> string" where
  "scope_for ident scope = (if trim_space ident = [] then [] else scope)"

definition reference_usable :: "string \<Rightarrow> string \<Rightarrow> gotime \<Rightarrow> reference_record \<Rightarrow> bool" where
  "reference_usable organization_id location_id t x \<longleftrightarrow>
     \<not> (\<not> reference_in_scope x organization_id location_id \<or> \<not> reference_effective x t \<or> trim_space (rr_status x) = ''inactive'')"

definition by_key :: "reference_record list \<Rightarrow> (string, reference_record) gomap" where
  "by_key xs = fold (\<lambda>x m. case map_of m (rr_key x) of Some _ \<Rightarrow> m | None \<Rightarrow> mput (rr_key x) x m) xs []"

definition resolve_references ::
    "gotime \<Rightarrow> string \<Rightarrow> string \<Rightarrow> string \<Rightarrow> gotime \<Rightarrow> reference_repo \<Rightarrow> resolved_set result" where
  "resolve_references now type_key organization_id location_id t r =
     (let type_key = trim_space type_key in
      if type_key = [] then Inl (Validation ''reference type key is required'')
      else
     (case get_reference_type type_key r of
        None \<Rightarrow> Inl (NotFound ''reference type not found'')
      | Some _ \<Rightarrow>
          let t = or_now now t;
              candidates = filter (reference_usable organization_id location_id t) (list_references type_key r);
              candidates = sort_slice (\<lambda>x. (rr_key x, - scope_rank (rr_scope x))) candidates;
              chosen = by_key candidates
          in Inr \<lparr>rset_type_key = type_key,
               rset_scope = first_non_empty [scope_for location_id ''location'', scope_for organization_id ''organization'', ''deployment''],
               rset_scope_id = first_non_empty [location_id, organization_id],
               rset_resolved_at = t,
               rset_source_scopes = sort_slice (\<lambda>s. s) (remdups (map (rr_scope \<circ> snd) chosen)),
               rset_items = sort_slice rr_key (map snd chosen)\<rparr>))"


section \<open>What is resolved\<close>

lemma sorted_find_least: "sorted (map f xs) \<Longrightarrow> find P xs = Some x \<Longrightarrow> y \<in> set xs \<Longrightarrow> P y \<Longrightarrow> f x \<le> f y"
  by (induction xs) (auto split: if_splits)

lemma distinct_map_sort_slice: "distinct (map f (sort_slice k xs)) = distinct (map f xs)"
proof -
  have "mset (map f (sort_slice k xs)) = mset (map f xs)" by simp
  then show ?thesis by (rule mset_eq_imp_distinct_iff)
qed

lemma map_of_by_key: "map_of (by_key xs) k = find (\<lambda>x. rr_key x = k) xs"
proof -
  have "map_of (fold (\<lambda>x m. case map_of m (rr_key x) of Some _ \<Rightarrow> m | None \<Rightarrow> mput (rr_key x) x m) xs m) k
      = (case map_of m k of None \<Rightarrow> find (\<lambda>x. rr_key x = k) xs | Some x \<Rightarrow> Some x)" for m
    by (induction xs arbitrary: m) (auto split: option.splits)
  then show ?thesis by (simp add: by_key_def)
qed

lemma wf_by_key: "wf_map (by_key xs)"
proof -
  have "wf_map m \<Longrightarrow> wf_map (fold (\<lambda>x m. case map_of m (rr_key x) of Some _ \<Rightarrow> m | None \<Rightarrow> mput (rr_key x) x m) xs m)" for m
    by (induction xs arbitrary: m) (auto split: option.splits)
  then show ?thesis by (simp add: by_key_def wf_map_def)
qed

lemma set_by_key: "x \<in> snd ` set (by_key xs) \<longleftrightarrow> find (\<lambda>y. rr_key y = rr_key x) xs = Some x"
proof
  assume "x \<in> snd ` set (by_key xs)"
  then obtain k where "(k, x) \<in> set (by_key xs)" by force
  then have "map_of (by_key xs) k = Some x" using wf_by_key by (simp add: wf_map_def mkeys_def)
  then show "find (\<lambda>y. rr_key y = rr_key x) xs = Some x" using find_SomeD by (fastforce simp: map_of_by_key)
next
  assume "find (\<lambda>y. rr_key y = rr_key x) xs = Some x"
  then have "map_of (by_key xs) (rr_key x) = Some x" by (simp add: map_of_by_key)
  then show "x \<in> snd ` set (by_key xs)" by (metis image_eqI map_of_SomeD snd_conv)
qed

lemma keys_by_key: "map rr_key (map snd (by_key xs)) = map fst (by_key xs)"
proof -
  have "\<forall>p \<in> set (by_key xs). rr_key (snd p) = fst p"
  proof
    fix p assume "p \<in> set (by_key xs)"
    then have "map_of (by_key xs) (fst p) = Some (snd p)" using wf_by_key by (simp add: wf_map_def mkeys_def)
    then show "rr_key (snd p) = fst p" using find_SomeD by (fastforce simp: map_of_by_key)
  qed
  then show ?thesis by simp
qed

text \<open>The records of a type that count at a place and time.\<close>

abbreviation in_force :: "string \<Rightarrow> string \<Rightarrow> string \<Rightarrow> gotime \<Rightarrow> reference_repo \<Rightarrow> reference_record \<Rightarrow> bool" where
  "in_force type_key organization_id location_id t r x \<equiv>
     x \<in> set (references_of type_key r) \<and> reference_usable organization_id location_id t x"

lemma resolved_items:
  assumes "resolve_references now type_key org loc t r = Inr rs"
  shows "x \<in> set (rset_items rs) \<Longrightarrow> in_force type_key org loc (rset_resolved_at rs) r x"
    "x \<in> set (rset_items rs) \<Longrightarrow> in_force type_key org loc (rset_resolved_at rs) r c \<Longrightarrow> rr_key c = rr_key x \<Longrightarrow>
      scope_rank (rr_scope c) \<le> scope_rank (rr_scope x)"
    "in_force type_key org loc (rset_resolved_at rs) r c \<Longrightarrow> \<exists>x \<in> set (rset_items rs). rr_key x = rr_key c"
    "sorted_wrt (<) (map rr_key (rset_items rs))"
proof -
  let ?t = "or_now now t"
  let ?cs = "sort_slice (\<lambda>x. (rr_key x, - scope_rank (rr_scope x)))
    (filter (reference_usable org loc ?t) (list_references (trim_space type_key) r))"
  have rs: "rset_items rs = sort_slice rr_key (map snd (by_key ?cs))" "rset_resolved_at rs = ?t"
    using assms by (auto simp: resolve_references_def Let_def split: if_splits option.splits)
  have cs: "c \<in> set ?cs \<longleftrightarrow> in_force type_key org loc ?t r c" for c by (auto simp: references_of_def)
  have chosen: "x \<in> set (rset_items rs) \<longleftrightarrow> find (\<lambda>y. rr_key y = rr_key x) ?cs = Some x" for x
    by (simp only: rs(1) set_sort_slice set_map set_by_key)
  show "x \<in> set (rset_items rs) \<Longrightarrow> in_force type_key org loc (rset_resolved_at rs) r x"
    unfolding chosen rs(2) using find_SomeD cs by metis
  show "scope_rank (rr_scope c) \<le> scope_rank (rr_scope x)"
    if "x \<in> set (rset_items rs)" "in_force type_key org loc (rset_resolved_at rs) r c" "rr_key c = rr_key x"
  proof -
    have "(rr_key x, - scope_rank (rr_scope x)) \<le> (rr_key c, - scope_rank (rr_scope c))"
      by (rule sorted_find_least [where xs = ?cs and P = "\<lambda>y. rr_key y = rr_key x"]) (use that chosen cs rs(2) in \<open>simp_all del: set_sort_slice\<close>)
    then show ?thesis using that(3) by simp
  qed
  show "\<exists>x \<in> set (rset_items rs). rr_key x = rr_key c" if "in_force type_key org loc (rset_resolved_at rs) r c"
  proof -
    have "c \<in> set ?cs" using that rs(2) cs by metis
    then have "find (\<lambda>y. rr_key y = rr_key c) ?cs \<noteq> None" by (auto simp: find_None_iff simp del: set_sort_slice)
    then obtain x where x: "find (\<lambda>y. rr_key y = rr_key c) ?cs = Some x" by blast
    then have "rr_key x = rr_key c" using find_SomeD by fast
    then show ?thesis using x chosen by metis
  qed
  have "distinct (map rr_key (rset_items rs))"
  proof -
    have "distinct (map rr_key (map snd (by_key ?cs)))" unfolding keys_by_key using wf_by_key by (simp add: wf_map_def mkeys_def)
    then show ?thesis unfolding rs(1) distinct_map_sort_slice .
  qed
  moreover have "sorted (map rr_key (rset_items rs))" by (simp add: rs)
  ultimately show "sorted_wrt (<) (map rr_key (rset_items rs))" using strict_sorted_iff by blast
qed

text \<open>
  The resolved set of a type has, for each key with a record in force, one record in force for that key,
  in the order of the keys, and no record in force for the key has a higher rank (location over organization over deployment).
\<close>

theorem resolved_references_are_most_specific:
  assumes "resolve_references now type_key org loc t r = Inr rs"
  shows "sorted_wrt (<) (map rr_key (rset_items rs))
    \<and> rr_key ` set (rset_items rs) = rr_key ` {c. in_force type_key org loc (rset_resolved_at rs) r c}
    \<and> (\<forall>x \<in> set (rset_items rs). in_force type_key org loc (rset_resolved_at rs) r x
        \<and> (\<forall>c. in_force type_key org loc (rset_resolved_at rs) r c \<and> rr_key c = rr_key x \<longrightarrow> scope_rank (rr_scope c) \<le> scope_rank (rr_scope x)))"
proof -
  note items = resolved_items [OF assms]
  have "rr_key ` set (rset_items rs) = rr_key ` {c. in_force type_key org loc (rset_resolved_at rs) r c}"
  proof (intro equalityI subsetI)
    fix k assume "k \<in> rr_key ` set (rset_items rs)"
    then obtain x where "x \<in> set (rset_items rs)" "k = rr_key x" by blast
    with items(1) show "k \<in> rr_key ` {c. in_force type_key org loc (rset_resolved_at rs) r c}" by blast
  next
    fix k assume "k \<in> rr_key ` {c. in_force type_key org loc (rset_resolved_at rs) r c}"
    then obtain c where c: "in_force type_key org loc (rset_resolved_at rs) r c" "k = rr_key c" by blast
    from items(3) [OF c(1)] c(2) show "k \<in> rr_key ` set (rset_items rs)" by (metis image_eqI)
  qed
  then show ?thesis using items(1,2,4) by blast
qed

section \<open>Saving and resolving\<close>

text \<open>Every record lies under its key in the table of its type, with its scope normalized.\<close>

definition ref_inv :: "reference_repo \<Rightarrow> bool" where
  "ref_inv r \<longleftrightarrow> (\<forall>type_key m. map_of (ref_records r) type_key = Some m \<longrightarrow>
     wf_map m \<and> (\<forall>k x. map_of m k = Some x \<longrightarrow> k = record_key x \<and> normalize_reference_scope (rr_scope x) = rr_scope x))"

lemma ref_invD:
  assumes "ref_inv r" shows "wf_map (mget [] (ref_records r) type_key)"
    and "map_of (mget [] (ref_records r) type_key) k = Some x \<Longrightarrow> k = record_key x \<and> normalize_reference_scope (rr_scope x) = rr_scope x"
  using assms by (auto simp: ref_inv_def mget_def split: option.splits)

lemma normalize_twice [simp]: "normalize_reference_scope (normalize_reference_scope s) = normalize_reference_scope s"
proof -
  have "trim_space ''deployment'' = ''deployment''" by code_simp
  then show ?thesis by (simp add: normalize_reference_scope_def Let_def)
qed

lemma in_references: "ref_inv r \<Longrightarrow> x \<in> set (references_of type_key r) \<longleftrightarrow>
    map_of (mget [] (ref_records r) (trim_space type_key)) (record_key x) = Some x"
proof -
  assume inv: "ref_inv r"
  let ?m = "mget [] (ref_records r) (trim_space type_key)"
  have "x \<in> set (references_of type_key r) \<longleftrightarrow> (\<exists>k. (k, x) \<in> set ?m)"
    by (force simp: references_of_def list_references_def image_iff)
  then show ?thesis using map_of_entry [OF ref_invD(1) [OF inv]] ref_invD(2) [OF inv] by metis
qed

text \<open>What \<open>UpsertRecord\<close> stores.\<close>

definition completed :: "gotime \<Rightarrow> reference_record \<Rightarrow> reference_record" where
  "completed now x = x\<lparr>rr_scope := normalize_reference_scope (rr_scope x),
     rr_status := (if rr_status x = [] then ''active'' else rr_status x), rr_updated_at := or_now now (rr_updated_at x)\<rparr>"

lemma upsert_reference_stores:
  assumes "upsert_reference now x r = (None, r')"
  shows "r' = save_reference (completed now x) r" "map_of (ref_types r) (rr_type_key x) \<noteq> None" "trim_space (rr_type_key x) \<noteq> []"
  using assms by (auto simp: upsert_reference_def completed_def get_reference_type_def Let_def split: if_splits option.splits)

lemma ref_inv_register: "ref_inv r \<Longrightarrow> ref_inv (snd (register_reference_type def r))"
  by (simp add: register_reference_type_def save_reference_type_def ref_inv_def Let_def)

lemma ref_inv_upsert: "ref_inv r \<Longrightarrow> upsert_reference now x r = (e, r') \<Longrightarrow> ref_inv r'"
proof (cases e)
  case None
  assume inv: "ref_inv r" and "upsert_reference now x r = (e, r')"
  then have r': "r' = save_reference (completed now x) r" using upsert_reference_stores None by blast
  have "normalize_reference_scope (rr_scope (completed now x)) = rr_scope (completed now x)" by (simp add: completed_def)
  then show ?thesis using inv ref_invD [OF inv] by (auto simp: ref_inv_def r' save_reference_def)
next
  case (Some err)
  assume "ref_inv r" "upsert_reference now x r = (e, r')"
  then show ?thesis using Some by (auto simp: upsert_reference_def Let_def split: if_splits option.splits)
qed

text \<open>The records of one location under one key: at most one.\<close>

lemma location_value_unique:
  assumes "ref_inv r" "in_force type_key org loc t r x" "in_force type_key org loc t r y" "rr_key x = rr_key y"
    "rr_scope x = ''location''" "scope_rank (rr_scope x) \<le> scope_rank (rr_scope y)"
  shows "x = y"
proof -
  have loc: "normalize_reference_scope ''location'' = ''location''" by code_simp
  have scope: "rr_scope y = normalize_reference_scope (rr_scope y)" using assms(1,3) in_references ref_invD(2) by metis
  then have "rr_scope y = ''location''" using assms(5,6) by (simp add: scope_rank_def loc Let_def split: if_splits)
  then have "record_key x = record_key y"
    using assms(2-5) by (auto simp: record_key_def reference_usable_def reference_in_scope_def loc)
  then show ?thesis using assms(1-3) in_references by (metis option.inject)
qed

text \<open>
  C39: a value that was just stored for a location is what the location gets under its key, whatever else is stored, once it is
  in effect: if the type is found and the record is not inactive.
\<close>

theorem stored_location_values_are_resolved:
  assumes inv: "ref_inv r" and stored: "upsert_reference now x r = (None, r')" and resolved: "resolve_references now' (rr_type_key x) org loc t r' = Inr rs"
    and exact: "trim_space (rr_type_key x) = rr_type_key x" and scope: "normalize_reference_scope (rr_scope x) = ''location''"
      "rr_scope_id x \<noteq> []" "rr_scope_id x = trim_space loc"
    and effect: "reference_effective x (rset_resolved_at rs)" "trim_space (rr_status x) \<noteq> ''inactive''"
  shows "completed now x \<in> set (rset_items rs)"
proof -
  let ?x = "completed now x" and ?t = "rset_resolved_at rs"
  note r' = upsert_reference_stores(1) [OF stored]
  have inv': "ref_inv r'" using ref_inv_upsert [OF inv stored] .
  have loc: "rr_scope ?x = ''location''" using scope by (simp add: completed_def)
  have active: "trim_space ''active'' = ''active''" "normalize_reference_scope ''location'' = ''location''" by code_simp+
  have "rr_type_key ?x = rr_type_key x" by (simp add: completed_def)
  then have "?x \<in> set (references_of (rr_type_key x) r')" unfolding in_references [OF inv'] exact by (simp add: r' save_reference_def)
  moreover have "reference_usable org loc ?t ?x"
    using scope effect by (simp add: completed_def reference_usable_def reference_in_scope_def reference_effective_def active)
  ultimately have force: "in_force (rr_type_key x) org loc ?t r' ?x" by blast
  note items = resolved_items [OF resolved]
  obtain y where y: "y \<in> set (rset_items rs)" "rr_key y = rr_key ?x" using items(3) [OF force] by blast
  have "?x = y"
    by (rule location_value_unique [OF inv' force items(1) [OF y(1)] y(2) [symmetric] loc]) (use items(2) [OF y(1) force] y(2) in simp)
  then show ?thesis using y(1) by simp
qed

lemma map_sum_InrD: "map_sum f g x = Inr y \<Longrightarrow> \<exists>z. x = Inr z \<and> g z = y"
  by (cases x) simp_all

text \<open>Two records for one key: one for every organization, one for the organization \<open>o1\<close>.\<close>

definition rate_for :: "string \<Rightarrow> string \<Rightarrow> string \<Rightarrow> reference_record" where
  "rate_for scope scope_id code = \<lparr>rr_type_key = ''rate'', rr_key = ''vat'', rr_display_name = ''VAT'', rr_display_name_i18n = [],
     rr_scope = scope, rr_scope_id = scope_id, rr_status = [], rr_value = [(''code'', GStr code)], rr_external_codes = [],
     rr_effective_from = 0, rr_effective_to = 0, rr_updated_at = 0, rr_updated_by = []\<rparr>"

definition rate_type :: reference_type where
  "rate_type = \<lparr>ry_key = ''rate'', ry_display_name = ''Rate'', ry_display_name_i18n = [], ry_owner_module_key = [], ry_value_type = [],
     ry_allowed_scopes = []\<rparr>"

definition rates :: "reference_record list \<Rightarrow> reference_repo" where
  "rates xs = fold (\<lambda>x r. snd (upsert_reference 1 x r)) xs (snd (register_reference_type rate_type new_reference_repo))"

definition codes_at :: "string \<Rightarrow> string \<Rightarrow> reference_record list \<Rightarrow> gval list" where
  "codes_at org loc xs = (case resolve_references 5 ''rate'' org loc 0 (rates xs) of
     Inl _ \<Rightarrow> [] | Inr rs \<Rightarrow> map (\<lambda>x. mget GNull (rr_value x) ''code'') (rset_items rs))"

text \<open>
  Within a scope the rank does not tell the record of one organization from the record of all of them:
  the general one, first in the order of the repository, hides the specific one.
\<close>

lemma general_organization_value_hides_specific:
  "codes_at ''o1'' ''l1'' [rate_for ''organization'' ''o1'' ''own'', rate_for ''organization'' [] ''general''] = [GStr ''general'']"
  "codes_at ''o1'' ''l1'' [rate_for ''organization'' ''o1'' ''own'', rate_for [] [] ''base''] = [GStr ''own'']"
  by code_simp+

theorem resolved_references_are_most_specific_witness:
  "let r = rates [rate_for ''location'' ''l1'' ''here'', rate_for [] [] ''base''] in
   \<exists>rs x. resolve_references 5 ''rate'' ''o1'' ''l1'' 3 r = Inr rs \<and> x \<in> set (rset_items rs)
     \<and> rr_key x = ''vat'' \<and> 3 \<le> scope_rank (rr_scope x)"
proof -
  let ?r = "rates [rate_for ''location'' ''l1'' ''here'', rate_for [] [] ''base'']"
  let ?x = "completed 1 (rate_for ''location'' ''l1'' ''here'')"
  have "map_sum (\<lambda>_. ()) rset_resolved_at (resolve_references 5 ''rate'' ''o1'' ''l1'' 3 ?r) = Inr 3" by code_simp
  from map_sum_InrD [OF this] obtain rs where rs: "resolve_references 5 ''rate'' ''o1'' ''l1'' 3 ?r = Inr rs" "rset_resolved_at rs = 3"
    by (elim exE conjE)
  have x: "?x \<in> set (references_of ''rate'' ?r)" "reference_usable ''o1'' ''l1'' 3 ?x" "rr_key ?x = ''vat''" "scope_rank (rr_scope ?x) = 3"
    by code_simp+
  note facts = resolved_references_are_most_specific [OF rs(1), unfolded rs(2)]
  have force: "in_force ''rate'' ''o1'' ''l1'' 3 ?r ?x" using x(1,2) by (rule conjI)
  have "rr_key ?x \<in> rr_key ` {c. in_force ''rate'' ''o1'' ''l1'' 3 ?r c}" by (rule imageI, rule CollectI, rule force)
  then have "rr_key ?x \<in> rr_key ` set (rset_items rs)" unfolding facts [THEN conjunct2, THEN conjunct1] .
  then obtain y where y: "y \<in> set (rset_items rs)" "rr_key ?x = rr_key y" by (elim imageE)
  have "scope_rank (rr_scope ?x) \<le> scope_rank (rr_scope y)"
    by (rule bspec [OF facts [THEN conjunct2, THEN conjunct2] y(1), THEN conjunct2, THEN spec, THEN mp, OF conjI [OF force y(2)]])
  then show ?thesis unfolding Let_def using rs(1) y x(3,4) by (intro exI [of _ rs] exI [of _ y] conjI) simp_all
qed

theorem stored_location_values_are_resolved_witness:
  "\<exists>rs. resolve_references 5 ''rate'' ''o1'' '' l1'' 3 (rates [rate_for [] [] ''base'', rate_for ''location'' ''l1'' ''here'']) = Inr rs
     \<and> completed 1 (rate_for ''location'' ''l1'' ''here'') \<in> set (rset_items rs)"
proof -
  let ?x = "rate_for ''location'' ''l1'' ''here''" and ?r = "rates [rate_for [] [] ''base'']"
  let ?r' = "rates [rate_for [] [] ''base'', rate_for ''location'' ''l1'' ''here'']"
  have "ref_inv (snd (register_reference_type rate_type new_reference_repo))"
    by (intro ref_inv_register) (simp add: ref_inv_def new_reference_repo_def)
  then have inv: "ref_inv ?r" by (simp add: rates_def) (metis ref_inv_upsert prod.collapse)
  have "fst (upsert_reference 1 ?x ?r) = None" by code_simp
  then have stored: "upsert_reference 1 ?x ?r = (None, ?r')" by (simp add: rates_def prod_eq_iff)
  have type: "rr_type_key ?x = ''rate''" by (simp add: rate_for_def)
  have "map_sum (\<lambda>_. ()) rset_resolved_at (resolve_references 5 ''rate'' ''o1'' '' l1'' 3 ?r') = Inr 3" by code_simp
  from map_sum_InrD [OF this] obtain rs where rs: "resolve_references 5 ''rate'' ''o1'' '' l1'' 3 ?r' = Inr rs" "rset_resolved_at rs = 3"
    by (elim exE conjE)
  have facts: "trim_space (rr_type_key ?x) = rr_type_key ?x" "normalize_reference_scope (rr_scope ?x) = ''location''" "rr_scope_id ?x \<noteq> []"
    "rr_scope_id ?x = trim_space '' l1''" "reference_effective ?x 3" "trim_space (rr_status ?x) \<noteq> ''inactive''"
    by code_simp+
  from stored_location_values_are_resolved [OF inv stored rs(1) [folded type] facts(1-4) _ facts(6)] facts(5) rs show ?thesis by (simp add: type)
qed

end
