(* ===== verification/FeatureFlags.thy ===== *)
theory FeatureFlags
  imports Shared
begin

text \<open>
  Package \<open>internal/platform/featureflags\<close>: definitions of flags, their values per scope, and the value
  in effect for an organization, a location and an operating unit. The repository is the one in memory;
  \<open>now\<close> is the clock.
\<close>

section \<open>Definitions and values\<close>

record flag_definition =
  fd_key :: string
  fd_module_key :: string
  fd_description :: string
  fd_allowed_scopes :: "string list"
  fd_default_state :: bool
  fd_created_at :: gotime
  fd_updated_at :: gotime

record flag_value =
  fv_flag_key :: string
  fv_scope :: string
  fv_scope_id :: string
  fv_enabled :: bool
  fv_status :: string
  fv_updated_at :: gotime
  fv_updated_by :: string
  fv_effective_from :: gotime
  fv_effective_to :: gotime

record effective_flag =
  fe_key :: string
  fe_enabled :: bool
  fe_source_scope :: string
  fe_source_scope_id :: string
  fe_operating_unit_id :: string
  fe_resolved_at :: gotime

record targeting_view =
  tv_definition :: flag_definition
  tv_values :: "flag_value list"
  tv_effective :: effective_flag

section \<open>The repository in memory\<close>

record flag_repo =
  fl_definitions :: "(string, flag_definition) gomap"
  fl_values :: "(string, flag_value) gomap"

definition new_flag_repo :: flag_repo where
  "new_flag_repo = \<lparr>fl_definitions = [], fl_values = []\<rparr>"

definition save_flag_definition :: "flag_definition \<Rightarrow> flag_repo \<Rightarrow> flag_repo" where
  "save_flag_definition def r = r\<lparr>fl_definitions := mput (fd_key def) def (fl_definitions r)\<rparr>"

definition get_flag_definition :: "string \<Rightarrow> flag_repo \<Rightarrow> flag_definition option" where
  "get_flag_definition key r = map_of (fl_definitions r) key"

definition list_flag_definitions :: "flag_repo \<Rightarrow> flag_definition list" where
  "list_flag_definitions r = sort_slice fd_key (map snd (fl_definitions r))"

definition value_store_key :: "string \<Rightarrow> string \<Rightarrow> string \<Rightarrow> string" where
  "value_store_key flag_key scope scope_id = flag_key @ ''|'' @ scope @ ''|'' @ scope_id"

definition save_flag_value :: "flag_value \<Rightarrow> flag_repo \<Rightarrow> flag_repo" where
  "save_flag_value v r = r\<lparr>fl_values := mput (value_store_key (fv_flag_key v) (fv_scope v) (fv_scope_id v)) v (fl_values r)\<rparr>"

definition get_flag_value :: "string \<Rightarrow> string \<Rightarrow> string \<Rightarrow> flag_repo \<Rightarrow> flag_value option" where
  "get_flag_value flag_key scope scope_id r = map_of (fl_values r) (value_store_key flag_key scope scope_id)"

definition list_flag_values :: "flag_repo \<Rightarrow> flag_value list" where
  "list_flag_values r = sort_slice (\<lambda>v. (fv_flag_key v, fv_scope v, fv_scope_id v)) (map snd (fl_values r))"

section \<open>The service\<close>

definition register_flag :: "gotime \<Rightarrow> flag_definition \<Rightarrow> flag_repo \<Rightarrow> goerr option \<times> flag_repo" where
  "register_flag now def r =
     (if trim_space (fd_key def) = [] then (Some (Validation ''feature flag key is required''), r)
      else
        let def = (if trim_space (fd_module_key def) = [] then def\<lparr>fd_module_key := ''platform.core''\<rparr> else def);
            def = (if fd_allowed_scopes def = [] then def\<lparr>fd_allowed_scopes := [''deployment'']\<rparr> else def);
            def = def\<lparr>fd_created_at := or_now now (fd_created_at def), fd_updated_at := now\<rparr>
        in (None, save_flag_definition def r))"

definition platform_flag :: "gotime \<Rightarrow> string \<Rightarrow> string \<Rightarrow> flag_definition" where
  "platform_flag now key description =
     \<lparr>fd_key = key, fd_module_key = ''platform.core'', fd_description = description,
      fd_allowed_scopes = [''deployment'', ''organization'', ''location'', ''operating_unit''], fd_default_state = True,
      fd_created_at = now, fd_updated_at = now\<rparr>"

definition new_flag_service :: "gotime \<Rightarrow> flag_repo \<Rightarrow> flag_repo" where
  "new_flag_service now r =
     fold (\<lambda>def r. snd (register_flag now def r))
       [platform_flag now ''platform.admin_console'' ''Enable platform admin console surface.'',
        platform_flag now ''platform.mcp_templates'' ''Enable MCP template-designer workflow.''] r"

definition upsert_flag_value :: "gotime \<Rightarrow> flag_value \<Rightarrow> flag_repo \<Rightarrow> goerr option \<times> flag_repo" where
  "upsert_flag_value now v r =
     (case get_flag_definition (trim_space (fv_flag_key v)) r of
        None \<Rightarrow> (Some (NotFound ''feature flag definition not found''), r)
      | Some def \<Rightarrow>
          let v = (if fv_scope v = [] then v\<lparr>fv_scope := ''deployment''\<rparr> else v)
          in if fv_scope v \<notin> set (fd_allowed_scopes def) then (Some (Validation ''feature flag scope is not allowed''), r)
             else
               let v = (if fv_status v = [] then v\<lparr>fv_status := ''active''\<rparr> else v);
                   v = v\<lparr>fv_updated_at := now\<rparr>;
                   v = (if fv_updated_by v = [] then v\<lparr>fv_updated_by := ''system''\<rparr> else v)
               in (None, save_flag_value v r))"

section \<open>The value in effect\<close>

text \<open>One scope, and what it makes of the value found so far: \<open>continue\<close> keeps it.\<close>

definition resolve_flag_scope ::
    "flag_definition \<Rightarrow> gotime \<Rightarrow> flag_repo \<Rightarrow> string \<times> string \<Rightarrow> bool \<times> string \<times> string \<Rightarrow> bool \<times> string \<times> string" where
  "resolve_flag_scope def t r candidate found =
     (let (scope, scope_id) = candidate in
      if scope \<noteq> ''deployment'' \<and> scope_id = [] then found
      else if scope \<notin> set (fd_allowed_scopes def) then found
      else case get_flag_value (fd_key def) scope scope_id r of
        None \<Rightarrow> found
      | Some v \<Rightarrow>
          if fv_status v \<noteq> ''active'' then found
          else if \<not> is_zero_time (fv_effective_from v) \<and> t < fv_effective_from v then found
          else if \<not> is_zero_time (fv_effective_to v) \<and> fv_effective_to v < t then found
          else (fv_enabled v, scope, scope_id))"

definition resolve_flag ::
    "gotime \<Rightarrow> string \<Rightarrow> string \<Rightarrow> string \<Rightarrow> string \<Rightarrow> gotime \<Rightarrow> flag_repo \<Rightarrow> effective_flag option" where
  "resolve_flag now key organization_id location_id operating_unit_id t r =
     (case get_flag_definition (trim_space key) r of
        None \<Rightarrow> None
      | Some def \<Rightarrow>
          let t = or_now now t;
              (enabled, scope, scope_id) = fold (resolve_flag_scope def t r)
                [(''deployment'', []), (''organization'', organization_id), (''location'', location_id), (''operating_unit'', operating_unit_id)]
                (fd_default_state def, ''default'', [])
          in Some \<lparr>fe_key = fd_key def, fe_enabled = enabled, fe_source_scope = scope, fe_source_scope_id = scope_id,
               fe_operating_unit_id = operating_unit_id, fe_resolved_at = t\<rparr>)"

definition resolve_all_flags :: "gotime \<Rightarrow> string \<Rightarrow> string \<Rightarrow> string \<Rightarrow> gotime \<Rightarrow> flag_repo \<Rightarrow> effective_flag list" where
  "resolve_all_flags now organization_id location_id operating_unit_id t r =
     sort_slice fe_key (List.map_filter (\<lambda>def. resolve_flag now (fd_key def) organization_id location_id operating_unit_id t r)
       (list_flag_definitions r))"

definition flag_targeting ::
    "gotime \<Rightarrow> string \<Rightarrow> string \<Rightarrow> string \<Rightarrow> string \<Rightarrow> gotime \<Rightarrow> flag_repo \<Rightarrow> targeting_view option" where
  "flag_targeting now key organization_id location_id operating_unit_id t r =
     (case get_flag_definition (trim_space key) r of
        None \<Rightarrow> None
      | Some def \<Rightarrow>
          (case resolve_flag now (fd_key def) organization_id location_id operating_unit_id t r of
             None \<Rightarrow> None
           | Some effective \<Rightarrow>
               Some \<lparr>tv_definition = def,
                 tv_values = sort_slice (\<lambda>v. (fv_scope v, fv_scope_id v, - fv_updated_at v))
                   (filter (\<lambda>v. fv_flag_key v = fd_key def) (list_flag_values r)),
                 tv_effective = effective\<rparr>))"

section \<open>The most specific value counts\<close>

text \<open>The value of one scope, if it may decide.\<close>

definition deciding_value :: "flag_definition \<Rightarrow> gotime \<Rightarrow> flag_repo \<Rightarrow> string \<Rightarrow> string \<Rightarrow> flag_value option" where
  "deciding_value def t r scope scope_id =
     (if (scope = ''deployment'' \<or> scope_id \<noteq> []) \<and> scope \<in> set (fd_allowed_scopes def)
      then case get_flag_value (fd_key def) scope scope_id r of
          Some v \<Rightarrow> if fv_status v = ''active'' \<and> (fv_effective_from v = 0 \<or> fv_effective_from v \<le> t)
              \<and> (fv_effective_to v = 0 \<or> t \<le> fv_effective_to v) then Some v else None
        | None \<Rightarrow> None
      else None)"

lemma resolve_flag_scope_value:
  "resolve_flag_scope def t r (scope, scope_id) found =
     (case deciding_value def t r scope scope_id of None \<Rightarrow> found | Some v \<Rightarrow> (fv_enabled v, scope, scope_id))"
  by (auto simp: resolve_flag_scope_def deciding_value_def is_zero_time_def zero_time_def not_less split: option.split)

text \<open>A store joined by bars tells two values apart only where the flag keys and scopes have none.\<close>

lemma bar_cut: "u @ CHR ''|'' # v = u' @ CHR ''|'' # v' \<Longrightarrow> CHR ''|'' \<notin> set u \<Longrightarrow> CHR ''|'' \<notin> set u' \<Longrightarrow> u = u' \<and> v = v'"
proof (induction u arbitrary: u')
  case Nil
  then show ?case by (cases u') auto
next
  case (Cons c u)
  then show ?case by (cases u') auto
qed

lemma value_store_key_inj:
  assumes "value_store_key k s i = value_store_key k' s' i'"
    and "CHR ''|'' \<notin> set k" "CHR ''|'' \<notin> set k'" "CHR ''|'' \<notin> set s" "CHR ''|'' \<notin> set s'"
  shows "k = k' \<and> s = s' \<and> i = i'"
proof -
  have "k @ CHR ''|'' # (s @ CHR ''|'' # i) = k' @ CHR ''|'' # (s' @ CHR ''|'' # i')" using assms(1) by (simp add: value_store_key_def)
  from bar_cut [OF this assms(2,3)] bar_cut assms(4,5) show ?thesis by blast
qed

text \<open>The scopes a request names, the most specific last.\<close>

definition flag_places :: "string \<Rightarrow> string \<Rightarrow> string \<Rightarrow> (string \<times> string) list" where
  "flag_places organization_id location_id operating_unit_id =
     [(''deployment'', []), (''organization'', organization_id), (''location'', location_id), (''operating_unit'', operating_unit_id)]"

abbreviation decides :: "flag_definition \<Rightarrow> gotime \<Rightarrow> flag_repo \<Rightarrow> string \<times> string \<Rightarrow> bool" where
  "decides def t r p \<equiv> deciding_value def t r (fst p) (snd p) \<noteq> None"

lemma resolve_flag_fold:
  "get_flag_definition (trim_space key) r = Some def \<Longrightarrow> resolve_flag now key org loc ou t r =
     Some (case fold (resolve_flag_scope def (or_now now t) r) (flag_places org loc ou) (fd_default_state def, ''default'', []) of
       (enabled, scope, scope_id) \<Rightarrow> \<lparr>fe_key = fd_key def, fe_enabled = enabled, fe_source_scope = scope, fe_source_scope_id = scope_id,
          fe_operating_unit_id = ou, fe_resolved_at = or_now now t\<rparr>)"
  by (simp add: resolve_flag_def flag_places_def Let_def split: prod.split)

lemma fold_undecided: "list_all (\<lambda>p. \<not> decides def t r p) ps \<Longrightarrow> fold (resolve_flag_scope def t r) ps found = found"
  by (induction ps arbitrary: found) (auto simp: resolve_flag_scope_value)

lemma fold_decided:
  assumes "deciding_value def t r scope scope_id = Some v" "list_all (\<lambda>p. \<not> decides def t r p) after"
  shows "fold (resolve_flag_scope def t r) (before @ (scope, scope_id) # after) found = (fv_enabled v, scope, scope_id)"
  using fold_undecided [OF assms(2)] assms(1) by (simp add: resolve_flag_scope_value)

text \<open>What \<open>UpsertValue\<close> stores.\<close>

definition stored_value :: "gotime \<Rightarrow> flag_value \<Rightarrow> flag_value" where
  "stored_value now v = v\<lparr>fv_scope := (if fv_scope v = [] then ''deployment'' else fv_scope v),
     fv_status := (if fv_status v = [] then ''active'' else fv_status v), fv_updated_at := now,
     fv_updated_by := (if fv_updated_by v = [] then ''system'' else fv_updated_by v)\<rparr>"

lemma upsert_flag_value_stores:
  assumes "upsert_flag_value now v r = (None, r')"
  obtains def where "r' = save_flag_value (stored_value now v) r" "get_flag_definition (trim_space (fv_flag_key v)) r = Some def"
    "fv_scope (stored_value now v) \<in> set (fd_allowed_scopes def)"
proof -
  obtain def where def: "get_flag_definition (trim_space (fv_flag_key v)) r = Some def"
    using assms by (cases "get_flag_definition (trim_space (fv_flag_key v)) r") (simp_all add: upsert_flag_value_def)
  show thesis
    by (rule that [of def]) (use assms def in \<open>auto simp: upsert_flag_value_def stored_value_def Let_def split: if_splits\<close>)
qed

lemma flag_definitions_kept [simp]:
  "get_flag_definition key (save_flag_value v r) = get_flag_definition key r"
  by (simp add: get_flag_definition_def save_flag_value_def)



text \<open>A flag for one location of two.\<close>

definition beta_flag :: flag_definition where
  "beta_flag = \<lparr>fd_key = ''beta'', fd_module_key = [], fd_description = [], fd_allowed_scopes = [''deployment'', ''location''],
     fd_default_state = False, fd_created_at = 0, fd_updated_at = 0\<rparr>"

definition beta_at :: "string \<Rightarrow> bool \<Rightarrow> flag_value" where
  "beta_at location enabled = \<lparr>fv_flag_key = ''beta'', fv_scope = ''location'', fv_scope_id = location, fv_enabled = enabled, fv_status = [],
     fv_updated_at = 0, fv_updated_by = [], fv_effective_from = 0, fv_effective_to = 0\<rparr>"

definition beta_repo :: flag_repo where
  "beta_repo = snd (register_flag 1 beta_flag new_flag_repo)"


text \<open>
  \<open>UpsertValue\<close> finds the definition by the trimmed key but stores the value under the key as given, and \<open>Resolve\<close> reads
  the value of the deployment without an identifier: both values below are accepted and never seen.
\<close>

lemma accepted_values_never_seen:
  "let v = (beta_at [] True)\<lparr>fv_flag_key := '' beta'', fv_scope := []\<rparr>; r = snd (upsert_flag_value 2 v beta_repo)
   in fst (upsert_flag_value 2 v beta_repo) = None \<and> map_option fe_enabled (resolve_flag 3 '' beta'' [] [] [] 0 r) = Some False"
  "let v = (beta_at ''main'' True)\<lparr>fv_scope := []\<rparr>; r = snd (upsert_flag_value 2 v beta_repo)
   in fst (upsert_flag_value 2 v beta_repo) = None \<and> map_option fe_enabled (resolve_flag 3 ''beta'' [] [] [] 0 r) = Some False"
  by code_simp+

end
