(* ===== verification/Offline.thy ===== *)
theory Offline
  imports Shared
begin

text \<open>
  Package \<open>internal/platform/offline\<close>: the batches a device synchronises, with the outcome of each of their
  items, the defaults of a projection query, and the capabilities a caller may see. The repository is the one in memory.
  The signatures of packages (JSON and SHA-256) are not modelled. \<open>now\<close> is the clock, and \<open>stamp\<close> the text of its time
  for a batch without a correlation.
\<close>

section \<open>Batches and outcomes\<close>

record sync_batch =
  sb_id :: string
  sb_correlation_id :: string
  sb_actor_id :: string
  sb_device_id :: string
  sb_created_at :: gotime
  sb_processed_at :: gotime
  sb_item_count :: int
  sb_accepted_count :: int
  sb_conflict_count :: int
  sb_retryable_count :: int
  sb_terminal_count :: int

record sync_conflict =
  sf_current :: gobj
  sf_attempted :: gobj
  sf_resolution_options :: "string list"

record sync_result =
  sy_idempotency_key :: string
  sy_batch_id :: string
  sy_correlation_id :: string
  sy_device_id :: string
  sy_status :: string
  sy_kind :: string
  sy_operation :: string
  sy_target_id :: string
  sy_version :: int
  sy_etag :: string
  sy_error :: string
  sy_error_code :: string
  sy_conflict :: sync_conflict
  sy_attempt_count :: int
  sy_processed_at :: gotime
  sy_retry_after :: string

record sync_repo =
  sq_batches :: "sync_batch list"
  sq_outcomes :: "(string, sync_result list) gomap"
  sq_recent :: "sync_result list"

definition new_sync_repo :: sync_repo where
  "new_sync_repo = \<lparr>sq_batches = [], sq_outcomes = [], sq_recent = []\<rparr>"

text \<open>A batch that is known is replaced in place; a new one is added and the list sorted, the latest first.\<close>

definition save_batch :: "sync_batch \<Rightarrow> sync_repo \<Rightarrow> sync_repo" where
  "save_batch b r =
     (case update_first (\<lambda>x. sb_id x = sb_id b) (\<lambda>_. b) (sq_batches r) of
        Some bs \<Rightarrow> r\<lparr>sq_batches := bs\<rparr>
      | None \<Rightarrow> r\<lparr>sq_batches := sort_slice (\<lambda>x. - sb_created_at x) (sq_batches r @ [b])\<rparr>)"

definition save_sync_outcome :: "string \<Rightarrow> sync_result \<Rightarrow> sync_repo \<Rightarrow> sync_repo" where
  "save_sync_outcome batch_id x r =
     r\<lparr>sq_outcomes := mput batch_id (mget [] (sq_outcomes r) batch_id @ [x]) (sq_outcomes r),
       sq_recent := (let recent = x # sq_recent r in if 200 < length recent then take 200 recent else recent)\<rparr>"

definition list_batches :: "int \<Rightarrow> sync_repo \<Rightarrow> sync_batch list" where
  "list_batches limit r =
     (let items = sq_batches r in if 0 < limit \<and> limit < int (length items) then take (nat limit) items else items)"

definition list_sync_outcomes :: "string \<Rightarrow> sync_repo \<Rightarrow> sync_result list" where
  "list_sync_outcomes batch_id r = mget [] (sq_outcomes r) (trim_space batch_id)"

definition list_recent_outcomes :: "int \<Rightarrow> sync_repo \<Rightarrow> sync_result list" where
  "list_recent_outcomes limit r =
     (let items = sq_recent r in if 0 < limit \<and> limit < int (length items) then take (nat limit) items else items)"

section \<open>The service\<close>

definition start_batch :: "gotime \<Rightarrow> string \<Rightarrow> string \<Rightarrow> string \<Rightarrow> string \<Rightarrow> int \<Rightarrow> sync_repo \<Rightarrow> sync_batch \<times> sync_repo" where
  "start_batch now stamp correlation_id actor_id device_id item_count r =
     (let b = \<lparr>sb_id = ''offline-sync:'' @ first_non_empty [trim_space correlation_id, stamp], sb_correlation_id = trim_space correlation_id,
        sb_actor_id = trim_space actor_id, sb_device_id = trim_space device_id, sb_created_at = now, sb_processed_at = zero_time,
        sb_item_count = item_count, sb_accepted_count = 0, sb_conflict_count = 0, sb_retryable_count = 0, sb_terminal_count = 0\<rparr>
      in (b, save_batch b r))"

definition count_outcome :: "string \<Rightarrow> sync_batch \<Rightarrow> sync_batch" where
  "count_outcome status b =
     (if status = ''accepted'' then b\<lparr>sb_accepted_count := wrap64 (sb_accepted_count b + 1)\<rparr>
      else if status = ''conflict'' then b\<lparr>sb_conflict_count := wrap64 (sb_conflict_count b + 1)\<rparr>
      else if status = ''failed_retryable'' then b\<lparr>sb_retryable_count := wrap64 (sb_retryable_count b + 1)\<rparr>
      else if status \<in> {''failed_terminal'', ''forbidden''} then b\<lparr>sb_terminal_count := wrap64 (sb_terminal_count b + 1)\<rparr>
      else b)"

text \<open>The caller keeps the batch, and gets it back with its counters moved.\<close>

definition record_sync_outcome :: "gotime \<Rightarrow> sync_result \<Rightarrow> sync_batch \<times> sync_repo \<Rightarrow> sync_batch \<times> sync_repo" where
  "record_sync_outcome now x state =
     (let (b, r) = state;
          x = x\<lparr>sy_batch_id := sb_id b, sy_correlation_id := sb_correlation_id b, sy_processed_at := or_now now (sy_processed_at x)\<rparr>;
          r = save_sync_outcome (sb_id b) x r;
          b = (count_outcome (sy_status x) b)\<lparr>sb_processed_at := sy_processed_at x\<rparr>
      in (b, save_batch b r))"

definition sync_summary :: "sync_repo \<Rightarrow> int \<times> (string, int) gomap" where
  "sync_summary r =
     (let items = list_recent_outcomes 200 r
      in (int (length items), fold (\<lambda>x m. mput (sy_status x) (wrap64 (mget 0 m (sy_status x) + 1)) m) items []))"

section \<open>Queries of a projection\<close>

record projection_query =
  pj_filters :: "(string, string) gomap"
  pj_include_fields :: "string list"
  pj_page :: int
  pj_page_size :: int

text \<open>\<open>strings.SplitN(s, "=", 2)\<close>: what is before the first sign and what is after it.\<close>

fun cut_at :: "char \<Rightarrow> string \<Rightarrow> (string \<times> string) option" where
  "cut_at c [] = None"
| "cut_at c (x # xs) = (if x = c then Some ([], xs) else map_option (\<lambda>(u, v). (x # u, v)) (cut_at c xs))"

definition parse_default_filters :: "string list \<Rightarrow> (string, string) gomap" where
  "parse_default_filters items =
     fold (\<lambda>item m. case cut_at (CHR ''='') (trim_space item) of
         None \<Rightarrow> m
       | Some (k, v) \<Rightarrow> if trim_space k = [] then m else mput (trim_space k) (trim_space v) m) items []"

definition normalize_projection_query :: "string list \<Rightarrow> string list \<Rightarrow> projection_query \<Rightarrow> projection_query" where
  "normalize_projection_query default_filters default_include_fields q =
     q\<lparr>pj_filters := fold (\<lambda>(k, v) m. case map_of m k of Some _ \<Rightarrow> m | None \<Rightarrow> mput k v m)
         (parse_default_filters default_filters) (pj_filters q),
       pj_include_fields := (if pj_include_fields q = [] \<and> default_include_fields \<noteq> [] then default_include_fields else pj_include_fields q),
       pj_page := (if pj_page q \<le> 0 then 1 else pj_page q),
       pj_page_size := (if pj_page_size q \<le> 0 then 50 else pj_page_size q)\<rparr>"

section \<open>Capabilities\<close>

record offline_document =
  of_type :: string
  of_required_permissions :: "string list"
  of_create_permission_key :: string
  of_update_permission_key :: string

text \<open>A nil \<open>allow\<close> lets everything through.\<close>

definition filter_documents :: "offline_document list \<Rightarrow> (string list \<Rightarrow> bool) option \<Rightarrow> offline_document list" where
  "filter_documents items allow =
     sort_slice of_type (filter (\<lambda>d.
       let required = of_required_permissions d;
           required = (if of_create_permission_key d \<noteq> [] then required @ [of_create_permission_key d] else required);
           required = (if of_update_permission_key d \<noteq> [] then required @ [of_update_permission_key d] else required)
       in case allow of None \<Rightarrow> True | Some f \<Rightarrow> f required) items)"

section \<open>Counters and outcomes\<close>

text \<open>The outcomes of a batch with one of the statuses.\<close>

definition with_status :: "string list \<Rightarrow> sync_result list \<Rightarrow> int" where
  "with_status statuses xs = int (length (filter (\<lambda>x. sy_status x \<in> set statuses) xs))"

definition counts_agree :: "sync_batch \<Rightarrow> sync_result list \<Rightarrow> bool" where
  "counts_agree b xs \<longleftrightarrow> sb_accepted_count b = with_status [''accepted''] xs \<and> sb_conflict_count b = with_status [''conflict''] xs
     \<and> sb_retryable_count b = with_status [''failed_retryable''] xs \<and> sb_terminal_count b = with_status [''failed_terminal'', ''forbidden''] xs"

lemma with_status_append [simp]: "with_status ss (xs @ [x]) = with_status ss xs + (if sy_status x \<in> set ss then 1 else 0)"
  by (simp add: with_status_def)

lemma with_status_bound: "0 \<le> with_status ss xs" "with_status ss xs \<le> int (length xs)"
  by (simp_all add: with_status_def)

lemma with_status_step: "int (length xs) + 1 < 2 ^ 63 \<Longrightarrow> wrap64 (with_status ss xs + 1) = with_status ss xs + 1"
  using with_status_bound [of ss xs] by (intro wrap64_id) linarith+

lemma counting: "counts_agree b xs \<Longrightarrow> int (length xs) + 1 < 2 ^ 63 \<Longrightarrow> counts_agree (count_outcome (sy_status x) b) (xs @ [x])"
  using with_status_step [of xs] by (auto simp: counts_agree_def count_outcome_def)

lemma count_outcome_keeps [simp]: "sb_id (count_outcome st b) = sb_id b" "sb_item_count (count_outcome st b) = sb_item_count b"
    "sb_correlation_id (count_outcome st b) = sb_correlation_id b"
  and counts_agree_processed [simp]: "counts_agree (b\<lparr>sb_processed_at := t\<rparr>) xs = counts_agree b xs"
  by (simp_all add: count_outcome_def counts_agree_def)

lemma update_first_found: "update_first P (\<lambda>_. b) xs = Some ys \<Longrightarrow> P b \<Longrightarrow> find P ys = Some b"
  by (induction xs arbitrary: ys) (auto split: if_splits)

lemma unique_found:
  assumes "x \<in> set xs" "P x" "\<And>y. y \<in> set xs \<Longrightarrow> P y \<Longrightarrow> y = x" shows "find P xs = Some x"
proof -
  have "find P xs \<noteq> None" using assms(1,2) by (metis find_None_iff)
  then obtain y where y: "find P xs = Some y" by blast
  with find_SomeD [OF y] assms(3) show ?thesis by simp
qed

lemma saved_batch_found: "find (\<lambda>x. sb_id x = sb_id b) (sq_batches (save_batch b r)) = Some b"
proof (cases "update_first (\<lambda>x. sb_id x = sb_id b) (\<lambda>_. b) (sq_batches r)")
  case None
  then show ?thesis using None [THEN update_first_None [THEN iffD1]] by (intro unique_found) (auto simp: save_batch_def None)
next
  case (Some bs)
  then show ?thesis using update_first_found [OF Some] by (simp add: save_batch_def)
qed

lemma saved_batch_rest [simp]: "sq_outcomes (save_batch b r) = sq_outcomes r" "sq_recent (save_batch b r) = sq_recent r"
  by (simp_all add: save_batch_def split: option.split)

text \<open>What a run of outcomes, each with its clock, makes of a batch.\<close>

definition record_outcomes :: "(gotime \<times> sync_result) list \<Rightarrow> sync_batch \<times> sync_repo \<Rightarrow> sync_batch \<times> sync_repo" where
  "record_outcomes xs = fold (\<lambda>(now, x). record_sync_outcome now x) xs"

definition stamped :: "sync_batch \<Rightarrow> gotime \<times> sync_result \<Rightarrow> sync_result" where
  "stamped b p = (snd p)\<lparr>sy_batch_id := sb_id b, sy_correlation_id := sb_correlation_id b,
     sy_processed_at := or_now (fst p) (sy_processed_at (snd p))\<rparr>"

text \<open>A batch in the repository, with its counters, its outcomes and the recent ones.\<close>

definition batch_ok :: "sync_result list \<Rightarrow> sync_result list \<Rightarrow> sync_batch \<times> sync_repo \<Rightarrow> bool" where
  "batch_ok past seen state \<longleftrightarrow> (case state of (b, r) \<Rightarrow> find (\<lambda>x. sb_id x = sb_id b) (sq_batches r) = Some b
     \<and> mget [] (sq_outcomes r) (sb_id b) = seen \<and> counts_agree b seen \<and> sq_recent r = take 200 (rev seen @ past))"

lemma take_200_Cons: "take 200 (x # take 200 zs) = take 200 (x # zs)"
  by (simp add: take_Cons' min_def)

lemma recorded_batch_ok:
  assumes "batch_ok past seen (b, r)" "int (length seen) + 1 < 2 ^ 63"
  shows "batch_ok past (seen @ [stamped b (now, x)]) (record_sync_outcome now x (b, r))"
    "sb_id (fst (record_sync_outcome now x (b, r))) = sb_id b" "sb_correlation_id (fst (record_sync_outcome now x (b, r))) = sb_correlation_id b"
    "sb_item_count (fst (record_sync_outcome now x (b, r))) = sb_item_count b"
proof -
  let ?x = "stamped b (now, x)" and ?b = "(count_outcome (sy_status x) b)\<lparr>sb_processed_at := sy_processed_at (stamped b (now, x))\<rparr>"
  have run: "record_sync_outcome now x (b, r) = (?b, save_batch ?b (save_sync_outcome (sb_id b) ?x r))"
    by (simp add: record_sync_outcome_def stamped_def Let_def)
  show "sb_id (fst (record_sync_outcome now x (b, r))) = sb_id b" "sb_correlation_id (fst (record_sync_outcome now x (b, r))) = sb_correlation_id b"
    "sb_item_count (fst (record_sync_outcome now x (b, r))) = sb_item_count b"
    by (simp_all add: run)
  have "counts_agree ?b (seen @ [?x])" using counting [of b seen ?x] assms by (simp add: batch_ok_def stamped_def)
  moreover have "sq_recent (save_sync_outcome (sb_id b) ?x r) = take 200 (?x # take 200 (rev seen @ past))"
    using assms(1) by (simp add: save_sync_outcome_def batch_ok_def Let_def)
  then have "sq_recent (save_sync_outcome (sb_id b) ?x r) = take 200 (rev (seen @ [?x]) @ past)" unfolding take_200_Cons by simp
  moreover have "mget [] (sq_outcomes (save_sync_outcome (sb_id b) ?x r)) (sb_id b) = seen @ [?x]"
    using assms(1) by (simp add: save_sync_outcome_def batch_ok_def)
  ultimately show "batch_ok past (seen @ [?x]) (record_sync_outcome now x (b, r))"
    using saved_batch_found [of ?b] unfolding batch_ok_def run by simp
qed

lemma recorded_batches_ok:
  "batch_ok past seen (b, r) \<Longrightarrow> int (length seen + length xs) < 2 ^ 63 \<Longrightarrow>
     batch_ok past (seen @ map (stamped b) xs) (record_outcomes xs (b, r))
     \<and> sb_id (fst (record_outcomes xs (b, r))) = sb_id b \<and> sb_item_count (fst (record_outcomes xs (b, r))) = sb_item_count b"
proof (induction xs arbitrary: b r "seen")
  case Nil
  then show ?case by (simp add: record_outcomes_def)
next
  case (Cons p xs)
  obtain now x where p: "p = (now, x)" by fastforce
  obtain b' r' where step: "record_sync_outcome now x (b, r) = (b', r')" by fastforce
  have short: "int (length seen) + 1 < 2 ^ 63" using Cons.prems(2) by simp
  note ok = recorded_batch_ok [OF Cons.prems(1) short, of now x, unfolded step fst_conv]
  have "stamped b' = stamped b" using ok(2,3) by (simp add: stamped_def fun_eq_iff)
  moreover have "int (length (seen @ [stamped b (now, x)]) + length xs) < 2 ^ 63" using Cons.prems(2) by simp
  note Cons.IH [OF ok(1) this]
  moreover have "record_outcomes (p # xs) (b, r) = record_outcomes xs (b', r')" by (simp add: record_outcomes_def p step)
  ultimately show ?case using ok(2,4) by (simp add: p)
qed

text \<open>
  C38: a batch counts its outcomes. For a batch whose identifier has no outcomes yet, the repository holds after any run
  of outcomes the batch its caller holds, every outcome in order under its identifier, stamped with it, and the counters are
  the numbers of outcomes with each status; the recent outcomes are the last 200.
\<close>

theorem batches_count_their_outcomes:
  assumes start: "start_batch now stamp correlation_id actor_id device_id n r = (b, r0)" and fresh: "map_of (sq_outcomes r) (sb_id b) = None"
    and short: "length (sq_recent r) \<le> 200" "int (length xs) < 2 ^ 63" and run: "record_outcomes xs (b, r0) = (b', r')"
  shows "find (\<lambda>x. sb_id x = sb_id b) (sq_batches r') = Some b' \<and> mget [] (sq_outcomes r') (sb_id b) = map (stamped b) xs
    \<and> counts_agree b' (map (stamped b) xs) \<and> sb_item_count b' = n
    \<and> sq_recent r' = take 200 (rev (map (stamped b) xs) @ sq_recent r)"
proof -
  have r0: "r0 = save_batch b r" and zero: "counts_agree b []" "sb_item_count b = n"
    using start by (auto simp: start_batch_def Let_def counts_agree_def with_status_def)
  have "batch_ok (sq_recent r) [] (b, r0)"
    using saved_batch_found [of b r] zero(1) fresh short(1) by (simp add: batch_ok_def r0 mget_def)
  from recorded_batches_ok [OF this, of xs] short(2) run zero(2) show ?thesis by (auto simp: batch_ok_def)
qed

definition outcome :: "string \<Rightarrow> sync_result" where
  "outcome status = \<lparr>sy_idempotency_key = [], sy_batch_id = [], sy_correlation_id = [], sy_device_id = [], sy_status = status, sy_kind = [],
     sy_operation = [], sy_target_id = [], sy_version = 0, sy_etag = [], sy_error = [], sy_error_code = [],
     sy_conflict = \<lparr>sf_current = [], sf_attempted = [], sf_resolution_options = []\<rparr>, sy_attempt_count = 0, sy_processed_at = 0, sy_retry_after = []\<rparr>"

theorem batches_count_their_outcomes_witness:
  "\<exists>b' r'. record_outcomes [(5, outcome ''accepted''), (6, outcome ''conflict''), (7, outcome ''accepted'')]
       (start_batch 4 [] ''c1'' [] [] 3 new_sync_repo) = (b', r') \<and> sb_accepted_count b' = 2
     \<and> map sy_processed_at (sq_recent r') = [7, 6, 5]"
proof -
  let ?xs = "[(5, outcome ''accepted''), (6, outcome ''conflict''), (7, outcome ''accepted'')]"
  obtain b r0 where start: "start_batch 4 [] ''c1'' [] [] 3 new_sync_repo = (b, r0)" by fastforce
  obtain b' r' where run: "record_outcomes ?xs (b, r0) = (b', r')" by fastforce
  have "map_of (sq_outcomes new_sync_repo) (sb_id b) = None" "length (sq_recent new_sync_repo) \<le> 200" "int (length ?xs) < 2 ^ 63"
    by (simp_all add: new_sync_repo_def)
  note facts = batches_count_their_outcomes [OF start this run]
  have "sb_accepted_count b' = 2" using facts by (simp add: counts_agree_def with_status_def stamped_def outcome_def)
  moreover have "sq_recent r' = take 200 (rev (map (stamped b) ?xs) @ sq_recent new_sync_repo)" using facts by (elim conjE)
  then have "map sy_processed_at (sq_recent r') = [7, 6, 5]"
    by (simp add: stamped_def outcome_def or_now_def is_zero_time_def zero_time_def new_sync_repo_def)
  ultimately show ?thesis unfolding start using run by (intro exI [of _ b'] exI [of _ r'] conjI)
qed

text \<open>A correlation used again starts the same batch from zero, and its earlier outcomes stay.\<close>

lemma restarted_batch_forgets_its_counts:
  "let (b, r) = record_outcomes [(5, outcome ''accepted'')] (start_batch 4 [] ''c1'' [] [] 1 new_sync_repo);
       (b', r') = start_batch 8 [] ''c1'' [] [] 1 r
   in sb_id b' = sb_id b \<and> length (sq_batches r') = 1 \<and> sb_accepted_count b' = 0 \<and> length (mget [] (sq_outcomes r') (sb_id b')) = 1"
  by code_simp

end
