(* ===== verification/Engagement.thy ===== *)
theory Engagement
  imports EventOutbox JobQueue
begin

text \<open>
  Package \<open>internal/platform/engagement\<close>: programs that credit points, grant achievements and set tiers when events
  happen, by the rules of their published version, and the replay of a program over the event log. The repository is the one in
  memory; event and job services are attached. Within one operation the clock is read as \<open>ee_now\<close>; the identifiers of what
  a rule writes come from \<open>ee_fresh\<close>, by the key under which the rule is marked as processed. The texts of floats and times
  (\<open>fmt.Sprintf\<close>) are arguments.
\<close>

section \<open>Programs, versions, rules\<close>

record eng_program =
  gm_key :: string
  gm_name :: string
  gm_subject_type :: string
  gm_status :: string
  gm_published_version :: int
  gm_created_at :: gotime
  gm_updated_at :: gotime
  gm_updated_by :: string

record eng_rule =
  gr_key :: string
  gr_name :: string
  gr_source_event_types :: "string list"
  gr_subject_source :: string
  gr_account_key :: string
  gr_action :: string
  gr_fixed_amount :: int
  gr_amount_field :: string
  gr_threshold :: int
  gr_achievement_key :: string
  gr_tier_key :: string

record eng_version =
  gv_program_key :: string
  gv_version :: int
  gv_status :: string
  gv_change_note :: string
  gv_rules :: "eng_rule list"
  gv_created_at :: gotime
  gv_updated_at :: gotime
  gv_published_at :: gotime
  gv_published_by :: string
  gv_last_error :: string
  gv_last_replay_id :: string

section \<open>The ledger\<close>

record journal_entry =
  je_id :: string
  je_program_key :: string
  je_version :: int
  je_subject_id :: string
  je_account_key :: string
  je_entry_type :: string
  je_amount :: int
  je_rule_key :: string
  je_event_id :: string
  je_event_type :: string
  je_correlation_id :: string
  je_occurred_at :: gotime
  je_created_at :: gotime

record balance_snapshot =
  bl_program_key :: string
  bl_subject_id :: string
  bl_account_key :: string
  bl_balance :: int
  bl_updated_at :: gotime

record qualification =
  ql_program_key :: string
  ql_subject_id :: string
  ql_tier_key :: string
  ql_score :: int
  ql_updated_at :: gotime

record achievement =
  ag_id :: string
  ag_program_key :: string
  ag_subject_id :: string
  ag_achievement_key :: string
  ag_rule_key :: string
  ag_event_id :: string
  ag_granted_at :: gotime

record consumer_state =
  cn_id :: string
  cn_program_key :: string
  cn_version :: int
  cn_event_types :: "string list"
  cn_processed :: int
  cn_last_event_id :: string
  cn_last_event_at :: gotime
  cn_last_error :: string
  cn_status :: string
  cn_updated_at :: gotime

record version_issue =
  ei_code :: string
  ei_path :: string
  ei_message :: string

record replay_plan =
  rpn_program :: string
  rpn_version :: int
  rpn_matching_events :: int
  rpn_issues :: "version_issue list"

record replay_run =
  rn_id :: string
  rn_program_key :: string
  rn_version :: int
  rn_status :: string
  rn_matching_events :: int
  rn_processed :: int
  rn_error :: string
  rn_started_at :: gotime
  rn_completed_at :: gotime
  rn_created_by :: string
  rn_issues :: "version_issue list"
  rn_job_id :: string

section \<open>The repository in memory\<close>

record eng_repo =
  eg_programs :: "(string, eng_program) gomap"
  eg_versions :: "(string, (int, eng_version) gomap) gomap"
  eg_journal :: "journal_entry list"
  eg_balances :: "(string, balance_snapshot) gomap"
  eg_qualifications :: "(string, qualification) gomap"
  eg_achievements :: "(string, achievement) gomap"
  eg_processed :: "string list"
  eg_consumers :: "(string, consumer_state) gomap"
  eg_replays :: "(string, replay_run) gomap"

definition new_eng_repo :: eng_repo where
  "new_eng_repo = \<lparr>eg_programs = [], eg_versions = [], eg_journal = [], eg_balances = [], eg_qualifications = [],
     eg_achievements = [], eg_processed = [], eg_consumers = [], eg_replays = []\<rparr>"

definition save_program :: "eng_program \<Rightarrow> eng_repo \<Rightarrow> eng_repo" where
  "save_program p r = r\<lparr>eg_programs := mput (gm_key p) p (eg_programs r)\<rparr>"

definition get_program :: "string \<Rightarrow> eng_repo \<Rightarrow> eng_program option" where
  "get_program key r = map_of (eg_programs r) (trim_space key)"

definition list_programs :: "eng_repo \<Rightarrow> eng_program list" where
  "list_programs r = sort_slice gm_key (map snd (eg_programs r))"

definition save_eng_version :: "eng_version \<Rightarrow> eng_repo \<Rightarrow> eng_repo" where
  "save_eng_version v r =
     r\<lparr>eg_versions := mput (gv_program_key v) (mput (gv_version v) v (mget [] (eg_versions r) (gv_program_key v))) (eg_versions r)\<rparr>"

definition get_eng_version :: "string \<Rightarrow> int \<Rightarrow> eng_repo \<Rightarrow> eng_version option" where
  "get_eng_version program_key version r = map_of (mget [] (eg_versions r) (trim_space program_key)) version"

definition list_eng_versions :: "string \<Rightarrow> eng_repo \<Rightarrow> eng_version list" where
  "list_eng_versions program_key r = sort_slice gv_version (map snd (mget [] (eg_versions r) (trim_space program_key)))"

definition save_journal_entry :: "journal_entry \<Rightarrow> eng_repo \<Rightarrow> eng_repo" where
  "save_journal_entry e r = r\<lparr>eg_journal := eg_journal r @ [e]\<rparr>"

text \<open>\<open>if strings.TrimSpace(want) != "" && item.Key != want { continue }\<close>.\<close>

definition wanted :: "string \<Rightarrow> string \<Rightarrow> bool" where
  "wanted want have \<longleftrightarrow> \<not> (trim_space want \<noteq> [] \<and> have \<noteq> want)"

definition list_journal :: "string \<Rightarrow> string \<Rightarrow> string \<Rightarrow> eng_repo \<Rightarrow> journal_entry list" where
  "list_journal program_key subject_id account_key r =
     sort_slice je_occurred_at (filter (\<lambda>e. wanted program_key (je_program_key e) \<and> wanted subject_id (je_subject_id e)
       \<and> wanted account_key (je_account_key e)) (eg_journal r))"

definition balance_key :: "string \<Rightarrow> string \<Rightarrow> string \<Rightarrow> string" where
  "balance_key program_key subject_id account_key =
     trim_space program_key @ ''|'' @ trim_space subject_id @ ''|'' @ trim_space account_key"

definition qualification_key :: "string \<Rightarrow> string \<Rightarrow> string" where
  "qualification_key program_key subject_id = trim_space program_key @ ''|'' @ trim_space subject_id"

definition achievement_key :: "string \<Rightarrow> string \<Rightarrow> string \<Rightarrow> string" where
  "achievement_key program_key subject_id key =
     trim_space program_key @ ''|'' @ trim_space subject_id @ ''|'' @ trim_space key"

definition save_balance :: "balance_snapshot \<Rightarrow> eng_repo \<Rightarrow> eng_repo" where
  "save_balance b r = r\<lparr>eg_balances := mput (balance_key (bl_program_key b) (bl_subject_id b) (bl_account_key b)) b (eg_balances r)\<rparr>"

definition zero_balance :: balance_snapshot where
  "zero_balance = \<lparr>bl_program_key = [], bl_subject_id = [], bl_account_key = [], bl_balance = 0, bl_updated_at = zero_time\<rparr>"

definition get_balance :: "string \<Rightarrow> string \<Rightarrow> string \<Rightarrow> eng_repo \<Rightarrow> balance_snapshot option" where
  "get_balance program_key subject_id account_key r = map_of (eg_balances r) (balance_key program_key subject_id account_key)"

definition list_balances :: "string \<Rightarrow> string \<Rightarrow> eng_repo \<Rightarrow> balance_snapshot list" where
  "list_balances program_key subject_id r =
     sort_slice bl_account_key (filter (\<lambda>b. wanted program_key (bl_program_key b) \<and> wanted subject_id (bl_subject_id b))
       (map snd (eg_balances r)))"

definition save_qualification :: "qualification \<Rightarrow> eng_repo \<Rightarrow> eng_repo" where
  "save_qualification q r = r\<lparr>eg_qualifications := mput (qualification_key (ql_program_key q) (ql_subject_id q)) q (eg_qualifications r)\<rparr>"

definition get_qualification :: "string \<Rightarrow> string \<Rightarrow> eng_repo \<Rightarrow> qualification option" where
  "get_qualification program_key subject_id r = map_of (eg_qualifications r) (qualification_key program_key subject_id)"

definition save_achievement :: "achievement \<Rightarrow> eng_repo \<Rightarrow> eng_repo" where
  "save_achievement g r =
     r\<lparr>eg_achievements := mput (achievement_key (ag_program_key g) (ag_subject_id g) (ag_achievement_key g)) g (eg_achievements r)\<rparr>"

definition list_achievements :: "string \<Rightarrow> string \<Rightarrow> eng_repo \<Rightarrow> achievement list" where
  "list_achievements program_key subject_id r =
     sort_slice ag_granted_at (filter (\<lambda>g. wanted program_key (ag_program_key g) \<and> wanted subject_id (ag_subject_id g))
       (map snd (eg_achievements r)))"

definition has_achievement :: "string \<Rightarrow> string \<Rightarrow> string \<Rightarrow> eng_repo \<Rightarrow> bool" where
  "has_achievement program_key subject_id key r \<longleftrightarrow>
     map_of (eg_achievements r) (achievement_key program_key subject_id key) \<noteq> None"

text \<open>\<open>MarkProcessed\<close>: true, and remembered, the first time.\<close>

definition mark_processed :: "string \<Rightarrow> eng_repo \<Rightarrow> bool \<times> eng_repo" where
  "mark_processed key r =
     (if key \<in> set (eg_processed r) then (False, r) else (True, r\<lparr>eg_processed := key # eg_processed r\<rparr>))"

definition reset_consumer :: "consumer_state \<Rightarrow> consumer_state" where
  "reset_consumer c = c\<lparr>cn_processed := 0, cn_last_event_id := [], cn_last_event_at := cn_updated_at c, cn_last_error := [], cn_status := ''idle''\<rparr>"

definition clear_program_state :: "string \<Rightarrow> eng_repo \<Rightarrow> eng_repo" where
  "clear_program_state program_key r =
     r\<lparr>eg_journal := filter (\<lambda>e. je_program_key e \<noteq> program_key) (eg_journal r),
       eg_balances := filter (\<lambda>(k, b). bl_program_key b \<noteq> program_key) (eg_balances r),
       eg_qualifications := filter (\<lambda>(k, q). ql_program_key q \<noteq> program_key) (eg_qualifications r),
       eg_achievements := filter (\<lambda>(k, g). ag_program_key g \<noteq> program_key) (eg_achievements r),
       eg_processed := filter (\<lambda>k. \<not> prefix (trim_space program_key @ ''|'') k) (eg_processed r),
       eg_consumers := map (\<lambda>(k, c). (k, if cn_program_key c = program_key then reset_consumer c else c)) (eg_consumers r)\<rparr>"

definition save_consumer :: "consumer_state \<Rightarrow> eng_repo \<Rightarrow> eng_repo" where
  "save_consumer c r = r\<lparr>eg_consumers := mput (cn_id c) c (eg_consumers r)\<rparr>"

definition get_consumer :: "string \<Rightarrow> eng_repo \<Rightarrow> consumer_state option" where
  "get_consumer ident r = map_of (eg_consumers r) (trim_space ident)"

definition list_consumers :: "eng_repo \<Rightarrow> consumer_state list" where
  "list_consumers r = sort_slice cn_id (map snd (eg_consumers r))"

definition save_replay_run :: "replay_run \<Rightarrow> eng_repo \<Rightarrow> eng_repo" where
  "save_replay_run x r = r\<lparr>eg_replays := mput (rn_id x) x (eg_replays r)\<rparr>"

definition get_replay_run :: "string \<Rightarrow> eng_repo \<Rightarrow> replay_run option" where
  "get_replay_run ident r = map_of (eg_replays r) (trim_space ident)"

definition list_replay_runs :: "eng_repo \<Rightarrow> replay_run list" where
  "list_replay_runs r = sort_slice (\<lambda>x. - rn_started_at x) (map snd (eg_replays r))"


section \<open>Validation\<close>

definition issue_of :: "string \<Rightarrow> string \<Rightarrow> string \<Rightarrow> version_issue" where
  "issue_of code path message = \<lparr>ei_code = code, ei_path = path, ei_message = message\<rparr>"

definition action_issues :: "string \<Rightarrow> eng_rule \<Rightarrow> version_issue list" where
  "action_issues path rule =
     (let action = trim_space (gr_action rule);
          threshold = (\<lambda>message. if gr_threshold rule \<le> 0 then [issue_of ''threshold_required'' (path @ ''.threshold'') message] else [])
      in if action = ''credit_points'' then
           (if gr_fixed_amount rule = 0 \<and> trim_space (gr_amount_field rule) = []
            then [issue_of ''amount_required'' path ''credit_points rules require fixed_amount or amount_field''] else [])
         else if action = ''grant_achievement'' then
           (if trim_space (gr_achievement_key rule) = []
            then [issue_of ''achievement_key_required'' (path @ ''.achievement_key'') ''grant_achievement rules require achievement_key''] else [])
           @ threshold ''grant_achievement rules require a positive threshold''
         else if action = ''set_tier'' then
           (if trim_space (gr_tier_key rule) = [] then [issue_of ''tier_key_required'' (path @ ''.tier_key'') ''set_tier rules require tier_key''] else [])
           @ threshold ''set_tier rules require a positive threshold''
         else [issue_of ''rule_action_invalid'' (path @ ''.action'') ''rule action is invalid''])"

text \<open>The issues of rule \<open>i\<close>; \<open>seen\<close> are the keys of the rules before it.\<close>

definition rule_issues :: "nat \<Rightarrow> string list \<Rightarrow> eng_rule \<Rightarrow> version_issue list" where
  "rule_issues i seen rule =
     (let path = ''rules['' @ show_nat i @ '']'' in
      (if trim_space (gr_key rule) = [] then [issue_of ''rule_key_required'' (path @ ''.key'') ''rule key is required'']
       else if gr_key rule \<in> set seen then [issue_of ''rule_key_duplicate'' (path @ ''.key'') ''rule key must be unique'']
       else [])
      @ (if gr_source_event_types rule = []
         then [issue_of ''rule_events_required'' (path @ ''.source_event_types'') ''source_event_types is required''] else [])
      @ action_issues path rule
      @ (if trim_space (gr_subject_source rule) = []
         then [issue_of ''subject_source_required'' (path @ ''.subject_source'') ''subject_source is required''] else []))"

fun rules_issues :: "nat \<Rightarrow> string list \<Rightarrow> eng_rule list \<Rightarrow> version_issue list" where
  "rules_issues i seen [] = []"
| "rules_issues i seen (rule # rules) = rule_issues i seen rule @ rules_issues (Suc i) (gr_key rule # seen) rules"

definition validate_version :: "eng_version \<Rightarrow> version_issue list" where
  "validate_version v =
     (if trim_space (gv_program_key v) = [] then [issue_of ''program_required'' ''program_key'' ''program_key is required''] else [])
     @ (if gv_rules v = [] then [issue_of ''rules_required'' ''rules'' ''at least one rule is required''] else [])
     @ rules_issues 0 [] (gv_rules v)"

section \<open>Events, subjects, amounts\<close>

record eng_env =
  ee_float_text :: "64 word \<Rightarrow> string"
  ee_time_text :: "gotime \<Rightarrow> string"
  ee_now :: gotime
  ee_fresh :: "string \<Rightarrow> string"

definition event_types_for_rules :: "eng_rule list \<Rightarrow> string list" where
  "event_types_for_rules rules =
     sort_slice (\<lambda>s. s) (fold (\<lambda>t items. let t = trim_space t in if t = [] \<or> t \<in> set items then items else items @ [t])
       (concat (map gr_source_event_types rules)) [])"

definition contains_type :: "string list \<Rightarrow> string \<Rightarrow> bool" where
  "contains_type items candidate \<longleftrightarrow> (\<exists>x \<in> set items. equal_fold (trim_space x) (trim_space candidate))"

fun walk_payload :: "string list \<Rightarrow> gval \<Rightarrow> gval" where
  "walk_payload [] v = v"
| "walk_payload (part # parts) v =
     (if part = [] then walk_payload parts v
      else case as_obj v of None \<Rightarrow> GNull | Some m \<Rightarrow> walk_payload parts (mget GNull m part))"

definition resolve_payload_path :: "gobj \<Rightarrow> string \<Rightarrow> gval" where
  "resolve_payload_path payload path = walk_payload (split_char (CHR ''.'') (trim_space path)) (GObj payload)"

definition text_of_value :: "eng_env \<Rightarrow> gval \<Rightarrow> string" where
  "text_of_value env v = (case v of GStr s \<Rightarrow> s | _ \<Rightarrow> sprint (ee_float_text env) (ee_time_text env) v)"

definition resolve_subject_id :: "eng_env \<Rightarrow> string \<Rightarrow> event \<Rightarrow> string" where
  "resolve_subject_id env source e =
     (let source = trim_space source in
      if source = ''actor_id'' then trim_space (ev_actor_id e)
      else if source = ''aggregate_id'' then trim_space (ev_aggregate_id e)
      else if source = ''organization_id'' then trim_space (ev_organization_id e)
      else if source = ''location_id'' then trim_space (ev_location_id e)
      else if prefix ''payload.'' source
        then trim_space (text_of_value env (resolve_payload_path (ev_payload e) (trim_prefix ''payload.'' source)))
      else [])"

definition resolve_amount :: "eng_rule \<Rightarrow> event \<Rightarrow> int" where
  "resolve_amount rule e =
     (if gr_fixed_amount rule \<noteq> 0 then gr_fixed_amount rule
      else case resolve_payload_path (ev_payload e) (gr_amount_field rule) of
          GInt i \<Rightarrow> i | GFloat w \<Rightarrow> float_trunc w | GStr s \<Rightarrow> atoi_value (trim_space s) | _ \<Rightarrow> 0)"

definition account_of :: "eng_rule \<Rightarrow> string" where
  "account_of rule = first_non_empty [trim_space (gr_account_key rule), ''default'']"

section \<open>Applying the rules of a version to an event\<close>

definition zero_consumer :: consumer_state where
  "zero_consumer = \<lparr>cn_id = [], cn_program_key = [], cn_version = 0, cn_event_types = [], cn_processed = 0, cn_last_event_id = [],
     cn_last_event_at = zero_time, cn_last_error = [], cn_status = [], cn_updated_at = zero_time\<rparr>"

definition upsert_consumer ::
    "eng_env \<Rightarrow> eng_version \<Rightarrow> string \<Rightarrow> string \<Rightarrow> string \<Rightarrow> gotime \<Rightarrow> int \<Rightarrow> eng_repo \<Rightarrow> eng_repo" where
  "upsert_consumer env v status last_event_id last_error last_event_at processed r =
     (let ident = gv_program_key v @ '':v'' @ show_int (gv_version v);
          c = (case get_consumer ident r of None \<Rightarrow> zero_consumer | Some c \<Rightarrow> c)
      in save_consumer
           \<lparr>cn_id = ident, cn_program_key = gv_program_key v, cn_version = gv_version v, cn_event_types = event_types_for_rules (gv_rules v),
            cn_processed = wrap64 (cn_processed c + processed),
            cn_last_event_id = (if trim_space last_event_id \<noteq> [] then trim_space last_event_id else cn_last_event_id c),
            cn_last_event_at = (if is_zero_time last_event_at then cn_last_event_at c else last_event_at),
            cn_last_error = trim_space last_error, cn_status = first_non_empty [trim_space status, cn_status c, ''idle''],
            cn_updated_at = ee_now env\<rparr> r)"

definition credit_points ::
    "eng_env \<Rightarrow> string \<Rightarrow> eng_version \<Rightarrow> eng_rule \<Rightarrow> string \<Rightarrow> string \<Rightarrow> event \<Rightarrow> int \<Rightarrow> eng_repo \<Rightarrow> eng_repo" where
  "credit_points env key v rule subject_id account_key e amount r =
     (let b = (case get_balance (gv_program_key v) subject_id account_key r of None \<Rightarrow> zero_balance | Some b \<Rightarrow> b);
          r = save_balance \<lparr>bl_program_key = gv_program_key v, bl_subject_id = subject_id, bl_account_key = account_key,
            bl_balance = wrap64 (bl_balance b + amount), bl_updated_at = ee_now env\<rparr> r
      in save_journal_entry
           \<lparr>je_id = child_id ''engagement'' [''journal''] (ee_fresh env key), je_program_key = gv_program_key v, je_version = gv_version v,
            je_subject_id = subject_id, je_account_key = account_key, je_entry_type = ''credit'', je_amount = amount, je_rule_key = gr_key rule,
            je_event_id = ev_id e, je_event_type = ev_type e, je_correlation_id = ev_correlation_id e, je_occurred_at = ev_occurred_at e,
            je_created_at = ee_now env\<rparr> r)"

definition apply_eng_rule ::
    "eng_env \<Rightarrow> string \<Rightarrow> eng_version \<Rightarrow> eng_rule \<Rightarrow> string \<Rightarrow> string \<Rightarrow> event \<Rightarrow> eng_repo \<Rightarrow> goerr option \<times> eng_repo" where
  "apply_eng_rule env key v rule subject_id account_key e r =
     (let balance = (case get_balance (gv_program_key v) subject_id account_key r of None \<Rightarrow> 0 | Some b \<Rightarrow> bl_balance b) in
      if gr_action rule = ''credit_points'' then
        let amount = resolve_amount rule e
        in if amount = 0 then (None, r) else (None, credit_points env key v rule subject_id account_key e amount r)
      else if gr_action rule = ''grant_achievement'' then
        (if balance < gr_threshold rule \<or> has_achievement (gv_program_key v) subject_id (gr_achievement_key rule) r then (None, r)
         else (None, save_achievement
           \<lparr>ag_id = child_id ''engagement'' [''achievement''] (ee_fresh env key), ag_program_key = gv_program_key v, ag_subject_id = subject_id,
            ag_achievement_key = gr_achievement_key rule, ag_rule_key = gr_key rule, ag_event_id = ev_id e, ag_granted_at = ee_now env\<rparr> r))
      else if gr_action rule = ''set_tier'' then
        (if balance < gr_threshold rule then (None, r)
         else (None, save_qualification
           \<lparr>ql_program_key = gv_program_key v, ql_subject_id = subject_id, ql_tier_key = gr_tier_key rule, ql_score = balance,
            ql_updated_at = ee_now env\<rparr> r))
      else (Some (Validation ''engagement rule action is invalid''), r))"

definition idempotency_key :: "eng_version \<Rightarrow> eng_rule \<Rightarrow> event \<Rightarrow> string \<Rightarrow> string \<Rightarrow> string" where
  "idempotency_key v rule e subject_id account_key =
     gv_program_key v @ ''|v'' @ show_int (gv_version v) @ ''|'' @ gr_key rule @ ''|'' @ ev_id e @ ''|'' @ subject_id @ ''|'' @ account_key"

text \<open>One rule of the loop in \<open>processVersionEvent\<close>.\<close>

definition process_rule :: "eng_env \<Rightarrow> eng_version \<Rightarrow> event \<Rightarrow> eng_rule \<Rightarrow> eng_repo \<Rightarrow> goerr option \<times> eng_repo" where
  "process_rule env v e rule r =
     (if \<not> contains_type (gr_source_event_types rule) (ev_type e) then (None, r)
      else
        let subject_id = resolve_subject_id env (gr_subject_source rule) e in
        if subject_id = [] then (None, r)
        else
          let account_key = account_of rule;
              key = idempotency_key v rule e subject_id account_key;
              (fresh, r) = mark_processed key r
          in if \<not> fresh then (None, r)
             else (case apply_eng_rule env key v rule subject_id account_key e r of
                 (Some err, r) \<Rightarrow> (Some err, upsert_consumer env v ''failed'' (ev_id e) (err_text err) (ev_occurred_at e) 0 r)
               | (None, r) \<Rightarrow> (None, upsert_consumer env v ''active'' (ev_id e) [] (ev_occurred_at e) 1 r)))"

definition process_version_event :: "eng_env \<Rightarrow> eng_version \<Rightarrow> event \<Rightarrow> eng_repo \<Rightarrow> goerr option \<times> eng_repo" where
  "process_version_event env v e r =
     (case run_each (process_rule env v e) (gv_rules v) r of
        (Some err, r) \<Rightarrow> (Some err, r)
      | (None, r) \<Rightarrow>
          (None, if \<exists>rule \<in> set (gv_rules v). contains_type (gr_source_event_types rule) (ev_type e)
                 then upsert_consumer env v ''active'' (ev_id e) [] (ev_occurred_at e) 0 r else r))"

definition published_versions :: "eng_repo \<Rightarrow> eng_version list" where
  "published_versions r =
     sort_slice (\<lambda>v. (gv_program_key v, gv_version v))
       (List.map_filter (\<lambda>p. if \<not> equal_fold (trim_space (gm_status p)) ''active'' \<or> gm_published_version p = 0 then None
          else get_eng_version (gm_key p) (gm_published_version p) r) (list_programs r))"

definition process_event :: "eng_env \<Rightarrow> event \<Rightarrow> eng_repo \<Rightarrow> goerr option \<times> eng_repo" where
  "process_event env e r = run_each (\<lambda>v. process_version_event env v e) (published_versions r) r"


section \<open>Programs and their versions\<close>

text \<open>The service: its repository, and the event types it has a handler for.\<close>

record eng_service =
  eu_repo :: eng_repo
  eu_handlers :: "string list"

definition create_program :: "gotime \<Rightarrow> string \<Rightarrow> string \<Rightarrow> string \<Rightarrow> string \<Rightarrow> eng_repo \<Rightarrow> eng_program result \<times> eng_repo" where
  "create_program now key name subject_type actor_id r =
     (let key = trim_space key in
      if key = [] then (Inl (Validation ''program key is required''), r)
      else if get_program key r \<noteq> None then (Inl (Conflict ''engagement program already exists''), r)
      else
        let p = \<lparr>gm_key = key, gm_name = first_non_empty [trim_space name, key],
              gm_subject_type = first_non_empty [trim_space subject_type, ''generic''], gm_status = ''active'', gm_published_version = 0,
              gm_created_at = now, gm_updated_at = now, gm_updated_by = actor_id\<rparr>
        in (Inr p, save_program p r))"

definition update_program ::
    "gotime \<Rightarrow> string \<Rightarrow> string \<Rightarrow> string \<Rightarrow> string \<Rightarrow> string \<Rightarrow> eng_repo \<Rightarrow> eng_program result \<times> eng_repo" where
  "update_program now key name subject_type status actor_id r =
     (case get_program (trim_space key) r of
        None \<Rightarrow> (Inl (NotFound ''engagement program not found''), r)
      | Some p \<Rightarrow>
          let p = (if trim_space name \<noteq> [] then p\<lparr>gm_name := trim_space name\<rparr> else p);
              p = (if trim_space subject_type \<noteq> [] then p\<lparr>gm_subject_type := trim_space subject_type\<rparr> else p);
              p = (if trim_space status \<noteq> [] then p\<lparr>gm_status := trim_space status\<rparr> else p);
              p = p\<lparr>gm_updated_at := now, gm_updated_by := actor_id\<rparr>
          in (Inr p, save_program p r))"

definition create_draft_version :: "gotime \<Rightarrow> string \<Rightarrow> string \<Rightarrow> eng_repo \<Rightarrow> eng_version result \<times> eng_repo" where
  "create_draft_version now program_key change_note r =
     (case get_program (trim_space program_key) r of
        None \<Rightarrow> (Inl (NotFound ''engagement program not found''), r)
      | Some p \<Rightarrow>
          let (version, rules) = fold (\<lambda>v (version, rules).
                (if version \<le> gv_version v then wrap64 (gv_version v + 1) else version,
                 if gv_status v \<in> {''published'', ''draft''} then gv_rules v else rules))
                (list_eng_versions (gm_key p) r) (1, []);
              v = \<lparr>gv_program_key = gm_key p, gv_version = version, gv_status = ''draft'', gv_change_note = trim_space change_note,
                gv_rules = rules, gv_created_at = now, gv_updated_at = now, gv_published_at = zero_time, gv_published_by = [],
                gv_last_error = [], gv_last_replay_id = []\<rparr>
          in (Inr v, save_eng_version v r))"

definition get_version :: "string \<Rightarrow> int \<Rightarrow> eng_repo \<Rightarrow> eng_version option" where
  "get_version program_key version r =
     (if 0 < version then get_eng_version (trim_space program_key) version r
      else case list_eng_versions (trim_space program_key) r of [] \<Rightarrow> None | vs \<Rightarrow> Some (last vs))"

definition zero_program :: eng_program where
  "zero_program = \<lparr>gm_key = [], gm_name = [], gm_subject_type = [], gm_status = [], gm_published_version = 0, gm_created_at = zero_time,
     gm_updated_at = zero_time, gm_updated_by = []\<rparr>"

text \<open>\<open>program, _ := GetProgram(key)\<close>.\<close>

definition program_or_zero :: "string \<Rightarrow> eng_repo \<Rightarrow> eng_program" where
  "program_or_zero key r = (case get_program key r of None \<Rightarrow> zero_program | Some p \<Rightarrow> p)"

definition save_version ::
    "gotime \<Rightarrow> string \<Rightarrow> int \<Rightarrow> eng_rule list \<Rightarrow> string \<Rightarrow> string \<Rightarrow> eng_repo \<Rightarrow> eng_version result \<times> eng_repo" where
  "save_version now program_key version rules actor_id change_note r =
     (case get_eng_version (trim_space program_key) version r of
        None \<Rightarrow> (Inl (NotFound ''engagement program version not found''), r)
      | Some v \<Rightarrow>
          if gv_status v \<noteq> ''draft'' then (Inl (Validation ''only draft versions can be updated''), r)
          else
            let v = v\<lparr>gv_rules := rules, gv_change_note := first_non_empty [trim_space change_note, gv_change_note v], gv_updated_at := now\<rparr>;
                v = v\<lparr>gv_last_error := (case validate_version v of [] \<Rightarrow> [] | i # _ \<Rightarrow> ei_message i)\<rparr>;
                r = save_eng_version v r;
                p = program_or_zero (gv_program_key v) r
            in (Inr v, save_program (p\<lparr>gm_updated_at := now, gm_updated_by := actor_id\<rparr>) r))"

definition ensure_handlers :: "string list \<Rightarrow> string list \<Rightarrow> string list" where
  "ensure_handlers event_types handlers =
     fold (\<lambda>t hs. let t = trim_space t in if t = [] \<or> t \<in> set hs then hs else hs @ [t]) event_types handlers"

text \<open>The other published versions of the program go to the archive.\<close>

definition archive_others :: "gotime \<Rightarrow> eng_version \<Rightarrow> eng_repo \<Rightarrow> eng_repo" where
  "archive_others now v r =
     fold (\<lambda>x r. if gv_status x \<noteq> ''published'' \<or> gv_version x = gv_version v then r
         else save_eng_version (x\<lparr>gv_status := ''archived'', gv_updated_at := now\<rparr>) r)
       (list_eng_versions (gv_program_key v) r) r"

definition publish_eng_version ::
    "eng_env \<Rightarrow> string \<Rightarrow> int \<Rightarrow> string \<Rightarrow> eng_service \<Rightarrow> eng_version result \<times> eng_service" where
  "publish_eng_version env program_key version actor_id s =
     (case get_eng_version (trim_space program_key) version (eu_repo s) of
        None \<Rightarrow> (Inl (NotFound ''engagement program version not found''), s)
      | Some v \<Rightarrow>
          if validate_version v \<noteq> [] then (Inl (Validation ''engagement program version is invalid''), s)
          else
            let now = ee_now env;
                r = archive_others now v (eu_repo s);
                v = v\<lparr>gv_status := ''published'', gv_published_at := now, gv_published_by := actor_id, gv_updated_at := now, gv_last_error := []\<rparr>;
                r = save_eng_version v r;
                p = program_or_zero (gv_program_key v) r;
                r = save_program (p\<lparr>gm_published_version := gv_version v, gm_updated_at := now, gm_updated_by := actor_id\<rparr>) r;
                r = upsert_consumer env v ''idle'' [] [] zero_time 0 r
            in (Inr v, s\<lparr>eu_repo := r, eu_handlers := ensure_handlers (event_types_for_rules (gv_rules v)) (eu_handlers s)\<rparr>))"

definition ensure_published_handlers :: "eng_service \<Rightarrow> eng_service" where
  "ensure_published_handlers s =
     s\<lparr>eu_handlers := fold (\<lambda>v. ensure_handlers (event_types_for_rules (gv_rules v))) (published_versions (eu_repo s)) (eu_handlers s)\<rparr>"

section \<open>What a subject has\<close>

record subject_view =
  sj_program_key :: string
  sj_subject_id :: string
  sj_balances :: "balance_snapshot list"
  sj_achievements :: "achievement list"
  sj_recent_journal :: "journal_entry list"
  sj_qualification :: "qualification option"

definition balance_of :: "string \<Rightarrow> string \<Rightarrow> string \<Rightarrow> eng_repo \<Rightarrow> balance_snapshot option" where
  "balance_of program_key subject_id account_key r =
     get_balance (trim_space program_key) (trim_space subject_id) (first_non_empty [trim_space account_key, ''default'']) r"

definition get_subject :: "string \<Rightarrow> string \<Rightarrow> eng_repo \<Rightarrow> subject_view" where
  "get_subject program_key subject_id r =
     (let p = trim_space program_key; u = trim_space subject_id
      in \<lparr>sj_program_key = p, sj_subject_id = u, sj_balances = list_balances p u r, sj_achievements = list_achievements p u r,
          sj_recent_journal = list_journal p u [] r, sj_qualification = get_qualification p u r\<rparr>)"

section \<open>Replay\<close>

definition resolve_version :: "string \<Rightarrow> int \<Rightarrow> eng_repo \<Rightarrow> eng_version option" where
  "resolve_version program_key version r =
     (if 0 < version then get_eng_version (trim_space program_key) version r
      else case get_program (trim_space program_key) r of
          None \<Rightarrow> None
        | Some p \<Rightarrow>
            if 0 < gm_published_version p then get_eng_version (gm_key p) (gm_published_version p) r
            else (case list_eng_versions (gm_key p) r of [] \<Rightarrow> None | vs \<Rightarrow> Some (last vs)))"

definition matching_events :: "eng_version \<Rightarrow> event list \<Rightarrow> event list" where
  "matching_events v events = sort_slice ev_occurred_at (filter (\<lambda>e. contains_type (event_types_for_rules (gv_rules v)) (ev_type e)) events)"

definition replay_plan_of :: "string \<Rightarrow> int \<Rightarrow> event_repo \<Rightarrow> eng_repo \<Rightarrow> replay_plan result" where
  "replay_plan_of program_key version log r =
     (case resolve_version program_key version r of
        None \<Rightarrow> Inl (NotFound ''engagement program version not found'')
      | Some v \<Rightarrow>
     (case get_program (gv_program_key v) r of
        None \<Rightarrow> Inl (NotFound ''engagement program not found'')
      | Some p \<Rightarrow>
          if gm_published_version p \<noteq> gv_version v
          then Inl (Validation ''engagement replay is only allowed for the currently published version'')
          else Inr \<lparr>rpn_program = gv_program_key v, rpn_version = gv_version v,
                 rpn_matching_events = int (length (matching_events v (list_events log))), rpn_issues = validate_version v\<rparr>))"

definition start_replay ::
    "string \<Rightarrow> string \<Rightarrow> gotime \<Rightarrow> string \<Rightarrow> int \<Rightarrow> string \<Rightarrow> event_repo \<Rightarrow> eng_repo \<times> job_repo \<Rightarrow> (replay_run \<times> job) result \<times> eng_repo \<times> job_repo" where
  "start_replay ulid job_ulid now program_key version actor_id log s =
     (let (r, jobs) = s in
      case replay_plan_of program_key version log r of
        Inl err \<Rightarrow> (Inl err, s)
      | Inr plan \<Rightarrow>
          if rpn_issues plan \<noteq> [] then (Inl (Validation ''engagement replay validation failed''), s)
          else
            let run = \<lparr>rn_id = child_id ''engagement'' [''replay''] ulid, rn_program_key = rpn_program plan, rn_version = rpn_version plan,
                  rn_status = ''queued'', rn_matching_events = rpn_matching_events plan, rn_processed = 0, rn_error = [], rn_started_at = now,
                  rn_completed_at = zero_time, rn_created_by = actor_id, rn_issues = rpn_issues plan, rn_job_id = []\<rparr>;
                r = save_replay_run run r;
                (j, jobs) = enqueue_unique job_ulid now ''engagement.replay_program'' [(''replay_run_id'', GStr (rn_id run))]
                  (''engagement.replay_program:'' @ rn_id run) jobs;
                run = run\<lparr>rn_job_id := job_id j\<rparr>
            in (Inr (run, j), save_replay_run run r, jobs))"

definition failed_run :: "gotime \<Rightarrow> string \<Rightarrow> replay_run \<Rightarrow> replay_run" where
  "failed_run now message run = run\<lparr>rn_status := ''failed'', rn_error := message, rn_completed_at := now\<rparr>"

text \<open>The loop over the events, with the number of those processed.\<close>

fun replay_events :: "eng_env \<Rightarrow> eng_version \<Rightarrow> event list \<Rightarrow> int \<Rightarrow> eng_repo \<Rightarrow> goerr option \<times> int \<times> eng_repo" where
  "replay_events env v [] n r = (None, n, r)"
| "replay_events env v (e # es) n r =
     (case process_version_event env v e r of
        (Some err, r) \<Rightarrow> (Some err, n, r)
      | (None, r) \<Rightarrow> replay_events env v es (wrap64 (n + 1)) r)"

definition execute_replay :: "eng_env \<Rightarrow> string \<Rightarrow> event_repo \<Rightarrow> eng_repo \<Rightarrow> gobj result \<times> eng_repo" where
  "execute_replay env run_id log r =
     (case get_replay_run (trim_space run_id) r of
        None \<Rightarrow> (Inl (NotFound ''engagement replay run not found''), r)
      | Some run \<Rightarrow>
          let run = run\<lparr>rn_status := ''running''\<rparr>;
              r = save_replay_run run r;
              fail = (\<lambda>err message r. (Inl (err message), save_replay_run (failed_run (ee_now env) message run) r))
          in (case resolve_version (rn_program_key run) (rn_version run) r of
                None \<Rightarrow> fail NotFound ''engagement program version not found'' r
              | Some v \<Rightarrow>
             (case get_program (rn_program_key run) r of
                None \<Rightarrow> fail NotFound ''engagement program not found'' r
              | Some p \<Rightarrow>
                  if gm_published_version p \<noteq> rn_version run
                  then fail Validation ''engagement replay is only allowed for the currently published version'' r
                  else
                 (case replay_events env v (matching_events v (list_events log)) 0 (clear_program_state (rn_program_key run) r) of
                    (Some err, n, r) \<Rightarrow> (Inl err, save_replay_run ((failed_run (ee_now env) (err_text err) run)\<lparr>rn_processed := n\<rparr>) r)
                  | (None, n, r) \<Rightarrow>
                      let r = save_replay_run (run\<lparr>rn_status := ''succeeded'', rn_processed := n, rn_completed_at := ee_now env\<rparr>) r
                      in (Inr [(''replay_run_id'', GStr (rn_id run)), (''processed'', GInt n)],
                          save_eng_version (v\<lparr>gv_last_replay_id := rn_id run\<rparr>) r)))))"

text \<open>The handler of the replay job.\<close>

definition replay_handler :: "eng_env \<Rightarrow> gobj \<Rightarrow> event_repo \<Rightarrow> eng_repo \<Rightarrow> gobj result \<times> eng_repo" where
  "replay_handler env payload log r =
     (let run_id = trim_space (text_of_value env (mget GNull payload ''replay_run_id''))
      in if run_id = [] then (Inl (Validation ''replay_run_id is required''), r) else execute_replay env run_id log r)"

section \<open>Simulation\<close>

definition simulate_rule :: "eng_env \<Rightarrow> event \<Rightarrow> eng_rule \<Rightarrow> gobj list" where
  "simulate_rule env e rule =
     (if \<not> contains_type (gr_source_event_types rule) (ev_type e) then []
      else let subject_id = resolve_subject_id env (gr_subject_source rule) e in
        if subject_id = [] then []
        else [[(''rule_key'', GStr (gr_key rule)), (''subject_id'', GStr subject_id), (''account_key'', GStr (account_of rule)),
               (''action'', GStr (gr_action rule))]
            @ (if gr_action rule = ''credit_points'' then [(''amount'', GInt (resolve_amount rule e))]
               else if gr_action rule = ''grant_achievement''
                 then [(''achievement_key'', GStr (gr_achievement_key rule)), (''threshold'', GInt (gr_threshold rule))]
               else if gr_action rule = ''set_tier'' then [(''tier_key'', GStr (gr_tier_key rule)), (''threshold'', GInt (gr_threshold rule))]
               else [])])"

definition simulate :: "eng_env \<Rightarrow> string \<Rightarrow> int \<Rightarrow> event \<Rightarrow> eng_repo \<Rightarrow> gobj result" where
  "simulate env program_key version e r =
     (case resolve_version program_key version r of
        None \<Rightarrow> Inl (NotFound ''engagement program version not found'')
      | Some v \<Rightarrow>
          if validate_version v \<noteq> [] then Inl (Validation ''engagement program version is invalid'')
          else Inr [(''program_key'', GStr program_key), (''version'', GInt (gv_version v)), (''event_type'', GStr (ev_type e)),
                 (''outcomes'', GMaps (concat (map (simulate_rule env e) (gv_rules v))))])"

end
