(* ===== verification/EngagementFacts.thy ===== *)
theory EngagementFacts
  imports Engagement
begin

text \<open>
  Engagement programs: balances are the sums of the journal, an event counts once however often it is delivered, a replay makes
  the same ledger from any earlier one, and versions keep to their life. \<open>eng_step\<close> has every operation that changes the
  repository.
\<close>

section \<open>What the operations leave alone\<close>

named_theorems eng_frames

text \<open>Programs, versions and runs, which processing does not touch.\<close>

definition catalogue :: "eng_repo \<Rightarrow> (string, eng_program) gomap \<times> (string, (int, eng_version) gomap) gomap \<times> (string, replay_run) gomap" where
  "catalogue r = (eg_programs r, eg_versions r, eg_replays r)"

text \<open>What a replay rebuilds.\<close>

definition ledger :: "eng_repo \<Rightarrow> journal_entry list \<times> (string, balance_snapshot) gomap \<times> (string, qualification) gomap
    \<times> (string, achievement) gomap \<times> string list" where
  "ledger r = (eg_journal r, eg_balances r, eg_qualifications r, eg_achievements r, eg_processed r)"

lemma ledgerD:
  "ledger r = ledger r' \<Longrightarrow> eg_journal r = eg_journal r' \<and> eg_balances r = eg_balances r' \<and> eg_qualifications r = eg_qualifications r'
     \<and> eg_achievements r = eg_achievements r' \<and> eg_processed r = eg_processed r'"
  by (simp add: ledger_def)

lemma catalogueD:
  "catalogue r = catalogue r' \<Longrightarrow> eg_programs r = eg_programs r' \<and> eg_versions r = eg_versions r' \<and> eg_replays r = eg_replays r'"
  by (simp add: catalogue_def)

lemma ledger_kept [eng_frames]:
  "ledger (save_program p r) = ledger r" "ledger (save_eng_version v r) = ledger r" "ledger (save_replay_run x r) = ledger r"
  "ledger (upsert_consumer env v st i err t n r) = ledger r"
  by (simp_all add: ledger_def save_program_def save_eng_version_def save_replay_run_def upsert_consumer_def save_consumer_def Let_def)

lemma catalogue_kept [eng_frames]:
  "catalogue (upsert_consumer env v st i err t n r) = catalogue r" "catalogue (save_balance b r) = catalogue r"
  "catalogue (save_journal_entry e r) = catalogue r" "catalogue (save_qualification q r) = catalogue r"
  "catalogue (save_achievement g r) = catalogue r" "catalogue (clear_program_state k r) = catalogue r"
  "catalogue (snd (mark_processed k r)) = catalogue r"
  by (simp_all add: catalogue_def upsert_consumer_def save_consumer_def save_balance_def save_journal_entry_def save_qualification_def
    save_achievement_def clear_program_state_def mark_processed_def Let_def)

lemma catalogue_rule [eng_frames]: "catalogue (snd (apply_eng_rule env key v rule u a e r)) = catalogue r"
  by (simp add: apply_eng_rule_def credit_points_def Let_def eng_frames)

section \<open>What one rule writes\<close>

text \<open>Either nothing in the ledger, or one new key is marked and the rule applied under it.\<close>

definition skips :: "eng_env \<Rightarrow> eng_version \<Rightarrow> event \<Rightarrow> eng_rule \<Rightarrow> string list \<Rightarrow> bool" where
  "skips env v e rule processed \<longleftrightarrow> \<not> contains_type (gr_source_event_types rule) (ev_type e) \<or> resolve_subject_id env (gr_subject_source rule) e = []
     \<or> idempotency_key v rule e (resolve_subject_id env (gr_subject_source rule) e) (account_of rule) \<in> set processed"

lemma process_rule_skips: "skips env v e rule (eg_processed r) \<Longrightarrow> process_rule env v e rule r = (None, r)"
  by (auto simp: skips_def process_rule_def mark_processed_def Let_def)

lemma process_rule_applies:
  assumes "\<not> skips env v e rule (eg_processed r)" and "process_rule env v e rule r = (err, r')"
  obtains u k r1 where "u = resolve_subject_id env (gr_subject_source rule) e" "k = idempotency_key v rule e u (account_of rule)"
    "apply_eng_rule env k v rule u (account_of rule) e (r\<lparr>eg_processed := k # eg_processed r\<rparr>) = (err, r1)" "ledger r' = ledger r1"
    "catalogue r' = catalogue r1"
    "contains_type (gr_source_event_types rule) (ev_type e)" "u \<noteq> []" "k \<notin> set (eg_processed r)"
proof -
  define u where "u = resolve_subject_id env (gr_subject_source rule) e"
  define k where "k = idempotency_key v rule e u (account_of rule)"
  obtain err1 r1 where app: "apply_eng_rule env k v rule u (account_of rule) e (r\<lparr>eg_processed := k # eg_processed r\<rparr>) = (err1, r1)" by fastforce
  have new: "contains_type (gr_source_event_types rule) (ev_type e)" "u \<noteq> []" "k \<notin> set (eg_processed r)"
    using assms(1) by (auto simp: skips_def u_def k_def)
  have "(err, r') = (case apply_eng_rule env k v rule u (account_of rule) e (r\<lparr>eg_processed := k # eg_processed r\<rparr>) of
      (Some err, r) \<Rightarrow> (Some err, upsert_consumer env v ''failed'' (ev_id e) (err_text err) (ev_occurred_at e) 0 r)
    | (None, r) \<Rightarrow> (None, upsert_consumer env v ''active'' (ev_id e) [] (ev_occurred_at e) 1 r))"
    using assms(2) new by (simp add: process_rule_def mark_processed_def Let_def flip: u_def k_def)
  then have "err = err1 \<and> ledger r' = ledger r1 \<and> catalogue r' = catalogue r1" by (auto simp: app eng_frames split: option.splits)
  with app new show thesis by (intro that [OF u_def k_def]) simp_all
qed

lemma catalogue_process_rule [eng_frames]: "catalogue (snd (process_rule env v e rule r)) = catalogue r"
proof (cases "skips env v e rule (eg_processed r)")
  case False
  obtain err r' where run: "process_rule env v e rule r = (err, r')" by fastforce
  obtain u k r1 where "apply_eng_rule env k v rule u (account_of rule) e (r\<lparr>eg_processed := k # eg_processed r\<rparr>) = (err, r1)"
    "catalogue r' = catalogue r1"
    by (rule process_rule_applies [OF False run])
  with catalogue_rule [of env k v rule u "account_of rule" e "r\<lparr>eg_processed := k # eg_processed r\<rparr>"] show ?thesis
    by (simp add: run) (simp add: catalogue_def)
qed (simp add: process_rule_skips)

lemma catalogue_process [eng_frames]:
  "catalogue (snd (process_version_event env v e r)) = catalogue r" "catalogue (snd (process_event env e r)) = catalogue r"
proof -
  have *: "catalogue (snd (process_version_event env v e r)) = catalogue r" for v r
  proof -
    have "catalogue (snd (run_each (process_rule env v e) (gv_rules v) r)) = catalogue r" by (rule run_each_frame) (rule eng_frames)
    then show ?thesis by (auto simp: process_version_event_def eng_frames split: prod.splits option.splits)
  qed
  show "catalogue (snd (process_version_event env v e r)) = catalogue r" by (rule *)
  show "catalogue (snd (process_event env e r)) = catalogue r" unfolding process_event_def by (rule run_each_frame) (rule *)
qed

section \<open>An event counts once\<close>

lemma processed_by_rule: "eg_processed (snd (apply_eng_rule env k v rule u a e r)) = eg_processed r"
  by (simp add: apply_eng_rule_def credit_points_def save_balance_def save_journal_entry_def save_achievement_def save_qualification_def Let_def)

lemma processed_after_rule:
  assumes "process_rule env v e rule r = (err, r')"
  shows "set (eg_processed r) \<subseteq> set (eg_processed r')" "skips env v e rule (eg_processed r')"
proof -
  have "set (eg_processed r) \<subseteq> set (eg_processed r') \<and> skips env v e rule (eg_processed r')"
  proof (cases "skips env v e rule (eg_processed r)")
    case True
    then show ?thesis using assms by (simp add: process_rule_skips)
  next
    case False
    obtain u k r1 where u: "u = resolve_subject_id env (gr_subject_source rule) e" and k: "k = idempotency_key v rule e u (account_of rule)"
      and app: "apply_eng_rule env k v rule u (account_of rule) e (r\<lparr>eg_processed := k # eg_processed r\<rparr>) = (err, r1)" "ledger r' = ledger r1"
      by (rule process_rule_applies [OF False assms])
    have "eg_processed r' = k # eg_processed r"
      using ledgerD [OF app(2)] processed_by_rule [of env k v rule u "account_of rule" e "r\<lparr>eg_processed := k # eg_processed r\<rparr>"] app(1) by simp
    then show ?thesis by (auto simp: skips_def u k)
  qed
  then show "set (eg_processed r) \<subseteq> set (eg_processed r')" "skips env v e rule (eg_processed r')" by blast+
qed

lemma skips_mono: "skips env v e rule ps \<Longrightarrow> set ps \<subseteq> set qs \<Longrightarrow> skips env v e rule qs"
  by (auto simp: skips_def)

lemma processed_after_rules:
  "run_each (process_rule env v e) rules r = (None, r') \<Longrightarrow>
     set (eg_processed r) \<subseteq> set (eg_processed r') \<and> (\<forall>rule \<in> set rules. skips env v e rule (eg_processed r'))"
proof (induction rules arbitrary: r)
  case (Cons rule rules)
  obtain err r1 where step: "process_rule env v e rule r = (err, r1)" by fastforce
  with Cons.prems have "run_each (process_rule env v e) rules r1 = (None, r')" "err = None" by (auto split: option.splits)
  from Cons.IH [OF this(1)] processed_after_rule [OF step] show ?case using skips_mono by auto
qed simp

definition all_skip :: "eng_env \<Rightarrow> event \<Rightarrow> string list \<Rightarrow> eng_version \<Rightarrow> bool" where
  "all_skip env e processed v \<longleftrightarrow> (\<forall>rule \<in> set (gv_rules v). skips env v e rule processed)"

lemma processed_after_version:
  assumes "process_version_event env v e r = (None, r')"
  shows "set (eg_processed r) \<subseteq> set (eg_processed r')" "all_skip env e (eg_processed r') v"
proof -
  obtain r1 where run: "run_each (process_rule env v e) (gv_rules v) r = (None, r1)"
    using assms by (auto simp: process_version_event_def split: prod.splits option.splits)
  then have "ledger r' = ledger r1" using assms by (auto simp: process_version_event_def eng_frames split: if_splits)
  then have "eg_processed r' = eg_processed r1" using ledgerD [of r' r1] by blast
  with processed_after_rules [OF run] show "set (eg_processed r) \<subseteq> set (eg_processed r')" "all_skip env e (eg_processed r') v"
    by (simp_all add: all_skip_def)
qed

lemma processed_after_versions:
  "run_each (\<lambda>v. process_version_event env v e) vs r = (None, r') \<Longrightarrow>
     set (eg_processed r) \<subseteq> set (eg_processed r') \<and> (\<forall>v \<in> set vs. all_skip env e (eg_processed r') v)"
proof (induction vs arbitrary: r)
  case (Cons v vs)
  obtain err r1 where step: "process_version_event env v e r = (err, r1)" by fastforce
  with Cons.prems have rest: "run_each (\<lambda>v. process_version_event env v e) vs r1 = (None, r')" and none: "err = None" by (auto split: option.splits)
  have "all_skip env e (eg_processed r1) v \<Longrightarrow> set (eg_processed r1) \<subseteq> set (eg_processed r') \<Longrightarrow> all_skip env e (eg_processed r') v"
    using skips_mono by (auto simp: all_skip_def)
  with Cons.IH [OF rest] processed_after_version [OF step [unfolded none]] show ?case by auto
qed simp

lemma skipped_rules: "\<forall>rule \<in> set rules. skips env v e rule (eg_processed r) \<Longrightarrow> run_each (process_rule env v e) rules r = (None, r)"
  by (induction rules) (simp_all add: process_rule_skips)

lemma skipped_versions:
  "\<forall>v \<in> set vs. all_skip env e (eg_processed r) v \<Longrightarrow>
     \<exists>r'. run_each (\<lambda>v. process_version_event env v e) vs r = (None, r') \<and> ledger r' = ledger r"
proof (induction vs arbitrary: r)
  case (Cons v vs)
  have "run_each (process_rule env v e) (gv_rules v) r = (None, r)" using Cons.prems by (intro skipped_rules) (simp add: all_skip_def)
  then obtain r1 where step: "process_version_event env v e r = (None, r1)" "ledger r1 = ledger r"
    by (auto simp: process_version_event_def eng_frames)
  then have "eg_processed r1 = eg_processed r" using ledgerD [of r1 r] by blast
  then have "\<forall>v \<in> set vs. all_skip env e (eg_processed r1) v" using Cons.prems by simp
  from Cons.IH [OF this] step show ?case by auto
qed simp

lemma published_versions_catalogue: "catalogue r = catalogue r' \<Longrightarrow> published_versions r = published_versions r'"
proof -
  assume "catalogue r = catalogue r'"
  then have eqs: "eg_programs r = eg_programs r'" "eg_versions r = eg_versions r'" by (simp_all add: catalogue_def)
  show ?thesis unfolding published_versions_def list_programs_def get_eng_version_def eqs ..
qed

text \<open>Environments that read subjects alike.\<close>

definition same_texts :: "eng_env \<Rightarrow> eng_env \<Rightarrow> bool" where
  "same_texts env env' \<longleftrightarrow> ee_float_text env = ee_float_text env' \<and> ee_time_text env = ee_time_text env'"

lemma same_subjects: "same_texts env env' \<Longrightarrow> resolve_subject_id env = resolve_subject_id env'"
proof -
  assume same: "same_texts env env'"
  have "text_of_value env = text_of_value env'"
    unfolding text_of_value_def same [unfolded same_texts_def, THEN conjunct1] same [unfolded same_texts_def, THEN conjunct2] ..
  then show ?thesis unfolding resolve_subject_id_def fun_eq_iff by (simp only: simp_thms)
qed

text \<open>Events delivered one after the other, whether they succeed or not.\<close>

definition deliver_events :: "(eng_env \<times> event) list \<Rightarrow> eng_repo \<Rightarrow> eng_repo" where
  "deliver_events ds r = fold (\<lambda>(env, e) r. snd (process_event env e r)) ds r"

lemma processed_grows:
  "set (eg_processed r) \<subseteq> set (eg_processed (snd (process_version_event env v e r)))"
  "set (eg_processed r) \<subseteq> set (eg_processed (snd (process_event env e r)))"
proof -
  have rules: "set (eg_processed r) \<subseteq> set (eg_processed (snd (run_each (process_rule env v e) (gv_rules v) r)))" for v and r :: eng_repo
  proof (rule run_each_inv)
    fix rule and s :: eng_repo assume "set (eg_processed r) \<subseteq> set (eg_processed s)"
    moreover obtain err s' where step: "process_rule env v e rule s = (err, s')" by fastforce
    ultimately show "set (eg_processed r) \<subseteq> set (eg_processed (snd (process_rule env v e rule s)))"
      using processed_after_rule(1) [OF step] by simp
  qed simp
  have version: "set (eg_processed r) \<subseteq> set (eg_processed (snd (process_version_event env v e r)))" for v r
  proof -
    obtain err r1 where run: "run_each (process_rule env v e) (gv_rules v) r = (err, r1)" by fastforce
    then have "ledger (snd (process_version_event env v e r)) = ledger r1"
      by (simp add: process_version_event_def eng_frames split: option.split)
    then have "eg_processed (snd (process_version_event env v e r)) = eg_processed r1" using ledgerD by blast
    with rules [of r v] show ?thesis by (simp add: run)
  qed
  show "set (eg_processed r) \<subseteq> set (eg_processed (snd (process_version_event env v e r)))" by (rule version)
  show "set (eg_processed r) \<subseteq> set (eg_processed (snd (process_event env e r)))"
    unfolding process_event_def by (rule run_each_inv) (use version in blast)+
qed

lemma deliveries_keep:
  "set (eg_processed r) \<subseteq> set (eg_processed (deliver_events ds r)) \<and> catalogue (deliver_events ds r) = catalogue r"
proof (induction ds arbitrary: r)
  case (Cons d ds)
  obtain env e where d: "d = (env, e)" by fastforce
  from Cons.IH [of "snd (process_event env e r)"] show ?case
    using processed_grows(2) [of r env e] catalogue_process(2) [of env e r] by (auto simp: deliver_events_def d)
qed (simp add: deliver_events_def)

text \<open>
  C11: an event counts once. When an event has been processed without an error, then delivering it again, at any later time
  and after any other events, succeeds and leaves journal, balances, tiers and achievements of every program as they are.
\<close>

theorem redelivered_events_change_nothing:
  assumes "process_event env e r = (None, r')" and "same_texts env env'"
  shows "\<exists>r''. process_event env' e (deliver_events ds r') = (None, r'') \<and> ledger r'' = ledger (deliver_events ds r')"
proof -
  let ?r = "deliver_events ds r'"
  have "catalogue ?r = catalogue r" using deliveries_keep [of r' ds] catalogue_process(2) [of env e r] assms(1) by simp
  then have "published_versions ?r = published_versions r" by (rule published_versions_catalogue)
  moreover have "\<forall>v \<in> set (published_versions r). all_skip env e (eg_processed r') v"
    using processed_after_versions assms(1) by (simp add: process_event_def)
  then have "\<forall>v \<in> set (published_versions r). all_skip env e (eg_processed ?r) v"
    using deliveries_keep [of r' ds] skips_mono by (fastforce simp: all_skip_def)
  moreover have "all_skip env = all_skip env'"
    using same_subjects [OF assms(2)] by (simp add: all_skip_def skips_def fun_eq_iff)
  ultimately show ?thesis unfolding process_event_def by (intro skipped_versions) simp
qed

text \<open>A rule that fails has been marked before: delivering the event again skips it.\<close>

lemma failed_rules_are_not_retried:
  assumes "process_rule env v e rule r = (Some err, r')"
  shows "process_rule env v e rule r' = (None, r')"
  by (rule process_rule_skips [OF processed_after_rule(2) [OF assms]])

text \<open>The validation trims the name of an action, its application does not.\<close>

lemma padded_action_passes_validation:
  "let rule = \<lparr>gr_key = ''k'', gr_name = [], gr_source_event_types = [''sale''], gr_subject_source = ''actor_id'', gr_account_key = [],
         gr_action = '' credit_points'', gr_fixed_amount = 5, gr_amount_field = [], gr_threshold = 0, gr_achievement_key = [], gr_tier_key = []\<rparr>
   in rules_issues 0 [] [rule] = [] \<and> fst (apply_eng_rule env key v rule u a e r) = Some (Validation ''engagement rule action is invalid'')"
proof -
  have "trim_space '' credit_points'' = ''credit_points''" "trim_space ''k'' = ''k''" "trim_space ''actor_id'' = ''actor_id''" by code_simp+
  then show ?thesis by (simp add: rule_issues_def action_issues_def apply_eng_rule_def Let_def)
qed

section \<open>A replay forgets the past\<close>

definition clean_key :: "string \<Rightarrow> bool" where
  "clean_key p \<longleftrightarrow> trim_space p = p \<and> CHR ''|'' \<notin> set p"

abbreviation under :: "string \<Rightarrow> string \<Rightarrow> bool" where
  "under p k \<equiv> prefix (p @ ''|'') k"

lemma bar_prefix: "under p (q @ CHR ''|'' # xs) \<Longrightarrow> CHR ''|'' \<notin> set p \<Longrightarrow> CHR ''|'' \<notin> set q \<Longrightarrow> p = q"
proof (induction p arbitrary: q)
  case Nil
  then show ?case by (cases q) auto
next
  case (Cons c p)
  then show ?case by (cases q) auto
qed

lemma keys_under:
  assumes "clean_key p"
  shows "under p (balance_key p u a)" "under p (qualification_key p u)" "under p (achievement_key p u a)"
    "under p (idempotency_key v rule e u a) \<longleftrightarrow> under p (gv_program_key v @ CHR ''|'' # (''v'' @ show_int (gv_version v) @ ''|'' @ gr_key rule @ ''|'' @ ev_id e @ ''|'' @ u @ ''|'' @ a))"
  using assms by (simp_all add: clean_key_def balance_key_def qualification_key_def achievement_key_def idempotency_key_def)

lemma keys_apart:
  assumes "clean_key p" "clean_key q" "p \<noteq> q"
  shows "\<not> under q (balance_key p u a)" "\<not> under q (qualification_key p u)" "\<not> under q (achievement_key p u a)"
    "gv_program_key v = p \<Longrightarrow> \<not> under q (idempotency_key v rule e u a)"
  using assms bar_prefix [of q p] by (auto simp: clean_key_def balance_key_def qualification_key_def achievement_key_def idempotency_key_def)

text \<open>Two repositories with the same ledger for a program.\<close>

definition same_ledger :: "string \<Rightarrow> eng_repo \<Rightarrow> eng_repo \<Rightarrow> bool" where
  "same_ledger p r s \<longleftrightarrow> filter (\<lambda>e. je_program_key e = p) (eg_journal r) = filter (\<lambda>e. je_program_key e = p) (eg_journal s)
     \<and> (\<forall>k. under p k \<longrightarrow> map_of (eg_balances r) k = map_of (eg_balances s) k \<and> map_of (eg_qualifications r) k = map_of (eg_qualifications s) k
         \<and> map_of (eg_achievements r) k = map_of (eg_achievements s) k \<and> (k \<in> set (eg_processed r) \<longleftrightarrow> k \<in> set (eg_processed s)))"

lemma same_ledger_refl [simp]: "same_ledger p r r"
  and same_ledger_sym: "same_ledger p r s \<Longrightarrow> same_ledger p s r"
  and same_ledger_trans: "same_ledger p r s \<Longrightarrow> same_ledger p s t \<Longrightarrow> same_ledger p r t"
  by (simp_all add: same_ledger_def)

lemma same_ledger_of: "ledger r = ledger r' \<Longrightarrow> ledger s = ledger s' \<Longrightarrow> same_ledger p r s = same_ledger p r' s'"
  by (simp add: ledger_def same_ledger_def)

lemma same_ledgerD:
  assumes "same_ledger p r s" "clean_key p"
  shows "get_balance p u a r = get_balance p u a s" "has_achievement p u k r = has_achievement p u k s"
  using assms keys_under [OF assms(2)] by (simp_all add: same_ledger_def get_balance_def has_achievement_def)

lemma same_ledger_writes:
  assumes "same_ledger p r s"
  shows "same_ledger p (save_balance b r) (save_balance b s)" "same_ledger p (save_journal_entry e r) (save_journal_entry e s)"
    "same_ledger p (save_qualification q r) (save_qualification q s)" "same_ledger p (save_achievement g r) (save_achievement g s)"
    "same_ledger p (r\<lparr>eg_processed := k # eg_processed r\<rparr>) (s\<lparr>eg_processed := k # eg_processed s\<rparr>)"
  using assms by (simp_all add: same_ledger_def save_balance_def save_journal_entry_def save_qualification_def save_achievement_def)

lemma same_ledger_rule:
  assumes "same_ledger p r s" "clean_key p" "gv_program_key v = p" "apply_eng_rule env k v rule u a e r = (err, r')"
  obtains s' where "apply_eng_rule env k v rule u a e s = (err, s')" "same_ledger p r' s'"
proof -
  note reads = same_ledgerD [OF assms(1,2)]
  show thesis
    using assms(1,4) that
    by (auto simp: apply_eng_rule_def credit_points_def Let_def assms(3) reads intro!: same_ledger_writes split: if_splits)
qed

lemma same_ledger_process_rule:
  assumes "same_ledger p r s" "clean_key p" "gv_program_key v = p" "process_rule env v e rule r = (err, r')"
  obtains s' where "process_rule env v e rule s = (err, s')" "same_ledger p r' s'"
proof (cases "skips env v e rule (eg_processed r)")
  case True
  let ?k = "idempotency_key v rule e (resolve_subject_id env (gr_subject_source rule) e) (account_of rule)"
  have "under p ?k" by (simp add: keys_under(4) [OF assms(2)] assms(3))
  then have "?k \<in> set (eg_processed r) \<longleftrightarrow> ?k \<in> set (eg_processed s)" using assms(1) by (simp add: same_ledger_def)
  then have "skips env v e rule (eg_processed s)" using True by (simp add: skips_def)
  then show thesis using that assms(1,4) True by (simp add: process_rule_skips)
next
  case False
  obtain u k r1 where u: "u = resolve_subject_id env (gr_subject_source rule) e" and k: "k = idempotency_key v rule e u (account_of rule)"
    and app: "apply_eng_rule env k v rule u (account_of rule) e (r\<lparr>eg_processed := k # eg_processed r\<rparr>) = (err, r1)" "ledger r' = ledger r1"
    and new: "contains_type (gr_source_event_types rule) (ev_type e)" "u \<noteq> []" "k \<notin> set (eg_processed r)"
    by (rule process_rule_applies [OF False assms(4)])
  have "under p k" by (simp add: keys_under(4) [OF assms(2)] assms(3) k)
  then have fresh: "\<not> skips env v e rule (eg_processed s)"
    using assms(1) new by (simp add: same_ledger_def skips_def flip: u k)
  obtain err2 s' where run: "process_rule env v e rule s = (err2, s')" by fastforce
  obtain u2 k2 s1 where u2: "u2 = resolve_subject_id env (gr_subject_source rule) e" and k2: "k2 = idempotency_key v rule e u2 (account_of rule)"
    and app2: "apply_eng_rule env k2 v rule u2 (account_of rule) e (s\<lparr>eg_processed := k2 # eg_processed s\<rparr>) = (err2, s1)" "ledger s' = ledger s1"
    by (rule process_rule_applies [OF fresh run])
  have same: "u2 = u" "k2 = k" by (simp_all add: u u2 k k2)
  obtain s2 where "apply_eng_rule env k v rule u (account_of rule) e (s\<lparr>eg_processed := k # eg_processed s\<rparr>) = (err, s2)" "same_ledger p r1 s2"
    by (rule same_ledger_rule [OF same_ledger_writes(5) [OF assms(1)] assms(2,3) app(1)])
  then have "err2 = err" "same_ledger p r1 s1" using app2(1) same by auto
  then show thesis using that run same_ledger_of [OF app(2) app2(2)] by simp
qed

lemma same_ledger_process:
  assumes "clean_key p" "gv_program_key v = p"
  shows "same_ledger p r s \<Longrightarrow> process_version_event env v e r = (err, r') \<Longrightarrow>
    \<exists>s'. process_version_event env v e s = (err, s') \<and> same_ledger p r' s'"
proof -
  have rules: "same_ledger p r s \<Longrightarrow> run_each (process_rule env v e) rules r = (err, r') \<Longrightarrow>
      \<exists>s'. run_each (process_rule env v e) rules s = (err, s') \<and> same_ledger p r' s'" for rules r s err r'
  proof (induction rules arbitrary: r s)
    case (Cons rule rules)
    obtain err1 r1 where step: "process_rule env v e rule r = (err1, r1)" by fastforce
    obtain s1 where "process_rule env v e rule s = (err1, s1)" "same_ledger p r1 s1"
      by (rule same_ledger_process_rule [OF Cons.prems(1) assms step])
    then show ?case using Cons.prems(2) Cons.IH [of r1 s1] step by (cases err1) auto
  qed auto
  assume same: "same_ledger p r s" and run: "process_version_event env v e r = (err, r')"
  obtain err1 r1 where r1: "run_each (process_rule env v e) (gv_rules v) r = (err1, r1)" by fastforce
  obtain s1 where s1: "run_each (process_rule env v e) (gv_rules v) s = (err1, s1)" "same_ledger p r1 s1" using rules [OF same r1] by blast
  obtain s' where run': "process_version_event env v e s = (err, s')" "ledger s' = ledger s1" "ledger r' = ledger r1"
    using run by (auto simp: process_version_event_def r1 s1(1) eng_frames split: option.splits)
  then show "\<exists>s'. process_version_event env v e s = (err, s') \<and> same_ledger p r' s'"
    using s1(2) same_ledger_of [OF run'(3,2)] by blast
qed

lemma same_ledger_replay:
  assumes "clean_key p" "gv_program_key v = p"
  shows "same_ledger p r s \<Longrightarrow> replay_events env v es n r = (err, m, r') \<Longrightarrow>
    \<exists>s'. replay_events env v es n s = (err, m, s') \<and> same_ledger p r' s'"
proof (induction es arbitrary: n r s)
  case (Cons e es)
  obtain err1 r1 where step: "process_version_event env v e r = (err1, r1)" by fastforce
  from same_ledger_process [OF assms Cons.prems(1) step] obtain s1
    where "process_version_event env v e s = (err1, s1)" "same_ledger p r1 s1" by blast
  then show ?case using Cons.prems(2) Cons.IH [of r1 s1] step by (cases err1) auto
qed auto

text \<open>The ledgers of the other programs stay.\<close>

lemma other_ledger_rule:
  assumes "clean_key p" "clean_key q" "p \<noteq> q" "gv_program_key v = p"
  shows "same_ledger q (snd (apply_eng_rule env k v rule u a e r)) r"
proof -
  have apart: "\<not> under q (balance_key p u a)" "\<not> under q (qualification_key p u)" "\<not> under q (achievement_key p u b)" for u a b
    using keys_apart [OF assms(1-3)] by blast+
  have ne: "k' = balance_key p u a \<Longrightarrow> \<not> under q k'" "k' = qualification_key p u \<Longrightarrow> \<not> under q k'" "k' = achievement_key p u b \<Longrightarrow> \<not> under q k'"
    for k' u a b using apart by auto
  show ?thesis
    using assms(3,4) ne
    by (auto simp: same_ledger_def apply_eng_rule_def credit_points_def Let_def save_balance_def save_journal_entry_def save_qualification_def
      save_achievement_def)
qed

lemma other_ledger_process_rule:
  assumes "clean_key p" "clean_key q" "p \<noteq> q" "gv_program_key v = p"
  shows "same_ledger q (snd (process_rule env v e rule r)) r"
proof (cases "skips env v e rule (eg_processed r)")
  case False
  obtain err r' where run: "process_rule env v e rule r = (err, r')" by fastforce
  obtain u k r1 where k: "k = idempotency_key v rule e u (account_of rule)"
    and app: "apply_eng_rule env k v rule u (account_of rule) e (r\<lparr>eg_processed := k # eg_processed r\<rparr>) = (err, r1)" "ledger r' = ledger r1"
    by (rule process_rule_applies [OF False run])
  have "\<not> under q k" unfolding k by (rule keys_apart(4) [OF assms])
  then have "same_ledger q (r\<lparr>eg_processed := k # eg_processed r\<rparr>) r" by (auto simp: same_ledger_def)
  with other_ledger_rule [OF assms, of env k rule u "account_of rule" e "r\<lparr>eg_processed := k # eg_processed r\<rparr>"]
  have "same_ledger q r1 r" by (simp add: app(1)) (rule same_ledger_trans)
  then show ?thesis using same_ledger_of [OF app(2) refl] by (simp add: run)
qed (simp add: process_rule_skips)

lemma other_ledger_process:
  assumes "clean_key p" "clean_key q" "p \<noteq> q" "gv_program_key v = p"
  shows "same_ledger q (snd (process_version_event env v e r)) r"
proof -
  have "same_ledger q (snd (run_each (process_rule env v e) (gv_rules v) r)) r"
  proof (rule run_each_inv)
    fix rule and s :: eng_repo assume "same_ledger q s r"
    with other_ledger_process_rule [OF assms] same_ledger_trans
    show "same_ledger q (snd (process_rule env v e rule s)) r" by blast
  qed simp
  moreover have "ledger (snd (process_version_event env v e r)) = ledger (snd (run_each (process_rule env v e) (gv_rules v) r))"
    by (simp add: process_version_event_def eng_frames split: prod.split option.split)
  ultimately show ?thesis using same_ledger_of by blast
qed

lemma other_ledger_replay:
  assumes "clean_key p" "clean_key q" "p \<noteq> q" "gv_program_key v = p"
  shows "same_ledger q (snd (snd (replay_events env v es n r))) r"
proof (induction es arbitrary: n r)
  case (Cons e es)
  obtain err1 r1 where step: "process_version_event env v e r = (err1, r1)" by fastforce
  have "same_ledger q r1 r" using other_ledger_process [OF assms, of env e r] by (simp add: step)
  then show ?case using Cons.IH [of "wrap64 (n + 1)" r1] same_ledger_trans by (cases err1) (auto simp: step)
qed simp

section \<open>Clearing\<close>

text \<open>Everything in the ledger is under the key of the program it is labelled with.\<close>

definition labelled :: "('x \<Rightarrow> string) \<Rightarrow> (string, 'x) gomap \<Rightarrow> bool" where
  "labelled program m \<longleftrightarrow> wf_map m \<and> (\<forall>k x. map_of m k = Some x \<longrightarrow> clean_key (program x) \<and> under (program x) k)"

definition ledger_labelled :: "eng_repo \<Rightarrow> bool" where
  "ledger_labelled r \<longleftrightarrow> labelled bl_program_key (eg_balances r) \<and> labelled ql_program_key (eg_qualifications r)
     \<and> labelled ag_program_key (eg_achievements r) \<and> (\<forall>e \<in> set (eg_journal r). clean_key (je_program_key e) \<and> trim_space (je_subject_id e) = je_subject_id e
         \<and> trim_space (je_account_key e) = je_account_key e)"

lemma map_of_filter_values: "wf_map m \<Longrightarrow> map_of (filter (\<lambda>(k, x). P x) m) k = (case map_of m k of Some x \<Rightarrow> if P x then Some x else None | None \<Rightarrow> None)"
  by (induction m) (auto simp: wf_map_def map_of_eq_None_iff split: option.split)

lemma under_unique: "clean_key p \<Longrightarrow> clean_key q \<Longrightarrow> under p k \<Longrightarrow> under q k \<Longrightarrow> p = q"
proof -
  assume keys: "clean_key p" "clean_key q" "under p k" "under q k"
  then obtain zs where k: "k = q @ CHR ''|'' # zs" by (auto simp: prefix_def)
  show "p = q" by (rule bar_prefix [OF keys(3) [unfolded k]]) (use keys(1,2) in \<open>simp_all add: clean_key_def\<close>)
qed

lemma cleared_map:
  assumes "labelled program m" "clean_key p" "under q k" "clean_key q"
  shows "map_of (filter (\<lambda>(k, x). program x \<noteq> p) m) k = (if q = p then None else map_of m k)"
proof -
  have "program x = q" if "map_of m k = Some x" for x
    using assms that under_unique [of "program x" q k] by (auto simp: labelled_def)
  then show ?thesis using map_of_filter_values [of m] assms(1) by (auto simp: labelled_def split: option.split)
qed

lemma cleared_ledger:
  assumes "ledger_labelled r" "clean_key p"
  shows "clean_key q \<Longrightarrow> q \<noteq> p \<Longrightarrow> same_ledger q (clear_program_state p r) r"
    and "ledger_labelled s \<Longrightarrow> same_ledger p (clear_program_state p r) (clear_program_state p s)"
proof -
  have journal: "q \<noteq> p \<Longrightarrow> filter (\<lambda>e. je_program_key e \<noteq> p \<and> je_program_key e = q) js = filter (\<lambda>e. je_program_key e = q) js" for q js
    by (intro filter_cong) auto
  have trim: "trim_space p = p" using assms(2) by (simp add: clean_key_def)
  have maps: "map_of (eg_balances (clear_program_state p r)) k = (if q = p then None else map_of (eg_balances r) k)"
    "map_of (eg_qualifications (clear_program_state p r)) k = (if q = p then None else map_of (eg_qualifications r) k)"
    "map_of (eg_achievements (clear_program_state p r)) k = (if q = p then None else map_of (eg_achievements r) k)"
    if "ledger_labelled r" "clean_key q" "under q k" for q k r
    using that by (simp_all add: ledger_labelled_def clear_program_state_def cleared_map [OF _ assms(2) that(3,2)])
  show "same_ledger q (clear_program_state p r) r" if q: "clean_key q" "q \<noteq> p"
  proof -
    have "\<not> under p k" if "under q k" for k using under_unique [OF q(1) assms(2) that] q(2) by blast
    then show ?thesis using maps [OF assms(1) q(1)] q(2) by (simp add: same_ledger_def) (simp add: clear_program_state_def journal trim)
  qed
  show "same_ledger p (clear_program_state p r) (clear_program_state p s)" if s: "ledger_labelled s"
    using maps [OF assms] maps [OF s assms(2)] by (simp add: same_ledger_def) (simp add: clear_program_state_def journal trim)
qed

section \<open>Balances are the sums of the journal\<close>

definition entry_key :: "journal_entry \<Rightarrow> string" where
  "entry_key e = balance_key (je_program_key e) (je_subject_id e) (je_account_key e)"

definition posted :: "string \<Rightarrow> eng_repo \<Rightarrow> int" where
  "posted k r = sum_list (map je_amount (filter (\<lambda>e. entry_key e = k) (eg_journal r)))"

definition balance_at :: "string \<Rightarrow> eng_repo \<Rightarrow> int" where
  "balance_at k r = (case map_of (eg_balances r) k of None \<Rightarrow> 0 | Some b \<Rightarrow> bl_balance b)"

definition books_ok :: "eng_repo \<Rightarrow> bool" where
  "books_ok r \<longleftrightarrow> ledger_labelled r \<and> (\<forall>k. balance_at k r = wrap64 (posted k r))"

lemma books_ok_ledger: "ledger r = ledger s \<Longrightarrow> books_ok r = books_ok s"
  by (simp add: ledger_def books_ok_def ledger_labelled_def balance_at_def posted_def)

lemma wrap64_add: "wrap64 (wrap64 x + a) = wrap64 (x + a)"
proof -
  have "((x + 2 ^ 63) mod 2 ^ 64 + a) mod 2 ^ 64 = (x + 2 ^ 63 + a) mod (2 ^ 64 :: int)" by (rule mod_add_left_eq)
  moreover have "wrap64 x + a + 2 ^ 63 = (x + 2 ^ 63) mod 2 ^ 64 + a" "x + a + 2 ^ 63 = x + 2 ^ 63 + a" by (simp_all add: wrap64_def)
  ultimately show ?thesis unfolding wrap64_def [of "wrap64 x + a"] wrap64_def [of "x + a"] by presburger
qed

lemma labelled_mput: "labelled f m \<Longrightarrow> clean_key (f x) \<Longrightarrow> under (f x) k \<Longrightarrow> labelled f (mput k x m)"
  by (auto simp: labelled_def)

lemma credited_books:
  assumes "books_ok r" "clean_key (gv_program_key v)" "trim_space u = u" "trim_space a = a"
  shows "books_ok (credit_points env key v rule u a e amount r)"
proof -
  let ?r = "credit_points env key v rule u a e amount r" and ?k = "balance_key (gv_program_key v) u a"
  have "balance_at k ?r = (if k = ?k then wrap64 (balance_at k r + amount) else balance_at k r)" for k
    by (auto simp: balance_at_def credit_points_def save_balance_def save_journal_entry_def get_balance_def zero_balance_def Let_def
      split: option.split)
  moreover have "posted k ?r = posted k r + (if k = ?k then amount else 0)" for k
    by (simp add: posted_def credit_points_def save_balance_def save_journal_entry_def entry_key_def Let_def)
  ultimately have "balance_at k ?r = wrap64 (posted k ?r)" for k using assms(1) by (simp add: books_ok_def wrap64_add)
  moreover have "ledger_labelled ?r"
    using assms keys_under(1) [OF assms(2)]
    by (auto simp: books_ok_def ledger_labelled_def credit_points_def save_balance_def save_journal_entry_def Let_def intro!: labelled_mput)
  ultimately show ?thesis by (simp add: books_ok_def)
qed

lemma applied_books:
  assumes "books_ok r" "clean_key (gv_program_key v)" "trim_space u = u" "trim_space a = a"
  shows "books_ok (snd (apply_eng_rule env key v rule u a e r))"
proof -
  have "books_ok (save_achievement g r)" if "ag_program_key g = gv_program_key v" for g
    using assms keys_under(3) [OF assms(2)] that
    by (auto simp: books_ok_def ledger_labelled_def balance_at_def posted_def save_achievement_def intro!: labelled_mput)
  moreover have "books_ok (save_qualification q r)" if "ql_program_key q = gv_program_key v" for q
    using assms keys_under(2) [OF assms(2)] that
    by (auto simp: books_ok_def ledger_labelled_def balance_at_def posted_def save_qualification_def intro!: labelled_mput)
  ultimately show ?thesis
    using assms(1) credited_books [OF assms] by (simp add: apply_eng_rule_def Let_def)
qed

lemma processed_books:
  assumes "clean_key (gv_program_key v)"
  shows "books_ok r \<Longrightarrow> books_ok (snd (process_rule env v e rule r))"
    and "books_ok r \<Longrightarrow> books_ok (snd (process_version_event env v e r))"
    and "books_ok r \<Longrightarrow> books_ok (snd (snd (replay_events env v es n r)))"
proof -
  show rule: "books_ok (snd (process_rule env v e rule r))" if "books_ok r" for e rule r
  proof (cases "skips env v e rule (eg_processed r)")
    case False
    obtain err r' where run: "process_rule env v e rule r = (err, r')" by fastforce
    obtain u k r1 where u: "u = resolve_subject_id env (gr_subject_source rule) e"
      and app: "apply_eng_rule env k v rule u (account_of rule) e (r\<lparr>eg_processed := k # eg_processed r\<rparr>) = (err, r1)" "ledger r' = ledger r1"
      by (rule process_rule_applies [OF False run])
    have "books_ok (r\<lparr>eg_processed := k # eg_processed r\<rparr>)"
      using that by (simp add: books_ok_def ledger_labelled_def balance_at_def posted_def)
    moreover have "trim_space u = u" by (simp add: u resolve_subject_id_def Let_def)
    moreover have "trim_space (account_of rule) = account_of rule" unfolding account_of_def by (rule first_non_empty_trimmed)
    ultimately have "books_ok (snd (apply_eng_rule env k v rule u (account_of rule) e (r\<lparr>eg_processed := k # eg_processed r\<rparr>)))"
      by (intro applied_books assms)
    then show ?thesis
      using books_ok_ledger [OF app(2)] by (simp add: run app(1))
  qed (use that in \<open>simp add: process_rule_skips\<close>)
  show version: "books_ok (snd (process_version_event env v e r))" if "books_ok r" for e r
  proof -
    have "books_ok (snd (run_each (process_rule env v e) (gv_rules v) r))" by (rule run_each_inv) (use that rule in blast)+
    moreover have "ledger (snd (process_version_event env v e r)) = ledger (snd (run_each (process_rule env v e) (gv_rules v) r))"
      by (simp add: process_version_event_def eng_frames split: prod.split option.split)
    ultimately show ?thesis using books_ok_ledger by blast
  qed
  show "books_ok (snd (snd (replay_events env v es n r)))" if "books_ok r"
    using that
  proof (induction es arbitrary: n r)
    case (Cons e es)
    obtain err1 r1 where step: "process_version_event env v e r = (err1, r1)" by fastforce
    with version [OF Cons.prems, of e] Cons.IH [of r1] show ?case by (cases err1) simp_all
  qed simp
qed

lemma cleared_books: assumes "books_ok r" shows "books_ok (clear_program_state p r)"
proof -
  let ?r = "clear_program_state p r"
  have lab: "labelled bl_program_key (eg_balances r)" "\<forall>e \<in> set (eg_journal r). clean_key (je_program_key e)"
    using assms by (simp_all add: books_ok_def ledger_labelled_def)
  have keep: "labelled f (filter (\<lambda>(k, x). f x \<noteq> p) m)" if "labelled f m" for f :: "'x \<Rightarrow> string" and m
    using that map_of_filter_values [of m "\<lambda>x. f x \<noteq> p"]
    by (auto simp: labelled_def wf_map_def mkeys_def distinct_map_filter split: option.splits if_splits)
  have "ledger_labelled ?r" using assms by (auto simp: books_ok_def ledger_labelled_def clear_program_state_def intro!: keep)
  moreover have "balance_at k ?r = wrap64 (posted k ?r)" for k
  proof (cases "\<exists>q. clean_key q \<and> under q k")
    case True
    then obtain q where q: "clean_key q" "under q k" by blast
    have entries: "je_program_key e = q" if "e \<in> set (eg_journal r)" "entry_key e = k" for e
    proof -
      have "clean_key (je_program_key e)" using lab(2) that(1) by blast
      with keys_under(1) [OF this] show ?thesis using under_unique q that(2) unfolding entry_key_def by metis
    qed
    have labels: "bl_program_key b = q" if "map_of (eg_balances r) k = Some b" for b
      using lab(1) that under_unique q unfolding labelled_def by metis
    have "posted k ?r = (if q = p then 0 else posted k r)"
    proof (cases "q = p")
      case True
      then have "filter (\<lambda>e. je_program_key e \<noteq> p \<and> entry_key e = k) (eg_journal r) = []" using entries by (auto simp: filter_empty_conv)
      then show ?thesis using True by (simp add: posted_def clear_program_state_def)
    next
      case False
      then have "filter (\<lambda>e. je_program_key e \<noteq> p \<and> entry_key e = k) (eg_journal r) = filter (\<lambda>e. entry_key e = k) (eg_journal r)"
        using entries by (intro filter_cong) auto
      then show ?thesis using False by (simp add: posted_def clear_program_state_def)
    qed
    moreover have "balance_at k ?r = (if q = p then 0 else balance_at k r)"
      using labels lab(1) map_of_filter_values [of "eg_balances r" "\<lambda>b. bl_program_key b \<noteq> p" k]
      by (auto simp: balance_at_def clear_program_state_def labelled_def split: option.split)
    ultimately show ?thesis using assms by (simp add: books_ok_def wrap64_def)
  next
    case False
    then have none: "map_of (eg_balances r) k = None" using lab(1) unfolding labelled_def by (metis not_None_eq)
    have "filter (\<lambda>e. entry_key e = k) (eg_journal r) = []"
      using False lab(2) keys_under(1) by (auto simp: filter_empty_conv entry_key_def)
    then have "filter (\<lambda>e. je_program_key e \<noteq> p \<and> entry_key e = k) (eg_journal r) = []" by (auto simp: filter_empty_conv)
    moreover have "map_of (eg_balances ?r) k = None"
      using none lab(1) map_of_filter_values [of "eg_balances r" "\<lambda>b. bl_program_key b \<noteq> p" k]
      by (simp add: clear_program_state_def labelled_def)
    ultimately show ?thesis by (simp add: balance_at_def posted_def clear_program_state_def wrap64_def)
  qed
  ultimately show ?thesis by (simp add: books_ok_def)
qed

section \<open>Programs, versions and runs\<close>

definition version_at :: "string \<Rightarrow> int \<Rightarrow> eng_repo \<Rightarrow> eng_version option" where
  "version_at k n r = map_of (mget [] (eg_versions r) k) n"

lemma get_eng_version_at: "get_eng_version key n r = version_at (trim_space key) n r"
  by (simp add: get_eng_version_def version_at_def)

lemma version_at_save [simp]:
  "version_at k n (save_eng_version v r) = (if k = gv_program_key v \<and> n = gv_version v then Some v else version_at k n r)"
  by (simp add: version_at_def save_eng_version_def)

lemma version_at_catalogue: "catalogue r = catalogue s \<Longrightarrow> version_at k n r = version_at k n s"
  by (simp add: version_at_def catalogue_def)

text \<open>A version has its key and a program, and if it is published it is valid and the one its program names.\<close>

definition version_ok :: "eng_repo \<Rightarrow> string \<Rightarrow> int \<Rightarrow> eng_version \<Rightarrow> bool" where
  "version_ok r k n v \<longleftrightarrow> gv_program_key v = k \<and> gv_version v = n \<and> 0 < n
     \<and> (\<exists>p. map_of (eg_programs r) k = Some p \<and> (gv_status v = ''published'' \<longrightarrow> gm_published_version p = n \<and> validate_version v = []))"

definition program_ok :: "eng_repo \<Rightarrow> string \<Rightarrow> eng_program \<Rightarrow> bool" where
  "program_ok r k p \<longleftrightarrow> gm_key p = k \<and> clean_key k
     \<and> (gm_published_version p \<noteq> 0 \<longrightarrow> (\<exists>v. version_at k (gm_published_version p) r = Some v \<and> gv_status v = ''published''))"

definition catalogue_ok :: "eng_repo \<Rightarrow> bool" where
  "catalogue_ok r \<longleftrightarrow> wf_map (eg_programs r) \<and> (\<forall>k. wf_map (mget [] (eg_versions r) k))
     \<and> (\<forall>k n v. version_at k n r = Some v \<longrightarrow> version_ok r k n v) \<and> (\<forall>k p. map_of (eg_programs r) k = Some p \<longrightarrow> program_ok r k p)
     \<and> (\<forall>k x. map_of (eg_replays r) k = Some x \<longrightarrow> clean_key (rn_program_key x))"

lemma catalogue_okI:
  assumes "wf_map (eg_programs r)" "\<And>k. wf_map (mget [] (eg_versions r) k)" "\<And>k n v. version_at k n r = Some v \<Longrightarrow> version_ok r k n v"
    "\<And>k p. map_of (eg_programs r) k = Some p \<Longrightarrow> program_ok r k p" "\<And>k x. map_of (eg_replays r) k = Some x \<Longrightarrow> clean_key (rn_program_key x)"
  shows "catalogue_ok r"
  using assms by (simp add: catalogue_ok_def)

lemma catalogue_okD:
  assumes "catalogue_ok r"
  shows "wf_map (eg_programs r)" "wf_map (mget [] (eg_versions r) k)" "version_at k n r = Some v \<Longrightarrow> version_ok r k n v"
    "map_of (eg_programs r) k = Some p \<Longrightarrow> program_ok r k p" "map_of (eg_replays r) k = Some x \<Longrightarrow> clean_key (rn_program_key x)"
  using assms by (simp_all add: catalogue_ok_def)

lemma catalogue_ok_cong: "catalogue r = catalogue s \<Longrightarrow> catalogue_ok r = catalogue_ok s"
  using catalogueD [of r s] by (simp add: catalogue_ok_def version_ok_def program_ok_def version_at_def)

lemma wf_versions_save: "(\<And>k. wf_map (mget [] (eg_versions r) k)) \<Longrightarrow> wf_map (mget [] (eg_versions (save_eng_version v r)) k)"
  by (simp add: save_eng_version_def)

lemma listed_versions: "catalogue_ok r \<Longrightarrow> v \<in> set (list_eng_versions k r) \<longleftrightarrow> version_at (trim_space k) (gv_version v) r = Some v"
proof -
  assume ok: "catalogue_ok r"
  have "v \<in> set (list_eng_versions k r) \<longleftrightarrow> (\<exists>n. version_at (trim_space k) n r = Some v)"
    using map_of_entry [OF catalogue_okD(2) [OF ok]] by (force simp: list_eng_versions_def version_at_def image_iff)
  then show ?thesis using catalogue_okD(3) [OF ok] by (auto simp: version_ok_def)
qed

text \<open>Saving a version under its own key: what has to be checked.\<close>

lemma save_version_ok:
  assumes ok: "catalogue_ok r" and v: "version_ok r (gv_program_key v) (gv_version v) v"
    and kept: "\<And>old. version_at (gv_program_key v) (gv_version v) r = Some old \<Longrightarrow> gv_status old = ''published'' \<Longrightarrow> gv_status v = ''published''"
  shows "catalogue_ok (save_eng_version v r)"
proof (rule catalogue_okI)
  let ?r = "save_eng_version v r"
  have same: "eg_programs ?r = eg_programs r" "eg_replays ?r = eg_replays r" by (simp_all add: save_eng_version_def)
  show "wf_map (eg_programs ?r)" using catalogue_okD(1) [OF ok] by (simp add: same)
  show "wf_map (mget [] (eg_versions ?r) k)" for k by (rule wf_versions_save) (rule catalogue_okD(2) [OF ok])
  show "version_ok ?r k n x" if "version_at k n ?r = Some x" for k n x
    using that v catalogue_okD(3) [OF ok] by (auto simp: version_ok_def same split: if_splits)
  show "program_ok ?r k p" if "map_of (eg_programs ?r) k = Some p" for k p
    using catalogue_okD(4) [OF ok, of k p] that kept by (auto simp: program_ok_def same)
  show "clean_key (rn_program_key x)" if "map_of (eg_replays ?r) k = Some x" for k x
    using catalogue_okD(5) [OF ok] that by (simp add: same)
qed

text \<open>Saving a program that names the same published version.\<close>

lemma save_program_ok:
  assumes ok: "catalogue_ok r" and p: "clean_key (gm_key p)"
    and same: "case map_of (eg_programs r) (gm_key p) of Some q \<Rightarrow> gm_published_version p = gm_published_version q | None \<Rightarrow> gm_published_version p = 0"
  shows "catalogue_ok (save_program p r)"
proof (rule catalogue_okI)
  let ?r = "save_program p r"
  have at: "version_at k n ?r = version_at k n r" for k n by (simp add: version_at_def save_program_def)
  show "wf_map (eg_programs ?r)" using catalogue_okD(1) [OF ok] by (simp add: save_program_def)
  show "wf_map (mget [] (eg_versions ?r) k)" for k using catalogue_okD(2) [OF ok] by (simp add: save_program_def)
  show "version_ok ?r k n v" if "version_at k n ?r = Some v" for k n v
  proof -
    have "eg_programs ?r = mput (gm_key p) p (eg_programs r)" by (simp add: save_program_def)
    then show ?thesis using catalogue_okD(3) [OF ok that [unfolded at]] same by (auto simp: version_ok_def)
  qed
  show "program_ok ?r k q" if "map_of (eg_programs ?r) k = Some q" for k q
  proof (cases "k = gm_key p")
    case True
    then have q: "q = p" using that by (simp add: save_program_def)
    show ?thesis
    proof (cases "map_of (eg_programs r) k")
      case None
      then show ?thesis using same p by (simp add: program_ok_def q True)
    next
      case (Some q')
      then show ?thesis using same p catalogue_okD(4) [OF ok Some] by (auto simp: program_ok_def q True at)
    qed
  next
    case False
    then have "map_of (eg_programs r) k = Some q" using that by (simp add: save_program_def)
    from catalogue_okD(4) [OF ok this] show ?thesis by (simp add: program_ok_def at)
  qed
  show "clean_key (rn_program_key x)" if "map_of (eg_replays ?r) k = Some x" for k x
    using catalogue_okD(5) [OF ok] that by (simp add: save_program_def)
qed

lemma save_run_ok: "catalogue_ok r \<Longrightarrow> clean_key (rn_program_key x) \<Longrightarrow> catalogue_ok (save_replay_run x r)"
  by (simp add: catalogue_ok_def version_ok_def program_ok_def version_at_def save_replay_run_def)

lemma archived_versions:
  assumes "\<forall>x \<in> set xs. gv_program_key x = p" "distinct (map gv_version xs)"
  shows "version_at k n (fold (\<lambda>x r. if gv_status x \<noteq> ''published'' \<or> gv_version x = m then r
      else save_eng_version (x\<lparr>gv_status := ''archived'', gv_updated_at := now\<rparr>) r) xs r)
    = (case find (\<lambda>x. k = p \<and> gv_version x = n \<and> gv_status x = ''published'' \<and> n \<noteq> m) xs of
        Some x \<Rightarrow> Some (x\<lparr>gv_status := ''archived'', gv_updated_at := now\<rparr>) | None \<Rightarrow> version_at k n r)"
  using assms
proof (induction xs arbitrary: r)
  case (Cons x xs)
  let ?hit = "\<lambda>x. k = p \<and> gv_version x = n \<and> gv_status x = ''published'' \<and> n \<noteq> m"
  have "find ?hit xs = None" if "?hit x"
  proof -
    have "gv_version y \<noteq> gv_version x" if "y \<in> set xs" for y using Cons.prems(2) that by (metis distinct.simps(2) image_eqI list.set_map list.simps(9))
    then show ?thesis using that by (auto simp: find_None_iff)
  qed
  then show ?case using Cons by (auto split: option.split)
qed simp

lemma archive_frames:
  "eg_programs (archive_others now v r) = eg_programs r" "eg_replays (archive_others now v r) = eg_replays r"
  "ledger (archive_others now v r) = ledger r"
  "(\<And>k. wf_map (mget [] (eg_versions r) k)) \<Longrightarrow> wf_map (mget [] (eg_versions (archive_others now v r)) k)"
proof -
  let ?f = "\<lambda>x r. if gv_status x \<noteq> ''published'' \<or> gv_version x = gv_version v then r
    else save_eng_version (x\<lparr>gv_status := ''archived'', gv_updated_at := now\<rparr>) r"
  have "eg_programs (fold ?f xs r) = eg_programs r \<and> eg_replays (fold ?f xs r) = eg_replays r \<and> ledger (fold ?f xs r) = ledger r" for xs
    by (induction xs arbitrary: r) (simp_all add: eng_frames, simp add: save_eng_version_def)
  then show "eg_programs (archive_others now v r) = eg_programs r" "eg_replays (archive_others now v r) = eg_replays r"
    "ledger (archive_others now v r) = ledger r" by (simp_all add: archive_others_def)
  have "\<forall>k. wf_map (mget [] (eg_versions r) k) \<Longrightarrow> \<forall>k. wf_map (mget [] (eg_versions (fold ?f xs r)) k)" for xs
  proof (induction xs arbitrary: r)
    case (Cons x xs)
    have "\<forall>k. wf_map (mget [] (eg_versions (?f x r)) k)" using Cons.prems wf_versions_save by auto
    from Cons.IH [OF this] show ?case by simp
  qed simp
  then show "(\<And>k. wf_map (mget [] (eg_versions r) k)) \<Longrightarrow> wf_map (mget [] (eg_versions (archive_others now v r)) k)"
    unfolding archive_others_def by blast
qed

lemma version_at_archived:
  assumes ok: "catalogue_ok r" and v: "version_at p m r = Some v" "trim_space p = p"
  shows "version_at k n (archive_others now v r) = (case version_at k n r of
      Some x \<Rightarrow> Some (if k = p \<and> gv_status x = ''published'' \<and> n \<noteq> m then x\<lparr>gv_status := ''archived'', gv_updated_at := now\<rparr> else x)
    | None \<Rightarrow> None)"
proof -
  have key: "gv_program_key v = p" "gv_version v = m" using catalogue_okD(3) [OF ok v(1)] by (simp_all add: version_ok_def)
  let ?xs = "list_eng_versions p r"
  have xs: "x \<in> set ?xs \<longleftrightarrow> version_at p (gv_version x) r = Some x" for x using listed_versions [OF ok] by (simp add: v(2))
  have "distinct (map gv_version ?xs)"
  proof -
    have vals: "x \<in> snd ` set (mget [] (eg_versions r) p) \<Longrightarrow> version_at p (gv_version x) r = Some x" for x
      using xs [of x] by (simp add: list_eng_versions_def v(2))
    have "distinct (map gv_version (map snd (mget [] (eg_versions r) p)))"
    proof -
      have eq: "map gv_version (map snd (mget [] (eg_versions r) p)) = map fst (mget [] (eg_versions r) p)"
      proof (simp, intro ballI)
        fix q assume "q \<in> set (mget [] (eg_versions r) p)"
        then have "version_at p (fst q) r = Some (snd q)"
          unfolding version_at_def by (intro map_of_entry [OF catalogue_okD(2) [OF ok], THEN iffD1]) simp
        then show "gv_version (snd q) = fst q" using catalogue_okD(3) [OF ok] by (simp add: version_ok_def)
      qed
      show ?thesis unfolding eq using catalogue_okD(2) [OF ok, of p] by (simp add: wf_map_def mkeys_def)
    qed
    then show ?thesis unfolding list_eng_versions_def v(2) by (metis mset_eq_imp_distinct_iff mset_map mset_sort_slice)
  qed
  moreover have "\<forall>x \<in> set ?xs. gv_program_key x = p" using xs catalogue_okD(3) [OF ok] by (auto simp: version_ok_def)
  ultimately have at: "version_at k n (archive_others now v r) = (case find (\<lambda>x. k = p \<and> gv_version x = n \<and> gv_status x = ''published'' \<and> n \<noteq> m) ?xs of
        Some x \<Rightarrow> Some (x\<lparr>gv_status := ''archived'', gv_updated_at := now\<rparr>) | None \<Rightarrow> version_at k n r)"
    unfolding archive_others_def key by (intro archived_versions) auto
  show ?thesis
  proof (cases "find (\<lambda>x. k = p \<and> gv_version x = n \<and> gv_status x = ''published'' \<and> n \<noteq> m) ?xs")
    case None
    then have "\<not> (k = p \<and> gv_status x = ''published'' \<and> n \<noteq> m)" if "version_at k n r = Some x" for x
      using that xs [of x] catalogue_okD(3) [OF ok that] by (auto simp: find_None_iff version_ok_def)
    then show ?thesis by (auto simp: at None split: option.split)
  next
    case (Some x)
    note hit = find_SomeD [OF Some]
    have val: "version_at k n r = Some x" using hit xs [of x] by auto
    show ?thesis using hit unfolding at Some val by auto
  qed
qed

lemma published_ok:
  assumes ok: "catalogue_ok r" and v: "version_at p m r = Some v" and valid: "validate_version v = []"
    and w: "w = v\<lparr>gv_status := ''published'', gv_published_at := now, gv_published_by := actor, gv_updated_at := now, gv_last_error := []\<rparr>"
    and q: "map_of (eg_programs r) p = Some q0" "gm_key q = p" "gm_published_version q = m"
  shows "catalogue_ok (save_program q (save_eng_version w (archive_others now v r)))"
proof -
  let ?r = "save_program q (save_eng_version w (archive_others now v r))"
  note vok = catalogue_okD(3) [OF ok v, unfolded version_ok_def]
  note pok = catalogue_okD(4) [OF ok q(1), unfolded program_ok_def]
  have trim: "trim_space p = p" using pok by (simp add: clean_key_def)
  have key: "gv_program_key w = p" "gv_version w = m" "gv_status w = ''published''" "validate_version w = []"
    using vok valid by (simp_all add: w validate_version_def)
  have at: "version_at k n ?r = (if k = p \<and> n = m then Some w else case version_at k n r of
      Some x \<Rightarrow> Some (if k = p \<and> gv_status x = ''published'' \<and> n \<noteq> m then x\<lparr>gv_status := ''archived'', gv_updated_at := now\<rparr> else x)
    | None \<Rightarrow> None)" for k n
  proof -
    have "version_at k n ?r = version_at k n (save_eng_version w (archive_others now v r))" by (simp only: version_at_def save_program_def) simp
    then show ?thesis by (simp add: key version_at_archived [OF ok v trim])
  qed
  have progs: "eg_programs ?r = mput p q (eg_programs r)" "eg_replays ?r = eg_replays r"
    by (simp_all add: save_program_def save_eng_version_def archive_frames q)
  show ?thesis
  proof (rule catalogue_okI)
    show "wf_map (eg_programs ?r)" using catalogue_okD(1) [OF ok] by (simp add: progs)
    show "wf_map (mget [] (eg_versions ?r) k)" for k
    proof -
      have "wf_map (mget [] (eg_versions (save_eng_version w (archive_others now v r))) k)"
        by (intro wf_versions_save archive_frames(4) catalogue_okD(2) [OF ok])
      then show ?thesis by (simp add: save_program_def)
    qed
    show "version_ok ?r k n x" if x: "version_at k n ?r = Some x" for k n x
    proof (cases "k = p \<and> n = m")
      case True
      then have "x = w" using x by (simp add: at)
      moreover have "version_ok ?r p m w" using vok key q by (simp add: version_ok_def progs)
      ultimately show ?thesis using True by simp
    next
      case False
      then obtain y where y: "version_at k n r = Some y"
        "x = (if k = p \<and> gv_status y = ''published'' \<and> n \<noteq> m then y\<lparr>gv_status := ''archived'', gv_updated_at := now\<rparr> else y)"
        using x unfolding at by (auto split: option.splits)
      from catalogue_okD(3) [OF ok y(1)] False show ?thesis by (auto simp: version_ok_def progs y(2))
    qed
    show "program_ok ?r k x" if "map_of (eg_programs ?r) k = Some x" for k x
    proof (cases "k = p")
      case True
      then have "x = q" using that by (simp add: progs)
      then show ?thesis using pok q(2,3) key(3) by (simp add: program_ok_def True at)
    next
      case False
      then have "map_of (eg_programs r) k = Some x" using that by (simp add: progs)
      from catalogue_okD(4) [OF ok this] False show ?thesis by (auto simp: program_ok_def at)
    qed
    show "clean_key (rn_program_key x)" if "map_of (eg_replays ?r) k = Some x" for k x
      using catalogue_okD(5) [OF ok] that by (simp add: progs)
  qed
qed

section \<open>Every operation\<close>

inductive eng_step :: "eng_repo \<Rightarrow> eng_repo \<Rightarrow> bool" where
  created: "CHR ''|'' \<notin> set (trim_space key) \<Longrightarrow> create_program now key name kind actor r = (x, r') \<Longrightarrow> eng_step r r'"
| updated: "update_program now key name kind status actor r = (x, r') \<Longrightarrow> eng_step r r'"
| drafted: "\<forall>v \<in> set (list_eng_versions key r). gv_version v < 2 ^ 63 - 1 \<Longrightarrow> create_draft_version now key note r = (d, r') \<Longrightarrow> eng_step r r'"
| edited: "save_version now key n rules actor note r = (d, r') \<Longrightarrow> eng_step r r'"
| published: "publish_eng_version env key n actor s = (d, s') \<Longrightarrow> eng_step (eu_repo s) (eu_repo s')"
| processed: "process_event env e r = (err, r') \<Longrightarrow> eng_step r r'"
| started: "start_replay ulid job_ulid now key n actor log (r, jobs) = (x, r', jobs') \<Longrightarrow> eng_step r r'"
| replayed: "replay_handler env payload log r = (x, r') \<Longrightarrow> eng_step r r'"

definition eng_ok :: "eng_repo \<Rightarrow> bool" where
  "eng_ok r \<longleftrightarrow> catalogue_ok r \<and> books_ok r"

lemma eng_ok_new: "eng_ok new_eng_repo"
  by (simp add: eng_ok_def catalogue_ok_def version_at_def new_eng_repo_def books_ok_def ledger_labelled_def labelled_def balance_at_def
    posted_def wrap64_def)

lemma program_found: "catalogue_ok r \<Longrightarrow> get_program k r = Some p \<Longrightarrow> gm_key p = trim_space k \<and> clean_key (gm_key p) \<and> program_ok r (gm_key p) p
    \<and> map_of (eg_programs r) (gm_key p) = Some p"
  using catalogue_okD(4) [of r "trim_space k" p] by (auto simp: get_program_def program_ok_def)

lemma step_created:
  assumes "catalogue_ok r" "CHR ''|'' \<notin> set (trim_space key)" "create_program now key name kind actor r = (x, r')"
  shows "catalogue_ok r'" "ledger r' = ledger r"
proof -
  have "catalogue_ok r' \<and> ledger r' = ledger r"
  proof (cases "trim_space key = [] \<or> get_program (trim_space key) r \<noteq> None")
    case True
    then show ?thesis using assms(1,3) by (auto simp: create_program_def Let_def split: if_splits)
  next
    case False
    then obtain p where p: "r' = save_program p r" "gm_key p = trim_space key" "gm_published_version p = 0"
      using assms(3) by (auto simp: create_program_def Let_def)
    have "map_of (eg_programs r) (gm_key p) = None" using False by (simp add: get_program_def p)
    then show ?thesis using assms(1,2) p by (auto intro!: save_program_ok simp: clean_key_def eng_frames)
  qed
  then show "catalogue_ok r'" "ledger r' = ledger r" by blast+
qed

lemma step_updated:
  assumes "catalogue_ok r" "update_program now key name kind status actor r = (x, r')"
  shows "catalogue_ok r'" "ledger r' = ledger r"
proof -
  have "catalogue_ok r' \<and> ledger r' = ledger r"
  proof (cases "get_program (trim_space key) r")
    case None
    then show ?thesis using assms by (simp add: update_program_def)
  next
    case (Some p)
    obtain q where q: "r' = save_program q r" "gm_key q = gm_key p" "gm_published_version q = gm_published_version p"
      using assms(2) Some by (auto simp: update_program_def Let_def split: if_splits)
    have p: "clean_key (gm_key p)" "map_of (eg_programs r) (gm_key p) = Some p" using program_found [OF assms(1) Some] by blast+
    have "catalogue_ok r'" unfolding q(1) by (rule save_program_ok [OF assms(1)]) (simp_all add: q(2,3) p)
    then show ?thesis by (simp add: q(1) eng_frames)
  qed
  then show "catalogue_ok r'" "ledger r' = ledger r" by blast+
qed

lemma next_version_number:
  assumes "\<forall>v \<in> set vs. gv_version v < 2 ^ 63 - 1 \<and> 0 < gv_version v" "1 \<le> n0"
  shows "fst (fold (\<lambda>v (n, rules). (if n \<le> gv_version v then wrap64 (gv_version v + 1) else n, f v rules)) vs (n0, z)) \<ge> n0
    \<and> (\<forall>v \<in> set vs. gv_version v < fst (fold (\<lambda>v (n, rules). (if n \<le> gv_version v then wrap64 (gv_version v + 1) else n, f v rules)) vs (n0, z)))"
  using assms
proof (induction vs arbitrary: n0 z)
  case (Cons v vs)
  have "wrap64 (gv_version v + 1) = gv_version v + 1" using Cons.prems(1) by (intro wrap64_id) auto
  then have "\<exists>n1. n0 \<le> n1 \<and> gv_version v < n1 \<and> (if n0 \<le> gv_version v then wrap64 (gv_version v + 1) else n0) = n1" by auto
  then obtain n1 where n1: "n0 \<le> n1" "gv_version v < n1" "(if n0 \<le> gv_version v then wrap64 (gv_version v + 1) else n0) = n1" by blast
  have "1 \<le> n1" using n1(1) Cons.prems(2) by simp
  from Cons.IH [OF _ this, of "f v z"] Cons.prems(1) n1 show ?case by force
qed simp

lemma step_drafted:
  assumes "catalogue_ok r" "\<forall>v \<in> set (list_eng_versions key r). gv_version v < 2 ^ 63 - 1" "create_draft_version now key note r = (d, r')"
  shows "catalogue_ok r'" "ledger r' = ledger r"
proof -
  have "catalogue_ok r' \<and> ledger r' = ledger r"
  proof (cases "get_program (trim_space key) r")
    case None
    then show ?thesis using assms by (simp add: create_draft_version_def)
  next
    case (Some p)
    have p: "clean_key (gm_key p)" "map_of (eg_programs r) (gm_key p) = Some p" using program_found [OF assms(1) Some] by blast+
    have key: "gm_key p = trim_space key" using program_found [OF assms(1) Some] by simp
    let ?vs = "list_eng_versions (gm_key p) r"
    have same: "?vs = list_eng_versions key r" by (simp add: list_eng_versions_def key)
    obtain n rules where fold: "fold (\<lambda>v (version, rules). (if version \<le> gv_version v then wrap64 (gv_version v + 1) else version,
        if gv_status v \<in> {''published'', ''draft''} then gv_rules v else rules)) ?vs (1, []) = (n, rules)" by fastforce
    define v where "v = \<lparr>gv_program_key = gm_key p, gv_version = n, gv_status = ''draft'', gv_change_note = trim_space note, gv_rules = rules,
      gv_created_at = now, gv_updated_at = now, gv_published_at = zero_time, gv_published_by = [], gv_last_error = [], gv_last_replay_id = []\<rparr>"
    have "create_draft_version now key note r = (Inr v, save_eng_version v r)"
      by (simp only: create_draft_version_def Some option.case fold prod.case Let_def v_def)
    then have v: "r' = save_eng_version v r" "gv_program_key v = gm_key p" "gv_version v = n" "gv_status v = ''draft''"
      using assms(3) by (simp_all add: v_def)
    have trim: "trim_space (gm_key p) = gm_key p" using p(1) by (simp add: clean_key_def)
    have at: "x \<in> set ?vs \<longleftrightarrow> version_at (gm_key p) (gv_version x) r = Some x" for x
      by (rule listed_versions [OF assms(1), of x "gm_key p", unfolded trim])
    have "0 < gv_version x" if "x \<in> set ?vs" for x
      using catalogue_okD(3) [OF assms(1) that [unfolded at]] by (simp add: version_ok_def)
    then have "\<forall>x \<in> set ?vs. gv_version x < 2 ^ 63 - 1 \<and> 0 < gv_version x" using assms(2) by (simp add: same)
    from next_version_number [OF this, of 1 "\<lambda>v rules. if gv_status v \<in> {''published'', ''draft''} then gv_rules v else rules" "[]"] fold
    have n: "1 \<le> n" "\<forall>x \<in> set ?vs. gv_version x < n" by simp_all
    have "version_at (gm_key p) n r = None"
    proof (rule ccontr)
      assume "version_at (gm_key p) n r \<noteq> None"
      then obtain x where x: "version_at (gm_key p) n r = Some x" by blast
      then have "gv_version x = n" using catalogue_okD(3) [OF assms(1) x] by (simp add: version_ok_def)
      then show False using n(2) x at [of x] by force
    qed
    then have "catalogue_ok r'"
      unfolding v(1) using p(2) n(1) v(2-4) by (intro save_version_ok assms(1)) (auto simp: version_ok_def)
    then show ?thesis by (simp add: v(1) eng_frames)
  qed
  then show "catalogue_ok r'" "ledger r' = ledger r" by blast+
qed

lemma found_version:
  assumes "catalogue_ok r" "get_eng_version key n r = Some v"
  shows "version_at (gv_program_key v) n r = Some v" "gv_version v = n" "clean_key (gv_program_key v)" "version_ok r (gv_program_key v) n v"
proof -
  have at: "version_at (trim_space key) n r = Some v" using assms(2) by (simp add: get_eng_version_at)
  note ok = catalogue_okD(3) [OF assms(1) at]
  then have key: "gv_program_key v = trim_space key" by (simp add: version_ok_def)
  obtain p where "map_of (eg_programs r) (gv_program_key v) = Some p" using ok by (auto simp: version_ok_def)
  then show "clean_key (gv_program_key v)" using catalogue_okD(4) [OF assms(1)] by (simp add: program_ok_def)
  show "version_at (gv_program_key v) n r = Some v" "gv_version v = n" "version_ok r (gv_program_key v) n v"
    using at ok by (simp_all add: key) (simp add: version_ok_def)
qed

lemma owner_program:
  assumes "catalogue_ok r" "version_ok r k n v"
  obtains p where "program_or_zero k r = p" "map_of (eg_programs r) k = Some p" "gm_key p = k" "clean_key k"
proof -
  obtain p where p: "map_of (eg_programs r) k = Some p" using assms(2) by (auto simp: version_ok_def)
  note ok = catalogue_okD(4) [OF assms(1) p]
  then have "trim_space k = k" by (simp add: program_ok_def clean_key_def)
  then have "program_or_zero k r = p" by (simp add: program_or_zero_def get_program_def p)
  from that [OF this p] show thesis using ok by (simp only: program_ok_def simp_thms)
qed

lemma step_edited:
  assumes "catalogue_ok r" "save_version now key n rules actor note r = (d, r')"
  shows "catalogue_ok r'" "ledger r' = ledger r"
proof -
  have "catalogue_ok r' \<and> ledger r' = ledger r"
  proof (cases "\<exists>v. get_eng_version (trim_space key) n r = Some v \<and> gv_status v = ''draft''")
    case False
    then show ?thesis using assms by (auto simp: save_version_def split: option.splits)
  next
    case True
    then obtain v where v: "get_eng_version (trim_space key) n r = Some v" "gv_status v = ''draft''" by blast
    note found = found_version [OF assms(1) v(1)]
    obtain w where w: "gv_program_key w = gv_program_key v" "gv_version w = n" "gv_status w = ''draft''"
      "r' = save_program (program_or_zero (gv_program_key w) (save_eng_version w r)\<lparr>gm_updated_at := now, gm_updated_by := actor\<rparr>) (save_eng_version w r)"
    proof -
      define w0 where "w0 = v\<lparr>gv_rules := rules, gv_change_note := first_non_empty [trim_space note, gv_change_note v], gv_updated_at := now\<rparr>"
      define w where "w = w0\<lparr>gv_last_error := (case validate_version w0 of [] \<Rightarrow> [] | i # _ \<Rightarrow> ei_message i)\<rparr>"
      have "r' = save_program (program_or_zero (gv_program_key w) (save_eng_version w r)\<lparr>gm_updated_at := now, gm_updated_by := actor\<rparr>) (save_eng_version w r)"
        using assms(2) v by (simp add: save_version_def Let_def flip: w0_def) (simp add: w_def)
      with v(2) found(2) show thesis by (intro that [of w]) (simp_all add: w_def w0_def)
    qed
    have wok: "version_ok r (gv_program_key w) (gv_version w) w" using found(4) w(1-3) by (auto simp: version_ok_def)
    have saved: "catalogue_ok (save_eng_version w r)"
      by (rule save_version_ok [OF assms(1) wok]) (use found(1) v(2) w(1,2) in auto)
    have "version_ok (save_eng_version w r) (gv_program_key w) n w" using catalogue_okD(3) [OF saved] by (simp add: w(2))
    from owner_program [OF saved this] obtain p where p: "program_or_zero (gv_program_key w) (save_eng_version w r) = p"
      "map_of (eg_programs (save_eng_version w r)) (gv_program_key w) = Some p" "gm_key p = gv_program_key w" "clean_key (gv_program_key w)" .
    have "catalogue_ok r'" unfolding w(4) p(1) by (rule save_program_ok [OF saved]) (simp_all add: p(2-4))
    then show ?thesis unfolding w(4) by (simp add: eng_frames)
  qed
  then show "catalogue_ok r'" "ledger r' = ledger r" by blast+
qed

lemma step_published:
  assumes "catalogue_ok (eu_repo s)" "publish_eng_version env key n actor s = (d, s')"
  shows "catalogue_ok (eu_repo s')" "ledger (eu_repo s') = ledger (eu_repo s)"
proof -
  let ?r = "eu_repo s"
  have "catalogue_ok (eu_repo s') \<and> ledger (eu_repo s') = ledger ?r"
  proof (cases "\<exists>v. get_eng_version (trim_space key) n ?r = Some v \<and> validate_version v = []")
    case False
    then show ?thesis using assms by (auto simp: publish_eng_version_def split: option.splits)
  next
    case True
    then obtain v where v: "get_eng_version (trim_space key) n ?r = Some v" "validate_version v = []" by blast
    note found = found_version [OF assms(1) v(1)]
    define w where "w = v\<lparr>gv_status := ''published'', gv_published_at := ee_now env, gv_published_by := actor, gv_updated_at := ee_now env, gv_last_error := []\<rparr>"
    define r1 where "r1 = save_eng_version w (archive_others (ee_now env) v ?r)"
    define q where "q = (program_or_zero (gv_program_key w) r1)\<lparr>gm_published_version := gv_version w, gm_updated_at := ee_now env, gm_updated_by := actor\<rparr>"
    have s': "eu_repo s' = upsert_consumer env w ''idle'' [] [] zero_time 0 (save_program q r1)"
      using assms(2) v by (auto simp: publish_eng_version_def Let_def q_def r1_def w_def)
    have key: "gv_program_key w = gv_program_key v" "gv_version w = n" using found(2) by (simp_all add: w_def)
    obtain p where p: "map_of (eg_programs ?r) (gv_program_key v) = Some p" "gm_key p = gv_program_key v"
      using owner_program [OF assms(1) found(4)] by metis
    have "eg_programs r1 = eg_programs ?r" by (simp add: r1_def save_eng_version_def archive_frames)
    then have "program_or_zero (gv_program_key w) r1 = p"
      using p found(3) by (simp add: program_or_zero_def get_program_def key clean_key_def)
    then have q: "gm_key q = gv_program_key v" "gm_published_version q = n" by (simp_all add: q_def p key)
    have "catalogue_ok (save_program q r1)"
      unfolding r1_def by (rule published_ok [OF assms(1) found(1) v(2) w_def p(1) q])
    moreover have "ledger (eu_repo s') = ledger ?r" by (simp add: s' r1_def eng_frames archive_frames)
    ultimately show ?thesis unfolding s' using catalogue_ok_cong [OF catalogue_kept(1)] by blast
  qed
  then show "catalogue_ok (eu_repo s')" "ledger (eu_repo s') = ledger ?r" by blast+
qed

lemma resolved_version:
  assumes "catalogue_ok r" "resolve_version key n r = Some v"
  shows "version_at (gv_program_key v) (gv_version v) r = Some v" "clean_key (gv_program_key v)" "0 < n \<Longrightarrow> gv_version v = n"
    "gv_program_key v = trim_space key"
proof -
  have "\<exists>k m. get_eng_version k m r = Some v \<and> trim_space k = trim_space key \<and> (0 < n \<longrightarrow> m = n)"
  proof (cases "0 < n")
    case True
    then show ?thesis using assms(2) by (intro exI [of _ "trim_space key"] exI [of _ n]) (simp add: resolve_version_def)
  next
    case False
    then obtain p where p: "get_program (trim_space key) r = Some p"
      using assms(2) by (cases "get_program (trim_space key) r") (simp_all add: resolve_version_def)
    have k: "trim_space (gm_key p) = trim_space key" using program_found [OF assms(1) p] by simp
    show ?thesis
    proof (cases "0 < gm_published_version p")
      case True
      then show ?thesis using assms(2) False p k
        by (intro exI [of _ "gm_key p"] exI [of _ "gm_published_version p"]) (simp add: resolve_version_def)
    next
      case no: False
      then have "list_eng_versions (gm_key p) r \<noteq> []" "v = last (list_eng_versions (gm_key p) r)"
        using assms(2) False p by (auto simp: resolve_version_def split: list.splits)
      then have "v \<in> set (list_eng_versions (gm_key p) r)" using last_in_set by blast
      then have "get_eng_version (gm_key p) (gv_version v) r = Some v" using listed_versions [OF assms(1)] by (simp add: get_eng_version_at)
      then show ?thesis using k False by blast
    qed
  qed
  then obtain k m where v: "get_eng_version k m r = Some v" "trim_space k = trim_space key" "0 < n \<longrightarrow> m = n" by blast
  note found = found_version [OF assms(1) v(1)]
  show "version_at (gv_program_key v) (gv_version v) r = Some v" "clean_key (gv_program_key v)" using found by simp_all
  show "0 < n \<Longrightarrow> gv_version v = n" using found(2) v(3) by simp
  have "version_at (trim_space key) m r = Some v" using v(1,2) by (simp add: get_eng_version_at)
  from catalogue_okD(3) [OF assms(1) this] show "gv_program_key v = trim_space key" by (simp add: version_ok_def)
qed

lemma step_started:
  assumes "catalogue_ok r" "start_replay ulid job_ulid now key n actor log (r, jobs) = (x, r', jobs')"
  shows "catalogue_ok r'" "ledger r' = ledger r"
proof -
  have "catalogue_ok r' \<and> ledger r' = ledger r"
  proof (cases "\<exists>plan. replay_plan_of key n log r = Inr plan \<and> rpn_issues plan = []")
    case False
    then show ?thesis using assms by (auto simp: start_replay_def split: sum.splits)
  next
    case True
    then obtain plan where plan: "replay_plan_of key n log r = Inr plan" "rpn_issues plan = []" by blast
    then obtain v where v: "resolve_version key n r = Some v" "rpn_program plan = gv_program_key v"
      by (auto simp: replay_plan_of_def split: option.splits if_splits)
    obtain a b where "r' = save_replay_run b (save_replay_run a r)" "rn_program_key a = gv_program_key v" "rn_program_key b = gv_program_key v"
      using assms(2) plan v(2) by (auto simp: start_replay_def Let_def split: prod.splits)
    then show ?thesis using resolved_version(2) [OF assms(1) v(1)] assms(1) by (simp add: save_run_ok eng_frames)
  qed
  then show "catalogue_ok r'" "ledger r' = ledger r" by blast+
qed

lemma replay_catalogue: "catalogue (snd (snd (replay_events env v es n r))) = catalogue r"
proof (induction es arbitrary: n r)
  case (Cons e es)
  obtain err r1 where step: "process_version_event env v e r = (err, r1)" by fastforce
  have "catalogue r1 = catalogue r" using catalogue_process(1) [of env v e r] by (simp add: step)
  then show ?case using Cons.IH [of "wrap64 (n + 1)" r1] by (cases err) (simp_all add: step)
qed simp

text \<open>A replay that does not start leaves the ledger; one that starts clears it and processes the events.\<close>

lemma replay_cases:
  assumes "catalogue_ok r" "execute_replay env run_id log r = (x, r')"
  obtains (refused) "catalogue_ok r'" "ledger r' = ledger r" "\<forall>ans. x \<noteq> Inr ans"
  | (run) run v err m r1 where "get_replay_run (trim_space run_id) r = Some run" "resolve_version (rn_program_key run) (rn_version run) r = Some v"
      "rn_program_key run = gv_program_key v"
      "replay_events env v (matching_events v (list_events log)) 0
         (clear_program_state (rn_program_key run) (save_replay_run (run\<lparr>rn_status := ''running''\<rparr>) r)) = (err, m, r1)"
      "ledger r' = ledger r1" "catalogue_ok r'" "x = (case err of None \<Rightarrow> Inr [(''replay_run_id'', GStr (rn_id run)), (''processed'', GInt m)] | Some e \<Rightarrow> Inl e)"
proof (cases "get_replay_run (trim_space run_id) r")
  case None
  then show thesis using assms by (intro refused) (auto simp: execute_replay_def)
next
  case (Some run)
  have clean: "clean_key (rn_program_key run)" using catalogue_okD(5) [OF assms(1)] Some by (auto simp: get_replay_run_def)
  let ?run = "run\<lparr>rn_status := ''running''\<rparr>"
  let ?r = "save_replay_run ?run r"
  have ok: "catalogue_ok ?r" using clean by (intro save_run_ok assms(1)) simp
  have same: "resolve_version k n ?r = resolve_version k n r" "get_program k ?r = get_program k r" for k n
  proof -
    have eqs: "eg_programs ?r = eg_programs r" "eg_versions ?r = eg_versions r" by (simp_all add: save_replay_run_def)
    show "resolve_version k n ?r = resolve_version k n r" "get_program k ?r = get_program k r"
      unfolding resolve_version_def get_program_def get_eng_version_def list_eng_versions_def eqs by (rule refl)+
  qed
  have failing: "catalogue_ok (save_replay_run (failed_run t msg ?run) ?r) \<and> ledger (save_replay_run (failed_run t msg ?run) ?r) = ledger r" for t msg
    using clean by (auto intro!: save_run_ok ok simp: failed_run_def eng_frames)
  note ex = assms(2) [unfolded execute_replay_def Some option.case Let_def]
  show thesis
  proof (cases "\<exists>v p. resolve_version (rn_program_key run) (rn_version run) r = Some v \<and> get_program (rn_program_key run) r = Some p
      \<and> gm_published_version p = rn_version run")
    case False
    then show thesis using ex failing
      by (intro refused) (auto simp: same split: option.splits if_splits)
  next
    case True
    then obtain v p where v: "resolve_version (rn_program_key run) (rn_version run) r = Some v"
      and p: "get_program (rn_program_key run) r = Some p" "gm_published_version p = rn_version run" by blast
    note rv = resolved_version [OF assms(1) v]
    have key: "rn_program_key run = gv_program_key v" using rv(4) clean by (simp add: clean_key_def)
    obtain err m r1 where loop: "replay_events env v (matching_events v (list_events log)) 0 (clear_program_state (rn_program_key run) ?r) = (err, m, r1)"
      by (metis prod_cases3)
    have "catalogue r1 = catalogue ?r"
      using replay_catalogue [of env v "matching_events v (list_events log)" 0 "clear_program_state (rn_program_key run) ?r"] loop
      by (simp add: eng_frames)
    then have ok1: "catalogue_ok r1" using ok catalogue_ok_cong by blast
    have at1: "version_at k n r1 = version_at k n r" for k n
      using version_at_catalogue [OF \<open>catalogue r1 = catalogue ?r\<close>] by (simp add: version_at_def save_replay_run_def)
    show thesis
    proof (cases err)
      case None
      let ?r2 = "save_replay_run (?run\<lparr>rn_status := ''succeeded'', rn_processed := m, rn_completed_at := ee_now env\<rparr>) r1"
      let ?w = "v\<lparr>gv_last_replay_id := rn_id run\<rparr>"
      have r': "r' = save_eng_version ?w ?r2" "x = Inr [(''replay_run_id'', GStr (rn_id run)), (''processed'', GInt m)]"
        using ex by (simp_all add: same v p loop None)
      have ok2: "catalogue_ok ?r2" using clean by (intro save_run_ok ok1) simp
      have at2: "version_at (gv_program_key v) (gv_version v) ?r2 = Some v" using rv(1) at1 by (simp add: version_at_def save_replay_run_def)
      from catalogue_okD(3) [OF ok2 at2] have "version_ok ?r2 (gv_program_key ?w) (gv_version ?w) ?w" by (simp add: version_ok_def validate_version_def)
      then have "catalogue_ok r'" unfolding r'(1) by (rule save_version_ok [OF ok2]) (use at2 in simp)
      then show thesis by (intro run [OF Some v key loop]) (simp_all add: r' eng_frames None)
    next
      case (Some e)
      let ?run2 = "(failed_run (ee_now env) (err_text e) ?run)\<lparr>rn_processed := m\<rparr>"
      have r': "r' = save_replay_run ?run2 r1" "x = Inl e" using ex by (simp_all add: same v p loop Some)
      have "catalogue_ok r'" unfolding r'(1) using clean by (intro save_run_ok ok1) (simp add: failed_run_def)
      then show thesis by (intro run [OF \<open>get_replay_run (trim_space run_id) r = Some run\<close> v key loop]) (simp_all add: r' eng_frames Some)
    qed
  qed
qed

lemma eng_ok_by_ledger:
  assumes "catalogue_ok r'" "ledger r' = ledger r" "eng_ok r" shows "eng_ok r'"
proof -
  have "books_ok r = books_ok r'" by (rule books_ok_ledger) (rule assms(2) [symmetric])
  then show ?thesis using assms(1,3) unfolding eng_ok_def by blast
qed

lemma eng_okD: "eng_ok r \<Longrightarrow> catalogue_ok r" "eng_ok r \<Longrightarrow> books_ok r"
  by (simp_all add: eng_ok_def)

lemma replayed_ok:
  assumes "eng_ok r" "execute_replay env run_id log r = (x, r')"
  shows "eng_ok r'"
proof -
  have ok: "catalogue_ok r" "books_ok r" using assms(1) by (simp_all add: eng_ok_def)
  from ok(1) assms(2) show ?thesis
  proof (cases rule: replay_cases)
    case refused
    from eng_ok_by_ledger [OF this(1,2) assms(1)] show ?thesis .
  next
    case (run run v err m r1)
    have "books_ok (save_replay_run (run\<lparr>rn_status := ''running''\<rparr>) r)" using ok(2) unfolding books_ok_ledger [OF ledger_kept(3)] .
    from processed_books(3) [OF resolved_version(2) [OF ok(1) run(2)] cleared_books [OF this],
        of env "matching_events v (list_events log)" 0 "rn_program_key run"]
    have "books_ok r1" unfolding run(4) by simp
    then have "books_ok r'" unfolding books_ok_ledger [OF run(5)] .
    then show ?thesis using run(6) unfolding eng_ok_def by blast
  qed
qed

lemma event_ok:
  assumes "eng_ok r" "process_event env e r = (err, r')"
  shows "eng_ok r'"
proof -
  have ok: "catalogue_ok r" "books_ok r" using assms(1) by (simp_all add: eng_ok_def)
  have clean: "clean_key (gv_program_key v)" if v: "v \<in> set (published_versions r)" for v
  proof -
    obtain k n where "get_eng_version k n r = Some v"
      using v by (auto simp: published_versions_def List.map_filter_def split: if_splits)
    from found_version(3) [OF ok(1) this] show ?thesis .
  qed
  have "books_ok (snd (process_event env e r))"
    unfolding process_event_def by (rule run_each_inv) (use ok(2) processed_books(2) clean in blast)+
  then show ?thesis using ok(1) catalogue_ok_cong [OF catalogue_process(2) [of env e r]] assms(2) by (simp add: eng_ok_def)
qed

lemma eng_step_ok: "eng_step r r' \<Longrightarrow> eng_ok r \<Longrightarrow> eng_ok r'"
proof (induction rule: eng_step.induct)
  case created
  show ?case by (rule eng_ok_by_ledger [OF step_created [OF eng_okD(1) [OF created(3)] created(1,2)] created(3)])
next
  case updated
  show ?case by (rule eng_ok_by_ledger [OF step_updated [OF eng_okD(1) [OF updated(2)] updated(1)] updated(2)])
next
  case drafted
  show ?case by (rule eng_ok_by_ledger [OF step_drafted [OF eng_okD(1) [OF drafted(3)] drafted(1,2)] drafted(3)])
next
  case edited
  show ?case by (rule eng_ok_by_ledger [OF step_edited [OF eng_okD(1) [OF edited(2)] edited(1)] edited(2)])
next
  case published
  show ?case by (rule eng_ok_by_ledger [OF step_published [OF eng_okD(1) [OF published(2)] published(1)] published(2)])
next
  case started
  show ?case by (rule eng_ok_by_ledger [OF step_started [OF eng_okD(1) [OF started(2)] started(1)] started(2)])
next
  case processed
  from event_ok [OF this(2,1)] show ?case .
next
  case replayed
  then show ?case using replayed_ok by (auto simp: replay_handler_def Let_def split: if_splits)
qed

lemma reachable_ok: "eng_step\<^sup>*\<^sup>* new_eng_repo r \<Longrightarrow> eng_ok r"
  by (induction rule: rtranclp_induct) (auto simp: eng_ok_new intro: eng_step_ok)

section \<open>Properties of reachable repositories\<close>

lemma sum_sorted: "sum_list (map f (sort_slice key xs)) = (sum_list (map f xs) :: int)"
  by (metis mset_map mset_sort_slice sum_mset_sum_list)

lemma bar_cut_right: "u @ CHR ''|'' # a = u' @ CHR ''|'' # a' \<Longrightarrow> CHR ''|'' \<notin> set u \<Longrightarrow> CHR ''|'' \<notin> set a \<Longrightarrow> u' = u \<and> a' = a"
proof (induction u arbitrary: u')
  case Nil
  then show ?case by (cases u') auto
next
  case (Cons c u)
  then show ?case by (cases u') auto
qed

lemma entry_key_fields:
  assumes "clean_key p" "clean_key q" "CHR ''|'' \<notin> set u" "CHR ''|'' \<notin> set a" "trim_space u = u" "trim_space a = a"
    "trim_space u' = u'" "trim_space a' = a'"
  shows "balance_key q u' a' = balance_key p u a \<longleftrightarrow> q = p \<and> u' = u \<and> a' = a"
proof
  assume eq: "balance_key q u' a' = balance_key p u a"
  have "q = p" using under_unique [OF assms(2,1) keys_under(1) [OF assms(2), of u' a']] keys_under(1) [OF assms(1), of u a] by (simp add: eq)
  then have "u @ CHR ''|'' # a = u' @ CHR ''|'' # a'" using eq assms(5-8) by (simp add: balance_key_def)
  from bar_cut_right [OF this assms(3,4)] \<open>q = p\<close> show "q = p \<and> u' = u \<and> a' = a" by simp
qed simp


text \<open>
  C25: every version that processes events is published and valid, and its program has no other published version, whatever was
  drafted, edited, published and replayed before.
\<close>

theorem published_program_versions_are_valid:
  assumes "eng_step\<^sup>*\<^sup>* new_eng_repo r" and "v \<in> set (published_versions r)"
  shows "gv_status v = ''published'' \<and> validate_version v = []
    \<and> (\<forall>n w. get_eng_version (gv_program_key v) n r = Some w \<and> gv_status w = ''published'' \<longrightarrow> w = v)"
proof -
  have ok: "catalogue_ok r" using reachable_ok [OF assms(1)] by (rule eng_okD(1))
  obtain k p where p: "map_of (eg_programs r) k = Some p" "gm_published_version p \<noteq> 0"
    "get_eng_version (gm_key p) (gm_published_version p) r = Some v"
    using assms(2) map_of_entry [OF catalogue_okD(1) [OF ok]]
    by (auto simp: published_versions_def List.map_filter_def list_programs_def split: if_splits)
  note pok = catalogue_okD(4) [OF ok p(1), unfolded program_ok_def]
  then have trim: "trim_space k = k" by (simp add: clean_key_def)
  have at: "version_at k (gm_published_version p) r = Some v" using p(3) pok by (simp add: get_eng_version_at trim)
  then have pub: "gv_status v = ''published''" using pok p(2) by auto
  note vok = catalogue_okD(3) [OF ok at, unfolded version_ok_def]
  have "w = v" if "get_eng_version (gv_program_key v) n r = Some w" "gv_status w = ''published''" for n w
  proof -
    have w: "version_at k n r = Some w" using that(1) vok by (simp add: get_eng_version_at trim)
    from catalogue_okD(3) [OF ok this] have "gm_published_version p = n" using that(2) p(1) by (simp add: version_ok_def)
    then show ?thesis using w at by simp
  qed
  then show ?thesis using pub vok p(1) by blast
qed

lemma process_by_rules:
  assumes "gv_program_key v = gv_program_key w" "gv_version v = gv_version w" "gv_rules v = gv_rules w"
  shows "replay_events env v es n r = replay_events env w es n r" "matching_events v es = matching_events w es"
proof -
  have up: "upsert_consumer env v = upsert_consumer env w" unfolding upsert_consumer_def assms ..
  have cr: "credit_points env k v = credit_points env k w" for k unfolding credit_points_def assms ..
  have ap: "apply_eng_rule env k v = apply_eng_rule env k w" for k unfolding apply_eng_rule_def cr assms ..
  have "process_rule env v = process_rule env w" unfolding process_rule_def idempotency_key_def up ap assms ..
  then have "process_version_event env v = process_version_event env w" unfolding process_version_event_def up assms by (simp only:)
  then show "replay_events env v es n r = replay_events env w es n r" by (induction es arbitrary: n r) (simp_all split: prod.split option.split)
  show "matching_events v es = matching_events w es" by (simp only: matching_events_def assms)
qed


section \<open>A loyalty program\<close>

definition shop_env :: eng_env where
  "shop_env = \<lparr>ee_float_text = \<lambda>_. [], ee_time_text = \<lambda>_. [], ee_now = 7, ee_fresh = \<lambda>k. k\<rparr>"

definition five_points :: eng_rule where
  "five_points = \<lparr>gr_key = ''five'', gr_name = [], gr_source_event_types = [''sale''], gr_subject_source = ''actor_id'', gr_account_key = [],
     gr_action = ''credit_points'', gr_fixed_amount = 5, gr_amount_field = [], gr_threshold = 0, gr_achievement_key = [], gr_tier_key = []\<rparr>"

definition sale :: event where
  "sale = \<lparr>ev_id = ''e1'', ev_type = ''sale'', ev_version = 1, ev_schema_version = [], ev_aggregate_type = [], ev_aggregate_id = [], ev_actor_id = ''ann'',
     ev_correlation_id = [], ev_organization_id = [], ev_location_id = [], ev_module_key = [], ev_occurred_at = 5, ev_payload = []\<rparr>"

definition sale_log :: event_repo where
  "sale_log = new_event_repo\<lparr>er_events := [sale]\<rparr>"

definition no_jobs :: job_repo where
  "no_jobs = \<lparr>jr_jobs = [], jr_dedup_keys = []\<rparr>"

definition shop_draft :: eng_repo where
  "shop_draft = snd (save_version 3 ''loyal'' 1 [five_points] [] [] (snd (create_draft_version 2 ''loyal'' [] (snd (create_program 1 ''loyal'' [] [] [] new_eng_repo)))))"

definition shop :: eng_repo where
  "shop = eu_repo (snd (publish_eng_version shop_env ''loyal'' 1 [] \<lparr>eu_repo = shop_draft, eu_handlers = []\<rparr>))"

definition shop_sold :: eng_repo where
  "shop_sold = snd (process_event shop_env sale shop)"

definition replaying :: "eng_repo \<Rightarrow> eng_repo" where
  "replaying r = fst (snd (start_replay ''u'' ''j'' 8 ''loyal'' 1 [] sale_log (r, no_jobs)))"

lemma one_more_step: "eng_step\<^sup>*\<^sup>* r s \<Longrightarrow> eng_step s t \<Longrightarrow> eng_step\<^sup>*\<^sup>* r t"
  by (rule rtranclp.rtrancl_into_rtrancl)

lemma shop_reachable: "eng_step\<^sup>*\<^sup>* new_eng_repo shop" "eng_step\<^sup>*\<^sup>* new_eng_repo shop_sold"
proof -
  let ?r1 = "snd (create_program 1 ''loyal'' [] [] [] new_eng_repo)" and ?s = "\<lparr>eu_repo = shop_draft, eu_handlers = []\<rparr>"
  have "CHR ''|'' \<notin> set (trim_space ''loyal'')" by code_simp
  then have s1: "eng_step new_eng_repo ?r1" by (rule eng_step.created [OF _ prod.collapse [symmetric]])
  have "\<forall>v \<in> set (list_eng_versions ''loyal'' ?r1). gv_version v < 2 ^ 63 - 1" by code_simp
  then have s2: "eng_step ?r1 (snd (create_draft_version 2 ''loyal'' [] ?r1))"
    by (rule eng_step.drafted [OF _ prod.collapse [symmetric]])
  have s3: "eng_step (snd (create_draft_version 2 ''loyal'' [] ?r1)) shop_draft"
    unfolding shop_draft_def by (rule eng_step.edited [OF prod.collapse [symmetric]])
  have "eng_step (eu_repo ?s) shop" unfolding shop_def by (rule eng_step.published [OF prod.collapse [symmetric]])
  then have s4: "eng_step shop_draft shop" by (simp only: eng_service.simps)
  show shop: "eng_step\<^sup>*\<^sup>* new_eng_repo shop"
    by (rule one_more_step [OF one_more_step [OF one_more_step [OF one_more_step [OF rtranclp.rtrancl_refl s1] s2] s3] s4])
  have "eng_step shop shop_sold" unfolding shop_sold_def by (rule eng_step.processed [OF prod.collapse [symmetric]])
  then show "eng_step\<^sup>*\<^sup>* new_eng_repo shop_sold" by (rule one_more_step [OF shop])
qed

lemma replaying_reachable: "eng_step\<^sup>*\<^sup>* new_eng_repo r \<Longrightarrow> eng_step\<^sup>*\<^sup>* new_eng_repo (replaying r)"
proof -
  have triple: "x = (fst x, fst (snd x), snd (snd x))" for x :: "(replay_run \<times> job) result \<times> eng_repo \<times> job_repo" by simp
  have "eng_step r (replaying r)" unfolding replaying_def by (rule eng_step.started [OF triple])
  then show "eng_step\<^sup>*\<^sup>* new_eng_repo r \<Longrightarrow> eng_step\<^sup>*\<^sup>* new_eng_repo (replaying r)" by (rule one_more_step [rotated])
qed


theorem redelivered_events_change_nothing_witness:
  "\<exists>r. process_event (shop_env\<lparr>ee_now := 9\<rparr>) sale shop_sold = (None, r) \<and> ledger r = ledger shop_sold"
proof -
  have "fst (process_event shop_env sale shop) = None" by code_simp
  then have "process_event shop_env sale shop = (None, shop_sold)" by (simp add: shop_sold_def prod_eq_iff)
  from redelivered_events_change_nothing [OF this, of "shop_env\<lparr>ee_now := 9\<rparr>" "[]"] show ?thesis by (simp add: same_texts_def deliver_events_def)
qed

theorem published_program_versions_are_valid_witness:
  "\<exists>v \<in> set (published_versions shop). validate_version v = []"
proof -
  have "map gv_version (published_versions shop) = [1]" by code_simp
  then obtain v where "v \<in> set (published_versions shop)" by (cases "published_versions shop") auto
  with published_program_versions_are_valid [OF shop_reachable(1) this] show ?thesis by blast
qed


end
