(* ===== verification/Spec2Isabelle.thy ===== *)
theory Spec2Isabelle
  imports WorkflowTasks JobFacts OutboxFacts Idempotency ConfigFacts PolicyFacts DocumentFacts SecurityFacts ModelFacts ModuleFacts
    GrantFacts QuorumFacts Reference FeatureFlags Offline EngagementFacts
begin

text \<open>
  A model of the core of \<^bold>\<open>orbyte\<close>, a modular platform for business software written in Go
  (module path \<open>src/internal/platform\<close>), and the properties that make it correct.

  \<^bold>\<open>The program.\<close> One server process holds the services of the platform. A request carries the
  session of a user or the key of a service; \<open>identity\<close>, \<open>authz\<close> and \<open>organization\<close> decide what it may
  do and where. Business data are documents (\<open>document\<close>) and records of declared models (\<open>model\<close>);
  \<open>securityfields\<close> hides or masks their fields, \<open>policy\<close> asks rules and Rego modules about them,
  \<open>workflow\<close> moves them through their states and opens tasks and approvals, and \<open>config\<close> with
  \<open>secretstore\<close> holds the settings all of them read. What happened is published through the outbox of
  \<open>eventing\<close>; work to do later waits in \<open>jobs\<close>; \<open>idempotency\<close> lets a client repeat a call; \<open>module\<close>
  decides which parts are enabled. Every service writes through a repository, in memory or in
  PostgreSQL; the model has the repository in memory.

  \<^bold>\<open>The theories\<close>, each after those it builds on:

  \<^item> \<open>GoPrelude\<close>: the Go the packages use: byte strings and \<open>strings\<close>, \<open>strconv\<close>, maps, sorting,
    time; the lemmas on them; the contracts \<open>keyed_store\<close> (a map and its writes) and \<open>one_way\<close>
    (a state that is never left).
  \<^item> \<open>Shared\<close>: \<open>shared\<close>: errors, identifiers, dynamic values (\<open>map[string]any\<close>) and value objects.
  \<^item> \<open>WorkflowModel\<close>, \<open>WorkflowRepo\<close>, \<open>WorkflowService\<close>: \<open>workflow/models.go\<close>,
    \<open>memory_repository.go\<close>, \<open>service.go\<close>. \<open>WorkflowVersions\<close> has the life of definitions (a reachable
    repository satisfies \<open>store_ok\<close> and \<open>lineage_ok\<close>, which refine an abstract lineage of versions),
    \<open>WorkflowTasks\<close> the tasks and approvals a transition opens and closes.
  \<^item> \<open>RetryQueue\<close>: the contract \<open>retry_item\<close> of a queue that retries; \<open>JobQueue\<close> with \<open>JobFacts\<close>
    (\<open>jobs\<close>) and \<open>EventOutbox\<close> with \<open>OutboxFacts\<close> (\<open>eventing\<close>) interpret it: attempts are bounded, claims
    exact, a round settles what it claimed.
  \<^item> \<open>Idempotency\<close>: \<open>idempotency\<close>: keys, hashes of requests, recorded answers, expiry.
  \<^item> \<open>SecretStore\<close>, \<open>Config\<close>, \<open>ConfigFacts\<close>: \<open>secretstore\<close> and \<open>config\<close>: entries by scope, their
    resolution, secrets that never stay in an entry.
  \<^item> \<open>Policy\<close>, \<open>PolicyFacts\<close>: \<open>policy\<close>: hooks, rules, evaluation, the cache of compiled modules.
  \<^item> \<open>Document\<close>, \<open>DocumentFacts\<close>: \<open>document\<close>: records with payload, lines, links, attachments and
    extensions over their stored parts.
  \<^item> \<open>ModelService\<close>, \<open>ModelFacts\<close>: \<open>model\<close>: definitions and field types, records and their versions,
    queries and pages, relations and composite writes. \<open>kept_by_writes\<close> is the contract of an invariant
    of every write; it is interpreted for conformance and for the clock.
  \<^item> \<open>SecurityFields\<close>, \<open>SecurityFacts\<close>: \<open>securityfields\<close>: access profiles, masks, the cache.
  \<^item> \<open>Modules\<close>, \<open>ModuleFacts\<close>: \<open>module\<close>: versions and ranges, dependencies, enabling, extensions.
  \<^item> \<open>Organization\<close>: \<open>organization\<close>. \<open>Password\<close>, \<open>Totp\<close>: \<open>identity/password.go\<close>, \<open>totp.go\<close>.
    \<open>IdentityModel\<close> (\<open>models.go\<close>, \<open>memory_repository.go\<close>), \<open>IdentityAccess\<close> (the decisions of \<open>service.go\<close>
    and \<open>authz/service.go\<close>), \<open>IdentityService\<close> (users, roles, sessions), \<open>IdentityGrants\<close>
    (delegation, deep links), \<open>IdentityAuth\<close> (passwords, PINs, Google, \<open>totp_service.go\<close>).
    \<open>IdentityFacts\<close> and \<open>GrantFacts\<close>: access is justified, sessions end for good, guesses are bounded,
    grants follow their life; \<open>one_way\<close> is interpreted for dead sessions, spent links and ended grants.
  \<^item> \<open>AuditTrail\<close>: \<open>audit\<close>: events, queries, search. \<open>ApprovalPolicy\<close>: \<open>application/approval_policy_core.go\<close>, the
    policy of a document and its stages. \<open>WorkflowDecisions\<close> (what is decided before a document moves) and
    \<open>DocumentActions\<close> (submit, approve, transition, edit and extend, over all services and the unit of work
    in memory): \<open>document_actions.go\<close>, \<open>document_actions_services.go\<close>, \<open>unit_of_work.go\<close>. \<open>ActionFacts\<close> has
    what each step leaves alone, \<open>DocumentMoves\<close> reduces every command to one attempt that is persisted in one
    place, and \<open>ActionProperties\<close> composes both: what a successful action had to pass, what a failed one leaves.
    \<open>QuorumFacts\<close> has the approvals in stages: who is counted, and when the last stage lets a document go.
  \<^item> \<open>Reference\<close>: \<open>reference\<close>, and \<open>FeatureFlags\<close>: \<open>featureflags\<close>: values per scope and the one in effect. \<open>Offline\<close>:
    \<open>offline\<close>, the batches a device synchronises and their outcomes.
  \<^item> \<open>Engagement\<close>: \<open>engagement\<close>: programs whose published rules turn events into points, achievements and tiers, and the
    replay of a program over the event log. \<open>EngagementFacts\<close> has the step relation of the repository, its invariant, the
    sums of the journal, redelivery and replay.

  \<^bold>\<open>Conventions.\<close> A record has the fields of the struct, an operation takes the arguments of the
  method, then the repository or state, and returns the answer with the new state. Errors are the
  constructors of \<open>goerr\<close>, in \<open>Inl\<close>. Strings are byte strings; case mapping is that of ASCII, which is what the
  code's keys are. A nil map or slice is the empty one. Copies (\<open>clone\<close>) are the identity, for values
  are immutable here. Times are nanoseconds, the zero time is 0. What an operation reads from outside
  is an argument: the clock (\<open>now\<close>, \<open>later\<close>, or \<open>clk i\<close> for the \<open>i\<close>th reading), identifiers (\<open>ulid\<close>), random
  bytes, and the order of a map iteration where an answer depends on it. Third-party code is a
  parameter: Argon2id, JSON and hash functions, the Rego evaluator, the handlers of jobs and events. Nothing
  is assumed of a parameter beyond the named hypotheses of a theorem. No definition needs fuel: loops run
  over lists, and the recursion over relations ends by the size of its definition.

  \<^bold>\<open>Integers.\<close> Counters, versions, delays and deadlines that the code keeps in \<open>int\<close> or \<open>int64\<close> wrap where
  the wrap can be reached (deadlines of tasks, time arithmetic of workflows); SHA-1 is over 32-bit words.

  \<^bold>\<open>Not modelled.\<close> The business cores of \<open>application\<close>, which calculate with \<open>float64\<close> amounts; HTTP
  and MCP handlers and UI bundles; PostgreSQL repositories (SQL text); adapters of external services;
  seed data and manifests. Registration of a module starts after its manifest passed the contract
  checks. Concurrency is the interleaving of whole operations, as the mutexes of the repositories in memory
  order them.
\<close>

end
